(* ===== verification/Prelude.thy ===== *)
theory Prelude
  imports Main "HOL-Library.Word"
begin

text \<open>
  What every component of the scanner shares: Go's machine integers as words, Go's errors as
  values, the three ways a call can end (it returns, it blocks for ever on a lock or a wait group,
  or it panics), and the text of numbers as \<open>strconv\<close> and \<open>fmt\<close> print and read it.
  The collections \<open>go_simps\<close> and \<open>word_bounds\<close> gather the facts the component proofs use.
\<close>

named_theorems go_simps
named_theorems word_bounds

section \<open>Machine integers\<close>

type_synonym u64 = "64 word"

abbreviation max_u64 :: u64 where
  "max_u64 \<equiv> - 1"

text \<open>An \<open>int\<close> or \<open>int64\<close> result brought back to 64 bits, two's complement.\<close>

definition wrap_i64 :: "int \<Rightarrow> int" where
  "wrap_i64 z = (z + 2 ^ 63) mod 2 ^ 64 - 2 ^ 63"

lemma wrap_i64_id [go_simps]: "- (2 ^ 63) \<le> z \<Longrightarrow> z < 2 ^ 63 \<Longrightarrow> wrap_i64 z = z"
  by (simp add: wrap_i64_def)

lemma wrap_i64_range: "- (2 ^ 63) \<le> wrap_i64 z \<and> wrap_i64 z < 2 ^ 63"
proof -
  have "0 \<le> (z + 2 ^ 63) mod 2 ^ 64" "(z + 2 ^ 63) mod 2 ^ 64 < 2 ^ 64"
    by (rule pos_mod_sign pos_mod_bound; simp)+
  then show ?thesis by (simp add: wrap_i64_def)
qed

text \<open>Go's integer division truncates towards zero.\<close>

definition go_quot :: "int \<Rightarrow> int \<Rightarrow> int" where
  "go_quot a b = sgn a * sgn b * (\<bar>a\<bar> div \<bar>b\<bar>)"

lemma go_quot_pos [go_simps]: "0 \<le> a \<Longrightarrow> 0 < b \<Longrightarrow> go_quot a b = a div b"
  by (cases "a = 0") (simp_all add: go_quot_def)

lemma unat_u64_less [word_bounds]: "unat (x :: u64) < 18446744073709551616"
  using unsigned_less [of x] by simp

lemma unat_plus_u64 [word_bounds]:
  "unat x + unat y < 18446744073709551616 \<Longrightarrow> unat (x + y :: u64) = unat x + unat y"
  by (subst unat_add_lem [THEN iffD1]) simp_all

lemma unat_minus_u64 [word_bounds]: "unat y \<le> unat x \<Longrightarrow> unat (x - y :: u64) = unat x - unat y"
  by (simp add: unat_sub word_le_nat_alt)

lemma unat_times_u64 [word_bounds]:
  "unat x * unat y < 18446744073709551616 \<Longrightarrow> unat (x * y :: u64) = unat x * unat y"
  by (subst unat_mult_lem [THEN iffD1]) simp_all

lemma sint_u64: "unat (x :: u64) < 9223372036854775808 \<Longrightarrow> sint x = int (unat x)"
proof -
  assume "unat x < 9223372036854775808"
  then have "uint x < 9223372036854775808" unfolding uint_nat by linarith
  moreover have "- 9223372036854775808 \<le> uint x" using uint_ge_0 [of x] by linarith
  ultimately have "signed_take_bit 63 (uint x) = uint x"
    by (intro signed_take_bit_int_eq_self) simp_all
  moreover have "sint x = signed_take_bit 63 (uint x)" using sint_uint [of x] by simp
  ultimately show ?thesis by (simp only: uint_nat)
qed

lemma unat_max_u64 [simp]: "unat max_u64 = 18446744073709551615"
  by (simp add: unsigned_minus_1_eq_mask mask_eq_exp_minus_1)

lemma unat_Suc_u64 [word_bounds]: "m \<noteq> max_u64 \<Longrightarrow> unat (m + 1) = Suc (unat m)"
  by (metis Suc_eq_plus1 unatSuc add.commute max_word_wrap)

lemma Suc_unat_less_u64: "m \<noteq> max_u64 \<Longrightarrow> Suc (unat m) < 18446744073709551616"
  using unat_u64_less [of "m + 1"] by (simp add: unat_Suc_u64)

lemma unat_of_nat_u64 [word_bounds]: "n < 18446744073709551616 \<Longrightarrow> unat (of_nat n :: u64) = n"
  by (simp add: unat_of_nat take_bit_nat_eq_self)

section \<open>Errors and the ways a call ends\<close>

text \<open>
  A Go \<open>error\<close>: \<open>fmt.Errorf("...")\<close> is \<open>Msg\<close>, \<open>fmt.Errorf("...: %w", err)\<close> is \<open>Wrap\<close>.
  \<open>err_text\<close> is what its method \<open>Error()\<close> returns. A function that returns only an error returns
  \<open>None\<close> for \<open>nil\<close>; one that returns a value and an error returns a sum.
\<close>

datatype go_error = Msg string | Wrap string go_error

fun err_text :: "go_error \<Rightarrow> string" where
  "err_text (Msg s) = s"
| "err_text (Wrap s e) = s @ '': '' @ err_text e"

text \<open>\<open>errors.Is\<close> on the sentinel errors of the code: the chain of wrapped errors ends in it.\<close>

fun err_root :: "go_error \<Rightarrow> go_error" where
  "err_root (Msg s) = Msg s"
| "err_root (Wrap s e) = err_root e"

definition wrap_res :: "string \<Rightarrow> go_error + 'a \<Rightarrow> go_error + 'a" where
  "wrap_res s r = (case r of Inl e \<Rightarrow> Inl (Wrap s e) | Inr x \<Rightarrow> Inr x)"

definition wrap_err :: "string \<Rightarrow> go_error option \<Rightarrow> go_error option" where
  "wrap_err s r = map_option (Wrap s) r"

lemma wrap_res_simps [simp]:
  "wrap_res s (Inl e) = Inl (Wrap s e)" "wrap_res s (Inr x) = Inr x"
  by (simp_all add: wrap_res_def)

lemma wrap_err_simps [simp]:
  "wrap_err s None = None" "wrap_err s (Some e) = Some (Wrap s e)"
  "wrap_err s r = None \<longleftrightarrow> r = None"
  by (simp_all add: wrap_err_def)

definition ctx_err :: go_error where
  "ctx_err = Msg ''context canceled''"

text \<open>
  The end of a call: \<open>Returns\<close> with its result; \<open>Blocks\<close>, it waits for something that never
  comes (a mutex its own goroutine holds, a wait group that never reaches zero); \<open>Panics\<close>.
\<close>

datatype 'a outcome = Returns 'a | Blocks | Panics

fun outcome_bind :: "'a outcome \<Rightarrow> ('a \<Rightarrow> 'b outcome) \<Rightarrow> 'b outcome" where
  "outcome_bind (Returns x) f = f x"
| "outcome_bind Blocks f = Blocks"
| "outcome_bind Panics f = Panics"

lemma outcome_bind_Returns: "outcome_bind x f = Returns y \<longleftrightarrow> (\<exists>z. x = Returns z \<and> f z = Returns y)"
  by (cases x) simp_all

text \<open>
  What the select of a ticker loop sees: a tick (with what the body needs to know of it) or the done
  context. A ticker whose interval is not positive panics when it is made.
\<close>

datatype 'i tick = Fired 'i | TickDone

fun tick_loop :: "('i \<Rightarrow> 'a \<Rightarrow> 'a outcome option) \<Rightarrow> 'i tick list \<Rightarrow> 'a \<Rightarrow> 'a outcome option" where
  "tick_loop body [] st = Some (Returns st)"
| "tick_loop body (TickDone # evs) st = Some (Returns st)"
| "tick_loop body (Fired i # evs) st =
     (case body i st of
        Some (Returns st') \<Rightarrow> tick_loop body evs st'
      | x \<Rightarrow> x)"

section \<open>The text of numbers\<close>

definition digit_char :: "nat \<Rightarrow> char" where
  "digit_char d = char_of (if d < 10 then 48 + d else 87 + d)"

definition digit_val :: "char \<Rightarrow> nat option" where
  "digit_val c =
     (let n = (of_char c :: nat) in
      if 48 \<le> n \<and> n \<le> 57 then Some (n - 48)
      else if 97 \<le> n \<and> n \<le> 122 then Some (n - 87)
      else if 65 \<le> n \<and> n \<le> 90 then Some (n - 55)
      else None)"

lemma digit_val_char [simp]: "d < 36 \<Longrightarrow> digit_val (digit_char d) = Some d"
  by (simp add: digit_val_def digit_char_def)

function fmt_nat :: "nat \<Rightarrow> nat \<Rightarrow> string" where
  "fmt_nat b n =
     (if b < 2 \<or> n < b then [digit_char n] else fmt_nat b (n div b) @ [digit_char (n mod b)])"
  by pat_completeness auto
termination
  by (relation "measure snd") auto

declare fmt_nat.simps [simp del]

definition fmt_int :: "int \<Rightarrow> string" where
  "fmt_int z = (if z < 0 then CHR ''-'' # fmt_nat 10 (nat (- z)) else fmt_nat 10 (nat z))"

abbreviation fmt_u64 :: "u64 \<Rightarrow> string" where
  "fmt_u64 w \<equiv> fmt_nat 10 (unat w)"

fun parse_acc :: "nat \<Rightarrow> nat \<Rightarrow> string \<Rightarrow> nat option" where
  "parse_acc b acc [] = Some acc"
| "parse_acc b acc (c # cs) =
     (case digit_val c of
        None \<Rightarrow> None
      | Some d \<Rightarrow> if d < b then parse_acc b (acc * b + d) cs else None)"

definition parse_nat :: "nat \<Rightarrow> string \<Rightarrow> nat option" where
  "parse_nat b s = (if s = [] then None else parse_acc b 0 s)"

lemma parse_acc_append:
  "parse_acc b acc (xs @ ys) = Option.bind (parse_acc b acc xs) (\<lambda>a. parse_acc b a ys)"
  by (induction xs arbitrary: acc) (auto split: option.splits)

lemma fmt_nat_not_Nil [simp]: "fmt_nat b n \<noteq> []"
  by (subst fmt_nat.simps) simp

lemma fmt_nat_digits:
  assumes "2 \<le> b" "b \<le> 36" "c \<in> set (fmt_nat b n)"
  shows "\<exists>d < b. c = digit_char d"
  using assms
proof (induction b n rule: fmt_nat.induct)
  case (1 b n)
  show ?case
  proof (cases "n < b")
    case True
    with 1 show ?thesis by (subst (asm) fmt_nat.simps) auto
  next
    case False
    with "1.prems" have "c \<in> set (fmt_nat b (n div b)) \<or> c = digit_char (n mod b)"
      by (subst (asm) fmt_nat.simps) auto
    then show ?thesis
    proof
      assume "c \<in> set (fmt_nat b (n div b))"
      with 1 False show ?thesis by auto
    next
      assume "c = digit_char (n mod b)"
      moreover have "n mod b < b" using "1.prems" by simp
      ultimately show ?thesis by blast
    qed
  qed
qed

lemma parse_acc_fmt_nat: "2 \<le> b \<Longrightarrow> b \<le> 36 \<Longrightarrow> parse_acc b 0 (fmt_nat b n) = Some n"
proof (induction b n rule: fmt_nat.induct)
  case (1 b n)
  show ?case
  proof (cases "n < b")
    case True
    with "1.prems" show ?thesis by (subst fmt_nat.simps) simp
  next
    case False
    have lt: "n mod b < b" using "1.prems" by simp
    have "n mod b < 36" using lt "1.prems"(2) by linarith
    then have "digit_val (digit_char (n mod b)) = Some (n mod b)" by simp
    moreover have "parse_acc b 0 (fmt_nat b (n div b)) = Some (n div b)"
      using "1.IH" "1.prems" False by simp
    ultimately show ?thesis using False "1.prems" lt \<open>n mod b < 36\<close>
      by (subst fmt_nat.simps) (simp add: parse_acc_append)
  qed
qed

lemma parse_nat_fmt_nat [simp]: "2 \<le> b \<Longrightarrow> b \<le> 36 \<Longrightarrow> parse_nat b (fmt_nat b n) = Some n"
  by (simp add: parse_nat_def parse_acc_fmt_nat)

lemma fmt_nat_inject: "2 \<le> b \<Longrightarrow> b \<le> 36 \<Longrightarrow> fmt_nat b m = fmt_nat b n \<longleftrightarrow> m = n"
  by (metis option.inject parse_nat_fmt_nat)

lemma digit_char_neq [simp]:
  "d < 16 \<Longrightarrow> digit_char d \<noteq> CHR ''-''" "d < 16 \<Longrightarrow> digit_char d \<noteq> CHR ''+''"
  "d < 16 \<Longrightarrow> digit_char d \<noteq> CHR ''x''" "d < 16 \<Longrightarrow> digit_char d \<noteq> CHR '',''"
  "d < 16 \<Longrightarrow> digit_char d \<noteq> CHR ''.''" "d < 16 \<Longrightarrow> digit_char d \<noteq> CHR '':''"
proof -
  have *: "d < 16 \<Longrightarrow> digit_val (digit_char d) \<noteq> None" for d by simp
  show "d < 16 \<Longrightarrow> digit_char d \<noteq> CHR ''-''" "d < 16 \<Longrightarrow> digit_char d \<noteq> CHR ''+''"
    "d < 16 \<Longrightarrow> digit_char d \<noteq> CHR '',''"
    "d < 16 \<Longrightarrow> digit_char d \<noteq> CHR ''.''" "d < 16 \<Longrightarrow> digit_char d \<noteq> CHR '':''"
    by (rule notI, drule *, simp add: digit_val_def)+
  show "d < 16 \<Longrightarrow> digit_char d \<noteq> CHR ''x''"
  proof
    assume "d < 16" "digit_char d = CHR ''x''"
    then have "digit_val (CHR ''x'') = Some d" using digit_val_char [of d] by simp
    with \<open>d < 16\<close> show False by (simp add: digit_val_def)
  qed
qed

lemma fmt_nat_chars:
  assumes "2 \<le> b" "b \<le> 16" "c \<in> set (fmt_nat b n)"
  shows "c \<noteq> CHR ''-'' \<and> c \<noteq> CHR ''+'' \<and> c \<noteq> CHR ''x'' \<and> c \<noteq> CHR '','' \<and> c \<noteq> CHR ''.'' \<and> c \<noteq> CHR '':''"
proof -
  obtain d where "d < b" "c = digit_char d" using fmt_nat_digits assms by fastforce
  moreover from this assms have "d < 16" by simp
  ultimately show ?thesis by simp
qed

text \<open>A text split at its last separator.\<close>

lemma last_separator:
  assumes "c @ s # n = c' @ s # n'" "s \<notin> set n" "s \<notin> set n'"
  shows "c = c' \<and> n = n'"
proof -
  have "takeWhile (\<lambda>x. x \<noteq> s) (rev (d @ s # m)) = rev m"
    "dropWhile (\<lambda>x. x \<noteq> s) (rev (d @ s # m)) = s # rev d"
    if "s \<notin> set m" for d m
    using that by (auto simp: takeWhile_tail dropWhile_append3 intro: takeWhile_append2 [THEN trans]
        dropWhile_append2 [THEN trans])
  then show ?thesis using assms by (metis list.inject rev_is_rev_conv)
qed

section \<open>Ranges of block numbers\<close>

text \<open>The blocks from \<open>lo\<close> to \<open>hi\<close>, both included, in order.\<close>

definition blocks_of :: "u64 \<Rightarrow> u64 \<Rightarrow> u64 list" where
  "blocks_of lo hi = map of_nat [unat lo..<Suc (unat hi)]"

lemma set_blocks_of: "set (blocks_of lo hi) = {lo..hi}"
proof -
  have "x \<in> of_nat ` {unat lo..<Suc (unat hi)} \<longleftrightarrow> lo \<le> x \<and> x \<le> hi" for x :: u64
  proof
    assume "x \<in> of_nat ` {unat lo..<Suc (unat hi)}"
    then obtain n where n: "x = of_nat n" "unat lo \<le> n" "n \<le> unat hi" by auto
    moreover have "n < 18446744073709551616" using n(3) unat_u64_less [of hi] by linarith
    ultimately have "unat x = n" by (simp add: unat_of_nat_u64)
    with n show "lo \<le> x \<and> x \<le> hi" by (simp add: word_le_nat_alt)
  next
    assume "lo \<le> x \<and> x \<le> hi"
    then have "unat x \<in> {unat lo..<Suc (unat hi)}" "x = of_nat (unat x)"
      by (simp_all add: word_le_nat_alt less_Suc_eq_le)
    then show "x \<in> of_nat ` {unat lo..<Suc (unat hi)}" by blast
  qed
  then have "of_nat ` {unat lo..<Suc (unat hi)} = {lo..hi}" by (simp add: set_eq_iff)
  then show ?thesis by (simp add: blocks_of_def del: upt_Suc)
qed

lemma length_blocks_of [simp]: "length (blocks_of lo hi) = Suc (unat hi) - unat lo"
  by (simp add: blocks_of_def del: upt_Suc)

lemma distinct_blocks_of [simp]: "distinct (blocks_of lo hi)"
proof -
  have "inj_on (of_nat :: nat \<Rightarrow> u64) {unat lo..<Suc (unat hi)}"
  proof (rule inj_onI)
    fix m n assume "m \<in> {unat lo..<Suc (unat hi)}" "n \<in> {unat lo..<Suc (unat hi)}"
      and eq: "(of_nat m :: u64) = of_nat n"
    then have "m < 18446744073709551616" "n < 18446744073709551616"
      using unat_u64_less [of hi] by auto
    then show "m = n" using eq by (metis unat_of_nat_u64)
  qed
  then show ?thesis by (simp add: blocks_of_def distinct_map del: upt_Suc)
qed

lemma blocks_of_empty: "hi < lo \<Longrightarrow> blocks_of lo hi = []"
  by (simp add: blocks_of_def word_less_nat_alt)

lemma blocks_of_split:
  assumes "unat lo \<le> Suc (unat m)" "m \<le> hi" "m \<noteq> max_u64"
  shows "blocks_of lo hi = blocks_of lo m @ blocks_of (m + 1) hi"
proof -
  have "unat (m + 1) = Suc (unat m)" using assms(3) by (rule unat_Suc_u64)
  then show ?thesis using assms(1,2)
    by (simp add: blocks_of_def word_le_nat_alt map_append [symmetric] del: map_append upt_Suc)
      (metis Suc_le_mono le_Suc_ex upt_add_eq_append)
qed

lemma blocks_of_Cons: "lo \<le> hi \<Longrightarrow> lo \<noteq> max_u64 \<Longrightarrow> blocks_of lo hi = lo # blocks_of (lo + 1) hi"
  by (simp add: blocks_of_def unat_Suc_u64 word_le_nat_alt upt_conv_Cons del: upt_Suc)

end
