(* ===== verification/Util.thy ===== *)
theory Util
  imports Prelude
begin

text \<open>
  The helpers of \<open>pkg/util/util.go\<close>. Strings are byte lists. \<open>sha256\<close> is a parameter where the
  source calls it; \<open>big.Int.SetString\<close>, \<open>strconv.ParseUint\<close> and \<open>hex.DecodeString\<close> are modelled
  here as the code uses them. A slice expression or a division that panics is \<open>Panics\<close>, and
  the loop of \<open>ChunkStringSlice\<close>, which need not end, is a \<open>partial_function\<close>.
\<close>

section \<open>The standard library as the helpers use it\<close>

text \<open>\<open>big.Int.SetString(s, b)\<close> for an explicit base: an optional sign, then digits.\<close>

fun big_set_string :: "nat \<Rightarrow> string \<Rightarrow> int option" where
  "big_set_string b [] = None"
| "big_set_string b (c # cs) =
     (if c = CHR ''-'' then map_option (\<lambda>n. - int n) (parse_nat b cs)
      else if c = CHR ''+'' then map_option int (parse_nat b cs)
      else map_option int (parse_nat b (c # cs)))"

definition strconv_parse_uint :: "string \<Rightarrow> go_error + u64" where
  "strconv_parse_uint s =
     (case parse_nat 10 s of
        None \<Rightarrow> Inl (Wrap (''strconv.ParseUint: parsing '' @ s) (Msg ''invalid syntax''))
      | Some n \<Rightarrow>
          if n < 2 ^ 64 then Inr (of_nat n)
          else Inl (Wrap (''strconv.ParseUint: parsing '' @ s) (Msg ''value out of range'')))"

fun hex_decode :: "string \<Rightarrow> string option" where
  "hex_decode [] = Some []"
| "hex_decode [c] = None"
| "hex_decode (c # d # s) =
     (case (digit_val c, digit_val d, hex_decode s) of
        (Some x, Some y, Some r) \<Rightarrow>
          if x < 16 \<and> y < 16 then Some (char_of (16 * x + y) # r) else None
      | _ \<Rightarrow> None)"

text \<open>\<open>fmt.Sprintf("%x", b)\<close> and \<open>hex.EncodeToString(b)\<close>: two digits for every byte.\<close>

definition hex_bytes :: "string \<Rightarrow> string" where
  "hex_bytes bs = concat (map (\<lambda>b. [digit_char (of_char b div 16), digit_char (of_char b mod 16)]) bs)"

lemma hex_decode_hex_bytes [simp]: "hex_decode (hex_bytes bs) = Some bs"
proof (induction bs)
  case (Cons b bs)
  have "(of_char b :: nat) < 256" by (rule nat_of_char_less_256)
  then have "(of_char b :: nat) div 16 < 16" by (simp add: less_mult_imp_div_less)
  moreover have "(of_char b :: nat) mod 16 < 16" by simp
  moreover have "(of_char b :: nat) div 16 * 16 + of_char b mod 16 = of_char b" by simp
  ultimately show ?case using Cons by (simp add: hex_bytes_def)
qed (simp add: hex_bytes_def)

definition has_prefix :: "string \<Rightarrow> string \<Rightarrow> bool" where
  "has_prefix s p = (take (length p) s = p)"

definition slice_str :: "'a list \<Rightarrow> int \<Rightarrow> int \<Rightarrow> 'a list outcome" where
  "slice_str s i j =
     (if 0 \<le> i \<and> i \<le> j \<and> j \<le> int (length s) then Returns (take (nat (j - i)) (drop (nat i) s))
      else Panics)"

section \<open>Identifiers, numbers and shards\<close>

text \<open>\<open>sha256\<close> hashes a byte string; \<open>hex\<close> is \<open>hex.EncodeToString\<close>.\<close>

fun hex_encode :: "string \<Rightarrow> string" where
  "hex_encode [] = []"
| "hex_encode (c # s) =
     digit_char (of_char c div 16) # digit_char (of_char c mod 16) # hex_encode s"

definition GenerateID :: "(string \<Rightarrow> string) \<Rightarrow> string \<Rightarrow> string \<Rightarrow> u64 \<Rightarrow> string" where
  "GenerateID sha256 chainID txHash logIndex =
     hex_encode (sha256 (chainID @ ''-'' @ txHash @ ''-'' @ fmt_u64 logIndex))"

definition ParseBigInt :: "string \<Rightarrow> go_error + int" where
  "ParseBigInt s =
     (let v = (if has_prefix s ''0x'' then drop 2 s else s) in
      case big_set_string 16 v of
        None \<Rightarrow> Inl (Msg (''failed to parse big int: '' @ v))
      | Some i \<Rightarrow> Inr i)"

definition CalculateShard :: "u64 \<Rightarrow> int \<Rightarrow> int outcome" where
  "CalculateShard v shardCount =
     (let n = (word_of_int shardCount :: u64) in
      if n = 0 then Panics else Returns (wrap_i64 (uint (v mod n))))"

text \<open>Go's \<open>%\<close>; the dividend here is a byte, so never negative.\<close>

definition CalculateAddressShard :: "(string \<Rightarrow> string) \<Rightarrow> string \<Rightarrow> int \<Rightarrow> int outcome" where
  "CalculateAddressShard sha256 address shardCount =
     (if length address < 2 then Returns 0
      else let h = sha256 (drop (length address - 2) address) in
        if shardCount = 0 then Panics
        else Returns (of_char (hd h) mod \<bar>shardCount\<bar>))"

text \<open>
  \<open>Retry\<close> calls \<open>fn\<close>, an effect on a state, up to \<open>maxRetries\<close> times until it returns no error;
  the last error is returned. With \<open>maxRetries\<close> not positive it returns nil without a call.
\<close>

fun retry_loop ::
    "('s \<Rightarrow> go_error option \<times> 's) \<Rightarrow> nat \<Rightarrow> go_error option \<Rightarrow> 's \<Rightarrow> go_error option \<times> 's" where
  "retry_loop fn 0 lastErr s = (lastErr, s)"
| "retry_loop fn (Suc k) lastErr s =
     (case fn s of
        (Some e, s') \<Rightarrow> retry_loop fn k (Some e) s'
      | (None, s') \<Rightarrow> (None, s'))"

definition Retry :: "('s \<Rightarrow> go_error option \<times> 's) \<Rightarrow> int \<Rightarrow> 's \<Rightarrow> go_error option \<times> 's" where
  "Retry fn maxRetries s = retry_loop fn (nat maxRetries) None s"

definition TruncateString :: "string \<Rightarrow> int \<Rightarrow> string outcome" where
  "TruncateString s maxLen =
     (if int (length s) \<le> maxLen then Returns s
      else outcome_bind (slice_str s 0 maxLen) (\<lambda>t. Returns (t @ ''...'')))"

definition IsValidAddress :: "string \<Rightarrow> bool" where
  "IsValidAddress address =
     (if length address < 2 then False
      else if has_prefix address ''0x'' then
        (if length address \<noteq> 42 then False else hex_decode (drop 2 address) \<noteq> None)
      else True)"

definition ParseBlockNumber :: "string \<Rightarrow> go_error + u64" where
  "ParseBlockNumber s =
     (if has_prefix s ''0x'' then
        (case big_set_string 16 (drop 2 s) of
           None \<Rightarrow> Inl (Msg (''invalid hex block number: '' @ s))
         | Some i \<Rightarrow>
             if 0 \<le> i \<and> i < 2 ^ 64 then Inr (word_of_int i)
             else Inl (Msg (''block number too large: '' @ s)))
      else strconv_parse_uint s)"

definition FormatBlockNumber :: "u64 \<Rightarrow> string" where
  "FormatBlockNumber n = ''0x'' @ fmt_nat 16 (unat n)"

definition MinInt :: "int \<Rightarrow> int \<Rightarrow> int" where
  "MinInt a b = (if a < b then a else b)"

definition MaxInt :: "int \<Rightarrow> int \<Rightarrow> int" where
  "MaxInt a b = (if a > b then a else b)"

definition MinUint64 :: "u64 \<Rightarrow> u64 \<Rightarrow> u64" where
  "MinUint64 a b = (if a < b then a else b)"

definition MaxUint64 :: "u64 \<Rightarrow> u64 \<Rightarrow> u64" where
  "MaxUint64 a b = (if a > b then a else b)"

section \<open>Slices of strings\<close>

fun ContainsString :: "string list \<Rightarrow> string \<Rightarrow> bool" where
  "ContainsString [] item = False"
| "ContainsString (s # xs) item = (if s = item then True else ContainsString xs item)"

text \<open>\<open>keys\<close> is the map of the strings seen so far, \<open>result\<close> what has been kept.\<close>

fun dedup_loop :: "string set \<Rightarrow> string list \<Rightarrow> string list \<Rightarrow> string list" where
  "dedup_loop keys result [] = result"
| "dedup_loop keys result (item # xs) =
     (if item \<notin> keys then dedup_loop (insert item keys) (result @ [item]) xs
      else dedup_loop keys result xs)"

definition RemoveDuplicateStrings :: "string list \<Rightarrow> string list" where
  "RemoveDuplicateStrings xs = dedup_loop {} [] xs"

text \<open>\<open>None\<close>: the loop never ends (a chunk size of 0 on a non-empty xs).\<close>

partial_function (option) chunk_loop ::
    "string list \<Rightarrow> int \<Rightarrow> int \<Rightarrow> string list list \<Rightarrow> string list list outcome option" where
  "chunk_loop xs chunkSize i chunks =
     (if i < int (length xs) then
        (let e = wrap_i64 (i + chunkSize) in
         case slice_str xs i (if e > int (length xs) then int (length xs) else e) of
           Returns c \<Rightarrow> chunk_loop xs chunkSize e (chunks @ [c])
         | Blocks \<Rightarrow> Some Blocks
         | Panics \<Rightarrow> Some Panics)
      else Some (Returns chunks))"

definition ChunkStringSlice :: "string list \<Rightarrow> int \<Rightarrow> string list list outcome option" where
  "ChunkStringSlice xs chunkSize = chunk_loop xs chunkSize 0 []"

definition IsZeroAddress :: "string \<Rightarrow> bool" where
  "IsZeroAddress address =
     (address = ''0x0000000000000000000000000000000000000000'' \<or> address = '''')"

section \<open>Rendering\<close>

text \<open>
  \<open>FormatBytes\<close>: the loop that picks the unit, and the text. The division and the one-digit
  rendering of the floating-point quotient are the parameter \<open>render\<close>.
\<close>

function unit_loop :: "u64 \<Rightarrow> u64 \<Rightarrow> nat \<Rightarrow> u64 \<times> nat" where
  "unit_loop n d e = (if n \<ge> 1024 then unit_loop (n div 1024) (d * 1024) (e + 1) else (d, e))"
  by pat_completeness auto
termination
proof (relation "measure (\<lambda>(n, d, e). unat n)")
  fix n d :: u64 and e :: nat
  assume "1024 \<le> n"
  then have "1024 \<le> unat n" by (simp add: word_le_nat_alt)
  then show "((n div 1024, d * 1024, e + 1), n, d, e) \<in> measure (\<lambda>(n, d, e). unat n)"
    by (simp add: unat_div)
qed simp

declare unit_loop.simps [simp del]

definition FormatBytes :: "(u64 \<Rightarrow> u64 \<Rightarrow> string) \<Rightarrow> u64 \<Rightarrow> string outcome" where
  "FormatBytes render bytes =
     (if bytes < 1024 then Returns (fmt_u64 bytes @ '' B'')
      else let (d, e) = unit_loop (bytes div 1024) 1024 0 in
        if e < 6 then Returns (render bytes d @ '' '' @ [''KMGTPE'' ! e] @ ''iB'') else Panics)"

text \<open>\<open>number_groups s i\<close>: the pieces of \<open>s\<close> that end at \<open>i\<close>, \<open>i - 3\<close>, ..., first piece first.\<close>

fun number_groups :: "string \<Rightarrow> nat \<Rightarrow> string list \<Rightarrow> string list" where
  "number_groups s 0 result = result"
| "number_groups s (Suc i) result =
     number_groups s (Suc i - 3) (take (Suc i - (Suc i - 3)) (drop (Suc i - 3) s) # result)"

fun join_with :: "string \<Rightarrow> string list \<Rightarrow> string" where
  "join_with sep [] = []"
| "join_with sep [x] = x"
| "join_with sep (x # y # xs) = x @ sep @ join_with sep (y # xs)"

definition FormatNumber :: "int \<Rightarrow> string" where
  "FormatNumber num =
     (let s = fmt_int num in join_with '','' (number_groups s (length s) []))"

text \<open>\<open>fmt.Sprintf("%0*d", w, n)\<close> for \<open>n\<close> not negative, and \<open>strings.TrimRight(s, "0")\<close>.\<close>

definition pad_zero :: "nat \<Rightarrow> string \<Rightarrow> string" where
  "pad_zero w s = replicate (w - length s) CHR ''0'' @ s"

definition trim_zeros :: "string \<Rightarrow> string" where
  "trim_zeros s = rev (dropWhile (\<lambda>c. c = CHR ''0'') (rev s))"

definition FormatBalance :: "int option \<Rightarrow> int \<Rightarrow> string" where
  "FormatBalance balance decimals =
     (case balance of
        None \<Rightarrow> ''0''
      | Some b \<Rightarrow>
          let decimal = 10 ^ nat decimals; q = b div decimal; m = b mod decimal in
          if decimals > 0 then
            (let modStr = trim_zeros (pad_zero (nat decimals) (fmt_int m)) in
             if modStr = [] then fmt_int q else fmt_int q @ ''.'' @ modStr)
          else fmt_int q)"

definition ParseStringResult :: "string \<Rightarrow> string outcome" where
  "ParseStringResult r =
     (if \<not> has_prefix r ''0x'' then Returns r
      else let data = drop 2 r in
        if length data < 64 then Returns ''''
        else case ParseBigInt (take 64 data) of
          Inl e \<Rightarrow> Returns ''''
        | Inr len \<Rightarrow>
            outcome_bind (slice_str data 64 (wrap_i64 (64 + wrap_i64 (wrap_i64 len * 2))))
              (\<lambda>d. case hex_decode d of None \<Rightarrow> Returns '''' | Some bs \<Rightarrow> Returns bs))"

section \<open>Block numbers: print and read\<close>

lemma big_set_string_fmt_nat:
  assumes "2 \<le> b" "b \<le> 16"
  shows "big_set_string b (fmt_nat b n) = Some (int n)"
proof (cases "fmt_nat b n")
  case Nil
  then show ?thesis by simp
next
  case (Cons c cs)
  then have "c \<in> set (fmt_nat b n)" by simp
  then have "c \<noteq> CHR ''-''" "c \<noteq> CHR ''+''" using fmt_nat_chars assms by blast+
  moreover have "parse_nat b (c # cs) = Some n"
    using assms parse_nat_fmt_nat [of b n] Cons by simp
  ultimately show ?thesis by (simp add: Cons)
qed

lemma uint_u64_less [word_bounds]: "uint (n :: u64) < 18446744073709551616"
  using uint_lt2p [of n] by simp

lemma has_prefix_append [simp]: "has_prefix (p @ s) p"
  by (simp add: has_prefix_def)

lemma no_0x_in_digits: "2 \<le> b \<Longrightarrow> b \<le> 16 \<Longrightarrow> \<not> has_prefix (fmt_nat b n) ''0x''"
proof
  assume b: "2 \<le> b" "b \<le> 16" and "has_prefix (fmt_nat b n) ''0x''"
  then have "set ''0x'' \<subseteq> set (fmt_nat b n)"
    unfolding has_prefix_def by (metis set_take_subset)
  then have "CHR ''x'' \<in> set (fmt_nat b n)" by simp
  with fmt_nat_chars b show False by blast
qed

lemma strconv_parse_uint_fmt [simp]: "strconv_parse_uint (fmt_u64 n) = Inr n"
  using unat_u64_less [of n] by (simp add: strconv_parse_uint_def)

text \<open>
  A block number survives being printed and read back, in the hexadecimal form that
  \<open>FormatBlockNumber\<close> prints for the nodes and in the decimal form of the configuration.
\<close>

theorem ParseBlockNumber_roundtrip:
  "ParseBlockNumber (FormatBlockNumber n) = Inr n \<and> ParseBlockNumber (fmt_u64 n) = Inr n"
proof -
  have "has_prefix (FormatBlockNumber n) ''0x''" "drop 2 (FormatBlockNumber n) = fmt_nat 16 (unat n)"
    by (simp_all add: FormatBlockNumber_def has_prefix_def)
  then show ?thesis using no_0x_in_digits [of 10 "unat n"] uint_u64_less [of n]
    by (simp add: ParseBlockNumber_def big_set_string_fmt_nat word_of_int_nat)
qed

section \<open>Duplicates and chunks\<close>

lemma dedup_loop_append:
  "dedup_loop keys result xs = result @ dedup_loop keys [] xs"
proof (induction xs arbitrary: keys result)
  case (Cons x xs)
  show ?case
    using Cons.IH [of "insert x keys" "result @ [x]"] Cons.IH [of "insert x keys" "[x]"]
      Cons.IH [of keys result]
    by simp
qed simp

lemma dedup_loop_facts:
  "distinct (dedup_loop keys [] xs) \<and> set (dedup_loop keys [] xs) = set xs - keys
    \<and> (\<forall>x. x \<in> set xs \<longrightarrow> x \<notin> keys \<longrightarrow>
         x \<in> set (dedup_loop keys [] xs))"
proof (induction xs arbitrary: keys)
  case (Cons x xs)
  then show ?case
    by (simp add: dedup_loop_append [of "insert x keys" "[x]"]) blast
qed simp

text \<open>The kept strings are the first occurrences, in the order of the slice.\<close>

lemma dedup_loop_filter:
  "dedup_loop keys [] (xs @ [x]) = dedup_loop keys [] xs @ (if x \<in> keys \<union> set xs then [] else [x])"
proof (induction xs arbitrary: keys)
  case (Cons y xs)
  then show ?case
    by (simp add: dedup_loop_append [of "insert y keys" "[y]"])
qed simp

theorem RemoveDuplicateStrings_first:
  "RemoveDuplicateStrings xs = rev (remdups (rev xs))"
proof (induction xs rule: rev_induct)
  case (snoc x xs)
  then show ?case by (simp add: RemoveDuplicateStrings_def dedup_loop_filter)
qed (simp add: RemoveDuplicateStrings_def)

lemma slice_str_Returns [simp]:
  "0 \<le> i \<Longrightarrow> i \<le> j \<Longrightarrow> j \<le> int (length s)
    \<Longrightarrow> slice_str s i j = Returns (take (nat (j - i)) (drop (nat i) s))"
  by (simp add: slice_str_def)

lemma chunk_loop_returns:
  assumes "0 < c" "c < 2 ^ 63" "int (length xs) < 2 ^ 62" "0 \<le> i" "i = 0 \<or> c \<le> i" "i < 2 ^ 63"
  shows "\<exists>cs. chunk_loop xs c i acc = Some (Returns (acc @ cs))
    \<and> concat cs = drop (nat i) xs
    \<and> (\<forall>k < length cs - 1. length (cs ! k) = nat c)
    \<and> (\<forall>d \<in> set cs. d \<noteq> [] \<and> length d \<le> nat c)"
  using assms(4,5,6)
proof (induction "nat (int (length xs) - i)" arbitrary: i acc rule: less_induct)
  case less
  show ?case
  proof (cases "i < int (length xs)")
    case False
    then show ?thesis by (subst chunk_loop.simps) simp
  next
    case True
    show ?thesis
    proof (cases "i + c < 2 ^ 63")
      case fits: True
      define e where "e = (if i + c > int (length xs) then int (length xs) else i + c)"
      define d where "d = take (nat (e - i)) (drop (nat i) xs)"
      have e: "i < e" "e \<le> int (length xs)" using True assms(1) by (auto simp: e_def)
      have "wrap_i64 (i + c) = i + c" using fits assms less.prems by (intro wrap_i64_id) auto
      moreover have "slice_str xs i e = Returns d" using e less.prems by (simp add: d_def)
      ultimately have step: "chunk_loop xs c i acc = chunk_loop xs c (i + c) (acc @ [d])"
        using True by (subst chunk_loop.simps) (simp add: Let_def e_def [symmetric])
      obtain cs where cs: "chunk_loop xs c (i + c) (acc @ [d]) = Some (Returns ((acc @ [d]) @ cs))"
          "concat cs = drop (nat (i + c)) xs" "\<forall>k < length cs - 1. length (cs ! k) = nat c"
          "\<forall>d \<in> set cs. d \<noteq> [] \<and> length d \<le> nat c"
        using less.hyps [OF _ _ _ fits, of "acc @ [d]"] True assms(1) less.prems by auto
      have len: "length d = nat (e - i)" using e less.prems by (simp add: d_def)
      have "d @ drop (nat (i + c)) xs = drop (nat i) xs"
      proof (cases "i + c > int (length xs)")
        case True
        then show ?thesis using e less.prems by (simp add: d_def e_def)
      next
        case False
        then have "nat (i + c) = nat (e - i) + nat i" using assms(1) less.prems by (simp add: e_def)
        then show ?thesis by (simp add: d_def) (metis append_take_drop_id drop_drop)
      qed
      moreover have "length ((d # cs) ! k) = nat c" if "k < length (d # cs) - 1" for k
      proof (cases k)
        case 0
        with that have "cs \<noteq> []" by auto
        then have "drop (nat (i + c)) xs \<noteq> []" using cs(2,4) by (cases cs) auto
        then show ?thesis using 0 len less.prems assms(1) by (simp add: e_def)
      next
        case (Suc k')
        then show ?thesis using that cs(3) by simp
      qed
      moreover have "d \<noteq> []" "length d \<le> nat c" using len e by (auto simp: e_def)
      ultimately show ?thesis using step cs by (intro exI [of _ "d # cs"]) auto
    next
      case False
      then show ?thesis using True assms(2,3) less.prems by auto
    qed
  qed
qed

text \<open>
  For a positive chunk size \<open>ChunkStringSlice\<close> returns (its loop ends, no slice is out of
  bounds): the chunks put together are the slice, every chunk but the last has exactly
  \<open>chunkSize\<close> strings, and none is empty or longer.
\<close>

theorem ChunkStringSlice_chunks:
  assumes "0 < c" "c < 2 ^ 63" "int (length xs) < 2 ^ 62"
  shows "\<exists>cs. ChunkStringSlice xs c = Some (Returns cs) \<and> concat cs = xs
    \<and> (\<forall>k < length cs - 1. length (cs ! k) = nat c)
    \<and> (\<forall>d \<in> set cs. d \<noteq> [] \<and> length d \<le> nat c)"
  using chunk_loop_returns [OF assms, of 0 "[]"] by (simp add: ChunkStringSlice_def)

theorem ChunkStringSlice_chunks_witness:
  "\<exists>cs. ChunkStringSlice [''a'', ''b'', ''c''] 2 = Some (Returns cs)
    \<and> concat cs = [''a'', ''b'', ''c'']"
  using ChunkStringSlice_chunks [of 2 "[''a'', ''b'', ''c'']"] by auto

text \<open>With a chunk size of 0 the loop never ends; with a negative one the first slice panics.\<close>

lemma chunk_loop_zero: "xs \<noteq> [] \<Longrightarrow> chunk_loop xs 0 0 acc = None"
proof -
  have "c = 0 \<longrightarrow> i = 0 \<longrightarrow> xs = []" if "chunk_loop xs c i acc = Some r" for xs c i acc r
    by (rule chunk_loop.raw_induct
          [where P = "\<lambda>xs c i acc r. c = 0 \<longrightarrow> i = 0 \<longrightarrow> xs = []", OF _ that])
      (auto simp: Let_def wrap_i64_id slice_str_def split: if_splits)
  then show "xs \<noteq> [] \<Longrightarrow> chunk_loop xs 0 0 acc = None"
    by (cases "chunk_loop xs 0 0 acc") auto
qed

lemma ChunkStringSlice_zero: "xs \<noteq> [] \<Longrightarrow> ChunkStringSlice xs 0 = None"
  by (simp add: ChunkStringSlice_def chunk_loop_zero)

section \<open>Rendering: nothing is lost\<close>

lemma unit_loop_spec:
  fixes bytes :: u64
  assumes "unat n = unat bytes div unat d" "unat d = 1024 ^ (e + 1)" "1 \<le> unat n"
  shows "\<exists>d' e'. unit_loop n d e = (d', e') \<and> e' < 6 \<and> unat d' = 1024 ^ (e' + 1)
    \<and> unat d' \<le> unat bytes \<and> unat bytes < 1024 * unat d'"
  using assms
proof (induction n d e rule: unit_loop.induct)
  case (1 n d e)
  have d: "0 < unat d" using "1.prems"(2) by simp
  have le: "unat n * unat d \<le> unat bytes" using "1.prems"(1) by simp
  show ?case
  proof (cases "n \<ge> 1024")
    case False
    then have "unat bytes div unat d < 1024" using "1.prems"(1) by (simp add: word_le_nat_alt)
    then have "unat bytes < 1024 * unat d" using d by (simp add: div_less_iff_less_mult)
    moreover have "unat d \<le> unat bytes" using le "1.prems"(3) by (cases "unat n") auto
    moreover have "e < 6"
    proof (rule ccontr)
      assume "\<not> e < 6"
      then have "(1024 :: nat) ^ (6 + 1) \<le> 1024 ^ (e + 1)" by (intro power_increasing) auto
      with \<open>unat d \<le> unat bytes\<close> "1.prems"(2) unat_u64_less [of bytes] show False by simp
    qed
    ultimately show ?thesis using False "1.prems"(2) by (subst unit_loop.simps) simp
  next
    case True
    then have n: "1024 \<le> unat n" by (simp add: word_le_nat_alt)
    then have "1024 * unat d \<le> unat n * unat d" by simp
    with le have "1024 * unat d \<le> unat bytes" by linarith
    then have "unat (d * 1024) = unat d * 1024"
      using unat_u64_less [of bytes] by (simp add: unat_times_u64)
    then have d': "unat (d * 1024) = 1024 ^ (e + 1 + 1)" using "1.prems"(2) by simp
    have "unat (n div 1024) = unat bytes div unat (d * 1024)"
      using \<open>unat (d * 1024) = unat d * 1024\<close> "1.prems"(1) by (simp add: unat_div div_mult2_eq)
    moreover have "1 \<le> unat (n div 1024)" using n by (simp add: unat_div)
    ultimately show ?thesis using "1.IH" [OF True _ d'] True by (subst unit_loop.simps) simp
  qed
qed

text \<open>
  \<open>FormatBytes\<close> never indexes past its six units, and the unit it picks for 1024 bytes or
  more is the power of 1024 that leaves a quotient from 1 up to 1024.
\<close>

theorem FormatBytes_unit:
  assumes "1024 \<le> bytes"
  shows "\<exists>d e. e < 6 \<and> unat d = 1024 ^ (e + 1) \<and> unat d \<le> unat bytes
    \<and> unat bytes < 1024 * unat d
    \<and> FormatBytes render bytes = Returns (render bytes d @ '' '' @ [''KMGTPE'' ! e] @ ''iB'')"
proof -
  have "1 \<le> unat (bytes div 1024)"
    using assms by (simp add: unat_div word_le_nat_alt div_greater_zero_iff Suc_le_eq)
  then obtain d e where de: "unit_loop (bytes div 1024) 1024 0 = (d, e)" "e < 6"
      "unat d = 1024 ^ (e + 1)" "unat d \<le> unat bytes" "unat bytes < 1024 * unat d"
    using unit_loop_spec [of "bytes div 1024" bytes 1024 0] by (auto simp: unat_div)
  have "FormatBytes render bytes = Returns (render bytes d @ '' '' @ [''KMGTPE'' ! e] @ ''iB'')"
    using assms de(1,2) by (simp add: FormatBytes_def)
  with de show ?thesis by blast
qed

theorem FormatBytes_unit_witness:
  "\<exists>(d :: u64) e. e < 6 \<and> unat d = 1024 ^ (e + 1) \<and> unat d \<le> unat (1536 :: u64)
    \<and> unat (1536 :: u64) < 1024 * unat d
    \<and> FormatBytes (\<lambda>b d. ''1.5'') 1536
        = Returns (''1.5'' @ '' '' @ [''KMGTPE'' ! e] @ ''iB'')"
  using FormatBytes_unit [of 1536 "\<lambda>b d. ''1.5''"] by simp

lemma number_groups_append: "number_groups s i (a @ b) = number_groups s i a @ b"
  by (induction s i a rule: number_groups.induct) simp_all

lemma number_groups_concat: "i \<le> length s \<Longrightarrow> concat (number_groups s i acc) = take i s @ concat acc"
proof (induction s i acc rule: number_groups.induct)
  case (2 s i acc)
  let ?j = "Suc i - 3"
  have "concat (number_groups s (Suc i) acc)
      = take ?j s @ take (Suc i - ?j) (drop ?j s) @ concat acc"
    using 2 by simp
  also have "\<dots> = take (Suc i) s @ concat acc"
    by (metis append.assoc diff_le_self le_add_diff_inverse take_add)
  finally show ?case .
qed simp

lemma filter_join: "filter P (join_with sep xs) = filter P (concat xs)" if "filter P sep = []"
  using that by (induction sep xs rule: join_with.induct) auto

lemma fmt_int_chars:
  "c \<in> set (fmt_int z) \<Longrightarrow> c \<noteq> CHR '','' \<and> c \<noteq> CHR ''.'' \<and> c \<noteq> CHR ''x'' \<and> c \<noteq> CHR '':''"
  using fmt_nat_chars [of 10 c "nat z"] fmt_nat_chars [of 10 c "nat (- z)"]
  by (auto simp: fmt_int_def split: if_splits)

text \<open>
  \<open>FormatNumber\<close> only adds commas: without them its text is the decimal number. For negative
  numbers whose digits are a multiple of three it puts one right after the sign.
\<close>

lemma FormatNumber_digits: "filter (\<lambda>c. c \<noteq> CHR '','') (FormatNumber n) = fmt_int n"
proof -
  have "filter (\<lambda>c. c \<noteq> CHR '','') (fmt_int n) = fmt_int n"
    using fmt_int_chars by (simp add: filter_id_conv)
  then show ?thesis by (simp add: FormatNumber_def Let_def filter_join number_groups_concat)
qed

lemma FormatNumber_negative: "FormatNumber (- 123) = ''-,123''"
  by code_simp

section \<open>Balances\<close>

lemma length_fmt_nat: "2 \<le> b \<Longrightarrow> n < b ^ k \<Longrightarrow> 0 < k \<Longrightarrow> length (fmt_nat b n) \<le> k"
proof (induction b n arbitrary: k rule: fmt_nat.induct)
  case (1 b n)
  show ?case
  proof (cases "n < b")
    case True
    with 1 show ?thesis by (subst fmt_nat.simps) simp
  next
    case False
    obtain k' where k: "k = Suc k'" using "1.prems"(3) by (cases k) auto
    have "0 < k'" using False "1.prems"(2) k by (cases k') auto
    have "n < b * b ^ k'" using "1.prems"(2) k by simp
    then have "n div b < b ^ k'"
      using "1.prems"(1) by (simp add: div_less_iff_less_mult mult.commute)
    then show ?thesis using 1 False k \<open>0 < k'\<close> by (subst fmt_nat.simps) simp
  qed
qed

lemma parse_acc_zeros [simp]: "parse_acc b 0 (replicate k CHR ''0'' @ s) = parse_acc b 0 s" if "0 < b"
  using that by (induction k) (simp_all add: digit_val_def)

lemma trim_zeros_pad: "trim_zeros s @ replicate (length s - length (trim_zeros s)) CHR ''0'' = s"
proof -
  have "takeWhile (\<lambda>c. c = CHR ''0'') t = replicate (length (takeWhile (\<lambda>c. c = CHR ''0'') t)) CHR ''0''" for t
    by (induction t) auto
  then have "rev s = replicate (length s - length (trim_zeros s)) CHR ''0'' @ rev (trim_zeros s)"
    unfolding trim_zeros_def
    by (metis (no_types, lifting) add_diff_cancel_right' length_append length_rev rev_rev_ident
        takeWhile_dropWhile_id)
  then show ?thesis by (metis rev_append rev_replicate rev_rev_ident)
qed

text \<open>
  A balance read back: the digits before the point, and those after it padded with zeros to
  \<open>decimals\<close> places, give the number of smallest units.
\<close>

definition read_balance :: "nat \<Rightarrow> string \<Rightarrow> int option" where
  "read_balance decimals s =
     (let ip = takeWhile (\<lambda>c. c \<noteq> CHR ''.'') s; fr = drop (Suc (length ip)) s in
      case (parse_nat 10 ip, parse_acc 10 0 (fr @ replicate (decimals - length fr) CHR ''0'')) of
        (Some q, Some m) \<Rightarrow> if length fr \<le> decimals then Some (int q * 10 ^ decimals + int m) else None
      | _ \<Rightarrow> None)"

lemma takeWhile_fmt [simp]:
  "takeWhile (\<lambda>c. c \<noteq> CHR ''.'') (fmt_nat 10 n) = fmt_nat 10 n"
  "takeWhile (\<lambda>c. c \<noteq> CHR ''.'') (fmt_nat 10 n @ CHR ''.'' # s) = fmt_nat 10 n"
  using fmt_nat_chars [of 10 _ n] by (auto simp: takeWhile_eq_all_conv takeWhile_append2)

lemma length_trim_zeros: "length (trim_zeros s) \<le> length s"
  by (metis length_dropWhile_le length_rev trim_zeros_def)

lemma fraction_digits:
  assumes "m < 10 ^ d" "0 < d" "s = trim_zeros (pad_zero d (fmt_nat 10 m))"
  shows "parse_acc 10 0 (s @ replicate (d - length s) CHR ''0'') = Some m \<and> length s \<le> d"
proof -
  let ?p = "pad_zero d (fmt_nat 10 m)"
  have "length ?p = d" using length_fmt_nat [of 10 m d] assms(1,2) by (simp add: pad_zero_def)
  moreover have "parse_acc 10 0 ?p = Some m" by (simp add: pad_zero_def parse_acc_fmt_nat)
  ultimately show ?thesis
    using trim_zeros_pad [of ?p] length_trim_zeros [of ?p] assms(3) by simp
qed

text \<open>
  \<open>FormatBalance\<close> loses nothing: for a balance that is not negative, its text (trailing zeros
  of the fraction dropped, the point dropped when the fraction is zero) reads back as the balance.
\<close>

theorem FormatBalance_lossless:
  assumes "0 \<le> b"
  shows "read_balance (nat decimals) (FormatBalance (Some b) decimals) = Some b"
proof -
  define d where "d = nat decimals"
  define q where "q = nat b div 10 ^ d"
  define m where "m = nat b mod 10 ^ d"
  have bq: "b div 10 ^ d = int q" "b mod 10 ^ d = int m" and b: "b = int q * 10 ^ d + int m"
    using assms by (simp_all add: q_def m_def zdiv_int zmod_int mult.commute)
  have m: "m < 10 ^ d" by (simp add: m_def)
  show ?thesis
  proof (cases "decimals > 0")
    case False
    then have "d = 0" by (simp add: d_def)
    then show ?thesis using False b bq m
      by (simp add: FormatBalance_def read_balance_def fmt_int_def Let_def d_def)
  next
    case True
    then have "0 < d" by (simp add: d_def)
    define s where "s = trim_zeros (pad_zero d (fmt_nat 10 m))"
    have fr: "parse_acc 10 0 (s @ replicate (d - length s) CHR ''0'') = Some m" "length s \<le> d"
      using fraction_digits [OF m \<open>0 < d\<close> s_def] by simp_all
    have "FormatBalance (Some b) decimals
        = (if s = [] then fmt_nat 10 q else fmt_nat 10 q @ ''.'' @ s)"
      using True bq by (simp add: FormatBalance_def Let_def fmt_int_def s_def flip: d_def)
    then show ?thesis using fr b
      by (cases "s = []") (simp_all add: read_balance_def Let_def flip: d_def)
  qed
qed

theorem FormatBalance_lossless_witness:
  "read_balance 18 (FormatBalance (Some 1500000000000000000) 18) = Some 1500000000000000000"
  using FormatBalance_lossless [of 1500000000000000000 18] by simp

end
