(* ===== verification/Sanitize.thy ===== *)
theory Sanitize
  imports Util
begin

text \<open>
  The rest of \<open>pkg/util/util.go\<close>: clocks, durations, guarded goroutines, and the cleaning of
  strings, which goes over the runes of their UTF-8 text. Times are nanoseconds since 1970.
\<close>

section \<open>Clocks and goroutines\<close>

definition GetCurrentTimestamp :: "int \<Rightarrow> int" where
  "GetCurrentTimestamp now = now div 10 ^ 9"

definition GetCurrentTimestampMs :: "int \<Rightarrow> int" where
  "GetCurrentTimestampMs now = now div 10 ^ 6"

definition TimeToTimestamp :: "int \<Rightarrow> int" where
  "TimeToTimestamp t = t div 10 ^ 9"

text \<open>A difference of times stays within a duration, a 64-bit integer.\<close>

definition CalculateDuration :: "int \<Rightarrow> int \<Rightarrow> int" where
  "CalculateDuration now start = max (- (2 ^ 63)) (min (2 ^ 63 - 1) (now - start))"

text \<open>\<open>fmt2 d u\<close> is the text of \<open>d / u\<close>, a float, with two decimals.\<close>

definition FormatDuration :: "(int \<Rightarrow> int \<Rightarrow> string) \<Rightarrow> int \<Rightarrow> string" where
  "FormatDuration fmt2 d =
     (if d < 10 ^ 9 then fmt_int (go_quot d (10 ^ 6)) @ ''ms''
      else if d < 60 * 10 ^ 9 then fmt2 d (10 ^ 9) @ ''s''
      else if d < 3600 * 10 ^ 9 then fmt2 d (60 * 10 ^ 9) @ ''m''
      else fmt2 d (3600 * 10 ^ 9) @ ''h'')"

text \<open>A panic of the function is recovered; what it did before stays.\<close>

definition SafeGo :: "('s \<Rightarrow> unit outcome \<times> 's) \<Rightarrow> 's \<Rightarrow> unit outcome \<times> 's" where
  "SafeGo fn s = (let (e, s') = fn s in (if e = Panics then Returns () else e, s'))"

section \<open>Runes\<close>

text \<open>
  The length of the rune a string of bytes starts with, 0 where its encoding is invalid: no surrogates,
  nothing over-long and nothing above \<open>0x10FFFF\<close>.
\<close>

definition tail_byte :: "nat \<Rightarrow> bool" where
  "tail_byte b \<longleftrightarrow> 128 \<le> b \<and> b < 192"

definition second_ok :: "nat \<Rightarrow> nat \<Rightarrow> bool" where
  "second_ok a b \<longleftrightarrow> tail_byte b \<and> (a = 224 \<longrightarrow> 160 \<le> b) \<and> (a = 237 \<longrightarrow> b < 160)
     \<and> (a = 240 \<longrightarrow> 144 \<le> b) \<and> (a = 244 \<longrightarrow> b < 144)"

definition rune_len :: "nat list \<Rightarrow> nat" where
  "rune_len bs =
     (case bs of
        [] \<Rightarrow> 0
      | a # r \<Rightarrow>
          if a < 128 then 1
          else if 194 \<le> a \<and> a < 224 then
            (case r of b # _ \<Rightarrow> if second_ok a b then 2 else 0 | _ \<Rightarrow> 0)
          else if 224 \<le> a \<and> a < 240 then
            (case r of b # c # _ \<Rightarrow> if second_ok a b \<and> tail_byte c then 3 else 0 | _ \<Rightarrow> 0)
          else if 240 \<le> a \<and> a < 245 then
            (case r of b # c # d # _ \<Rightarrow> if second_ok a b \<and> tail_byte c \<and> tail_byte d then 4 else 0 | _ \<Rightarrow> 0)
          else 0)"

definition rune_value :: "nat list \<Rightarrow> nat" where
  "rune_value bs =
     (case bs of
        [a] \<Rightarrow> a
      | [a, b] \<Rightarrow> (a - 192) * 64 + (b - 128)
      | [a, b, c] \<Rightarrow> ((a - 224) * 64 + (b - 128)) * 64 + (c - 128)
      | [a, b, c, d] \<Rightarrow> (((a - 240) * 64 + (b - 128)) * 64 + (c - 128)) * 64 + (d - 128)
      | _ \<Rightarrow> 0)"

text \<open>An invalid byte is read as the replacement character, which is written as three bytes.\<close>

definition replacement :: "nat \<times> nat list" where
  "replacement = (65533, [239, 191, 189])"

function runes :: "nat list \<Rightarrow> (nat \<times> nat list) list" where
  "runes bs =
     (if bs = [] then []
      else (let n = rune_len bs in
            if n = 0 then replacement # runes (tl bs)
            else (rune_value (take n bs), take n bs) # runes (drop n bs)))"
  by pat_completeness auto
termination
  by (relation "measure length") auto

declare runes.simps [simp del]

definition is_space :: "nat \<Rightarrow> bool" where
  "is_space r \<longleftrightarrow> r \<in> set ([9, 10, 11, 12, 13, 32, 133, 160, 5760] @ [8192..<8203] @ [8232, 8233, 8239, 8287, 12288])"

definition trim_by :: "('a \<Rightarrow> bool) \<Rightarrow> 'a list \<Rightarrow> 'a list" where
  "trim_by P xs = rev (dropWhile P (rev (dropWhile P xs)))"

definition SanitizeString :: "string \<Rightarrow> string" where
  "SanitizeString s =
     (let rs = trim_by (\<lambda>x. is_space (fst x)) (runes (map of_char s));
          kept = filter (\<lambda>x. 32 \<le> fst x \<and> fst x \<noteq> 127) rs
      in map char_of (concat (map snd kept)))"

section \<open>What a cleaned string holds\<close>

lemma rune_len_cases:
  assumes "rune_len bs \<noteq> 0"
  shows "\<exists>a r. bs = a # r \<and> (rune_len bs = 1 \<and> a < 128 \<or> 128 \<le> a \<and> list_all tail_byte (take (rune_len bs - 1) r))"
proof (cases bs)
  case (Cons a r)
  consider "a < 128" | "128 \<le> a" "r = []" | b where "128 \<le> a" "r = [b]" | b c where "128 \<le> a" "r = [b, c]"
    | b c d r' where "128 \<le> a" "r = b # c # d # r'"
    by (metis not_less list.exhaust)
  then show ?thesis using assms unfolding Cons
    by cases (simp_all add: rune_len_def second_ok_def split: if_split_asm)
qed (use assms in \<open>simp add: rune_len_def\<close>)

lemma rune_bytes:
  assumes "rune_len bs \<noteq> 0" "b \<in> set (take (rune_len bs) bs)"
  shows "take (rune_len bs) bs = [b] \<and> b < 128 \<or> 128 \<le> b"
proof -
  from rune_len_cases [OF assms(1)] obtain a r where c: "bs = a # r"
    "rune_len bs = 1 \<and> a < 128 \<or> 128 \<le> a \<and> list_all tail_byte (take (rune_len bs - 1) r)" by blast
  have "take (rune_len bs) bs = a # take (rune_len bs - 1) r" using assms(1) c(1) by (cases "rune_len bs") simp_all
  then show ?thesis using c(2) assms(2) by (auto simp: list_all_iff tail_byte_def)
qed

lemma runes_bytes:
  "(r, bs) \<in> set (runes xs) \<Longrightarrow> b \<in> set bs \<Longrightarrow> (bs = [r] \<and> b = r \<or> 128 \<le> b) \<and> (b \<in> set xs \<or> b < 256)"
proof (induction xs rule: runes.induct)
  case (1 xs)
  then have xs: "xs \<noteq> []" by (auto simp: runes.simps)
  let ?n = "rune_len xs"
  show ?case
  proof (cases "?n = 0")
    case True
    then have "(r, bs) = replacement \<or> (r, bs) \<in> set (runes (tl xs))"
      using "1.prems"(1) xs by (subst (asm) runes.simps) (simp add: Let_def)
    then show ?thesis
    proof
      assume "(r, bs) \<in> set (runes (tl xs))"
      from "1.IH"(1) [OF xs refl True this "1.prems"(2)] xs show ?thesis by (auto dest: list.set_sel(2))
    qed (use "1.prems"(2) in \<open>auto simp: replacement_def\<close>)
  next
    case False
    let ?t = "take ?n xs"
    have "(r, bs) = (rune_value ?t, ?t) \<or> (r, bs) \<in> set (runes (drop ?n xs))"
      using "1.prems"(1) xs False by (subst (asm) runes.simps) (simp add: Let_def)
    then show ?thesis
    proof
      assume e: "(r, bs) = (rune_value ?t, ?t)"
      then have "b \<in> set xs" using "1.prems"(2) by (auto dest: in_set_takeD)
      then show ?thesis using rune_bytes [OF False, of b] e "1.prems"(2) by (auto simp: rune_value_def)
    next
      assume "(r, bs) \<in> set (runes (drop ?n xs))"
      from "1.IH"(2) [OF xs refl False this "1.prems"(2)] show ?thesis by (auto dest: in_set_dropD)
    qed
  qed
qed

lemma set_trim_by: "set (trim_by P xs) \<subseteq> set xs"
proof
  fix x assume "x \<in> set (trim_by P xs)"
  then have "x \<in> set (dropWhile P (rev (dropWhile P xs)))" by (simp add: trim_by_def)
  then have "x \<in> set (rev (dropWhile P xs))" by (rule set_dropWhileD)
  then show "x \<in> set xs" unfolding set_rev by (rule set_dropWhileD)
qed

text \<open>
  Whatever its input, also one that is not valid UTF-8, a cleaned string holds no control character.
\<close>

theorem SanitizeString_clean: "\<forall>c \<in> set (SanitizeString s). 32 \<le> (of_char c :: nat) \<and> (of_char c :: nat) \<noteq> 127"
proof
  fix c assume "c \<in> set (SanitizeString s)"
  then obtain r bs b where r: "(r, bs) \<in> set (trim_by (\<lambda>x. is_space (fst x)) (runes (map of_char s)))"
      "32 \<le> r" "r \<noteq> 127" "b \<in> set bs" "c = char_of b"
    by (auto simp: SanitizeString_def Let_def)
  have "(r, bs) \<in> set (runes (map of_char s))" by (rule subsetD [OF set_trim_by r(1)])
  note b = runes_bytes [OF this r(4), THEN conjunct1] runes_bytes [OF this r(4), THEN conjunct2, unfolded set_map]
  have "32 \<le> b" "b \<noteq> 127" using b(1) r(2,3) by linarith+
  moreover have "b < 256"
  proof (rule disjE [OF b(2)])
    assume "b \<in> of_char ` set s"
    then show "b < 256" by (rule imageE) (simp add: nat_of_char_less_256)
  qed
  ultimately
  show "32 \<le> (of_char c :: nat) \<and> (of_char c :: nat) \<noteq> 127"
    unfolding r(5) of_char_of by simp
qed

text \<open>
  It is trimmed before the control characters go, so it can still start with a space; cleaning
  twice is not cleaning once.
\<close>

lemma SanitizeString_untrimmed:
  "SanitizeString [CHR 0x01, CHR '' '', CHR ''a''] = '' a''" "SanitizeString '' a'' = ''a''"
  by (simp_all add: SanitizeString_def runes.simps rune_len_def rune_value_def trim_by_def is_space_def Let_def) code_simp+

end
