(* ===== verification/Sharding.thy ===== *)
theory Sharding
  imports Util
begin

text \<open>
  \<open>internal/scheduler/sharding.go\<close>: the sharding manager, which cuts a range of block numbers
  into \<open>shardCount\<close> ranges. The arithmetic is on \<open>uint64\<close>, as in the source; \<open>shard_cut\<close> is the
  reference function it is compared with.
\<close>

section \<open>The manager and its operations\<close>

record sharding_config =
  shc_enabled :: bool
  shc_shard_count :: int
  shc_strategy :: string

record sharding_manager =
  shm_chain_id :: string
  shm_config :: sharding_config
  shm_shard_count :: int
  shm_strategy :: string

definition NewShardingManager ::
    "string \<Rightarrow> sharding_config \<Rightarrow> go_error + sharding_manager" where
  "NewShardingManager chainID c =
     (if \<not> shc_enabled c then Inl (Msg ''sharding is not enabled'')
      else if shc_shard_count c \<le> 0 then Inl (Msg ''shard count must be positive'')
      else Inr \<lparr>shm_chain_id = chainID, shm_config = c, shm_shard_count = shc_shard_count c,
                shm_strategy = shc_strategy c\<rparr>)"

definition ShardingManager_CalculateShard :: "sharding_manager \<Rightarrow> u64 \<Rightarrow> int outcome" where
  "ShardingManager_CalculateShard m blockNumber =
     (if shm_strategy m = ''block_number'' then CalculateShard blockNumber (shm_shard_count m)
      else if shm_strategy m = ''address'' then Returns 0
      else CalculateShard blockNumber (shm_shard_count m))"

definition ShardingManager_CalculateAddressShard ::
    "(string \<Rightarrow> string) \<Rightarrow> sharding_manager \<Rightarrow> string \<Rightarrow> int outcome" where
  "ShardingManager_CalculateAddressShard sha256 m address =
     CalculateAddressShard sha256 address (shm_shard_count m)"

definition GetShardRange :: "sharding_manager \<Rightarrow> int \<Rightarrow> u64 \<Rightarrow> u64 \<Rightarrow> u64 \<times> u64" where
  "GetShardRange m shardID startBlock endBlock =
     (if shardID < 0 \<or> shardID \<ge> shm_shard_count m then (0, 0)
      else
        let totalBlocks = endBlock - startBlock + 1;
            blocksPerShard = totalBlocks div word_of_int (shm_shard_count m);
            remainder = totalBlocks mod word_of_int (shm_shard_count m);
            shardStart = startBlock + word_of_int shardID * blocksPerShard;
            shardStart = (if word_of_int shardID < remainder then shardStart + word_of_int shardID
                          else shardStart + remainder);
            shardEnd = shardStart + blocksPerShard - 1;
            shardEnd = (if word_of_int shardID < remainder then shardEnd + 1 else shardEnd);
            shardEnd = (if shardEnd > endBlock then endBlock else shardEnd)
        in (shardStart, shardEnd))"

record shard_range =
  rg_shard_id :: int
  rg_start_block :: u64
  rg_end_block :: u64

definition GetAllShardRanges :: "sharding_manager \<Rightarrow> u64 \<Rightarrow> u64 \<Rightarrow> shard_range list" where
  "GetAllShardRanges m startBlock endBlock =
     map (\<lambda>i. let (s, e) = GetShardRange m i startBlock endBlock in
            \<lparr>rg_shard_id = i, rg_start_block = s, rg_end_block = e\<rparr>)
       (map int [0..<nat (shm_shard_count m)])"

section \<open>Where a manager comes from\<close>

definition shm_wf :: "sharding_manager \<Rightarrow> bool" where
  "shm_wf m \<longleftrightarrow> 0 < shm_shard_count m \<and> shm_shard_count m < 2 ^ 63"

lemma NewShardingManager_wf:
  "NewShardingManager chainID c = Inr m \<Longrightarrow> shc_shard_count c < 2 ^ 63 \<Longrightarrow> shm_wf m"
  by (auto simp: NewShardingManager_def shm_wf_def split: if_splits)

lemma word_of_int_count:
  "0 \<le> k \<Longrightarrow> k < 2 ^ 63 \<Longrightarrow> unat (word_of_int k :: u64) = nat k"
  by (simp add: unat_eq_nat_uint uint_word_of_int_eq take_bit_int_eq_self)

lemma CalculateShard_range:
  assumes "shm_wf m"
  shows "\<exists>s. ShardingManager_CalculateShard m n = Returns s \<and> 0 \<le> s \<and> s < shm_shard_count m"
proof -
  let ?c = "shm_shard_count m"
  have c: "0 < ?c" "?c < 2 ^ 63" using assms by (simp_all add: shm_wf_def)
  then have u: "unat (word_of_int ?c :: u64) = nat ?c" by (simp add: word_of_int_count)
  then have "(word_of_int ?c :: u64) \<noteq> 0" using c by auto
  moreover have "uint (n mod word_of_int ?c) = int (unat n mod nat ?c)"
    by (simp only: uint_nat unat_mod u)
  moreover have "int (unat n mod nat ?c) < ?c" using c by (metis int_nat_eq less_le mod_less_divisor
      of_nat_less_iff zero_less_nat_eq)
  ultimately show ?thesis using c
    by (auto simp: ShardingManager_CalculateShard_def CalculateShard_def Let_def wrap_i64_id)
qed

section \<open>The ranges tile the interval\<close>

text \<open>
  \<open>shard_cut t c i\<close>: how many of \<open>t\<close> blocks the first \<open>i\<close> of \<open>c\<close> shards hold, when the first
  \<open>t mod c\<close> shards take one block more than the others.
\<close>

definition shard_cut :: "nat \<Rightarrow> nat \<Rightarrow> nat \<Rightarrow> nat" where
  "shard_cut t c i = i * (t div c) + min i (t mod c)"

lemma cut_0 [simp]: "shard_cut t c 0 = 0"
  by (simp add: shard_cut_def)

lemma cut_all: "0 < c \<Longrightarrow> shard_cut t c c = t"
  by (simp add: shard_cut_def min_def less_imp_le) (metis leD mod_less_divisor mult_div_mod_eq)

lemma cut_Suc: "shard_cut t c (Suc i) = shard_cut t c i + t div c + (if i < t mod c then 1 else 0)"
  by (simp add: shard_cut_def min_def)

lemma cut_mono: "i \<le> j \<Longrightarrow> shard_cut t c i \<le> shard_cut t c j"
  by (induction j) (auto simp: cut_Suc le_Suc_eq)

lemma cut_le: "i \<le> c \<Longrightarrow> shard_cut t c i \<le> t"
  by (cases "c = 0") (use cut_mono [of i c t c] cut_all [of c t] in auto)

lemma cut_pos: "0 < t \<Longrightarrow> 0 < c \<Longrightarrow> 0 < shard_cut t c (Suc i)"
  by (cases "t div c = 0") (auto simp: cut_Suc shard_cut_def div_eq_0_iff)

lemma concat_upt:
  assumes "\<And>i. i < k \<Longrightarrow> f i \<le> f (Suc i)"
  shows "concat (map (\<lambda>i. [f i..<f (Suc i)]) [0..<k]) = [f 0..<f k] \<and> f 0 \<le> f k"
  using assms
proof (induction k)
  case (Suc k)
  have IH: "concat (map (\<lambda>i. [f i..<f (Suc i)]) [0..<k]) = [f 0..<f k]" "f 0 \<le> f k"
    using Suc.IH Suc.prems by simp_all
  obtain d where d: "f (Suc k) = f k + d" using le_Suc_ex [OF Suc.prems [of k]] by auto
  have "[f 0..<f (Suc k)] = [f 0..<f k] @ [f k..<f (Suc k)]"
    unfolding d by (rule upt_add_eq_append) (rule IH(2))
  moreover have "f 0 \<le> f (Suc k)" using IH(2) d by simp
  ultimately show ?case by (simp add: IH(1))
qed simp

text \<open>In natural numbers, the range of a shard is what \<open>shard_cut\<close> says, and no step wraps around.\<close>

lemma GetShardRange_cut:
  assumes wf: "shm_wf m" and i: "0 \<le> i" "i < shm_shard_count m"
    and le: "lo \<le> hi" and ne: "hi \<noteq> max_u64"
    and t: "t = Suc (unat hi) - unat lo" and c: "c = nat (shm_shard_count m)"
  obtains a b where "GetShardRange m i lo hi = (a, b)" "unat a = unat lo + shard_cut t c (nat i)"
    "Suc (unat b) = unat lo + shard_cut t c (Suc (nat i))"
proof -
  let ?k = "word_of_int i :: u64" and ?n = "word_of_int (shm_shard_count m) :: u64"
  let ?t = "hi - lo + 1"
  have cpos: "0 < c" and icc: "nat i < c" using wf i c by (auto simp: shm_wf_def)
  have uk: "unat ?k = nat i" and un: "unat ?n = c"
    using wf i c by (auto simp: shm_wf_def word_of_int_count)
  have ub: "Suc (unat hi) < 18446744073709551616" using ne by (rule Suc_unat_less_u64)
  have le': "unat lo \<le> unat hi" using le by (simp add: word_le_nat_alt)
  have "hi - lo \<noteq> max_u64"
  proof
    assume "hi - lo = max_u64"
    then have "unat hi - unat lo = 18446744073709551615"
      using unat_minus_u64 [OF le'] unat_max_u64 by simp
    with ub show False by simp
  qed
  then have "unat ?t = Suc (unat (hi - lo))" by (rule unat_Suc_u64)
  then have ut: "unat ?t = t" using le' t by (simp add: unat_minus_u64 Suc_diff_le)
  define q where "q = t div c"
  define r where "r = t mod c"
  have uq: "unat (?t div ?n) = q" and ur: "unat (?t mod ?n) = r"
    by (simp_all only: unat_div unat_mod ut un q_def r_def)
  have bound: "unat lo + shard_cut t c (Suc (nat i)) \<le> Suc (unat hi)" "0 < shard_cut t c (Suc (nat i))"
    using cut_le [of "Suc (nat i)" c t] cut_pos [of t c "nat i"] icc cpos t le' by auto
  have cq: "nat i * q \<le> shard_cut t c (nat i)" "shard_cut t c (nat i) \<le> shard_cut t c (Suc (nat i))"
    by (simp_all add: shard_cut_def q_def cut_mono min_def)
  have lt: "?k < ?t mod ?n \<longleftrightarrow> nat i < r" by (simp add: word_less_nat_alt uk ur)
  define d :: u64 where "d = (if nat i < r then ?k else ?t mod ?n)"
  define x where "x = lo + ?k * (?t div ?n) + d"
  define e :: u64 where "e = (if nat i < r then 1 else 0)"
  have ud: "unat d = min (nat i) r" by (simp add: d_def uk ur min_def)
  have "unat (?k * (?t div ?n)) = nat i * q"
    using cq bound ub by (subst unat_times_u64) (simp_all add: uk uq)
  then have "unat (lo + ?k * (?t div ?n)) = unat lo + nat i * q"
    using cq bound ub by (subst unat_plus_u64) simp_all
  then have ux: "unat x = unat lo + shard_cut t c (nat i)"
    using cq bound ub ud by (simp add: x_def unat_plus_u64 shard_cut_def q_def r_def)
  then have "unat (x + ?t div ?n) = unat lo + shard_cut t c (nat i) + q"
    using bound ub uq by (subst unat_plus_u64) (auto simp: cut_Suc q_def split: if_splits)
  then have ue: "unat (x + ?t div ?n + e) = unat lo + shard_cut t c (Suc (nat i))"
    using bound ub by (subst unat_plus_u64) (auto simp: cut_Suc q_def r_def e_def split: if_splits)
  define b where "b = x + ?t div ?n + e - 1"
  have ub': "Suc (unat b) = unat lo + shard_cut t c (Suc (nat i))"
    using ue bound by (simp add: b_def unat_minus_u64)
  then have "\<not> b > hi" using bound by (simp add: word_less_nat_alt)
  moreover have "GetShardRange m i lo hi
      = (let s = lo + ?k * (?t div ?n) + (if ?k < ?t mod ?n then ?k else ?t mod ?n);
             z = s + ?t div ?n - 1 + (if ?k < ?t mod ?n then 1 else 0)
         in (s, if z > hi then hi else z))"
    using i by (simp add: GetShardRange_def Let_def)
  then have "GetShardRange m i lo hi
      = (let z = x + ?t div ?n - 1 + e in (x, if z > hi then hi else z))"
    by (simp only: lt x_def d_def e_def Let_def)
  moreover have "x + ?t div ?n - 1 + e = b" by (simp add: b_def)
  ultimately have "GetShardRange m i lo hi = (x, b)" by (simp add: Let_def)
  then show ?thesis using ux ub' by (rule that)
qed

lemma GetShardRange_blocks:
  assumes "shm_wf m" "lo \<le> hi" "hi \<noteq> max_u64" "i < nat (shm_shard_count m)"
    and "t = Suc (unat hi) - unat lo" "c = nat (shm_shard_count m)"
  shows "(case GetShardRange m (int i) lo hi of (a, b) \<Rightarrow> blocks_of a b)
    = map of_nat [unat lo + shard_cut t c i..<unat lo + shard_cut t c (Suc i)]"
proof -
  have "0 \<le> int i" "int i < shm_shard_count m" using assms(4) by auto
  from GetShardRange_cut [OF assms(1) this assms(2,3,5,6)] obtain a b
    where "GetShardRange m (int i) lo hi = (a, b)" "unat a = unat lo + shard_cut t c i"
      "Suc (unat b) = unat lo + shard_cut t c (Suc i)" by auto
  then show ?thesis by (simp add: blocks_of_def del: upt_Suc)
qed

text \<open>
  C22: The shards tile the interval: the blocks of the shards 0, 1, ... one after the other are
  exactly the blocks from \<open>startBlock\<close> to \<open>endBlock\<close>, in order, so every block is in exactly one
  shard. It holds for every end but the largest \<open>uint64\<close>.
\<close>

theorem GetAllShardRanges_tile:
  assumes "shm_wf m" "lo \<le> hi" "hi \<noteq> max_u64"
  shows "concat (map (\<lambda>g. blocks_of (rg_start_block g) (rg_end_block g)) (GetAllShardRanges m lo hi))
    = blocks_of lo hi"
proof -
  define t where "t = Suc (unat hi) - unat lo"
  define c where "c = nat (shm_shard_count m)"
  define f where "f i = unat lo + shard_cut t c i" for i
  have "(\<lambda>g. blocks_of (rg_start_block g) (rg_end_block g))
        (let (s, e) = GetShardRange m (int i) lo hi in
           \<lparr>rg_shard_id = int i, rg_start_block = s, rg_end_block = e\<rparr>)
      = map of_nat [f i..<f (Suc i)]" if "i < c" for i
    using GetShardRange_blocks [OF assms, of i t c] that
    by (simp add: t_def c_def f_def split: prod.splits)
  then have "map (\<lambda>g. blocks_of (rg_start_block g) (rg_end_block g)) (GetAllShardRanges m lo hi)
      = map (\<lambda>i. map of_nat [f i..<f (Suc i)]) [0..<c]"
    unfolding GetAllShardRanges_def map_map by (intro map_cong) (auto simp: c_def)
  then have "concat (map (\<lambda>g. blocks_of (rg_start_block g) (rg_end_block g)) (GetAllShardRanges m lo hi))
      = map of_nat (concat (map (\<lambda>i. [f i..<f (Suc i)]) [0..<c]))"
    by (simp add: map_concat comp_def)
  also have "\<dots> = map of_nat [f 0..<f c]"
    using concat_upt [of c f] by (simp add: f_def cut_Suc)
  also have "\<dots> = blocks_of lo hi"
  proof -
    have "0 < c" using assms(1) by (simp add: shm_wf_def c_def)
    moreover have "unat lo \<le> unat hi" using assms(2) by (simp add: word_le_nat_alt)
    ultimately have "f c = Suc (unat hi)" by (simp add: f_def t_def cut_all)
    then show ?thesis by (simp add: f_def blocks_of_def)
  qed
  finally show ?thesis .
qed

definition manager3 :: sharding_manager where
  "manager3 = \<lparr>shm_chain_id = ''eth'', shm_config = \<lparr>shc_enabled = True, shc_shard_count = 3,
     shc_strategy = ''block_number''\<rparr>, shm_shard_count = 3, shm_strategy = ''block_number''\<rparr>"

theorem GetAllShardRanges_tile_witness:
  "concat (map (\<lambda>g. blocks_of (rg_start_block g) (rg_end_block g)) (GetAllShardRanges manager3 100 109))
    = blocks_of 100 109"
  by (rule GetAllShardRanges_tile) (simp_all add: shm_wf_def manager3_def)

text \<open>
  The shards are balanced: each holds the quotient of the number of blocks by the shard count,
  and the first (number of blocks modulo shard count) hold one more.
\<close>

theorem GetShardRange_balanced:
  assumes "shm_wf m" "0 \<le> i" "i < shm_shard_count m" "lo \<le> hi" "hi \<noteq> max_u64"
    and "t = Suc (unat hi) - unat lo" "c = nat (shm_shard_count m)"
  shows "length (case GetShardRange m i lo hi of (a, b) \<Rightarrow> blocks_of a b)
    = t div c + (if nat i < t mod c then 1 else 0)"
  using GetShardRange_blocks [OF assms(1,4,5) _ assms(6,7), of "nat i"] assms(2,3)
  by (simp add: cut_Suc del: upt_Suc)

theorem GetShardRange_balanced_witness:
  "length (case GetShardRange manager3 0 100 109 of (a, b) \<Rightarrow> blocks_of a b) = 4
    \<and> length (case GetShardRange manager3 2 100 109 of (a, b) \<Rightarrow> blocks_of a b) = 3"
  using GetShardRange_balanced [of manager3 0 100 109 10 3]
    GetShardRange_balanced [of manager3 2 100 109 10 3]
  by (simp add: shm_wf_def manager3_def)

text \<open>
  The bound on the end is needed: for an interval that ends at the largest \<open>uint64\<close> and has fewer
  blocks than shards, a shard past the last block gets every block number instead of none.
\<close>

lemma GetShardRange_wraps:
  "GetShardRange manager3 2 (max_u64 - 1) max_u64 = (0, max_u64)"
  by code_simp

end
