(* ===== verification/GoTypes.thy ===== *)
theory GoTypes
  imports Prelude
begin

text \<open>
  The data of \<open>pkg/types/types.go\<close>, one record per struct with the fields in the source's order.
  Block numbers, indices and gas are \<open>uint64\<close>, so \<open>u64\<close>; \<open>*big.Int\<close> is an \<open>int option\<close> (the
  pointer may be nil); times are \<open>int\<close> (nanoseconds). The debugging field \<open>RawData\<close>, an
  \<open>interface{}\<close> that no code reads, is left out.
\<close>

text \<open>
  A \<open>time.Time\<close> is the number of nanoseconds since the Unix epoch; the zero value of the type is the
  first instant of the year 1.
\<close>

definition zero_time :: int where
  "zero_time = - 62135596800 * 10 ^ 9"

datatype tx_status = TxPending | TxConfirmed | TxFinalized | TxReverted | TxOther string

fun tx_status_text :: "tx_status \<Rightarrow> string" where
  "tx_status_text TxPending = ''pending''"
| "tx_status_text TxConfirmed = ''confirmed''"
| "tx_status_text TxFinalized = ''finalized''"
| "tx_status_text TxReverted = ''reverted''"
| "tx_status_text (TxOther s) = s"

record tx_log =
  log_chain_id :: string
  log_tx_hash :: string
  log_block_number :: u64
  log_address :: string
  log_topics :: "string list"
  log_data :: string
  log_log_index :: u64
  log_tx_index :: u64

record transaction =
  tx_chain_id :: string
  tx_hash :: string
  tx_block_number :: u64
  tx_block_hash :: string
  tx_from :: string
  tx_to :: string
  tx_value :: "int option"
  tx_gas_price :: "int option"
  tx_gas_used :: u64
  tx_status :: tx_status
  tx_timestamp :: int
  tx_index :: u64
  tx_input_data :: string
  tx_logs :: "tx_log list"

record block =
  blk_chain_id :: string
  blk_number :: u64
  blk_hash :: string
  blk_parent_hash :: string
  blk_timestamp :: int
  blk_transactions :: "transaction list"

record watermark =
  wm_chain_id :: string
  wm_scanned_height :: u64
  wm_confirmed_height :: u64
  wm_finalized_height :: u64
  wm_reorg_boundary :: u64
  wm_last_update_time :: int

record reorg_event =
  re_chain_id :: string
  re_detected_at :: int
  re_old_block_number :: u64
  re_old_block_hash :: string
  re_new_block_number :: u64
  re_new_block_hash :: string
  re_depth :: u64
  re_affected_txs :: "string list"
  re_processed :: bool

record scan_task =
  st_chain_id :: string
  st_start_block :: u64
  st_end_block :: u64
  st_shard_id :: int
  st_retry_count :: int
  st_priority :: int

record scan_result =
  sr_task :: "scan_task option"
  sr_task_id :: string
  sr_chain_id :: string
  sr_start_block :: u64
  sr_end_block :: u64
  sr_blocks_scanned :: int
  sr_txs_found :: int
  sr_success :: bool
  sr_error :: "go_error option"
  sr_duration :: int

record filter_config =
  fc_addresses :: "string list"
  fc_contracts :: "string list"
  fc_events :: "string list"
  fc_min_value :: "int option"
  fc_exclude_empty :: bool

record node_health =
  nh_url :: string
  nh_healthy :: bool
  nh_last_check_time :: int
  nh_failure_count :: int
  nh_success_count :: int
  nh_avg_response_time :: int

record rpc_node_config =
  rn_url :: string
  rn_weight :: int
  rn_timeout :: int
  rn_max_conns :: int

record health_check_config =
  hc_enabled :: bool
  hc_interval :: int
  hc_timeout :: int
  hc_failure_threshold :: int
  hc_success_threshold :: int
  hc_alert_enabled :: bool

record chain_config =
  cc_enabled :: bool
  cc_chain_id :: string
  cc_chain_type :: string
  cc_block_time :: int
  cc_finalization_type :: string
  cc_rpc_nodes :: "rpc_node_config list"
  cc_health_check :: health_check_config
  cc_start_block :: u64
  cc_confirmations :: u64
  cc_contracts :: "string list"

text \<open>
  The interface \<open>ChainClient\<close> of \<open>internal/node/node_manager.go\<close>, the methods the scanner, the
  detector and the clients call: a record of effects on the state \<open>'s\<close> of the node connection.
\<close>

record 's chain_client =
  cl_GetBlock :: "u64 \<Rightarrow> 's \<Rightarrow> (go_error + block option) \<times> 's"
  cl_GetFinalizedHeight :: "'s \<Rightarrow> (go_error + u64) \<times> 's"
  cl_GetCurrentHeight :: "'s \<Rightarrow> (go_error + u64) \<times> 's"
  cl_BatchGetBlocks :: "u64 list \<Rightarrow> 's \<Rightarrow> (go_error + block option list) \<times> 's"
  cl_DetectReorg :: "u64 \<Rightarrow> string \<Rightarrow> 's \<Rightarrow> (go_error + bool \<times> u64) \<times> 's"

text \<open>A transaction of which only the hash, the block and the status matter, for examples.\<close>

definition mk_tx :: "string \<Rightarrow> u64 \<Rightarrow> tx_status \<Rightarrow> transaction" where
  "mk_tx h n s =
     \<lparr>tx_chain_id = ''eth'', tx_hash = h, tx_block_number = n, tx_block_hash = '''', tx_from = '''',
      tx_to = '''', tx_value = None, tx_gas_price = None, tx_gas_used = 0, tx_status = s,
      tx_timestamp = 0, tx_index = 0, tx_input_data = '''', tx_logs = []\<rparr>"

definition mk_block :: "u64 \<Rightarrow> string \<Rightarrow> string \<Rightarrow> transaction list \<Rightarrow> block" where
  "mk_block n h p txs =
     \<lparr>blk_chain_id = ''eth'', blk_number = n, blk_hash = h, blk_parent_hash = p,
      blk_timestamp = 0, blk_transactions = txs\<rparr>"

lemma mk_block_simps [simp]:
  "blk_number (mk_block n h p txs) = n" "blk_hash (mk_block n h p txs) = h"
  "blk_parent_hash (mk_block n h p txs) = p" "blk_transactions (mk_block n h p txs) = txs"
  by (simp_all add: mk_block_def)

lemma mk_tx_simps [simp]:
  "tx_hash (mk_tx h n s) = h" "tx_block_number (mk_tx h n s) = n"
  "GoTypes.tx_status (mk_tx h n s) = s"
  by (simp_all add: mk_tx_def)

end
