(* ===== verification/Workers.thy ===== *)
theory Workers
  imports GoTypes Util
begin

text \<open>
  \<open>internal/scheduler/worker.go\<close>: the worker that scans the blocks of a task. The chain client's
  \<open>BatchGetBlocks\<close> is a parameter \<open>bgb\<close>, an effect on the client's state; \<open>dn\<close> tells whether the
  context is done. The loops over block numbers are \<open>partial_function\<close>s, since the counters are
  \<open>uint64\<close> and wrap around: \<open>None\<close> is a loop that never ends.
\<close>

section \<open>Batches of block numbers\<close>

type_synonym 's batch_client = "u64 list \<Rightarrow> 's \<Rightarrow> (go_error + block option list) \<times> 's"

type_synonym scan_answer = "int \<times> int \<times> go_error option"

text \<open>\<open>for num := batchStart; num <= batchEnd; num++ { append }\<close>.\<close>

partial_function (option) num_loop :: "u64 \<Rightarrow> u64 \<Rightarrow> u64 list \<Rightarrow> u64 list option" where
  "num_loop num batchEnd acc =
     (if num \<le> batchEnd then num_loop (num + 1) batchEnd (acc @ [num]) else Some acc)"

definition block_numbers :: "u64 \<Rightarrow> u64 \<Rightarrow> u64 list option" where
  "block_numbers batchStart batchEnd = num_loop batchStart batchEnd []"

text \<open>The counts over the blocks of an answer; a nil block is skipped.\<close>

fun count_blocks :: "block option list \<Rightarrow> int \<times> int \<Rightarrow> int \<times> int" where
  "count_blocks [] c = c"
| "count_blocks (None # bs) c = count_blocks bs c"
| "count_blocks (Some b # bs) (n, t) = count_blocks bs (n + 1, t + int (length (blk_transactions b)))"

definition batch_error :: "u64 \<Rightarrow> u64 \<Rightarrow> go_error \<Rightarrow> go_error" where
  "batch_error s e err =
     Wrap (''failed to batch get blocks '' @ fmt_u64 s @ '' to '' @ fmt_u64 e) err"

section \<open>The sequential scan\<close>

partial_function (option) seq_loop ::
    "'s batch_client \<Rightarrow> ('s \<Rightarrow> bool) \<Rightarrow> int \<Rightarrow> u64 \<Rightarrow> u64 \<Rightarrow> int \<times> int \<Rightarrow> 's
      \<Rightarrow> (scan_answer \<times> 's) option" where
  "seq_loop bgb dn batchSize endBlock batchStart c s =
     (if batchStart \<le> endBlock then
        (let batchEnd = MinUint64 (batchStart + word_of_int batchSize - 1) endBlock in
         Option.bind (block_numbers batchStart batchEnd) (\<lambda>ns.
           case bgb ns s of
             (Inl e, s') \<Rightarrow> Some ((fst c, snd c, Some (batch_error batchStart batchEnd e)), s')
           | (Inr blocks, s') \<Rightarrow>
               (let c' = count_blocks blocks c in
                if dn s' then Some ((fst c', snd c', Some ctx_err), s')
                else seq_loop bgb dn batchSize endBlock (batchStart + word_of_int batchSize) c' s')))
      else Some ((fst c, snd c, None), s))"

definition scanBlocksSequential ::
    "'s batch_client \<Rightarrow> ('s \<Rightarrow> bool) \<Rightarrow> u64 \<Rightarrow> u64 \<Rightarrow> int \<Rightarrow> 's \<Rightarrow> (scan_answer \<times> 's) option" where
  "scanBlocksSequential bgb dn startBlock endBlock batchSize s =
     seq_loop bgb dn batchSize endBlock startBlock (0, 0) s"

section \<open>The parallel scan\<close>

text \<open>The batches, for \<open>i\<close> from \<open>i\<close> on: at most \<open>k\<close> more, until one would start past the end.\<close>

fun par_batches :: "u64 \<Rightarrow> u64 \<Rightarrow> int \<Rightarrow> nat \<Rightarrow> nat \<Rightarrow> (u64 \<times> u64) list" where
  "par_batches startBlock endBlock batchSize i 0 = []"
| "par_batches startBlock endBlock batchSize i (Suc k) =
     (let batchStart = startBlock + of_nat i * word_of_int batchSize in
      if batchStart > endBlock then []
      else (batchStart, MinUint64 (batchStart + word_of_int batchSize - 1) endBlock)
           # par_batches startBlock endBlock batchSize (Suc i) k)"

text \<open>
  One goroutine per batch; they make their calls in the order \<open>order\<close> (positions in the list of
  batches), which is also the order in which their results are received.
\<close>

definition par_call ::
    "'s batch_client \<Rightarrow> u64 \<times> u64 \<Rightarrow> 's \<Rightarrow> (scan_answer \<times> 's) option" where
  "par_call bgb b s =
     (let (batchStart, batchEnd) = b in
      Option.bind (block_numbers batchStart batchEnd) (\<lambda>ns.
        case bgb ns s of
          (Inl e, s') \<Rightarrow> Some ((0, 0, Some (batch_error batchStart batchEnd e)), s')
        | (Inr blocks, s') \<Rightarrow> (let c = count_blocks blocks (0, 0) in Some ((fst c, snd c, None), s'))))"

fun par_run :: "'s batch_client \<Rightarrow> (u64 \<times> u64) list \<Rightarrow> 's \<Rightarrow> (scan_answer list \<times> 's) option" where
  "par_run bgb [] s = Some ([], s)"
| "par_run bgb (b # bs) s =
     Option.bind (par_call bgb b s) (\<lambda>(a, s').
       Option.bind (par_run bgb bs s') (\<lambda>(as, s''). Some (a # as, s'')))"

text \<open>The collection of the results; \<open>dn i\<close>: the \<open>i\<close>-th select takes the done context.\<close>

fun par_collect :: "(nat \<Rightarrow> bool) \<Rightarrow> nat \<Rightarrow> scan_answer list \<Rightarrow> int \<times> int \<Rightarrow> scan_answer" where
  "par_collect dn i [] c = (fst c, snd c, None)"
| "par_collect dn i ((n, t, err) # as) c =
     (if dn i then (fst c, snd c, Some ctx_err)
      else case err of
        Some e \<Rightarrow> (fst c, snd c, Some e)
      | None \<Rightarrow> par_collect dn (Suc i) as (fst c + n, snd c + t))"

definition scanBlocksParallel ::
    "'s batch_client \<Rightarrow> (nat \<Rightarrow> bool) \<Rightarrow> (nat \<Rightarrow> nat list) \<Rightarrow> int \<Rightarrow> u64 \<Rightarrow> u64 \<Rightarrow> int \<Rightarrow> 's
      \<Rightarrow> (scan_answer \<times> 's) option" where
  "scanBlocksParallel bgb dn order parallelRequests startBlock endBlock batchSize s =
     (let parallelBatches = (if parallelRequests < 2 then 2 else parallelRequests);
          batches = par_batches startBlock endBlock batchSize 0 (nat parallelBatches)
      in Option.bind (par_run bgb (map (\<lambda>i. batches ! i) (order (length batches))) s)
           (\<lambda>(as, s'). Some (par_collect dn 0 as (0, 0), s')))"

section \<open>The choice between the two, and the task\<close>

record concurrency_config =
  co_max_workers_per_chain :: int
  co_batch_size :: int
  co_max_retries :: int
  co_retry_delay :: int
  co_parallel_requests :: int

definition scanBlocks ::
    "'s batch_client \<Rightarrow> ('s \<Rightarrow> bool) \<Rightarrow> (nat \<Rightarrow> bool) \<Rightarrow> (nat \<Rightarrow> nat list) \<Rightarrow> concurrency_config
      \<Rightarrow> u64 \<Rightarrow> u64 \<Rightarrow> 's \<Rightarrow> (scan_answer \<times> 's) option" where
  "scanBlocks bgb dn dnp order cfg startBlock endBlock s =
     (let batchSize = co_batch_size cfg;
          totalBlocks = sint (endBlock - startBlock + 1)
      in if totalBlocks \<le> 0 then
           Some ((0, 0, Some (Msg (''invalid block range: '' @ fmt_u64 startBlock @ '' to ''
             @ fmt_u64 endBlock))), s)
         else if totalBlocks \<le> wrap_i64 (batchSize * 2) then
           scanBlocksSequential bgb dn startBlock endBlock batchSize s
         else scanBlocksParallel bgb dnp order (co_parallel_requests cfg) startBlock endBlock batchSize s)"

record worker =
  wk_id :: string
  wk_current_task :: "scan_task option"
  wk_tasks_completed :: u64
  wk_tasks_failed :: u64

definition NewWorker :: "string \<Rightarrow> worker" where
  "NewWorker workerID =
     \<lparr>wk_id = workerID, wk_current_task = None, wk_tasks_completed = 0, wk_tasks_failed = 0\<rparr>"

text \<open>A send that does not wait: a full result queue drops the result.\<close>

definition try_send :: "nat \<Rightarrow> 'a \<Rightarrow> 'a list \<Rightarrow> 'a list" where
  "try_send cap x q = (if length q < cap then q @ [x] else q)"

definition task_result :: "scan_task \<Rightarrow> int \<Rightarrow> scan_answer \<Rightarrow> scan_result" where
  "task_result task dur a =
     (let (n, t, err) = a;
          r = \<lparr>sr_task = Some task, sr_task_id = '''', sr_chain_id = st_chain_id task,
               sr_start_block = st_start_block task, sr_end_block = st_end_block task,
               sr_blocks_scanned = 0, sr_txs_found = 0, sr_success = False, sr_error = None,
               sr_duration = 0\<rparr>
      in case err of
           Some e \<Rightarrow> r\<lparr>sr_error := Some e\<rparr>
         | None \<Rightarrow> r\<lparr>sr_success := True, sr_blocks_scanned := n, sr_txs_found := t, sr_duration := dur\<rparr>)"

definition processTask ::
    "(u64 \<Rightarrow> u64 \<Rightarrow> 's \<Rightarrow> (scan_answer \<times> 's) option) \<Rightarrow> nat \<Rightarrow> int \<Rightarrow> scan_task
      \<Rightarrow> worker \<times> scan_result list \<times> 's \<Rightarrow> (worker \<times> scan_result list \<times> 's) option" where
  "processTask scan cap dur task st =
     (let (w, q, s) = st; w = w\<lparr>wk_current_task := Some task\<rparr> in
      Option.bind (scan (st_start_block task) (st_end_block task) s) (\<lambda>(a, s').
        let w = (if snd (snd a) \<noteq> None then w\<lparr>wk_tasks_failed := wk_tasks_failed w + 1\<rparr>
                 else w\<lparr>wk_tasks_completed := wk_tasks_completed w + 1\<rparr>)
        in Some (w\<lparr>wk_current_task := None\<rparr>, try_send cap (task_result task dur a) q, s')))"

text \<open>What the select of \<open>Start\<close> can see.\<close>

datatype worker_event = CtxDone | QueueClosed | TaskReceived scan_task

fun Worker_Start ::
    "(u64 \<Rightarrow> u64 \<Rightarrow> 's \<Rightarrow> (scan_answer \<times> 's) option) \<Rightarrow> nat \<Rightarrow> int \<Rightarrow> worker_event list
      \<Rightarrow> worker \<times> scan_result list \<times> 's \<Rightarrow> (worker \<times> scan_result list \<times> 's) option" where
  "Worker_Start scan cap dur [] st = Some st"
| "Worker_Start scan cap dur (CtxDone # evs) st = Some st"
| "Worker_Start scan cap dur (QueueClosed # evs) st = Some st"
| "Worker_Start scan cap dur (TaskReceived t # evs) st =
     Option.bind (processTask scan cap dur t st) (Worker_Start scan cap dur evs)"

definition getCurrentTaskChainID :: "worker \<Rightarrow> string" where
  "getCurrentTaskChainID w =
     (case wk_current_task w of None \<Rightarrow> ''unknown'' | Some t \<Rightarrow> st_chain_id t)"

definition GetStats :: "worker \<Rightarrow> u64 \<times> u64" where
  "GetStats w = (wk_tasks_completed w, wk_tasks_failed w)"

section \<open>The loops end\<close>

lemma num_loop_blocks: "e \<noteq> max_u64 \<Longrightarrow> num_loop num e acc = Some (acc @ blocks_of num e)"
proof (induction "Suc (unat e) - unat num" arbitrary: num acc rule: less_induct)
  case less
  show ?case
  proof (cases "num \<le> e")
    case False
    then show ?thesis by (subst num_loop.simps) (simp add: blocks_of_empty)
  next
    case True
    then have ne: "num \<noteq> max_u64" using less.prems by (metis max_word_max order.antisym)
    then have "Suc (unat e) - unat (num + 1) < Suc (unat e) - unat num"
      using True by (simp add: unat_Suc_u64 word_le_nat_alt)
    from less.hyps [OF this less.prems] True ne show ?thesis
      by (subst num_loop.simps) (simp add: blocks_of_Cons)
  qed
qed

lemma block_numbers_blocks: "e \<noteq> max_u64 \<Longrightarrow> block_numbers s e = Some (blocks_of s e)"
  by (simp add: block_numbers_def num_loop_blocks)

text \<open>The end of a batch, in natural numbers, and how the rest of the interval goes on after it.\<close>

lemma batch_step:
  assumes "0 < bs" "unat hi + nat bs < 2 ^ 64" "lo \<le> hi"
    and "e = MinUint64 (lo + word_of_int bs - 1) hi"
  shows "e \<noteq> max_u64" "blocks_of lo e @ blocks_of (lo + word_of_int bs) hi = blocks_of lo hi"
    "blocks_of lo e \<noteq> []" "length (blocks_of lo e) \<le> nat bs"
    "Suc (unat hi) - unat (lo + word_of_int bs) < Suc (unat hi) - unat lo"
proof -
  define k where "k = nat bs"
  have k: "0 < k" "bs = int k" "k < 18446744073709551616" using assms(1,2) by (auto simp: k_def)
  have le: "unat lo \<le> unat hi" using assms(3) by (simp add: word_le_nat_alt)
  have hk: "unat hi + k < 18446744073709551616" using assms(2) by (simp add: k_def)
  have uk: "unat (word_of_int bs :: u64) = k" using k by (simp add: unat_of_nat_u64)
  then have up: "unat (lo + word_of_int bs) = unat lo + k"
    using hk le by (subst unat_plus_u64) simp_all
  then have um: "unat (lo + word_of_int bs - 1) = unat lo + k - 1"
    using k(1) by (subst unat_minus_u64) simp_all
  then have ue: "unat e = min (unat lo + k - 1) (unat hi)"
    by (auto simp: assms(4) MinUint64_def word_less_nat_alt)
  show "e \<noteq> max_u64" using ue hk k(1) by auto
  show "blocks_of lo e @ blocks_of (lo + word_of_int bs) hi = blocks_of lo hi"
  proof (cases "unat lo + k \<le> unat hi")
    case True
    then have "[unat lo..<Suc (unat hi)] = [unat lo..<unat lo + k] @ [unat lo + k..<Suc (unat hi)]"
      by (metis le_Suc_ex le_SucI le_add1 upt_add_eq_append)
    moreover have "Suc (unat e) = unat lo + k" using True ue k by simp
    ultimately show ?thesis by (simp add: blocks_of_def up del: upt_Suc)
  next
    case False
    then have "unat e = unat hi" using ue by simp
    then show ?thesis using False by (simp add: blocks_of_def up del: upt_Suc)
  qed
  show "blocks_of lo e \<noteq> []" "length (blocks_of lo e) \<le> nat bs"
    using ue le k(1) by (auto simp: blocks_of_def k_def [symmetric])
  show "Suc (unat hi) - unat (lo + word_of_int bs) < Suc (unat hi) - unat lo"
    using le k(1) by (simp add: up)
qed

text \<open>A client that also keeps the list of its calls.\<close>

definition logged :: "'s batch_client \<Rightarrow> ('s \<times> u64 list list) batch_client" where
  "logged bgb ns s = (let (r, s') = bgb ns (fst s) in (r, (s', snd s @ [ns])))"

lemma seq_loop_requests:
  assumes "0 < bs" "unat hi + nat bs < 2 ^ 64"
  shows "\<exists>n t err s' more rest.
    seq_loop (logged bgb) (\<lambda>s. dn (fst s)) bs hi lo c (s, log) = Some ((n, t, err), (s', log @ more))
    \<and> concat more @ rest = blocks_of lo hi \<and> (err = None \<longrightarrow> rest = [])
    \<and> (\<forall>ns \<in> set more. ns \<noteq> [] \<and> length ns \<le> nat bs)"
proof (induction "Suc (unat hi) - unat lo" arbitrary: lo c s log rule: less_induct)
  case less
  show ?case
  proof (cases "lo \<le> hi")
    case False
    then show ?thesis by (subst seq_loop.simps) (simp add: blocks_of_empty)
  next
    case True
    define e where "e = MinUint64 (lo + word_of_int bs - 1) hi"
    define ns where "ns = blocks_of lo e"
    define nx where "nx = lo + word_of_int bs"
    note b = batch_step [OF assms True e_def, folded ns_def nx_def]
    have num: "block_numbers lo e = Some ns" using b(1) by (simp add: block_numbers_blocks ns_def)
    obtain r s1 where call: "bgb ns s = (r, s1)" by fastforce
    let ?one = "\<exists>n t err s' more rest.
      seq_loop (logged bgb) (\<lambda>s. dn (fst s)) bs hi lo c (s, log) = Some ((n, t, err), (s', log @ more))
      \<and> concat more @ rest = blocks_of lo hi \<and> (err = None \<longrightarrow> rest = [])
      \<and> (\<forall>ns \<in> set more. ns \<noteq> [] \<and> length ns \<le> nat bs)"
    have stop: ?one
      if "seq_loop (logged bgb) (\<lambda>s. dn (fst s)) bs hi lo c (s, log)
        = Some ((n, t, Some x), (s1, log @ [ns]))" for n t x
      using that b by (intro exI [of _ n] exI [of _ t] exI [of _ "Some x"] exI [of _ s1] exI [of _ "[ns]"]
          exI [of _ "blocks_of nx hi"]) auto
    show ?thesis
    proof (cases r)
      case (Inl x)
      show ?thesis by (rule stop, subst seq_loop.simps)
          (simp add: True Let_def num call Inl logged_def flip: e_def)
    next
      case (Inr blocks)
      show ?thesis
      proof (cases "dn s1")
        case True
        show ?thesis by (rule stop, subst seq_loop.simps)
            (simp add: \<open>lo \<le> hi\<close> Let_def num call Inr True logged_def flip: e_def)
      next
        case False
        obtain n t err s' more rest where IH:
          "seq_loop (logged bgb) (\<lambda>s. dn (fst s)) bs hi nx (count_blocks blocks c) (s1, log @ [ns])
            = Some ((n, t, err), (s', (log @ [ns]) @ more))"
          "concat more @ rest = blocks_of nx hi" "err = None \<longrightarrow> rest = []"
          "\<forall>ns \<in> set more. ns \<noteq> [] \<and> length ns \<le> nat bs"
          using less [OF b(5)] by blast
        have "seq_loop (logged bgb) (\<lambda>s. dn (fst s)) bs hi lo c (s, log)
            = Some ((n, t, err), (s', log @ ns # more))"
          using IH(1) unfolding nx_def by (subst seq_loop.simps)
            (simp add: \<open>lo \<le> hi\<close> Let_def num call Inr False logged_def flip: e_def)
        then show ?thesis using IH(2-4) b
          by (intro exI [of _ n] exI [of _ t] exI [of _ err] exI [of _ s'] exI [of _ "ns # more"]
              exI [of _ rest]) auto
      qed
    qed
  qed
qed

text \<open>
  C37: The sequential scan always returns, and what it asks the client for is, in order and without
  overlap, an initial part of the blocks of the task in batches of at most the batch size: all of
  them when it returns no error.
\<close>

theorem scanBlocksSequential_requests:
  assumes "0 < bs" "unat hi + nat bs < 2 ^ 64"
  shows "\<exists>n t err s' reqs rest.
    scanBlocksSequential (logged bgb) (\<lambda>s. dn (fst s)) lo hi bs (s, []) = Some ((n, t, err), (s', reqs))
    \<and> concat reqs @ rest = blocks_of lo hi \<and> (err = None \<longrightarrow> rest = [])
    \<and> (\<forall>ns \<in> set reqs. ns \<noteq> [] \<and> length ns \<le> nat bs)"
  using seq_loop_requests [OF assms, of bgb dn lo "(0, 0)" s "[]"]
  by (simp add: scanBlocksSequential_def)

text \<open>A client that answers with the blocks of a chain.\<close>

definition chain_client :: "(u64 \<Rightarrow> block) \<Rightarrow> 's batch_client" where
  "chain_client chain ns s = (Inr (map (\<lambda>n. Some (chain n)) ns), s)"

theorem scanBlocksSequential_requests_witness:
  "\<exists>n t err s' reqs rest.
    scanBlocksSequential (logged (chain_client (\<lambda>n. mk_block n ''h'' ''p'' []))) (\<lambda>s. False) 10 14 2 ((), [])
      = Some ((n, t, err), (s', reqs))
    \<and> concat reqs @ rest = blocks_of 10 14 \<and> (err = None \<longrightarrow> rest = [])
    \<and> (\<forall>ns \<in> set reqs. ns \<noteq> [] \<and> length ns \<le> nat 2)"
  using scanBlocksSequential_requests [of 2 14 "chain_client (\<lambda>n. mk_block n ''h'' ''p'' [])" "\<lambda>s. False" 10 "()"]
  by simp

lemma count_blocks_append: "count_blocks (xs @ ys) c = count_blocks ys (count_blocks xs c)"
  by (induction xs c rule: count_blocks.induct) auto

lemma count_blocks_chain:
  "count_blocks (map (\<lambda>n. Some (chain n)) ns) c
    = (fst c + int (length ns), snd c + (\<Sum>n \<leftarrow> ns. int (length (blk_transactions (chain n)))))"
  by (induction ns arbitrary: c) (auto simp: prod_eq_iff split: prod.splits intro: prod.exhaust)

text \<open>A client in a state in which every batch is answered by what \<open>g\<close> gives for each number.\<close>

lemma seq_loop_serving:
  assumes "0 < bs" "unat hi + nat bs < 2 ^ 64" "\<not> dn s"
    and "\<And>ns. ns \<noteq> [] \<Longrightarrow> bgb ns s = (Inr (concat (map g ns)), s)"
  shows "seq_loop bgb dn bs hi lo c s
    = Some ((fst (count_blocks (concat (map g (blocks_of lo hi))) c),
             snd (count_blocks (concat (map g (blocks_of lo hi))) c), None), s)"
proof (induction "Suc (unat hi) - unat lo" arbitrary: lo c rule: less_induct)
  case less
  show ?case
  proof (cases "lo \<le> hi")
    case False
    then show ?thesis by (subst seq_loop.simps) (simp add: blocks_of_empty)
  next
    case True
    define e where "e = MinUint64 (lo + word_of_int bs - 1) hi"
    note b = batch_step [OF assms(1,2) True e_def]
    have "block_numbers lo e = Some (blocks_of lo e)" using b(1) by (simp add: block_numbers_blocks)
    then have "seq_loop bgb dn bs hi lo c s
        = seq_loop bgb dn bs hi (lo + word_of_int bs) (count_blocks (concat (map g (blocks_of lo e))) c) s"
      using True assms(3) assms(4) [OF b(3)] by (subst seq_loop.simps) (simp add: Let_def flip: e_def)
    also have "\<dots> = Some ((fst (count_blocks (concat (map g (blocks_of lo hi))) c),
             snd (count_blocks (concat (map g (blocks_of lo hi))) c), None), s)"
      by (simp only: less [OF b(5)] b(2) [symmetric] map_append concat_append count_blocks_append)
    finally show ?thesis .
  qed
qed

lemma seq_loop_counts:
  assumes "0 < bs" "unat hi + nat bs < 2 ^ 64" "\<not> dn s"
  shows "seq_loop (chain_client chain) dn bs hi lo c s
    = Some ((fst (count_blocks (map (\<lambda>n. Some (chain n)) (blocks_of lo hi)) c),
             snd (count_blocks (map (\<lambda>n. Some (chain n)) (blocks_of lo hi)) c), None), s)"
proof -
  have "concat (map (\<lambda>n. [Some (chain n)]) ns) = map (\<lambda>n. Some (chain n)) ns" for ns by (induction ns) auto
  then show ?thesis
    using seq_loop_serving [where bgb = "chain_client chain" and g = "\<lambda>n. [Some (chain n)]" and dn = dn and s = s,
        OF assms(1,2)] assms(3) by (simp add: chain_client_def)
qed

text \<open>
  Against a node that serves its chain, the sequential scan of a range reports no error, as many
  blocks as the range has and as many transactions as these blocks hold.
\<close>

theorem scanBlocksSequential_counts:
  assumes "0 < bs" "unat hi + nat bs < 2 ^ 64" "lo \<le> hi" "\<not> dn s"
  shows "scanBlocksSequential (chain_client chain) dn lo hi bs s
    = Some ((int (unat hi - unat lo + 1),
             \<Sum>n \<leftarrow> blocks_of lo hi. int (length (blk_transactions (chain n))), None), s)"
  using assms(3,4) seq_loop_counts [OF assms(1,2), of dn s chain lo "(0, 0)"]
  by (simp add: scanBlocksSequential_def count_blocks_chain word_le_nat_alt Suc_diff_le)

theorem scanBlocksSequential_counts_witness:
  "scanBlocksSequential (chain_client (\<lambda>n. mk_block n ''h'' ''p'' [mk_tx ''t'' n TxPending])) (\<lambda>s. False) 10 14 2 ()
    = Some ((5, 5, None), ())"
  using scanBlocksSequential_counts [of 2 14 10 "\<lambda>s. False" "()" "\<lambda>n. mk_block n ''h'' ''p'' [mk_tx ''t'' n TxPending]"]
  by (simp add: sum_list_triv)

section \<open>What the parallel scan leaves out\<close>

lemma par_batches_bound:
  "(a, b) \<in> set (par_batches lo hi bs i k) \<Longrightarrow> a \<le> hi \<and> b \<le> hi"
  by (induction lo hi bs i k rule: par_batches.induct)
    (auto simp: Let_def MinUint64_def not_less split: if_splits)

lemma par_batches_reach:
  assumes "0 < bs" "(i + k) * nat bs + unat lo < 2 ^ 64" "(a, b) \<in> set (par_batches lo hi bs i k)"
  shows "unat b < unat lo + (i + k) * nat bs"
  using assms(2,3)
proof (induction k arbitrary: i)
  case (Suc k)
  define st where "st = lo + of_nat i * word_of_int bs"
  from Suc.prems(2) consider "(a, b) = (st, MinUint64 (st + word_of_int bs - 1) hi)"
    | "(a, b) \<in> set (par_batches lo hi bs (Suc i) k)"
    by (auto simp: Let_def st_def split: if_splits)
  then show ?case
  proof cases
    case 1
    have less: "(i + Suc k) * nat bs + unat lo < 18446744073709551616" using Suc.prems(1) by simp
    have "i * nat bs + nat bs \<le> (i + Suc k) * nat bs" by (simp add: algebra_simps)
    then have fits: "i * nat bs + nat bs + unat lo < 18446744073709551616" using less by linarith
    have "(word_of_int bs :: u64) = of_nat (nat bs)" using assms(1) by simp
    moreover have "nat bs < 18446744073709551616" using fits by linarith
    ultimately have ub: "unat (word_of_int bs :: u64) = nat bs" by (simp only: unat_of_nat_u64)
    have "1 \<le> nat bs" using assms(1) by linarith
    then have "i \<le> i * nat bs" by simp
    then have ui: "unat (of_nat i :: u64) = i" using fits by (intro unat_of_nat_u64) linarith
    have "unat (of_nat i * word_of_int bs :: u64) = i * nat bs"
      using fits by (subst unat_times_u64) (simp_all add: ub ui)
    then have us: "unat st = unat lo + i * nat bs"
      using fits unfolding st_def by (subst unat_plus_u64) simp_all
    then have "unat (st + word_of_int bs) = unat lo + i * nat bs + nat bs"
      using fits by (subst unat_plus_u64) (simp_all add: ub)
    then have "unat (st + word_of_int bs - 1) = unat lo + i * nat bs + nat bs - 1"
      using assms(1) by (subst unat_minus_u64) simp_all
    moreover have "unat b \<le> unat (st + word_of_int bs - 1)"
      using 1 by (auto simp: MinUint64_def word_less_nat_alt)
    ultimately have "unat b < unat lo + (i * nat bs + nat bs)" using assms(1) by linarith
    then show ?thesis using \<open>i * nat bs + nat bs \<le> (i + Suc k) * nat bs\<close> by linarith
  next
    case 2
    then show ?thesis using Suc.IH [of "Suc i"] Suc.prems(1) by simp
  qed
qed simp

definition small_config :: concurrency_config where
  "small_config = \<lparr>co_max_workers_per_chain = 1, co_batch_size = 2, co_max_retries = 3,
     co_retry_delay = 10 ^ 9, co_parallel_requests = 2\<rparr>"

lemma small_config_simps [simp]:
  "co_batch_size small_config = 2" "co_parallel_requests small_config = 2"
  "co_max_retries small_config = 3" "co_retry_delay small_config = 10 ^ 9"
  "co_max_workers_per_chain small_config = 1"
  by (simp_all add: small_config_def)

text \<open>
  The parallel scan asks for the first \<open>parallelRequests * batchSize\<close> blocks only. Here is a range
  of 10 blocks of which it scans 4 and reports success.
\<close>

lemma scanBlocks_parallel_partial:
  "scanBlocks (chain_client (\<lambda>n. mk_block n ''h'' ''p'' [])) (\<lambda>s. False) (\<lambda>i. False) (\<lambda>k. [0..<k])
     small_config 1 10 ()
   = Some ((4, 0, None), ())"
proof -
  have "block_numbers 1 2 = Some [1, 2]" "block_numbers 3 4 = Some [3, 4]"
    by (simp_all add: block_numbers_def num_loop.simps)
  moreover have "par_batches 1 10 2 0 2 = [(1, 2), (3, 4)]" by code_simp
  ultimately show ?thesis
    by (simp add: scanBlocks_def scanBlocksParallel_def wrap_i64_id par_call_def chain_client_def Let_def
        upt_rec numeral_2_eq_2)
qed

text \<open>
  A task of at most twice the batch size is scanned in sequence, so everything the sequential
  scan guarantees holds for it: \<open>scanBlocks\<close> returns, and if it reports no error it has asked for
  every block of the task exactly once and in order.
\<close>

theorem scanBlocks_small:
  assumes "0 < co_batch_size cfg" "co_batch_size cfg < 2 ^ 62" "lo \<le> hi"
    and "unat hi + nat (co_batch_size cfg) < 2 ^ 64"
    and "int (unat hi - unat lo + 1) \<le> 2 * co_batch_size cfg"
  shows "\<exists>n t err s' reqs rest.
    scanBlocks (logged bgb) (\<lambda>s. dn (fst s)) dnp order cfg lo hi (s, []) = Some ((n, t, err), (s', reqs))
    \<and> concat reqs @ rest = blocks_of lo hi \<and> (err = None \<longrightarrow> rest = [])"
proof -
  have le: "unat lo \<le> unat hi" using assms(3) by (simp add: word_le_nat_alt)
  have small: "unat hi - unat lo + 1 < 9223372036854775808" using assms(2,5) by simp
  have "unat (hi - lo + 1) = unat hi - unat lo + 1"
    using le small by (subst unat_plus_u64) (simp_all add: unat_minus_u64)
  then have "sint (hi - lo + 1) = int (unat hi - unat lo + 1)" using small by (simp add: sint_u64)
  then have "scanBlocks (logged bgb) (\<lambda>s. dn (fst s)) dnp order cfg lo hi (s, [])
      = scanBlocksSequential (logged bgb) (\<lambda>s. dn (fst s)) lo hi (co_batch_size cfg) (s, [])"
    using assms(1,2,5) by (simp add: scanBlocks_def wrap_i64_id)
  then show ?thesis using scanBlocksSequential_requests [OF assms(1,4), of bgb dn lo s] by simp metis
qed

theorem scanBlocks_small_witness:
  "\<exists>n t err s' reqs rest.
    scanBlocks (logged (chain_client (\<lambda>n. mk_block n ''h'' ''p'' []))) (\<lambda>s. False) (\<lambda>i. False) (\<lambda>k. [0..<k])
     small_config 1 4 ((), []) = Some ((n, t, err), (s', reqs))
    \<and> concat reqs @ rest = blocks_of 1 4 \<and> (err = None \<longrightarrow> rest = [])"
  using scanBlocks_small [of "small_config" 1 4
      "chain_client (\<lambda>n. mk_block n ''h'' ''p'' [])" "\<lambda>s. False" "\<lambda>i. False" "\<lambda>k. [0..<k]" "()"]
  by simp

end
