(* ===== verification/Locks.thy ===== *)
theory Locks
  imports Prelude
begin

text \<open>
  \<open>pkg/lock/lock.go\<close>: the Redis lock and its manager. The Redis server is a parameter, the
  record \<open>'r redis\<close> of the commands the code sends, over a state \<open>'r\<close> that the code does not see;
  \<open>redis_laws\<close> states their documented behaviour. The two Lua scripts are code of the repository,
  so they are translated (over the parameter's commands) and run by \<open>rd_eval\<close>. The contract that a
  client of the lock relies on is the locale \<open>scoped_lock\<close>.
\<close>

section \<open>Redis\<close>

record 'r redis =
  rd_setnx :: "string \<Rightarrow> string \<Rightarrow> int \<Rightarrow> 'r \<Rightarrow> (go_error + bool) \<times> 'r"
  rd_eval :: "('r \<Rightarrow> int \<times> 'r) \<Rightarrow> 'r \<Rightarrow> (go_error + int) \<times> 'r"
  rd_get :: "string \<Rightarrow> 'r \<Rightarrow> string option"
  rd_del :: "string \<Rightarrow> 'r \<Rightarrow> int \<times> 'r"
  rd_expire :: "string \<Rightarrow> int \<Rightarrow> 'r \<Rightarrow> int \<times> 'r"
  rd_exists :: "string \<Rightarrow> 'r \<Rightarrow> go_error + int"

text \<open>
  SET NX sets a missing key and nothing else; a script runs as one step; DEL and EXPIRE return 1
  for a key that is there, 0 otherwise, and EXPIRE with a time that is not positive deletes the
  key; a command that reports an error has not been carried out.
\<close>

definition setnx_law :: "'r redis \<Rightarrow> bool" where
  "setnx_law R \<longleftrightarrow> (\<forall>k v t r.
     (case rd_setnx R k v t r of
        (Inl e, r') \<Rightarrow> (\<forall>k'. rd_get R k' r' = rd_get R k' r)
      | (Inr b, r') \<Rightarrow> b = (rd_get R k r = None)
          \<and> (\<forall>k'. rd_get R k' r' = (if b \<and> k' = k then Some v else rd_get R k' r))))"

definition eval_law :: "'r redis \<Rightarrow> bool" where
  "eval_law R \<longleftrightarrow> (\<forall>script r.
     (case rd_eval R script r of
        (Inl e, r') \<Rightarrow> (\<forall>k. rd_get R k r' = rd_get R k r)
      | (Inr n, r') \<Rightarrow> (n, r') = script r))"

definition del_law :: "'r redis \<Rightarrow> bool" where
  "del_law R \<longleftrightarrow> (\<forall>k r.
     fst (rd_del R k r) = (if rd_get R k r = None then 0 else 1)
     \<and> (\<forall>k'. rd_get R k' (snd (rd_del R k r)) = (if k' = k then None else rd_get R k' r)))"

definition expire_law :: "'r redis \<Rightarrow> bool" where
  "expire_law R \<longleftrightarrow> (\<forall>k t r.
     fst (rd_expire R k t r) = (if rd_get R k r = None then 0 else 1)
     \<and> (\<forall>k'. rd_get R k' (snd (rd_expire R k t r))
             = (if k' = k \<and> t \<le> 0 then None else rd_get R k' r)))"

definition redis_laws :: "'r redis \<Rightarrow> bool" where
  "redis_laws R \<longleftrightarrow> setnx_law R \<and> eval_law R \<and> del_law R \<and> expire_law R"

section \<open>The lock\<close>

definition ErrLockNotHeld :: go_error where "ErrLockNotHeld = Msg ''lock not held''"
definition ErrLockExpired :: go_error where "ErrLockExpired = Msg ''lock expired''"
definition ErrLockConflict :: go_error where "ErrLockConflict = Msg ''lock conflict''"

record redis_lock =
  lk_key :: string
  lk_value :: string
  lk_ttl :: int
  lk_locked :: bool

definition generateLockValue :: "int \<Rightarrow> string" where
  "generateLockValue now = fmt_int now"

definition NewRedisLock :: "int \<Rightarrow> string \<Rightarrow> int \<Rightarrow> redis_lock" where
  "NewRedisLock now key ttl =
     \<lparr>lk_key = key, lk_value = generateLockValue now, lk_ttl = ttl, lk_locked = False\<rparr>"

definition RedisLock_Lock ::
    "'r redis \<Rightarrow> redis_lock \<times> 'r \<Rightarrow> go_error option \<times> redis_lock \<times> 'r" where
  "RedisLock_Lock R s =
     (let (l, r) = s in
      case rd_setnx R (lk_key l) (lk_value l) (lk_ttl l) r of
        (Inl e, r') \<Rightarrow> (Some (Wrap ''failed to acquire lock'' e), l, r')
      | (Inr ok, r') \<Rightarrow>
          if \<not> ok then (Some ErrLockConflict, l, r') else (None, l\<lparr>lk_locked := True\<rparr>, r'))"

definition unlock_script :: "'r redis \<Rightarrow> string \<Rightarrow> string \<Rightarrow> 'r \<Rightarrow> int \<times> 'r" where
  "unlock_script R k v r = (if rd_get R k r = Some v then rd_del R k r else (0, r))"

definition RedisLock_Unlock ::
    "'r redis \<Rightarrow> redis_lock \<times> 'r \<Rightarrow> go_error option \<times> redis_lock \<times> 'r" where
  "RedisLock_Unlock R s =
     (let (l, r) = s in
      if \<not> lk_locked l then (Some ErrLockNotHeld, l, r)
      else case rd_eval R (unlock_script R (lk_key l) (lk_value l)) r of
        (Inl e, r') \<Rightarrow> (Some (Wrap ''failed to release lock'' e), l, r')
      | (Inr n, r') \<Rightarrow>
          if n = 0 then (Some ErrLockNotHeld, l, r') else (None, l\<lparr>lk_locked := False\<rparr>, r'))"

definition extend_script :: "'r redis \<Rightarrow> string \<Rightarrow> string \<Rightarrow> int \<Rightarrow> 'r \<Rightarrow> int \<times> 'r" where
  "extend_script R k v t r = (if rd_get R k r = Some v then rd_expire R k t r else (0, r))"

text \<open>\<open>int(ttl.Seconds())\<close> of a duration in nanoseconds.\<close>

definition RedisLock_Extend ::
    "'r redis \<Rightarrow> int \<Rightarrow> redis_lock \<times> 'r \<Rightarrow> go_error option \<times> redis_lock \<times> 'r" where
  "RedisLock_Extend R ttl s =
     (let (l, r) = s in
      if \<not> lk_locked l then (Some ErrLockNotHeld, l, r)
      else case rd_eval R (extend_script R (lk_key l) (lk_value l) (go_quot ttl (10 ^ 9))) r of
        (Inl e, r') \<Rightarrow> (Some (Wrap ''failed to extend lock'' e), l, r')
      | (Inr n, r') \<Rightarrow>
          if n = 0 then (Some ErrLockNotHeld, l, r') else (None, l\<lparr>lk_ttl := ttl\<rparr>, r'))"

definition RedisLock_IsLocked :: "'r redis \<Rightarrow> redis_lock \<times> 'r \<Rightarrow> go_error + bool" where
  "RedisLock_IsLocked R s =
     (case rd_exists R (lk_key (fst s)) (snd s) of
        Inl e \<Rightarrow> Inl (Wrap ''failed to check lock status'' e)
      | Inr n \<Rightarrow> Inr (n > 0))"

section \<open>The manager\<close>

record lock_manager =
  lmg_default_ttl :: int

definition NewLockManager :: "int \<Rightarrow> lock_manager" where
  "NewLockManager defaultTTL = \<lparr>lmg_default_ttl = defaultTTL\<rparr>"

definition CreateLock :: "lock_manager \<Rightarrow> int \<Rightarrow> string \<Rightarrow> redis_lock" where
  "CreateLock m now key = NewRedisLock now key (lmg_default_ttl m)"

definition CreateLockWithTTL :: "lock_manager \<Rightarrow> int \<Rightarrow> string \<Rightarrow> int \<Rightarrow> redis_lock" where
  "CreateLockWithTTL m now key ttl = NewRedisLock now key ttl"

definition TryLock ::
    "'r redis \<Rightarrow> lock_manager \<Rightarrow> int \<Rightarrow> string \<Rightarrow> 'r \<Rightarrow> (go_error + redis_lock) \<times> 'r" where
  "TryLock R m now key r =
     (case RedisLock_Lock R (CreateLock m now key, r) of
        (Some e, l, r') \<Rightarrow> (Inl e, r')
      | (None, l, r') \<Rightarrow> (Inr l, r'))"

text \<open>
  \<open>LockWithRetry\<close>: attempt \<open>i\<close> creates its lock at time \<open>now i\<close>, and \<open>done i\<close> tells whether the
  select after a failed attempt sees the context cancelled. The result may be no lock and no error,
  so it is a pair of options.
\<close>

fun lock_retry_loop ::
    "'r redis \<Rightarrow> lock_manager \<Rightarrow> string \<Rightarrow> (nat \<Rightarrow> int) \<Rightarrow> (nat \<Rightarrow> bool) \<Rightarrow> nat \<Rightarrow> nat
      \<Rightarrow> go_error option \<Rightarrow> 'r \<Rightarrow> (redis_lock option \<times> go_error option) \<times> 'r" where
  "lock_retry_loop R m key now dn i 0 lastErr r = ((None, lastErr), r)"
| "lock_retry_loop R m key now dn i (Suc k) lastErr r =
     (case RedisLock_Lock R (CreateLock m (now i) key, r) of
        (None, l, r') \<Rightarrow> ((Some l, None), r')
      | (Some e, l, r') \<Rightarrow>
          if dn i then ((None, Some ctx_err), r')
          else lock_retry_loop R m key now dn (Suc i) k (Some e) r')"

definition LockWithRetry ::
    "'r redis \<Rightarrow> lock_manager \<Rightarrow> string \<Rightarrow> int \<Rightarrow> (nat \<Rightarrow> int) \<Rightarrow> (nat \<Rightarrow> bool) \<Rightarrow> 'r
      \<Rightarrow> (redis_lock option \<times> go_error option) \<times> 'r" where
  "LockWithRetry R m key maxRetries now dn r =
     lock_retry_loop R m key now dn 0 (nat maxRetries) None r"

definition GenerateBlockLockKey :: "string \<Rightarrow> u64 \<Rightarrow> string" where
  "GenerateBlockLockKey chainID blockNumber =
     ''lock:block:'' @ chainID @ '':'' @ fmt_u64 blockNumber"

definition GenerateChainLockKey :: "string \<Rightarrow> string" where
  "GenerateChainLockKey chainID = ''lock:chain:'' @ chainID"

definition GenerateShardLockKey :: "string \<Rightarrow> int \<Rightarrow> string" where
  "GenerateShardLockKey chainID shardID = ''lock:shard:'' @ chainID @ '':'' @ fmt_int shardID"

definition GenerateReorgLockKey :: "string \<Rightarrow> string" where
  "GenerateReorgLockKey chainID = ''lock:reorg:'' @ chainID"

definition GenerateWatermarkLockKey :: "string \<Rightarrow> string" where
  "GenerateWatermarkLockKey chainID = ''lock:watermark:'' @ chainID"

section \<open>What each operation does to the key\<close>

lemmas lock_defs = RedisLock_Lock_def RedisLock_Unlock_def RedisLock_Extend_def

lemma setnx_cases:
  assumes "redis_laws R" "rd_setnx R k v t r = (res, r')"
  shows "(\<exists>e. res = Inl e \<and> (\<forall>k'. rd_get R k' r' = rd_get R k' r))
    \<or> (res = Inr False \<and> rd_get R k r \<noteq> None \<and> (\<forall>k'. rd_get R k' r' = rd_get R k' r))
    \<or> (res = Inr True \<and> rd_get R k r = None
       \<and> (\<forall>k'. rd_get R k' r' = (if k' = k then Some v else rd_get R k' r)))"
proof -
  have "case rd_setnx R k v t r of
        (Inl e, r') \<Rightarrow> (\<forall>k'. rd_get R k' r' = rd_get R k' r)
      | (Inr b, r') \<Rightarrow> b = (rd_get R k r = None)
          \<and> (\<forall>k'. rd_get R k' r' = (if b \<and> k' = k then Some v else rd_get R k' r))"
    using assms(1) by (simp add: redis_laws_def setnx_law_def)
  then show ?thesis using assms(2) by (cases res) (auto split: if_splits)
qed

lemma eval_cases:
  assumes "redis_laws R" "rd_eval R script r = (res, r')"
  shows "(\<exists>e. res = Inl e \<and> (\<forall>k. rd_get R k r' = rd_get R k r))
    \<or> (\<exists>n. res = Inr n \<and> script r = (n, r'))"
proof -
  have "case rd_eval R script r of
      (Inl e, r') \<Rightarrow> (\<forall>k. rd_get R k r' = rd_get R k r) | (Inr n, r') \<Rightarrow> (n, r') = script r"
    using assms(1) by (simp add: redis_laws_def eval_law_def)
  then show ?thesis using assms(2) by (cases res) auto
qed

lemma Lock_key:
  assumes "redis_laws R" "RedisLock_Lock R (l, r) = (res, l', r')"
  shows "(res = None \<and> l' = l\<lparr>lk_locked := True\<rparr> \<and> rd_get R (lk_key l) r = None
      \<and> (\<forall>k. rd_get R k r' = (if k = lk_key l then Some (lk_value l) else rd_get R k r)))
    \<or> (res \<noteq> None \<and> l' = l \<and> (\<forall>k. rd_get R k r' = rd_get R k r))"
proof -
  obtain res0 r0 where s: "rd_setnx R (lk_key l) (lk_value l) (lk_ttl l) r = (res0, r0)" by fastforce
  from setnx_cases [OF assms(1) s] assms(2) s show ?thesis
    by (auto simp: RedisLock_Lock_def)
qed

lemma Unlock_key:
  assumes "redis_laws R" "RedisLock_Unlock R (l, r) = (res, l', r')"
  shows "(res = None \<and> lk_locked l \<and> l' = l\<lparr>lk_locked := False\<rparr> \<and> rd_get R (lk_key l) r = Some (lk_value l)
      \<and> (\<forall>k. rd_get R k r' = (if k = lk_key l then None else rd_get R k r)))
    \<or> (res \<noteq> None \<and> l' = l \<and> (\<forall>k. rd_get R k r' = rd_get R k r))"
proof (cases "lk_locked l")
  case False
  then show ?thesis using assms(2) by (auto simp: RedisLock_Unlock_def)
next
  case True
  obtain res0 r0 where s: "rd_eval R (unlock_script R (lk_key l) (lk_value l)) r = (res0, r0)" by fastforce
  let ?k = "lk_key l"
  have del: "fst (rd_del R ?k r) = (if rd_get R ?k r = None then 0 else 1)"
    "\<forall>k'. rd_get R k' (snd (rd_del R ?k r)) = (if k' = ?k then None else rd_get R k' r)"
    using assms(1) by (simp_all add: redis_laws_def del_law_def)
  from eval_cases [OF assms(1) s] assms(2) s True show ?thesis
    using del
    by (cases "rd_del R (lk_key l) r") (auto simp: RedisLock_Unlock_def unlock_script_def split: if_splits)
qed

lemma Extend_key:
  assumes "redis_laws R" "RedisLock_Extend R ttl (l, r) = (res, l', r')"
  shows "(res = None \<and> lk_locked l \<and> l' = l\<lparr>lk_ttl := ttl\<rparr> \<and> rd_get R (lk_key l) r = Some (lk_value l)
      \<and> (\<forall>k. rd_get R k r' = (if k = lk_key l \<and> go_quot ttl (10 ^ 9) \<le> 0 then None else rd_get R k r)))
    \<or> (res \<noteq> None \<and> l' = l \<and> (\<forall>k. rd_get R k r' = rd_get R k r))"
proof (cases "lk_locked l")
  case False
  then show ?thesis using assms(2) by (auto simp: RedisLock_Extend_def)
next
  case True
  let ?t = "go_quot ttl (10 ^ 9)"
  obtain res0 r0 where s: "rd_eval R (extend_script R (lk_key l) (lk_value l) ?t) r = (res0, r0)"
    by fastforce
  let ?k = "lk_key l"
  have ex: "fst (rd_expire R ?k ?t r) = (if rd_get R ?k r = None then 0 else 1)"
    "\<forall>k'. rd_get R k' (snd (rd_expire R ?k ?t r))
      = (if k' = ?k \<and> ?t \<le> 0 then None else rd_get R k' r)"
    using assms(1) by (simp_all add: redis_laws_def expire_law_def)
  from eval_cases [OF assms(1) s] assms(2) s True show ?thesis
    using ex
    by (cases "rd_expire R (lk_key l) ?t r")
      (auto simp: RedisLock_Extend_def extend_script_def split: if_splits)
qed

section \<open>Several processes\<close>

text \<open>
  Locks \<open>ls i\<close> of processes that share one Redis; a step is one operation of one of them. Keys do
  not run out of time in these runs, and a lock is extended by at least a second.
\<close>

inductive lock_step ::
    "'r redis \<Rightarrow> (nat \<Rightarrow> redis_lock) \<times> 'r \<Rightarrow> (nat \<Rightarrow> redis_lock) \<times> 'r \<Rightarrow> bool" for R where
  do_lock: "RedisLock_Lock R (ls i, r) = (e, l, r') \<Longrightarrow> lock_step R (ls, r) (ls(i := l), r')"
| do_unlock: "RedisLock_Unlock R (ls i, r) = (e, l, r') \<Longrightarrow> lock_step R (ls, r) (ls(i := l), r')"
| do_extend: "10 ^ 9 \<le> ttl \<Longrightarrow> RedisLock_Extend R ttl (ls i, r) = (e, l, r')
    \<Longrightarrow> lock_step R (ls, r) (ls(i := l), r')"

inductive lock_run ::
    "'r redis \<Rightarrow> (nat \<Rightarrow> redis_lock) \<times> 'r \<Rightarrow> (nat \<Rightarrow> redis_lock) \<times> 'r \<Rightarrow> bool" for R where
  run_refl: "lock_run R s s"
| run_step: "lock_run R s s' \<Longrightarrow> lock_step R s' s'' \<Longrightarrow> lock_run R s s''"

definition locks_ok :: "'r redis \<Rightarrow> (nat \<Rightarrow> redis_lock) \<times> 'r \<Rightarrow> bool" where
  "locks_ok R s \<longleftrightarrow> (\<forall>i j. lk_value (fst s i) = lk_value (fst s j) \<longrightarrow> i = j)
     \<and> (\<forall>i. lk_locked (fst s i) \<longrightarrow> rd_get R (lk_key (fst s i)) (snd s) = Some (lk_value (fst s i)))"

lemma locks_ok_upd:
  assumes "locks_ok R (ls, r)" "lk_key l = lk_key (ls i)" "lk_value l = lk_value (ls i)"
    and "lk_locked l \<Longrightarrow> rd_get R (lk_key (ls i)) r' = Some (lk_value (ls i))"
    and "\<And>j. j \<noteq> i \<Longrightarrow> lk_locked (ls j) \<Longrightarrow> rd_get R (lk_key (ls j)) r' = rd_get R (lk_key (ls j)) r"
  shows "locks_ok R (ls(i := l), r')"
proof -
  have same: "lk_value ((ls(i := l)) j) = lk_value (ls j)" for j using assms(3) by simp
  have "rd_get R (lk_key ((ls(i := l)) j)) r' = Some (lk_value ((ls(i := l)) j))"
    if "lk_locked ((ls(i := l)) j)" for j
    using that assms by (cases "j = i") (auto simp: locks_ok_def)
  with assms(1) show ?thesis unfolding locks_ok_def fst_conv snd_conv same by blast
qed

lemma ttl_second: "(10 :: int) ^ 9 \<le> ttl \<Longrightarrow> 0 < go_quot ttl (10 ^ 9)"
proof -
  assume "(10 :: int) ^ 9 \<le> ttl"
  then have "0 \<le> ttl" "1 * 10 ^ 9 \<le> ttl" by simp_all
  then show ?thesis by (simp only: go_quot_pos zero_less_power zero_less_numeral)
      (simp add: pos_imp_zdiv_pos_iff)
qed

lemma locks_ok_step:
  assumes "redis_laws R" "lock_step R s s'" "locks_ok R s"
  shows "locks_ok R s'"
  using assms(2,3)
proof (cases rule: lock_step.cases)
  case (do_lock ls i r e l r')
  from Lock_key [OF assms(1) do_lock(3)] show ?thesis unfolding do_lock(2)
    by (rule disjE; intro locks_ok_upd) (use assms(3) do_lock(1) in \<open>auto simp: locks_ok_def\<close>)
next
  case (do_unlock ls i r e l r')
  have ne: "rd_get R (lk_key (ls j)) r \<noteq> Some (lk_value (ls i))" if "j \<noteq> i" "lk_locked (ls j)" for j
    using that assms(3) do_unlock(1) by (auto simp: locks_ok_def)
  from Unlock_key [OF assms(1) do_unlock(3)] show ?thesis unfolding do_unlock(2)
    by (rule disjE; intro locks_ok_upd)
      (use assms(3) do_unlock(1) ne in \<open>auto simp: locks_ok_def\<close>)
next
  case (do_extend ttl ls i r e l r')
  from Extend_key [OF assms(1) do_extend(4)] ttl_second [OF do_extend(3)] show ?thesis
    unfolding do_extend(2)
    by (elim disjE; intro locks_ok_upd) (use assms(3) do_extend(1) in \<open>auto simp: locks_ok_def\<close>)
qed

lemma locks_ok_run: "lock_run R s s' \<Longrightarrow> redis_laws R \<Longrightarrow> locks_ok R s \<Longrightarrow> locks_ok R s'"
  by (induction rule: lock_run.induct) (auto intro: locks_ok_step)

lemma lock_step_keys: "lock_step R s s' \<Longrightarrow> lk_key (fst s' i) = lk_key (fst s i)"
  by (erule lock_step.cases)
    (auto simp: lock_defs split: prod.splits sum.splits if_splits)


text \<open>An in-memory Redis for the examples.\<close>

definition mem_redis :: "(string \<Rightarrow> string option) redis" where
  "mem_redis =
     \<lparr>rd_setnx = (\<lambda>k v t r. if r k = None then (Inr True, r(k := Some v)) else (Inr False, r)),
      rd_eval = (\<lambda>script r. let (n, r') = script r in (Inr n, r')),
      rd_get = (\<lambda>k r. r k),
      rd_del = (\<lambda>k r. (if r k = None then 0 else 1, r(k := None))),
      rd_expire = (\<lambda>k t r. (if r k = None then 0 else 1, if t \<le> 0 then r(k := None) else r)),
      rd_exists = (\<lambda>k r. Inr (if r k = None then 0 else 1))\<rparr>"

lemma mem_redis_laws: "redis_laws mem_redis"
  by (auto simp: redis_laws_def setnx_law_def eval_law_def del_law_def expire_law_def mem_redis_def
      Let_def split: prod.splits)

definition lock_of :: "nat \<Rightarrow> redis_lock" where
  "lock_of i = NewRedisLock (int i) ''k'' (30 * 10 ^ 9)"

lemma inj_lock_of: "inj (\<lambda>i. lk_value (lock_of i))"
  by (rule injI) (simp add: lock_of_def NewRedisLock_def generateLockValue_def fmt_int_def fmt_nat_inject)

lemma lock_of_run:
  "lock_run mem_redis (lock_of, \<lambda>k. None)
     (lock_of(0 := (lock_of 0)\<lparr>lk_locked := True\<rparr>), (\<lambda>k. None)(''k'' := Some (lk_value (lock_of 0))))"
  by (rule run_step [OF run_refl], rule do_lock [where i = 0])
    (simp add: RedisLock_Lock_def mem_redis_def lock_of_def NewRedisLock_def)


text \<open>
  Whatever happened before (the key may have expired and been taken by another process),
  \<open>Unlock\<close> removes the key only if it still holds the lock's own value: another value stays.
\<close>

theorem RedisLock_Unlock_own:
  assumes "redis_laws R" "rd_get R k r = Some v" "v \<noteq> lk_value l \<or> k \<noteq> lk_key l"
    and "RedisLock_Unlock R (l, r) = (e, l', r')"
  shows "rd_get R k r' = Some v"
  using Unlock_key [OF assms(1,4)] assms(2,3) by auto

theorem RedisLock_Unlock_own_witness:
  "fst (RedisLock_Unlock mem_redis ((lock_of 0)\<lparr>lk_locked := True\<rparr>, [''k'' \<mapsto> ''other'']))
      = Some ErrLockNotHeld
    \<and> rd_get mem_redis ''k'' (snd (snd (RedisLock_Unlock mem_redis
        ((lock_of 0)\<lparr>lk_locked := True\<rparr>, [''k'' \<mapsto> ''other''])))) = Some ''other''"
proof
  let ?l = "(lock_of 0)\<lparr>lk_locked := True\<rparr>" and ?r = "[''k'' \<mapsto> ''other''] :: string \<Rightarrow> string option"
  have v: "''other'' \<noteq> lk_value ?l"
    by (simp add: lock_of_def NewRedisLock_def generateLockValue_def fmt_int_def fmt_nat.simps digit_char_def)
  then show "fst (RedisLock_Unlock mem_redis (?l, ?r)) = Some ErrLockNotHeld"
    by (simp add: RedisLock_Unlock_def mem_redis_def unlock_script_def)
  obtain e l' r' where u: "RedisLock_Unlock mem_redis (?l, ?r) = (e, l', r')"
    by (cases "RedisLock_Unlock mem_redis (?l, ?r)") auto
  have "rd_get mem_redis ''k'' ?r = Some ''other''" by (simp add: mem_redis_def)
  from RedisLock_Unlock_own [OF mem_redis_laws this _ u] v
  show "rd_get mem_redis ''k'' (snd (snd (RedisLock_Unlock mem_redis (?l, ?r)))) = Some ''other''"
    by (simp add: u)
qed

text \<open>
  Extending by less than a second sends \<open>EXPIRE key 0\<close>: the lock is reported extended and stays
  \<open>locked\<close>, and its key is gone, so another process can take it.
\<close>

lemma Extend_below_second:
  assumes "redis_laws R" "0 \<le> ttl" "ttl < 10 ^ 9" "RedisLock_Extend R ttl (l, r) = (None, l', r')"
  shows "lk_locked l' \<and> rd_get R (lk_key l) r' = None"
proof -
  have "go_quot ttl (10 ^ 9) \<le> 0" using assms(2,3) by (simp add: go_quot_def sgn_if)
  then show ?thesis using Extend_key [OF assms(1,4)] by auto
qed

text \<open>With no attempt allowed, \<open>LockWithRetry\<close> returns neither a lock nor an error.\<close>

lemma LockWithRetry_none: "n \<le> 0 \<Longrightarrow> LockWithRetry R m key n now dn r = ((None, None), r)"
  by (simp add: LockWithRetry_def)

text \<open>Otherwise it returns exactly one of the two, and a returned lock is held.\<close>

lemma lock_retry_loop_result:
  "lock_retry_loop R m key now dn i k lastErr r = ((lk, e), r') \<Longrightarrow> lk = None \<longrightarrow> 0 < k \<or> lastErr \<noteq> None
    \<Longrightarrow> (lk = None) = (e \<noteq> None) \<and> (\<forall>l. lk = Some l \<longrightarrow> lk_locked l)"
proof (induction k arbitrary: i lastErr r)
  case (Suc k)
  then show ?case
    by (auto simp: RedisLock_Lock_def Let_def split: prod.splits option.splits sum.splits if_splits)
qed auto

text \<open>
  With at least one attempt \<open>LockWithRetry\<close> returns a lock or an error, never both and never
  neither, and a lock it returns is held.
\<close>

theorem LockWithRetry_result:
  assumes "0 < n" "LockWithRetry R m key n now dn r = ((lk, e), r')"
  shows "(lk = None) = (e \<noteq> None) \<and> (\<forall>l. lk = Some l \<longrightarrow> lk_locked l)"
  using lock_retry_loop_result [OF assms(2) [unfolded LockWithRetry_def]] assms(1) by simp

lemma LockWithRetry_one:
  "LockWithRetry mem_redis \<lparr>lmg_default_ttl = 30 * 10 ^ 9\<rparr> ''k'' 1 int (\<lambda>i. False) (\<lambda>k. None)
    = ((Some ((lock_of 0)\<lparr>lk_locked := True\<rparr>), None), [''k'' \<mapsto> lk_value (lock_of 0)])"
  by (simp add: LockWithRetry_def RedisLock_Lock_def mem_redis_def CreateLock_def lock_of_def NewRedisLock_def)

theorem LockWithRetry_result_witness:
  "\<exists>l r'. LockWithRetry mem_redis \<lparr>lmg_default_ttl = 30 * 10 ^ 9\<rparr> ''k'' 1 int (\<lambda>i. False) (\<lambda>k. None)
      = ((Some l, None), r') \<and> lk_locked l"
  using LockWithRetry_result [OF _ LockWithRetry_one] LockWithRetry_one by auto

section \<open>The contract of a lock\<close>

text \<open>
  What the code that runs under a lock relies on: a successful \<open>Lock\<close> found the lock free and
  leaves it held, a successful \<open>Unlock\<close> of a held lock frees it, and a failing call changes nothing.
\<close>

locale scoped_lock =
  fixes lock unlock :: "'s \<Rightarrow> go_error option \<times> 's"
    and free held invar :: "'s \<Rightarrow> bool"
  assumes lock_takes: "invar s \<Longrightarrow> lock s = (None, s') \<Longrightarrow> free s \<and> held s' \<and> invar s'"
    and lock_fails: "invar s \<Longrightarrow> lock s = (Some e, s') \<Longrightarrow> free s' = free s \<and> held s' = held s \<and> invar s'"
    and unlock_frees: "invar s \<Longrightarrow> held s \<Longrightarrow> unlock s = (None, s') \<Longrightarrow> free s' \<and> \<not> held s' \<and> invar s'"
    and unlock_fails: "invar s \<Longrightarrow> unlock s = (Some e, s') \<Longrightarrow> free s' = free s \<and> held s' = held s \<and> invar s'"

text \<open>
  The shape of the code that uses one: \<open>lock.Lock(ctx)\<close>, an early return with a wrapped error,
  \<open>defer lock.Unlock(ctx)\<close> whose error is dropped, and the body in between.
\<close>

definition with_lock ::
    "string \<Rightarrow> ('s \<Rightarrow> go_error option \<times> 's) \<Rightarrow> ('s \<Rightarrow> go_error option \<times> 's)
      \<Rightarrow> ('x \<Rightarrow> go_error option \<times> 'x) \<Rightarrow> 's \<Rightarrow> 'x \<Rightarrow> go_error option \<times> 's \<times> 'x" where
  "with_lock msg lock unlock body s x =
     (case lock s of
        (Some e, s') \<Rightarrow> (Some (Wrap msg e), s', x)
      | (None, s') \<Rightarrow> let (res, x') = body x in (res, snd (unlock s'), x'))"

context scoped_lock
begin

lemma runs_only_when_free:
  assumes "invar s" "with_lock msg lock unlock body s x = (res, s', x')" "x' \<noteq> x"
  shows "free s"
  using assms lock_takes
  by (auto simp: with_lock_def split: prod.splits option.splits)

lemma keeps_invar:
  assumes "invar s" "with_lock msg lock unlock body s x = (res, s', x')"
  shows "invar s'"
proof (cases "lock s")
  case (Pair e s1)
  show ?thesis
  proof (cases e)
    case None
    then have s1: "held s1" "invar s1" using lock_takes [OF assms(1)] Pair by auto
    obtain e2 s2 where u: "unlock s1 = (e2, s2)" by fastforce
    then have "invar s2" using unlock_frees [OF s1(2,1)] unlock_fails [OF s1(2)] by (cases e2) auto
    then show ?thesis using assms(2) Pair None u by (auto simp: with_lock_def split: prod.splits)
  next
    case (Some err)
    then show ?thesis using assms(2) Pair lock_fails [OF assms(1)] by (auto simp: with_lock_def)
  qed
qed

lemma released:
  assumes "invar s" "with_lock msg lock unlock body s x = (res, s', x')" "\<not> held s"
    and "\<And>s1. lock s = (None, s1) \<Longrightarrow> invar s1 \<Longrightarrow> held s1 \<Longrightarrow> fst (unlock s1) = None"
  shows "free s' = free s \<and> \<not> held s'"
proof (cases "lock s")
  case (Pair e s1)
  show ?thesis
  proof (cases e)
    case None
    then have s1: "free s" "held s1" "invar s1" using lock_takes [OF assms(1)] Pair by auto
    then obtain s2 where u: "unlock s1 = (None, s2)" using assms(4) [of s1] Pair None by (metis prod.collapse)
    then have "free s2" "\<not> held s2" using unlock_frees [OF s1(3,2)] by auto
    then show ?thesis using assms(2) Pair None u s1 by (auto simp: with_lock_def split: prod.splits)
  next
    case (Some err)
    then show ?thesis using assms(2,3) Pair lock_fails [OF assms(1)] by (auto simp: with_lock_def)
  qed
qed

end

text \<open>
  The Redis lock keeps the contract. The state is the Redis parameter with its laws, the lock and
  the server's state.
\<close>

definition redis_lock_op ::
    "('r redis \<Rightarrow> redis_lock \<times> 'r \<Rightarrow> go_error option \<times> redis_lock \<times> 'r)
      \<Rightarrow> 'r redis \<times> redis_lock \<times> 'r \<Rightarrow> go_error option \<times> 'r redis \<times> redis_lock \<times> 'r" where
  "redis_lock_op op s = (let (R, l, r) = s; (e, l', r') = op R (l, r) in (e, R, l', r'))"

definition redis_lock_invar :: "'r redis \<times> redis_lock \<times> 'r \<Rightarrow> bool" where
  "redis_lock_invar s = (let (R, l, r) = s in
     redis_laws R \<and> (lk_locked l \<longrightarrow> rd_get R (lk_key l) r = Some (lk_value l)))"

definition redis_lock_free :: "'r redis \<times> redis_lock \<times> 'r \<Rightarrow> bool" where
  "redis_lock_free s = (let (R, l, r) = s in rd_get R (lk_key l) r = None)"

definition redis_lock_held :: "'r redis \<times> redis_lock \<times> 'r \<Rightarrow> bool" where
  "redis_lock_held s = (let (R, l, r) = s in lk_locked l)"

lemmas redis_lock_view_defs =
  redis_lock_op_def redis_lock_invar_def redis_lock_free_def redis_lock_held_def

interpretation rlock: scoped_lock "redis_lock_op RedisLock_Lock" "redis_lock_op RedisLock_Unlock"
  redis_lock_free redis_lock_held redis_lock_invar
proof
  fix s s' :: "'r redis \<times> redis_lock \<times> 'r" and e
  obtain R l r where s: "s = (R, l, r)" by (cases s)
  assume inv: "redis_lock_invar s"
  then have laws: "redis_laws R" by (simp add: s redis_lock_invar_def)
  show "redis_lock_free s \<and> redis_lock_held s' \<and> redis_lock_invar s'"
    if "redis_lock_op RedisLock_Lock s = (None, s')"
    using that inv Lock_key [OF laws, of l r] by (auto simp: s redis_lock_view_defs split: prod.splits)
  show "redis_lock_free s' = redis_lock_free s \<and> redis_lock_held s' = redis_lock_held s \<and> redis_lock_invar s'"
    if "redis_lock_op RedisLock_Lock s = (Some e, s')"
    using that inv Lock_key [OF laws, of l r] by (auto simp: s redis_lock_view_defs split: prod.splits)
  show "redis_lock_free s' \<and> \<not> redis_lock_held s' \<and> redis_lock_invar s'"
    if "redis_lock_op RedisLock_Unlock s = (None, s')"
    using that inv Unlock_key [OF laws, of l r] by (auto simp: s redis_lock_view_defs split: prod.splits)
  show "redis_lock_free s' = redis_lock_free s \<and> redis_lock_held s' = redis_lock_held s \<and> redis_lock_invar s'"
    if "redis_lock_op RedisLock_Unlock s = (Some e, s')"
    using that inv Unlock_key [OF laws, of l r] by (auto simp: s redis_lock_view_defs split: prod.splits)
qed

lemma with_redis_lock:
  "with_lock msg (redis_lock_op RedisLock_Lock) (redis_lock_op RedisLock_Unlock) body (R, l, r) x
    = (let (e, (l', r'), x') = with_lock msg (RedisLock_Lock R) (RedisLock_Unlock R) body (l, r) x
       in (e, (R, l', r'), x'))"
  by (auto simp: with_lock_def redis_lock_op_def split: prod.splits option.splits)

text \<open>A held lock whose key is its own is released, unless the script call itself fails.\<close>

lemma Unlock_held:
  assumes "redis_lock_invar s" "redis_lock_held s" "\<And>script r. \<exists>n r'. rd_eval (fst s) script r = (Inr n, r')"
  shows "fst (redis_lock_op RedisLock_Unlock s) = None"
proof -
  obtain R l r where s: "s = (R, l, r)" by (cases s)
  obtain n r' where ev: "rd_eval R (unlock_script R (lk_key l) (lk_value l)) r = (Inr n, r')"
    using assms(3) s by fastforce
  have inv: "redis_laws R" "lk_locked l" "rd_get R (lk_key l) r = Some (lk_value l)"
    using assms(1,2) by (simp_all add: s redis_lock_view_defs)
  then have "n = 1" using eval_cases [OF inv(1) ev]
    by (auto simp: unlock_script_def redis_laws_def del_law_def) (metis fst_conv option.distinct(1))
  then show ?thesis using ev inv by (simp add: s redis_lock_op_def RedisLock_Unlock_def)
qed

section \<open>Keys\<close>

lemma GenerateBlockLockKey_inject:
  "GenerateBlockLockKey c n = GenerateBlockLockKey c' n' \<longleftrightarrow> c = c' \<and> n = n'"
proof
  assume "GenerateBlockLockKey c n = GenerateBlockLockKey c' n'"
  then have "c @ CHR '':'' # fmt_u64 n = c' @ CHR '':'' # fmt_u64 n'"
    by (simp add: GenerateBlockLockKey_def)
  then have "c = c' \<and> fmt_u64 n = fmt_u64 n'"
    using fmt_nat_chars [of 10 "CHR '':''"] by (elim last_separator) auto
  then show "c = c' \<and> n = n'" by (simp add: fmt_nat_inject word_unat_eq_iff)
qed simp

end
