(* ===== verification/Watermarks.thy ===== *)
theory Watermarks
  imports GoTypes Locks "HOL-Library.AList"
begin

text \<open>
  \<open>internal/scheduler/watermark.go\<close>: the watermark manager. The atomic watermark pointer is an
  option, the \<open>sync.Map\<close> of block hashes an association list over block numbers. The two operations
  under the distributed lock are \<open>with_lock\<close> around their bodies, with the Redis lock of \<open>Locks\<close>.
\<close>

section \<open>The manager\<close>

record watermark_config =
  wc_check_interval :: int
  wc_reorg_detection_depth :: u64
  wc_finalization_confirmations :: u64

record watermark_manager =
  wmm_chain_id :: string
  wmm_config :: watermark_config
  wmm_watermark :: "watermark option"
  wmm_block_hashes :: "(u64 \<times> string) list"

definition loadWatermark :: "watermark_manager \<Rightarrow> go_error option" where
  "loadWatermark m = None"

definition saveWatermark :: "watermark_manager \<Rightarrow> go_error option" where
  "saveWatermark m = None"

definition NewWatermarkManager ::
    "int \<Rightarrow> string \<Rightarrow> lock_manager option \<Rightarrow> watermark_config \<Rightarrow> go_error + watermark_manager" where
  "NewWatermarkManager now chainID lm c =
     (if lm = None then Inl (Msg ''lock manager cannot be nil'')
      else Inr \<lparr>wmm_chain_id = chainID, wmm_config = c,
        wmm_watermark = Some \<lparr>wm_chain_id = chainID, wm_scanned_height = 0, wm_confirmed_height = 0,
          wm_finalized_height = 0, wm_reorg_boundary = 0, wm_last_update_time = now\<rparr>,
        wmm_block_hashes = []\<rparr>)"

definition GetWatermark :: "watermark_manager \<Rightarrow> go_error + watermark" where
  "GetWatermark m =
     (case wmm_watermark m of
        None \<Rightarrow> Inl (Msg ''watermark not initialized'')
      | Some w \<Rightarrow> Inr w)"

section \<open>Moving the heights up\<close>

text \<open>\<open>int64(height) - int64(depth)\<close>, not below 0, as \<open>uint64\<close>.\<close>

definition reorgBoundary :: "u64 \<Rightarrow> u64 \<Rightarrow> u64" where
  "reorgBoundary height depth =
     (let b = wrap_i64 (sint height - sint depth) in word_of_int (if b < 0 then 0 else b))"

definition update_scanned_body ::
    "int \<Rightarrow> u64 \<Rightarrow> watermark_manager \<Rightarrow> go_error option \<times> watermark_manager" where
  "update_scanned_body now height m =
     (case wmm_watermark m of
        None \<Rightarrow> (Some (Msg ''watermark not initialized''), m)
      | Some current \<Rightarrow>
          if height \<le> wm_scanned_height current then (None, m)
          else
            let w = \<lparr>wm_chain_id = wm_chain_id current, wm_scanned_height = height,
                     wm_confirmed_height = wm_confirmed_height current,
                     wm_finalized_height = wm_finalized_height current,
                     wm_reorg_boundary = reorgBoundary height (wc_reorg_detection_depth (wmm_config m)),
                     wm_last_update_time = now\<rparr>;
                m' = m\<lparr>wmm_watermark := Some w\<rparr>
            in (saveWatermark m', m'))"

definition watermark_lock :: "lock_manager \<Rightarrow> int \<Rightarrow> watermark_manager \<Rightarrow> redis_lock" where
  "watermark_lock lm now m =
     CreateLockWithTTL lm now (GenerateWatermarkLockKey (wmm_chain_id m)) (30 * 10 ^ 9)"

definition UpdateScannedHeight ::
    "'r redis \<Rightarrow> lock_manager \<Rightarrow> int \<Rightarrow> u64 \<Rightarrow> watermark_manager \<Rightarrow> 'r
      \<Rightarrow> go_error option \<times> (redis_lock \<times> 'r) \<times> watermark_manager" where
  "UpdateScannedHeight R lm now height m r =
     with_lock ''failed to acquire watermark lock'' (RedisLock_Lock R) (RedisLock_Unlock R)
       (update_scanned_body now height) (watermark_lock lm now m, r) m"

definition UpdateConfirmedHeight ::
    "int \<Rightarrow> u64 \<Rightarrow> watermark_manager \<Rightarrow> go_error option \<times> watermark_manager" where
  "UpdateConfirmedHeight now height m =
     (case wmm_watermark m of
        None \<Rightarrow> (Some (Msg ''watermark not initialized''), m)
      | Some current \<Rightarrow>
          if height \<le> wm_confirmed_height current then (None, m)
          else
            let w = \<lparr>wm_chain_id = wm_chain_id current,
                     wm_scanned_height = wm_scanned_height current,
                     wm_confirmed_height = height,
                     wm_finalized_height = wm_finalized_height current,
                     wm_reorg_boundary = reorgBoundary (wm_scanned_height current)
                       (wc_reorg_detection_depth (wmm_config m)),
                     wm_last_update_time = now\<rparr>;
                m' = m\<lparr>wmm_watermark := Some w\<rparr>
            in (saveWatermark m', m'))"

definition UpdateFinalizedHeight ::
    "int \<Rightarrow> u64 \<Rightarrow> watermark_manager \<Rightarrow> go_error option \<times> watermark_manager" where
  "UpdateFinalizedHeight now height m =
     (case wmm_watermark m of
        None \<Rightarrow> (Some (Msg ''watermark not initialized''), m)
      | Some current \<Rightarrow>
          if height \<le> wm_finalized_height current then (None, m)
          else
            let w = \<lparr>wm_chain_id = wm_chain_id current,
                     wm_scanned_height = wm_scanned_height current,
                     wm_confirmed_height = wm_confirmed_height current,
                     wm_finalized_height = height,
                     wm_reorg_boundary = wm_reorg_boundary current,
                     wm_last_update_time = now\<rparr>;
                m' = m\<lparr>wmm_watermark := Some w\<rparr>
            in (saveWatermark m', m'))"

section \<open>Block hashes\<close>

text \<open>\<open>SetBlockHash\<close> stores; the clean-up it starts in a goroutine is a step of its own.\<close>

definition SetBlockHash ::
    "u64 \<Rightarrow> string \<Rightarrow> watermark_manager \<Rightarrow> go_error option \<times> watermark_manager" where
  "SetBlockHash n h m =
     (None, m\<lparr>wmm_block_hashes := AList.update n h (wmm_block_hashes m)\<rparr>)"

definition GetBlockHash :: "watermark_manager \<Rightarrow> u64 \<Rightarrow> go_error + string" where
  "GetBlockHash m n =
     (case map_of (wmm_block_hashes m) n of
        None \<Rightarrow> Inl (Msg (''block hash not found for block '' @ fmt_u64 n))
      | Some h \<Rightarrow> Inr h)"

definition cleanupOldBlockHashes :: "watermark_manager \<Rightarrow> watermark_manager" where
  "cleanupOldBlockHashes m =
     (let keepCount = wrap_i64 (sint (wc_reorg_detection_depth (wmm_config m)) * 2) in
      if keepCount \<le> 0 then m
      else
        let blockNumbers = map fst (wmm_block_hashes m) in
        if int (length blockNumbers) \<le> keepCount then m
        else
          let sorted = sort blockNumbers;
              deleteCount = nat (int (length blockNumbers) - keepCount)
          in m\<lparr>wmm_block_hashes := fold AList.delete (take deleteCount sorted) (wmm_block_hashes m)\<rparr>)"

definition cleanupBlockHashesAfter :: "u64 \<Rightarrow> watermark_manager \<Rightarrow> watermark_manager" where
  "cleanupBlockHashesAfter height m =
     m\<lparr>wmm_block_hashes :=
        fold (\<lambda>(k, v) al. if k > height then AList.delete k al else al)
          (wmm_block_hashes m) (wmm_block_hashes m)\<rparr>"

section \<open>Reset\<close>

definition reset_body ::
    "int \<Rightarrow> u64 \<Rightarrow> watermark_manager \<Rightarrow> go_error option \<times> watermark_manager" where
  "reset_body now height m =
     (case wmm_watermark m of
        None \<Rightarrow> (Some (Msg ''watermark not initialized''), m)
      | Some current \<Rightarrow>
          if height > wm_scanned_height current then
            (Some (Msg (''cannot reset to height '' @ fmt_u64 height
               @ '', current scanned height is '' @ fmt_u64 (wm_scanned_height current))), m)
          else
            let w = \<lparr>wm_chain_id = wm_chain_id current, wm_scanned_height = height,
                     wm_confirmed_height = wm_confirmed_height current,
                     wm_finalized_height = wm_finalized_height current,
                     wm_reorg_boundary = wm_reorg_boundary current,
                     wm_last_update_time = now\<rparr>;
                m' = cleanupBlockHashesAfter height (m\<lparr>wmm_watermark := Some w\<rparr>)
            in (saveWatermark m', m'))"

definition ResetToHeight ::
    "'r redis \<Rightarrow> lock_manager \<Rightarrow> int \<Rightarrow> u64 \<Rightarrow> watermark_manager \<Rightarrow> 'r
      \<Rightarrow> go_error option \<times> (redis_lock \<times> 'r) \<times> watermark_manager" where
  "ResetToHeight R lm now height m r =
     with_lock ''failed to acquire watermark lock'' (RedisLock_Lock R) (RedisLock_Unlock R)
       (reset_body now height) (watermark_lock lm now m, r) m"

section \<open>Runs\<close>

text \<open>
  The operations of the manager as labels; a run is a sequence of them, with any Redis (locks may be
  refused or fail) and any times. A clean-up of old hashes happens whenever its goroutine runs.
\<close>

datatype wm_op = OpScanned u64 | OpConfirmed u64 | OpFinalized u64 | OpSetHash u64 string
  | OpCleanup | OpReset u64

inductive wm_step ::
    "'r redis \<Rightarrow> lock_manager \<Rightarrow> watermark_manager \<times> 'r \<Rightarrow> wm_op \<Rightarrow> watermark_manager \<times> 'r \<Rightarrow> bool"
    for R lm where
  scanned: "UpdateScannedHeight R lm now h m r = (e, (l, r'), m') \<Longrightarrow> wm_step R lm (m, r) (OpScanned h) (m', r')"
| confirmed: "UpdateConfirmedHeight now h m = (e, m') \<Longrightarrow> wm_step R lm (m, r) (OpConfirmed h) (m', r)"
| finalized: "UpdateFinalizedHeight now h m = (e, m') \<Longrightarrow> wm_step R lm (m, r) (OpFinalized h) (m', r)"
| set_hash: "SetBlockHash n b m = (e, m') \<Longrightarrow> wm_step R lm (m, r) (OpSetHash n b) (m', r)"
| cleanup: "wm_step R lm (m, r) OpCleanup (cleanupOldBlockHashes m, r)"
| reset: "ResetToHeight R lm now h m r = (e, (l, r'), m') \<Longrightarrow> wm_step R lm (m, r) (OpReset h) (m', r')"

inductive wm_run ::
    "'r redis \<Rightarrow> lock_manager \<Rightarrow> watermark_manager \<times> 'r \<Rightarrow> wm_op list \<Rightarrow> watermark_manager \<times> 'r \<Rightarrow> bool"
    for R lm where
  wm_done: "wm_run R lm s [] s"
| wm_more: "wm_step R lm s op s' \<Longrightarrow> wm_run R lm s' ops s'' \<Longrightarrow> wm_run R lm s (op # ops) s''"

inductive_cases wm_run_ConsE: "wm_run R lm s (op # ops) s''"
inductive_cases wm_run_NilE: "wm_run R lm s [] s''"

fun is_reset :: "wm_op \<Rightarrow> bool" where
  "is_reset (OpReset h) = True"
| "is_reset _ = False"

text \<open>The height an operation brings, when it moves one up.\<close>

fun op_height :: "wm_op \<Rightarrow> u64" where
  "op_height (OpScanned h) = h"
| "op_height (OpConfirmed h) = h"
| "op_height (OpFinalized h) = h"
| "op_height _ = 0"

lemmas wm_body_defs = update_scanned_body_def UpdateConfirmedHeight_def UpdateFinalizedHeight_def
  SetBlockHash_def saveWatermark_def

lemma with_lock_cases:
  "with_lock msg lock unlock body s x = (res, s', x') \<Longrightarrow> x' = x \<or> x' = snd (body x)"
  by (auto simp: with_lock_def split: prod.splits option.splits)

lemma with_lock_keeps:
  "with_lock msg lock unlock body s x = (res, s', x') \<Longrightarrow> P x \<Longrightarrow> P (snd (body x)) \<Longrightarrow> P x'"
  using with_lock_cases by fastforce

lemma cleanupOldBlockHashes_watermark [simp]:
  "wmm_watermark (cleanupOldBlockHashes m) = wmm_watermark m"
  "wmm_config (cleanupOldBlockHashes m) = wmm_config m"
  by (simp_all add: cleanupOldBlockHashes_def Let_def)

text \<open>What one operation other than a reset does to the watermark.\<close>

definition wm_moves :: "u64 \<Rightarrow> u64 \<Rightarrow> watermark \<Rightarrow> watermark \<Rightarrow> bool" where
  "wm_moves depth h w w' \<longleftrightarrow>
     w' = w
     \<or> (wm_scanned_height w \<le> wm_scanned_height w' \<and> wm_confirmed_height w \<le> wm_confirmed_height w'
        \<and> wm_finalized_height w \<le> wm_finalized_height w'
        \<and> (wm_scanned_height w' = h \<or> wm_scanned_height w' = wm_scanned_height w)
        \<and> (wm_reorg_boundary w' = reorgBoundary (wm_scanned_height w') depth
           \<or> wm_reorg_boundary w' = wm_reorg_boundary w \<and> wm_scanned_height w' = wm_scanned_height w))"

lemma wm_step_moves:
  assumes "wm_step R lm (m, r) op (m', r')" "\<not> is_reset op" "wmm_watermark m = Some w"
  shows "wmm_config m' = wmm_config m
    \<and> (\<exists>w'. wmm_watermark m' = Some w'
         \<and> wm_moves (wc_reorg_detection_depth (wmm_config m)) (op_height op) w w')"
  using assms(1)
proof (cases rule: wm_step.cases)
  case (scanned now h e l)
  with with_lock_cases [OF scanned(2) [unfolded UpdateScannedHeight_def]] assms(3) show ?thesis
    by (auto simp: wm_body_defs wm_moves_def Let_def)
next
  case (confirmed now h e)
  with assms(3) show ?thesis by (auto simp: wm_body_defs wm_moves_def Let_def split: if_splits)
next
  case (finalized now h e)
  with assms(3) show ?thesis by (auto simp: wm_body_defs wm_moves_def Let_def split: if_splits)
qed (use assms(2,3) in \<open>auto simp: wm_body_defs wm_moves_def\<close>)

text \<open>
  C2: Without a reset the three heights of the watermark never go down, in any run and whatever the
  lock service does.
\<close>

theorem watermark_monotone:
  assumes "wm_run R lm s ops s'" "\<forall>op \<in> set ops. \<not> is_reset op" "wmm_watermark (fst s) = Some w"
  shows "\<exists>w'. wmm_watermark (fst s') = Some w' \<and> wm_scanned_height w \<le> wm_scanned_height w'
    \<and> wm_confirmed_height w \<le> wm_confirmed_height w' \<and> wm_finalized_height w \<le> wm_finalized_height w'"
  using assms
proof (induction arbitrary: w rule: wm_run.induct)
  case (wm_more s op s' ops s'')
  obtain w1 where "wmm_watermark (fst s') = Some w1"
      "wm_moves (wc_reorg_detection_depth (wmm_config (fst s))) (op_height op) w w1"
    using wm_step_moves [of R lm "fst s" "snd s" op "fst s'" "snd s'" w] wm_more by auto
  then show ?case using wm_more.IH [of w1] wm_more.prems by (auto simp: wm_moves_def intro: order.trans)
qed simp

lemma reorgBoundary_unat:
  assumes "unat h < 2 ^ 63" "unat d < 2 ^ 63"
  shows "unat (reorgBoundary h d) = unat h - unat d"
proof -
  define a b where ab: "a = unat h" "b = unat d"
  have "sint h = int a" "sint d = int b"
    unfolding ab using assms by (intro sint_u64; simp)+
  moreover have "a < 2 ^ 63" "b < 2 ^ 63" using assms by (simp_all add: ab)
  ultimately have "reorgBoundary h d = (of_nat (a - b) :: u64)"
    by (simp add: reorgBoundary_def Let_def wrap_i64_id of_nat_diff)
  moreover have "a - b < 18446744073709551616" using \<open>a < 2 ^ 63\<close> by simp
  ultimately show ?thesis by (simp only: unat_of_nat_u64 ab)
qed

text \<open>A manager and a run of it, for the examples.\<close>

definition wm_cfg :: watermark_config where
  "wm_cfg = \<lparr>wc_check_interval = 0, wc_reorg_detection_depth = 12, wc_finalization_confirmations = 64\<rparr>"

definition wm_at :: "u64 \<Rightarrow> u64 \<Rightarrow> watermark_manager" where
  "wm_at h b = \<lparr>wmm_chain_id = ''eth'', wmm_config = wm_cfg,
     wmm_watermark = Some \<lparr>wm_chain_id = ''eth'', wm_scanned_height = h, wm_confirmed_height = 0,
       wm_finalized_height = 0, wm_reorg_boundary = b, wm_last_update_time = 7\<rparr>,
     wmm_block_hashes = []\<rparr>"

lemma wm_at_100:
  "update_scanned_body 7 100 (wm_at 0 0) = (None, wm_at 100 88)"
  by code_simp

lemma wm_at_run:
  "wm_run mem_redis \<lparr>lmg_default_ttl = 1\<rparr> (wm_at 0 0, \<lambda>k. None) [OpScanned 100] (wm_at 100 88, \<lambda>k. None)"
proof -
  have "UpdateScannedHeight mem_redis \<lparr>lmg_default_ttl = 1\<rparr> 7 100 (wm_at 0 0) (\<lambda>k. None)
      = (None, (watermark_lock \<lparr>lmg_default_ttl = 1\<rparr> 7 (wm_at 0 0), \<lambda>k. None), wm_at 100 88)"
    by (simp add: UpdateScannedHeight_def with_lock_def RedisLock_Lock_def RedisLock_Unlock_def
        unlock_script_def mem_redis_def wm_at_100 watermark_lock_def CreateLockWithTTL_def
        NewRedisLock_def fun_eq_iff)
  then show ?thesis by (intro wm_more [OF scanned wm_done])
qed

theorem watermark_monotone_witness:
  "\<exists>w'. wmm_watermark (wm_at 100 88) = Some w' \<and> (0 :: u64) \<le> wm_scanned_height w'
    \<and> (0 :: u64) \<le> wm_confirmed_height w' \<and> (0 :: u64) \<le> wm_finalized_height w'"
  using watermark_monotone [OF wm_at_run] by (simp add: wm_at_def)

lemma boundary_run:
  assumes "wm_run R lm s ops s'" "\<forall>op \<in> set ops. \<not> is_reset op \<and> unat (op_height op) < 2 ^ 63"
    and "unat d < 2 ^ 63" "wc_reorg_detection_depth (wmm_config (fst s)) = d"
    and "wmm_watermark (fst s) = Some w" "unat (wm_scanned_height w) < 2 ^ 63"
    and "unat (wm_reorg_boundary w) = unat (wm_scanned_height w) - unat d"
  shows "\<exists>w'. wmm_watermark (fst s') = Some w'
    \<and> unat (wm_reorg_boundary w') = unat (wm_scanned_height w') - unat d"
  using assms(1,2,4-7)
proof (induction arbitrary: w rule: wm_run.induct)
  case (wm_more s op s' ops s'')
  obtain w1 where w1: "wmm_watermark (fst s') = Some w1" "wmm_config (fst s') = wmm_config (fst s)"
      "wm_moves d (op_height op) w w1"
    using wm_step_moves [of R lm "fst s" "snd s" op "fst s'" "snd s'" w] wm_more by auto
  then have lt: "unat (wm_scanned_height w1) < 2 ^ 63" using wm_more.prems by (auto simp: wm_moves_def)
  have "unat (wm_reorg_boundary w1) = unat (wm_scanned_height w1) - unat d"
    using w1(3) wm_more.prems(5) reorgBoundary_unat [OF lt assms(3)] by (auto simp: wm_moves_def)
  then show ?case using wm_more.IH [of w1] wm_more.prems w1 lt by simp
qed auto



section \<open>The lock is given back\<close>

text \<open>
  An update of the scanned height leaves the watermark lock as it found it: when it returns, the
  key is free exactly if it was free before, provided script calls do not fail.
\<close>

theorem UpdateScannedHeight_releases:
  assumes "redis_laws R" "\<And>script r. \<exists>n r'. rd_eval R script r = (Inr n, r')"
    and "UpdateScannedHeight R lm now h m r = (e, (l, r'), m')"
  shows "lk_locked l = False \<and> (rd_get R (GenerateWatermarkLockKey (wmm_chain_id m)) r' = None
    \<longleftrightarrow> rd_get R (GenerateWatermarkLockKey (wmm_chain_id m)) r = None)"
proof -
  let ?l = "watermark_lock lm now m"
  have l: "\<not> lk_locked ?l" "lk_key ?l = GenerateWatermarkLockKey (wmm_chain_id m)"
    by (simp_all add: watermark_lock_def CreateLockWithTTL_def NewRedisLock_def)
  have key: "lk_key l = lk_key ?l"
    using assms(3) by (auto simp: UpdateScannedHeight_def with_lock_def lock_defs
        split: prod.splits option.splits sum.splits if_splits)
  have w: "with_lock ''failed to acquire watermark lock'' (redis_lock_op RedisLock_Lock)
      (redis_lock_op RedisLock_Unlock) (update_scanned_body now h) (R, ?l, r) m = (e, (R, l, r'), m')"
    using assms(3) by (simp add: with_redis_lock UpdateScannedHeight_def)
  have inv: "redis_lock_invar (R, ?l, r)" "\<not> redis_lock_held (R, ?l, r)"
    using assms(1) l by (simp_all add: redis_lock_view_defs)
  have "redis_lock_free (R, l, r') = redis_lock_free (R, ?l, r) \<and> \<not> redis_lock_held (R, l, r')"
  proof (rule rlock.released [OF inv(1) w inv(2)])
    fix s1 :: "'a redis \<times> redis_lock \<times> 'a"
    assume "redis_lock_op RedisLock_Lock (R, ?l, r) = (None, s1)" and s1: "redis_lock_invar s1" "redis_lock_held s1"
    then have "fst s1 = R" by (auto simp: redis_lock_op_def split: prod.splits)
    with s1 assms(2) show "fst (redis_lock_op RedisLock_Unlock s1) = None" by (intro Unlock_held) simp_all
  qed
  then show ?thesis using key l by (simp add: redis_lock_view_defs)
qed

theorem UpdateScannedHeight_releases_witness:
  "fst (fst (snd (UpdateScannedHeight mem_redis \<lparr>lmg_default_ttl = 1\<rparr> 7 100 (wm_at 0 0) (\<lambda>k. None))))
     = watermark_lock \<lparr>lmg_default_ttl = 1\<rparr> 7 (wm_at 0 0)
   \<and> snd (fst (snd (UpdateScannedHeight mem_redis \<lparr>lmg_default_ttl = 1\<rparr> 7 100 (wm_at 0 0) (\<lambda>k. None))))
       (GenerateWatermarkLockKey ''eth'') = None"
proof -
  let ?u = "UpdateScannedHeight mem_redis \<lparr>lmg_default_ttl = 1\<rparr> 7 100 (wm_at 0 0) (\<lambda>k. None)"
  obtain e l r' m' where u: "?u = (e, (l, r'), m')" by (metis prod.exhaust)
  have ev: "\<exists>n r'. rd_eval mem_redis script r = (Inr n, r')" for script r
    by (simp add: mem_redis_def split: prod.splits)
  have "l = watermark_lock \<lparr>lmg_default_ttl = 1\<rparr> 7 (wm_at 0 0)"
    using u by (auto simp: UpdateScannedHeight_def with_lock_def RedisLock_Lock_def RedisLock_Unlock_def
        unlock_script_def mem_redis_def watermark_lock_def CreateLockWithTTL_def NewRedisLock_def
        split: prod.splits)
  then show ?thesis using UpdateScannedHeight_releases [OF mem_redis_laws ev u]
    by (simp add: u) (simp add: mem_redis_def wm_at_def)
qed

section \<open>The hash cache\<close>

lemma map_of_fold_delete:
  "map_of (fold AList.delete ks al) = (map_of al) |` (- set ks)"
proof (induction ks arbitrary: al)
  case (Cons k ks)
  show ?case by (simp only: fold.simps comp_apply Cons.IH)
      (auto simp: fun_eq_iff restrict_map_def AList.delete_conv)
qed (simp add: fun_eq_iff restrict_map_def)

lemma fold_delete_above:
  "map_of (fold (\<lambda>(k, v) al. if k > h then AList.delete k al else al) xs al)
    = (map_of al) |` (- {k \<in> fst ` set xs. k > h})"
proof (induction xs arbitrary: al)
  case (Cons x xs)
  show ?case by (cases x, simp only: fold.simps comp_apply Cons.IH)
      (auto simp: fun_eq_iff restrict_map_def AList.delete_conv)
qed (simp add: fun_eq_iff restrict_map_def)

lemma GetBlockHash_cleanupAfter:
  "GetBlockHash (cleanupBlockHashesAfter h m) n
    = (if n > h then Inl (Msg (''block hash not found for block '' @ fmt_u64 n)) else GetBlockHash m n)"
proof -
  have "map_of (wmm_block_hashes m) n = None \<longleftrightarrow> n \<notin> fst ` set (wmm_block_hashes m)"
    by (simp add: map_of_eq_None_iff)
  then show ?thesis
    by (auto simp: GetBlockHash_def cleanupBlockHashesAfter_def fold_delete_above restrict_map_def)
qed

lemma sort_split:
  fixes xs :: "u64 list"
  assumes "distinct xs" "k \<le> length xs"
  shows "card (set (take k (sort xs))) = k
    \<and> (\<forall>a \<in> set (take k (sort xs)). \<forall>b \<in> set xs - set (take k (sort xs)). a < b)"
proof -
  let ?s = "sort xs"
  have d: "distinct ?s" using assms(1) by simp
  have set: "set xs - set (take k ?s) = set (drop k ?s)"
    proof -
    have "set xs = set (take k ?s) \<union> set (drop k ?s)"
      by (metis append_take_drop_id set_append set_sort)
    moreover have "set (take k ?s) \<inter> set (drop k ?s) = {}"
      using d by (metis append_take_drop_id distinct_append)
    ultimately show ?thesis by blast
  qed
  have "a < b" if "a \<in> set (take k ?s)" "b \<in> set (drop k ?s)" for a b
  proof -
    have "sorted (take k ?s @ drop k ?s)" "distinct (take k ?s @ drop k ?s)" using d by simp_all
    then have "a \<le> b" "a \<noteq> b" using that by (auto simp: sorted_append distinct_append simp del: append_take_drop_id)
    then show ?thesis by simp
  qed
  moreover have "card (set (take k ?s)) = k" using d assms(2) by (simp add: distinct_card)
  ultimately show ?thesis using set by simp
qed

text \<open>
  The clean-up keeps exactly the \<open>2 * depth\<close> highest block numbers: the entries it drops are as
  many as are too many, each lower than every entry it keeps, and the others keep their hash.
\<close>

theorem cleanupOldBlockHashes_keeps_highest:
  assumes "distinct (map fst (wmm_block_hashes m))"
    and "keep = 2 * unat (wc_reorg_detection_depth (wmm_config m))" "0 < keep" "keep < 2 ^ 63"
    and "keys = fst ` set (wmm_block_hashes m)"
  shows "\<exists>old \<subseteq> keys. card old = card keys - keep
    \<and> (\<forall>a \<in> old. \<forall>b \<in> keys - old. a < b)
    \<and> map_of (wmm_block_hashes (cleanupOldBlockHashes m)) = (map_of (wmm_block_hashes m)) |` (- old)"
proof -
  define ns where "ns = map fst (wmm_block_hashes m)"
  define d where "d = unat (wc_reorg_detection_depth (wmm_config m))"
  have d: "2 * d = keep" "d < 9223372036854775808" using assms(2,4) by (simp_all add: d_def)
  have "sint (wc_reorg_detection_depth (wmm_config m)) = int d"
    unfolding d_def using d(2) by (intro sint_u64) (simp add: d_def)
  then have kc: "wrap_i64 (sint (wc_reorg_detection_depth (wmm_config m)) * 2) = int keep"
    using d assms(4) by (subst wrap_i64_id) simp_all
  have keys: "set ns = keys" "card keys = length ns"
    using assms(1,5) by (simp_all add: ns_def) (metis distinct_card length_map set_map)
  show ?thesis
  proof (cases "length ns \<le> keep")
    case True
    then have "cleanupOldBlockHashes m = m"
      by (simp add: cleanupOldBlockHashes_def Let_def kc ns_def)
    then show ?thesis using True keys by (intro exI [of _ "{}"]) (auto simp: restrict_map_def)
  next
    case False
    let ?k = "length ns - keep"
    have "nat (int (length (wmm_block_hashes m)) - int keep) = ?k" by (simp add: ns_def)
    then have "map_of (wmm_block_hashes (cleanupOldBlockHashes m))
        = (map_of (wmm_block_hashes m)) |` (- set (take ?k (sort ns)))"
      using False assms(3)
      by (simp add: cleanupOldBlockHashes_def Let_def kc map_of_fold_delete flip: ns_def)
        (simp add: ns_def)
    moreover have "set (take ?k (sort ns)) \<subseteq> keys"
      using keys(1) by (metis set_sort set_take_subset)
    ultimately show ?thesis using sort_split [of ns ?k] assms(1) keys
      by (intro exI [of _ "set (take ?k (sort ns))"]) (simp add: ns_def)
  qed
qed

definition wm_hashes :: watermark_manager where
  "wm_hashes = (wm_at 100 88)\<lparr>wmm_config := wm_cfg\<lparr>wc_reorg_detection_depth := 1\<rparr>,
     wmm_block_hashes := [(7, ''a''), (9, ''c''), (8, ''b'')]\<rparr>"

theorem cleanupOldBlockHashes_keeps_highest_witness:
  "\<exists>old \<subseteq> fst ` set (wmm_block_hashes wm_hashes). card old = 1
    \<and> (\<forall>a \<in> old. \<forall>b \<in> fst ` set (wmm_block_hashes wm_hashes) - old. a < b)
    \<and> map_of (wmm_block_hashes (cleanupOldBlockHashes wm_hashes))
        = (map_of (wmm_block_hashes wm_hashes)) |` (- old)"
proof -
  have "card (fst ` set (wmm_block_hashes wm_hashes)) - 2 = 1" by (simp add: wm_hashes_def)
  with cleanupOldBlockHashes_keeps_highest [of wm_hashes 2, OF _ _ _ _ refl] show ?thesis
    by (simp add: wm_hashes_def)
qed

section \<open>Reset\<close>

lemma cleanupBlockHashesAfter_watermark [simp]:
  "wmm_watermark (cleanupBlockHashesAfter h m) = wmm_watermark m"
  by (simp add: cleanupBlockHashesAfter_def)

text \<open>
  A reset that gets its lock: to a height above the scanned height it fails and changes
  nothing; otherwise the scanned height becomes that height, the hashes of higher blocks are gone
  and those of the others are kept.
\<close>

theorem ResetToHeight_effect:
  assumes "fst (RedisLock_Lock R (watermark_lock lm now m, r)) = None"
    and "wmm_watermark m = Some w" "ResetToHeight R lm now h m r = (e, lr, m')"
  shows "(h > wm_scanned_height w \<longrightarrow> e \<noteq> None \<and> m' = m)
    \<and> (h \<le> wm_scanned_height w \<longrightarrow> e = None
        \<and> wmm_watermark m' = Some (w\<lparr>wm_scanned_height := h, wm_last_update_time := now\<rparr>)
        \<and> (\<forall>n. GetBlockHash m' n
             = (if n > h then Inl (Msg (''block hash not found for block '' @ fmt_u64 n))
                else GetBlockHash m n)))"
proof -
  obtain s1 where "RedisLock_Lock R (watermark_lock lm now m, r) = (None, s1)"
    using assms(1) by (metis prod.collapse)
  then have "e = fst (reset_body now h m)" "m' = snd (reset_body now h m)"
    using assms(3) by (auto simp: ResetToHeight_def with_lock_def split: prod.splits)
  moreover have "GetBlockHash (m\<lparr>wmm_watermark := v\<rparr>) n = GetBlockHash m n" for v n
    by (simp add: GetBlockHash_def)
  ultimately show ?thesis using assms(2)
    by (cases w) (auto simp: reset_body_def Let_def saveWatermark_def GetBlockHash_cleanupAfter)
qed

theorem ResetToHeight_effect_witness:
  "wmm_watermark (snd (snd (ResetToHeight mem_redis \<lparr>lmg_default_ttl = 1\<rparr> 7 90 (wm_at 100 88) (\<lambda>k. None))))
    = wmm_watermark (wm_at 90 88)"
proof -
  let ?r = "ResetToHeight mem_redis \<lparr>lmg_default_ttl = 1\<rparr> 7 90 (wm_at 100 88) (\<lambda>k. None)"
  let ?w = "the (wmm_watermark (wm_at 100 88))"
  have "fst (RedisLock_Lock mem_redis (watermark_lock \<lparr>lmg_default_ttl = 1\<rparr> 7 (wm_at 100 88), \<lambda>k. None)) = None"
    by (simp add: RedisLock_Lock_def mem_redis_def)
  moreover have "wmm_watermark (wm_at 100 88) = Some ?w" by (simp add: wm_at_def)
  moreover obtain e lr m' where r: "?r = (e, lr, m')" by (rule prod_cases3)
  ultimately have "(90 :: u64) \<le> wm_scanned_height ?w \<longrightarrow> e = None
      \<and> wmm_watermark m' = Some (?w\<lparr>wm_scanned_height := 90, wm_last_update_time := 7\<rparr>)
      \<and> (\<forall>n. GetBlockHash m' n
             = (if n > 90 then Inl (Msg (''block hash not found for block '' @ fmt_u64 n))
                else GetBlockHash (wm_at 100 88) n))"
    by (rule ResetToHeight_effect [THEN conjunct2])
  then show ?thesis by (simp add: r) (simp add: wm_at_def)
qed

text \<open>
  The other heights and the boundary stay where they were, so after a reset they can be above the
  scanned height.
\<close>

lemma ResetToHeight_stale:
  "\<exists>w. wmm_watermark (snd (snd (ResetToHeight mem_redis \<lparr>lmg_default_ttl = 1\<rparr> 7 50 (wm_at 100 88) (\<lambda>k. None))))
      = Some w \<and> wm_scanned_height w < wm_reorg_boundary w"
  by (simp add: ResetToHeight_def with_lock_def RedisLock_Lock_def mem_redis_def reset_body_def wm_at_def
      saveWatermark_def cleanupBlockHashesAfter_def Let_def)

end
