(* ===== verification/SchedReorg.thy ===== *)
theory SchedReorg
  imports Watermarks
begin

text \<open>
  \<open>internal/scheduler/reorg_handler.go\<close>: the scanner's reaction to a reorganisation. It holds a
  flag against re-entry, takes the chain's reorg lock, runs the two rollback hooks (which the source
  leaves empty) and resets the watermark, which takes the watermark lock.
\<close>

record sched_reorg_handler =
  srh_chain_id :: string
  srh_processing :: bool

definition NewReorgHandler ::
    "string \<Rightarrow> bool \<Rightarrow> bool \<Rightarrow> bool \<Rightarrow> go_error + sched_reorg_handler" where
  "NewReorgHandler chainID clientNil watermarkNil lockManagerNil =
     (if clientNil then Inl (Msg ''client cannot be nil'')
      else if watermarkNil then Inl (Msg ''watermark manager cannot be nil'')
      else if lockManagerNil then Inl (Msg ''lock manager cannot be nil'')
      else Inr \<lparr>srh_chain_id = chainID, srh_processing = False\<rparr>)"

definition sched_markRevertedTransactions :: "u64 \<Rightarrow> u64 \<Rightarrow> go_error option" where
  "sched_markRevertedTransactions newHeight oldHeight = None"

definition sched_revertBusinessData :: "u64 \<Rightarrow> u64 \<Rightarrow> go_error option" where
  "sched_revertBusinessData newHeight oldHeight = None"

definition sched_publishReorgEvent :: "reorg_event \<Rightarrow> go_error option" where
  "sched_publishReorgEvent e = None"

text \<open>The event the handler records and publishes.\<close>

definition sched_reorg_event :: "string \<Rightarrow> int \<Rightarrow> u64 \<Rightarrow> u64 \<Rightarrow> reorg_event" where
  "sched_reorg_event chainID now oldHeight newHeight =
     \<lparr>re_chain_id = chainID, re_detected_at = now, re_old_block_number = oldHeight,
      re_old_block_hash = '''', re_new_block_number = newHeight, re_new_block_hash = '''',
      re_depth = oldHeight - newHeight, re_affected_txs = [], re_processed = False\<rparr>"

text \<open>
  The part under the reorg lock: the state is the watermark manager, Redis, and the event, which is
  marked processed once the watermark is reset.
\<close>

definition reorg_steps ::
    "'r redis \<Rightarrow> lock_manager \<Rightarrow> int \<Rightarrow> u64 \<Rightarrow> u64 \<Rightarrow> watermark_manager \<Rightarrow> 'r \<Rightarrow> reorg_event
      \<Rightarrow> go_error option \<times> watermark_manager \<times> 'r \<times> reorg_event" where
  "reorg_steps R lm now oldHeight newHeight wm r ev =
     (case sched_markRevertedTransactions newHeight oldHeight of
        Some e \<Rightarrow> (Some (Wrap ''failed to mark reverted transactions'' e), wm, r, ev)
      | None \<Rightarrow>
     (case sched_revertBusinessData newHeight oldHeight of
        Some e \<Rightarrow> (Some (Wrap ''failed to revert business data'' e), wm, r, ev)
      | None \<Rightarrow>
     (case ResetToHeight R lm now newHeight wm r of
        (Some e, (l, r'), wm') \<Rightarrow> (Some (Wrap ''failed to reset watermark'' e), wm', r', ev)
      | (None, (l, r'), wm') \<Rightarrow>
          (let ev' = ev\<lparr>re_processed := True\<rparr> in
           case sched_publishReorgEvent ev' of
             _ \<Rightarrow> (None, wm', r', ev')))))"

definition sched_reorg_lock :: "lock_manager \<Rightarrow> int \<Rightarrow> string \<Rightarrow> redis_lock" where
  "sched_reorg_lock lm now chainID =
     CreateLockWithTTL lm now (GenerateReorgLockKey chainID) (5 * 60 * 10 ^ 9)"

text \<open>
  \<open>HandleReorg\<close>: the state is the handler, the watermark manager and Redis. The deferred
  unlock and the deferred reset of the flag run on every path that sets them up.
\<close>

definition sched_HandleReorg ::
    "'r redis \<Rightarrow> lock_manager \<Rightarrow> int \<Rightarrow> u64 \<Rightarrow> u64 \<Rightarrow> sched_reorg_handler \<times> watermark_manager \<times> 'r
      \<Rightarrow> go_error option \<times> sched_reorg_handler \<times> watermark_manager \<times> 'r" where
  "sched_HandleReorg R lm now oldHeight newHeight st =
     (let (h, wm, r) = st in
      if srh_processing h then
        (Some (Msg (''reorg processing already in progress for chain '' @ srh_chain_id h)), h, wm, r)
      else
        (case RedisLock_Lock R (sched_reorg_lock lm now (srh_chain_id h), r) of
           (Some e, l, r1) \<Rightarrow>
             (Some (Wrap ''failed to acquire reorg lock'' e), h\<lparr>srh_processing := False\<rparr>, wm, r1)
         | (None, l, r1) \<Rightarrow>
             (let (e, wm', r2, ev) = reorg_steps R lm now oldHeight newHeight wm r1
                    (sched_reorg_event (srh_chain_id h) now oldHeight newHeight);
                  (e2, l', r3) = RedisLock_Unlock R (l, r2)
              in (e, h\<lparr>srh_processing := False\<rparr>, wm', r3))))"

section \<open>What a call leaves behind\<close>

lemma reorg_steps_eq:
  "reorg_steps R lm now oldH newH wm r ev
    = (case ResetToHeight R lm now newH wm r of
        (e, (l, r'), wm') \<Rightarrow> (wrap_err ''failed to reset watermark'' e, wm', r',
          if e = None then ev\<lparr>re_processed := True\<rparr> else ev))"
  by (auto simp: reorg_steps_def sched_markRevertedTransactions_def sched_revertBusinessData_def
      Let_def split: prod.splits option.splits)

text \<open>
  The re-entry guard: a call while another is in progress is refused and changes nothing, and
  any other call, whether it succeeds or fails, leaves the handler ready for the next one.
\<close>

theorem sched_HandleReorg_guard:
  "(srh_processing h \<longrightarrow> (\<exists>e. sched_HandleReorg R lm now oldH newH (h, wm, r) = (Some e, h, wm, r)))
    \<and> (\<not> srh_processing h \<longrightarrow> fst (snd (sched_HandleReorg R lm now oldH newH (h, wm, r))) = h)"
  by (auto simp: sched_HandleReorg_def split: prod.splits option.splits)

theorem sched_HandleReorg_guard_witness:
  "\<exists>e. sched_HandleReorg mem_redis \<lparr>lmg_default_ttl = 1\<rparr> 7 100 90
     (\<lparr>srh_chain_id = ''eth'', srh_processing = True\<rparr>, wm_at 100 88, \<lambda>k. None)
   = (Some e, \<lparr>srh_chain_id = ''eth'', srh_processing = True\<rparr>, wm_at 100 88, \<lambda>k. None)"
  using sched_HandleReorg_guard [of "\<lparr>srh_chain_id = ''eth'', srh_processing = True\<rparr>"] by simp

text \<open>
  A call that gets both locks rolls the scanner back: if the new height is not above the scanned
  height, it returns no error and the next block to scan is the one after the new height; if it is
  above, the call fails and the watermark is unchanged.
\<close>

theorem sched_HandleReorg_rolls_back:
  assumes "\<not> srh_processing h" "wmm_watermark wm = Some w"
    and "RedisLock_Lock R (sched_reorg_lock lm now (srh_chain_id h), r) = (None, l, r1)"
    and "fst (RedisLock_Lock R (watermark_lock lm now wm, r1)) = None"
    and "sched_HandleReorg R lm now oldH newH (h, wm, r) = (e, h', wm', r')"
  shows "if newH \<le> wm_scanned_height w
    then e = None \<and> (\<exists>w'. wmm_watermark wm' = Some w' \<and> wm_scanned_height w' = newH)
    else e \<noteq> None \<and> wm' = wm"
proof -
  obtain e1 lr wm1 where rs: "ResetToHeight R lm now newH wm r1 = (e1, lr, wm1)" by (rule prod_cases3)
  obtain l1 r2 where lr: "lr = (l1, r2)" by (cases lr)
  have "e = wrap_err ''failed to reset watermark'' e1" "wm' = wm1"
    using assms(1,3,5) by (auto simp: sched_HandleReorg_def reorg_steps_eq rs lr split: prod.splits)
  moreover have "newH > wm_scanned_height w \<longrightarrow> e1 \<noteq> None \<and> wm1 = wm"
    "newH \<le> wm_scanned_height w \<longrightarrow> e1 = None
      \<and> wmm_watermark wm1 = Some (w\<lparr>wm_scanned_height := newH, wm_last_update_time := now\<rparr>)"
    using ResetToHeight_effect [OF assms(4,2) rs] by blast+
  ultimately show ?thesis by auto
qed

lemma two_mem_locks:
  "RedisLock_Lock mem_redis (sched_reorg_lock lm 7 ''eth'', \<lambda>k. None)
    = (None, (sched_reorg_lock lm 7 ''eth'')\<lparr>lk_locked := True\<rparr>,
       (\<lambda>k. None)(GenerateReorgLockKey ''eth'' := Some (generateLockValue 7)))"
  "fst (RedisLock_Lock mem_redis (watermark_lock lm 7 (wm_at 100 88),
       (\<lambda>k. None)(GenerateReorgLockKey ''eth'' := Some (generateLockValue 7)))) = None"
  by (simp_all add: RedisLock_Lock_def mem_redis_def sched_reorg_lock_def watermark_lock_def
      CreateLockWithTTL_def NewRedisLock_def GenerateReorgLockKey_def GenerateWatermarkLockKey_def)

theorem sched_HandleReorg_rolls_back_witness:
  "\<exists>w'. wmm_watermark (fst (snd (snd (sched_HandleReorg mem_redis \<lparr>lmg_default_ttl = 1\<rparr> 7 100 90
     (\<lparr>srh_chain_id = ''eth'', srh_processing = False\<rparr>, wm_at 100 88, \<lambda>k. None))))) = Some w'
     \<and> wm_scanned_height w' = 90"
proof -
  let ?h = "\<lparr>srh_chain_id = ''eth'', srh_processing = False\<rparr>"
  let ?c = "sched_HandleReorg mem_redis \<lparr>lmg_default_ttl = 1\<rparr> 7 100 90 (?h, wm_at 100 88, \<lambda>k. None)"
  obtain e h' wm' r' where c: "?c = (e, h', wm', r')" by (rule prod_cases4)
  have p: "\<not> srh_processing ?h" by simp
  have k: "RedisLock_Lock mem_redis (sched_reorg_lock \<lparr>lmg_default_ttl = 1\<rparr> 7 (srh_chain_id ?h), \<lambda>k. None)
    = (None, (sched_reorg_lock \<lparr>lmg_default_ttl = 1\<rparr> 7 ''eth'')\<lparr>lk_locked := True\<rparr>,
       (\<lambda>k. None)(GenerateReorgLockKey ''eth'' := Some (generateLockValue 7)))"
    by (simp add: two_mem_locks)
  obtain w where w: "wmm_watermark (wm_at 100 88) = Some w" "wm_scanned_height w = 100"
    by (simp add: wm_at_def)
  from sched_HandleReorg_rolls_back [OF p w(1) k two_mem_locks(2) c] show ?thesis
    by (simp add: c w(2))
qed

end
