(* ===== verification/Scanner.thy ===== *)
theory Scanner
  imports Sharding Workers SchedReorg
begin

text \<open>
  \<open>internal/scheduler/chain_scanner.go\<close>: the scanner of one chain. The task queue is a list with a
  flag for closed; which branch a select takes is an oracle. Speeds are 64-bit floats; their
  arithmetic is the parameter \<open>ema\<close>. Sending on a closed channel is \<open>Panics\<close>.
\<close>

section \<open>The scanner\<close>

type_synonym float64 = u64

record scanner_status =
  ss_chain_id :: string
  ss_running :: bool
  ss_current_height :: u64
  ss_scanned_height :: u64
  ss_confirmed_height :: u64
  ss_finalized_height :: u64
  ss_reorg_boundary :: u64
  ss_block_lag :: u64
  ss_blocks_per_second :: float64
  ss_active_workers :: int
  ss_pending_tasks :: int
  ss_error_count :: u64
  ss_last_scan_time :: int
  ss_last_reorg_time :: int
  ss_reorg_count :: u64

record scanner_config =
  sc_concurrency :: concurrency_config
  sc_watermark :: watermark_config
  sc_sharding :: sharding_config

text \<open>The goroutines a scanner starts.\<close>

datatype goroutine = GWorker nat | GResults nat | GScheduler | GMonitor | GDetector

record chain_scanner =
  cs_chain_id :: string
  cs_config :: scanner_config
  cs_watermark :: watermark_manager
  cs_task_queue :: "scan_task list"
  cs_task_closed :: bool
  cs_results_closed :: bool
  cs_workers :: "worker list"
  cs_sharding :: "sharding_manager option"
  cs_reorg_handler :: sched_reorg_handler
  cs_status :: scanner_status
  cs_ctx_done :: bool
  cs_goroutines :: "goroutine list"
  cs_last_scan_height :: u64
  cs_scan_rate :: float64

definition initWorkers :: "string \<Rightarrow> int \<Rightarrow> worker list" where
  "initWorkers chainID workerCount =
     map (\<lambda>i. NewWorker (chainID @ ''-worker-'' @ fmt_nat 10 i)) [0..<nat workerCount]"

definition new_status :: "string \<Rightarrow> scanner_status" where
  "new_status chainID =
     \<lparr>ss_chain_id = chainID, ss_running = False, ss_current_height = 0, ss_scanned_height = 0,
      ss_confirmed_height = 0, ss_finalized_height = 0, ss_reorg_boundary = 0, ss_block_lag = 0,
      ss_blocks_per_second = 0, ss_active_workers = 0, ss_pending_tasks = 0, ss_error_count = 0,
      ss_last_scan_time = zero_time, ss_last_reorg_time = zero_time, ss_reorg_count = 0\<rparr>"

definition NewChainScanner ::
    "int \<Rightarrow> string \<Rightarrow> bool \<Rightarrow> scanner_config \<Rightarrow> lock_manager option \<Rightarrow> (go_error + chain_scanner) outcome" where
  "NewChainScanner now chainID clientNil cfg lm =
     (if clientNil then Returns (Inl (Msg ''client cannot be nil''))
      else if co_max_workers_per_chain (sc_concurrency cfg) < 0 then Panics
      else
        (case NewWatermarkManager now chainID lm (sc_watermark cfg) of
           Inl e \<Rightarrow> Returns (Inl (Wrap ''failed to create watermark manager'' e))
         | Inr wm \<Rightarrow>
        (case (if shc_enabled (sc_sharding cfg)
               then map_sum id Some (NewShardingManager chainID (sc_sharding cfg)) else Inr None) of
           Inl e \<Rightarrow> Returns (Inl (Wrap ''failed to create sharding manager'' e))
         | Inr sh \<Rightarrow>
        (case NewReorgHandler chainID clientNil False (lm = None) of
           Inl e \<Rightarrow> Returns (Inl (Wrap ''failed to create reorg handler'' e))
         | Inr rh \<Rightarrow>
             Returns (Inr \<lparr>cs_chain_id = chainID, cs_config = cfg, cs_watermark = wm, cs_task_queue = [],
               cs_task_closed = False, cs_results_closed = False,
               cs_workers = initWorkers chainID (co_max_workers_per_chain (sc_concurrency cfg)),
               cs_sharding = sh, cs_reorg_handler = rh, cs_status = new_status chainID,
               cs_ctx_done = False, cs_goroutines = [], cs_last_scan_height = 0,
               cs_scan_rate = 0\<rparr>)))))"

definition task_cap :: "chain_scanner \<Rightarrow> int" where
  "task_cap s = wrap_i64 (co_max_workers_per_chain (sc_concurrency (cs_config s)) * 10)"

definition scanner_GetStatus :: "string \<Rightarrow> chain_scanner \<Rightarrow> go_error + scanner_status" where
  "scanner_GetStatus chainID s =
     (if chainID \<noteq> cs_chain_id s then
        Inl (Msg (''chain ID mismatch: expected '' @ cs_chain_id s @ '', got '' @ chainID))
      else Inr (cs_status s))"

section \<open>Status\<close>

text \<open>
  \<open>ema blocks ns rate\<close> is \<open>0.3 * (blocks / seconds) + 0.7 * rate\<close> in floating point. A zero
  \<open>ss_last_scan_time\<close> is the zero time.
\<close>

definition updateStatus ::
    "(u64 \<Rightarrow> int \<Rightarrow> float64 \<Rightarrow> float64) \<Rightarrow> int \<Rightarrow> u64 \<Rightarrow> u64 \<Rightarrow> watermark \<Rightarrow> chain_scanner \<Rightarrow> chain_scanner" where
  "updateStatus ema now currentHeight finalizedHeight w s =
     (let st = (cs_status s)\<lparr>ss_current_height := currentHeight,
                 ss_confirmed_height := wm_confirmed_height w,
                 ss_finalized_height := finalizedHeight,
                 ss_reorg_boundary := wm_reorg_boundary w,
                 ss_block_lag := currentHeight - wm_scanned_height w,
                 ss_active_workers := int (length (cs_workers s)),
                 ss_pending_tasks := int (length (cs_task_queue s))\<rparr>;
          duration = now - ss_last_scan_time st;
          rate = (if ss_last_scan_time st \<noteq> 0 \<and> duration > 0
                  then Some (ema (wm_scanned_height w - cs_last_scan_height s) duration (cs_scan_rate s))
                  else None)
      in s\<lparr>cs_status := (case rate of None \<Rightarrow> st | Some v \<Rightarrow> st\<lparr>ss_blocks_per_second := v\<rparr>),
           cs_scan_rate := (case rate of None \<Rightarrow> cs_scan_rate s | Some v \<Rightarrow> v),
           cs_last_scan_height := wm_scanned_height w\<rparr>)"

section \<open>Tasks\<close>

text \<open>What the select around a send sees: the send, the timer, or the cancelled context.\<close>

datatype select_result = Sent | TimedOut | Cancelled

definition new_task :: "string \<Rightarrow> u64 \<Rightarrow> u64 \<Rightarrow> int \<Rightarrow> scan_task" where
  "new_task chainID s e shard =
     \<lparr>st_chain_id = chainID, st_start_block = s, st_end_block = e, st_shard_id = shard,
      st_retry_count = 0, st_priority = 1\<rparr>"

text \<open>
  The batch size under back-pressure: \<open>len / cap > 0.8\<close> is \<open>5 * len > 4 * cap\<close>, and
  \<open>len / cap > 0.5\<close> is \<open>2 * len > cap\<close> (with a capacity of 0 both are false, as with NaN).
\<close>

definition backpressure_batch :: "int \<Rightarrow> nat \<Rightarrow> int \<Rightarrow> u64" where
  "backpressure_batch capacity len batchSize =
     (let b = word_of_int (if 5 * int len > 4 * capacity then go_quot batchSize 4
                           else if 2 * int len > capacity then go_quot batchSize 2
                           else batchSize) :: u64
      in if b < 1 then 1 else b)"

text \<open>
  The loop that enqueues tasks: \<open>sel i\<close> is the outcome of the \<open>i\<close>-th select. The result is the list of
  tasks sent. \<open>None\<close>: the loop never ends.
\<close>

partial_function (option) task_loop ::
    "(nat \<Rightarrow> select_result) \<Rightarrow> (u64 \<Rightarrow> int outcome) \<Rightarrow> string \<Rightarrow> bool \<Rightarrow> u64 \<Rightarrow> u64 \<Rightarrow> nat \<Rightarrow> u64
      \<Rightarrow> scan_task list \<Rightarrow> scan_task list outcome option" where
  "task_loop sel shard chainID closed batchSize endBlock i blockNumber sent =
     (if blockNumber \<le> endBlock then
        (let taskEnd = MinUint64 (blockNumber + batchSize - 1) endBlock in
         case shard blockNumber of
           Panics \<Rightarrow> Some Panics
         | Blocks \<Rightarrow> Some Blocks
         | Returns k \<Rightarrow>
             (case sel i of
                Sent \<Rightarrow>
                  if closed then Some Panics
                  else task_loop sel shard chainID closed batchSize endBlock (Suc i)
                         (blockNumber + batchSize) (sent @ [new_task chainID blockNumber taskEnd k])
              | TimedOut \<Rightarrow> Some (Returns sent)
              | Cancelled \<Rightarrow> Some (Returns sent)))
      else Some (Returns sent))"

definition shard_of :: "chain_scanner \<Rightarrow> u64 \<Rightarrow> int outcome" where
  "shard_of s n = (case cs_sharding s of None \<Rightarrow> Returns 0 | Some m \<Rightarrow> ShardingManager_CalculateShard m n)"

definition generateTasks ::
    "'c chain_client \<Rightarrow> (u64 \<Rightarrow> int \<Rightarrow> float64 \<Rightarrow> float64) \<Rightarrow> int \<Rightarrow> (nat \<Rightarrow> select_result)
      \<Rightarrow> chain_scanner \<times> 'c \<Rightarrow> (chain_scanner \<times> 'c) outcome option" where
  "generateTasks client ema now sel st =
     (let (s, c) = st in
      case GetWatermark (cs_watermark s) of
        Inl e \<Rightarrow> Some (Returns (s, c))
      | Inr w \<Rightarrow>
     (case cl_GetCurrentHeight client c of
        (Inl e, c1) \<Rightarrow> Some (Returns (s, c1))
      | (Inr currentHeight, c1) \<Rightarrow>
     (case cl_GetFinalizedHeight client c1 of
        (Inl e, c2) \<Rightarrow> Some (Returns (s, c2))
      | (Inr finalizedHeight, c2) \<Rightarrow>
          (let s1 = updateStatus ema now currentHeight finalizedHeight w s;
               startBlock = wm_scanned_height w + 1;
               endBlock = MinUint64 finalizedHeight currentHeight
           in if startBlock > endBlock then Some (Returns (s1, c2))
              else
                Option.bind
                  (task_loop sel (shard_of s1) (cs_chain_id s1) (cs_task_closed s1)
                     (backpressure_batch (task_cap s1) (length (cs_task_queue s1))
                        (co_batch_size (sc_concurrency (cs_config s1))))
                     endBlock 0 startBlock [])
                  (\<lambda>out. case out of
                     Returns sent \<Rightarrow> Some (Returns (s1\<lparr>cs_task_queue := cs_task_queue s1 @ sent\<rparr>, c2))
                   | Blocks \<Rightarrow> Some Blocks
                   | Panics \<Rightarrow> Some Panics)))))"

section \<open>Results\<close>

definition handleSuccessResult ::
    "'r redis \<Rightarrow> lock_manager \<Rightarrow> int \<Rightarrow> scan_result \<Rightarrow> chain_scanner \<times> 'r \<Rightarrow> chain_scanner \<times> 'r" where
  "handleSuccessResult R lm now res st =
     (let (s, r) = st;
          (e, (l, r'), wm') = UpdateScannedHeight R lm now (sr_end_block res) (cs_watermark s) r
      in (s\<lparr>cs_watermark := wm',
            cs_status := (cs_status s)\<lparr>ss_scanned_height := sr_end_block res, ss_last_scan_time := now\<rparr>\<rparr>,
          r'))"

text \<open>
  \<open>exponentialBackoff\<close>: \<open>math.Pow(2, n)\<close> as a duration. For \<open>n \<ge> 63\<close> the conversion of the float to
  an \<open>int64\<close> is implementation-specific, the parameter \<open>big\<close>; the product wraps around.
\<close>

definition exponentialBackoff :: "int \<Rightarrow> int \<Rightarrow> int \<Rightarrow> int" where
  "exponentialBackoff big baseDelay retryCount =
     (let n = retryCount - 1;
          factor = (if n < 0 then 0 else if n < 63 then 2 ^ nat n else big);
          delay = wrap_i64 (baseDelay * factor);
          maxDelay = 5 * 60 * 10 ^ 9
      in if delay > maxDelay then maxDelay else delay)"

text \<open>
  The second component is the goroutine that will send the task again, if one is started: the task,
  with its retry count raised, and the delay.
\<close>

definition handleFailureResult ::
    "int \<Rightarrow> scan_task \<Rightarrow> chain_scanner \<Rightarrow> chain_scanner \<times> (scan_task \<times> int) option" where
  "handleFailureResult big task s =
     (let s' = s\<lparr>cs_status := (cs_status s)\<lparr>ss_error_count := ss_error_count (cs_status s) + 1\<rparr>\<rparr>;
          cc = sc_concurrency (cs_config s)
      in if st_retry_count task < co_max_retries cc then
           (let task' = task\<lparr>st_retry_count := st_retry_count task + 1\<rparr>
            in (s', Some (task', exponentialBackoff big (co_retry_delay cc) (st_retry_count task'))))
         else (s', None))"

text \<open>What that goroutine does when its delay is over.\<close>

definition retry_send :: "select_result \<Rightarrow> scan_task \<Rightarrow> chain_scanner \<Rightarrow> chain_scanner outcome" where
  "retry_send sel task s =
     (case sel of
        Sent \<Rightarrow> if cs_task_closed s then Panics else Returns (s\<lparr>cs_task_queue := cs_task_queue s @ [task]\<rparr>)
      | _ \<Rightarrow> Returns s)"

text \<open>\<open>checkWatermark\<close> only logs: its result is the warning it gives.\<close>

definition checkWatermark :: "chain_scanner \<Rightarrow> bool" where
  "checkWatermark s =
     (case GetWatermark (cs_watermark s) of
        Inl e \<Rightarrow> False
      | Inr w \<Rightarrow> wm_scanned_height w > wm_reorg_boundary w)"

definition checkReorg ::
    "'c chain_client \<Rightarrow> 'r redis \<Rightarrow> lock_manager \<Rightarrow> int \<Rightarrow> chain_scanner \<times> 'c \<times> 'r
      \<Rightarrow> chain_scanner \<times> 'c \<times> 'r" where
  "checkReorg client R lm now st =
     (let (s, c, r) = st in
      case GetWatermark (cs_watermark s) of
        Inl e \<Rightarrow> (s, c, r)
      | Inr w \<Rightarrow>
          if wm_scanned_height w = 0 then (s, c, r)
          else
            (case GetBlockHash (cs_watermark s) (wm_scanned_height w) of
               Inl e \<Rightarrow> (s, c, r)
             | Inr blockHash \<Rightarrow>
            (case cl_DetectReorg client (wm_scanned_height w) blockHash c of
               (Inl e, c') \<Rightarrow> (s, c', r)
             | (Inr (hasReorg, commonAncestor), c') \<Rightarrow>
                 if hasReorg then
                   (let (e, h', wm', r') = sched_HandleReorg R lm now (wm_scanned_height w) commonAncestor
                          (cs_reorg_handler s, cs_watermark s, r)
                    in (s\<lparr>cs_reorg_handler := h', cs_watermark := wm',
                          cs_status := (cs_status s)\<lparr>ss_reorg_count := ss_reorg_count (cs_status s) + 1,
                            ss_last_reorg_time := now\<rparr>\<rparr>, c', r'))
                 else (s, c', r))))"

definition ResetWatermark ::
    "'r redis \<Rightarrow> lock_manager \<Rightarrow> int \<Rightarrow> u64 \<Rightarrow> chain_scanner \<times> 'r \<Rightarrow> go_error option \<times> chain_scanner \<times> 'r" where
  "ResetWatermark R lm now height st =
     (let (s, r) = st; (e, (l, r'), wm') = ResetToHeight R lm now height (cs_watermark s) r
      in (e, s\<lparr>cs_watermark := wm'\<rparr>, r'))"

section \<open>The tasks tile the range\<close>

definition task_blocks :: "scan_task \<Rightarrow> u64 list" where
  "task_blocks t = blocks_of (st_start_block t) (st_end_block t)"

lemma task_loop_tiles:
  assumes "0 < b" "unat hi + unat b < 2 ^ 64" "\<And>n. \<exists>k. shard n = Returns k"
    and "closed \<Longrightarrow> \<forall>i. sel i \<noteq> Sent"
  shows "\<exists>more rest. task_loop sel shard chainID closed b hi i lo sent = Some (Returns (sent @ more))
    \<and> concat (map task_blocks more) @ rest = blocks_of lo hi
    \<and> ((\<forall>j. sel j = Sent) \<longrightarrow> rest = [])
    \<and> (\<forall>t \<in> set more. st_start_block t \<le> st_end_block t \<and> st_end_block t \<le> hi
         \<and> unat (st_end_block t) - unat (st_start_block t) < unat b \<and> st_retry_count t = 0)"
proof (induction "Suc (unat hi) - unat lo" arbitrary: lo i sent rule: less_induct)
  case less
  show ?case
  proof (cases "lo \<le> hi")
    case False
    then show ?thesis by (subst task_loop.simps) (simp add: blocks_of_empty)
  next
    case True
    define bs where "bs = uint b"
    have w: "word_of_int bs = b" "nat bs = unat b" "0 < bs"
      using assms(1) by (simp_all add: bs_def word_gt_0 flip: unat_eq_nat_uint) (metis uint_0_iff uint_ge_0 order_le_less)
    define e where "e = MinUint64 (lo + word_of_int bs - 1) hi"
    note st = batch_step [OF w(3) _ True e_def, unfolded w, OF assms(2)]
    obtain k where k: "shard lo = Returns k" using assms(3) by blast
    let ?t = "new_task chainID lo e k"
    have eh: "lo \<le> e \<and> e \<le> hi \<and> unat e - unat lo < unat b"
    proof -
      have "e \<le> hi" by (auto simp: e_def MinUint64_def)
      moreover have "blocks_of lo e \<noteq> []" "length (blocks_of lo e) \<le> unat b" using st(3,4) by simp_all
      then have "unat lo \<le> unat e" "Suc (unat e) - unat lo \<le> unat b"
        by (auto simp: blocks_of_def split: if_splits)
      ultimately show ?thesis by (auto simp: word_le_nat_alt)
    qed
    show ?thesis
    proof (cases "sel i = Sent")
      case False
      then have "task_loop sel shard chainID closed b hi i lo sent = Some (Returns sent)"
        using True k by (subst task_loop.simps) (cases "sel i"; simp add: Let_def)
      then show ?thesis using False by (intro exI [of _ "[]"] exI [of _ "blocks_of lo hi"]) auto
    next
      case Sent: True
      have e': "MinUint64 (lo + b - 1) hi = e" by (simp add: e_def w)
      obtain more rest where IH:
        "task_loop sel shard chainID closed b hi (Suc i) (lo + b) (sent @ [?t])
          = Some (Returns ((sent @ [?t]) @ more))"
        "concat (map task_blocks more) @ rest = blocks_of (lo + b) hi"
        "(\<forall>j. sel j = Sent) \<longrightarrow> rest = []"
        "\<forall>t \<in> set more. st_start_block t \<le> st_end_block t \<and> st_end_block t \<le> hi
         \<and> unat (st_end_block t) - unat (st_start_block t) < unat b \<and> st_retry_count t = 0"
        using less [OF st(5)] by blast
      have "task_loop sel shard chainID closed b hi i lo sent = Some (Returns (sent @ ?t # more))"
        using IH(1) True k Sent assms(4) by (subst task_loop.simps) (auto simp: Let_def e')
      moreover have "task_blocks ?t = blocks_of lo e" by (simp add: task_blocks_def new_task_def)
      then have "concat (map task_blocks (?t # more)) @ rest = blocks_of lo hi"
        using IH(2) st(2) by simp
      ultimately show ?thesis using IH(3,4) eh
        by (intro exI [of _ "?t # more"] exI [of _ rest]) (auto simp: new_task_def)
    qed
  qed
qed

lemma backpressure_batch_bounds:
  assumes "0 < bs" "bs < 2 ^ 62"
  shows "0 < backpressure_batch capacity len bs \<and> unat (backpressure_batch capacity len bs) \<le> nat bs"
proof -
  define z where "z = (if 5 * int len > 4 * capacity then go_quot bs 4
    else if 2 * int len > capacity then go_quot bs 2 else bs)"
  have z: "0 \<le> z" "z \<le> bs" using assms by (auto simp: z_def go_quot_pos)
  then have "(word_of_int z :: u64) = of_nat (nat z)" by simp
  moreover have "nat z < 18446744073709551616" using z assms by simp
  ultimately have u: "unat (word_of_int z :: u64) = nat z" by (simp only: unat_of_nat_u64)
  have b: "backpressure_batch capacity len bs = (if (word_of_int z :: u64) < 1 then 1 else word_of_int z)"
    by (simp add: backpressure_batch_def z_def Let_def)
  show ?thesis
  proof (cases "(word_of_int z :: u64) < 1")
    case True
    then show ?thesis using b assms(1) by simp
  next
    case False
    then have "0 < (word_of_int z :: u64)" by (simp add: word_gt_0 not_less)
    then show ?thesis using False b u z by (simp add: nat_mono)
  qed
qed

lemma updateStatus_simps [simp]:
  "cs_task_queue (updateStatus ema now ch fh w s) = cs_task_queue s"
  "cs_task_closed (updateStatus ema now ch fh w s) = cs_task_closed s"
  "cs_config (updateStatus ema now ch fh w s) = cs_config s"
  "cs_sharding (updateStatus ema now ch fh w s) = cs_sharding s"
  "cs_chain_id (updateStatus ema now ch fh w s) = cs_chain_id s"
  "cs_watermark (updateStatus ema now ch fh w s) = cs_watermark s"
  "shard_of (updateStatus ema now ch fh w s) n = shard_of s n"
  by (simp_all add: updateStatus_def Let_def shard_of_def)

text \<open>One round of task generation: what it sends, and what it leaves alone.\<close>

lemma task_generation:
  assumes "wmm_watermark (cs_watermark s) = Some w" "\<not> cs_task_closed s"
    and "\<And>n. \<exists>k. shard_of s n = Returns k"
    and "cl_GetCurrentHeight client c = (Inr cur, c1)" "cl_GetFinalizedHeight client c1 = (Inr fin, c2)"
    and "hi = MinUint64 fin cur" "bs = co_batch_size (sc_concurrency (cs_config s))"
    and "0 < bs" "bs < 2 ^ 62" "unat hi + nat bs < 2 ^ 64"
  shows "\<exists>s' sent rest. generateTasks client ema now sel (s, c) = Some (Returns (s', c2))
    \<and> cs_task_queue s' = cs_task_queue s @ sent
    \<and> concat (map task_blocks sent) @ rest = blocks_of (wm_scanned_height w + 1) hi
    \<and> ((\<forall>j. sel j = Sent) \<longrightarrow> rest = [])
    \<and> (\<forall>t \<in> set sent. st_start_block t \<le> st_end_block t \<and> st_end_block t \<le> hi
         \<and> unat (st_end_block t) - unat (st_start_block t) < nat bs)
    \<and> cs_watermark s' = cs_watermark s \<and> cs_config s' = cs_config s \<and> cs_sharding s' = cs_sharding s
    \<and> cs_task_closed s' = cs_task_closed s"
proof -
  let ?lo = "wm_scanned_height w + 1"
  let ?b = "backpressure_batch (task_cap s) (length (cs_task_queue s)) bs"
  let ?s1 = "updateStatus ema now cur fin w s"
  have b: "0 < ?b" "unat ?b \<le> nat bs" using backpressure_batch_bounds [OF assms(8,9)] by auto
  have cap: "task_cap ?s1 = task_cap s" by (simp add: task_cap_def)
  show ?thesis
  proof (cases "?lo > hi")
    case True
    then have "generateTasks client ema now sel (s, c) = Some (Returns (?s1, c2))"
      using assms(1,4-6) by (simp add: generateTasks_def GetWatermark_def Let_def)
    then show ?thesis using True
      by (intro exI [of _ ?s1] exI [of _ "[]"] exI [of _ "[]"]) (simp add: blocks_of_empty)
  next
    case False
    have "unat hi + unat ?b < 2 ^ 64" using b(2) assms(10) by linarith
    from task_loop_tiles [of ?b hi "shard_of s" "cs_task_closed s" sel "cs_chain_id s" 0 ?lo "[]"]
      b(1) this assms(2,3)
    obtain more rest where t:
      "task_loop sel (shard_of s) (cs_chain_id s) (cs_task_closed s) ?b hi 0 ?lo [] = Some (Returns more)"
      "concat (map task_blocks more) @ rest = blocks_of ?lo hi"
      "(\<forall>j. sel j = Sent) \<longrightarrow> rest = []"
      "\<forall>t \<in> set more. st_start_block t \<le> st_end_block t \<and> st_end_block t \<le> hi
         \<and> unat (st_end_block t) - unat (st_start_block t) < unat ?b"
      by auto
    let ?s2 = "?s1\<lparr>cs_task_queue := cs_task_queue s @ more\<rparr>"
    have "shard_of ?s1 = shard_of s" by (simp add: fun_eq_iff)
    then have "generateTasks client ema now sel (s, c) = Some (Returns (?s2, c2))"
      using assms(1,4-7) False t(1) by (simp add: generateTasks_def GetWatermark_def Let_def cap)
    then show ?thesis using t(2-4) b(2)
      by (intro exI [of _ ?s2] exI [of _ more] exI [of _ rest]) fastforce
  qed
qed

text \<open>
  C3: One round of task generation cuts the blocks that are finalised and not yet scanned into
  consecutive tasks of at most the batch size, in order, without gap or overlap; if no send times
  out, the tasks cover all of them up to the lower of the finalised and the current height.
\<close>

theorem generateTasks_tile:
  assumes "wmm_watermark (cs_watermark s) = Some w" "\<not> cs_task_closed s"
    and "\<And>n. \<exists>k. shard_of s n = Returns k"
    and "cl_GetCurrentHeight client c = (Inr cur, c1)" "cl_GetFinalizedHeight client c1 = (Inr fin, c2)"
    and "hi = MinUint64 fin cur" "bs = co_batch_size (sc_concurrency (cs_config s))"
    and "0 < bs" "bs < 2 ^ 62" "unat hi + nat bs < 2 ^ 64"
  shows "\<exists>s' sent rest. generateTasks client ema now sel (s, c) = Some (Returns (s', c2))
    \<and> cs_task_queue s' = cs_task_queue s @ sent
    \<and> concat (map task_blocks sent) @ rest = blocks_of (wm_scanned_height w + 1) hi
    \<and> ((\<forall>j. sel j = Sent) \<longrightarrow> rest = [])
    \<and> (\<forall>t \<in> set sent. st_start_block t \<le> st_end_block t \<and> st_end_block t \<le> hi
         \<and> unat (st_end_block t) - unat (st_start_block t) < nat bs)"
  using task_generation [where sel = sel and ema = ema and now = now, OF assms] by blast

text \<open>A scanner and a node, for the examples.\<close>

definition scanner_at :: "watermark_manager \<Rightarrow> chain_scanner" where
  "scanner_at wm = \<lparr>cs_chain_id = ''eth'',
     cs_config = \<lparr>sc_concurrency = small_config, sc_watermark = wm_cfg,
       sc_sharding = \<lparr>shc_enabled = False, shc_shard_count = 0, shc_strategy = []\<rparr>\<rparr>,
     cs_watermark = wm, cs_task_queue = [], cs_task_closed = False, cs_results_closed = False,
     cs_workers = initWorkers ''eth'' 1, cs_sharding = None,
     cs_reorg_handler = \<lparr>srh_chain_id = ''eth'', srh_processing = False\<rparr>,
     cs_status = new_status ''eth'', cs_ctx_done = False, cs_goroutines = [],
     cs_last_scan_height = 0, cs_scan_rate = 0\<rparr>"

definition static_client :: "u64 \<Rightarrow> u64 \<Rightarrow> unit chain_client" where
  "static_client cur fin =
     \<lparr>cl_GetBlock = (\<lambda>n s. (Inr (Some (mk_block n ''h'' ''p'' [])), s)),
      cl_GetFinalizedHeight = (\<lambda>s. (Inr fin, s)), cl_GetCurrentHeight = (\<lambda>s. (Inr cur, s)),
      cl_BatchGetBlocks = chain_client (\<lambda>n. mk_block n ''h'' ''p'' []),
      cl_DetectReorg = (\<lambda>n h s. (Inr (False, 0), s))\<rparr>"

lemma scanner_at_simps [simp]:
  "cs_watermark (scanner_at wm) = wm" "cs_task_closed (scanner_at wm) = False"
  "cs_task_queue (scanner_at wm) = []" "sc_concurrency (cs_config (scanner_at wm)) = small_config"
  "shard_of (scanner_at wm) n = Returns 0" "cs_status (scanner_at wm) = new_status ''eth''"
  by (simp_all add: scanner_at_def shard_of_def)

theorem generateTasks_tile_witness:
  "\<exists>s' sent rest. generateTasks (static_client 105 103) (\<lambda>b d v. v) 7 (\<lambda>i. Sent) (scanner_at (wm_at 100 88), ())
      = Some (Returns (s', ()))
    \<and> cs_task_queue s' = sent
    \<and> concat (map task_blocks sent) @ rest = blocks_of 101 103 \<and> rest = []"
proof -
  let ?w = "the (wmm_watermark (wm_at 100 88))"
  have w: "wmm_watermark (cs_watermark (scanner_at (wm_at 100 88))) = Some ?w" "wm_scanned_height ?w = 100"
    by (simp_all add: wm_at_def)
  have h: "cl_GetCurrentHeight (static_client 105 103) () = (Inr 105, ())"
    "cl_GetFinalizedHeight (static_client 105 103) () = (Inr 103, ())"
    by (simp_all add: static_client_def)
  from generateTasks_tile [of "scanner_at (wm_at 100 88)" ?w "static_client 105 103" "()" 105 "()" 103 "()"
      103 2 "\<lambda>b d v. v" 7 "\<lambda>i. Sent"] w h
  show ?thesis by (auto simp: MinUint64_def)
qed



section \<open>Failures and retries\<close>

text \<open>
  Exponential back-off: while the product does not overflow, the delay is the base delay doubled
  for every retry after the first, capped at five minutes.
\<close>

theorem exponentialBackoff_value:
  assumes "1 \<le> retry" "retry \<le> 63" "0 \<le> base" "base * 2 ^ nat (retry - 1) < 2 ^ 63"
  shows "exponentialBackoff big base retry = min (base * 2 ^ nat (retry - 1)) 300000000000"
proof -
  have "0 \<le> base * 2 ^ nat (retry - 1)" using assms(3) by simp
  then have "wrap_i64 (base * 2 ^ nat (retry - 1)) = base * 2 ^ nat (retry - 1)"
    using assms(4) by (intro wrap_i64_id) linarith+
  then show ?thesis using assms(1,2) by (simp add: exponentialBackoff_def Let_def min_def)
qed

theorem exponentialBackoff_value_witness:
  "exponentialBackoff 0 (10 ^ 9) 3 = 4 * 10 ^ 9 \<and> exponentialBackoff 0 (10 ^ 9) 20 = 300000000000"
  using exponentialBackoff_value [of 3 "10 ^ 9" 0] exponentialBackoff_value [of 20 "10 ^ 9" 0] by simp

text \<open>Past the overflow the delay can be negative, which is no delay at all.\<close>

lemma exponentialBackoff_wraps: "exponentialBackoff 0 (10 ^ 9) 35 < 0"
  by (simp add: exponentialBackoff_def wrap_i64_def Let_def)

text \<open>
  A failed task is sent again, with its retry count raised by one and never above the maximum,
  exactly while the count is below the maximum; the only other change is the error count.
\<close>

theorem handleFailureResult_retries:
  "(case snd (handleFailureResult big t s) of
      None \<Rightarrow> co_max_retries (sc_concurrency (cs_config s)) \<le> st_retry_count t
    | Some (t', d) \<Rightarrow> t' = t\<lparr>st_retry_count := st_retry_count t + 1\<rparr>
        \<and> st_retry_count t' \<le> co_max_retries (sc_concurrency (cs_config s))
        \<and> d = exponentialBackoff big (co_retry_delay (sc_concurrency (cs_config s))) (st_retry_count t'))
    \<and> fst (handleFailureResult big t s)
        = s\<lparr>cs_status := (cs_status s)\<lparr>ss_error_count := ss_error_count (cs_status s) + 1\<rparr>\<rparr>"
  by (simp add: handleFailureResult_def Let_def)

section \<open>Gaps\<close>

text \<open>
  Results come in any order and a success moves the watermark to the end of its task. Here the
  task of blocks 101 to 102 has failed for good and that of 103 to 104 succeeds: the watermark is
  at 104 and no later round generates 101 or 102 again.
\<close>

definition done_103_104 :: scan_result where
  "done_103_104 = task_result (new_task ''eth'' 103 104 0) 5 (2, 0, None)"

lemma success_skips_failed:
  "\<exists>w. wmm_watermark (cs_watermark (fst (handleSuccessResult mem_redis \<lparr>lmg_default_ttl = 1\<rparr> 7 done_103_104
       (scanner_at (wm_at 100 88), \<lambda>k. None)))) = Some w \<and> wm_scanned_height w = 104"
  by (simp add: handleSuccessResult_def UpdateScannedHeight_def with_lock_def RedisLock_Lock_def mem_redis_def
      update_scanned_body_def saveWatermark_def wm_at_def done_103_104_def task_result_def new_task_def Let_def
      split: prod.splits)

end
