(* ===== verification/Json.thy ===== *)
theory Json
  imports GoTypes Util
begin

text \<open>
  Decoded JSON (Go's \<open>interface{}\<close> after \<open>json.Unmarshal\<close>) and the type assertions by which the EVM
  client, the parsers and the plugins take it apart. Numbers are hexadecimal strings with the prefix
  \<open>0x\<close>; the last lemmas say that a number rendered that way reads back.
\<close>

section \<open>JSON\<close>

text \<open>Nothing reads the numbers of JSON (they are \<open>float64\<close> in Go): their integers stand for them.\<close>

datatype json = JNull | JBool bool | JNum int | JStr string | JArr "json list" | JObj "(string \<times> json) list"

text \<open>\<open>obj[k].(string)\<close> with its error, and the form that ignores a failed assertion.\<close>

definition str_field :: "(string \<times> json) list \<Rightarrow> string \<Rightarrow> string \<Rightarrow> go_error + string" where
  "str_field obj k msg = (case map_of obj k of Some (JStr s) \<Rightarrow> Inr s | _ \<Rightarrow> Inl (Msg msg))"

definition str_or_empty :: "(string \<times> json) list \<Rightarrow> string \<Rightarrow> string" where
  "str_or_empty obj k = (case map_of obj k of Some (JStr s) \<Rightarrow> s | _ \<Rightarrow> '''')"

definition obj_of :: "json \<Rightarrow> string \<Rightarrow> go_error + (string \<times> json) list" where
  "obj_of j msg = (case j of JObj o' \<Rightarrow> Inr o' | _ \<Rightarrow> Inl (Msg msg))"

definition arr_field :: "(string \<times> json) list \<Rightarrow> string \<Rightarrow> json list option" where
  "arr_field obj k = (case map_of obj k of Some (JArr xs) \<Rightarrow> Some xs | _ \<Rightarrow> None)"

definition andthen :: "go_error + 'a \<Rightarrow> ('a \<Rightarrow> go_error + 'b) \<Rightarrow> go_error + 'b" where
  "andthen r f = (case r of Inl e \<Rightarrow> Inl e | Inr x \<Rightarrow> f x)"

lemma andthen_simps [simp]: "andthen (Inl e) f = Inl e" "andthen (Inr x) f = f x"
  by (simp_all add: andthen_def)

lemma andthen_Inr: "andthen r f = Inr y \<longleftrightarrow> (\<exists>x. r = Inr x \<and> f x = Inr y)"
  by (cases r) auto

text \<open>\<open>big.Int.Int64\<close> and \<open>Uint64\<close>: the low 64 bits, with the sign for the first.\<close>

definition big_Int64 :: "int \<Rightarrow> int" where
  "big_Int64 z = wrap_i64 z"

definition big_Uint64 :: "int \<Rightarrow> u64" where
  "big_Uint64 z = word_of_int \<bar>z\<bar>"

definition TimestampToTime :: "int \<Rightarrow> int" where
  "TimestampToTime timestamp = timestamp * 10 ^ 9"

text \<open>A number field: a missing one and one that does not parse have their own messages.\<close>

definition big_field :: "(string \<times> json) list \<Rightarrow> string \<Rightarrow> string \<Rightarrow> string \<Rightarrow> go_error + int" where
  "big_field obj k bad unparsed =
     andthen (str_field obj k bad) (\<lambda>h. wrap_res unparsed (ParseBigInt h))"

definition number_field :: "(string \<times> json) list \<Rightarrow> string \<Rightarrow> go_error + u64" where
  "number_field obj k =
     andthen (str_field obj k ''invalid block number format'')
       (\<lambda>h. wrap_res ''failed to parse block number'' (ParseBlockNumber h))"

text \<open>What a loop that logs and skips the errors keeps.\<close>

definition oks :: "('a \<Rightarrow> go_error + 'b) \<Rightarrow> 'a list \<Rightarrow> 'b list" where
  "oks f xs = List.map_filter (\<lambda>x. case f x of Inl e \<Rightarrow> None | Inr y \<Rightarrow> Some y) xs"

section \<open>Rendered numbers\<close>

definition hex :: "nat \<Rightarrow> json" where
  "hex n = JStr (''0x'' @ fmt_nat 16 n)"

lemma hex_digits_no_prefix: "has_prefix (''0x'' @ fmt_nat 16 n) ''0x''" "drop 2 (''0x'' @ fmt_nat 16 n) = fmt_nat 16 n"
  by (simp_all add: has_prefix_def)

lemma ParseBigInt_hex [simp]: "ParseBigInt (''0x'' @ fmt_nat 16 n) = Inr (int n)"
  using hex_digits_no_prefix [of n] by (simp add: ParseBigInt_def big_set_string_fmt_nat Let_def)

lemma ParseBlockNumber_hex [simp]: "ParseBlockNumber (''0x'' @ fmt_nat 16 (unat n)) = Inr n"
  using hex_digits_no_prefix [of "unat n"] uint_u64_less [of n]
  by (simp add: ParseBlockNumber_def big_set_string_fmt_nat word_of_int_nat)

lemma ParseBigInt_0x [simp]: "ParseBigInt (CHR ''0'' # CHR ''x'' # fmt_nat 16 n) = Inr (int n)"
  using ParseBigInt_hex [of n] by simp

lemma ParseBlockNumber_0x [simp]: "ParseBlockNumber (CHR ''0'' # CHR ''x'' # fmt_nat 16 (unat n)) = Inr n"
  using ParseBlockNumber_hex [of n] by simp

end
