(* ===== verification/Configuration.thy ===== *)
theory Configuration
  imports Scanner Json "HOL-Library.AList"
begin

text \<open>
  \<open>pkg/config/config.go\<close>: the configuration, its defaults, loading and checking it. The package viper, which
  reads the file and decodes it, is a parameter. The chains are an association list, whose order is the
  order in which a loop over the map takes them. Durations are nanoseconds, the one \<open>float64\<close> a mantissa and
  an exponent.
\<close>

section \<open>The configuration\<close>

record app_config =
  app_Name :: string
  app_Version :: string
  app_Environment :: string
  app_LogLevel :: string

record server_config =
  srv_HTTPPort :: int
  srv_GRPCPort :: int
  srv_MetricsPort :: int

record db_instance_config =
  dbi_Driver :: string
  dbi_Host :: string
  dbi_Port :: int
  dbi_Username :: string
  dbi_Password :: string
  dbi_Database :: string
  dbi_MaxOpenConns :: int
  dbi_MaxIdleConns :: int
  dbi_ConnMaxLifetime :: int

record postgres_config =
  pg_Enabled :: bool
  pg_Host :: string
  pg_Port :: int
  pg_Username :: string
  pg_Password :: string
  pg_Database :: string
  pg_SSLMode :: string

record database_config =
  dbc_Master :: db_instance_config
  dbc_Slave :: db_instance_config
  dbc_Postgres :: postgres_config

record redis_settings =
  rs_Addr :: string
  rs_Password :: string
  rs_DB :: int
  rs_PoolSize :: int
  rs_MinIdleConns :: int

record elasticsearch_settings =
  ess_Enabled :: bool
  ess_Addresses :: "string list"
  ess_Username :: string
  ess_Password :: string
  ess_IndexPrefix :: string

record kafka_topics =
  kt_RawBlock :: string
  kt_NormalizedTx :: string
  kt_ReorgEvent :: string
  kt_DLQ :: string

record kafka_settings =
  ks_Brokers :: "string list"
  ks_ClientID :: string
  ks_GroupID :: string
  ks_Topics :: kafka_topics

record rocketmq_settings =
  rm_Enabled :: bool
  rm_NameServers :: string
  rm_GroupID :: string

record redis_lock_config =
  rl_Addr :: string
  rl_Password :: string
  rl_DB :: int

record etcd_lock_config =
  et_Endpoints :: "string list"
  et_DialTimeout :: int

record distributed_lock_config =
  dl_Provider :: string
  dl_Redis :: redis_lock_config
  dl_Etcd :: etcd_lock_config

record prometheus_config =
  pr_Enabled :: bool
  pr_Path :: string

record health_config =
  hl_Enabled :: bool
  hl_Path :: string
  hl_Detailed :: bool

record alerts_threshold =
  th_BlockLag :: u64
  th_ErrorRate :: "int \<times> int"
  th_QueueDepth :: int

record alerts_config =
  al_Enabled :: bool
  al_WebhookURL :: string
  al_Thresholds :: alerts_threshold

record monitoring_config =
  mo_Prometheus :: prometheus_config
  mo_Health :: health_config
  mo_Alerts :: alerts_config

record file_log_config =
  fl_Enabled :: bool
  fl_Path :: string
  fl_MaxSize :: int
  fl_MaxBackups :: int
  fl_MaxAge :: int
  fl_Compress :: bool

record logging_config =
  lg_Level :: string
  lg_Format :: string
  lg_Output :: string
  lg_File :: file_log_config

record resource_limit =
  rl_CPU :: string
  rl_Memory :: string

record resources_config =
  re_Requests :: resource_limit
  re_Limits :: resource_limit

record autoscaling_config =
  as_Enabled :: bool
  as_MinReplicas :: int
  as_MaxReplicas :: int
  as_TargetCPUUtilization :: int
  as_TargetMemoryUtilization :: int

record deployment_config =
  dp_Replicas :: int
  dp_Resources :: resources_config
  dp_Autoscaling :: autoscaling_config

record config =
  cfg_App :: app_config
  cfg_Server :: server_config
  cfg_Database :: database_config
  cfg_Redis :: redis_settings
  cfg_Elasticsearch :: elasticsearch_settings
  cfg_Kafka :: kafka_settings
  cfg_RocketMQ :: rocketmq_settings
  cfg_DistributedLock :: distributed_lock_config
  cfg_Scanner :: scanner_config
  cfg_Chains :: "(string \<times> chain_config) list"
  cfg_Monitoring :: monitoring_config
  cfg_Logging :: logging_config
  cfg_Deployment :: deployment_config

section \<open>Checking and looking up\<close>

fun check_nodes :: "string \<Rightarrow> nat \<Rightarrow> rpc_node_config list \<Rightarrow> go_error option" where
  "check_nodes chainID i [] = None"
| "check_nodes chainID i (n # ns) =
     (let path = ''chain.'' @ chainID @ ''.rpc_nodes['' @ fmt_nat 10 i @ '']'' in
      if rn_url n = '''' then Some (Msg (path @ ''.url is required''))
      else if rn_weight n \<le> 0 then Some (Msg (path @ ''.weight must be positive''))
      else check_nodes chainID (Suc i) ns)"

fun check_chains :: "(string \<times> chain_config) list \<Rightarrow> go_error option" where
  "check_chains [] = None"
| "check_chains ((chainID, chain) # cs) =
     (if \<not> cc_enabled chain then check_chains cs
      else if cc_chain_id chain = '''' then Some (Msg (''chain.'' @ chainID @ ''.chain_id is required''))
      else if cc_rpc_nodes chain = [] then Some (Msg (''chain.'' @ chainID @ '' must have at least one RPC node''))
      else case check_nodes chainID 0 (cc_rpc_nodes chain) of Some e \<Rightarrow> Some e | None \<Rightarrow> check_chains cs)"

definition validateConfig :: "config \<Rightarrow> go_error option" where
  "validateConfig cfg =
     (if app_Name (cfg_App cfg) = '''' then Some (Msg ''app.name is required'')
      else if cfg_Chains cfg = [] then Some (Msg ''at least one chain must be configured'')
      else check_chains (cfg_Chains cfg))"

definition GetEnabledChains :: "config \<Rightarrow> string list" where
  "GetEnabledChains cfg = map fst (filter (\<lambda>(chainID, chain). cc_enabled chain) (cfg_Chains cfg))"

definition GetChainConfig :: "config \<Rightarrow> string \<Rightarrow> go_error + chain_config" where
  "GetChainConfig cfg chainID =
     (case map_of (cfg_Chains cfg) chainID of
        None \<Rightarrow> Inl (Msg (''chain '' @ chainID @ '' not found''))
      | Some chain \<Rightarrow> if \<not> cc_enabled chain then Inl (Msg (''chain '' @ chainID @ '' is disabled'')) else Inr chain)"

section \<open>Loading\<close>

text \<open>The tree of a file of settings.\<close>

datatype setting =
  SText string | SNumber int | SFlag bool | SList "setting list" | SMap "(string \<times> setting) list"

text \<open>viper: reading the file of a path, and decoding the settings over the defaults.\<close>

record viper =
  vp_ReadInConfig :: "string \<Rightarrow> go_error + (string \<times> setting) list"
  vp_Unmarshal :: "(string \<times> setting) list \<Rightarrow> (string \<times> setting) list \<Rightarrow> go_error + config"

definition setDefaults :: "(string \<times> setting) list" where
  "setDefaults =
     [(''app.name'', SText ''multi-chain-scanner''), (''app.version'', SText ''1.0.0''), (''app.environment'', SText ''development''),
      (''app.log_level'', SText ''info''),
      (''server.http_port'', SNumber 8080), (''server.grpc_port'', SNumber 9090), (''server.metrics_port'', SNumber 9091),
      (''database.master.driver'', SText ''mysql''), (''database.master.max_open_conns'', SNumber 100),
      (''database.master.max_idle_conns'', SNumber 20), (''database.master.conn_max_lifetime'', SText ''1h''),
      (''redis.pool_size'', SNumber 100), (''redis.min_idle_conns'', SNumber 10),
      (''scanner.concurrency.max_workers_per_chain'', SNumber 10), (''scanner.concurrency.batch_size'', SNumber 100),
      (''scanner.concurrency.max_retries'', SNumber 3), (''scanner.concurrency.retry_delay'', SText ''1s''),
      (''scanner.watermark.check_interval'', SText ''10s''), (''scanner.watermark.reorg_detection_depth'', SNumber 128),
      (''scanner.watermark.finalization_confirmations'', SNumber 32),
      (''scanner.sharding.enabled'', SFlag True), (''scanner.sharding.shard_count'', SNumber 16),
      (''scanner.sharding.strategy'', SText ''block_number''),
      (''monitoring.prometheus.enabled'', SFlag True), (''monitoring.prometheus.path'', SText ''/metrics''),
      (''monitoring.health.enabled'', SFlag True), (''monitoring.health.path'', SText ''/health''),
      (''logging.level'', SText ''info''), (''logging.format'', SText ''json''), (''logging.output'', SText ''stdout'')]"

definition LoadConfig :: "viper \<Rightarrow> string \<Rightarrow> go_error + config" where
  "LoadConfig V configPath =
     andthen (wrap_res ''failed to read config file'' (vp_ReadInConfig V configPath)) (\<lambda>file.
     andthen (wrap_res ''failed to unmarshal config'' (vp_Unmarshal V setDefaults file)) (\<lambda>cfg.
       case validateConfig cfg of Some e \<Rightarrow> Inl (Wrap ''config validation failed'' e) | None \<Rightarrow> Inr cfg))"


section \<open>What is accepted\<close>

definition valid_node :: "rpc_node_config \<Rightarrow> bool" where
  "valid_node n \<longleftrightarrow> rn_url n \<noteq> '''' \<and> 0 < rn_weight n"

definition valid_chain :: "chain_config \<Rightarrow> bool" where
  "valid_chain c \<longleftrightarrow> cc_chain_id c \<noteq> '''' \<and> cc_rpc_nodes c \<noteq> [] \<and> list_all valid_node (cc_rpc_nodes c)"

definition valid_config :: "config \<Rightarrow> bool" where
  "valid_config cfg \<longleftrightarrow>
     app_Name (cfg_App cfg) \<noteq> '''' \<and> cfg_Chains cfg \<noteq> [] \<and> list_all (\<lambda>(k, c). cc_enabled c \<longrightarrow> valid_chain c) (cfg_Chains cfg)"

lemma check_nodes_None: "check_nodes k i ns = None \<longleftrightarrow> list_all valid_node ns"
  by (induction k i ns rule: check_nodes.induct) (auto simp: valid_node_def Let_def)

lemma check_nodes_Some: "check_nodes k i ns = Some e \<Longrightarrow> \<not> list_all valid_node ns"
  by (simp flip: check_nodes_None [of k i])

lemma check_chains_None: "check_chains cs = None \<longleftrightarrow> list_all (\<lambda>(k, c). cc_enabled c \<longrightarrow> valid_chain c) cs"
  by (induction cs rule: check_chains.induct)
    (auto simp: valid_chain_def check_nodes_None dest: check_nodes_Some split: option.split)

lemma validateConfig_None: "validateConfig cfg = None \<longleftrightarrow> valid_config cfg"
  by (simp add: validateConfig_def valid_config_def check_chains_None)

lemma LoadConfig_valid: "LoadConfig V path = Inr cfg \<Longrightarrow> valid_config cfg"
  by (auto simp: LoadConfig_def andthen_Inr validateConfig_None [symmetric] split: option.split_asm)

text \<open>
  A configuration is accepted exactly if it has a name and a chain and every enabled chain has an identity
  and nodes, all with an address and a positive weight. What is accepted does not depend on the order in which
  the map of chains is walked, only the error reported does.
\<close>

theorem validateConfig_accepts:
  "(validateConfig cfg = None \<longleftrightarrow> valid_config cfg)
    \<and> (set cs = set (cfg_Chains cfg) \<longrightarrow> (validateConfig (cfg\<lparr>cfg_Chains := cs\<rparr>) = None \<longleftrightarrow> validateConfig cfg = None))"
  by (auto simp: validateConfig_None valid_config_def list_all_iff)

text \<open>The lookup of a chain agrees with the list of the enabled ones.\<close>

lemma GetEnabledChains_in: "k \<in> set (GetEnabledChains cfg) \<longleftrightarrow> (\<exists>c. (k, c) \<in> set (cfg_Chains cfg) \<and> cc_enabled c)"
  by (force simp: GetEnabledChains_def)

lemma GetChainConfig_enabled:
  assumes "distinct (map fst (cfg_Chains cfg))"
  shows "k \<in> set (GetEnabledChains cfg) \<longleftrightarrow> (\<exists>c. GetChainConfig cfg k = Inr c)"
proof -
  have "k \<in> set (GetEnabledChains cfg) \<longleftrightarrow> (\<exists>c. (k, c) \<in> set (cfg_Chains cfg) \<and> cc_enabled c)"
    by (rule GetEnabledChains_in)
  also have "\<dots> \<longleftrightarrow> (\<exists>c. map_of (cfg_Chains cfg) k = Some c \<and> cc_enabled c)" using assms by simp
  also have "\<dots> \<longleftrightarrow> (\<exists>c. GetChainConfig cfg k = Inr c)" by (auto simp: GetChainConfig_def split: option.split)
  finally show ?thesis .
qed

section \<open>The spelling of the keys\<close>

definition to_lower :: "string \<Rightarrow> string" where
  "to_lower = map (\<lambda>c. if of_char c \<in> {65..90 :: nat} then char_of (of_char c + 32 :: nat) else c)"

text \<open>
  viper decodes with mapstructure, whose fields have the name of the struct's field up to case unless a tag
  \<open>mapstructure\<close> names them. The structs have tags \<open>yaml\<close> only, so the identity of a chain can come from a
  key \<open>chainid\<close> alone, in whatever case.
\<close>

definition fields_by_name :: "viper \<Rightarrow> bool" where
  "fields_by_name V \<longleftrightarrow>
     (\<forall>defaults file cfg k c. vp_Unmarshal V defaults file = Inr cfg \<and> (k, c) \<in> set (cfg_Chains cfg) \<and> cc_chain_id c \<noteq> '''' \<longrightarrow>
        (\<exists>cm m key j. map_of file ''chains'' = Some (SMap cm) \<and> map_of cm k = Some (SMap m)
           \<and> (key, j) \<in> set m \<and> to_lower key = ''chainid''))"

text \<open>The files that spell a key as the tags and the documentation do.\<close>

definition keys_as_tagged :: "(string \<times> setting) list \<Rightarrow> bool" where
  "keys_as_tagged file \<longleftrightarrow>
     (case map_of file ''chains'' of
        Some (SMap cm) \<Rightarrow> list_all (\<lambda>(k, s). case s of SMap m \<Rightarrow> list_all (\<lambda>(key, j). to_lower key \<noteq> ''chainid'') m | _ \<Rightarrow> True) cm
      | _ \<Rightarrow> True)"

text \<open>
  A file that spells the identity of its chains as the tags of the structs do, \<open>chain_id\<close>, is refused as soon
  as a chain of it is enabled: the identity is never decoded.
\<close>

theorem tagged_file_refused:
  assumes "fields_by_name V" "vp_ReadInConfig V path = Inr file" "keys_as_tagged file"
    and "vp_Unmarshal V setDefaults file = Inr cfg" "GetEnabledChains cfg \<noteq> []"
  shows "\<exists>e. LoadConfig V path = Inl e"
proof -
  have "cc_chain_id c = ''''" if c: "(k, c) \<in> set (cfg_Chains cfg)" for k c
  proof (rule ccontr)
    assume "cc_chain_id c \<noteq> ''''"
    then obtain cm m key j where m: "map_of file ''chains'' = Some (SMap cm)" "map_of cm k = Some (SMap m)"
        "(key, j) \<in> set m" "to_lower key = ''chainid''"
      using assms(1,4) c unfolding fields_by_name_def by blast
    have "(k, SMap m) \<in> set cm" using m(2) by (rule map_of_SomeD)
    then show False using assms(3) m by (fastforce simp: keys_as_tagged_def list_all_iff)
  qed
  moreover obtain k c where "(k, c) \<in> set (cfg_Chains cfg)" "cc_enabled c"
    using assms(5) by (auto simp: GetEnabledChains_def filter_empty_conv)
  ultimately have "\<not> valid_config cfg" by (fastforce simp: valid_config_def valid_chain_def list_all_iff)
  then show ?thesis using assms(2,4) validateConfig_None [of cfg] by (auto simp: LoadConfig_def split: option.split)
qed


text \<open>The zero value of the configuration, into which a file is decoded.\<close>

definition zero_instance :: db_instance_config where
  "zero_instance =
     \<lparr>dbi_Driver = '''', dbi_Host = '''', dbi_Port = 0, dbi_Username = '''', dbi_Password = '''', dbi_Database = '''',
      dbi_MaxOpenConns = 0, dbi_MaxIdleConns = 0, dbi_ConnMaxLifetime = 0\<rparr>"

definition zero_scanner :: scanner_config where
  "zero_scanner =
     \<lparr>sc_concurrency = \<lparr>co_max_workers_per_chain = 0, co_batch_size = 0, co_max_retries = 0, co_retry_delay = 0, co_parallel_requests = 0\<rparr>,
      sc_watermark = \<lparr>wc_check_interval = 0, wc_reorg_detection_depth = 0, wc_finalization_confirmations = 0\<rparr>,
      sc_sharding = \<lparr>shc_enabled = False, shc_shard_count = 0, shc_strategy = ''''\<rparr>\<rparr>"

definition zero_config :: config where
  "zero_config =
     \<lparr>cfg_App = \<lparr>app_Name = '''', app_Version = '''', app_Environment = '''', app_LogLevel = ''''\<rparr>,
      cfg_Server = \<lparr>srv_HTTPPort = 0, srv_GRPCPort = 0, srv_MetricsPort = 0\<rparr>,
      cfg_Database = \<lparr>dbc_Master = zero_instance, dbc_Slave = zero_instance,
        dbc_Postgres = \<lparr>pg_Enabled = False, pg_Host = '''', pg_Port = 0, pg_Username = '''', pg_Password = '''', pg_Database = '''', pg_SSLMode = ''''\<rparr>\<rparr>,
      cfg_Redis = \<lparr>rs_Addr = '''', rs_Password = '''', rs_DB = 0, rs_PoolSize = 0, rs_MinIdleConns = 0\<rparr>,
      cfg_Elasticsearch = \<lparr>ess_Enabled = False, ess_Addresses = [], ess_Username = '''', ess_Password = '''', ess_IndexPrefix = ''''\<rparr>,
      cfg_Kafka = \<lparr>ks_Brokers = [], ks_ClientID = '''', ks_GroupID = '''',
        ks_Topics = \<lparr>kt_RawBlock = '''', kt_NormalizedTx = '''', kt_ReorgEvent = '''', kt_DLQ = ''''\<rparr>\<rparr>,
      cfg_RocketMQ = \<lparr>rm_Enabled = False, rm_NameServers = '''', rm_GroupID = ''''\<rparr>,
      cfg_DistributedLock = \<lparr>dl_Provider = '''', dl_Redis = \<lparr>rl_Addr = '''', rl_Password = '''', rl_DB = 0\<rparr>,
        dl_Etcd = \<lparr>et_Endpoints = [], et_DialTimeout = 0\<rparr>\<rparr>,
      cfg_Scanner = zero_scanner, cfg_Chains = [],
      cfg_Monitoring = \<lparr>mo_Prometheus = \<lparr>pr_Enabled = False, pr_Path = ''''\<rparr>, mo_Health = \<lparr>hl_Enabled = False, hl_Path = '''', hl_Detailed = False\<rparr>,
        mo_Alerts = \<lparr>al_Enabled = False, al_WebhookURL = '''', al_Thresholds = \<lparr>th_BlockLag = 0, th_ErrorRate = (0, 0), th_QueueDepth = 0\<rparr>\<rparr>\<rparr>,
      cfg_Logging = \<lparr>lg_Level = '''', lg_Format = '''', lg_Output = '''',
        lg_File = \<lparr>fl_Enabled = False, fl_Path = '''', fl_MaxSize = 0, fl_MaxBackups = 0, fl_MaxAge = 0, fl_Compress = False\<rparr>\<rparr>,
      cfg_Deployment = \<lparr>dp_Replicas = 0,
        dp_Resources = \<lparr>re_Requests = \<lparr>rl_CPU = '''', rl_Memory = ''''\<rparr>, re_Limits = \<lparr>rl_CPU = '''', rl_Memory = ''''\<rparr>\<rparr>,
        dp_Autoscaling = \<lparr>as_Enabled = False, as_MinReplicas = 0, as_MaxReplicas = 0, as_TargetCPUUtilization = 0, as_TargetMemoryUtilization = 0\<rparr>\<rparr>\<rparr>"

definition zero_chain :: chain_config where
  "zero_chain =
     \<lparr>cc_enabled = False, cc_chain_id = '''', cc_chain_type = '''', cc_block_time = 0, cc_finalization_type = '''', cc_rpc_nodes = [],
      cc_health_check = \<lparr>hc_enabled = False, hc_interval = 0, hc_timeout = 0, hc_failure_threshold = 0, hc_success_threshold = 0,
        hc_alert_enabled = False\<rparr>, cc_start_block = 0, cc_confirmations = 0, cc_contracts = []\<rparr>"

definition sample_chain :: chain_config where
  "sample_chain =
     zero_chain\<lparr>cc_enabled := True, cc_chain_id := ''1'', cc_chain_type := ''evm'',
       cc_rpc_nodes := [\<lparr>rn_url = ''http://n'', rn_weight = 100, rn_timeout = 0, rn_max_conns = 0\<rparr>]\<rparr>"

definition sample_config :: config where
  "sample_config =
     zero_config\<lparr>cfg_App := (cfg_App zero_config)\<lparr>app_Name := ''scanner''\<rparr>,
       cfg_Chains := [(''eth'', sample_chain), (''off'', zero_chain)]\<rparr>"

lemma sample_config_valid: "valid_config sample_config"
  by (simp add: valid_config_def sample_config_def sample_chain_def zero_chain_def valid_chain_def valid_node_def)

theorem validateConfig_accepts_witness:
  "validateConfig (sample_config\<lparr>cfg_Chains := [(''off'', zero_chain), (''eth'', sample_chain)]\<rparr>) = None"
proof -
  have s: "set [(''off'', zero_chain), (''eth'', sample_chain)] = set (cfg_Chains sample_config)" by (auto simp: sample_config_def)
  show ?thesis using validateConfig_accepts [of sample_config "[(''off'', zero_chain), (''eth'', sample_chain)]"] s sample_config_valid
    by blast
qed

text \<open>Decoding by the names of fields, as far as the chains go, and a file as the repository ships it.\<close>

definition named :: "string \<Rightarrow> (string \<times> setting) list \<Rightarrow> setting option" where
  "named field m = map_option snd (List.find (\<lambda>(key, j). to_lower key = to_lower field) m)"

definition decode_chain :: "setting \<Rightarrow> chain_config" where
  "decode_chain s =
     (case s of
        SMap m \<Rightarrow> zero_chain\<lparr>cc_enabled := (named ''Enabled'' m = Some (SFlag True)),
          cc_chain_id := (case named ''ChainID'' m of Some (SText t) \<Rightarrow> t | Some (SNumber z) \<Rightarrow> fmt_int z | _ \<Rightarrow> '''')\<rparr>
      | _ \<Rightarrow> zero_chain)"

definition decode_config :: "(string \<times> setting) list \<Rightarrow> config" where
  "decode_config file =
     zero_config\<lparr>cfg_App := (cfg_App zero_config)\<lparr>app_Name := ''multi-chain-scanner''\<rparr>,
       cfg_Chains := (case map_of file ''chains'' of
         Some (SMap cm) \<Rightarrow> map (\<lambda>(k, s). (k, decode_chain s)) (AList.clearjunk cm) | _ \<Rightarrow> [])\<rparr>"

definition plain_viper :: "(string \<times> setting) list \<Rightarrow> viper" where
  "plain_viper file = \<lparr>vp_ReadInConfig = (\<lambda>path. Inr file), vp_Unmarshal = (\<lambda>defaults f. Inr (decode_config f))\<rparr>"

definition shipped_file :: "(string \<times> setting) list" where
  "shipped_file =
     [(''app'', SMap [(''name'', SText ''multi-chain-scanner'')]),
      (''chains'', SMap [(''ethereum'', SMap [(''enabled'', SFlag True), (''chain_id'', SNumber 1), (''chain_type'', SText ''evm'')])])]"

lemma to_lower_words [simp]:
  "to_lower ''ChainID'' = ''chainid''" "to_lower ''Enabled'' = ''enabled''" "to_lower ''enabled'' = ''enabled''"
  "to_lower ''chain_id'' = ''chain_id''" "to_lower ''chain_type'' = ''chain_type''"
  by code_simp+

lemma plain_viper_fields: "fields_by_name (plain_viper file)"
proof -
  have "\<exists>cm m key j. map_of f ''chains'' = Some (SMap cm) \<and> map_of cm k = Some (SMap m) \<and> (key, j) \<in> set m \<and> to_lower key = ''chainid''"
    if c: "(k, c) \<in> set (cfg_Chains (decode_config f))" "cc_chain_id c \<noteq> ''''" for f k c
  proof -
    obtain cm where cm: "map_of f ''chains'' = Some (SMap cm)"
      using c(1) by (cases "map_of f ''chains''") (auto simp: decode_config_def zero_config_def split: setting.split_asm)
    then obtain s where s: "map_of f ''chains'' = Some (SMap cm)" "(k, s) \<in> set (AList.clearjunk cm)" "c = decode_chain s"
      using c(1) by (auto simp: decode_config_def zero_config_def)
    then obtain m where m: "s = SMap m" "named ''ChainID'' m \<noteq> None"
      using c(2) by (cases s) (auto simp: decode_chain_def zero_chain_def split: option.split_asm)
    then obtain key j where "(key, j) \<in> set m" "to_lower key = to_lower ''ChainID''"
      by (auto simp: named_def find_None_iff)
    moreover have "map_of cm k = Some s" using s(2) by (metis distinct_clearjunk map_of_clearjunk map_of_eq_Some_iff)
    ultimately show ?thesis using s(1) m(1) by (intro exI conjI) (assumption | simp)+
  qed
  then show ?thesis unfolding fields_by_name_def plain_viper_def by auto
qed

theorem tagged_file_refused_witness: "\<exists>e. LoadConfig (plain_viper shipped_file) ''config.yaml'' = Inl e"
proof -
  have k: "keys_as_tagged shipped_file" by (simp add: keys_as_tagged_def shipped_file_def)
  have "GetEnabledChains (decode_config shipped_file) \<noteq> []"
    by (simp add: GetEnabledChains_def decode_config_def shipped_file_def decode_chain_def named_def)
  then show ?thesis
    by (intro tagged_file_refused [OF plain_viper_fields, where cfg = "decode_config shipped_file", OF _ k]) (simp_all add: plain_viper_def)
qed

end
