(* ===== verification/Logger.thy ===== *)
theory Logger
  imports Configuration
begin

text \<open>
  \<open>pkg/logger/logger.go\<close>: the global logger, which is \<open>nil\<close> until it is initialised. Zap, the
  rotating writer and the file system are parameters; the structured fields of a message, which
  belong to Zap, are left out.
\<close>

section \<open>Zap\<close>

datatype log_level = DebugLevel | InfoLevel | WarnLevel | ErrorLevel | DPanicLevel | PanicLevel | FatalLevel

text \<open>The levels are ordered as Zap numbers them, from \<open>-1\<close> for debugging to \<open>5\<close>.\<close>

primrec level_number :: "log_level \<Rightarrow> int" where
  "level_number DebugLevel = -1"
| "level_number InfoLevel = 0"
| "level_number WarnLevel = 1"
| "level_number ErrorLevel = 2"
| "level_number DPanicLevel = 3"
| "level_number PanicLevel = 4"
| "level_number FatalLevel = 5"

lemma level_number_inject: "level_number a = level_number b \<Longrightarrow> a = b"
  by (cases a; cases b) simp_all

instantiation log_level :: linorder
begin

definition less_eq_log_level :: "log_level \<Rightarrow> log_level \<Rightarrow> bool" where
  "less_eq_log_level a b \<longleftrightarrow> level_number a \<le> level_number b"

definition less_log_level :: "log_level \<Rightarrow> log_level \<Rightarrow> bool" where
  "less_log_level a b \<longleftrightarrow> level_number a < level_number b"

instance
  by standard (auto simp: less_eq_log_level_def less_log_level_def intro: level_number_inject)

end

datatype log_encoder = JSONEncoder | ConsoleEncoder

datatype log_sink = Stdout | RotatingFile file_log_config

record logger_core =
  lc_encoder :: log_encoder
  lc_sink :: log_sink
  lc_level :: log_level

text \<open>
  Reading the name of a level, making the directory of a file, and writing and flushing through a
  core. What a core writes is Zap's.
\<close>

record 'w zap =
  zp_ParseLevel :: "string \<Rightarrow> log_level option"
  zp_MkdirFor :: "string \<Rightarrow> 'w \<Rightarrow> go_error option \<times> 'w"
  zp_Write :: "logger_core \<Rightarrow> log_level \<Rightarrow> string \<Rightarrow> 'w \<Rightarrow> 'w"
  zp_Sync :: "logger_core \<Rightarrow> 'w \<Rightarrow> go_error option \<times> 'w"

text \<open>A core writes nothing for a message below its level.\<close>

definition zap_laws :: "'w zap \<Rightarrow> bool" where
  "zap_laws Z \<longleftrightarrow> (\<forall>c l msg w. l < lc_level c \<longrightarrow> zp_Write Z c l msg w = w)"

text \<open>The global \<open>Logger\<close> (\<open>Sugar\<close> is the same logger behind another interface) and the outside.\<close>

type_synonym 'w log_state = "logger_core option \<times> 'w"

section \<open>The package\<close>

definition InitLogger :: "'w zap \<Rightarrow> logging_config \<Rightarrow> 'w log_state \<Rightarrow> go_error option \<times> 'w log_state" where
  "InitLogger Z cfg st =
     (let (L, w) = st;
          level = (case zp_ParseLevel Z (lg_Level cfg) of Some l \<Rightarrow> l | None \<Rightarrow> InfoLevel);
          encoder = (if lg_Format cfg = ''json'' then JSONEncoder else ConsoleEncoder) in
      if fl_Enabled (lg_File cfg) then
        (case zp_MkdirFor Z (fl_Path (lg_File cfg)) w of
           (Some e, w') \<Rightarrow> (Some e, L, w')
         | (None, w') \<Rightarrow>
             (None, Some \<lparr>lc_encoder = encoder, lc_sink = RotatingFile (lg_File cfg), lc_level = level\<rparr>, w'))
      else (None, Some \<lparr>lc_encoder = encoder, lc_sink = Stdout, lc_level = level\<rparr>, w))"

definition logger_Sync :: "'w zap \<Rightarrow> 'w log_state \<Rightarrow> go_error option \<times> 'w log_state" where
  "logger_Sync Z st =
     (case fst st of
        None \<Rightarrow> (None, st)
      | Some L \<Rightarrow> (let (e, w) = zp_Sync Z L (snd st) in (e, Some L, w)))"

text \<open>A message at a level: what \<open>Debug\<close>, \<open>Info\<close>, \<open>Warn\<close> and \<open>Error\<close> do.\<close>

definition log_at :: "'w zap \<Rightarrow> log_level \<Rightarrow> string \<Rightarrow> 'w log_state \<Rightarrow> 'w log_state" where
  "log_at Z level msg st =
     (case fst st of None \<Rightarrow> st | Some L \<Rightarrow> (Some L, zp_Write Z L level msg (snd st)))"

definition log_Debug :: "'w zap \<Rightarrow> string \<Rightarrow> 'w log_state \<Rightarrow> 'w log_state" where
  "log_Debug Z = log_at Z DebugLevel"

definition log_Info :: "'w zap \<Rightarrow> string \<Rightarrow> 'w log_state \<Rightarrow> 'w log_state" where
  "log_Info Z = log_at Z InfoLevel"

definition log_Warn :: "'w zap \<Rightarrow> string \<Rightarrow> 'w log_state \<Rightarrow> 'w log_state" where
  "log_Warn Z = log_at Z WarnLevel"

definition log_Error :: "'w zap \<Rightarrow> string \<Rightarrow> 'w log_state \<Rightarrow> 'w log_state" where
  "log_Error Z = log_at Z ErrorLevel"

text \<open>\<open>Fatal\<close> and \<open>Panic\<close> never come back: the program exits with a status, or panics with the message.\<close>

datatype log_end = Exits int | PanicsWith string

definition log_Fatal :: "'w zap \<Rightarrow> string \<Rightarrow> 'w log_state \<Rightarrow> log_end \<times> 'w log_state" where
  "log_Fatal Z msg st = (Exits 1, log_at Z FatalLevel msg st)"

definition log_Panic :: "'w zap \<Rightarrow> string \<Rightarrow> 'w log_state \<Rightarrow> log_end \<times> 'w log_state" where
  "log_Panic Z msg st = (PanicsWith msg, log_at Z PanicLevel msg st)"

text \<open>The derived loggers: one that writes nothing while there is no logger.\<close>

definition WithFields :: "'w log_state \<Rightarrow> logger_core option" where
  "WithFields st = fst st"

section \<open>Initialisation\<close>

text \<open>
  The level and the format never make it fail, only the directory of the file does, and then the
  logger there was stays; what is logged before leaves no trace.
\<close>

theorem InitLogger_result:
  assumes "InitLogger Z cfg (L, w) = (e, L', w')"
  shows "(e = None \<longleftrightarrow> \<not> fl_Enabled (lg_File cfg) \<or> fst (zp_MkdirFor Z (fl_Path (lg_File cfg)) w) = None)
    \<and> (if e = None
       then \<exists>c. L' = Some c \<and> (lc_sink c = Stdout \<longleftrightarrow> \<not> fl_Enabled (lg_File cfg))
              \<and> (zp_ParseLevel Z (lg_Level cfg) = None \<longrightarrow> lc_level c = InfoLevel)
              \<and> (lc_encoder c = JSONEncoder \<longleftrightarrow> lg_Format cfg = ''json'')
       else L' = L)"
  using assms by (auto simp: InitLogger_def Let_def split: if_split_asm prod.split_asm option.split_asm)

definition silent_zap :: "string list zap" where
  "silent_zap = \<lparr>zp_ParseLevel = (\<lambda>s. None), zp_MkdirFor = (\<lambda>p w. (Some (Msg ''read-only''), w)),
     zp_Write = (\<lambda>c l m w. w @ [m]), zp_Sync = (\<lambda>c w. (None, w))\<rparr>"

definition file_logging :: logging_config where
  "file_logging = \<lparr>lg_Level = ''info'', lg_Format = ''json'', lg_Output = ''file'',
     lg_File = \<lparr>fl_Enabled = True, fl_Path = ''/var/log/scanner.log'', fl_MaxSize = 100, fl_MaxBackups = 10,
       fl_MaxAge = 30, fl_Compress = True\<rparr>\<rparr>"

theorem InitLogger_result_witness:
  "fst (InitLogger silent_zap file_logging (None, [])) \<noteq> None
    \<and> fst (snd (InitLogger silent_zap file_logging (None, []))) = None"
proof -
  obtain e L' w' where i: "InitLogger silent_zap file_logging (None, []) = (e, L', w')" by (rule prod_cases3)
  from InitLogger_result [OF i] i show ?thesis by (simp add: silent_zap_def file_logging_def split: if_split_asm)
qed

text \<open>
  A level that is misspelt is the level \<open>info\<close>: whatever is logged for debugging leaves no trace, as
  nothing does before the initialisation.
\<close>

lemma misspelt_level_hides_debug:
  assumes "zap_laws Z" "zp_ParseLevel Z (lg_Level cfg) = None" "InitLogger Z cfg (L, w) = (None, st)"
  shows "log_Debug Z msg st = st"
  using assms by (auto simp: InitLogger_def zap_laws_def log_Debug_def log_at_def less_log_level_def Let_def
      split: if_split_asm prod.split_asm option.split_asm)

lemma log_at_nil: "log_at Z level msg (None, w) = (None, w)"
  by (simp add: log_at_def)

end
