(* ===== verification/Lifecycle.thy ===== *)
theory Lifecycle
  imports Scanner
begin

text \<open>
  Starting and stopping: \<open>Start\<close> and \<open>Stop\<close> of \<open>internal/scheduler/chain_scanner.go\<close>, with the
  goroutines the wait group counts, and the manager of all scanners,
  \<open>internal/scheduler/scheduler_manager.go\<close>. A goroutine that can never end makes \<open>wg.Wait\<close>
  block: the outcome \<open>Blocks\<close>.
\<close>

section \<open>One scanner\<close>

definition started_goroutines :: "chain_scanner \<Rightarrow> goroutine list" where
  "started_goroutines s =
     map GWorker [0..<length (cs_workers s)]
     @ map GResults [0..<nat (MinInt (int (length (cs_workers s))) 4)]
     @ [GScheduler, GMonitor, GDetector]"

definition scanner_Start :: "chain_scanner \<Rightarrow> go_error option \<times> chain_scanner" where
  "scanner_Start s =
     (if ss_running (cs_status s) then
        (Some (Msg (''scanner is already running for chain '' @ cs_chain_id s)), s)
      else
        (let s' = s\<lparr>cs_status := (cs_status s)\<lparr>ss_running := True\<rparr>\<rparr>
         in (None, s'\<lparr>cs_goroutines := cs_goroutines s' @ started_goroutines s'\<rparr>)))"

text \<open>
  When the loop of a goroutine comes to its end: the workers return on a cancelled context or a
  closed task queue, the result processors range over the result queue until it is closed, the
  other three return on a cancelled context.
\<close>

fun goroutine_ends :: "chain_scanner \<Rightarrow> goroutine \<Rightarrow> bool" where
  "goroutine_ends s (GWorker i) = (cs_ctx_done s \<or> cs_task_closed s)"
| "goroutine_ends s (GResults i) = cs_results_closed s"
| "goroutine_ends s GScheduler = cs_ctx_done s"
| "goroutine_ends s GMonitor = cs_ctx_done s"
| "goroutine_ends s GDetector = cs_ctx_done s"

definition wg_wait :: "chain_scanner \<Rightarrow> chain_scanner outcome" where
  "wg_wait s = (if \<forall>g \<in> set (cs_goroutines s). goroutine_ends s g
                then Returns (s\<lparr>cs_goroutines := []\<rparr>) else Blocks)"

definition scanner_Stop :: "chain_scanner \<Rightarrow> (go_error option \<times> chain_scanner) outcome" where
  "scanner_Stop s =
     (if \<not> ss_running (cs_status s) then Returns (None, s)
      else
        (let s1 = s\<lparr>cs_status := (cs_status s)\<lparr>ss_running := False\<rparr>, cs_ctx_done := True\<rparr> in
         if cs_task_closed s1 then Panics
         else outcome_bind (wg_wait (s1\<lparr>cs_task_closed := True\<rparr>)) (\<lambda>s2. Returns (None, s2))))"

definition StartScan :: "chain_scanner \<Rightarrow> go_error option \<times> chain_scanner" where
  "StartScan s = scanner_Start s"

section \<open>All of them\<close>

text \<open>
  The manager: its scanners by chain, in the order a loop over the map happens to take, and whether
  a call that will never return holds its mutex.
\<close>

record scheduler_manager =
  scm_scanners :: "(string \<times> chain_scanner) list"
  scm_locked :: bool

text \<open>\<open>getcfg\<close> and \<open>getclient\<close> are the configuration and the client registry.\<close>

fun init_loop ::
    "(string \<Rightarrow> go_error + chain_config) \<Rightarrow> (string \<Rightarrow> go_error + bool)
      \<Rightarrow> (string \<Rightarrow> bool \<Rightarrow> (go_error + chain_scanner) outcome) \<Rightarrow> string list
      \<Rightarrow> (string \<times> chain_scanner) list \<Rightarrow> (string \<times> chain_scanner) list outcome" where
  "init_loop getcfg getclient new [] acc = Returns acc"
| "init_loop getcfg getclient new (c # cs) acc =
     (case getcfg c of
        Inl e \<Rightarrow> init_loop getcfg getclient new cs acc
      | Inr cc \<Rightarrow>
     (case getclient c of
        Inl e \<Rightarrow> init_loop getcfg getclient new cs acc
      | Inr clientNil \<Rightarrow>
     (case new c clientNil of
        Returns (Inl e) \<Rightarrow> init_loop getcfg getclient new cs acc
      | Returns (Inr s) \<Rightarrow> init_loop getcfg getclient new cs (AList.update c s acc)
      | Blocks \<Rightarrow> Blocks
      | Panics \<Rightarrow> Panics)))"

definition NewSchedulerManager ::
    "(string \<Rightarrow> go_error + chain_config) \<Rightarrow> (string \<Rightarrow> go_error + bool)
      \<Rightarrow> (string \<Rightarrow> bool \<Rightarrow> (go_error + chain_scanner) outcome) \<Rightarrow> bool \<Rightarrow> bool \<Rightarrow> bool \<Rightarrow> string list
      \<Rightarrow> (go_error + scheduler_manager) outcome" where
  "NewSchedulerManager getcfg getclient new cfgNil registryNil lmNil enabledChains =
     (if cfgNil then Returns (Inl (Msg ''config cannot be nil''))
      else if registryNil then Returns (Inl (Msg ''client registry cannot be nil''))
      else if lmNil then Returns (Inl (Msg ''lock manager cannot be nil''))
      else outcome_bind (init_loop getcfg getclient new enabledChains [])
        (\<lambda>ss. if ss = [] then
            Returns (Inl (Wrap ''failed to initialize scanners'' (Msg ''no scanners initialized'')))
          else Returns (Inr \<lparr>scm_scanners = ss, scm_locked = False\<rparr>)))"

definition manager_Start :: "scheduler_manager \<Rightarrow> (go_error option \<times> scheduler_manager) outcome" where
  "manager_Start m =
     (if scm_locked m then Blocks
      else Returns (None, m\<lparr>scm_scanners := map (\<lambda>(c, s). (c, snd (scanner_Start s))) (scm_scanners m)\<rparr>))"

fun stop_loop ::
    "(string \<times> chain_scanner) list \<Rightarrow> go_error option
      \<Rightarrow> (go_error option \<times> (string \<times> chain_scanner) list) outcome" where
  "stop_loop [] lastErr = Returns (lastErr, [])"
| "stop_loop ((c, s) # ss) lastErr =
     (case scanner_Stop s of
        Returns (e, s') \<Rightarrow>
          outcome_bind (stop_loop ss (if e = None then lastErr else e))
            (\<lambda>(e', ss'). Returns (e', (c, s') # ss'))
      | Blocks \<Rightarrow> Blocks
      | Panics \<Rightarrow> Panics)"

definition manager_Stop :: "scheduler_manager \<Rightarrow> (go_error option \<times> scheduler_manager) outcome" where
  "manager_Stop m =
     (if scm_locked m then Blocks
      else outcome_bind (stop_loop (scm_scanners m) None)
        (\<lambda>(e, ss). Returns (e, m\<lparr>scm_scanners := ss\<rparr>)))"

definition no_scanner :: "string \<Rightarrow> go_error" where
  "no_scanner chainID = Msg (''scanner not found for chain '' @ chainID)"

definition manager_GetStatus :: "string \<Rightarrow> scheduler_manager \<Rightarrow> (go_error + scanner_status) outcome" where
  "manager_GetStatus chainID m =
     (if scm_locked m then Blocks
      else case map_of (scm_scanners m) chainID of
        None \<Rightarrow> Returns (Inl (no_scanner chainID))
      | Some s \<Rightarrow> Returns (scanner_GetStatus chainID s))"

definition GetAllStatus :: "scheduler_manager \<Rightarrow> (string \<times> scanner_status) list outcome" where
  "GetAllStatus m =
     (if scm_locked m then Blocks
      else Returns (List.map_filter
        (\<lambda>(c, s). case scanner_GetStatus c s of Inl e \<Rightarrow> None | Inr st \<Rightarrow> Some (c, st)) (scm_scanners m)))"

definition GetScanner :: "string \<Rightarrow> scheduler_manager \<Rightarrow> (go_error + chain_scanner) outcome" where
  "GetScanner chainID m =
     (if scm_locked m then Blocks
      else case map_of (scm_scanners m) chainID of
        None \<Rightarrow> Returns (Inl (no_scanner chainID))
      | Some s \<Rightarrow> Returns (Inr s))"

definition GetActiveChains :: "scheduler_manager \<Rightarrow> string list outcome" where
  "GetActiveChains m = (if scm_locked m then Blocks else Returns (map fst (scm_scanners m)))"

definition RestartScanner :: "string \<Rightarrow> scheduler_manager \<Rightarrow> (go_error option \<times> scheduler_manager) outcome" where
  "RestartScanner chainID m =
     (if scm_locked m then Blocks
      else case map_of (scm_scanners m) chainID of
        None \<Rightarrow> Returns (Some (no_scanner chainID), m)
      | Some s \<Rightarrow>
          outcome_bind (scanner_Stop s) (\<lambda>(e, s1).
            case e of
              Some x \<Rightarrow> Returns (Some (Wrap ''failed to stop scanner'' x),
                m\<lparr>scm_scanners := AList.update chainID s1 (scm_scanners m)\<rparr>)
            | None \<Rightarrow>
                (let (e2, s2) = scanner_Start s1
                 in Returns (wrap_err ''failed to start scanner'' e2,
                      m\<lparr>scm_scanners := AList.update chainID s2 (scm_scanners m)\<rparr>))))"

definition AddScanner ::
    "(string \<Rightarrow> go_error + chain_config) \<Rightarrow> (string \<Rightarrow> go_error + bool)
      \<Rightarrow> (string \<Rightarrow> bool \<Rightarrow> (go_error + chain_scanner) outcome) \<Rightarrow> string \<Rightarrow> scheduler_manager
      \<Rightarrow> (go_error option \<times> scheduler_manager) outcome" where
  "AddScanner getcfg getclient new chainID m =
     (if scm_locked m then Blocks
      else if map_of (scm_scanners m) chainID \<noteq> None then
        Returns (Some (Msg (''scanner already exists for chain '' @ chainID)), m)
      else case getcfg chainID of
        Inl e \<Rightarrow> Returns (Some (Wrap ''failed to get chain config'' e), m)
      | Inr cc \<Rightarrow>
     (case getclient chainID of
        Inl e \<Rightarrow> Returns (Some (Wrap ''failed to get chain client'' e), m)
      | Inr clientNil \<Rightarrow>
          outcome_bind (new chainID clientNil) (\<lambda>r.
            case r of
              Inl e \<Rightarrow> Returns (Some (Wrap ''failed to create chain scanner'' e), m)
            | Inr s \<Rightarrow>
                (case scanner_Start s of
                   (Some e, s') \<Rightarrow> Returns (Some (Wrap ''failed to start scanner'' e), m)
                 | (None, s') \<Rightarrow>
                     Returns (None, m\<lparr>scm_scanners := AList.update chainID s' (scm_scanners m)\<rparr>)))))"

definition RemoveScanner :: "string \<Rightarrow> scheduler_manager \<Rightarrow> (go_error option \<times> scheduler_manager) outcome" where
  "RemoveScanner chainID m =
     (if scm_locked m then Blocks
      else case map_of (scm_scanners m) chainID of
        None \<Rightarrow> Returns (Some (no_scanner chainID), m)
      | Some s \<Rightarrow>
          outcome_bind (scanner_Stop s) (\<lambda>(e, s1).
            case e of
              Some x \<Rightarrow> Returns (Some (Wrap ''failed to stop scanner'' x),
                m\<lparr>scm_scanners := AList.update chainID s1 (scm_scanners m)\<rparr>)
            | None \<Rightarrow> Returns (None, m\<lparr>scm_scanners := AList.delete chainID (scm_scanners m)\<rparr>)))"

text \<open>What other goroutines see of the manager while or after a removal.\<close>

definition RemoveScanner_seen :: "string \<Rightarrow> scheduler_manager \<Rightarrow> scheduler_manager" where
  "RemoveScanner_seen chainID m =
     (case RemoveScanner chainID m of
        Returns (e, m') \<Rightarrow> m'
      | Blocks \<Rightarrow> m\<lparr>scm_locked := True\<rparr>
      | Panics \<Rightarrow> m)"

section \<open>Stopping\<close>

lemma NewChainScanner_fields:
  assumes "NewChainScanner now c cn cfg lm = Returns (Inr s)"
  shows "cs_workers s = initWorkers c (co_max_workers_per_chain (sc_concurrency cfg))
    \<and> \<not> cs_task_closed s \<and> \<not> cs_results_closed s \<and> \<not> ss_running (cs_status s) \<and> cs_goroutines s = []
    \<and> \<not> cs_ctx_done s \<and> wmm_block_hashes (cs_watermark s) = [] \<and> ss_reorg_count (cs_status s) = 0"
  using assms by (auto simp: NewChainScanner_def new_status_def NewWatermarkManager_def
      split: if_splits sum.splits)

lemma length_initWorkers [simp]: "length (initWorkers c n) = nat n"
  by (simp add: initWorkers_def)

lemma scanner_Stop_running:
  assumes "ss_running (cs_status s)" "\<not> cs_task_closed s"
  shows "(scanner_Stop s = Blocks \<longleftrightarrow> (\<exists>i. GResults i \<in> set (cs_goroutines s)) \<and> \<not> cs_results_closed s)"
proof -
  let ?s = "s\<lparr>cs_status := (cs_status s)\<lparr>ss_running := False\<rparr>, cs_ctx_done := True, cs_task_closed := True\<rparr>"
  have "goroutine_ends ?s g \<longleftrightarrow> (cs_results_closed s \<or> (\<forall>i. g \<noteq> GResults i))" for g
    by (cases g) auto
  then show ?thesis using assms by (auto simp: scanner_Stop_def wg_wait_def Let_def)
qed

lemma started_never_stops:
  assumes "NewChainScanner now c cn cfg lm = Returns (Inr s)" "1 \<le> co_max_workers_per_chain (sc_concurrency cfg)"
  shows "fst (scanner_Start s) = None \<and> scanner_Stop (snd (scanner_Start s)) = Blocks"
proof -
  note f = NewChainScanner_fields [OF assms(1)]
  have "0 < nat (MinInt (int (length (cs_workers s))) 4)"
    using f assms(2) by (auto simp: MinInt_def)
  then have "GResults 0 \<in> set (cs_goroutines (snd (scanner_Start s)))"
    using f by (auto simp: scanner_Start_def Let_def started_goroutines_def)
  moreover have "ss_running (cs_status (snd (scanner_Start s)))" "\<not> cs_task_closed (snd (scanner_Start s))"
    "\<not> cs_results_closed (snd (scanner_Start s))" "fst (scanner_Start s) = None"
    using f by (simp_all add: scanner_Start_def Let_def)
  ultimately show ?thesis using scanner_Stop_running by blast
qed

text \<open>
  A scanner with at least one worker that has been started is never stopped: nothing closes the
  result queue that its result processors range over, so \<open>Stop\<close> waits for them for ever.
\<close>

theorem scanner_Stop_never_returns:
  assumes "NewChainScanner now c cn cfg lm = Returns (Inr s)"
    and "1 \<le> co_max_workers_per_chain (sc_concurrency cfg)"
  shows "fst (scanner_Start s) = None \<and> scanner_Stop (snd (scanner_Start s)) = Blocks"
  using assms by (rule started_never_stops)

definition one_worker_config :: scanner_config where
  "one_worker_config = \<lparr>sc_concurrency = small_config, sc_watermark = wm_cfg,
       sc_sharding = \<lparr>shc_enabled = False, shc_shard_count = 0, shc_strategy = []\<rparr>\<rparr>"

definition one_worker :: chain_scanner where
  "one_worker = scanner_at (wm_at 0 0)"

lemma one_worker_scanner:
  "NewChainScanner 7 ''eth'' False one_worker_config (Some \<lparr>lmg_default_ttl = 1\<rparr>) = Returns (Inr one_worker)"
  by (simp add: NewChainScanner_def one_worker_config_def NewWatermarkManager_def NewReorgHandler_def
      scanner_at_def one_worker_def wm_at_def)

theorem scanner_Stop_never_returns_witness:
  "fst (scanner_Start one_worker) = None \<and> scanner_Stop (snd (scanner_Start one_worker)) = Blocks"
  using scanner_Stop_never_returns [OF one_worker_scanner] by (simp add: one_worker_config_def)

text \<open>Removing a started scanner therefore keeps the manager's mutex, and every other call waits for it.\<close>

lemma RemoveScanner_locks_manager:
  assumes "\<not> scm_locked m" "map_of (scm_scanners m) c = Some s" "scanner_Stop s = Blocks"
  shows "RemoveScanner c m = Blocks \<and> manager_GetStatus c' (RemoveScanner_seen c m) = Blocks
    \<and> GetActiveChains (RemoveScanner_seen c m) = Blocks"
  using assms by (simp add: RemoveScanner_def RemoveScanner_seen_def manager_GetStatus_def GetActiveChains_def)

section \<open>The manager's operations\<close>

text \<open>
  Starting the manager starts every scanner, whatever state each is in, and returns no error;
  it adds and removes none.
\<close>

theorem manager_Start_all:
  assumes "\<not> scm_locked m"
  shows "\<exists>m'. manager_Start m = Returns (None, m') \<and> map fst (scm_scanners m') = map fst (scm_scanners m)
    \<and> (\<forall>(c, s) \<in> set (scm_scanners m'). ss_running (cs_status s))"
  using assms by (auto simp: manager_Start_def scanner_Start_def Let_def comp_def case_prod_beta)

theorem manager_Start_all_witness:
  "\<exists>m'. manager_Start \<lparr>scm_scanners = [(''eth'', scanner_at (wm_at 100 88))], scm_locked = False\<rparr> = Returns (None, m')
    \<and> map fst (scm_scanners m') = [''eth''] \<and> (\<forall>(c, s) \<in> set (scm_scanners m'). ss_running (cs_status s))"
  using manager_Start_all [of "\<lparr>scm_scanners = [(''eth'', scanner_at (wm_at 100 88))], scm_locked = False\<rparr>"]
  by simp

text \<open>
  \<open>AddScanner\<close> is all or nothing: with an error the manager is unchanged; without one the chain
  was unknown, its scanner is there and running, and the other chains have the scanners they had.
\<close>

theorem AddScanner_atomic:
  assumes "AddScanner getcfg getclient new c m = Returns (e, m')"
  shows "(e \<noteq> None \<and> m' = m)
    \<or> (e = None \<and> map_of (scm_scanners m) c = None
       \<and> (\<exists>s. map_of (scm_scanners m') c = Some s \<and> ss_running (cs_status s))
       \<and> (\<forall>c'. c' \<noteq> c \<longrightarrow> map_of (scm_scanners m') c' = map_of (scm_scanners m) c'))"
proof -
  have run: "ss_running (cs_status s')" if "scanner_Start s = (None, s')" for s s'
    using that by (auto simp: scanner_Start_def Let_def split: if_splits)
  show ?thesis
  proof (cases "scm_locked m \<or> map_of (scm_scanners m) c \<noteq> None")
    case True
    then show ?thesis using assms by (auto simp: AddScanner_def split: if_splits)
  next
    case False
    then show ?thesis using assms run
      by (auto simp: AddScanner_def update_conv' split: sum.splits prod.splits option.splits
          elim!: outcome_bind.elims)
  qed
qed

theorem AddScanner_atomic_witness:
  "(None \<noteq> (None :: go_error option) \<and> \<lparr>scm_scanners = [(''eth'', snd (scanner_Start (scanner_at (wm_at 100 88))))], scm_locked = False\<rparr> = \<lparr>scm_scanners = [], scm_locked = False\<rparr>)
    \<or> (None = (None :: go_error option) \<and> map_of ([] :: (string \<times> chain_scanner) list) ''eth'' = None
       \<and> (\<exists>s. map_of [(''eth'', snd (scanner_Start (scanner_at (wm_at 100 88))))] ''eth'' = Some s \<and> ss_running (cs_status s))
       \<and> (\<forall>c'. c' \<noteq> ''eth'' \<longrightarrow> map_of [(''eth'', snd (scanner_Start (scanner_at (wm_at 100 88))))] c'
            = map_of ([] :: (string \<times> chain_scanner) list) c'))"
proof -
  have "AddScanner (\<lambda>c. Inr undefined) (\<lambda>c. Inr False) (\<lambda>c n. Returns (Inr (scanner_at (wm_at 100 88)))) ''eth''
      \<lparr>scm_scanners = [], scm_locked = False\<rparr>
    = Returns (None, \<lparr>scm_scanners = [(''eth'', snd (scanner_Start (scanner_at (wm_at 100 88))))], scm_locked = False\<rparr>)"
    by (simp add: AddScanner_def scanner_Start_def new_status_def Let_def)
  from AddScanner_atomic [OF this] show ?thesis by simp
qed

section \<open>The detection that never runs\<close>

text \<open>
  Everything that happens to a scanner: its tickers, its results, its retries, workers taking tasks,
  and the calls of the manager.
\<close>

inductive scanner_step ::
    "'c chain_client \<Rightarrow> 'r redis \<Rightarrow> lock_manager \<Rightarrow> chain_scanner \<times> 'c \<times> 'r \<Rightarrow> chain_scanner \<times> 'c \<times> 'r \<Rightarrow> bool"
    for client R lm where
  ss_generate: "generateTasks client ema now sel (s, c) = Some (Returns (s', c'))
    \<Longrightarrow> scanner_step client R lm (s, c, r) (s', c', r)"
| ss_success: "handleSuccessResult R lm now res (s, r) = (s', r') \<Longrightarrow> scanner_step client R lm (s, c, r) (s', c, r')"
| ss_failure: "handleFailureResult big t s = (s', rt) \<Longrightarrow> scanner_step client R lm (s, c, r) (s', c, r)"
| ss_retry: "retry_send sel1 t s = Returns s' \<Longrightarrow> scanner_step client R lm (s, c, r) (s', c, r)"
| ss_take: "cs_task_queue s = t # q \<Longrightarrow> scanner_step client R lm (s, c, r) (s\<lparr>cs_task_queue := q\<rparr>, c, r)"
| ss_reorg: "checkReorg client R lm now (s, c, r) = (s', c', r') \<Longrightarrow> scanner_step client R lm (s, c, r) (s', c', r')"
| ss_reset: "ResetWatermark R lm now h (s, r) = (e, s', r') \<Longrightarrow> scanner_step client R lm (s, c, r) (s', c, r')"
| ss_start: "scanner_Start s = (e, s') \<Longrightarrow> scanner_step client R lm (s, c, r) (s', c, r)"
| ss_stop: "scanner_Stop s = Returns (e, s') \<Longrightarrow> scanner_step client R lm (s, c, r) (s', c, r)"

inductive scanner_run ::
    "'c chain_client \<Rightarrow> 'r redis \<Rightarrow> lock_manager \<Rightarrow> chain_scanner \<times> 'c \<times> 'r \<Rightarrow> chain_scanner \<times> 'c \<times> 'r \<Rightarrow> bool"
    for client R lm where
  sr_refl: "scanner_run client R lm x x"
| sr_step: "scanner_run client R lm x y \<Longrightarrow> scanner_step client R lm y z \<Longrightarrow> scanner_run client R lm x z"

definition no_hashes :: "chain_scanner \<Rightarrow> bool" where
  "no_hashes s \<longleftrightarrow> wmm_block_hashes (cs_watermark s) = [] \<and> ss_reorg_count (cs_status s) = 0"

lemma update_scanned_body_hashes [simp]:
  "wmm_block_hashes (snd (update_scanned_body now h m)) = wmm_block_hashes m"
  by (simp add: update_scanned_body_def Let_def split: option.splits)

lemma reset_body_hashes: "wmm_block_hashes m = [] \<Longrightarrow> wmm_block_hashes (snd (reset_body now h m)) = []"
  by (simp add: reset_body_def cleanupBlockHashesAfter_def Let_def split: option.splits)

lemma updateStatus_no_hashes [simp]: "no_hashes (updateStatus ema now ch fh w s) = no_hashes s"
  by (auto simp: no_hashes_def updateStatus_def Let_def split: option.splits)

lemma no_hashes_queue [simp]:
  "no_hashes (s\<lparr>cs_task_queue := q\<rparr>) = no_hashes s"
  "no_hashes (s\<lparr>cs_goroutines := g\<rparr>) = no_hashes s"
  "no_hashes (s\<lparr>cs_task_closed := b\<rparr>) = no_hashes s"
  by (simp_all add: no_hashes_def)

lemma checkReorg_no_hashes:
  assumes "no_hashes s"
  shows "checkReorg client R lm now (s, c, r) = (s, c, r)"
  using assms by (auto simp: checkReorg_def no_hashes_def GetBlockHash_def split: sum.splits)

lemma generateTasks_no_hashes:
  assumes "generateTasks client ema now sel (s, c) = Some (Returns (s', c'))"
  shows "no_hashes s' = no_hashes s"
  using assms by (auto simp: generateTasks_def Let_def
      split: sum.split_asm prod.split_asm Option.bind_split_asm outcome.split_asm if_split_asm)

lemma scanner_step_no_hashes:
  assumes "scanner_step client R lm (s, c, r) (s', c', r')" "no_hashes s"
  shows "no_hashes s'"
  using assms(1)
proof (cases rule: scanner_step.cases)
  case ss_generate
  then show ?thesis using generateTasks_no_hashes [OF ss_generate(2)] assms(2) by simp
next
  case (ss_success now res)
  then show ?thesis using assms(2)
    by (auto simp: handleSuccessResult_def UpdateScannedHeight_def no_hashes_def split: prod.splits
        elim!: with_lock_keeps)
next
  case (ss_reset now h e)
  then show ?thesis using assms(2)
    by (auto simp: ResetWatermark_def ResetToHeight_def no_hashes_def reset_body_hashes split: prod.splits
        elim!: with_lock_keeps)
next
  case (ss_stop e)
  then show ?thesis using assms(2)
    by (auto simp: scanner_Stop_def wg_wait_def no_hashes_def Let_def split: if_splits)
qed (use assms(2) in \<open>auto simp: handleFailureResult_def retry_send_def checkReorg_no_hashes scanner_Start_def
      no_hashes_def Let_def split: select_result.splits if_splits\<close>)

lemma scanner_run_no_hashes:
  "scanner_run client R lm x y \<Longrightarrow> no_hashes (fst x) \<Longrightarrow> no_hashes (fst y)"
proof (induction rule: scanner_run.induct)
  case (sr_step x y z)
  then show ?case using scanner_step_no_hashes [of client R lm "fst y" "fst (snd y)" "snd (snd y)"
        "fst z" "fst (snd z)" "snd (snd z)"] by simp
qed

text \<open>
  C39: In every run of a scanner the cache of block hashes stays empty, because no operation stores
  a hash, so the scanner's reorg check never gets past its look-up: it changes nothing, asks the
  node nothing, and the reorg count stays zero whatever the chain does.
\<close>

theorem checkReorg_never_detects:
  assumes "NewChainScanner now0 cid cn cfg lm0 = Returns (Inr s0)"
    and "scanner_run client R lm (s0, c0, r0) (s, c, r)"
  shows "checkReorg client R lm now (s, c, r) = (s, c, r) \<and> ss_reorg_count (cs_status s) = 0"
proof -
  have "no_hashes s0" using NewChainScanner_fields [OF assms(1)] by (simp add: no_hashes_def)
  then have "no_hashes s" using scanner_run_no_hashes [OF assms(2)] by simp
  then show ?thesis using checkReorg_no_hashes [of s client R lm now c r] by (simp add: no_hashes_def)
qed

theorem checkReorg_never_detects_witness:
  "checkReorg (static_client 105 103) mem_redis \<lparr>lmg_default_ttl = 1\<rparr> 7 (one_worker, (), \<lambda>k. None)
      = (one_worker, (), \<lambda>k. None) \<and> ss_reorg_count (cs_status one_worker) = 0"
  by (rule checkReorg_never_detects [OF one_worker_scanner sr_refl])

end
