(* ===== verification/Storage.thy ===== *)
theory Storage
  imports GoTypes
begin

text \<open>
  The interface \<open>Storage\<close> of \<open>internal/storage/storage.go\<close> as a record of operations on a state
  \<open>'s\<close>, and the contract its clients rely on: the locale \<open>status_store\<close>, that a transaction's status
  reads back as it was last set. Reads do not change the state. An implementation of \<open>DeleteBlocks\<close>
  may loop for ever: its result is then \<open>None\<close>.
\<close>

record log_filter =
  lf_chain_id :: string
  lf_block_number :: "u64 option"
  lf_from_block :: "u64 option"
  lf_to_block :: "u64 option"
  lf_address :: string
  lf_topics :: "string list"
  lf_tx_hash :: string
  lf_limit :: int
  lf_offset :: int

record 's storage =
  st_SaveBlock :: "block \<Rightarrow> 's \<Rightarrow> go_error option \<times> 's"
  st_GetBlock :: "string \<Rightarrow> u64 \<Rightarrow> 's \<Rightarrow> go_error + block"
  st_GetBlockByHash :: "string \<Rightarrow> string \<Rightarrow> 's \<Rightarrow> go_error + block"
  st_GetLatestBlock :: "string \<Rightarrow> 's \<Rightarrow> go_error + block"
  st_DeleteBlocks :: "string \<Rightarrow> u64 \<Rightarrow> u64 \<Rightarrow> 's \<Rightarrow> (go_error option \<times> 's) option"
  st_SaveTransaction :: "transaction \<Rightarrow> 's \<Rightarrow> go_error option \<times> 's"
  st_BatchSaveTransactions :: "transaction list \<Rightarrow> 's \<Rightarrow> go_error option \<times> 's"
  st_GetTransaction :: "string \<Rightarrow> string \<Rightarrow> 's \<Rightarrow> go_error + transaction"
  st_GetTransactionsByBlock :: "string \<Rightarrow> u64 \<Rightarrow> 's \<Rightarrow> go_error + transaction list"
  st_GetTransactionsByAddress ::
    "string \<Rightarrow> string \<Rightarrow> int \<Rightarrow> int \<Rightarrow> 's \<Rightarrow> go_error + transaction list"
  st_UpdateTransactionStatus :: "string \<Rightarrow> string \<Rightarrow> tx_status \<Rightarrow> 's \<Rightarrow> go_error option \<times> 's"
  st_MarkTransactionsAsReverted :: "string \<Rightarrow> u64 \<Rightarrow> u64 \<Rightarrow> 's \<Rightarrow> go_error option \<times> 's"
  st_SaveLog :: "tx_log \<Rightarrow> 's \<Rightarrow> go_error option \<times> 's"
  st_BatchSaveLogs :: "tx_log list \<Rightarrow> 's \<Rightarrow> go_error option \<times> 's"
  st_GetLogs :: "string \<Rightarrow> log_filter \<Rightarrow> 's \<Rightarrow> go_error + tx_log list"
  st_DeleteLogs :: "string \<Rightarrow> u64 \<Rightarrow> u64 \<Rightarrow> 's \<Rightarrow> go_error option \<times> 's"
  st_SaveWatermark :: "watermark \<Rightarrow> 's \<Rightarrow> go_error option \<times> 's"
  st_GetWatermark :: "string \<Rightarrow> 's \<Rightarrow> go_error + watermark"
  st_UpdateWatermark :: "string \<Rightarrow> watermark \<Rightarrow> 's \<Rightarrow> go_error option \<times> 's"
  st_SaveReorgEvent :: "reorg_event \<Rightarrow> 's \<Rightarrow> go_error option \<times> 's"
  st_GetReorgEvents :: "string \<Rightarrow> int \<Rightarrow> int \<Rightarrow> 's \<Rightarrow> go_error + reorg_event list"

text \<open>
  The state is left as it is by every update that reports an error; after a successful update of
  the status of a stored transaction, that transaction reads back with the new status and every
  other one as before. \<open>valid\<close> are the pairs of chain and hash the store can tell apart.
\<close>

locale status_store =
  fixes S :: "'s storage"
    and valid :: "string \<Rightarrow> string \<Rightarrow> bool"
    and invar :: "'s \<Rightarrow> bool"
  assumes upd_invar: "invar s \<Longrightarrow> st_UpdateTransactionStatus S c h st s = (e, s') \<Longrightarrow> invar s'"
    and upd_same: "invar s \<Longrightarrow> valid c h \<Longrightarrow> st_UpdateTransactionStatus S c h st s = (None, s')
      \<Longrightarrow> st_GetTransaction S c h s = Inr tx \<Longrightarrow> st_GetTransaction S c h s' = Inr (tx\<lparr>tx_status := st\<rparr>)"
    and upd_other: "invar s \<Longrightarrow> valid c h \<Longrightarrow> valid c' h' \<Longrightarrow> (c', h') \<noteq> (c, h)
      \<Longrightarrow> st_UpdateTransactionStatus S c h st s = (None, s')
      \<Longrightarrow> st_GetTransaction S c' h' s' = st_GetTransaction S c' h' s"
    and upd_error: "invar s \<Longrightarrow> st_UpdateTransactionStatus S c h st s = (e, s') \<Longrightarrow> e \<noteq> None
      \<Longrightarrow> st_GetTransaction S c' h' s' = st_GetTransaction S c' h' s"

end
