(* ===== verification/RedisStore.thy ===== *)
theory RedisStore
  imports Storage Prelude
begin

text \<open>
  \<open>internal/storage/redis.go\<close>: the Redis implementation of the storage interface, a cache of
  blocks, transactions and watermarks. The Redis client is part of the state, the record \<open>'r kv\<close> of
  the commands the code sends, with the laws \<open>kv_laws\<close>. A value is kept as what its JSON text
  encodes. It keeps the contract \<open>status_store\<close> for transaction hashes without a colon.
\<close>

section \<open>The client\<close>

datatype cached = CBlock block | CTx transaction | CWatermark watermark

definition redis_Nil :: go_error where
  "redis_Nil = Msg ''redis: nil''"

record 'r kv =
  kv_get :: "string \<Rightarrow> 'r \<Rightarrow> go_error + cached"
  kv_set :: "string \<Rightarrow> cached \<Rightarrow> int \<Rightarrow> 'r \<Rightarrow> go_error option \<times> 'r"
  kv_del :: "string \<Rightarrow> 'r \<Rightarrow> go_error option \<times> 'r"
  kv_pipe :: "(string \<times> cached \<times> int) list \<Rightarrow> 'r \<Rightarrow> go_error option \<times> 'r"

text \<open>
  A successful SET is what the next GET of the key returns, a successful DEL leaves it missing,
  neither touches another key, and a command that reports an error has not been carried out. A
  successful pipeline is its SETs one after the other.
\<close>

definition kv_laws :: "'r kv \<Rightarrow> bool" where
  "kv_laws K \<longleftrightarrow>
     (\<forall>k v t r. (case kv_set K k v t r of (e, r') \<Rightarrow>
        \<forall>k'. kv_get K k' r' = (if e = None \<and> k' = k then Inr v else kv_get K k' r)))
   \<and> (\<forall>k r. (case kv_del K k r of (e, r') \<Rightarrow>
        \<forall>k'. kv_get K k' r' = (if e = None \<and> k' = k then Inl redis_Nil else kv_get K k' r)))
   \<and> (\<forall>cmds r. (case kv_pipe K cmds r of (e, r') \<Rightarrow>
        \<forall>k'. kv_get K k' r' = (if e = None then
            fold (\<lambda>(k, v, t) g. g(k := Inr v)) cmds (\<lambda>k. kv_get K k r) k' else kv_get K k' r)))"

type_synonym 'r redis_state = "'r kv \<times> 'r"

definition day_ns :: int where "day_ns = 24 * 3600 * 10 ^ 9"

section \<open>Keys\<close>

definition generateBlockKey :: "string \<Rightarrow> u64 \<Rightarrow> string" where
  "generateBlockKey chainID blockNumber = ''block:'' @ chainID @ '':'' @ fmt_u64 blockNumber"

definition generateTransactionKey :: "string \<Rightarrow> string \<Rightarrow> string" where
  "generateTransactionKey chainID txHash = ''tx:'' @ chainID @ '':'' @ txHash"

definition generateWatermarkKey :: "string \<Rightarrow> string" where
  "generateWatermarkKey chainID = ''watermark:'' @ chainID"

section \<open>Operations\<close>

definition with_kv :: "('r kv \<Rightarrow> 'r \<Rightarrow> go_error option \<times> 'r) \<Rightarrow> 'r redis_state \<Rightarrow> go_error option \<times> 'r redis_state" where
  "with_kv f s = (let (K, r) = s; (e, r') = f K r in (e, K, r'))"

definition redis_SaveBlock :: "block \<Rightarrow> 'r redis_state \<Rightarrow> go_error option \<times> 'r redis_state" where
  "redis_SaveBlock b =
     with_kv (\<lambda>K r. let (e, r') = kv_set K (generateBlockKey (blk_chain_id b) (blk_number b)) (CBlock b) day_ns r
       in (wrap_err ''failed to save block to Redis'' e, r'))"

definition redis_get :: "string \<Rightarrow> (cached \<Rightarrow> 'a option) \<Rightarrow> string \<Rightarrow> 'r redis_state \<Rightarrow> go_error + 'a" where
  "redis_get what sel k s =
     (case kv_get (fst s) k (snd s) of
        Inl e \<Rightarrow> if e = redis_Nil then Inl (Msg (what @ '' not found in cache''))
                 else Inl (Wrap (''failed to get '' @ what @ '' from Redis'') e)
      | Inr v \<Rightarrow>
          (case sel v of
             None \<Rightarrow> Inl (Wrap (''failed to unmarshal '' @ what) (Msg ''json''))
           | Some x \<Rightarrow> Inr x))"

fun as_block :: "cached \<Rightarrow> block option" where
  "as_block (CBlock b) = Some b"
| "as_block _ = None"

fun as_tx :: "cached \<Rightarrow> transaction option" where
  "as_tx (CTx t) = Some t"
| "as_tx _ = None"

fun as_watermark :: "cached \<Rightarrow> watermark option" where
  "as_watermark (CWatermark w) = Some w"
| "as_watermark _ = None"

definition redis_GetBlock :: "string \<Rightarrow> u64 \<Rightarrow> 'r redis_state \<Rightarrow> go_error + block" where
  "redis_GetBlock chainID n = redis_get ''block'' as_block (generateBlockKey chainID n)"

text \<open>
  \<open>for blockNumber := fromBlock; blockNumber <= toBlock; blockNumber++\<close>; errors are only logged. The
  loop does not end when \<open>toBlock\<close> is the largest \<open>uint64\<close>: \<open>None\<close>.
\<close>

partial_function (option) redis_delete_loop ::
    "string \<Rightarrow> u64 \<Rightarrow> u64 \<Rightarrow> 'r redis_state \<Rightarrow> 'r redis_state option" where
  "redis_delete_loop chainID n toBlock s =
     (if n \<le> toBlock then
        redis_delete_loop chainID (n + 1) toBlock
          (snd (with_kv (\<lambda>K. kv_del K (generateBlockKey chainID n)) s))
      else Some s)"

definition redis_DeleteBlocks ::
    "string \<Rightarrow> u64 \<Rightarrow> u64 \<Rightarrow> 'r redis_state \<Rightarrow> (go_error option \<times> 'r redis_state) option" where
  "redis_DeleteBlocks chainID fromBlock toBlock s =
     map_option (\<lambda>s'. (None, s')) (redis_delete_loop chainID fromBlock toBlock s)"

definition redis_SaveTransaction :: "transaction \<Rightarrow> 'r redis_state \<Rightarrow> go_error option \<times> 'r redis_state" where
  "redis_SaveTransaction t =
     with_kv (\<lambda>K r. let (e, r') = kv_set K (generateTransactionKey (tx_chain_id t) (tx_hash t)) (CTx t) day_ns r
       in (wrap_err ''failed to save transaction to Redis'' e, r'))"

definition redis_BatchSaveTransactions ::
    "transaction list \<Rightarrow> 'r redis_state \<Rightarrow> go_error option \<times> 'r redis_state" where
  "redis_BatchSaveTransactions txs =
     with_kv (\<lambda>K r. let (e, r') = kv_pipe K
         (map (\<lambda>t. (generateTransactionKey (tx_chain_id t) (tx_hash t), CTx t, day_ns)) txs) r
       in (wrap_err ''failed to batch save transactions'' e, r'))"

definition redis_GetTransaction :: "string \<Rightarrow> string \<Rightarrow> 'r redis_state \<Rightarrow> go_error + transaction" where
  "redis_GetTransaction chainID txHash =
     redis_get ''transaction'' as_tx (generateTransactionKey chainID txHash)"

definition redis_UpdateTransactionStatus ::
    "string \<Rightarrow> string \<Rightarrow> tx_status \<Rightarrow> 'r redis_state \<Rightarrow> go_error option \<times> 'r redis_state" where
  "redis_UpdateTransactionStatus chainID txHash status s =
     (case redis_GetTransaction chainID txHash s of
        Inl e \<Rightarrow> (Some e, s)
      | Inr t \<Rightarrow>
          with_kv (\<lambda>K r. let (e, r') = kv_set K (generateTransactionKey chainID txHash)
                (CTx (t\<lparr>tx_status := status\<rparr>)) day_ns r
            in (wrap_err ''failed to update transaction in Redis'' e, r')) s)"

definition redis_SaveWatermark :: "watermark \<Rightarrow> 'r redis_state \<Rightarrow> go_error option \<times> 'r redis_state" where
  "redis_SaveWatermark w =
     with_kv (\<lambda>K r. let (e, r') = kv_set K (generateWatermarkKey (wm_chain_id w)) (CWatermark w) 0 r
       in (wrap_err ''failed to save watermark to Redis'' e, r'))"

definition redis_GetWatermark :: "string \<Rightarrow> 'r redis_state \<Rightarrow> go_error + watermark" where
  "redis_GetWatermark chainID = redis_get ''watermark'' as_watermark (generateWatermarkKey chainID)"

definition redis_UpdateWatermark ::
    "string \<Rightarrow> watermark \<Rightarrow> 'r redis_state \<Rightarrow> go_error option \<times> 'r redis_state" where
  "redis_UpdateWatermark chainID w = redis_SaveWatermark w"

text \<open>
  The implementation of the interface. What Redis does not support is an error or does nothing.
\<close>

text \<open>What Redis does not do: reads that it refuses, writes that it skips without an error.\<close>

definition redis_GetBlockByHash :: "string \<Rightarrow> string \<Rightarrow> 'r redis_state \<Rightarrow> go_error + block" where
  "redis_GetBlockByHash chainID blockHash s = Inl (Msg ''get block by hash not supported in Redis'')"

definition redis_GetLatestBlock :: "string \<Rightarrow> 'r redis_state \<Rightarrow> go_error + block" where
  "redis_GetLatestBlock chainID s = Inl (Msg ''get latest block not supported in Redis'')"

definition redis_GetTransactionsByBlock :: "string \<Rightarrow> u64 \<Rightarrow> 'r redis_state \<Rightarrow> go_error + transaction list" where
  "redis_GetTransactionsByBlock chainID blockNumber s = Inl (Msg ''get transactions by block not supported in Redis'')"

definition redis_GetTransactionsByAddress ::
    "string \<Rightarrow> string \<Rightarrow> int \<Rightarrow> int \<Rightarrow> 'r redis_state \<Rightarrow> go_error + transaction list" where
  "redis_GetTransactionsByAddress chainID address limit off s =
     Inl (Msg ''get transactions by address not supported in Redis'')"

definition redis_MarkTransactionsAsReverted ::
    "string \<Rightarrow> u64 \<Rightarrow> u64 \<Rightarrow> 'r redis_state \<Rightarrow> go_error option \<times> 'r redis_state" where
  "redis_MarkTransactionsAsReverted chainID fromBlock toBlock s = (None, s)"

definition redis_SaveReorgEvent :: "reorg_event \<Rightarrow> 'r redis_state \<Rightarrow> go_error option \<times> 'r redis_state" where
  "redis_SaveReorgEvent event s = (None, s)"

definition redis_GetReorgEvents :: "string \<Rightarrow> int \<Rightarrow> int \<Rightarrow> 'r redis_state \<Rightarrow> go_error + reorg_event list" where
  "redis_GetReorgEvents chainID limit off s = Inl (Msg ''get reorg events not supported in Redis'')"

lemmas redis_stubs = redis_GetBlockByHash_def redis_GetLatestBlock_def redis_GetTransactionsByBlock_def
  redis_GetTransactionsByAddress_def redis_MarkTransactionsAsReverted_def redis_SaveReorgEvent_def redis_GetReorgEvents_def

definition redis_storage :: "'r redis_state storage" where
  "redis_storage =
     \<lparr>st_SaveBlock = redis_SaveBlock,
      st_GetBlock = redis_GetBlock,
      st_GetBlockByHash = redis_GetBlockByHash,
      st_GetLatestBlock = redis_GetLatestBlock,
      st_DeleteBlocks = redis_DeleteBlocks,
      st_SaveTransaction = redis_SaveTransaction,
      st_BatchSaveTransactions = redis_BatchSaveTransactions,
      st_GetTransaction = redis_GetTransaction,
      st_GetTransactionsByBlock = redis_GetTransactionsByBlock,
      st_GetTransactionsByAddress = redis_GetTransactionsByAddress,
      st_UpdateTransactionStatus = redis_UpdateTransactionStatus,
      st_MarkTransactionsAsReverted = redis_MarkTransactionsAsReverted,
      st_SaveLog = (\<lambda>l s. (None, s)),
      st_BatchSaveLogs = (\<lambda>l s. (None, s)),
      st_GetLogs = (\<lambda>c f s. Inl (Msg ''get logs not supported in Redis'')),
      st_DeleteLogs = (\<lambda>c a b s. (None, s)),
      st_SaveWatermark = redis_SaveWatermark,
      st_GetWatermark = redis_GetWatermark,
      st_UpdateWatermark = redis_UpdateWatermark,
      st_SaveReorgEvent = redis_SaveReorgEvent,
      st_GetReorgEvents = redis_GetReorgEvents\<rparr>"

section \<open>Laws\<close>

lemma kv_set_get:
  assumes "kv_laws K" "kv_set K k v t r = (e, r')"
  shows "kv_get K k' r' = (if e = None \<and> k' = k then Inr v else kv_get K k' r)"
proof -
  have "case kv_set K k v t r of (e, r') \<Rightarrow>
      \<forall>k'. kv_get K k' r' = (if e = None \<and> k' = k then Inr v else kv_get K k' r)"
    using assms(1) by (simp add: kv_laws_def)
  then show ?thesis using assms(2) by simp
qed

definition colon_free :: "string \<Rightarrow> string \<Rightarrow> bool" where
  "colon_free c h \<longleftrightarrow> CHR '':'' \<notin> set h"

definition redis_ok :: "'r redis_state \<Rightarrow> bool" where
  "redis_ok s \<longleftrightarrow> kv_laws (fst s)"

lemma generateTransactionKey_inject:
  "colon_free c h \<Longrightarrow> colon_free c' h'
    \<Longrightarrow> generateTransactionKey c h = generateTransactionKey c' h' \<longleftrightarrow> c = c' \<and> h = h'"
  using last_separator [of c "CHR '':''" h c' h'] by (auto simp: generateTransactionKey_def colon_free_def)

lemma redis_SaveTransaction_get:
  assumes "redis_ok s" "redis_SaveTransaction t s = (None, s')"
  shows "redis_GetTransaction (tx_chain_id t) (tx_hash t) s' = Inr t"
  using assms by (cases s)
    (auto simp: redis_SaveTransaction_def redis_GetTransaction_def redis_get_def with_kv_def redis_ok_def
      kv_set_get split: prod.splits)

text \<open>
  What was saved in the cache reads back, as long as the cache keeps it: a block by its number,
  a transaction by its hash and a watermark by its chain.
\<close>

theorem redis_roundtrip:
  assumes "kv_laws (fst s)"
  shows "(redis_SaveBlock b s = (None, s1) \<longrightarrow> redis_GetBlock (blk_chain_id b) (blk_number b) s1 = Inr b)
    \<and> (redis_SaveTransaction t s = (None, s2) \<longrightarrow> redis_GetTransaction (tx_chain_id t) (tx_hash t) s2 = Inr t)
    \<and> (redis_UpdateWatermark c w s = (None, s3) \<longrightarrow> redis_GetWatermark (wm_chain_id w) s3 = Inr w)"
  using assms by (cases s)
    (auto simp: redis_SaveTransaction_def redis_GetTransaction_def redis_get_def with_kv_def redis_SaveBlock_def
      redis_GetBlock_def redis_UpdateWatermark_def redis_SaveWatermark_def redis_GetWatermark_def
      kv_set_get split: prod.splits)

text \<open>An in-memory client for the examples.\<close>

definition mem_kv :: "(string \<Rightarrow> cached option) kv" where
  "mem_kv =
     \<lparr>kv_get = (\<lambda>k r. case r k of None \<Rightarrow> Inl redis_Nil | Some v \<Rightarrow> Inr v),
      kv_set = (\<lambda>k v t r. (None, r(k := Some v))),
      kv_del = (\<lambda>k r. (None, r(k := None))),
      kv_pipe = (\<lambda>cmds r. (None, fold (\<lambda>(k, v, t) r. r(k := Some v)) cmds r))\<rparr>"

lemma mem_kv_pipe:
  "(case fold (\<lambda>(k, v, t) r. r(k := Some v)) cmds r k of None \<Rightarrow> Inl redis_Nil | Some v \<Rightarrow> Inr v)
    = fold (\<lambda>(k, v, t) g. g(k := Inr v)) cmds (\<lambda>k. case r k of None \<Rightarrow> Inl redis_Nil | Some v \<Rightarrow> Inr v) k"
proof (induction cmds arbitrary: r)
  case (Cons x cmds)
  obtain k' v t where x: "x = (k', v, t)" by (cases x)
  have eq: "(\<lambda>k. case (r(k' := Some v)) k of None \<Rightarrow> Inl redis_Nil | Some v \<Rightarrow> Inr v)
      = (\<lambda>k. case r k of None \<Rightarrow> Inl redis_Nil | Some v \<Rightarrow> Inr v)(k' := Inr v)"
    by (simp add: fun_eq_iff)
  show ?case by (simp only: x fold.simps comp_apply prod.case Cons.IH eq)
qed simp

lemma mem_kv_laws: "kv_laws mem_kv"
  by (simp add: kv_laws_def mem_kv_def mem_kv_pipe)

theorem redis_roundtrip_witness:
  "redis_GetTransaction ''eth'' ''h1'' (snd (redis_SaveTransaction (mk_tx ''h1'' 7 TxPending) (mem_kv, \<lambda>k. None)))
    = Inr (mk_tx ''h1'' 7 TxPending)"
  using redis_roundtrip [of "(mem_kv, \<lambda>k. None)" "mk_block 1 ''h'' ''p'' []" _ "mk_tx ''h1'' 7 TxPending"
      "snd (redis_SaveTransaction (mk_tx ''h1'' 7 TxPending) (mem_kv, \<lambda>k. None))"]
  by (auto simp: mem_kv_laws redis_SaveTransaction_def with_kv_def mk_tx_def)
    (simp_all add: mem_kv_def)

section \<open>The contract\<close>

lemma redis_Update_cases:
  assumes "redis_ok s" "redis_UpdateTransactionStatus c h st s = (e, s')"
  shows "fst s' = fst s
    \<and> (if e = None then (\<exists>t. redis_GetTransaction c h s = Inr t
          \<and> (\<forall>k. kv_get (fst s) k (snd s') = (if k = generateTransactionKey c h then Inr (CTx (t\<lparr>tx_status := st\<rparr>))
               else kv_get (fst s) k (snd s))))
       else (\<forall>k. kv_get (fst s) k (snd s') = kv_get (fst s) k (snd s)))"
proof (cases "redis_GetTransaction c h s")
  case (Inl err)
  then show ?thesis using assms(2) by (auto simp: redis_UpdateTransactionStatus_def)
next
  case (Inr t)
  obtain K r where s: "s = (K, r)" by (cases s)
  obtain e0 r' where set: "kv_set K (generateTransactionKey c h) (CTx (t\<lparr>tx_status := st\<rparr>)) day_ns r = (e0, r')"
    by fastforce
  then have "e = wrap_err ''failed to update transaction in Redis'' e0" "s' = (K, r')"
    using assms(2) Inr by (simp_all add: redis_UpdateTransactionStatus_def with_kv_def s)
  then show ?thesis using kv_set_get [OF _ set] assms(1) Inr by (auto simp: s redis_ok_def)
qed

interpretation redis_store: status_store "redis_storage :: 'r redis_state storage" colon_free redis_ok
proof
  fix s s' :: "'r redis_state" and c h c' h' st e tx
  assume ok: "redis_ok s"
  note U = redis_Update_cases [OF ok]
  show "redis_ok s'" if "st_UpdateTransactionStatus redis_storage c h st s = (e, s')"
    using U [of c h st e s'] that ok by (simp add: redis_storage_def redis_ok_def)
  show "st_GetTransaction redis_storage c h s' = Inr (tx\<lparr>tx_status := st\<rparr>)"
    if "st_UpdateTransactionStatus redis_storage c h st s = (None, s')"
      "st_GetTransaction redis_storage c h s = Inr tx"
    using U [of c h st None s'] that
    by (auto simp: redis_storage_def redis_GetTransaction_def redis_get_def)
  show "st_GetTransaction redis_storage c' h' s' = st_GetTransaction redis_storage c' h' s"
    if "colon_free c h" "colon_free c' h'" "(c', h') \<noteq> (c, h)"
      "st_UpdateTransactionStatus redis_storage c h st s = (None, s')"
    using U [of c h st None s'] that generateTransactionKey_inject [of c' h' c h]
    by (auto simp: redis_storage_def redis_GetTransaction_def redis_get_def)
  show "st_GetTransaction redis_storage c' h' s' = st_GetTransaction redis_storage c' h' s"
    if "st_UpdateTransactionStatus redis_storage c h st s = (e, s')" "e \<noteq> None"
    using U [of c h st e s'] that
    by (auto simp: redis_storage_def redis_GetTransaction_def redis_get_def)
qed

end
