(* ===== verification/Database.thy ===== *)
theory Database
  imports Storage Util
begin

text \<open>
  \<open>internal/storage/database.go\<close>: the relational implementation of the storage interface. GORM and
  the server behind it are parameters: a record \<open>('m, 'd) gtable\<close> of the queries the code makes on
  one table, over the database state \<open>'d\<close>, with their documented effect on the rows in
  \<open>gtable_laws\<close>. The JSON text of a \<open>Data\<close> column is kept as the value it encodes.
\<close>

section \<open>Rows\<close>

record block_row =
  br_chain_id :: string
  br_block_number :: u64
  br_block_hash :: string
  br_parent_hash :: string
  br_timestamp :: int
  br_data :: block

record tx_row =
  tr_chain_id :: string
  tr_tx_hash :: string
  tr_block_number :: u64
  tr_block_hash :: string
  tr_from_address :: string
  tr_to_address :: string
  tr_value :: string
  tr_gas_price :: string
  tr_gas_used :: u64
  tr_status :: string
  tr_input_data :: string
  tr_data :: transaction

record log_row =
  lr_chain_id :: string
  lr_tx_hash :: string
  lr_block_number :: u64
  lr_address :: string
  lr_topics :: "string list"
  lr_data :: tx_log
  lr_log_index :: u64
  lr_tx_index :: u64

record watermark_row =
  wr_chain_id :: string
  wr_scanned_height :: u64
  wr_confirmed_height :: u64
  wr_finalized_height :: u64
  wr_reorg_boundary :: u64
  wr_last_update_time :: int

record reorg_row =
  rr_chain_id :: string
  rr_detected_at :: int
  rr_old_block_number :: u64
  rr_old_block_hash :: string
  rr_new_block_number :: u64
  rr_new_block_hash :: string
  rr_depth :: u64
  rr_affected_txs :: "string list"
  rr_processed :: bool
  rr_data :: reorg_event

section \<open>GORM\<close>

definition ErrRecordNotFound :: go_error where
  "ErrRecordNotFound = Msg ''record not found''"

text \<open>
  \<open>gt_first P\<close> is \<open>Where(P).First\<close>; \<open>gt_last k P\<close> is \<open>Where(P).Order(k DESC).First\<close>;
  \<open>gt_find P\<close> is \<open>Where(P).Find\<close>, and \<open>gt_page k P limit offset\<close> the same in an order, limited;
  \<open>gt_save P m\<close> is \<open>Where(P).Assign(m).FirstOrCreate(m)\<close>; \<open>gt_update P f\<close> sets columns of the rows
  in \<open>P\<close>; \<open>gt_rows\<close> are the rows in the order of their primary keys.
\<close>

record ('m, 'd) gtable =
  gt_rows :: "'d \<Rightarrow> 'm list"
  gt_first :: "('m \<Rightarrow> bool) \<Rightarrow> 'd \<Rightarrow> go_error + 'm"
  gt_last :: "('m \<Rightarrow> u64) \<Rightarrow> ('m \<Rightarrow> bool) \<Rightarrow> 'd \<Rightarrow> go_error + 'm"
  gt_find :: "('m \<Rightarrow> bool) \<Rightarrow> 'd \<Rightarrow> go_error + 'm list"
  gt_page :: "('m \<Rightarrow> int \<times> int) \<Rightarrow> ('m \<Rightarrow> bool) \<Rightarrow> int \<Rightarrow> int \<Rightarrow> 'd \<Rightarrow> go_error + 'm list"
  gt_save :: "('m \<Rightarrow> bool) \<Rightarrow> 'm \<Rightarrow> 'd \<Rightarrow> go_error option \<times> 'd"
  gt_create :: "'m \<Rightarrow> 'd \<Rightarrow> go_error option \<times> 'd"
  gt_update :: "('m \<Rightarrow> bool) \<Rightarrow> ('m \<Rightarrow> 'm) \<Rightarrow> 'd \<Rightarrow> go_error option \<times> 'd"
  gt_delete :: "('m \<Rightarrow> bool) \<Rightarrow> 'd \<Rightarrow> go_error option \<times> 'd"

text \<open>
  Saving changes the first row of the condition, by \<open>assign m\<close>: GORM assigns the fields of \<open>m\<close> that are
  not zero values; without such a row it adds \<open>m\<close>. A statement that reports an error changes nothing.
\<close>

fun save_rows :: "('m \<Rightarrow> 'm \<Rightarrow> 'm) \<Rightarrow> ('m \<Rightarrow> bool) \<Rightarrow> 'm \<Rightarrow> 'm list \<Rightarrow> 'm list" where
  "save_rows assign P m [] = [m]"
| "save_rows assign P m (r # rs) = (if P r then assign m r # rs else r # save_rows assign P m rs)"

definition gtable_laws :: "('m \<Rightarrow> 'm \<Rightarrow> 'm) \<Rightarrow> ('m, 'd) gtable \<Rightarrow> bool" where
  "gtable_laws assign T \<longleftrightarrow>
     (\<forall>P d m. gt_first T P d = Inr m \<longrightarrow> List.find P (gt_rows T d) = Some m)
   \<and> (\<forall>P d. gt_first T P d = Inl ErrRecordNotFound \<longrightarrow> List.find P (gt_rows T d) = None)
   \<and> (\<forall>k P d m. gt_last T k P d = Inr m \<longrightarrow>
        m \<in> set (filter P (gt_rows T d)) \<and> (\<forall>r \<in> set (filter P (gt_rows T d)). k r \<le> k m))
   \<and> (\<forall>P d ms. gt_find T P d = Inr ms \<longrightarrow> ms = filter P (gt_rows T d))
   \<and> (\<forall>P m d d'. gt_save T P m d = (None, d') \<longrightarrow> gt_rows T d' = save_rows assign P m (gt_rows T d))
   \<and> (\<forall>m d d'. gt_create T m d = (None, d') \<longrightarrow> gt_rows T d' = gt_rows T d @ [m])
   \<and> (\<forall>P f d d'. gt_update T P f d = (None, d') \<longrightarrow> gt_rows T d' = map (\<lambda>r. if P r then f r else r) (gt_rows T d))
   \<and> (\<forall>P d d'. gt_delete T P d = (None, d') \<longrightarrow> gt_rows T d' = filter (\<lambda>r. \<not> P r) (gt_rows T d))
   \<and> (\<forall>P f d d' e. gt_update T P f d = (Some e, d') \<longrightarrow> gt_rows T d' = gt_rows T d)"

text \<open>
  \<open>gm_transaction f\<close> is \<open>db.Transaction(f)\<close>. The bodies here send their statements to the outer
  handle \<open>s.db\<close> and not to the handle of the transaction, so a rollback does not undo them.
\<close>

record 'd gorm =
  gm_blocks :: "(block_row, 'd) gtable"
  gm_txs :: "(tx_row, 'd) gtable"
  gm_logs :: "(log_row, 'd) gtable"
  gm_watermarks :: "(watermark_row, 'd) gtable"
  gm_reorgs :: "(reorg_row, 'd) gtable"
  gm_transaction :: "('d \<Rightarrow> go_error option \<times> 'd) \<Rightarrow> 'd \<Rightarrow> go_error option \<times> 'd"

type_synonym 'd db_state = "'d gorm \<times> 'd"

definition on_db :: "('d gorm \<Rightarrow> 'd \<Rightarrow> go_error option \<times> 'd) \<Rightarrow> 'd db_state \<Rightarrow> go_error option \<times> 'd db_state" where
  "on_db f s = (let (G, d) = s; (e, d') = f G d in (e, G, d'))"

section \<open>Blocks\<close>

definition block_model :: "block \<Rightarrow> block_row" where
  "block_model b =
     \<lparr>br_chain_id = blk_chain_id b, br_block_number = blk_number b, br_block_hash = blk_hash b,
      br_parent_hash = blk_parent_hash b, br_timestamp = blk_timestamp b, br_data = b\<rparr>"

definition db_SaveBlock :: "block \<Rightarrow> 'd db_state \<Rightarrow> go_error option \<times> 'd db_state" where
  "db_SaveBlock b =
     on_db (\<lambda>G d. let (e, d') = gt_save (gm_blocks G)
           (\<lambda>r. br_chain_id r = blk_chain_id b \<and> br_block_number r = blk_number b) (block_model b) d
       in (wrap_err ''failed to save block'' e, d'))"

definition db_found :: "string \<Rightarrow> string \<Rightarrow> ('m \<Rightarrow> 'a) \<Rightarrow> go_error + 'm \<Rightarrow> go_error + 'a" where
  "db_found missing failed f r =
     (case r of
        Inl e \<Rightarrow> if e = ErrRecordNotFound then Inl (Msg missing) else Inl (Wrap failed e)
      | Inr m \<Rightarrow> Inr (f m))"

definition db_GetBlock :: "string \<Rightarrow> u64 \<Rightarrow> 'd db_state \<Rightarrow> go_error + block" where
  "db_GetBlock chainID n s =
     db_found ''block not found'' ''failed to get block'' br_data
       (gt_first (gm_blocks (fst s)) (\<lambda>r. br_chain_id r = chainID \<and> br_block_number r = n) (snd s))"

definition db_GetBlockByHash :: "string \<Rightarrow> string \<Rightarrow> 'd db_state \<Rightarrow> go_error + block" where
  "db_GetBlockByHash chainID h s =
     db_found ''block not found'' ''failed to get block by hash'' br_data
       (gt_first (gm_blocks (fst s)) (\<lambda>r. br_chain_id r = chainID \<and> br_block_hash r = h) (snd s))"

definition db_GetLatestBlock :: "string \<Rightarrow> 'd db_state \<Rightarrow> go_error + block" where
  "db_GetLatestBlock chainID s =
     db_found (''no blocks found for chain '' @ chainID) ''failed to get latest block'' br_data
       (gt_last (gm_blocks (fst s)) br_block_number (\<lambda>r. br_chain_id r = chainID) (snd s))"

definition db_DeleteBlocks :: "string \<Rightarrow> u64 \<Rightarrow> u64 \<Rightarrow> 'd db_state \<Rightarrow> go_error option \<times> 'd db_state" where
  "db_DeleteBlocks chainID fromBlock toBlock =
     on_db (\<lambda>G d. let (e, d') = gt_delete (gm_blocks G)
           (\<lambda>r. br_chain_id r = chainID \<and> br_block_number r \<ge> fromBlock \<and> br_block_number r \<le> toBlock) d
       in (wrap_err ''failed to delete blocks'' e, d'))"

section \<open>Transactions\<close>

definition big_text :: "int option \<Rightarrow> string" where
  "big_text v = (case v of None \<Rightarrow> ''0'' | Some i \<Rightarrow> fmt_int i)"

definition tx_model :: "transaction \<Rightarrow> tx_row" where
  "tx_model t =
     \<lparr>tr_chain_id = tx_chain_id t, tr_tx_hash = tx_hash t, tr_block_number = tx_block_number t,
      tr_block_hash = tx_block_hash t, tr_from_address = tx_from t, tr_to_address = tx_to t,
      tr_value = big_text (tx_value t), tr_gas_price = big_text (tx_gas_price t),
      tr_gas_used = tx_gas_used t, tr_status = tx_status_text (tx_status t),
      tr_input_data = tx_input_data t, tr_data = t\<rparr>"

definition row_of :: "string \<Rightarrow> string \<Rightarrow> tx_row \<Rightarrow> bool" where
  "row_of chainID txHash r \<longleftrightarrow> tr_chain_id r = chainID \<and> tr_tx_hash r = txHash"

definition db_SaveTransaction :: "transaction \<Rightarrow> 'd db_state \<Rightarrow> go_error option \<times> 'd db_state" where
  "db_SaveTransaction t =
     on_db (\<lambda>G d. let (e, d') = gt_save (gm_txs G) (row_of (tx_chain_id t) (tx_hash t)) (tx_model t) d
       in (wrap_err ''failed to save transaction'' e, d'))"

text \<open>The body of a batch: the first error ends it. It runs inside \<open>gm_transaction\<close>.\<close>

fun save_each :: "('a \<Rightarrow> 's \<Rightarrow> go_error option \<times> 's) \<Rightarrow> 'a list \<Rightarrow> 's \<Rightarrow> go_error option \<times> 's" where
  "save_each save [] s = (None, s)"
| "save_each save (x # xs) s =
     (case save x s of
        (Some e, s') \<Rightarrow> (Some e, s')
      | (None, s') \<Rightarrow> save_each save xs s')"

definition in_transaction ::
    "('d db_state \<Rightarrow> go_error option \<times> 'd db_state) \<Rightarrow> 'd db_state \<Rightarrow> go_error option \<times> 'd db_state" where
  "in_transaction f =
     on_db (\<lambda>G d. gm_transaction G (\<lambda>d. let (e, s') = f (G, d) in (e, snd s')) d)"

definition db_BatchSaveTransactions ::
    "transaction list \<Rightarrow> 'd db_state \<Rightarrow> go_error option \<times> 'd db_state" where
  "db_BatchSaveTransactions txs s =
     (if txs = [] then (None, s) else in_transaction (save_each db_SaveTransaction txs) s)"

definition db_GetTransaction :: "string \<Rightarrow> string \<Rightarrow> 'd db_state \<Rightarrow> go_error + transaction" where
  "db_GetTransaction chainID txHash s =
     db_found ''transaction not found'' ''failed to get transaction'' tr_data
       (gt_first (gm_txs (fst s)) (row_of chainID txHash) (snd s))"

definition db_GetTransactionsByBlock :: "string \<Rightarrow> u64 \<Rightarrow> 'd db_state \<Rightarrow> go_error + transaction list" where
  "db_GetTransactionsByBlock chainID n s =
     wrap_res ''failed to get transactions by block''
       (map_sum id (map tr_data)
         (gt_find (gm_txs (fst s)) (\<lambda>r. tr_chain_id r = chainID \<and> tr_block_number r = n) (snd s)))"

definition db_GetTransactionsByAddress ::
    "string \<Rightarrow> string \<Rightarrow> int \<Rightarrow> int \<Rightarrow> 'd db_state \<Rightarrow> go_error + transaction list" where
  "db_GetTransactionsByAddress chainID address limit offset s =
     wrap_res ''failed to get transactions by address''
       (map_sum id (map tr_data)
         (gt_page (gm_txs (fst s)) (\<lambda>r. (- uint (tr_block_number r), 0))
           (\<lambda>r. tr_chain_id r = chainID \<and> (tr_from_address r = address \<or> tr_to_address r = address))
           limit offset (snd s)))"

definition db_UpdateTransactionStatus ::
    "string \<Rightarrow> string \<Rightarrow> tx_status \<Rightarrow> 'd db_state \<Rightarrow> go_error option \<times> 'd db_state" where
  "db_UpdateTransactionStatus chainID txHash status =
     on_db (\<lambda>G d. let (e, d') = gt_update (gm_txs G) (row_of chainID txHash)
           (\<lambda>r. r\<lparr>tr_status := tx_status_text status\<rparr>) d
       in (wrap_err ''failed to update transaction status'' e, d'))"

definition db_MarkTransactionsAsReverted ::
    "string \<Rightarrow> u64 \<Rightarrow> u64 \<Rightarrow> 'd db_state \<Rightarrow> go_error option \<times> 'd db_state" where
  "db_MarkTransactionsAsReverted chainID fromBlock toBlock =
     on_db (\<lambda>G d. let (e, d') = gt_update (gm_txs G)
           (\<lambda>r. tr_chain_id r = chainID \<and> tr_block_number r \<ge> fromBlock \<and> tr_block_number r \<le> toBlock)
           (\<lambda>r. r\<lparr>tr_status := tx_status_text TxReverted\<rparr>) d
       in (wrap_err ''failed to mark transactions as reverted'' e, d'))"

section \<open>Logs\<close>

definition log_model :: "tx_log \<Rightarrow> log_row" where
  "log_model l =
     \<lparr>lr_chain_id = log_chain_id l, lr_tx_hash = log_tx_hash l, lr_block_number = log_block_number l,
      lr_address = log_address l, lr_topics = log_topics l, lr_data = l,
      lr_log_index = log_log_index l, lr_tx_index = log_tx_index l\<rparr>"

definition db_SaveLog :: "tx_log \<Rightarrow> 'd db_state \<Rightarrow> go_error option \<times> 'd db_state" where
  "db_SaveLog l =
     on_db (\<lambda>G d. let (e, d') = gt_save (gm_logs G)
           (\<lambda>r. lr_chain_id r = log_chain_id l \<and> lr_tx_hash r = log_tx_hash l \<and> lr_log_index r = log_log_index l)
           (log_model l) d
       in (wrap_err ''failed to save log'' e, d'))"

definition db_BatchSaveLogs :: "tx_log list \<Rightarrow> 'd db_state \<Rightarrow> go_error option \<times> 'd db_state" where
  "db_BatchSaveLogs logs s =
     (if logs = [] then (None, s) else in_transaction (save_each db_SaveLog logs) s)"

definition log_matches :: "string \<Rightarrow> log_filter \<Rightarrow> log_row \<Rightarrow> bool" where
  "log_matches chainID f r \<longleftrightarrow>
     lr_chain_id r = chainID
     \<and> (case lf_block_number f of None \<Rightarrow> True | Some n \<Rightarrow> lr_block_number r = n)
     \<and> (case lf_from_block f of None \<Rightarrow> True | Some n \<Rightarrow> lr_block_number r \<ge> n)
     \<and> (case lf_to_block f of None \<Rightarrow> True | Some n \<Rightarrow> lr_block_number r \<le> n)
     \<and> (if lf_address f \<noteq> '''' then lr_address r = lf_address f else True)
     \<and> (if lf_tx_hash f \<noteq> '''' then lr_tx_hash r = lf_tx_hash f else True)"

definition db_GetLogs :: "string \<Rightarrow> log_filter \<Rightarrow> 'd db_state \<Rightarrow> go_error + tx_log list" where
  "db_GetLogs chainID f s =
     wrap_res ''failed to get logs''
       (map_sum id (map lr_data)
         (gt_page (gm_logs (fst s)) (\<lambda>r. (uint (lr_block_number r), uint (lr_log_index r)))
           (log_matches chainID f) (lf_limit f) (lf_offset f) (snd s)))"

definition db_DeleteLogs :: "string \<Rightarrow> u64 \<Rightarrow> u64 \<Rightarrow> 'd db_state \<Rightarrow> go_error option \<times> 'd db_state" where
  "db_DeleteLogs chainID fromBlock toBlock =
     on_db (\<lambda>G d. let (e, d') = gt_delete (gm_logs G)
           (\<lambda>r. lr_chain_id r = chainID \<and> lr_block_number r \<ge> fromBlock \<and> lr_block_number r \<le> toBlock) d
       in (wrap_err ''failed to delete logs'' e, d'))"

section \<open>Watermarks and reorganisations\<close>

definition watermark_model :: "watermark \<Rightarrow> watermark_row" where
  "watermark_model w =
     \<lparr>wr_chain_id = wm_chain_id w, wr_scanned_height = wm_scanned_height w,
      wr_confirmed_height = wm_confirmed_height w, wr_finalized_height = wm_finalized_height w,
      wr_reorg_boundary = wm_reorg_boundary w, wr_last_update_time = wm_last_update_time w\<rparr>"

definition db_SaveWatermark :: "watermark \<Rightarrow> 'd db_state \<Rightarrow> go_error option \<times> 'd db_state" where
  "db_SaveWatermark w =
     on_db (\<lambda>G d. let (e, d') = gt_save (gm_watermarks G) (\<lambda>r. wr_chain_id r = wm_chain_id w) (watermark_model w) d
       in (wrap_err ''failed to save watermark'' e, d'))"

definition db_GetWatermark :: "string \<Rightarrow> 'd db_state \<Rightarrow> go_error + watermark" where
  "db_GetWatermark chainID s =
     db_found (''watermark not found for chain '' @ chainID) ''failed to get watermark''
       (\<lambda>r. \<lparr>wm_chain_id = wr_chain_id r, wm_scanned_height = wr_scanned_height r,
             wm_confirmed_height = wr_confirmed_height r, wm_finalized_height = wr_finalized_height r,
             wm_reorg_boundary = wr_reorg_boundary r, wm_last_update_time = wr_last_update_time r\<rparr>)
       (gt_first (gm_watermarks (fst s)) (\<lambda>r. wr_chain_id r = chainID) (snd s))"

definition db_UpdateWatermark :: "string \<Rightarrow> watermark \<Rightarrow> 'd db_state \<Rightarrow> go_error option \<times> 'd db_state" where
  "db_UpdateWatermark chainID w =
     on_db (\<lambda>G d. let (e, d') = gt_update (gm_watermarks G) (\<lambda>r. wr_chain_id r = chainID)
           (\<lambda>r. r\<lparr>wr_scanned_height := wm_scanned_height w, wr_confirmed_height := wm_confirmed_height w,
                  wr_finalized_height := wm_finalized_height w, wr_reorg_boundary := wm_reorg_boundary w,
                  wr_last_update_time := wm_last_update_time w\<rparr>) d
       in (wrap_err ''failed to update watermark'' e, d'))"

definition reorg_model :: "reorg_event \<Rightarrow> reorg_row" where
  "reorg_model v =
     \<lparr>rr_chain_id = re_chain_id v, rr_detected_at = re_detected_at v,
      rr_old_block_number = re_old_block_number v, rr_old_block_hash = re_old_block_hash v,
      rr_new_block_number = re_new_block_number v, rr_new_block_hash = re_new_block_hash v,
      rr_depth = re_depth v, rr_affected_txs = re_affected_txs v, rr_processed = re_processed v, rr_data = v\<rparr>"

definition db_SaveReorgEvent :: "reorg_event \<Rightarrow> 'd db_state \<Rightarrow> go_error option \<times> 'd db_state" where
  "db_SaveReorgEvent v =
     on_db (\<lambda>G d. let (e, d') = gt_create (gm_reorgs G) (reorg_model v) d
       in (wrap_err ''failed to save reorg event'' e, d'))"

definition db_GetReorgEvents :: "string \<Rightarrow> int \<Rightarrow> int \<Rightarrow> 'd db_state \<Rightarrow> go_error + reorg_event list" where
  "db_GetReorgEvents chainID limit offset s =
     wrap_res ''failed to get reorg events''
       (map_sum id (map rr_data)
         (gt_page (gm_reorgs (fst s)) (\<lambda>r. (- rr_detected_at r, 0)) (\<lambda>r. rr_chain_id r = chainID)
           limit offset (snd s)))"

definition db_storage :: "'d db_state storage" where
  "db_storage =
     \<lparr>st_SaveBlock = db_SaveBlock, st_GetBlock = db_GetBlock, st_GetBlockByHash = db_GetBlockByHash,
      st_GetLatestBlock = db_GetLatestBlock, st_DeleteBlocks = (\<lambda>c a b s. Some (db_DeleteBlocks c a b s)),
      st_SaveTransaction = db_SaveTransaction, st_BatchSaveTransactions = db_BatchSaveTransactions,
      st_GetTransaction = db_GetTransaction, st_GetTransactionsByBlock = db_GetTransactionsByBlock,
      st_GetTransactionsByAddress = db_GetTransactionsByAddress,
      st_UpdateTransactionStatus = db_UpdateTransactionStatus,
      st_MarkTransactionsAsReverted = db_MarkTransactionsAsReverted,
      st_SaveLog = db_SaveLog, st_BatchSaveLogs = db_BatchSaveLogs, st_GetLogs = db_GetLogs,
      st_DeleteLogs = db_DeleteLogs, st_SaveWatermark = db_SaveWatermark,
      st_GetWatermark = db_GetWatermark, st_UpdateWatermark = db_UpdateWatermark,
      st_SaveReorgEvent = db_SaveReorgEvent, st_GetReorgEvents = db_GetReorgEvents\<rparr>"

section \<open>The laws of the tables\<close>

text \<open>Which columns an assignment sets: the fields that are not zero values; JSON text never is.\<close>

definition nz :: "'a \<Rightarrow> 'a \<Rightarrow> 'a \<Rightarrow> 'a" where
  "nz zero new old = (if new = zero then old else new)"

definition assign_tx :: "tx_row \<Rightarrow> tx_row \<Rightarrow> tx_row" where
  "assign_tx m r =
     \<lparr>tr_chain_id = nz [] (tr_chain_id m) (tr_chain_id r), tr_tx_hash = nz [] (tr_tx_hash m) (tr_tx_hash r),
      tr_block_number = nz 0 (tr_block_number m) (tr_block_number r),
      tr_block_hash = nz [] (tr_block_hash m) (tr_block_hash r),
      tr_from_address = nz [] (tr_from_address m) (tr_from_address r),
      tr_to_address = nz [] (tr_to_address m) (tr_to_address r),
      tr_value = nz [] (tr_value m) (tr_value r), tr_gas_price = nz [] (tr_gas_price m) (tr_gas_price r),
      tr_gas_used = nz 0 (tr_gas_used m) (tr_gas_used r), tr_status = nz [] (tr_status m) (tr_status r),
      tr_input_data = nz [] (tr_input_data m) (tr_input_data r), tr_data = tr_data m\<rparr>"

definition assign_block :: "block_row \<Rightarrow> block_row \<Rightarrow> block_row" where
  "assign_block m r =
     \<lparr>br_chain_id = nz [] (br_chain_id m) (br_chain_id r),
      br_block_number = nz 0 (br_block_number m) (br_block_number r),
      br_block_hash = nz [] (br_block_hash m) (br_block_hash r),
      br_parent_hash = nz [] (br_parent_hash m) (br_parent_hash r),
      br_timestamp = nz 0 (br_timestamp m) (br_timestamp r), br_data = br_data m\<rparr>"

definition gorm_laws :: "'d gorm \<Rightarrow> bool" where
  "gorm_laws G \<longleftrightarrow> gtable_laws assign_block (gm_blocks G) \<and> gtable_laws assign_tx (gm_txs G)"

lemma gt_first_law: "gtable_laws a T \<Longrightarrow> gt_first T P d = Inr m \<Longrightarrow> List.find P (gt_rows T d) = Some m"
  by (simp add: gtable_laws_def)

lemma gt_save_law:
  "gtable_laws a T \<Longrightarrow> gt_save T P m d = (None, d') \<Longrightarrow> gt_rows T d' = save_rows a P m (gt_rows T d)"
  by (simp add: gtable_laws_def)

lemma gt_update_law:
  "gtable_laws a T \<Longrightarrow> gt_update T P f d = (None, d')
    \<Longrightarrow> gt_rows T d' = map (\<lambda>r. if P r then f r else r) (gt_rows T d)"
  by (simp add: gtable_laws_def)

lemma gt_update_error:
  "gtable_laws a T \<Longrightarrow> gt_update T P f d = (Some e, d') \<Longrightarrow> gt_rows T d' = gt_rows T d"
  unfolding gtable_laws_def by blast

lemma gt_delete_law:
  "gtable_laws a T \<Longrightarrow> gt_delete T P d = (None, d') \<Longrightarrow> gt_rows T d' = filter (\<lambda>r. \<not> P r) (gt_rows T d)"
  by (simp add: gtable_laws_def)

lemma find_save_rows:
  assumes "P m" "\<And>r. P r \<Longrightarrow> P (a m r)"
  shows "List.find P (save_rows a P m rs) = Some (case List.find P rs of None \<Rightarrow> m | Some r \<Rightarrow> a m r)"
  using assms by (induction rs) auto

lemma find_map_keeps:
  assumes "\<And>r. P (f r) = P r"
  shows "List.find P (map f rs) = map_option f (List.find P rs)"
  using assms by (induction rs) auto

lemma find_filter_out: "(\<And>r. P r \<Longrightarrow> Q r) \<Longrightarrow> List.find P (filter Q rs) = List.find P rs"
  by (induction rs) auto

lemma find_filter_none: "(\<And>r. P r \<Longrightarrow> \<not> Q r) \<Longrightarrow> List.find P (filter Q rs) = None"
  by (auto simp: find_None_iff)

lemma db_found_Inr: "db_found a b f r = Inr x \<longleftrightarrow> (\<exists>m. r = Inr m \<and> x = f m)"
  by (auto simp: db_found_def split: sum.splits)

section \<open>What is read after a write\<close>


text \<open>An in-memory database for the examples.\<close>

record mem_db =
  md_blocks :: "block_row list"
  md_txs :: "tx_row list"
  md_logs :: "log_row list"
  md_watermarks :: "watermark_row list"
  md_reorgs :: "reorg_row list"

definition mem_table ::
    "('m \<Rightarrow> 'm \<Rightarrow> 'm) \<Rightarrow> (mem_db \<Rightarrow> 'm list) \<Rightarrow> ('m list \<Rightarrow> mem_db \<Rightarrow> mem_db) \<Rightarrow> ('m, mem_db) gtable" where
  "mem_table a get put =
     \<lparr>gt_rows = get,
      gt_first = (\<lambda>P d. case List.find P (get d) of None \<Rightarrow> Inl ErrRecordNotFound | Some m \<Rightarrow> Inr m),
      gt_last = (\<lambda>k P d. if filter P (get d) = [] then Inl ErrRecordNotFound
                         else Inr (last (sort_key k (filter P (get d))))),
      gt_find = (\<lambda>P d. Inr (filter P (get d))),
      gt_page = (\<lambda>k P l off d. Inr (take (nat l) (drop (nat off) (filter P (get d))))),
      gt_save = (\<lambda>P m d. (None, put (save_rows a P m (get d)) d)),
      gt_create = (\<lambda>m d. (None, put (get d @ [m]) d)),
      gt_update = (\<lambda>P f d. (None, put (map (\<lambda>r. if P r then f r else r) (get d)) d)),
      gt_delete = (\<lambda>P d. (None, put (filter (\<lambda>r. \<not> P r) (get d)) d))\<rparr>"

lemma last_sort_key:
  fixes k :: "'m \<Rightarrow> u64"
  assumes "xs \<noteq> []"
  shows "last (sort_key k xs) \<in> set xs \<and> (\<forall>r \<in> set xs. k r \<le> k (last (sort_key k xs)))"
proof -
  let ?s = "sort_key k xs"
  have ne: "?s \<noteq> []" using assms by (metis length_0_conv length_sort)
  then have "last ?s \<in> set xs" using last_in_set [of ?s] by simp
  moreover have "k r \<le> k (last ?s)" if "r \<in> set ?s" for r
  proof -
    have "sorted (map k (butlast ?s) @ [k (last ?s)])"
      using ne by (metis append_butlast_last_id list.simps(8) list.simps(9) map_append sorted_sort_key)
    moreover have "r \<in> set (butlast ?s) \<or> r = last ?s"
      using that ne by (metis append_butlast_last_id in_set_conv_decomp_last Un_iff empty_iff empty_set
          insert_iff list.simps(15) set_append)
    ultimately show ?thesis by (auto simp: sorted_append)
  qed
  ultimately show ?thesis by simp
qed

lemma mem_table_laws:
  assumes "\<And>xs d. get (put xs d) = xs"
  shows "gtable_laws a (mem_table a get put)"
proof -
  have last: "filter P xs \<noteq> [] \<Longrightarrow> last (sort_key k (filter P xs)) \<in> set xs
      \<and> P (last (sort_key k (filter P xs)))
      \<and> (\<forall>r. r \<in> set xs \<and> P r \<longrightarrow> k r \<le> k (last (sort_key k (filter P xs))))"
    for k :: "'a \<Rightarrow> u64" and P xs
    using last_sort_key [of "filter P xs" k] by auto
  show ?thesis
    unfolding gtable_laws_def mem_table_def using assms
    by (simp split: option.splits) (simp add: last)
qed

definition mem_gorm :: "mem_db gorm" where
  "mem_gorm =
     \<lparr>gm_blocks = mem_table assign_block md_blocks (\<lambda>x d. d\<lparr>md_blocks := x\<rparr>),
      gm_txs = mem_table assign_tx md_txs (\<lambda>x d. d\<lparr>md_txs := x\<rparr>),
      gm_logs = mem_table (\<lambda>m r. m) md_logs (\<lambda>x d. d\<lparr>md_logs := x\<rparr>),
      gm_watermarks = mem_table (\<lambda>m r. m) md_watermarks (\<lambda>x d. d\<lparr>md_watermarks := x\<rparr>),
      gm_reorgs = mem_table (\<lambda>m r. m) md_reorgs (\<lambda>x d. d\<lparr>md_reorgs := x\<rparr>),
      gm_transaction = (\<lambda>f d. f d)\<rparr>"

definition empty_db :: mem_db where
  "empty_db = \<lparr>md_blocks = [], md_txs = [], md_logs = [], md_watermarks = [], md_reorgs = []\<rparr>"

lemma mem_gorm_laws: "gorm_laws mem_gorm"
  by (simp add: gorm_laws_def mem_gorm_def mem_table_laws)

lemmas mem_db_defs = mem_gorm_def mem_table_def empty_db_def on_db_def


text \<open>
  \<open>DeleteBlocks\<close> deletes the blocks of its range, both ends included, and no other: afterwards no
  block of the range is found, and what is found outside it is what was there before.
\<close>

theorem db_DeleteBlocks_range:
  assumes "gorm_laws (fst s)" "db_DeleteBlocks c lo hi s = (None, s')"
    and "db_GetBlock c' n s' = Inr b"
  shows "\<not> (c' = c \<and> lo \<le> n \<and> n \<le> hi)
    \<and> (\<forall>b0. db_GetBlock c' n s = Inr b0 \<longrightarrow> b0 = b)"
proof -
  obtain G d where s: "s = (G, d)" by (cases s)
  have G: "gtable_laws assign_block (gm_blocks G)" using assms(1) by (simp add: s gorm_laws_def)
  let ?D = "\<lambda>r. br_chain_id r = c \<and> br_block_number r \<ge> lo \<and> br_block_number r \<le> hi"
  let ?P = "\<lambda>r. br_chain_id r = c' \<and> br_block_number r = n"
  obtain d1 where d1: "s' = (G, d1)" "gt_delete (gm_blocks G) ?D d = (None, d1)"
    using assms(2) by (auto simp: s db_DeleteBlocks_def on_db_def split: prod.splits)
  obtain m where m: "gt_first (gm_blocks G) ?P d1 = Inr m" "b = br_data m"
    using assms(3) d1(1) by (auto simp: db_GetBlock_def db_found_Inr)
  have f: "List.find ?P (filter (\<lambda>r. \<not> ?D r) (gt_rows (gm_blocks G) d)) = Some m"
    using gt_first_law [OF G m(1)] gt_delete_law [OF G d1(2)] by simp
  have out: "\<not> (c' = c \<and> lo \<le> n \<and> n \<le> hi)"
  proof
    assume "c' = c \<and> lo \<le> n \<and> n \<le> hi"
    then have "List.find ?P (filter (\<lambda>r. \<not> ?D r) (gt_rows (gm_blocks G) d)) = None"
      by (intro find_filter_none) auto
    with f show False by simp
  qed
  then have "List.find ?P (filter (\<lambda>r. \<not> ?D r) (gt_rows (gm_blocks G) d))
      = List.find ?P (gt_rows (gm_blocks G) d)"
    by (intro find_filter_out) auto
  then have "List.find ?P (gt_rows (gm_blocks G) d) = Some m" using f by simp
  then have "\<forall>b0. db_GetBlock c' n s = Inr b0 \<longrightarrow> b0 = b"
    using gt_first_law [OF G, of ?P d] m(2) by (auto simp: s db_GetBlock_def db_found_Inr)
  with out show ?thesis by blast
qed

definition three_blocks :: mem_db where
  "three_blocks = empty_db\<lparr>md_blocks := map (\<lambda>n. block_model (mk_block n ''h'' ''p'' [])) [5, 6, 7]\<rparr>"

theorem db_DeleteBlocks_range_witness:
  "\<exists>b. db_GetBlock ''eth'' 5 (snd (db_DeleteBlocks ''eth'' 6 9 (mem_gorm, three_blocks))) = Inr b
    \<and> (\<forall>b0. db_GetBlock ''eth'' 5 (mem_gorm, three_blocks) = Inr b0 \<longrightarrow> b0 = b)"
proof -
  let ?s' = "snd (db_DeleteBlocks ''eth'' 6 9 (mem_gorm, three_blocks))"
  have a: "db_DeleteBlocks ''eth'' 6 9 (mem_gorm, three_blocks) = (None, ?s')"
    by (simp add: db_DeleteBlocks_def mem_db_defs)
  have b: "db_GetBlock ''eth'' 5 ?s' = Inr (mk_block 5 ''h'' ''p'' [])"
    by (simp add: db_DeleteBlocks_def db_GetBlock_def db_found_def mem_db_defs three_blocks_def block_model_def mk_block_def)
  have "gorm_laws (fst (mem_gorm, three_blocks))" by (simp add: mem_gorm_laws)
  from db_DeleteBlocks_range [OF this a b] b show ?thesis by blast
qed

text \<open>The stored transactions, as a reader sees them.\<close>

definition stored :: "string \<Rightarrow> string \<Rightarrow> 'd db_state \<Rightarrow> transaction option" where
  "stored c h s = map_option tr_data (List.find (row_of c h) (gt_rows (gm_txs (fst s)) (snd s)))"

lemma db_GetTransaction_stored:
  "gorm_laws (fst s) \<Longrightarrow> db_GetTransaction c h s = Inr t \<Longrightarrow> stored c h s = Some t"
  by (auto simp: db_GetTransaction_def db_found_Inr stored_def gorm_laws_def dest: gt_first_law)

lemma status_column_stored:
  assumes "gorm_laws (fst s)" "gt_update (gm_txs (fst s)) Q (\<lambda>r. r\<lparr>tr_status := x\<rparr>) (snd s) = (None, d')"
  shows "stored c h (fst s, d') = stored c h s"
proof -
  let ?f = "\<lambda>r. if Q r then r\<lparr>tr_status := x\<rparr> else r"
  have l: "gtable_laws assign_tx (gm_txs (fst s))" using assms(1) by (simp add: gorm_laws_def)
  have "gt_rows (gm_txs (fst s)) d' = map ?f (gt_rows (gm_txs (fst s)) (snd s))"
    by (rule gt_update_law [OF l assms(2)])
  moreover have "List.find (row_of c h) (map ?f rs) = map_option ?f (List.find (row_of c h) rs)" for rs
    by (rule find_map_keeps) (simp add: row_of_def)
  moreover have "tr_data (?f r) = tr_data r" for r by simp
  ultimately show ?thesis
    by (simp add: stored_def option.map_comp comp_def) (rule option.map_cong0, simp)
qed

lemma db_UpdateTransactionStatus_stored:
  assumes "gorm_laws (fst s)" "db_UpdateTransactionStatus c h st s = (None, s')"
  shows "fst s' = fst s \<and> stored c' h' s' = stored c' h' s"
proof -
  obtain d' where "gt_update (gm_txs (fst s)) (row_of c h) (\<lambda>r. r\<lparr>tr_status := tx_status_text st\<rparr>) (snd s) = (None, d')"
      "s' = (fst s, d')"
    using assms(2) by (auto simp: db_UpdateTransactionStatus_def on_db_def Let_def split: prod.splits)
  with status_column_stored [OF assms(1)] show ?thesis by simp
qed

lemma db_UpdateTransactionStatus_stored_any:
  assumes "gorm_laws (fst s)" "db_UpdateTransactionStatus c h st s = (e, s')"
  shows "fst s' = fst s \<and> stored c' h' s' = stored c' h' s"
proof (cases e)
  case None
  then show ?thesis using db_UpdateTransactionStatus_stored assms by blast
next
  case (Some err)
  then obtain e0 d' where u: "gt_update (gm_txs (fst s)) (row_of c h) (\<lambda>r. r\<lparr>tr_status := tx_status_text st\<rparr>) (snd s)
      = (Some e0, d')" and "s' = (fst s, d')"
    using assms(2) by (auto simp: db_UpdateTransactionStatus_def on_db_def Let_def wrap_err_def split: prod.splits)
  have "gtable_laws assign_tx (gm_txs (fst s))" using assms(1) by (simp add: gorm_laws_def)
  from gt_update_error [OF this u] have "gt_rows (gm_txs (fst s)) d' = gt_rows (gm_txs (fst s)) (snd s)" .
  then show ?thesis using \<open>s' = (fst s, d')\<close> by (simp add: stored_def)
qed

lemma db_MarkTransactionsAsReverted_stored:
  assumes "gorm_laws (fst s)" "db_MarkTransactionsAsReverted c lo hi s = (None, s')"
  shows "fst s' = fst s \<and> stored c' h' s' = stored c' h' s"
proof -
  obtain Q d' where "gt_update (gm_txs (fst s)) Q (\<lambda>r. r\<lparr>tr_status := tx_status_text TxReverted\<rparr>) (snd s) = (None, d')"
      "s' = (fst s, d')"
    using assms(2) by (auto simp: db_MarkTransactionsAsReverted_def on_db_def Let_def split: prod.splits)
  with status_column_stored [OF assms(1)] show ?thesis by simp
qed

text \<open>
  Changing a status does not change what is read: \<open>UpdateTransactionStatus\<close> and
  \<open>MarkTransactionsAsReverted\<close> write the column \<open>status\<close>, \<open>GetTransaction\<close> returns the JSON of the
  column \<open>Data\<close>, so a stored transaction keeps the status it was saved with for every reader.
\<close>

theorem db_status_not_read:
  assumes "gorm_laws (fst s)"
    and "db_UpdateTransactionStatus c h st s = (None, s') \<or> db_MarkTransactionsAsReverted c lo hi s = (None, s')"
    and "db_GetTransaction c' h' s = Inr t" "db_GetTransaction c' h' s' = Inr t'"
  shows "t' = t"
proof -
  have s': "fst s' = fst s" "stored c' h' s' = stored c' h' s"
    using assms(2) db_UpdateTransactionStatus_stored [OF assms(1)]
      db_MarkTransactionsAsReverted_stored [OF assms(1)] by blast+
  then have "stored c' h' s' = Some t'" using db_GetTransaction_stored [of s'] assms(1,4) by simp
  moreover have "stored c' h' s = Some t" using db_GetTransaction_stored assms(1,3) by blast
  ultimately show ?thesis using s' by simp
qed

definition one_tx :: mem_db where
  "one_tx = empty_db\<lparr>md_txs := [tx_model (mk_tx ''h1'' 7 TxPending)]\<rparr>"

lemma one_tx_get:
  "db_GetTransaction ''eth'' ''h1'' (mem_gorm, one_tx) = Inr (mk_tx ''h1'' 7 TxPending)"
  "db_GetTransaction ''eth'' ''h1'' (snd (db_UpdateTransactionStatus ''eth'' ''h1'' TxConfirmed (mem_gorm, one_tx)))
    = Inr (mk_tx ''h1'' 7 TxPending)"
  by (simp_all add: db_GetTransaction_def db_UpdateTransactionStatus_def db_found_def mem_db_defs one_tx_def
      row_of_def tx_model_def mk_tx_def)

theorem db_status_not_read_witness:
  "\<exists>s' t'. db_UpdateTransactionStatus ''eth'' ''h1'' TxConfirmed (mem_gorm, one_tx) = (None, s')
    \<and> db_GetTransaction ''eth'' ''h1'' s' = Inr t' \<and> t' = mk_tx ''h1'' 7 TxPending"
proof -
  let ?s' = "snd (db_UpdateTransactionStatus ''eth'' ''h1'' TxConfirmed (mem_gorm, one_tx))"
  have a: "db_UpdateTransactionStatus ''eth'' ''h1'' TxConfirmed (mem_gorm, one_tx) = (None, ?s')"
    by (simp add: db_UpdateTransactionStatus_def mem_db_defs)
  have "gorm_laws (fst (mem_gorm, one_tx))" by (simp add: mem_gorm_laws)
  then show ?thesis using db_status_not_read [of "(mem_gorm, one_tx)", OF _ disjI1 [OF a] one_tx_get] a one_tx_get(2)
    by blast
qed

text \<open>A batch is not all or nothing: what was saved before the error stays.\<close>

lemma save_each_prefix:
  "save_each save xs s = (Some e, s')
    \<Longrightarrow> \<exists>ys x zs s1. xs = ys @ x # zs \<and> save_each save ys s = (None, s1) \<and> save x s1 = (Some e, s')"
proof (induction xs arbitrary: s)
  case (Cons x xs)
  show ?case
  proof (cases "save x s")
    case (Pair r s1)
    show ?thesis
    proof (cases r)
      case None
      with Pair Cons.prems obtain ys y zs s2 where
        "xs = ys @ y # zs" "save_each save ys s1 = (None, s2)" "save y s2 = (Some e, s')"
        using Cons.IH [of s1] by auto
      then show ?thesis using Pair None by (intro exI [of _ "x # ys"]) auto
    next
      case (Some e')
      then show ?thesis using Pair Cons.prems by (intro exI [of _ "[]"]) auto
    qed
  qed
qed simp

end
