(* ===== verification/StateMachine.thy ===== *)
theory StateMachine
  imports RedisStore Database
begin

text \<open>
  \<open>internal/consumer/state_machine.go\<close>: the state machine of a transaction's status, in its default
  form with a fixed table of transitions and in the form with a list of rules. Both read and write
  the status through the storage interface; what they guarantee is proved for every store that keeps
  the contract \<open>status_store\<close>, and used for the Redis storage, which does. The relational storage
  does not, and the last section shows what that means.
\<close>

section \<open>The default machine\<close>

text \<open>The table \<open>validTransitions\<close>; a status that is not a key of the map is \<open>None\<close>.\<close>

fun validTransitions :: "tx_status \<Rightarrow> tx_status list option" where
  "validTransitions TxPending = Some [TxConfirmed, TxReverted]"
| "validTransitions TxConfirmed = Some [TxFinalized, TxReverted]"
| "validTransitions TxFinalized = Some []"
| "validTransitions TxReverted = Some []"
| "validTransitions (TxOther s) = None"

definition validateStateTransition :: "tx_status \<Rightarrow> tx_status \<Rightarrow> go_error option" where
  "validateStateTransition currentStatus newStatus =
     (case validTransitions currentStatus of
        None \<Rightarrow> Some (Msg (''unknown current status: '' @ tx_status_text currentStatus))
      | Some allowed \<Rightarrow>
          if newStatus \<in> set allowed then None
          else Some (Msg (''invalid state transition from '' @ tx_status_text currentStatus
                     @ '' to '' @ tx_status_text newStatus)))"

definition GetTransactionState :: "'s storage \<Rightarrow> string \<Rightarrow> string \<Rightarrow> 's \<Rightarrow> go_error + tx_status" where
  "GetTransactionState S chainID txHash s =
     (case st_GetTransaction S chainID txHash s of
        Inl e \<Rightarrow> Inl (Wrap ''failed to get transaction'' e)
      | Inr t \<Rightarrow> Inr (tx_status t))"

text \<open>The handlers of the new status only log.\<close>

definition handleConfirmed :: "transaction \<Rightarrow> go_error option" where "handleConfirmed t = None"
definition handleFinalized :: "transaction \<Rightarrow> go_error option" where "handleFinalized t = None"
definition handleReverted :: "transaction \<Rightarrow> go_error option" where "handleReverted t = None"

definition executeStateTransition ::
    "'s storage \<Rightarrow> transaction \<Rightarrow> 's \<Rightarrow> go_error option \<times> 's" where
  "executeStateTransition S t s =
     (case st_UpdateTransactionStatus S (tx_chain_id t) (tx_hash t) (tx_status t) s of
        (Some e, s') \<Rightarrow> (Some (Wrap ''failed to update transaction status'' e), s')
      | (None, s') \<Rightarrow>
          (case tx_status t of
             TxConfirmed \<Rightarrow> (handleConfirmed t, s')
           | TxFinalized \<Rightarrow> (handleFinalized t, s')
           | TxReverted \<Rightarrow> (handleReverted t, s')
           | _ \<Rightarrow> (None, s')))"

definition sm_ProcessTransaction :: "'s storage \<Rightarrow> transaction \<Rightarrow> 's \<Rightarrow> go_error option \<times> 's" where
  "sm_ProcessTransaction S t s =
     (case GetTransactionState S (tx_chain_id t) (tx_hash t) s of
        Inl e \<Rightarrow> (Some (Wrap ''failed to get current state'' e), s)
      | Inr currentStatus \<Rightarrow>
     (case validateStateTransition currentStatus (tx_status t) of
        Some e \<Rightarrow> (Some (Wrap ''invalid state transition'' e), s)
      | None \<Rightarrow>
          (case executeStateTransition S t s of
             (Some e, s') \<Rightarrow> (Some (Wrap ''failed to execute state transition'' e), s')
           | (None, s') \<Rightarrow> (None, s'))))"

definition ForceSetState ::
    "'s storage \<Rightarrow> string \<Rightarrow> string \<Rightarrow> tx_status \<Rightarrow> 's \<Rightarrow> go_error option \<times> 's" where
  "ForceSetState S chainID txHash status s =
     (case st_UpdateTransactionStatus S chainID txHash status s of
        (e, s') \<Rightarrow> (wrap_err ''failed to update transaction status'' e, s'))"

record state_statistics =
  sst_chain_id :: string
  sst_pending_count :: int
  sst_confirmed_count :: int
  sst_finalized_count :: int
  sst_reverted_count :: int
  sst_total_count :: int
  sst_last_updated_time :: int

definition GetStateStatistics :: "string \<Rightarrow> int \<Rightarrow> go_error + state_statistics" where
  "GetStateStatistics chainID now =
     Inr \<lparr>sst_chain_id = chainID, sst_pending_count = 0, sst_confirmed_count = 0, sst_finalized_count = 0,
          sst_reverted_count = 0, sst_total_count = 0, sst_last_updated_time = now\<rparr>"

section \<open>The machine with rules\<close>

record transition_rule =
  rule_from :: tx_status
  rule_to :: tx_status
  rule_condition :: string
  rule_action :: string

definition findTransitionRule ::
    "transition_rule list \<Rightarrow> tx_status \<Rightarrow> tx_status \<Rightarrow> go_error + transition_rule" where
  "findTransitionRule rules currentStatus newStatus =
     (case List.find (\<lambda>r. rule_from r = currentStatus \<and> rule_to r = newStatus) rules of
        Some r \<Rightarrow> Inr r
      | None \<Rightarrow> Inl (Msg (''no transition rule found from '' @ tx_status_text currentStatus
                   @ '' to '' @ tx_status_text newStatus)))"

definition executeAction :: "transaction \<Rightarrow> string \<Rightarrow> go_error option" where
  "executeAction t action = None"

definition custom_executeStateTransition ::
    "'s storage \<Rightarrow> transaction \<Rightarrow> transition_rule \<Rightarrow> 's \<Rightarrow> go_error option \<times> 's" where
  "custom_executeStateTransition S t rule s =
     (case st_UpdateTransactionStatus S (tx_chain_id t) (tx_hash t) (tx_status t) s of
        (Some e, s') \<Rightarrow> (Some (Wrap ''failed to update transaction status'' e), s')
      | (None, s') \<Rightarrow> (wrap_err ''failed to execute action'' (executeAction t (rule_action rule)), s'))"

text \<open>Its reads and its forced updates, which the source writes out again.\<close>

definition custom_GetTransactionState :: "'s storage \<Rightarrow> string \<Rightarrow> string \<Rightarrow> 's \<Rightarrow> go_error + tx_status" where
  "custom_GetTransactionState S chainID txHash s =
     (case st_GetTransaction S chainID txHash s of
        Inl e \<Rightarrow> Inl (Wrap ''failed to get transaction'' e)
      | Inr t \<Rightarrow> Inr (tx_status t))"

definition custom_ForceSetState ::
    "'s storage \<Rightarrow> string \<Rightarrow> string \<Rightarrow> tx_status \<Rightarrow> 's \<Rightarrow> go_error option \<times> 's" where
  "custom_ForceSetState S chainID txHash status s =
     (case st_UpdateTransactionStatus S chainID txHash status s of
        (e, s') \<Rightarrow> (wrap_err ''failed to update transaction status'' e, s'))"

definition custom_GetStateStatistics :: "string \<Rightarrow> int \<Rightarrow> go_error + state_statistics" where
  "custom_GetStateStatistics chainID now =
     Inr \<lparr>sst_chain_id = chainID, sst_pending_count = 0, sst_confirmed_count = 0, sst_finalized_count = 0,
          sst_reverted_count = 0, sst_total_count = 0, sst_last_updated_time = now\<rparr>"

definition custom_ProcessTransaction ::
    "'s storage \<Rightarrow> transition_rule list \<Rightarrow> transaction \<Rightarrow> 's \<Rightarrow> go_error option \<times> 's" where
  "custom_ProcessTransaction S rules t s =
     (case custom_GetTransactionState S (tx_chain_id t) (tx_hash t) s of
        Inl e \<Rightarrow> (Some (Wrap ''failed to get current state'' e), s)
      | Inr currentStatus \<Rightarrow>
     (case findTransitionRule rules currentStatus (tx_status t) of
        Inl e \<Rightarrow> (Some e, s)
      | Inr rule \<Rightarrow>
          (case custom_executeStateTransition S t rule s of
             (Some e, s') \<Rightarrow> (Some (Wrap ''failed to execute state transition'' e), s')
           | (None, s') \<Rightarrow> (None, s'))))"

section \<open>What the machines guarantee over a store that keeps its contract\<close>

definition allowed :: "tx_status \<Rightarrow> tx_status \<Rightarrow> bool" where
  "allowed a b \<longleftrightarrow> (\<exists>xs. validTransitions a = Some xs \<and> b \<in> set xs)"

lemma validateStateTransition_allowed: "validateStateTransition a b = None \<longleftrightarrow> allowed a b"
  by (auto simp: validateStateTransition_def allowed_def split: option.splits)

lemma allowed_iff:
  "allowed a b \<longleftrightarrow> (a = TxPending \<and> (b = TxConfirmed \<or> b = TxReverted))
    \<or> (a = TxConfirmed \<and> (b = TxFinalized \<or> b = TxReverted))"
  by (cases a) (auto simp: allowed_def)

lemma allowed_final [simp]: "\<not> allowed TxFinalized b" "\<not> allowed TxReverted b"
  by (simp_all add: allowed_iff)

lemma executeStateTransition_eq:
  "executeStateTransition S t s
    = (case st_UpdateTransactionStatus S (tx_chain_id t) (tx_hash t) (tx_status t) s of
        (e, s') \<Rightarrow> (wrap_err ''failed to update transaction status'' e, s'))"
  by (auto simp: executeStateTransition_def handleConfirmed_def handleFinalized_def handleReverted_def
      split: prod.splits option.splits tx_status.splits)

text \<open>A sequence of calls, errors ignored.\<close>

fun sm_run :: "'s storage \<Rightarrow> transaction list \<Rightarrow> 's \<Rightarrow> 's" where
  "sm_run S [] s = s"
| "sm_run S (t # ts) s = sm_run S ts (snd (sm_ProcessTransaction S t s))"

lemma sm_ProcessTransaction_cases:
  assumes "sm_ProcessTransaction S t s = (e, s')"
  shows "(e \<noteq> None \<and> s' = s)
    \<or> (\<exists>tx e0. st_GetTransaction S (tx_chain_id t) (tx_hash t) s = Inr tx \<and> allowed (tx_status tx) (tx_status t)
        \<and> st_UpdateTransactionStatus S (tx_chain_id t) (tx_hash t) (tx_status t) s = (e0, s')
        \<and> (e = None \<longleftrightarrow> e0 = None))"
  using assms
  by (auto simp: sm_ProcessTransaction_def executeStateTransition_eq GetTransactionState_def
      simp flip: validateStateTransition_allowed split: prod.splits option.splits sum.splits)

context status_store
begin

lemma process_invar:
  "invar s \<Longrightarrow> sm_ProcessTransaction S t s = (e, s') \<Longrightarrow> invar s'"
  using sm_ProcessTransaction_cases upd_invar by metis

lemma process_success:
  assumes "invar s" "valid (tx_chain_id t) (tx_hash t)" "sm_ProcessTransaction S t s = (None, s')"
  shows "\<exists>tx. st_GetTransaction S (tx_chain_id t) (tx_hash t) s = Inr tx
    \<and> allowed (tx_status tx) (tx_status t)
    \<and> st_GetTransaction S (tx_chain_id t) (tx_hash t) s' = Inr (tx\<lparr>tx_status := tx_status t\<rparr>)"
  using sm_ProcessTransaction_cases [OF assms(3)] upd_same [OF assms(1,2)] by auto

lemma process_reads:
  assumes "invar s" "valid (tx_chain_id t) (tx_hash t)" "valid c h" "sm_ProcessTransaction S t s = (e, s')"
    and "st_GetTransaction S c h s = Inr tx"
  shows "\<exists>st. st_GetTransaction S c h s' = Inr (tx\<lparr>tx_status := st\<rparr>)
    \<and> (st = tx_status tx \<or> allowed (tx_status tx) st)"
proof -
  have same: "\<exists>st. Inr tx = Inr (tx\<lparr>tx_status := st\<rparr>) \<and> (st = tx_status tx \<or> allowed (tx_status tx) st)"
    by (intro exI [of _ "tx_status tx"]) simp
  show ?thesis
  proof (cases "e = None \<and> (c, h) = (tx_chain_id t, tx_hash t)")
    case True
    then show ?thesis using process_success [OF assms(1,2)] assms(4,5) by auto
  next
    case False
    then have "st_GetTransaction S c h s' = st_GetTransaction S c h s"
      using sm_ProcessTransaction_cases [OF assms(4)] upd_other [OF assms(1,2,3)] upd_error [OF assms(1)]
      by (metis Pair_inject)
    then show ?thesis using same assms(5) by simp
  qed
qed

lemma run_path:
  assumes "invar s" "\<forall>t \<in> set ts. valid (tx_chain_id t) (tx_hash t)" "valid c h"
    and "st_GetTransaction S c h s = Inr tx"
  shows "\<exists>st. st_GetTransaction S c h (sm_run S ts s) = Inr (tx\<lparr>tx_status := st\<rparr>) \<and> allowed\<^sup>*\<^sup>* (tx_status tx) st"
  using assms
proof (induction ts arbitrary: s tx)
  case Nil
  then show ?case by (intro exI [of _ "tx_status tx"]) simp
next
  case (Cons t ts)
  obtain e s1 where p: "sm_ProcessTransaction S t s = (e, s1)" by (rule prod.exhaust)
  have v: "valid (tx_chain_id t) (tx_hash t)" "\<forall>t \<in> set ts. valid (tx_chain_id t) (tx_hash t)"
    using Cons.prems(2) by simp_all
  obtain st1 where st1: "st_GetTransaction S c h s1 = Inr (tx\<lparr>tx_status := st1\<rparr>)"
      "st1 = tx_status tx \<or> allowed (tx_status tx) st1"
    using process_reads [OF Cons.prems(1) v(1) Cons.prems(3) p Cons.prems(4)] by blast
  obtain st where st: "st_GetTransaction S c h (sm_run S ts s1) = Inr (tx\<lparr>tx_status := st1\<rparr>\<lparr>tx_status := st\<rparr>)"
      "allowed\<^sup>*\<^sup>* (tx_status (tx\<lparr>tx_status := st1\<rparr>)) st"
    using Cons.IH [OF process_invar [OF Cons.prems(1) p] v(2) Cons.prems(3) st1(1)] by blast
  have "allowed\<^sup>*\<^sup>* (tx_status tx) st" using st1(2) st(2) by (auto intro: converse_rtranclp_into_rtranclp)
  then show ?case using st(1) p by auto
qed

end

lemma allowed_path_final: "allowed\<^sup>*\<^sup>* a b \<Longrightarrow> a = TxFinalized \<or> a = TxReverted \<Longrightarrow> b = a"
  by (erule converse_rtranclpE) auto

section \<open>Over the Redis storage\<close>

text \<open>
  C8: Over the Redis storage the status of a transaction only moves along the table of transitions:
  after any sequence of calls, some of which may fail, the stored transaction differs at most in its
  status, and its status is reached from the old one by allowed transitions.
\<close>

theorem redis_status_path:
  assumes "kv_laws (fst s)" "\<forall>t \<in> set ts. colon_free (tx_chain_id t) (tx_hash t)" "colon_free c h"
    and "redis_GetTransaction c h s = Inr tx"
  shows "\<exists>st. redis_GetTransaction c h (sm_run redis_storage ts s) = Inr (tx\<lparr>tx_status := st\<rparr>)
    \<and> allowed\<^sup>*\<^sup>* (tx_status tx) st"
  using redis_store.run_path [of s ts c h tx] assms by (simp add: redis_storage_def redis_ok_def)

definition redis_one :: "(string \<Rightarrow> cached option) redis_state" where
  "redis_one = (mem_kv, [generateTransactionKey ''eth'' ''h1'' \<mapsto> CTx (mk_tx ''h1'' 7 TxPending)])"

lemma redis_one_get: "redis_GetTransaction ''eth'' ''h1'' redis_one = Inr (mk_tx ''h1'' 7 TxPending)"
  by (simp add: redis_GetTransaction_def redis_get_def redis_one_def mem_kv_def)

theorem redis_status_path_witness:
  "\<exists>st. redis_GetTransaction ''eth'' ''h1''
      (sm_run redis_storage [mk_tx ''h1'' 7 TxConfirmed, mk_tx ''h1'' 7 TxPending] redis_one)
      = Inr ((mk_tx ''h1'' 7 TxPending)\<lparr>tx_status := st\<rparr>) \<and> allowed\<^sup>*\<^sup>* TxPending st"
  using redis_status_path [of redis_one "[mk_tx ''h1'' 7 TxConfirmed, mk_tx ''h1'' 7 TxPending]" "''eth''" "''h1''"
      "mk_tx ''h1'' 7 TxPending"] redis_one_get
  by (simp add: colon_free_def mem_kv_laws) (simp add: redis_one_def mem_kv_laws)

text \<open>
  Finalized and reverted are final: over the Redis storage no sequence of calls changes a
  transaction that has one of these statuses.
\<close>

theorem redis_final_absorbing:
  assumes "kv_laws (fst s)" "\<forall>t \<in> set ts. colon_free (tx_chain_id t) (tx_hash t)" "colon_free c h"
    and "redis_GetTransaction c h s = Inr tx" "tx_status tx = TxFinalized \<or> tx_status tx = TxReverted"
  shows "redis_GetTransaction c h (sm_run redis_storage ts s) = Inr tx"
proof -
  obtain st where "redis_GetTransaction c h (sm_run redis_storage ts s) = Inr (tx\<lparr>tx_status := st\<rparr>)"
      "allowed\<^sup>*\<^sup>* (tx_status tx) st"
    using redis_store.run_path [of s ts c h tx] assms by (auto simp: redis_storage_def redis_ok_def)
  then show ?thesis using allowed_path_final assms(5) by (metis transaction.surjective transaction.update_convs(10))
qed

definition redis_final :: "(string \<Rightarrow> cached option) redis_state" where
  "redis_final = (mem_kv, [generateTransactionKey ''eth'' ''h1'' \<mapsto> CTx (mk_tx ''h1'' 7 TxFinalized)])"

theorem redis_final_absorbing_witness:
  "redis_GetTransaction ''eth'' ''h1'' (sm_run redis_storage [mk_tx ''h1'' 7 TxReverted] redis_final)
    = Inr (mk_tx ''h1'' 7 TxFinalized)"
proof -
  have "redis_GetTransaction ''eth'' ''h1'' redis_final = Inr (mk_tx ''h1'' 7 TxFinalized)"
    by (simp add: redis_GetTransaction_def redis_get_def redis_final_def mem_kv_def)
  moreover have "kv_laws (fst redis_final)" by (simp add: redis_final_def mem_kv_laws)
  ultimately show ?thesis
    using redis_final_absorbing [of redis_final "[mk_tx ''h1'' 7 TxReverted]" "''eth''" "''h1''"]
    by (simp add: colon_free_def)
qed

text \<open>
  A call that succeeds over the Redis storage has found the transaction in a status from which
  the table allows the new one, and leaves it with the new one.
\<close>

theorem redis_process_success:
  assumes "kv_laws (fst s)" "colon_free (tx_chain_id t) (tx_hash t)"
    and "sm_ProcessTransaction redis_storage t s = (None, s')"
  shows "\<exists>old. GetTransactionState redis_storage (tx_chain_id t) (tx_hash t) s = Inr old
    \<and> allowed old (tx_status t)
    \<and> GetTransactionState redis_storage (tx_chain_id t) (tx_hash t) s' = Inr (tx_status t)"
  using redis_store.process_success [OF _ assms(2,3)] assms(1)
  by (auto simp: redis_ok_def GetTransactionState_def)

theorem redis_process_success_witness:
  "\<exists>s'. sm_ProcessTransaction redis_storage (mk_tx ''h1'' 7 TxConfirmed) redis_one = (None, s')
    \<and> GetTransactionState redis_storage ''eth'' ''h1'' s' = Inr TxConfirmed"
proof -
  let ?t = "mk_tx ''h1'' 7 TxConfirmed"
  have id: "tx_chain_id ?t = ''eth''" "tx_hash ?t = ''h1''" by (simp_all add: mk_tx_def)
  have "fst (sm_ProcessTransaction redis_storage ?t redis_one) = None"
    using redis_one_get
    by (simp add: sm_ProcessTransaction_def GetTransactionState_def redis_storage_def id
        validateStateTransition_def executeStateTransition_def redis_UpdateTransactionStatus_def
        with_kv_def handleConfirmed_def)
      (simp add: redis_one_def mem_kv_def handleConfirmed_def)
  then obtain s' where p: "sm_ProcessTransaction redis_storage ?t redis_one = (None, s')"
    by (metis prod.collapse)
  have "kv_laws (fst redis_one)" "colon_free (tx_chain_id ?t) (tx_hash ?t)"
    by (simp_all add: redis_one_def mem_kv_laws colon_free_def)
  from redis_process_success [OF this p] p show ?thesis by (auto simp: id)
qed

section \<open>Over the relational storage\<close>

lemma db_run_stored:
  assumes "gorm_laws (fst s)"
  shows "fst (sm_run db_storage ts s) = fst s \<and> stored c h (sm_run db_storage ts s) = stored c h s"
  using assms
proof (induction ts arbitrary: s)
  case (Cons t ts)
  obtain e s1 where p: "sm_ProcessTransaction db_storage t s = (e, s1)" by (rule prod.exhaust)
  have "s1 = s \<or> (\<exists>c0 h0 st e'. db_UpdateTransactionStatus c0 h0 st s = (e', s1))"
    using sm_ProcessTransaction_cases [OF p] by (auto simp: db_storage_def)
  then have "fst s1 = fst s \<and> stored c h s1 = stored c h s"
    using db_UpdateTransactionStatus_stored_any [OF Cons.prems] by blast
  then show ?case using Cons.IH [of s1] Cons.prems p by simp
qed simp

text \<open>
  C34: Over the relational storage a transaction saved as pending can never be finalised: whatever
  sequence of calls comes first, confirming it included, the call that finalises it fails, because
  the status it reads is still the one that was saved.
\<close>

theorem db_never_finalizes:
  assumes "gorm_laws (fst s)" "db_GetTransaction (tx_chain_id t) (tx_hash t) s = Inr tx"
    and "tx_status tx = TxPending" "tx_status t = TxFinalized"
  shows "fst (sm_ProcessTransaction db_storage t (sm_run db_storage ts s)) \<noteq> None"
proof
  let ?s = "sm_run db_storage ts s"
  assume ok: "fst (sm_ProcessTransaction db_storage t ?s) = None"
  obtain e s' where p: "sm_ProcessTransaction db_storage t ?s = (e, s')" by (rule prod.exhaust)
  with ok have "e = None" by simp
  with sm_ProcessTransaction_cases [OF p] obtain tx' where
    tx': "db_GetTransaction (tx_chain_id t) (tx_hash t) ?s = Inr tx'" "allowed (tx_status tx') TxFinalized"
    using assms(4) by (auto simp: db_storage_def)
  have st: "fst ?s = fst s" "stored (tx_chain_id t) (tx_hash t) ?s = stored (tx_chain_id t) (tx_hash t) s"
    using db_run_stored [OF assms(1)] by blast+
  have "tx' = tx"
    using db_GetTransaction_stored [of ?s] db_GetTransaction_stored [OF assms(1,2)] tx'(1) st assms(1) by simp
  then show False using tx'(2) assms(3) by (simp add: allowed_iff)
qed

theorem db_never_finalizes_witness:
  "fst (sm_ProcessTransaction db_storage (mk_tx ''h1'' 7 TxFinalized)
      (sm_run db_storage [mk_tx ''h1'' 7 TxConfirmed] (mem_gorm, one_tx))) \<noteq> None"
proof -
  let ?t = "mk_tx ''h1'' 7 TxFinalized"
  have "db_GetTransaction (tx_chain_id ?t) (tx_hash ?t) (mem_gorm, one_tx) = Inr (mk_tx ''h1'' 7 TxPending)"
    using one_tx_get(1) by (simp add: mk_tx_def)
  from db_never_finalizes [OF _ this, of "[mk_tx ''h1'' 7 TxConfirmed]"] show ?thesis
    by (simp del: sm_run.simps add: mem_gorm_laws)
qed

end
