(* ===== verification/StorageManager.thy ===== *)
theory StorageManager
  imports RedisStore Database
begin

text \<open>
  \<open>StorageManager\<close> of \<open>internal/storage/storage.go\<close>: writes go to the master database, then to the
  cache and to the index, whose errors are only logged; reads try the cache and then the slave. The
  stores are parameters, each with a state of its own; \<open>None\<close> for the slave's state says that the
  slave is the master itself, as \<open>NewStorageManager\<close> sets it up without a slave configuration.
\<close>

record ('d, 'r, 'i) storage_manager =
  sg_master :: "'d storage"
  sg_slave :: "'d storage"
  sg_redis :: "'r storage option"
  sg_elasticsearch :: "'i storage option"
  sg_cache_enabled :: bool

record ('d, 'r, 'i) stores =
  ss_master :: 'd
  ss_slave :: "'d option"
  ss_redis :: 'r
  ss_index :: 'i

text \<open>
  \<open>NewStorageManager\<close>: the connections asked for, each made or failing. Without a slave the master
  serves the reads; a master that is not configured is a nil interface, on which every call panics,
  and is left out.
\<close>

definition NewStorageManager ::
    "go_error + 'd storage \<Rightarrow> (go_error + 'd storage) option \<Rightarrow> (go_error + 'r storage) option
      \<Rightarrow> (go_error + 'i storage) option \<Rightarrow> bool \<Rightarrow> go_error + ('d, 'r, 'i) storage_manager" where
  "NewStorageManager master slave redis index cacheEnabled =
     (case master of
        Inl e \<Rightarrow> Inl (Wrap ''failed to create master database'' e)
      | Inr m \<Rightarrow>
     (case slave of
        Some (Inl e) \<Rightarrow> Inl (Wrap ''failed to create slave database'' e)
      | sl \<Rightarrow>
     (let slaveDB = (case sl of Some (Inr d) \<Rightarrow> d | _ \<Rightarrow> m) in
      case redis of
        Some (Inl e) \<Rightarrow> Inl (Wrap ''failed to create redis storage'' e)
      | r \<Rightarrow>
     (case index of
        Some (Inl e) \<Rightarrow> Inl (Wrap ''failed to create elasticsearch storage'' e)
      | i \<Rightarrow>
          Inr \<lparr>sg_master = m, sg_slave = slaveDB,
               sg_redis = (case r of Some (Inr d) \<Rightarrow> Some d | _ \<Rightarrow> None),
               sg_elasticsearch = (case i of Some (Inr d) \<Rightarrow> Some d | _ \<Rightarrow> None),
               sg_cache_enabled = cacheEnabled\<rparr>))))"

definition slave_state :: "('d, 'r, 'i) stores \<Rightarrow> 'd" where
  "slave_state w = (case ss_slave w of None \<Rightarrow> ss_master w | Some d \<Rightarrow> d)"

section \<open>Writes\<close>

text \<open>The cache and the index after the master; what they report is dropped.\<close>

definition on_cache ::
    "('d, 'r, 'i) storage_manager \<Rightarrow> ('r storage \<Rightarrow> 'r \<Rightarrow> go_error option \<times> 'r) \<Rightarrow> ('d, 'r, 'i) stores
      \<Rightarrow> ('d, 'r, 'i) stores" where
  "on_cache m f w =
     (case sg_redis m of
        Some S \<Rightarrow> if sg_cache_enabled m then w\<lparr>ss_redis := snd (f S (ss_redis w))\<rparr> else w
      | None \<Rightarrow> w)"

definition on_index ::
    "('d, 'r, 'i) storage_manager \<Rightarrow> ('i storage \<Rightarrow> 'i \<Rightarrow> go_error option \<times> 'i) \<Rightarrow> ('d, 'r, 'i) stores
      \<Rightarrow> ('d, 'r, 'i) stores" where
  "on_index m f w =
     (case sg_elasticsearch m of Some S \<Rightarrow> w\<lparr>ss_index := snd (f S (ss_index w))\<rparr> | None \<Rightarrow> w)"

definition manager_SaveBlock ::
    "('d, 'r, 'i) storage_manager \<Rightarrow> block \<Rightarrow> ('d, 'r, 'i) stores \<Rightarrow> go_error option \<times> ('d, 'r, 'i) stores" where
  "manager_SaveBlock m b w =
     (case st_SaveBlock (sg_master m) b (ss_master w) of
        (Some e, d) \<Rightarrow> (Some (Wrap ''failed to save block to master'' e), w\<lparr>ss_master := d\<rparr>)
      | (None, d) \<Rightarrow>
          (None, on_index m (\<lambda>S. st_SaveBlock S b) (on_cache m (\<lambda>S. st_SaveBlock S b) (w\<lparr>ss_master := d\<rparr>))))"

definition manager_SaveTransaction ::
    "('d, 'r, 'i) storage_manager \<Rightarrow> transaction \<Rightarrow> ('d, 'r, 'i) stores \<Rightarrow> go_error option \<times> ('d, 'r, 'i) stores" where
  "manager_SaveTransaction m t w =
     (case st_SaveTransaction (sg_master m) t (ss_master w) of
        (Some e, d) \<Rightarrow> (Some (Wrap ''failed to save transaction to master'' e), w\<lparr>ss_master := d\<rparr>)
      | (None, d) \<Rightarrow>
          (None, on_index m (\<lambda>S. st_SaveTransaction S t)
                   (on_cache m (\<lambda>S. st_SaveTransaction S t) (w\<lparr>ss_master := d\<rparr>))))"

definition each_tx :: "'s storage \<Rightarrow> transaction list \<Rightarrow> 's \<Rightarrow> go_error option \<times> 's" where
  "each_tx S txs s = (None, fold (\<lambda>t s. snd (st_SaveTransaction S t s)) txs s)"

definition manager_BatchSaveTransactions ::
    "('d, 'r, 'i) storage_manager \<Rightarrow> transaction list \<Rightarrow> ('d, 'r, 'i) stores
      \<Rightarrow> go_error option \<times> ('d, 'r, 'i) stores" where
  "manager_BatchSaveTransactions m txs w =
     (case st_BatchSaveTransactions (sg_master m) txs (ss_master w) of
        (Some e, d) \<Rightarrow> (Some (Wrap ''failed to batch save transactions to master'' e), w\<lparr>ss_master := d\<rparr>)
      | (None, d) \<Rightarrow>
          (None, on_index m (\<lambda>S. each_tx S txs) (on_cache m (\<lambda>S. each_tx S txs) (w\<lparr>ss_master := d\<rparr>))))"

text \<open>The cache and the index are left for later (the source has a TODO in their branches).\<close>

definition manager_MarkTransactionsAsReverted ::
    "('d, 'r, 'i) storage_manager \<Rightarrow> string \<Rightarrow> u64 \<Rightarrow> u64 \<Rightarrow> ('d, 'r, 'i) stores
      \<Rightarrow> go_error option \<times> ('d, 'r, 'i) stores" where
  "manager_MarkTransactionsAsReverted m chainID fromBlock toBlock w =
     (case st_MarkTransactionsAsReverted (sg_master m) chainID fromBlock toBlock (ss_master w) of
        (e, d) \<Rightarrow> (wrap_err ''failed to mark transactions as reverted'' e, w\<lparr>ss_master := d\<rparr>))"

section \<open>Reads\<close>

definition cache_read ::
    "('d, 'r, 'i) storage_manager \<Rightarrow> ('r storage \<Rightarrow> 'r \<Rightarrow> go_error + 'a) \<Rightarrow> ('d, 'r, 'i) stores \<Rightarrow> 'a option" where
  "cache_read m f w =
     (case sg_redis m of
        Some S \<Rightarrow> if sg_cache_enabled m then (case f S (ss_redis w) of Inr x \<Rightarrow> Some x | Inl e \<Rightarrow> None) else None
      | None \<Rightarrow> None)"

definition manager_GetBlock ::
    "('d, 'r, 'i) storage_manager \<Rightarrow> string \<Rightarrow> u64 \<Rightarrow> ('d, 'r, 'i) stores \<Rightarrow> go_error + block" where
  "manager_GetBlock m chainID n w =
     (case cache_read m (\<lambda>S. st_GetBlock S chainID n) w of
        Some b \<Rightarrow> Inr b
      | None \<Rightarrow> wrap_res ''failed to get block from slave'' (st_GetBlock (sg_slave m) chainID n (slave_state w)))"

definition manager_GetTransaction ::
    "('d, 'r, 'i) storage_manager \<Rightarrow> string \<Rightarrow> string \<Rightarrow> ('d, 'r, 'i) stores \<Rightarrow> go_error + transaction" where
  "manager_GetTransaction m chainID txHash w =
     (case cache_read m (\<lambda>S. st_GetTransaction S chainID txHash) w of
        Some t \<Rightarrow> Inr t
      | None \<Rightarrow> wrap_res ''failed to get transaction from slave''
                  (st_GetTransaction (sg_slave m) chainID txHash (slave_state w)))"

section \<open>Health and closing\<close>

text \<open>
  The stores are asked in the order master, slave (unless it is the master), Redis, Elasticsearch;
  what each answers is an argument. The first error is returned by \<open>HealthCheck\<close>, the last by \<open>Close\<close>.
\<close>

fun first_error :: "(string \<times> go_error option option) list \<Rightarrow> go_error option" where
  "first_error [] = None"
| "first_error ((msg, Some (Some e)) # rs) = Some (Wrap msg e)"
| "first_error ((msg, _) # rs) = first_error rs"

fun last_error :: "go_error option \<Rightarrow> go_error option option list \<Rightarrow> go_error option" where
  "last_error le [] = le"
| "last_error le (Some (Some e) # rs) = last_error (Some e) rs"
| "last_error le (_ # rs) = last_error le rs"

definition manager_HealthCheck ::
    "go_error option option \<Rightarrow> go_error option option \<Rightarrow> go_error option option \<Rightarrow> go_error option option
      \<Rightarrow> go_error option" where
  "manager_HealthCheck master slave redis index =
     first_error [(''master database health check failed'', master),
                  (''slave database health check failed'', slave),
                  (''redis health check failed'', redis),
                  (''elasticsearch health check failed'', index)]"

definition manager_Close ::
    "go_error option option \<Rightarrow> go_error option option \<Rightarrow> go_error option option \<Rightarrow> go_error option option
      \<Rightarrow> go_error option" where
  "manager_Close master slave redis index = last_error None [master, slave, redis, index]"

section \<open>What the manager guarantees\<close>

lemma on_cache_simps [simp]:
  "ss_master (on_cache m f w) = ss_master w" "ss_slave (on_cache m f w) = ss_slave w"
  "ss_index (on_cache m f w) = ss_index w"
  by (auto simp: on_cache_def split: option.split)

lemma on_index_simps [simp]:
  "ss_master (on_index m f w) = ss_master w" "ss_slave (on_index m f w) = ss_slave w"
  "ss_redis (on_index m f w) = ss_redis w"
  by (auto simp: on_index_def split: option.split)

lemma on_cache_redis:
  "sg_redis m = Some S \<Longrightarrow> sg_cache_enabled m \<Longrightarrow> ss_redis (on_cache m f w) = snd (f S (ss_redis w))"
  by (simp add: on_cache_def)

text \<open>
  C31: The master decides about a write: \<open>SaveBlock\<close>, \<open>SaveTransaction\<close> and \<open>BatchSaveTransactions\<close>
  report an error exactly when the master does, whatever the cache and the index answer, and the
  master ends as its own operation leaves it.
\<close>

theorem manager_master_decides:
  "(fst (manager_SaveBlock m b w) = None \<longleftrightarrow> fst (st_SaveBlock (sg_master m) b (ss_master w)) = None)
    \<and> ss_master (snd (manager_SaveBlock m b w)) = snd (st_SaveBlock (sg_master m) b (ss_master w))
    \<and> (fst (manager_SaveTransaction m t w) = None \<longleftrightarrow> fst (st_SaveTransaction (sg_master m) t (ss_master w)) = None)
    \<and> ss_master (snd (manager_SaveTransaction m t w)) = snd (st_SaveTransaction (sg_master m) t (ss_master w))
    \<and> (fst (manager_BatchSaveTransactions m ts w) = None
        \<longleftrightarrow> fst (st_BatchSaveTransactions (sg_master m) ts (ss_master w)) = None)
    \<and> ss_master (snd (manager_BatchSaveTransactions m ts w))
        = snd (st_BatchSaveTransactions (sg_master m) ts (ss_master w))"
  by (simp add: manager_SaveBlock_def manager_SaveTransaction_def manager_BatchSaveTransactions_def
      split: prod.split option.split)

text \<open>
  Read your own write: after a transaction was saved, and its copy reached the Redis cache, it is
  what \<open>GetTransaction\<close> returns, also when a slave database still lacks it.
\<close>

theorem manager_reads_own_write:
  assumes "kv_laws (fst (ss_redis w))" "sg_redis m = Some redis_storage" "sg_cache_enabled m"
    and "fst (redis_SaveTransaction t (ss_redis w)) = None"
    and "manager_SaveTransaction m t w = (None, w')"
  shows "manager_GetTransaction m (tx_chain_id t) (tx_hash t) w' = Inr t"
proof -
  have "redis_SaveTransaction t (ss_redis w) = (None, ss_redis w')"
    using assms(2-5)
    by (auto simp: manager_SaveTransaction_def on_cache_redis redis_storage_def prod_eq_iff
        split: prod.split_asm option.split_asm)
  from redis_SaveTransaction_get [OF _ this] assms(1-3) show ?thesis
    by (simp add: manager_GetTransaction_def cache_read_def redis_storage_def redis_ok_def)
qed

definition two_stores :: "(mem_db db_state, (string \<Rightarrow> cached option) redis_state, unit) stores" where
  "two_stores = \<lparr>ss_master = (mem_gorm, empty_db), ss_slave = None, ss_redis = (mem_kv, \<lambda>k. None), ss_index = ()\<rparr>"

definition cached_manager ::
    "(mem_db db_state, (string \<Rightarrow> cached option) redis_state, unit) storage_manager" where
  "cached_manager = \<lparr>sg_master = db_storage, sg_slave = db_storage, sg_redis = Some redis_storage,
     sg_elasticsearch = None, sg_cache_enabled = True\<rparr>"

lemma cached_save: "\<exists>w'. manager_SaveTransaction cached_manager t two_stores = (None, w')"
proof -
  have "fst (db_SaveTransaction t (mem_gorm, empty_db)) = None"
    by (simp add: db_SaveTransaction_def on_db_def mem_gorm_def mem_table_def)
  then have "fst (manager_SaveTransaction cached_manager t two_stores) = None"
    by (simp add: manager_SaveTransaction_def cached_manager_def two_stores_def db_storage_def
        case_prod_beta split: option.split)
  then show ?thesis by (metis prod.collapse)
qed

theorem manager_reads_own_write_witness:
  "\<exists>w'. manager_SaveTransaction cached_manager (mk_tx ''h1'' 7 TxPending) two_stores = (None, w')
    \<and> manager_GetTransaction cached_manager (tx_chain_id (mk_tx ''h1'' 7 TxPending)) ''h1'' w'
        = Inr (mk_tx ''h1'' 7 TxPending)"
proof -
  let ?t = "mk_tx ''h1'' 7 TxPending"
  obtain w' where s: "manager_SaveTransaction cached_manager ?t two_stores = (None, w')" using cached_save by blast
  have "fst (redis_SaveTransaction ?t (ss_redis two_stores)) = None"
    by (simp add: two_stores_def redis_SaveTransaction_def with_kv_def mem_kv_def)
  moreover have "kv_laws (fst (ss_redis two_stores))" "sg_redis cached_manager = Some redis_storage"
      "sg_cache_enabled cached_manager"
    by (simp_all add: two_stores_def cached_manager_def mem_kv_laws)
  ultimately have "manager_GetTransaction cached_manager (tx_chain_id ?t) (tx_hash ?t) w' = Inr ?t"
    using manager_reads_own_write s by blast
  with s show ?thesis by auto
qed

text \<open>
  The cache is stale after a reorganisation: a transaction the cache holds is returned as before by
  \<open>GetTransaction\<close> after \<open>MarkTransactionsAsReverted\<close> succeeded on its block, because nothing evicts it.
\<close>

theorem manager_stale_after_revert:
  assumes "cache_read m (\<lambda>S. st_GetTransaction S c h) w = Some t"
    and "manager_MarkTransactionsAsReverted m c lo hi w = (None, w')"
  shows "manager_GetTransaction m c h w' = Inr t"
proof -
  have "ss_redis w' = ss_redis w"
    using assms(2) by (auto simp: manager_MarkTransactionsAsReverted_def split: prod.split_asm)
  then have "cache_read m (\<lambda>S. st_GetTransaction S c h) w' = Some t"
    using assms(1) by (auto simp: cache_read_def split: option.split_asm if_split_asm sum.split_asm)
  then show ?thesis by (simp add: manager_GetTransaction_def)
qed

theorem manager_stale_after_revert_witness:
  "\<exists>w w'. manager_MarkTransactionsAsReverted cached_manager ''eth'' 7 7 w = (None, w')
    \<and> manager_GetTransaction cached_manager ''eth'' ''h1'' w' = Inr (mk_tx ''h1'' 7 TxPending)"
proof -
  let ?t = "mk_tx ''h1'' 7 TxPending"
  obtain w where s: "manager_SaveTransaction cached_manager ?t two_stores = (None, w)" using cached_save by blast
  have r: "redis_SaveTransaction ?t (ss_redis two_stores) = (None, ss_redis w)"
    using s by (auto simp: manager_SaveTransaction_def on_cache_redis cached_manager_def redis_storage_def
        two_stores_def redis_SaveTransaction_def with_kv_def mem_kv_def on_index_def prod_eq_iff
        split: prod.split_asm option.split_asm)
  have m: "ss_master w = snd (db_SaveTransaction ?t (mem_gorm, empty_db))"
    using s by (auto simp: manager_SaveTransaction_def cached_manager_def db_storage_def two_stores_def
        split: prod.split_asm option.split_asm)
  have id: "tx_chain_id ?t = ''eth''" by (simp add: mk_tx_def)
  have "redis_ok (ss_redis two_stores)" by (simp add: two_stores_def mem_kv_laws redis_ok_def)
  from redis_SaveTransaction_get [OF this r] have
    c: "cache_read cached_manager (\<lambda>S. st_GetTransaction S ''eth'' ''h1'') w = Some ?t"
    by (simp add: cache_read_def cached_manager_def redis_storage_def id)
  have "fst (manager_MarkTransactionsAsReverted cached_manager ''eth'' 7 7 w) = None"
    by (simp add: manager_MarkTransactionsAsReverted_def cached_manager_def db_storage_def m
        db_MarkTransactionsAsReverted_def db_SaveTransaction_def on_db_def mem_gorm_def mem_table_def)
  then obtain w' where k: "manager_MarkTransactionsAsReverted cached_manager ''eth'' 7 7 w = (None, w')"
    by (metis prod.collapse)
  from manager_stale_after_revert [OF c k] k show ?thesis by blast
qed

end
