(* ===== verification/Metrics.thy ===== *)
theory Metrics
  imports Prelude
begin

text \<open>
  \<open>pkg/metrics/metrics.go\<close>: the metric vectors the program registers with Prometheus when it is
  loaded, with their labels, and the functions that record into them. Prometheus is a parameter
  with the laws its documentation gives: \<open>WithLabelValues\<close> panics unless it gets one value, in valid
  UTF-8, for each label of the vector. One of the functions gives two labels a single value.
\<close>

section \<open>The vectors\<close>

datatype vec_kind = CounterVec | GaugeVec | HistogramVec

datatype buckets = DefBuckets | Bounds "int list"

record vec =
  vec_kind :: vec_kind
  vec_name :: string
  vec_help :: string
  vec_buckets :: "buckets option"
  vec_labels :: "string list"

definition BlocksScanned :: vec where
  "BlocksScanned = \<lparr>vec_kind = CounterVec, vec_name = ''scanner_blocks_scanned_total'',
     vec_help = ''Total number of blocks scanned'', vec_buckets = None, vec_labels = [''chain_id'']\<rparr>"

definition TransactionsProcessed :: vec where
  "TransactionsProcessed = \<lparr>vec_kind = CounterVec, vec_name = ''scanner_transactions_processed_total'',
     vec_help = ''Total number of transactions processed'', vec_buckets = None, vec_labels = [''chain_id'', ''status'']\<rparr>"

definition LogsProcessed :: vec where
  "LogsProcessed = \<lparr>vec_kind = CounterVec, vec_name = ''scanner_logs_processed_total'',
     vec_help = ''Total number of logs processed'', vec_buckets = None, vec_labels = [''chain_id'']\<rparr>"

definition ScanDuration :: vec where
  "ScanDuration = \<lparr>vec_kind = HistogramVec, vec_name = ''scanner_scan_duration_seconds'',
     vec_help = ''Time taken to scan blocks'', vec_buckets = Some DefBuckets, vec_labels = [''chain_id'']\<rparr>"

definition ParseDuration :: vec where
  "ParseDuration = \<lparr>vec_kind = HistogramVec, vec_name = ''scanner_parse_duration_seconds'',
     vec_help = ''Time taken to parse transactions'', vec_buckets = Some DefBuckets, vec_labels = [''chain_id'']\<rparr>"

definition ScanErrors :: vec where
  "ScanErrors = \<lparr>vec_kind = CounterVec, vec_name = ''scanner_scan_errors_total'',
     vec_help = ''Total number of scan errors'', vec_buckets = None, vec_labels = [''chain_id'', ''error_type'']\<rparr>"

definition ParseErrors :: vec where
  "ParseErrors = \<lparr>vec_kind = CounterVec, vec_name = ''scanner_parse_errors_total'',
     vec_help = ''Total number of parse errors'', vec_buckets = None, vec_labels = [''chain_id'', ''error_type'']\<rparr>"

definition QueueDepth :: vec where
  "QueueDepth = \<lparr>vec_kind = GaugeVec, vec_name = ''scanner_queue_depth'',
     vec_help = ''Current queue depth'', vec_buckets = None, vec_labels = [''chain_id'', ''queue_type'']\<rparr>"

definition CurrentHeight :: vec where
  "CurrentHeight = \<lparr>vec_kind = GaugeVec, vec_name = ''scanner_current_height'',
     vec_help = ''Current blockchain height'', vec_buckets = None, vec_labels = [''chain_id'']\<rparr>"

definition ScannedHeight :: vec where
  "ScannedHeight = \<lparr>vec_kind = GaugeVec, vec_name = ''scanner_scanned_height'',
     vec_help = ''Scanned block height'', vec_buckets = None, vec_labels = [''chain_id'']\<rparr>"

definition BlockLag :: vec where
  "BlockLag = \<lparr>vec_kind = GaugeVec, vec_name = ''scanner_block_lag'',
     vec_help = ''Block lag behind current height'', vec_buckets = None, vec_labels = [''chain_id'']\<rparr>"

definition NodeHealthStatus :: vec where
  "NodeHealthStatus = \<lparr>vec_kind = GaugeVec, vec_name = ''scanner_node_health_status'',
     vec_help = ''Node health status (1=healthy, 0=unhealthy)'', vec_buckets = None, vec_labels = [''chain_id'', ''node_url'']\<rparr>"

definition NodeResponseTime :: vec where
  "NodeResponseTime = \<lparr>vec_kind = HistogramVec, vec_name = ''scanner_node_response_time_seconds'',
     vec_help = ''Node response time'', vec_buckets = Some DefBuckets, vec_labels = [''chain_id'', ''node_url'']\<rparr>"

definition ReorgEventsDetected :: vec where
  "ReorgEventsDetected = \<lparr>vec_kind = CounterVec, vec_name = ''scanner_reorg_events_detected_total'',
     vec_help = ''Total number of reorg events detected'', vec_buckets = None, vec_labels = [''chain_id'']\<rparr>"

definition ReorgEventsProcessed :: vec where
  "ReorgEventsProcessed = \<lparr>vec_kind = CounterVec, vec_name = ''scanner_reorg_events_processed_total'',
     vec_help = ''Total number of reorg events processed'', vec_buckets = None, vec_labels = [''chain_id'']\<rparr>"

definition ReorgDepth :: vec where
  "ReorgDepth = \<lparr>vec_kind = HistogramVec, vec_name = ''scanner_reorg_depth'',
     vec_help = ''Reorg depth'', vec_buckets = Some (Bounds [1, 2, 4, 8, 16, 32, 64, 128, 256]), vec_labels = [''chain_id'']\<rparr>"

definition ActiveWorkers :: vec where
  "ActiveWorkers = \<lparr>vec_kind = GaugeVec, vec_name = ''scanner_active_workers'',
     vec_help = ''Number of active workers'', vec_buckets = None, vec_labels = [''chain_id'']\<rparr>"

definition PendingTasks :: vec where
  "PendingTasks = \<lparr>vec_kind = GaugeVec, vec_name = ''scanner_pending_tasks'',
     vec_help = ''Number of pending tasks'', vec_buckets = None, vec_labels = [''chain_id'']\<rparr>"

definition StorageOperations :: vec where
  "StorageOperations = \<lparr>vec_kind = CounterVec, vec_name = ''scanner_storage_operations_total'',
     vec_help = ''Total number of storage operations'', vec_buckets = None, vec_labels = [''operation_type'', ''status'']\<rparr>"

definition StorageOperationDuration :: vec where
  "StorageOperationDuration = \<lparr>vec_kind = HistogramVec, vec_name = ''scanner_storage_operation_duration_seconds'',
     vec_help = ''Storage operation duration'', vec_buckets = Some DefBuckets, vec_labels = [''operation_type'']\<rparr>"

definition MessageQueueOperations :: vec where
  "MessageQueueOperations = \<lparr>vec_kind = CounterVec, vec_name = ''scanner_message_queue_operations_total'',
     vec_help = ''Total number of message queue operations'', vec_buckets = None, vec_labels = [''operation_type'', ''topic'', ''status'']\<rparr>"

definition MessageQueueOperationDuration :: vec where
  "MessageQueueOperationDuration = \<lparr>vec_kind = HistogramVec, vec_name = ''scanner_message_queue_operation_duration_seconds'',
     vec_help = ''Message queue operation duration'', vec_buckets = Some DefBuckets, vec_labels = [''operation_type'', ''topic'']\<rparr>"

definition ConsumerStatus :: vec where
  "ConsumerStatus = \<lparr>vec_kind = CounterVec, vec_name = ''scanner_consumer_status_total'',
     vec_help = ''Consumer status changes'', vec_buckets = None, vec_labels = [''chain_id'', ''status'']\<rparr>"

definition ConsumerLag :: vec where
  "ConsumerLag = \<lparr>vec_kind = HistogramVec, vec_name = ''scanner_consumer_lag_seconds'',
     vec_help = ''Consumer lag in seconds'', vec_buckets = Some DefBuckets, vec_labels = [''chain_id'']\<rparr>"

text \<open>The vectors in the order they are registered, which panics for a name that is taken.\<close>

definition all_vecs :: "vec list" where
  "all_vecs =
    [BlocksScanned, TransactionsProcessed, LogsProcessed, ScanDuration, ParseDuration, ScanErrors, 
     ParseErrors, QueueDepth, CurrentHeight, ScannedHeight, BlockLag, NodeHealthStatus, 
     NodeResponseTime, ReorgEventsDetected, ReorgEventsProcessed, ReorgDepth, ActiveWorkers, 
     PendingTasks, StorageOperations, StorageOperationDuration, MessageQueueOperations, 
     MessageQueueOperationDuration, ConsumerStatus, ConsumerLag]"

fun register_vecs :: "vec list \<Rightarrow> string set \<Rightarrow> string set outcome" where
  "register_vecs [] taken = Returns taken"
| "register_vecs (v # vs) taken =
     (if vec_name v \<in> taken then Panics else register_vecs vs (insert (vec_name v) taken))"

section \<open>Prometheus\<close>

text \<open>
  The client library, over the state \<open>'r\<close> of its registry, and what a scrape reads of a name under
  label values: a counter, the level of a gauge, the samples of a histogram. The values, of type
  \<open>float64\<close> in the code, are only handed on.
\<close>

record ('r, 'f) prometheus =
  pm_valid :: "string \<Rightarrow> bool"
  pm_with :: "vec \<Rightarrow> string list \<Rightarrow> 'r \<Rightarrow> 'r outcome"
  pm_inc :: "vec \<Rightarrow> string list \<Rightarrow> 'r \<Rightarrow> 'r"
  pm_set :: "vec \<Rightarrow> string list \<Rightarrow> 'f \<Rightarrow> 'r \<Rightarrow> 'r"
  pm_observe :: "vec \<Rightarrow> string list \<Rightarrow> 'f \<Rightarrow> 'r \<Rightarrow> 'r"
  pm_reset :: "vec \<Rightarrow> 'r \<Rightarrow> 'r"
  pm_counter :: "'r \<Rightarrow> string \<Rightarrow> string list \<Rightarrow> nat"
  pm_gauge :: "'r \<Rightarrow> string \<Rightarrow> string list \<Rightarrow> 'f option"
  pm_samples :: "'r \<Rightarrow> string \<Rightarrow> string list \<Rightarrow> 'f list"

definition labels_ok :: "('r, 'f) prometheus \<Rightarrow> vec \<Rightarrow> string list \<Rightarrow> bool" where
  "labels_ok P v ls \<longleftrightarrow> length ls = length (vec_labels v) \<and> list_all (pm_valid P) ls"

definition with_laws :: "('r, 'f) prometheus \<Rightarrow> bool" where
  "with_laws P \<longleftrightarrow>
     (\<forall>v ls r. \<not> labels_ok P v ls \<longrightarrow> pm_with P v ls r = Panics) \<and>
     (\<forall>v ls r. labels_ok P v ls \<longrightarrow> (\<exists>r'. pm_with P v ls r = Returns r'
        \<and> pm_counter P r' = pm_counter P r \<and> pm_samples P r' = pm_samples P r
        \<and> (\<forall>n ks. n \<noteq> vec_name v \<or> ks \<noteq> ls \<longrightarrow> pm_gauge P r' n ks = pm_gauge P r n ks)))"

definition update_laws :: "('r, 'f) prometheus \<Rightarrow> bool" where
  "update_laws P \<longleftrightarrow>
     (\<forall>v ls r n ks. pm_counter P (pm_inc P v ls r) n ks
        = (if n = vec_name v \<and> ks = ls then Suc (pm_counter P r n ks) else pm_counter P r n ks)) \<and>
     (\<forall>v ls r. pm_gauge P (pm_inc P v ls r) = pm_gauge P r \<and> pm_samples P (pm_inc P v ls r) = pm_samples P r) \<and>
     (\<forall>v ls x r n ks. pm_gauge P (pm_set P v ls x r) n ks
        = (if n = vec_name v \<and> ks = ls then Some x else pm_gauge P r n ks)) \<and>
     (\<forall>v ls x r. pm_counter P (pm_set P v ls x r) = pm_counter P r
        \<and> pm_samples P (pm_set P v ls x r) = pm_samples P r) \<and>
     (\<forall>v ls x r n ks. pm_samples P (pm_observe P v ls x r) n ks
        = (if n = vec_name v \<and> ks = ls then pm_samples P r n ks @ [x] else pm_samples P r n ks)) \<and>
     (\<forall>v ls x r. pm_counter P (pm_observe P v ls x r) = pm_counter P r
        \<and> pm_gauge P (pm_observe P v ls x r) = pm_gauge P r)"

definition reset_laws :: "('r, 'f) prometheus \<Rightarrow> bool" where
  "reset_laws P \<longleftrightarrow>
     (\<forall>v r n ks. pm_counter P (pm_reset P v r) n ks = (if n = vec_name v then 0 else pm_counter P r n ks)
        \<and> pm_gauge P (pm_reset P v r) n ks = (if n = vec_name v then None else pm_gauge P r n ks)
        \<and> pm_samples P (pm_reset P v r) n ks = (if n = vec_name v then [] else pm_samples P r n ks))"

definition prom_laws :: "('r, 'f) prometheus \<Rightarrow> bool" where
  "prom_laws P \<longleftrightarrow> with_laws P \<and> update_laws P \<and> reset_laws P"

section \<open>Recording\<close>

definition with_inc :: "('r, 'f) prometheus \<Rightarrow> vec \<Rightarrow> string list \<Rightarrow> 'r \<Rightarrow> 'r outcome" where
  "with_inc P v ls r = outcome_bind (pm_with P v ls r) (\<lambda>r'. Returns (pm_inc P v ls r'))"

definition with_set :: "('r, 'f) prometheus \<Rightarrow> vec \<Rightarrow> string list \<Rightarrow> 'f \<Rightarrow> 'r \<Rightarrow> 'r outcome" where
  "with_set P v ls x r = outcome_bind (pm_with P v ls r) (\<lambda>r'. Returns (pm_set P v ls x r'))"

definition with_observe :: "('r, 'f) prometheus \<Rightarrow> vec \<Rightarrow> string list \<Rightarrow> 'f \<Rightarrow> 'r \<Rightarrow> 'r outcome" where
  "with_observe P v ls x r = outcome_bind (pm_with P v ls r) (\<lambda>r'. Returns (pm_observe P v ls x r'))"

definition RecordBlockScanned ::
    "('r, 'f) prometheus \<Rightarrow> string \<Rightarrow> 'r \<Rightarrow> 'r outcome" where
  "RecordBlockScanned P chainID = with_inc P BlocksScanned [chainID]"

definition RecordTransactionProcessed ::
    "('r, 'f) prometheus \<Rightarrow> string \<Rightarrow> string \<Rightarrow> 'r \<Rightarrow> 'r outcome" where
  "RecordTransactionProcessed P chainID status = with_inc P TransactionsProcessed [chainID, status]"

definition RecordLogProcessed ::
    "('r, 'f) prometheus \<Rightarrow> string \<Rightarrow> 'r \<Rightarrow> 'r outcome" where
  "RecordLogProcessed P chainID = with_inc P LogsProcessed [chainID]"

definition RecordScanDuration ::
    "('r, 'f) prometheus \<Rightarrow> string \<Rightarrow> 'f \<Rightarrow> 'r \<Rightarrow> 'r outcome" where
  "RecordScanDuration P chainID duration = with_observe P ScanDuration [chainID] duration"

definition RecordParseDuration ::
    "('r, 'f) prometheus \<Rightarrow> string \<Rightarrow> 'f \<Rightarrow> 'r \<Rightarrow> 'r outcome" where
  "RecordParseDuration P chainID duration = with_observe P ParseDuration [chainID] duration"

definition RecordScanError ::
    "('r, 'f) prometheus \<Rightarrow> string \<Rightarrow> string \<Rightarrow> 'r \<Rightarrow> 'r outcome" where
  "RecordScanError P chainID errorType = with_inc P ScanErrors [chainID, errorType]"

definition RecordParseError ::
    "('r, 'f) prometheus \<Rightarrow> string \<Rightarrow> string \<Rightarrow> 'r \<Rightarrow> 'r outcome" where
  "RecordParseError P chainID errorType = with_inc P ParseErrors [chainID, errorType]"

definition SetQueueDepth ::
    "('r, 'f) prometheus \<Rightarrow> string \<Rightarrow> string \<Rightarrow> 'f \<Rightarrow> 'r \<Rightarrow> 'r outcome" where
  "SetQueueDepth P chainID queueType depth = with_set P QueueDepth [chainID, queueType] depth"

definition SetCurrentHeight ::
    "('r, 'f) prometheus \<Rightarrow> string \<Rightarrow> 'f \<Rightarrow> 'r \<Rightarrow> 'r outcome" where
  "SetCurrentHeight P chainID height = with_set P CurrentHeight [chainID] height"

definition SetScannedHeight ::
    "('r, 'f) prometheus \<Rightarrow> string \<Rightarrow> 'f \<Rightarrow> 'r \<Rightarrow> 'r outcome" where
  "SetScannedHeight P chainID height = with_set P ScannedHeight [chainID] height"

definition SetBlockLag ::
    "('r, 'f) prometheus \<Rightarrow> string \<Rightarrow> 'f \<Rightarrow> 'r \<Rightarrow> 'r outcome" where
  "SetBlockLag P chainID lag = with_set P BlockLag [chainID] lag"

definition SetNodeHealthStatus ::
    "('r, 'f) prometheus \<Rightarrow> string \<Rightarrow> string \<Rightarrow> 'f \<Rightarrow> 'r \<Rightarrow> 'r outcome" where
  "SetNodeHealthStatus P chainID nodeURL healthy = with_set P NodeHealthStatus [chainID, nodeURL] healthy"

definition RecordNodeResponseTime ::
    "('r, 'f) prometheus \<Rightarrow> string \<Rightarrow> string \<Rightarrow> 'f \<Rightarrow> 'r \<Rightarrow> 'r outcome" where
  "RecordNodeResponseTime P chainID nodeURL duration = with_observe P NodeResponseTime [chainID, nodeURL] duration"

definition RecordReorgEventDetected ::
    "('r, 'f) prometheus \<Rightarrow> string \<Rightarrow> 'r \<Rightarrow> 'r outcome" where
  "RecordReorgEventDetected P chainID = with_inc P ReorgEventsDetected [chainID]"

definition RecordReorgEventProcessed ::
    "('r, 'f) prometheus \<Rightarrow> string \<Rightarrow> 'r \<Rightarrow> 'r outcome" where
  "RecordReorgEventProcessed P chainID = with_inc P ReorgEventsProcessed [chainID]"

definition RecordReorgDepth ::
    "('r, 'f) prometheus \<Rightarrow> string \<Rightarrow> 'f \<Rightarrow> 'r \<Rightarrow> 'r outcome" where
  "RecordReorgDepth P chainID depth = with_observe P ReorgDepth [chainID] depth"

definition SetActiveWorkers ::
    "('r, 'f) prometheus \<Rightarrow> string \<Rightarrow> 'f \<Rightarrow> 'r \<Rightarrow> 'r outcome" where
  "SetActiveWorkers P chainID count = with_set P ActiveWorkers [chainID] count"

definition SetPendingTasks ::
    "('r, 'f) prometheus \<Rightarrow> string \<Rightarrow> 'f \<Rightarrow> 'r \<Rightarrow> 'r outcome" where
  "SetPendingTasks P chainID count = with_set P PendingTasks [chainID] count"

definition RecordStorageOperation ::
    "('r, 'f) prometheus \<Rightarrow> string \<Rightarrow> string \<Rightarrow> 'r \<Rightarrow> 'r outcome" where
  "RecordStorageOperation P operationType status = with_inc P StorageOperations [operationType, status]"

definition RecordStorageOperationDuration ::
    "('r, 'f) prometheus \<Rightarrow> string \<Rightarrow> 'f \<Rightarrow> 'r \<Rightarrow> 'r outcome" where
  "RecordStorageOperationDuration P operationType duration = with_observe P StorageOperationDuration [operationType] duration"

definition RecordMessageQueueOperation ::
    "('r, 'f) prometheus \<Rightarrow> string \<Rightarrow> string \<Rightarrow> string \<Rightarrow> 'r \<Rightarrow> 'r outcome" where
  "RecordMessageQueueOperation P operationType topic status = with_inc P MessageQueueOperations [operationType, topic, status]"

definition RecordMessageQueueOperationDuration ::
    "('r, 'f) prometheus \<Rightarrow> string \<Rightarrow> string \<Rightarrow> 'f \<Rightarrow> 'r \<Rightarrow> 'r outcome" where
  "RecordMessageQueueOperationDuration P operationType topic duration = with_observe P MessageQueueOperationDuration [operationType, topic] duration"

definition RecordConsumerStatus ::
    "('r, 'f) prometheus \<Rightarrow> string \<Rightarrow> string \<Rightarrow> 'r \<Rightarrow> 'r outcome" where
  "RecordConsumerStatus P chainID status = with_inc P ConsumerStatus [chainID, status]"

definition RecordConsumerLag ::
    "('r, 'f) prometheus \<Rightarrow> string \<Rightarrow> 'f \<Rightarrow> 'r \<Rightarrow> 'r outcome" where
  "RecordConsumerLag P chainID lag = with_observe P ConsumerLag [chainID] lag"

definition RecordTransactionProcessing ::
    "('r, 'f) prometheus \<Rightarrow> string \<Rightarrow> 'r \<Rightarrow> 'r outcome" where
  "RecordTransactionProcessing P chainID = with_inc P TransactionsProcessed [chainID]"

definition RecordLogProcessing ::
    "('r, 'f) prometheus \<Rightarrow> string \<Rightarrow> 'r \<Rightarrow> 'r outcome" where
  "RecordLogProcessing P chainID = with_inc P LogsProcessed [chainID]"

definition RecordReorgProcessing ::
    "('r, 'f) prometheus \<Rightarrow> string \<Rightarrow> 'r \<Rightarrow> 'r outcome" where
  "RecordReorgProcessing P chainID = with_inc P ReorgEventsProcessed [chainID]"

definition reset_vecs :: "vec list" where
  "reset_vecs =
    [BlocksScanned, TransactionsProcessed, LogsProcessed, ScanDuration, ParseDuration, ScanErrors, 
     ParseErrors, QueueDepth, CurrentHeight, ScannedHeight, BlockLag, NodeHealthStatus, 
     NodeResponseTime, ReorgEventsDetected, ReorgEventsProcessed, ReorgDepth, ActiveWorkers, 
     PendingTasks, StorageOperations, StorageOperationDuration, MessageQueueOperations, 
     MessageQueueOperationDuration]"

definition ResetMetrics :: "('r, 'f) prometheus \<Rightarrow> 'r \<Rightarrow> 'r" where
  "ResetMetrics P r = fold (pm_reset P) reset_vecs r"

section \<open>What is recorded\<close>

lemmas vec_defs =
  BlocksScanned_def TransactionsProcessed_def LogsProcessed_def ScanDuration_def
  ParseDuration_def ScanErrors_def ParseErrors_def QueueDepth_def CurrentHeight_def
  ScannedHeight_def BlockLag_def NodeHealthStatus_def NodeResponseTime_def
  ReorgEventsDetected_def ReorgEventsProcessed_def ReorgDepth_def ActiveWorkers_def
  PendingTasks_def StorageOperations_def StorageOperationDuration_def MessageQueueOperations_def
  MessageQueueOperationDuration_def ConsumerStatus_def ConsumerLag_def

lemmas recorder_defs =
  RecordBlockScanned_def RecordTransactionProcessed_def RecordLogProcessed_def
  RecordScanDuration_def RecordParseDuration_def RecordScanError_def RecordParseError_def
  SetQueueDepth_def SetCurrentHeight_def SetScannedHeight_def SetBlockLag_def
  SetNodeHealthStatus_def RecordNodeResponseTime_def RecordReorgEventDetected_def
  RecordReorgEventProcessed_def RecordReorgDepth_def SetActiveWorkers_def SetPendingTasks_def
  RecordStorageOperation_def RecordStorageOperationDuration_def RecordMessageQueueOperation_def
  RecordMessageQueueOperationDuration_def RecordConsumerStatus_def RecordConsumerLag_def
  RecordTransactionProcessing_def RecordLogProcessing_def RecordReorgProcessing_def

lemma all_vecs_distinct: "distinct (map vec_name all_vecs)"
  by (simp add: all_vecs_def vec_defs)

lemma register_vecs_ok:
  "distinct (map vec_name vs) \<Longrightarrow> vec_name ` set vs \<inter> taken = {}
    \<Longrightarrow> register_vecs vs taken = Returns (taken \<union> vec_name ` set vs)"
  by (induction vs arbitrary: taken) auto

text \<open>Loading the package does not panic: no two of its vectors share a name.\<close>

lemma register_all: "register_vecs all_vecs {} = Returns (vec_name ` set all_vecs)"
  by (simp add: register_vecs_ok all_vecs_distinct)

text \<open>With the labels of the vector the call returns and only the reading named changes.\<close>

lemma with_ok:
  assumes "prom_laws P" "labels_ok P v ls"
  obtains r' where "pm_with P v ls r = Returns r'" "pm_counter P r' = pm_counter P r"
    "pm_samples P r' = pm_samples P r"
    "\<And>n ks. n \<noteq> vec_name v \<or> ks \<noteq> ls \<Longrightarrow> pm_gauge P r' n ks = pm_gauge P r n ks"
proof -
  from assms(1) have "with_laws P" by (simp add: prom_laws_def)
  then have "labels_ok P v ls \<longrightarrow> (\<exists>r'. pm_with P v ls r = Returns r'
        \<and> pm_counter P r' = pm_counter P r \<and> pm_samples P r' = pm_samples P r
        \<and> (\<forall>n ks. n \<noteq> vec_name v \<or> ks \<noteq> ls \<longrightarrow> pm_gauge P r' n ks = pm_gauge P r n ks))"
    unfolding with_laws_def by simp
  with assms(2) that show thesis by blast
qed

lemma with_inc_ok:
  assumes "prom_laws P" "labels_ok P v ls"
  obtains r' where "with_inc P v ls r = Returns r'" "pm_samples P r' = pm_samples P r"
    "\<And>n ks. pm_counter P r' n ks
       = (if n = vec_name v \<and> ks = ls then Suc (pm_counter P r n ks) else pm_counter P r n ks)"
proof -
  obtain r1 where "pm_with P v ls r = Returns r1" "pm_counter P r1 = pm_counter P r"
      "pm_samples P r1 = pm_samples P r"
    using with_ok [OF assms] by blast
  then show thesis using assms(1) that [of "pm_inc P v ls r1"]
    by (simp add: with_inc_def prom_laws_def update_laws_def)
qed

lemma with_observe_ok:
  assumes "prom_laws P" "labels_ok P v ls"
  obtains r' where "with_observe P v ls x r = Returns r'" "pm_counter P r' = pm_counter P r"
    "\<And>n ks. pm_samples P r' n ks
       = (if n = vec_name v \<and> ks = ls then pm_samples P r n ks @ [x] else pm_samples P r n ks)"
proof -
  obtain r1 where "pm_with P v ls r = Returns r1" "pm_counter P r1 = pm_counter P r"
      "pm_samples P r1 = pm_samples P r"
    using with_ok [OF assms] by blast
  then show thesis using assms(1) that [of "pm_observe P v ls x r1"]
    by (simp add: with_observe_def prom_laws_def update_laws_def)
qed

lemma with_set_ok:
  assumes "prom_laws P" "labels_ok P v ls"
  obtains r' where "with_set P v ls x r = Returns r'" "pm_counter P r' = pm_counter P r"
    "pm_samples P r' = pm_samples P r"
    "\<And>n ks. pm_gauge P r' n ks = (if n = vec_name v \<and> ks = ls then Some x else pm_gauge P r n ks)"
proof -
  obtain r1 where "pm_with P v ls r = Returns r1" "pm_counter P r1 = pm_counter P r"
      "pm_samples P r1 = pm_samples P r"
      "\<And>n ks. n \<noteq> vec_name v \<or> ks \<noteq> ls \<Longrightarrow> pm_gauge P r1 n ks = pm_gauge P r n ks"
    using with_ok [OF assms] by blast
  then show thesis using assms(1) that [of "pm_set P v ls x r1"]
    by (simp add: with_set_def prom_laws_def update_laws_def)
qed

lemma with_returns:
  assumes "prom_laws P" "labels_ok P v ls"
  shows "\<exists>r'. with_inc P v ls r = Returns r'" "\<exists>r'. with_set P v ls x r = Returns r'"
    "\<exists>r'. with_observe P v ls x r = Returns r'"
  by (rule with_ok [OF assms, of r]; simp add: with_inc_def with_set_def with_observe_def)+

lemma with_inc_panics: "prom_laws P \<Longrightarrow> \<not> labels_ok P v ls \<Longrightarrow> with_inc P v ls r = Panics"
  by (simp add: with_inc_def prom_laws_def with_laws_def)

text \<open>
  One function never returns: \<open>RecordTransactionProcessing\<close> gives the two labels of its counter a
  single value. All the others return for labels in valid UTF-8.
\<close>

lemma tx_recording_panics: "prom_laws P \<Longrightarrow> RecordTransactionProcessing P chainID r = Panics"
  by (simp add: RecordTransactionProcessing_def with_inc_panics labels_ok_def TransactionsProcessed_def)

lemma recorders_return:
  assumes "prom_laws P" "pm_valid P a" "pm_valid P b" "pm_valid P c"
  shows
    "\<exists>r'. RecordBlockScanned P a r = Returns r'"
    "\<exists>r'. RecordTransactionProcessed P a b r = Returns r'"
    "\<exists>r'. RecordLogProcessed P a r = Returns r'"
    "\<exists>r'. RecordScanDuration P a x r = Returns r'"
    "\<exists>r'. RecordParseDuration P a x r = Returns r'"
    "\<exists>r'. RecordScanError P a b r = Returns r'"
    "\<exists>r'. RecordParseError P a b r = Returns r'"
    "\<exists>r'. SetQueueDepth P a b x r = Returns r'"
    "\<exists>r'. SetCurrentHeight P a x r = Returns r'"
    "\<exists>r'. SetScannedHeight P a x r = Returns r'"
    "\<exists>r'. SetBlockLag P a x r = Returns r'"
    "\<exists>r'. SetNodeHealthStatus P a b x r = Returns r'"
    "\<exists>r'. RecordNodeResponseTime P a b x r = Returns r'"
    "\<exists>r'. RecordReorgEventDetected P a r = Returns r'"
    "\<exists>r'. RecordReorgEventProcessed P a r = Returns r'"
    "\<exists>r'. RecordReorgDepth P a x r = Returns r'"
    "\<exists>r'. SetActiveWorkers P a x r = Returns r'"
    "\<exists>r'. SetPendingTasks P a x r = Returns r'"
    "\<exists>r'. RecordStorageOperation P a b r = Returns r'"
    "\<exists>r'. RecordStorageOperationDuration P a x r = Returns r'"
    "\<exists>r'. RecordMessageQueueOperation P a b c r = Returns r'"
    "\<exists>r'. RecordMessageQueueOperationDuration P a b x r = Returns r'"
    "\<exists>r'. RecordConsumerStatus P a b r = Returns r'"
    "\<exists>r'. RecordConsumerLag P a x r = Returns r'"
    "\<exists>r'. RecordLogProcessing P a r = Returns r'"
    "\<exists>r'. RecordReorgProcessing P a r = Returns r'"
  using assms by (simp_all add: recorder_defs with_returns labels_ok_def vec_defs)

text \<open>
  A reset clears every vector of its list, and the list leaves out the two of the consumer, whose
  readings survive.
\<close>

lemma fold_reset:
  assumes "prom_laws P"
  shows "pm_counter P (fold (pm_reset P) vs r) n ks
       = (if n \<in> vec_name ` set vs then 0 else pm_counter P r n ks)"
    "pm_gauge P (fold (pm_reset P) vs r) n ks
       = (if n \<in> vec_name ` set vs then None else pm_gauge P r n ks)"
    "pm_samples P (fold (pm_reset P) vs r) n ks
       = (if n \<in> vec_name ` set vs then [] else pm_samples P r n ks)"
  using assms by (induction vs arbitrary: r) (auto simp: prom_laws_def reset_laws_def)

lemma reset_names:
  "vec_name ` set all_vecs - vec_name ` set reset_vecs = {vec_name ConsumerStatus, vec_name ConsumerLag}"
  by (simp add: all_vecs_def reset_vecs_def vec_defs)

theorem ResetMetrics_spares_consumer:
  assumes "prom_laws P" "v \<in> set all_vecs"
  shows "pm_counter P (ResetMetrics P r) (vec_name v) ks
    = (if vec_name v \<in> {vec_name ConsumerStatus, vec_name ConsumerLag} then pm_counter P r (vec_name v) ks else 0)"
proof -
  have "vec_name v \<in> vec_name ` set reset_vecs \<longleftrightarrow> vec_name v \<notin> {vec_name ConsumerStatus, vec_name ConsumerLag}"
    unfolding reset_names [symmetric] using assms(2) by blast
  then show ?thesis unfolding ResetMetrics_def fold_reset [OF assms(1)] by auto
qed

section \<open>A registry\<close>

text \<open>A registry that keeps what was recorded, with labels of ASCII characters: the laws can hold.\<close>

record 'f mem_registry =
  mr_counters :: "string \<Rightarrow> string list \<Rightarrow> nat"
  mr_gauges :: "string \<Rightarrow> string list \<Rightarrow> 'f option"
  mr_samples :: "string \<Rightarrow> string list \<Rightarrow> 'f list"

definition put :: "('a \<Rightarrow> 'b \<Rightarrow> 'c) \<Rightarrow> 'a \<Rightarrow> 'b \<Rightarrow> 'c \<Rightarrow> 'a \<Rightarrow> 'b \<Rightarrow> 'c" where
  "put m n ls x = m(n := (m n)(ls := x))"

definition ascii :: "string \<Rightarrow> bool" where
  "ascii s \<longleftrightarrow> list_all (\<lambda>c. (of_char c :: nat) < 128) s"

definition mem_prom :: "('f mem_registry, 'f) prometheus" where
  "mem_prom = \<lparr>pm_valid = ascii,
     pm_with = (\<lambda>v ls r. if length ls = length (vec_labels v) \<and> list_all ascii ls then Returns r else Panics),
     pm_inc = (\<lambda>v ls r. r\<lparr>mr_counters := put (mr_counters r) (vec_name v) ls (Suc (mr_counters r (vec_name v) ls))\<rparr>),
     pm_set = (\<lambda>v ls x r. r\<lparr>mr_gauges := put (mr_gauges r) (vec_name v) ls (Some x)\<rparr>),
     pm_observe = (\<lambda>v ls x r. r\<lparr>mr_samples := put (mr_samples r) (vec_name v) ls (mr_samples r (vec_name v) ls @ [x])\<rparr>),
     pm_reset = (\<lambda>v r. r\<lparr>mr_counters := (mr_counters r)(vec_name v := (\<lambda>_. 0)),
       mr_gauges := (mr_gauges r)(vec_name v := (\<lambda>_. None)), mr_samples := (mr_samples r)(vec_name v := (\<lambda>_. []))\<rparr>),
     pm_counter = mr_counters, pm_gauge = mr_gauges, pm_samples = mr_samples\<rparr>"

definition empty_registry :: "'f mem_registry" where
  "empty_registry = \<lparr>mr_counters = (\<lambda>_ _. 0), mr_gauges = (\<lambda>_ _. None), mr_samples = (\<lambda>_ _. [])\<rparr>"

lemma mem_prom_laws: "prom_laws mem_prom"
  unfolding prom_laws_def with_laws_def update_laws_def reset_laws_def labels_ok_def
  by (simp add: mem_prom_def put_def)

theorem ResetMetrics_spares_consumer_witness:
  "pm_counter mem_prom (ResetMetrics mem_prom (pm_inc mem_prom ConsumerStatus [''g'', ''running''] empty_registry))
     (vec_name ConsumerStatus) [''g'', ''running''] = 1"
proof -
  have "ConsumerStatus \<in> set all_vecs" by (simp add: all_vecs_def)
  show ?thesis
    unfolding ResetMetrics_spares_consumer [OF mem_prom_laws \<open>ConsumerStatus \<in> set all_vecs\<close>]
    by (simp add: mem_prom_def put_def empty_registry_def)
qed

end
