(* ===== verification/BlockLoops.thy ===== *)
theory BlockLoops
  imports Prelude
begin

text \<open>
  The loop \<open>for n := fromBlock; n <= toBlock; n++\<close> over \<open>uint64\<close>, which several components run with
  different bodies. It never ends when \<open>toBlock\<close> is the largest \<open>uint64\<close>, so its result is an option;
  otherwise it runs the body on the blocks of the range in order.
\<close>

partial_function (option) block_loop :: "(u64 \<Rightarrow> 's \<Rightarrow> 's) \<Rightarrow> u64 \<Rightarrow> u64 \<Rightarrow> 's \<Rightarrow> 's option" where
  "block_loop f n toBlock s = (if n \<le> toBlock then block_loop f (n + 1) toBlock (f n s) else Some s)"

lemma block_loop_done [simp]: "toBlock < n \<Longrightarrow> block_loop f n toBlock s = Some s"
  by (subst block_loop.simps) (auto dest: leD)

lemma block_loop_fold:
  "toBlock \<noteq> max_u64 \<Longrightarrow> block_loop f n toBlock s = Some (fold f (blocks_of n toBlock) s)"
proof (induction "Suc (unat toBlock) - unat n" arbitrary: n s)
  case 0
  then have "toBlock < n" by (simp add: word_less_nat_alt)
  then show ?case by (simp add: blocks_of_empty)
next
  case (Suc k)
  then have le: "n \<le> toBlock" by (simp add: word_le_nat_alt)
  with Suc.prems have n: "n \<noteq> max_u64" by (metis word_order.extremum_unique)
  have "k = Suc (unat toBlock) - unat (n + 1)" using Suc.hyps(2) n by (simp add: unat_Suc_u64)
  from Suc.hyps(1) [OF this Suc.prems] le show ?case
    by (subst block_loop.simps) (simp add: blocks_of_Cons n)
qed

lemma block_loop_Some:
  assumes "block_loop f n toBlock s = Some s'"
  shows "toBlock \<noteq> max_u64"
  by (rule block_loop.raw_induct [where P = "\<lambda>f n toBlock s y. toBlock \<noteq> max_u64", OF _ assms])
    (force split: if_splits)

lemma block_loop_iff:
  "block_loop f n toBlock s = Some s'
    \<longleftrightarrow> toBlock \<noteq> max_u64 \<and> s' = fold f (blocks_of n toBlock) s"
  using block_loop_Some [of f n toBlock s s'] block_loop_fold [of toBlock f n s] by auto

lemma block_loop_max: "block_loop f n max_u64 s = None"
  using block_loop_Some [of f n max_u64 s] by (cases "block_loop f n max_u64 s") auto

text \<open>What every step keeps, the loop keeps.\<close>

lemma fold_keeps: "(\<And>x s. I s \<Longrightarrow> I (f x s)) \<Longrightarrow> I s \<Longrightarrow> I (fold f xs s)"
  by (induction xs arbitrary: s) auto

end
