(* ===== verification/ConsumerReorg.thy ===== *)
theory ConsumerReorg
  imports StateMachine BlockLoops
begin

text \<open>
  \<open>internal/consumer/reorg_handler.go\<close>: how the consumer undoes a reorganisation, in the default
  handler and in the one with a configuration, over any \<open>Storage\<close>. The state is the set of keys of
  the events being processed (the map \<open>processing\<close>) and the state of the storage; the event is passed
  by pointer, so a call also returns it. A call that never ends is \<open>None\<close>.
\<close>

type_synonym 's reorg_state = "string set \<times> 's"

definition event_key :: "reorg_event \<Rightarrow> string" where
  "event_key ev = re_chain_id ev @ ''-'' @ fmt_u64 (re_old_block_number ev) @ ''-''
     @ fmt_u64 (re_new_block_number ev)"

section \<open>The steps\<close>

definition validateReorgEvent :: "'s storage \<Rightarrow> reorg_event \<Rightarrow> 's \<Rightarrow> go_error option" where
  "validateReorgEvent S ev s =
     (if re_depth ev = 0 then Some (Msg (''invalid reorg depth: '' @ fmt_u64 (re_depth ev)))
      else if re_depth ev > 1000 then Some (Msg (''reorg depth too large: '' @ fmt_u64 (re_depth ev)))
      else if re_old_block_hash ev = '''' \<or> re_new_block_hash ev = '''' then Some (Msg ''invalid block hash'')
      else case st_GetBlockByHash S (re_chain_id ev) (re_new_block_hash ev) s of
             Inl e \<Rightarrow> Some (Wrap ''failed to get new block'' e)
           | Inr newBlock \<Rightarrow>
               if blk_number newBlock \<noteq> re_new_block_number ev
               then Some (Msg (''new block number mismatch: expected '' @ fmt_u64 (re_new_block_number ev)
                            @ '', got '' @ fmt_u64 (blk_number newBlock)))
               else None)"

text \<open>The status of every transaction of a block is forced; errors are only logged.\<close>

definition force_block :: "'s storage \<Rightarrow> string \<Rightarrow> u64 \<Rightarrow> 's \<Rightarrow> 's" where
  "force_block S chainID n s =
     (case st_GetTransactionsByBlock S chainID n s of
        Inl e \<Rightarrow> s
      | Inr txs \<Rightarrow> fold (\<lambda>t s. snd (ForceSetState S chainID (tx_hash t) TxReverted s)) txs s)"

definition markTransactionsAsReverted ::
    "'s storage \<Rightarrow> reorg_event \<Rightarrow> 's \<Rightarrow> (go_error option \<times> 's) option" where
  "markTransactionsAsReverted S ev s =
     (let fromBlock = re_new_block_number ev; toBlock = re_old_block_number ev in
      case st_MarkTransactionsAsReverted S (re_chain_id ev) fromBlock toBlock s of
        (Some e, s') \<Rightarrow> Some (Some (Wrap ''failed to mark transactions as reverted'' e), s')
      | (None, s') \<Rightarrow>
          map_option (\<lambda>s''. (None, s'')) (block_loop (force_block S (re_chain_id ev)) fromBlock toBlock s'))"

text \<open>\<open>revertTransactionBusinessData\<close> only logs and returns no error.\<close>

definition revertTransactionBusinessData :: "transaction \<Rightarrow> go_error option" where
  "revertTransactionBusinessData t = None"

definition revertBusinessData ::
    "'s storage \<Rightarrow> reorg_event \<Rightarrow> 's \<Rightarrow> (go_error option \<times> 's) option" where
  "revertBusinessData S ev s =
     map_option (\<lambda>s'. (None, s'))
       (block_loop (\<lambda>n s. case st_GetTransactionsByBlock S (re_chain_id ev) n s of
            Inl e \<Rightarrow> s
          | Inr txs \<Rightarrow> fold (\<lambda>t s. case revertTransactionBusinessData t of _ \<Rightarrow> s) txs s)
         (re_new_block_number ev) (re_old_block_number ev) s)"

definition cleanupReorgData ::
    "'s storage \<Rightarrow> reorg_event \<Rightarrow> 's \<Rightarrow> (go_error option \<times> 's) option" where
  "cleanupReorgData S ev s =
     (let fromBlock = re_new_block_number ev; toBlock = re_old_block_number ev in
      case st_DeleteBlocks S (re_chain_id ev) fromBlock toBlock s of
        None \<Rightarrow> None
      | Some (Some e, s') \<Rightarrow> Some (Some (Wrap ''failed to delete blocks'' e), s')
      | Some (None, s') \<Rightarrow>
          (case st_DeleteLogs S (re_chain_id ev) fromBlock toBlock s' of
             (e, s'') \<Rightarrow> Some (wrap_err ''failed to delete logs'' e, s'')))"

definition markReorgEventAsProcessed ::
    "'s storage \<Rightarrow> reorg_event \<Rightarrow> 's \<Rightarrow> go_error option \<times> reorg_event \<times> 's" where
  "markReorgEventAsProcessed S ev s =
     (let ev' = ev\<lparr>re_processed := True\<rparr> in
      case st_SaveReorgEvent S ev' s of (e, s') \<Rightarrow> (wrap_err ''failed to save reorg event'' e, ev', s'))"

section \<open>The handlers\<close>

text \<open>A step that may fail or never end, followed by the rest when it did neither.\<close>

definition step_then ::
    "string \<Rightarrow> reorg_event \<Rightarrow> (go_error option \<times> 's) option
      \<Rightarrow> ('s \<Rightarrow> (go_error option \<times> reorg_event \<times> 's) option)
      \<Rightarrow> (go_error option \<times> reorg_event \<times> 's) option" where
  "step_then msg ev r k =
     (case r of
        None \<Rightarrow> None
      | Some (Some e, s) \<Rightarrow> Some (Some (Wrap msg e), ev, s)
      | Some (None, s) \<Rightarrow> k s)"

definition reorg_body ::
    "'s storage \<Rightarrow> reorg_event \<Rightarrow> 's \<Rightarrow> (go_error option \<times> reorg_event \<times> 's) option" where
  "reorg_body S ev s =
     step_then ''failed to validate reorg event'' ev (Some (validateReorgEvent S ev s, s)) (\<lambda>s.
     step_then ''failed to mark transactions as reverted'' ev (markTransactionsAsReverted S ev s) (\<lambda>s.
     step_then ''failed to revert business data'' ev (revertBusinessData S ev s) (\<lambda>s.
     step_then ''failed to cleanup reorg data'' ev (cleanupReorgData S ev s) (\<lambda>s.
       case markReorgEventAsProcessed S ev s of
         (e, ev', s') \<Rightarrow> Some (wrap_err ''failed to mark reorg event as processed'' e, ev', s')))))"

text \<open>
  The guard at the start and the deferred release of the event's key. While the call runs, the key
  is in the set, so that other calls for the event are refused; \<open>P\<close> is the set as this call finds it.
\<close>

definition guarded ::
    "reorg_event \<Rightarrow> ('s \<Rightarrow> (go_error option \<times> reorg_event \<times> 's) option) \<Rightarrow> 's reorg_state
      \<Rightarrow> (go_error option \<times> reorg_event \<times> 's reorg_state) option" where
  "guarded ev body ps =
     (let (P, s) = ps in
      if event_key ev \<in> P
      then Some (Some (Msg (''reorg event is already being processed: '' @ event_key ev)), ev, P, s)
      else let P' = insert (event_key ev) P in
           map_option (\<lambda>(e, ev', s'). (e, ev', P' - {event_key ev}, s')) (body s))"

definition consumer_HandleReorg ::
    "'s storage \<Rightarrow> reorg_event \<Rightarrow> 's reorg_state \<Rightarrow> (go_error option \<times> reorg_event \<times> 's reorg_state) option" where
  "consumer_HandleReorg S ev = guarded ev (reorg_body S ev)"

record reorg_handler_config =
  rhc_max_allowed_depth :: u64
  rhc_reorg_timeout :: int
  rhc_enable_business_data_reversion :: bool
  rhc_enable_data_cleanup :: bool
  rhc_reorg_event_retention_time :: int

definition default_reorg_config :: reorg_handler_config where
  "default_reorg_config =
     \<lparr>rhc_max_allowed_depth = 1000, rhc_reorg_timeout = 30 * 60 * 10 ^ 9,
      rhc_enable_business_data_reversion = True, rhc_enable_data_cleanup = True,
      rhc_reorg_event_retention_time = 7 * 24 * 3600 * 10 ^ 9\<rparr>"

definition NewAdvancedReorgHandler :: "reorg_handler_config option \<Rightarrow> reorg_handler_config" where
  "NewAdvancedReorgHandler cfg = (case cfg of None \<Rightarrow> default_reorg_config | Some c \<Rightarrow> c)"

definition advanced_validateReorgEvent ::
    "'s storage \<Rightarrow> reorg_handler_config \<Rightarrow> reorg_event \<Rightarrow> 's \<Rightarrow> go_error option" where
  "advanced_validateReorgEvent S cfg ev s =
     (if re_depth ev > rhc_max_allowed_depth cfg
      then Some (Msg (''reorg depth '' @ fmt_u64 (re_depth ev) @ '' exceeds maximum allowed ''
                   @ fmt_u64 (rhc_max_allowed_depth cfg)))
      else validateReorgEvent S ev s)"

text \<open>The time limit is the context's: a storage that is asked after it reports an error.\<close>

definition handleReorgWithTimeout ::
    "'s storage \<Rightarrow> reorg_handler_config \<Rightarrow> reorg_event \<Rightarrow> 's \<Rightarrow> (go_error option \<times> reorg_event \<times> 's) option" where
  "handleReorgWithTimeout S cfg ev s =
     step_then ''failed to validate reorg event'' ev (Some (advanced_validateReorgEvent S cfg ev s, s)) (\<lambda>s.
     step_then ''failed to mark transactions as reverted'' ev (markTransactionsAsReverted S ev s) (\<lambda>s.
     step_then ''failed to revert business data'' ev
       (if rhc_enable_business_data_reversion cfg then revertBusinessData S ev s else Some (None, s)) (\<lambda>s.
     step_then ''failed to cleanup reorg data'' ev
       (if rhc_enable_data_cleanup cfg then cleanupReorgData S ev s else Some (None, s)) (\<lambda>s.
       case markReorgEventAsProcessed S ev s of
         (e, ev', s') \<Rightarrow> Some (wrap_err ''failed to mark reorg event as processed'' e, ev', s')))))"

definition advanced_HandleReorg ::
    "'s storage \<Rightarrow> reorg_handler_config \<Rightarrow> reorg_event \<Rightarrow> 's reorg_state
      \<Rightarrow> (go_error option \<times> reorg_event \<times> 's reorg_state) option" where
  "advanced_HandleReorg S cfg ev =
     guarded ev (\<lambda>s. map_option (\<lambda>(e, r). (wrap_err ''failed to handle reorg'' e, r))
       (handleReorgWithTimeout S cfg ev s))"

section \<open>The statistics\<close>

text \<open>\<open>AverageDepth\<close> is a quotient of two floats: its numerator and denominator.\<close>

record reorg_statistics =
  rst_chain_id :: string
  rst_total_count :: nat
  rst_max_depth :: u64
  rst_average_depth :: "u64 \<times> nat"
  rst_last_reorg_time :: "int option"
  rst_last_reorg_depth :: u64

definition GetReorgHistory :: "'s storage \<Rightarrow> string \<Rightarrow> int \<Rightarrow> 's \<Rightarrow> go_error + reorg_event list" where
  "GetReorgHistory S chainID limit s =
     wrap_res ''failed to get reorg events'' (st_GetReorgEvents S chainID limit 0 s)"

definition depth_step :: "reorg_event \<Rightarrow> u64 \<times> u64 \<Rightarrow> u64 \<times> u64" where
  "depth_step ev = (\<lambda>(m, t). (if re_depth ev > m then re_depth ev else m, t + re_depth ev))"

definition GetReorgStatistics :: "'s storage \<Rightarrow> string \<Rightarrow> 's \<Rightarrow> go_error + reorg_statistics" where
  "GetReorgStatistics S chainID s =
     (case GetReorgHistory S chainID 100 s of
        Inl e \<Rightarrow> Inl (Wrap ''failed to get reorg history'' e)
      | Inr events \<Rightarrow>
          (let stats = \<lparr>rst_chain_id = chainID, rst_total_count = length events, rst_max_depth = 0,
                        rst_average_depth = (0, 1), rst_last_reorg_time = None, rst_last_reorg_depth = 0\<rparr> in
           case events of
             [] \<Rightarrow> Inr stats
           | ev # _ \<Rightarrow>
               (let (m, total) = fold depth_step events (0, 0) in
                Inr (stats\<lparr>rst_max_depth := m, rst_average_depth := (total, length events),
                           rst_last_reorg_time := Some (re_detected_at ev),
                           rst_last_reorg_depth := re_depth ev\<rparr>))))"

section \<open>The guard\<close>

lemma guarded_busy: "event_key ev \<in> P \<Longrightarrow> guarded ev body (P, s)
    = Some (Some (Msg (''reorg event is already being processed: '' @ event_key ev)), ev, P, s)"
  by (simp add: guarded_def)

lemma guarded_free: "event_key ev \<notin> P \<Longrightarrow> guarded ev body (P, s)
    = map_option (\<lambda>(e, ev', s'). (e, ev', P, s')) (body s)"
  by (simp add: guarded_def)

lemma guarded_keeps: "guarded ev body (P, s) = Some (e, ev', P', s') \<Longrightarrow> P' = P"
  by (cases "event_key ev \<in> P") (auto simp: guarded_busy guarded_free)

text \<open>
  An event is handled at most once at a time: a call for an event that is being processed is
  refused and touches neither the storage nor the event, in both handlers, and every call that
  returns leaves the set of events being processed as it found it, whatever failed on the way.
\<close>

theorem consumer_HandleReorg_guard:
  "(event_key ev \<in> P \<longrightarrow>
      consumer_HandleReorg S ev (P, s)
        = Some (Some (Msg (''reorg event is already being processed: '' @ event_key ev)), ev, P, s)
      \<and> advanced_HandleReorg S cfg ev (P, s)
        = Some (Some (Msg (''reorg event is already being processed: '' @ event_key ev)), ev, P, s))
    \<and> (consumer_HandleReorg S ev (P, s) = Some (e, ev', P', s') \<longrightarrow> P' = P)
    \<and> (advanced_HandleReorg S cfg ev (P, s) = Some (e, ev', P', s') \<longrightarrow> P' = P)"
  unfolding consumer_HandleReorg_def advanced_HandleReorg_def
  by (auto simp: guarded_busy dest: guarded_keeps)

definition mk_reorg :: "u64 \<Rightarrow> u64 \<Rightarrow> u64 \<Rightarrow> reorg_event" where
  "mk_reorg new old depth =
     \<lparr>re_chain_id = ''eth'', re_detected_at = 0, re_old_block_number = old, re_old_block_hash = ''a'',
      re_new_block_number = new, re_new_block_hash = ''h'', re_depth = depth, re_affected_txs = [],
      re_processed = False\<rparr>"

theorem consumer_HandleReorg_guard_witness:
  "consumer_HandleReorg redis_storage (mk_reorg 5 7 2) ({event_key (mk_reorg 5 7 2)}, redis_one)
    = Some (Some (Msg (''reorg event is already being processed: '' @ event_key (mk_reorg 5 7 2))),
        mk_reorg 5 7 2, {event_key (mk_reorg 5 7 2)}, redis_one)"
  using consumer_HandleReorg_guard [of "mk_reorg 5 7 2" "{event_key (mk_reorg 5 7 2)}" redis_storage redis_one] by simp

section \<open>What a call returns\<close>

lemma step_then_Some:
  "step_then m ev r k = Some x \<longleftrightarrow>
     (\<exists>e s. r = Some (Some e, s) \<and> x = (Some (Wrap m e), ev, s)) \<or> (\<exists>s. r = Some (None, s) \<and> k s = Some x)"
  by (auto simp: step_then_def split: option.splits)

lemma step_then_None:
  "step_then m ev r k = None \<longleftrightarrow> r = None \<or> (\<exists>s. r = Some (None, s) \<and> k s = None)"
  by (auto simp: step_then_def split: option.splits)

lemma step_then_ok: "step_then m ev (Some (None, s)) k = k s"
  by (simp add: step_then_def)

lemma block_loop_None: "block_loop f n toBlock s = None \<longleftrightarrow> toBlock = max_u64"
  using block_loop_max block_loop_fold [of toBlock f n s] by (cases "toBlock = max_u64") auto

lemma revertBusinessData_eq:
  "revertBusinessData S ev s = (if re_old_block_number ev = max_u64 then None else Some (None, s))"
proof -
  have "fold (\<lambda>t s. case revertTransactionBusinessData t of _ \<Rightarrow> s) txs s = s" for txs s
    by (induction txs) (auto split: option.split)
  then have "(\<lambda>n s. case st_GetTransactionsByBlock S (re_chain_id ev) n s of Inl e \<Rightarrow> s
      | Inr txs \<Rightarrow> fold (\<lambda>t s. case revertTransactionBusinessData t of _ \<Rightarrow> s) txs s) = (\<lambda>n s. s)"
    by (auto intro!: ext split: sum.split)
  moreover have "fold (\<lambda>n s. s) ns s = s" for ns :: "u64 list" by (induction ns) auto
  ultimately show ?thesis
    by (auto simp: revertBusinessData_def block_loop_None block_loop_iff)
qed

lemma mark_None:
  "markTransactionsAsReverted S ev s = None \<longleftrightarrow>
     fst (st_MarkTransactionsAsReverted S (re_chain_id ev) (re_new_block_number ev) (re_old_block_number ev) s) = None
     \<and> re_old_block_number ev = max_u64"
  by (auto simp: markTransactionsAsReverted_def block_loop_None Let_def split: prod.split option.split)

lemma mark_Some: "markTransactionsAsReverted S ev s = Some (None, s') \<Longrightarrow> re_old_block_number ev \<noteq> max_u64"
  by (auto simp: markTransactionsAsReverted_def block_loop_iff Let_def split: prod.split_asm option.split_asm)

lemma cleanup_None:
  "cleanupReorgData S ev s = None \<longleftrightarrow>
     st_DeleteBlocks S (re_chain_id ev) (re_new_block_number ev) (re_old_block_number ev) s = None"
  by (auto simp: cleanupReorgData_def Let_def split: prod.split option.split)

lemma reorg_body_None:
  "reorg_body S ev s = None \<longleftrightarrow> validateReorgEvent S ev s = None
     \<and> (markTransactionsAsReverted S ev s = None
        \<or> (\<exists>s1. markTransactionsAsReverted S ev s = Some (None, s1) \<and> cleanupReorgData S ev s1 = None))"
  by (auto simp: reorg_body_def step_then_None revertBusinessData_eq case_prod_beta dest: mark_Some)

lemma db_cleanup_returns: "cleanupReorgData db_storage ev s \<noteq> None"
  by (simp add: cleanup_None db_storage_def)

lemma db_storage_Mark: "st_MarkTransactionsAsReverted db_storage = db_MarkTransactionsAsReverted"
  by (simp add: db_storage_def)

text \<open>
  C38: A call over the relational storage fails to return in exactly one case: the event is not being
  processed, it passes the validation, the status update of the range succeeds, and the old block
  number is the largest \<open>uint64\<close>, so that the loop over the range never ends.
\<close>

theorem consumer_HandleReorg_returns:
  "consumer_HandleReorg db_storage ev (P, s) = None \<longleftrightarrow>
     event_key ev \<notin> P \<and> validateReorgEvent db_storage ev s = None
     \<and> fst (db_MarkTransactionsAsReverted (re_chain_id ev) (re_new_block_number ev) (re_old_block_number ev) s) = None
     \<and> re_old_block_number ev = max_u64"
  by (cases "event_key ev \<in> P")
    (simp_all add: consumer_HandleReorg_def guarded_busy guarded_free reorg_body_None db_cleanup_returns
      mark_None db_storage_Mark)

section \<open>What a call does to the stored blocks\<close>

text \<open>
  A statement on one table leaves the rows of the others as they are, a fact about a database that the
  laws of the tables do not state.
\<close>

definition gorm_frame :: "'d gorm \<Rightarrow> bool" where
  "gorm_frame G \<longleftrightarrow>
     (\<forall>P f d e d'. gt_update (gm_txs G) P f d = (e, d') \<longrightarrow> gt_rows (gm_blocks G) d' = gt_rows (gm_blocks G) d)
   \<and> (\<forall>P d e d'. gt_delete (gm_logs G) P d = (e, d') \<longrightarrow> gt_rows (gm_blocks G) d' = gt_rows (gm_blocks G) d)
   \<and> (\<forall>m d e d'. gt_create (gm_reorgs G) m d = (e, d') \<longrightarrow> gt_rows (gm_blocks G) d' = gt_rows (gm_blocks G) d)"

definition block_rows :: "'d db_state \<Rightarrow> block_row list" where
  "block_rows s = gt_rows (gm_blocks (fst s)) (snd s)"

definition in_range :: "reorg_event \<Rightarrow> block_row \<Rightarrow> bool" where
  "in_range ev r \<longleftrightarrow> br_chain_id r = re_chain_id ev
     \<and> re_new_block_number ev \<le> br_block_number r \<and> br_block_number r \<le> re_old_block_number ev"

lemma db_UpdateTransactionStatus_blocks:
  assumes "gorm_frame (fst s)" "db_UpdateTransactionStatus c h st s = (e, s')"
  shows "fst s' = fst s \<and> block_rows s' = block_rows s"
proof -
  obtain P f e0 d' where u: "gt_update (gm_txs (fst s)) P f (snd s) = (e0, d')" "s' = (fst s, d')"
    using assms(2) by (auto simp: db_UpdateTransactionStatus_def on_db_def Let_def split: prod.splits)
  then have "gt_rows (gm_blocks (fst s)) d' = gt_rows (gm_blocks (fst s)) (snd s)"
    using assms(1) unfolding gorm_frame_def by blast
  with u(2) show ?thesis by (simp add: block_rows_def)
qed

lemma db_Mark_blocks:
  assumes "gorm_frame (fst s)" "db_MarkTransactionsAsReverted c lo hi s = (e, s')"
  shows "fst s' = fst s \<and> block_rows s' = block_rows s"
proof -
  obtain P f e0 d' where u: "gt_update (gm_txs (fst s)) P f (snd s) = (e0, d')" "s' = (fst s, d')"
    using assms(2) by (auto simp: db_MarkTransactionsAsReverted_def on_db_def Let_def split: prod.splits)
  then have "gt_rows (gm_blocks (fst s)) d' = gt_rows (gm_blocks (fst s)) (snd s)"
    using assms(1) unfolding gorm_frame_def by blast
  with u(2) show ?thesis by (simp add: block_rows_def)
qed

lemma db_DeleteLogs_blocks:
  assumes "gorm_frame (fst s)" "db_DeleteLogs c lo hi s = (e, s')"
  shows "fst s' = fst s \<and> block_rows s' = block_rows s"
proof -
  obtain P e0 d' where u: "gt_delete (gm_logs (fst s)) P (snd s) = (e0, d')" "s' = (fst s, d')"
    using assms(2) by (auto simp: db_DeleteLogs_def on_db_def Let_def split: prod.splits)
  then have "gt_rows (gm_blocks (fst s)) d' = gt_rows (gm_blocks (fst s)) (snd s)"
    using assms(1) unfolding gorm_frame_def by blast
  with u(2) show ?thesis by (simp add: block_rows_def)
qed

lemma db_SaveReorgEvent_blocks:
  assumes "gorm_frame (fst s)" "db_SaveReorgEvent ev s = (e, s')"
  shows "fst s' = fst s \<and> block_rows s' = block_rows s"
proof -
  obtain m e0 d' where u: "gt_create (gm_reorgs (fst s)) m (snd s) = (e0, d')" "s' = (fst s, d')"
    using assms(2) by (auto simp: db_SaveReorgEvent_def on_db_def Let_def split: prod.splits)
  then have "gt_rows (gm_blocks (fst s)) d' = gt_rows (gm_blocks (fst s)) (snd s)"
    using assms(1) unfolding gorm_frame_def by blast
  with u(2) show ?thesis by (simp add: block_rows_def)
qed

lemma db_DeleteBlocks_blocks:
  assumes "gorm_laws (fst s)" "db_DeleteBlocks c lo hi s = (None, s')"
  shows "fst s' = fst s \<and> block_rows s'
    = filter (\<lambda>r. \<not> (br_chain_id r = c \<and> br_block_number r \<ge> lo \<and> br_block_number r \<le> hi)) (block_rows s)"
proof -
  let ?D = "\<lambda>r. br_chain_id r = c \<and> br_block_number r \<ge> lo \<and> br_block_number r \<le> hi"
  obtain d' where u: "gt_delete (gm_blocks (fst s)) ?D (snd s) = (None, d')" "s' = (fst s, d')"
    using assms(2) by (auto simp: db_DeleteBlocks_def on_db_def Let_def split: prod.splits)
  have "gtable_laws assign_block (gm_blocks (fst s))" using assms(1) by (simp add: gorm_laws_def)
  from gt_delete_law [OF this u(1)] u(2) show ?thesis by (simp add: block_rows_def)
qed

lemma db_force_block:
  assumes "gorm_frame (fst s)"
  shows "fst (force_block db_storage c n s) = fst s \<and> block_rows (force_block db_storage c n s) = block_rows s"
proof (cases "st_GetTransactionsByBlock db_storage c n s")
  case (Inr txs)
  let ?f = "\<lambda>t s. snd (ForceSetState db_storage c (tx_hash t) TxReverted s)"
  have "fst (fold ?f txs s) = fst s \<and> block_rows (fold ?f txs s) = block_rows s"
  proof (rule fold_keeps [where I = "\<lambda>s1. fst s1 = fst s \<and> block_rows s1 = block_rows s"])
    fix t s1 assume s1: "fst s1 = fst s \<and> block_rows s1 = block_rows s"
    obtain e s2 where u: "db_UpdateTransactionStatus c (tx_hash t) TxReverted s1 = (e, s2)" by (rule prod.exhaust)
    have "fst s2 = fst s1 \<and> block_rows s2 = block_rows s1"
      by (rule db_UpdateTransactionStatus_blocks [OF _ u]) (use assms s1 in simp)
    moreover have "?f t s1 = s2" using u by (simp add: ForceSetState_def db_storage_def)
    ultimately show "fst (?f t s1) = fst s \<and> block_rows (?f t s1) = block_rows s" using s1 by simp
  qed simp
  with Inr show ?thesis by (simp add: force_block_def)
qed (simp add: force_block_def)

lemma db_mark_blocks:
  assumes "gorm_frame (fst s)" "markTransactionsAsReverted db_storage ev s = Some (e, s')"
  shows "fst s' = fst s \<and> block_rows s' = block_rows s"
proof -
  let ?c = "re_chain_id ev"
  obtain e1 s1 where m: "db_MarkTransactionsAsReverted ?c (re_new_block_number ev) (re_old_block_number ev) s = (e1, s1)"
    by (rule prod.exhaust)
  have s1: "fst s1 = fst s \<and> block_rows s1 = block_rows s" by (rule db_Mark_blocks [OF assms(1) m])
  have "s' = s1 \<or> s' = fold (force_block db_storage ?c) (blocks_of (re_new_block_number ev) (re_old_block_number ev)) s1"
    using assms(2) m by (auto simp: markTransactionsAsReverted_def Let_def db_storage_Mark block_loop_iff
        split: option.split_asm)
  moreover have "fst (fold (force_block db_storage ?c) ns s1) = fst s
      \<and> block_rows (fold (force_block db_storage ?c) ns s1) = block_rows s" for ns
  proof (rule fold_keeps [where I = "\<lambda>s1. fst s1 = fst s \<and> block_rows s1 = block_rows s"])
    fix n s2 assume "fst s2 = fst s \<and> block_rows s2 = block_rows s"
    with db_force_block [of s2 ?c n] assms(1)
    show "fst (force_block db_storage ?c n s2) = fst s \<and> block_rows (force_block db_storage ?c n s2) = block_rows s"
      by simp
  qed (rule s1)
  ultimately show ?thesis using s1 by auto
qed

lemma db_cleanup_blocks:
  assumes "gorm_laws (fst s)" "gorm_frame (fst s)" "cleanupReorgData db_storage ev s = Some (None, s')"
  shows "fst s' = fst s \<and> block_rows s' = filter (\<lambda>r. \<not> in_range ev r) (block_rows s)"
proof -
  let ?c = "re_chain_id ev" and ?lo = "re_new_block_number ev" and ?hi = "re_old_block_number ev"
  obtain s1 where a: "db_DeleteBlocks ?c ?lo ?hi s = (None, s1)" and b: "db_DeleteLogs ?c ?lo ?hi s1 = (None, s')"
    using assms(3) by (auto simp: cleanupReorgData_def Let_def db_storage_def split: prod.split_asm option.split_asm)
  have s1: "fst s1 = fst s \<and> block_rows s1 = filter (\<lambda>r. \<not> in_range ev r) (block_rows s)"
    using db_DeleteBlocks_blocks [OF assms(1) a] by (simp add: in_range_def)
  have "fst s' = fst s1 \<and> block_rows s' = block_rows s1"
    by (rule db_DeleteLogs_blocks [OF _ b]) (use s1 assms(2) in simp)
  with s1 show ?thesis by simp
qed

lemma reorg_body_ok:
  assumes "reorg_body S ev s = Some (None, ev', s')"
  shows "\<exists>s1 s2. validateReorgEvent S ev s = None \<and> markTransactionsAsReverted S ev s = Some (None, s1)
    \<and> cleanupReorgData S ev s1 = Some (None, s2) \<and> markReorgEventAsProcessed S ev s2 = (None, ev', s')"
proof -
  obtain s1 s2 where "validateReorgEvent S ev s = None" "markTransactionsAsReverted S ev s = Some (None, s1)"
      "cleanupReorgData S ev s1 = Some (None, s2)"
    and r: "(case markReorgEventAsProcessed S ev s2 of
        (e, ev1, s1) \<Rightarrow> Some (wrap_err ''failed to mark reorg event as processed'' e, ev1, s1)) = Some (None, ev', s')"
    using assms by (auto simp: reorg_body_def step_then_Some revertBusinessData_eq split: if_split_asm)
  moreover have "markReorgEventAsProcessed S ev s2 = (None, ev', s')"
    using r by (cases "markReorgEventAsProcessed S ev s2") auto
  ultimately show ?thesis by blast
qed

text \<open>
  C12: A reorganisation that the consumer handles without an error over the relational storage passed
  the validation (depth 1 to 1000, both hashes, the new block stored under its number), deletes the
  stored blocks of its chain from the new to the old number, the new block included, and no other,
  and marks the event as processed.
\<close>

theorem consumer_HandleReorg_cleans:
  assumes "gorm_laws (fst s)" "gorm_frame (fst s)"
    and "consumer_HandleReorg db_storage ev (P, s) = Some (None, ev', P', s')"
  shows "validateReorgEvent db_storage ev s = None
    \<and> block_rows s' = filter (\<lambda>r. \<not> in_range ev r) (block_rows s)
    \<and> ev' = ev\<lparr>re_processed := True\<rparr> \<and> P' = P"
proof -
  have free: "event_key ev \<notin> P" using assms(3) by (auto simp: consumer_HandleReorg_def guarded_busy)
  then have body: "reorg_body db_storage ev s = Some (None, ev', s')" and P: "P' = P"
    using assms(3) by (auto simp: consumer_HandleReorg_def guarded_free)
  obtain s1 s2 where v: "validateReorgEvent db_storage ev s = None"
    and m: "markTransactionsAsReverted db_storage ev s = Some (None, s1)"
    and c: "cleanupReorgData db_storage ev s1 = Some (None, s2)"
    and p: "markReorgEventAsProcessed db_storage ev s2 = (None, ev', s')"
    using reorg_body_ok [OF body] by blast
  have s1: "fst s1 = fst s \<and> block_rows s1 = block_rows s" by (rule db_mark_blocks [OF assms(2) m])
  have s2: "fst s2 = fst s1 \<and> block_rows s2 = filter (\<lambda>r. \<not> in_range ev r) (block_rows s1)"
    by (rule db_cleanup_blocks [OF _ _ c]) (use s1 assms in simp_all)
  have "db_SaveReorgEvent (ev\<lparr>re_processed := True\<rparr>) s2 = (None, s')" and ev': "ev' = ev\<lparr>re_processed := True\<rparr>"
    using p by (auto simp: markReorgEventAsProcessed_def Let_def db_storage_def split: prod.split_asm)
  from db_SaveReorgEvent_blocks [OF _ this(1)] have "block_rows s' = block_rows s2" using s1 s2 assms(2) by simp
  with v s1 s2 ev' P show ?thesis by simp
qed

lemma mem_gorm_frame: "gorm_frame mem_gorm"
  by (auto simp: gorm_frame_def mem_gorm_def mem_table_def)

lemma mem_ops:
  "gt_delete (gm_blocks mem_gorm) P d = (None, d\<lparr>md_blocks := filter (\<lambda>r. \<not> P r) (md_blocks d)\<rparr>)"
  "gt_delete (gm_logs mem_gorm) Q d = (None, d\<lparr>md_logs := filter (\<lambda>r. \<not> Q r) (md_logs d)\<rparr>)"
  "gt_create (gm_reorgs mem_gorm) m d = (None, d\<lparr>md_reorgs := md_reorgs d @ [m]\<rparr>)"
  "gt_rows (gm_blocks mem_gorm) d = md_blocks d"
  by (simp_all add: mem_gorm_def mem_table_def)

lemma mem_cleanup: "\<exists>d'. cleanupReorgData db_storage ev (mem_gorm, d) = Some (None, mem_gorm, d')"
  by (simp add: cleanupReorgData_def db_storage_def db_DeleteBlocks_def db_DeleteLogs_def on_db_def mem_ops Let_def)

lemma mem_processed:
  "\<exists>s'. markReorgEventAsProcessed db_storage ev (mem_gorm, d) = (None, ev\<lparr>re_processed := True\<rparr>, s')"
  by (simp add: markReorgEventAsProcessed_def db_storage_def db_SaveReorgEvent_def on_db_def mem_ops Let_def)

definition reorged_db :: mem_db where
  "reorged_db = empty_db\<lparr>md_blocks := [block_model (mk_block 4 ''d'' ''c'' []), block_model (mk_block 5 ''h'' ''d'' []),
     block_model (mk_block 6 ''a'' ''h'' [])]\<rparr>"

lemma reorged_run:
  "\<exists>s'. consumer_HandleReorg db_storage (mk_reorg 5 6 1) ({}, mem_gorm, reorged_db)
    = Some (None, (mk_reorg 5 6 1)\<lparr>re_processed := True\<rparr>, {}, s')"
proof -
  let ?e = "mk_reorg 5 6 1" and ?s = "(mem_gorm, reorged_db)"
  have v: "validateReorgEvent db_storage ?e ?s = None"
    by (simp add: validateReorgEvent_def mk_reorg_def db_storage_def db_GetBlockByHash_def db_found_def
        mem_gorm_def mem_table_def reorged_db_def empty_db_def block_model_def mk_block_def)
  have f: "force_block db_storage ''eth'' n ?s = ?s" for n
    by (simp add: force_block_def db_storage_def db_GetTransactionsByBlock_def
        mem_gorm_def mem_table_def reorged_db_def empty_db_def)
  have "fold (force_block db_storage ''eth'') ns ?s = ?s" for ns by (induction ns) (simp_all add: f)
  moreover have "db_MarkTransactionsAsReverted ''eth'' 5 6 ?s = (None, ?s)"
    by (simp add: db_MarkTransactionsAsReverted_def on_db_def mem_gorm_def mem_table_def reorged_db_def empty_db_def)
  ultimately have m: "markTransactionsAsReverted db_storage ?e ?s = Some (None, ?s)"
    by (simp add: markTransactionsAsReverted_def db_storage_Mark block_loop_fold mk_reorg_def)
  obtain s2 where c: "cleanupReorgData db_storage ?e ?s = Some (None, mem_gorm, s2)" using mem_cleanup by blast
  obtain s3 where p: "markReorgEventAsProcessed db_storage ?e (mem_gorm, s2) = (None, ?e\<lparr>re_processed := True\<rparr>, s3)"
    using mem_processed by blast
  have r: "revertBusinessData db_storage ?e s = Some (None, s)" for s :: "mem_db db_state"
    by (simp add: revertBusinessData_eq mk_reorg_def)
  have "reorg_body db_storage ?e ?s = Some (None, ?e\<lparr>re_processed := True\<rparr>, s3)"
    by (simp only: reorg_body_def step_then_ok v m c p r prod.case wrap_err_simps(1))
  then show ?thesis unfolding consumer_HandleReorg_def by (subst guarded_free) auto
qed

theorem consumer_HandleReorg_cleans_witness:
  "\<exists>s'. consumer_HandleReorg db_storage (mk_reorg 5 6 1) ({}, mem_gorm, reorged_db)
      = Some (None, (mk_reorg 5 6 1)\<lparr>re_processed := True\<rparr>, {}, s')
    \<and> map br_block_number (block_rows s') = [4]"
proof -
  obtain s' where r: "consumer_HandleReorg db_storage (mk_reorg 5 6 1) ({}, mem_gorm, reorged_db)
      = Some (None, (mk_reorg 5 6 1)\<lparr>re_processed := True\<rparr>, {}, s')" using reorged_run by blast
  have "gorm_laws (fst (mem_gorm, reorged_db))" "gorm_frame (fst (mem_gorm, reorged_db))"
    by (simp_all add: mem_gorm_laws mem_gorm_frame)
  from consumer_HandleReorg_cleans [OF this r] have
    "block_rows s' = filter (\<lambda>r. \<not> in_range (mk_reorg 5 6 1) r) (block_rows (mem_gorm, reorged_db))" by blast
  then have "map br_block_number (block_rows s') = [4]"
    by (simp add: block_rows_def in_range_def mk_reorg_def mem_ops reorged_db_def block_model_def mk_block_def)
  from r this show ?thesis by (intro exI conjI)
qed

end
