(* ===== verification/Consumer.thy ===== *)
theory Consumer
  imports ConsumerReorg Metrics
begin

text \<open>
  \<open>internal/consumer/consumer.go\<close> and \<open>idempotency.go\<close>: the business consumer. It checks whether a
  message was processed, runs the state machine, marks the message, calls the webhook, whose errors
  are only logged, and records its metrics, where a transaction ends in a panic. The idempotency
  handler and the webhook are interfaces in the source and records of operations here; the two
  handlers of \<open>idempotency.go\<close> are their stubs.
\<close>

section \<open>The interfaces\<close>

record 's idempotency_handler =
  ih_IsProcessed :: "string \<Rightarrow> 's \<Rightarrow> go_error + bool"
  ih_MarkProcessed :: "string \<Rightarrow> 's \<Rightarrow> go_error option \<times> 's"
  ih_Clear :: "string \<Rightarrow> 's \<Rightarrow> go_error option \<times> 's"
  ih_ClearExpired :: "'s \<Rightarrow> go_error option \<times> 's"

text \<open>Both handlers answer that nothing was processed; marking and clearing only log.\<close>

definition redis_IsProcessed :: "string \<Rightarrow> 's \<Rightarrow> go_error + bool" where
  "redis_IsProcessed key s = Inr False"

definition redis_MarkProcessed :: "string \<Rightarrow> 's \<Rightarrow> go_error option \<times> 's" where
  "redis_MarkProcessed key s = (None, s)"

definition redis_Clear :: "string \<Rightarrow> 's \<Rightarrow> go_error option \<times> 's" where
  "redis_Clear key s = (None, s)"

definition redis_ClearExpired :: "'s \<Rightarrow> go_error option \<times> 's" where
  "redis_ClearExpired s = (None, s)"

definition idempotency_generateKey :: "string \<Rightarrow> string" where
  "idempotency_generateKey key = ''idempotency:'' @ key"

definition database_IsProcessed :: "string \<Rightarrow> 's \<Rightarrow> go_error + bool" where
  "database_IsProcessed key s = Inr False"

definition database_MarkProcessed :: "string \<Rightarrow> 's \<Rightarrow> go_error option \<times> 's" where
  "database_MarkProcessed key s = (None, s)"

definition database_Clear :: "string \<Rightarrow> 's \<Rightarrow> go_error option \<times> 's" where
  "database_Clear key s = (None, s)"

definition database_ClearExpired :: "'s \<Rightarrow> go_error option \<times> 's" where
  "database_ClearExpired s = (None, s)"

definition redis_idempotency :: "'s idempotency_handler" where
  "redis_idempotency = \<lparr>ih_IsProcessed = redis_IsProcessed, ih_MarkProcessed = redis_MarkProcessed,
     ih_Clear = redis_Clear, ih_ClearExpired = redis_ClearExpired\<rparr>"

definition database_idempotency :: "'s idempotency_handler" where
  "database_idempotency = \<lparr>ih_IsProcessed = database_IsProcessed, ih_MarkProcessed = database_MarkProcessed,
     ih_Clear = database_Clear, ih_ClearExpired = database_ClearExpired\<rparr>"

text \<open>The constructors keep the storage and the time to live, which no operation reads.\<close>

definition NewRedisIdempotencyHandler :: "'s storage option \<Rightarrow> go_error + 's idempotency_handler" where
  "NewRedisIdempotencyHandler S =
     (case S of None \<Rightarrow> Inl (Msg ''storage cannot be nil'') | Some _ \<Rightarrow> Inr redis_idempotency)"

definition NewDatabaseIdempotencyHandler :: "'s storage option \<Rightarrow> go_error + 's idempotency_handler" where
  "NewDatabaseIdempotencyHandler S =
     (case S of None \<Rightarrow> Inl (Msg ''storage cannot be nil'') | Some _ \<Rightarrow> Inr database_idempotency)"

record 'w webhook_handler =
  wh_SendTransaction :: "transaction \<Rightarrow> 'w \<Rightarrow> go_error option \<times> 'w"
  wh_SendLog :: "tx_log \<Rightarrow> 'w \<Rightarrow> go_error option \<times> 'w"
  wh_SendReorgEvent :: "reorg_event \<Rightarrow> 'w \<Rightarrow> go_error option \<times> 'w"

section \<open>The consumer\<close>

record consumer_config =
  cg_ConsumerGroupID :: string
  cg_ConsumerCount :: int
  cg_BatchSize :: int
  cg_BatchTimeout :: int
  cg_MaxRetries :: int
  cg_RetryInterval :: int
  cg_IdempotencyTTL :: int
  cg_WebhookURL :: string
  cg_WebhookTimeout :: int
  cg_WebhookRetry :: int
  cg_MetricsEnabled :: bool

record ('s, 'w) business_consumer =
  bc_config :: consumer_config
  bc_storage :: "'s storage"
  bc_idempotency :: "'s idempotency_handler"
  bc_webhook :: "'w webhook_handler"

text \<open>
  The state of the storage, of the webhook, the set of the reorganisation handler, and the registry
  of the metrics.
\<close>

record ('s, 'w, 'r) consumer_state =
  ks_store :: 's
  ks_webhook :: 'w
  ks_processing :: "string set"
  ks_metrics :: 'r

definition NewBusinessConsumer ::
    "(string \<Rightarrow> int \<Rightarrow> int \<Rightarrow> 'w webhook_handler) \<Rightarrow> consumer_config option \<Rightarrow> 's storage option
      \<Rightarrow> go_error + ('s, 'w) business_consumer" where
  "NewBusinessConsumer newWebhook config S =
     (case config of
        None \<Rightarrow> Inl (Msg ''config cannot be nil'')
      | Some cfg \<Rightarrow>
     (case S of
        None \<Rightarrow> Inl (Msg ''storage cannot be nil'')
      | Some st \<Rightarrow>
     (case NewRedisIdempotencyHandler S of
        Inl e \<Rightarrow> Inl (Wrap ''failed to create idempotency handler'' e)
      | Inr ih \<Rightarrow> Inr \<lparr>bc_config = cfg, bc_storage = st, bc_idempotency = ih,
          bc_webhook = newWebhook (cg_WebhookURL cfg) (cg_WebhookTimeout cfg) (cg_WebhookRetry cfg)\<rparr>)))"

text \<open>
  A call gives the way it ends and the state it leaves, also when it panics. Two metrics recorded one
  after the other, after which the call returns no error:
\<close>

definition record_both ::
    "('r \<Rightarrow> 'r outcome) \<Rightarrow> ('r \<Rightarrow> 'r outcome) \<Rightarrow> 'r \<Rightarrow> go_error option outcome \<times> 'r" where
  "record_both f g r =
     (case f r of
        Panics \<Rightarrow> (Panics, r)
      | Blocks \<Rightarrow> (Blocks, r)
      | Returns r1 \<Rightarrow>
     (case g r1 of
        Panics \<Rightarrow> (Panics, r1)
      | Blocks \<Rightarrow> (Blocks, r1)
      | Returns r2 \<Rightarrow> (Returns None, r2)))"

text \<open>Check, act, mark, notify, record: what \<open>ProcessTransaction\<close> and \<open>ProcessLog\<close> have in common.\<close>

definition once ::
    "('s, 'w) business_consumer \<Rightarrow> string \<Rightarrow> string \<Rightarrow> ('s \<Rightarrow> go_error option \<times> 's)
      \<Rightarrow> ('w \<Rightarrow> go_error option \<times> 'w) \<Rightarrow> ('r \<Rightarrow> go_error option outcome \<times> 'r)
      \<Rightarrow> ('s, 'w, 'r) consumer_state \<Rightarrow> go_error option outcome \<times> ('s, 'w, 'r) consumer_state" where
  "once c key msg act notify finish k =
     (case ih_IsProcessed (bc_idempotency c) key (ks_store k) of
        Inl e \<Rightarrow> (Returns (Some (Wrap ''failed to check idempotency'' e)), k)
      | Inr processed \<Rightarrow>
          if processed then (Returns None, k)
          else (case act (ks_store k) of
             (Some e, s) \<Rightarrow> (Returns (Some (Wrap msg e)), k\<lparr>ks_store := s\<rparr>)
           | (None, s) \<Rightarrow>
          (case ih_MarkProcessed (bc_idempotency c) key s of
             (Some e, s') \<Rightarrow> (Returns (Some (Wrap ''failed to mark as processed'' e)), k\<lparr>ks_store := s'\<rparr>)
           | (None, s') \<Rightarrow>
               (let w = snd (notify (ks_webhook k)); (o', r) = finish (ks_metrics k)
                in (o', k\<lparr>ks_store := s', ks_webhook := w, ks_metrics := r\<rparr>)))))"

definition consumer_ProcessTransaction ::
    "('r, 'f) prometheus \<Rightarrow> 'f \<Rightarrow> ('s, 'w) business_consumer \<Rightarrow> transaction
      \<Rightarrow> ('s, 'w, 'r) consumer_state \<Rightarrow> go_error option outcome \<times> ('s, 'w, 'r) consumer_state" where
  "consumer_ProcessTransaction P duration c t =
     once c (''tx:'' @ tx_chain_id t @ '':'' @ tx_hash t) ''failed to process transaction''
       (sm_ProcessTransaction (bc_storage c) t) (wh_SendTransaction (bc_webhook c) t)
       (record_both (RecordTransactionProcessing P (tx_chain_id t)) (RecordScanDuration P (tx_chain_id t) duration))"

definition processTransferEvent :: "tx_log \<Rightarrow> go_error option" where
  "processTransferEvent l = None"

definition transfer_signature :: string where
  "transfer_signature = ''0xddf252ad1be2c89b69c2b068fc378daa952ba7f163c4a11628f55a4df523b3ef''"

definition processLogEvent :: "tx_log \<Rightarrow> go_error option" where
  "processLogEvent l =
     (if length (log_topics l) \<ge> 3 then
        (if log_topics l ! 0 = transfer_signature then processTransferEvent l else None)
      else None)"

definition consumer_ProcessLog ::
    "('r, 'f) prometheus \<Rightarrow> 'f \<Rightarrow> ('s, 'w) business_consumer \<Rightarrow> tx_log
      \<Rightarrow> ('s, 'w, 'r) consumer_state \<Rightarrow> go_error option outcome \<times> ('s, 'w, 'r) consumer_state" where
  "consumer_ProcessLog P duration c l =
     once c (''log:'' @ log_chain_id l @ '':'' @ log_tx_hash l @ '':'' @ fmt_u64 (log_log_index l))
       ''failed to process log event'' (\<lambda>s. (processLogEvent l, s)) (wh_SendLog (bc_webhook c) l)
       (record_both (RecordLogProcessing P (log_chain_id l)) (RecordScanDuration P (log_chain_id l) duration))"

definition consumer_ProcessReorgEvent ::
    "('r, 'f) prometheus \<Rightarrow> 'f \<Rightarrow> ('s, 'w) business_consumer \<Rightarrow> reorg_event \<Rightarrow> ('s, 'w, 'r) consumer_state
      \<Rightarrow> (go_error option outcome \<times> reorg_event \<times> ('s, 'w, 'r) consumer_state) option" where
  "consumer_ProcessReorgEvent P duration c ev k =
     (case consumer_HandleReorg (bc_storage c) ev (ks_processing k, ks_store k) of
        None \<Rightarrow> None
      | Some (Some e, ev', S, s) \<Rightarrow>
          Some (Returns (Some (Wrap ''failed to handle reorg'' e)), ev', k\<lparr>ks_processing := S, ks_store := s\<rparr>)
      | Some (None, ev', S, s) \<Rightarrow>
          (let w = snd (wh_SendReorgEvent (bc_webhook c) ev' (ks_webhook k));
               (o', r) = record_both (RecordReorgProcessing P (re_chain_id ev'))
                 (RecordScanDuration P (re_chain_id ev') duration) (ks_metrics k)
           in Some (o', ev', k\<lparr>ks_processing := S, ks_store := s, ks_webhook := w, ks_metrics := r\<rparr>)))"

section \<open>Starting and stopping\<close>

text \<open>
  \<open>bl_workers\<close> is the count of the wait group; its goroutines end only when the context they were
  started with is done. \<open>Stop\<close> waits for them with the mutex held.
\<close>

record consumer_life =
  bl_running :: bool
  bl_workers :: nat
  bl_ctx_done :: bool

definition consumer_Start :: "consumer_config \<Rightarrow> consumer_life \<Rightarrow> go_error option \<times> consumer_life" where
  "consumer_Start cfg l =
     (if bl_running l then (Some (Msg ''consumer is already running''), l)
      else (None, l\<lparr>bl_running := True,
                    bl_workers := bl_workers l + nat (cg_ConsumerCount cfg) + (if cg_MetricsEnabled cfg then 1 else 0)\<rparr>))"

definition consumer_Stop :: "consumer_life \<Rightarrow> (go_error option \<times> consumer_life) outcome" where
  "consumer_Stop l =
     (if \<not> bl_running l then Returns (None, l)
      else (let l' = l\<lparr>bl_running := False\<rparr> in
            if bl_workers l' = 0 \<or> bl_ctx_done l' then Returns (None, l'\<lparr>bl_workers := 0\<rparr>) else Blocks))"

definition consumer_HealthCheck :: "go_error option \<Rightarrow> consumer_life \<Rightarrow> go_error option" where
  "consumer_HealthCheck storage l =
     (if \<not> bl_running l then Some (Msg ''consumer is not running'')
      else wrap_err ''storage health check failed'' storage)"

text \<open>A tick of the metrics worker; the lag it reports is always zero.\<close>

definition collectMetrics :: "('r, 'f :: zero) prometheus \<Rightarrow> consumer_config \<Rightarrow> 'r \<Rightarrow> go_error option outcome \<times> 'r" where
  "collectMetrics P cfg =
     record_both (RecordConsumerStatus P (cg_ConsumerGroupID cfg) ''running'') (RecordConsumerLag P (cg_ConsumerGroupID cfg) 0)"

text \<open>The start time of a status is the time of the call.\<close>

record consumer_status =
  ct_Running :: bool
  ct_ConsumerGroup :: string
  ct_ConsumerCount :: int
  ct_StartTime :: int

definition consumer_GetStatus :: "int \<Rightarrow> consumer_config \<Rightarrow> consumer_life \<Rightarrow> consumer_status" where
  "consumer_GetStatus now cfg l = \<lparr>ct_Running = bl_running l, ct_ConsumerGroup = cg_ConsumerGroupID cfg,
     ct_ConsumerCount = cg_ConsumerCount cfg, ct_StartTime = now\<rparr>"

section \<open>Success panics\<close>

lemma once_redis:
  assumes "bc_idempotency c = redis_idempotency"
  shows "once c key msg act notify finish k =
    (case act (ks_store k) of
       (Some e, s) \<Rightarrow> (Returns (Some (Wrap msg e)), k\<lparr>ks_store := s\<rparr>)
     | (None, s) \<Rightarrow> (fst (finish (ks_metrics k)),
         k\<lparr>ks_store := s, ks_webhook := snd (notify (ks_webhook k)), ks_metrics := snd (finish (ks_metrics k))\<rparr>))"
  using assms
  by (simp add: once_def redis_idempotency_def redis_IsProcessed_def redis_MarkProcessed_def
      split: prod.split option.split)

lemma transaction_ends:
  assumes "prom_laws P" "bc_idempotency c = redis_idempotency"
    and "sm_ProcessTransaction (bc_storage c) t (ks_store k) = (e, s)"
  shows "consumer_ProcessTransaction P duration c t k =
    (case e of
       Some e' \<Rightarrow> (Returns (Some (Wrap ''failed to process transaction'' e')), k\<lparr>ks_store := s\<rparr>)
     | None \<Rightarrow> (Panics, k\<lparr>ks_store := s, ks_webhook := snd (wh_SendTransaction (bc_webhook c) t (ks_webhook k))\<rparr>))"
  using assms
  by (cases e) (simp_all add: consumer_ProcessTransaction_def once_redis record_both_def tx_recording_panics)

text \<open>
  C40: No transaction is processed successfully. With the idempotency handler the consumer is built with,
  a call either returns the error of the state machine, leaving the webhook alone, or it panics on
  its metrics, after the storage was changed and the webhook was notified.
\<close>

theorem consumer_success_panics:
  assumes "prom_laws P" "bc_idempotency c = redis_idempotency"
    and "sm_ProcessTransaction (bc_storage c) t (ks_store k) = (e, s)"
  shows "consumer_ProcessTransaction P duration c t k =
    (case e of
       Some e' \<Rightarrow> (Returns (Some (Wrap ''failed to process transaction'' e')), k\<lparr>ks_store := s\<rparr>)
     | None \<Rightarrow> (Panics, k\<lparr>ks_store := s, ks_webhook := snd (wh_SendTransaction (bc_webhook c) t (ks_webhook k))\<rparr>))"
  by (rule transaction_ends [OF assms])

section \<open>Duplicates\<close>

text \<open>
  A transaction delivered twice is not skipped: over the Redis storage, processing again a
  transaction that was stored, up to the panic of its metrics, fails, because the state machine
  refuses to move a status to itself.
\<close>

theorem consumer_duplicate_fails:
  assumes "prom_laws P" "kv_laws (fst (ks_store k))" "bc_storage c = redis_storage"
    and "bc_idempotency c = redis_idempotency" "colon_free (tx_chain_id t) (tx_hash t)"
    and "consumer_ProcessTransaction P duration c t k = (Panics, k')"
  shows "\<exists>e. fst (consumer_ProcessTransaction P duration' c t k') = Returns (Some e)"
proof -
  obtain e s where es: "sm_ProcessTransaction redis_storage t (ks_store k) = (e, s)" by (rule prod.exhaust)
  from transaction_ends [where duration = duration, OF assms(1,4)] es assms(3,6)
  have s: "e = None" "ks_store k' = s" by (auto split: option.split_asm)
  have "redis_ok (ks_store k)" using assms(2) by (simp add: redis_ok_def)
  from redis_store.process_success [OF this assms(5) es [unfolded s(1)]] obtain tx where
    tx: "st_GetTransaction redis_storage (tx_chain_id t) (tx_hash t) s = Inr tx" "tx_status tx = tx_status t"
    by auto
  obtain e2 s2 where p: "sm_ProcessTransaction redis_storage t s = (e2, s2)" by (rule prod.exhaust)
  have "\<not> allowed (tx_status t) (tx_status t)" by (cases "tx_status t") (simp_all add: allowed_iff)
  with sm_ProcessTransaction_cases [OF p] tx obtain e0 where "e2 = Some e0" by auto
  with transaction_ends [where duration = duration', OF assms(1,4), of t k' e2 s2] p s(2) assms(3)
  show ?thesis by simp
qed

definition null_webhook :: "nat webhook_handler" where
  "null_webhook = \<lparr>wh_SendTransaction = (\<lambda>t w. (None, w + 1)), wh_SendLog = (\<lambda>l w. (None, w + 1)),
     wh_SendReorgEvent = (\<lambda>e w. (None, w + 1))\<rparr>"

definition some_consumer_config :: consumer_config where
  "some_consumer_config = \<lparr>cg_ConsumerGroupID = ''group'', cg_ConsumerCount = 1, cg_BatchSize = 1, cg_BatchTimeout = 1,
     cg_MaxRetries = 3, cg_RetryInterval = 1, cg_IdempotencyTTL = 60, cg_WebhookURL = ''http://hook'',
     cg_WebhookTimeout = 5, cg_WebhookRetry = 3, cg_MetricsEnabled = True\<rparr>"

definition redis_consumer :: "((string \<Rightarrow> cached option) redis_state, nat) business_consumer" where
  "redis_consumer = \<lparr>bc_config = some_consumer_config, bc_storage = redis_storage,
     bc_idempotency = redis_idempotency, bc_webhook = null_webhook\<rparr>"

definition fresh_consumer :: "((string \<Rightarrow> cached option) redis_state, nat, int mem_registry) consumer_state" where
  "fresh_consumer = \<lparr>ks_store = redis_one, ks_webhook = 0, ks_processing = {}, ks_metrics = empty_registry\<rparr>"

lemma redis_one_confirm:
  "fst (sm_ProcessTransaction redis_storage (mk_tx ''h1'' 7 TxConfirmed) redis_one) = None"
proof -
  have id: "tx_chain_id (mk_tx ''h1'' 7 TxConfirmed) = ''eth''" by (simp add: mk_tx_def)
  show ?thesis using redis_one_get
    by (simp add: sm_ProcessTransaction_def GetTransactionState_def redis_storage_def id
        validateStateTransition_def executeStateTransition_def redis_UpdateTransactionStatus_def
        with_kv_def handleConfirmed_def)
      (simp add: redis_one_def mem_kv_def handleConfirmed_def)
qed

lemma redis_consumer_sel:
  "bc_storage redis_consumer = redis_storage" "bc_idempotency redis_consumer = redis_idempotency"
  "bc_webhook redis_consumer = null_webhook" "ks_store fresh_consumer = redis_one"
  by (simp_all add: redis_consumer_def fresh_consumer_def)

theorem consumer_success_panics_witness:
  "\<exists>s. consumer_ProcessTransaction mem_prom 1 redis_consumer (mk_tx ''h1'' 7 TxConfirmed) fresh_consumer
    = (Panics, fresh_consumer\<lparr>ks_store := s, ks_webhook := 1\<rparr>)"
proof -
  obtain s where s: "sm_ProcessTransaction redis_storage (mk_tx ''h1'' 7 TxConfirmed) redis_one = (None, s)"
    using redis_one_confirm by (metis prod.collapse)
  then have p: "sm_ProcessTransaction (bc_storage redis_consumer) (mk_tx ''h1'' 7 TxConfirmed) (ks_store fresh_consumer)
    = (None, s)" by (simp add: redis_consumer_sel)
  show ?thesis
    unfolding consumer_success_panics [where duration = 1, OF mem_prom_laws redis_consumer_sel(2) p]
    by (simp add: redis_consumer_sel null_webhook_def) (auto simp: fresh_consumer_def)
qed

theorem consumer_duplicate_fails_witness:
  "\<exists>k' e. consumer_ProcessTransaction mem_prom 1 redis_consumer (mk_tx ''h1'' 7 TxConfirmed) fresh_consumer = (Panics, k')
    \<and> fst (consumer_ProcessTransaction mem_prom 1 redis_consumer (mk_tx ''h1'' 7 TxConfirmed) k') = Returns (Some e)"
proof -
  let ?t = "mk_tx ''h1'' 7 TxConfirmed"
  obtain s where s: "sm_ProcessTransaction redis_storage ?t redis_one = (None, s)"
    using redis_one_confirm by (metis prod.collapse)
  then obtain k' where k': "consumer_ProcessTransaction mem_prom 1 redis_consumer ?t fresh_consumer = (Panics, k')"
    using transaction_ends [where duration = 1, OF mem_prom_laws redis_consumer_sel(2), of ?t fresh_consumer None s]
    by (simp add: redis_consumer_sel)
  have "kv_laws (fst (ks_store fresh_consumer))" "colon_free (tx_chain_id ?t) (tx_hash ?t)"
    by (simp_all add: fresh_consumer_def redis_one_def mem_kv_laws colon_free_def)
  from consumer_duplicate_fails [OF mem_prom_laws this(1) redis_consumer_sel(1,2) this(2) k', of 1] k'
  show ?thesis by blast
qed

section \<open>Logs\<close>

lemma record_log_both:
  assumes "prom_laws P" "pm_valid P chain"
  obtains r' where
    "record_both (RecordLogProcessing P chain) (RecordScanDuration P chain duration) r = (Returns None, r')"
    "pm_counter P r' (vec_name LogsProcessed) [chain] = Suc (pm_counter P r (vec_name LogsProcessed) [chain])"
proof -
  have ok: "labels_ok P LogsProcessed [chain]" "labels_ok P ScanDuration [chain]"
    using assms(2) by (simp_all add: labels_ok_def LogsProcessed_def ScanDuration_def)
  obtain r1 where r1: "with_inc P LogsProcessed [chain] r = Returns r1"
      "pm_counter P r1 (vec_name LogsProcessed) [chain] = Suc (pm_counter P r (vec_name LogsProcessed) [chain])"
    by (rule with_inc_ok [OF assms(1) ok(1), of r]) simp
  obtain r2 where "with_observe P ScanDuration [chain] duration r1 = Returns r2" "pm_counter P r2 = pm_counter P r1"
    by (rule with_observe_ok [OF assms(1) ok(2), of duration r1])
  with r1 that [of r2] show thesis by (simp add: record_both_def RecordLogProcessing_def RecordScanDuration_def)
qed

text \<open>
  A log delivered \<open>n\<close> times notifies the webhook \<open>n\<close> times and counts \<open>n\<close> times: the idempotency
  handler the consumer is built with never skips one. The storage is not touched.
\<close>

theorem consumer_log_notified_each_time:
  assumes "prom_laws P" "pm_valid P (log_chain_id l)" "bc_idempotency c = redis_idempotency"
    and "k' = ((\<lambda>k. snd (consumer_ProcessLog P duration c l k)) ^^ n) k"
  shows "ks_store k' = ks_store k
    \<and> ks_webhook k' = ((\<lambda>w. snd (wh_SendLog (bc_webhook c) l w)) ^^ n) (ks_webhook k)
    \<and> pm_counter P (ks_metrics k') (vec_name LogsProcessed) [log_chain_id l]
        = pm_counter P (ks_metrics k) (vec_name LogsProcessed) [log_chain_id l] + n"
  unfolding assms(4)
proof (induction n)
  case (Suc n)
  let ?k = "((\<lambda>k. snd (consumer_ProcessLog P duration c l k)) ^^ n) k"
  have e: "processLogEvent l = None" by (simp add: processLogEvent_def processTransferEvent_def)
  obtain r' where "record_both (RecordLogProcessing P (log_chain_id l)) (RecordScanDuration P (log_chain_id l) duration)
        (ks_metrics ?k) = (Returns None, r')"
      "pm_counter P r' (vec_name LogsProcessed) [log_chain_id l]
        = Suc (pm_counter P (ks_metrics ?k) (vec_name LogsProcessed) [log_chain_id l])"
    by (rule record_log_both [OF assms(1,2)])
  with Suc.IH show ?case by (simp add: consumer_ProcessLog_def once_redis [OF assms(3)] e)
qed simp

definition some_log :: tx_log where
  "some_log = \<lparr>log_chain_id = ''eth'', log_tx_hash = ''h1'', log_block_number = 7, log_address = '''',
     log_topics = [], log_data = '''', log_log_index = 0, log_tx_index = 0\<rparr>"

theorem consumer_log_notified_each_time_witness:
  "ks_webhook (((\<lambda>k. snd (consumer_ProcessLog mem_prom 1 redis_consumer some_log k)) ^^ 3) fresh_consumer) = 3"
proof -
  have "pm_valid mem_prom (log_chain_id some_log)" by (simp add: mem_prom_def ascii_def some_log_def)
  from consumer_log_notified_each_time [where n = 3 and k = fresh_consumer and duration = 1,
      OF mem_prom_laws this redis_consumer_sel(2) refl]
  show ?thesis by (simp add: redis_consumer_sel null_webhook_def fresh_consumer_def numeral_3_eq_3)
qed

text \<open>The ticks of the metrics worker never panic for a group name in valid UTF-8.\<close>

lemma collectMetrics_returns:
  assumes "prom_laws P" "pm_valid P (cg_ConsumerGroupID cfg)" "pm_valid P ''running''"
  shows "fst (collectMetrics P cfg r) = Returns None"
proof -
  obtain r1 where r1: "RecordConsumerStatus P (cg_ConsumerGroupID cfg) ''running'' r = Returns r1"
    using recorders_return(23) [OF assms(1-3,2)] by blast
  obtain r2 where "RecordConsumerLag P (cg_ConsumerGroupID cfg) 0 r1 = Returns r2"
    using recorders_return(24) [OF assms(1,2,2,2)] by blast
  with r1 show ?thesis by (simp add: collectMetrics_def record_both_def)
qed

lemma consumer_Stop_blocks:
  assumes "consumer_Start cfg l = (None, l')"
  shows "consumer_Stop l' = Blocks \<longleftrightarrow> bl_workers l' \<noteq> 0 \<and> \<not> bl_ctx_done l"
  using assms by (auto simp: consumer_Start_def consumer_Stop_def Let_def split: if_splits)

end
