(* ===== verification/Processor.thy ===== *)
theory Processor
  imports ConsumerReorg Lifecycle
begin

text \<open>
  \<open>internal/reorg/processor.go\<close>: the processor of reorganisation events, its six steps over the
  storage and the scanner of the event's chain, its retries, its status and statistics maps and its
  queue. The clock is an argument of each call. A call that never returns is \<open>Blocks\<close>.
\<close>

section \<open>State\<close>

record processor_config =
  pcf_queue_size :: int
  pcf_worker_count :: int
  pcf_processing_timeout :: int
  pcf_max_retries :: int
  pcf_retry_interval :: int
  pcf_enable_auto_rescan :: bool
  pcf_rescan_delay :: int

text \<open>\<open>CurrentStepProgress\<close> is a quotient of two small integers.\<close>

record processing_status =
  pst_chain_id :: string
  pst_is_processing :: bool
  pst_current_event :: "reorg_event option"
  pst_start_time :: int
  pst_processed_events :: int
  pst_failed_events :: int
  pst_last_process_time :: int
  pst_current_step :: string
  pst_current_step_progress :: "nat \<times> nat"

record processor_statistics =
  prs_chain_id :: string
  prs_total_processed :: int
  prs_total_failed :: int
  prs_average_processing_time :: int
  prs_last_process_time :: int
  prs_total_data_cleaned :: int
  prs_total_transactions_reverted :: int

text \<open>
  The processor with what its steps reach: the storage, the manager of the scanners and the Redis
  behind their locks. \<open>rp_busy\<close> counts the workers inside a step, \<open>rp_waiting\<close> the goroutines of the
  wait group.
\<close>

record ('s, 'r) reorg_processor =
  rp_store :: 's
  rp_manager :: scheduler_manager
  rp_redis :: 'r
  rp_status :: "string \<rightharpoonup> processing_status"
  rp_statistics :: "string \<rightharpoonup> processor_statistics"
  rp_queue :: "reorg_event list"
  rp_closed :: bool
  rp_running :: bool
  rp_waiting :: nat
  rp_busy :: nat
  rp_ctx_done :: bool

definition default_processor_config :: processor_config where
  "default_processor_config =
     \<lparr>pcf_queue_size = 1000, pcf_worker_count = 5, pcf_processing_timeout = 30 * 60 * 10 ^ 9,
      pcf_max_retries = 3, pcf_retry_interval = 60 * 10 ^ 9, pcf_enable_auto_rescan = True,
      pcf_rescan_delay = 5 * 60 * 10 ^ 9\<rparr>"

section \<open>Status and statistics\<close>

definition updateProcessingStatus ::
    "string \<Rightarrow> processing_status \<Rightarrow> ('s, 'r) reorg_processor \<Rightarrow> ('s, 'r) reorg_processor" where
  "updateProcessingStatus chainID status p = p\<lparr>rp_status := (rp_status p)(chainID \<mapsto> status)\<rparr>"

definition updateProcessingStep ::
    "string \<Rightarrow> string \<Rightarrow> nat \<times> nat \<Rightarrow> ('s, 'r) reorg_processor \<Rightarrow> ('s, 'r) reorg_processor" where
  "updateProcessingStep chainID step progress p =
     (case rp_status p chainID of
        None \<Rightarrow> p
      | Some status \<Rightarrow> p\<lparr>rp_status := (rp_status p)(chainID \<mapsto>
            status\<lparr>pst_current_step := step, pst_current_step_progress := progress\<rparr>)\<rparr>)"

definition clearProcessingStatus ::
    "int \<Rightarrow> string \<Rightarrow> ('s, 'r) reorg_processor \<Rightarrow> ('s, 'r) reorg_processor" where
  "clearProcessingStatus now chainID p =
     (case rp_status p chainID of
        None \<Rightarrow> p
      | Some status \<Rightarrow> p\<lparr>rp_status := (rp_status p)(chainID \<mapsto>
            status\<lparr>pst_is_processing := False, pst_last_process_time := now, pst_current_step := '''',
                   pst_current_step_progress := (0, 1)\<rparr>)\<rparr>)"

definition new_statistics :: "string \<Rightarrow> processor_statistics" where
  "new_statistics chainID =
     \<lparr>prs_chain_id = chainID, prs_total_processed = 0, prs_total_failed = 0, prs_average_processing_time = 0,
      prs_last_process_time = zero_time, prs_total_data_cleaned = 0, prs_total_transactions_reverted = 0\<rparr>"

text \<open>\<open>time.Duration\<close> and the counters are \<open>int64\<close>.\<close>

definition statistics_step :: "int \<Rightarrow> int \<Rightarrow> bool \<Rightarrow> processor_statistics \<Rightarrow> processor_statistics" where
  "statistics_step now duration success stats =
     (let stats1 = (if success then stats\<lparr>prs_total_processed := wrap_i64 (prs_total_processed stats + 1)\<rparr>
                    else stats\<lparr>prs_total_failed := wrap_i64 (prs_total_failed stats + 1)\<rparr>);
          stats2 = stats1\<lparr>prs_last_process_time := now\<rparr>;
          totalProcessed = wrap_i64 (prs_total_processed stats2 + prs_total_failed stats2)
      in if totalProcessed > 0 then
           (let totalTime = wrap_i64 (prs_average_processing_time stats2 * (totalProcessed - 1))
            in stats2\<lparr>prs_average_processing_time := go_quot (wrap_i64 (totalTime + duration)) totalProcessed\<rparr>)
         else stats2)"

definition updateStatistics ::
    "int \<Rightarrow> string \<Rightarrow> int \<Rightarrow> bool \<Rightarrow> ('s, 'r) reorg_processor \<Rightarrow> ('s, 'r) reorg_processor" where
  "updateStatistics now chainID duration success p =
     (let stats = (case rp_statistics p chainID of None \<Rightarrow> new_statistics chainID | Some st \<Rightarrow> st)
      in p\<lparr>rp_statistics := (rp_statistics p)(chainID \<mapsto> statistics_step now duration success stats)\<rparr>)"

definition GetProcessingStatus :: "string \<Rightarrow> ('s, 'r) reorg_processor \<Rightarrow> processing_status" where
  "GetProcessingStatus chainID p =
     (case rp_status p chainID of
        None \<Rightarrow> \<lparr>pst_chain_id = chainID, pst_is_processing = False, pst_current_event = None, pst_start_time = zero_time,
                 pst_processed_events = 0, pst_failed_events = 0, pst_last_process_time = zero_time,
                 pst_current_step = '''', pst_current_step_progress = (0, 1)\<rparr>
      | Some status \<Rightarrow> status)"

definition processor_GetStatistics :: "string \<Rightarrow> ('s, 'r) reorg_processor \<Rightarrow> go_error + processor_statistics" where
  "processor_GetStatistics chainID p =
     (case rp_statistics p chainID of
        None \<Rightarrow> Inl (Msg (''statistics not found for chain '' @ chainID))
      | Some stats \<Rightarrow> Inr stats)"

text \<open>The chains whose processing takes longer than the limit are only logged: the ones it names.\<close>

definition checkStuckProcessing :: "processor_config \<Rightarrow> int \<Rightarrow> string list \<Rightarrow> ('s, 'r) reorg_processor \<Rightarrow> string list" where
  "checkStuckProcessing cfg now chainIDs p =
     filter (\<lambda>c. case rp_status p c of
         None \<Rightarrow> False
       | Some st \<Rightarrow> pst_is_processing st \<and> now - pst_start_time st > pcf_processing_timeout cfg) chainIDs"

section \<open>The steps\<close>

type_synonym ('s, 'r) step_result = "(go_error option \<times> reorg_event \<times> ('s, 'r) reorg_processor) outcome"

definition validateEvent :: "'s storage \<Rightarrow> reorg_event \<Rightarrow> 's \<Rightarrow> go_error option" where
  "validateEvent S ev s =
     (if re_chain_id ev = '''' then Some (Msg ''chain_id is empty'')
      else if re_old_block_number ev = 0 then Some (Msg ''old_block_number is zero'')
      else if re_new_block_number ev = 0 then Some (Msg ''new_block_number is zero'')
      else if re_depth ev = 0 then Some (Msg ''depth is zero'')
      else if re_old_block_hash ev = '''' \<or> re_new_block_hash ev = '''' then Some (Msg ''block hash is empty'')
      else case st_GetBlockByHash S (re_chain_id ev) (re_new_block_hash ev) s of
             Inl e \<Rightarrow> Some (Wrap ''failed to get new block'' e)
           | Inr newBlock \<Rightarrow>
               if blk_number newBlock \<noteq> re_new_block_number ev then Some (Msg ''new block number mismatch'')
               else None)"

definition never :: "'a option \<Rightarrow> 'a outcome" where
  "never r = (case r of None \<Rightarrow> Blocks | Some x \<Rightarrow> Returns x)"

text \<open>The count of the transactions of the range is only logged.\<close>

definition count_reverted :: "'s storage \<Rightarrow> reorg_event \<Rightarrow> 's \<Rightarrow> int option" where
  "count_reverted S ev s =
     block_loop (\<lambda>n cnt. case st_GetTransactionsByBlock S (re_chain_id ev) n s of
          Inl e \<Rightarrow> cnt
        | Inr txs \<Rightarrow> wrap_i64 (cnt + int (length txs)))
       (re_new_block_number ev) (re_old_block_number ev) 0"

definition markRevertedTransactions :: "'s storage \<Rightarrow> reorg_event \<Rightarrow> 's \<Rightarrow> (go_error option \<times> 's) outcome" where
  "markRevertedTransactions S ev s =
     (case st_MarkTransactionsAsReverted S (re_chain_id ev) (re_new_block_number ev) (re_old_block_number ev) s of
        (Some e, s') \<Rightarrow> Returns (Some (Wrap ''failed to mark transactions as reverted'' e), s')
      | (None, s') \<Rightarrow> (case count_reverted S ev s' of None \<Rightarrow> Blocks | Some cnt \<Rightarrow> Returns (None, s')))"

definition processor_revertBusinessData :: "'s storage \<Rightarrow> reorg_event \<Rightarrow> 's \<Rightarrow> (go_error option \<times> 's) outcome" where
  "processor_revertBusinessData S ev s =
     never (map_option (\<lambda>s'. (None, s'))
       (block_loop (\<lambda>n s. case st_GetTransactionsByBlock S (re_chain_id ev) n s of
            Inl e \<Rightarrow> s
          | Inr txs \<Rightarrow> fold (\<lambda>t s. case revertTransactionBusinessData t of _ \<Rightarrow> s) txs s)
         (re_new_block_number ev) (re_old_block_number ev) s))"

definition cleanAffectedData :: "'s storage \<Rightarrow> reorg_event \<Rightarrow> 's \<Rightarrow> (go_error option \<times> 's) outcome" where
  "cleanAffectedData S ev s =
     (case st_DeleteBlocks S (re_chain_id ev) (re_new_block_number ev) (re_old_block_number ev) s of
        None \<Rightarrow> Blocks
      | Some (Some e, s') \<Rightarrow> Returns (Some (Wrap ''failed to delete blocks'' e), s')
      | Some (None, s') \<Rightarrow>
          (case st_DeleteLogs S (re_chain_id ev) (re_new_block_number ev) (re_old_block_number ev) s' of
             (e, s'') \<Rightarrow> Returns (wrap_err ''failed to delete logs'' e, s'')))"

definition safe_height :: "reorg_event \<Rightarrow> u64" where
  "safe_height ev = (if re_old_block_number ev > 0 then re_old_block_number ev - 1 else re_old_block_number ev)"

definition resetScannerWatermark ::
    "'r redis \<Rightarrow> lock_manager \<Rightarrow> int \<Rightarrow> reorg_event \<Rightarrow> scheduler_manager \<times> 'r
      \<Rightarrow> (go_error option \<times> scheduler_manager \<times> 'r) outcome" where
  "resetScannerWatermark R lm now ev mr =
     (let (m, r) = mr in
      case GetScanner (re_chain_id ev) m of
        Blocks \<Rightarrow> Blocks
      | Panics \<Rightarrow> Panics
      | Returns (Inl e) \<Rightarrow> Returns (Some (Msg (''scanner not found for chain '' @ re_chain_id ev)), m, r)
      | Returns (Inr sc) \<Rightarrow>
          (case ResetWatermark R lm now (safe_height ev) (sc, r) of
             (e, sc', r') \<Rightarrow> Returns (wrap_err ''failed to reset watermark'' e,
                m\<lparr>scm_scanners := AList.update (re_chain_id ev) sc' (scm_scanners m)\<rparr>, r')))"

definition markEventAsProcessed :: "'s storage \<Rightarrow> reorg_event \<Rightarrow> 's \<Rightarrow> go_error option \<times> reorg_event \<times> 's" where
  "markEventAsProcessed S ev s =
     (let ev' = ev\<lparr>re_processed := True\<rparr> in
      case st_SaveReorgEvent S ev' s of (e, s') \<Rightarrow> (wrap_err ''failed to save reorg event'' e, ev', s'))"

text \<open>A step of the storage as a step of the processor.\<close>

definition store_step ::
    "('s \<Rightarrow> (go_error option \<times> 's) outcome) \<Rightarrow> reorg_event \<Rightarrow> ('s, 'r) reorg_processor \<Rightarrow> ('s, 'r) step_result" where
  "store_step f ev p = outcome_bind (f (rp_store p)) (\<lambda>(e, s). Returns (e, ev, p\<lparr>rp_store := s\<rparr>))"

definition steps ::
    "'s storage \<Rightarrow> 'r redis \<Rightarrow> lock_manager \<Rightarrow> int
      \<Rightarrow> (string \<times> (reorg_event \<Rightarrow> ('s, 'r) reorg_processor \<Rightarrow> ('s, 'r) step_result)) list" where
  "steps S R lm now =
     [(''validate'', \<lambda>ev p. Returns (validateEvent S ev (rp_store p), ev, p)),
      (''mark_transactions'', \<lambda>ev. store_step (markRevertedTransactions S ev) ev),
      (''revert_business_data'', \<lambda>ev. store_step (processor_revertBusinessData S ev) ev),
      (''clean_data'', \<lambda>ev. store_step (cleanAffectedData S ev) ev),
      (''reset_watermark'', \<lambda>ev p. outcome_bind (resetScannerWatermark R lm now ev (rp_manager p, rp_redis p))
         (\<lambda>(e, m, r). Returns (e, ev, p\<lparr>rp_manager := m, rp_redis := r\<rparr>))),
      (''mark_processed'', \<lambda>ev p. case markEventAsProcessed S ev (rp_store p) of
         (e, ev', s) \<Rightarrow> Returns (e, ev', p\<lparr>rp_store := s\<rparr>))]"

fun run_steps ::
    "nat \<Rightarrow> (string \<times> (reorg_event \<Rightarrow> ('s, 'r) reorg_processor \<Rightarrow> ('s, 'r) step_result)) list
      \<Rightarrow> reorg_event \<Rightarrow> ('s, 'r) reorg_processor \<Rightarrow> ('s, 'r) step_result" where
  "run_steps i [] ev p = Returns (None, ev, p)"
| "run_steps i ((name, fn) # rest) ev p =
     outcome_bind (fn ev (updateProcessingStep (re_chain_id ev) name (i, 6) p)) (\<lambda>(e, ev', p').
       case e of
         Some err \<Rightarrow> Returns (Some (Wrap (''failed to execute step '' @ name) err), ev',
           updateProcessingStep (re_chain_id ev) (name @ '' (failed)'') (i, 6) p')
       | None \<Rightarrow> run_steps (Suc i) rest ev' p')"

definition starting_status :: "int \<Rightarrow> reorg_event \<Rightarrow> processing_status" where
  "starting_status now ev =
     \<lparr>pst_chain_id = re_chain_id ev, pst_is_processing = True, pst_current_event = Some ev, pst_start_time = now,
      pst_processed_events = 0, pst_failed_events = 0, pst_last_process_time = zero_time,
      pst_current_step = ''starting'', pst_current_step_progress = (0, 1)\<rparr>"

text \<open>
  The call starts at \<open>t0\<close> and ends at \<open>t1\<close>. The rescan it may start is a goroutine of its own,
  \<open>scheduleRescan\<close>.
\<close>

definition processEvent ::
    "'s storage \<Rightarrow> 'r redis \<Rightarrow> lock_manager \<Rightarrow> int \<times> int \<Rightarrow> reorg_event
      \<Rightarrow> ('s, 'r) reorg_processor \<Rightarrow> ('s, 'r) step_result" where
  "processEvent S R lm t ev p =
     (let (t0, t1) = t; c = re_chain_id ev;
          p1 = updateProcessingStatus c (starting_status t0 ev) p in
      outcome_bind (run_steps 0 (steps S R lm t0) ev p1) (\<lambda>(e, ev', p2).
        case e of
          Some err \<Rightarrow> Returns (Some err, ev', clearProcessingStatus t1 c p2)
        | None \<Rightarrow>
            (let p3 = updateProcessingStep c ''completed'' (1, 1) p2;
                 p4 = updateStatistics t1 c (t1 - t0) True p3
             in Returns (None, ev', clearProcessingStatus t1 c p4))))"

text \<open>
  The rescan after the delay, unless its context is done: what \<open>StartScan\<close> reports is only logged.
\<close>

definition scheduleRescan :: "bool \<Rightarrow> reorg_event \<Rightarrow> scheduler_manager \<Rightarrow> scheduler_manager outcome" where
  "scheduleRescan ctxDone ev m =
     (if ctxDone then Returns m
      else case GetScanner (re_chain_id ev) m of
        Blocks \<Rightarrow> Blocks
      | Panics \<Rightarrow> Panics
      | Returns (Inl e) \<Rightarrow> Returns m
      | Returns (Inr sc) \<Rightarrow>
          (case StartScan sc of
             (e, sc') \<Rightarrow> Returns (m\<lparr>scm_scanners := AList.update (re_chain_id ev) sc' (scm_scanners m)\<rparr>)))"

section \<open>Retries\<close>

text \<open>
  \<open>attempts\<close> are the attempts still to make; \<open>cancelled a\<close> says that the context is done while the call
  waits before attempt \<open>a\<close>, and \<open>clock a\<close> is when the attempt starts and ends.
\<close>

fun retry_events ::
    "'s storage \<Rightarrow> 'r redis \<Rightarrow> lock_manager \<Rightarrow> (nat \<Rightarrow> bool) \<Rightarrow> (nat \<Rightarrow> int \<times> int) \<Rightarrow> string
      \<Rightarrow> nat list \<Rightarrow> go_error option \<Rightarrow> reorg_event \<Rightarrow> ('s, 'r) reorg_processor \<Rightarrow> ('s, 'r) step_result" where
  "retry_events S R lm cancelled clock msg [] lastErr ev p =
     Returns (Some (case lastErr of Some e \<Rightarrow> Wrap msg e | None \<Rightarrow> Msg (msg @ '': %!w(<nil>)'')), ev, p)"
| "retry_events S R lm cancelled clock msg (a # as) lastErr ev p =
     (if a > 0 \<and> cancelled a then Returns (Some ctx_err, ev, p)
      else outcome_bind (processEvent S R lm (clock a) ev p) (\<lambda>(e, ev', p').
        case e of
          None \<Rightarrow> Returns (None, ev', p')
        | Some err \<Rightarrow> retry_events S R lm cancelled clock msg as (Some err) ev' p'))"

definition processEventWithRetry ::
    "'s storage \<Rightarrow> 'r redis \<Rightarrow> lock_manager \<Rightarrow> processor_config \<Rightarrow> (nat \<Rightarrow> bool) \<Rightarrow> (nat \<Rightarrow> int \<times> int)
      \<Rightarrow> reorg_event \<Rightarrow> ('s, 'r) reorg_processor \<Rightarrow> ('s, 'r) step_result" where
  "processEventWithRetry S R lm cfg cancelled clock ev p =
     retry_events S R lm cancelled clock
       (''failed to process reorg event after '' @ fmt_int (pcf_max_retries cfg + 1) @ '' attempts'')
       [0..<nat (pcf_max_retries cfg + 1)] None ev p"

section \<open>The queue and the lifecycle\<close>

text \<open>
  The events wait in a queue of a positive size; sending on it after \<open>Stop\<close> closed it panics. Its
  workers end on a done context or on the closed and empty queue, the monitor only on a done context.
  A worker inside a step needs the mutex that \<open>Stop\<close> holds while it waits.
\<close>

definition processor_ProcessReorg ::
    "processor_config \<Rightarrow> reorg_event \<Rightarrow> ('s, 'r) reorg_processor
      \<Rightarrow> (go_error option \<times> ('s, 'r) reorg_processor) outcome" where
  "processor_ProcessReorg cfg ev p =
     (if rp_closed p then Panics
      else if int (length (rp_queue p)) < pcf_queue_size cfg
           then Returns (None, p\<lparr>rp_queue := rp_queue p @ [ev]\<rparr>)
      else Returns (Some (Msg ''event queue is full''), p))"

definition processor_Start ::
    "processor_config \<Rightarrow> ('s, 'r) reorg_processor \<Rightarrow> go_error option \<times> ('s, 'r) reorg_processor" where
  "processor_Start cfg p =
     (if rp_running p then (Some (Msg ''processor is already running''), p)
      else (None, p\<lparr>rp_running := True, rp_waiting := rp_waiting p + nat (pcf_worker_count cfg) + 1\<rparr>))"

definition processor_Stop ::
    "('s, 'r) reorg_processor \<Rightarrow> (go_error option \<times> ('s, 'r) reorg_processor) outcome" where
  "processor_Stop p =
     (if \<not> rp_running p then Returns (None, p)
      else if rp_closed p then Panics
      else if rp_waiting p = 0 \<or> rp_ctx_done p \<and> rp_busy p = 0
           then Returns (None, p\<lparr>rp_running := False, rp_closed := True, rp_waiting := 0\<rparr>)
      else Blocks)"

section \<open>What a successful call has done\<close>

lemma updateProcessingStep_simps [simp]:
  "rp_store (updateProcessingStep c n q p) = rp_store p" "rp_manager (updateProcessingStep c n q p) = rp_manager p"
  "rp_redis (updateProcessingStep c n q p) = rp_redis p"
  by (auto simp: updateProcessingStep_def split: option.split)

lemma clearProcessingStatus_simps [simp]:
  "rp_store (clearProcessingStatus t c p) = rp_store p" "rp_manager (clearProcessingStatus t c p) = rp_manager p"
  "rp_redis (clearProcessingStatus t c p) = rp_redis p"
  by (auto simp: clearProcessingStatus_def split: option.split)

lemma updateStatistics_simps [simp]:
  "rp_store (updateStatistics t c d b p) = rp_store p" "rp_manager (updateStatistics t c d b p) = rp_manager p"
  "rp_redis (updateStatistics t c d b p) = rp_redis p"
  by (auto simp: updateStatistics_def Let_def)

lemma updateProcessingStatus_simps [simp]:
  "rp_store (updateProcessingStatus c st p) = rp_store p" "rp_manager (updateProcessingStatus c st p) = rp_manager p"
  "rp_redis (updateProcessingStatus c st p) = rp_redis p"
  by (auto simp: updateProcessingStatus_def)

lemma run_steps_ok:
  assumes "run_steps i ((name, fn) # rest) ev p = Returns (None, ev', p')"
  shows "\<exists>ev1 p1. fn ev (updateProcessingStep (re_chain_id ev) name (i, 6) p) = Returns (None, ev1, p1)
    \<and> run_steps (Suc i) rest ev1 p1 = Returns (None, ev', p')"
  using assms by (auto simp: outcome_bind_Returns split: option.split_asm)

lemma store_step_ok:
  "store_step f ev p = Returns (None, ev1, p1) \<longleftrightarrow>
     (\<exists>s. f (rp_store p) = Returns (None, s) \<and> ev1 = ev \<and> p1 = p\<lparr>rp_store := s\<rparr>)"
  by (auto simp: store_step_def outcome_bind_Returns)

lemma steps_drop:
  "steps S R lm now = (''validate'', \<lambda>ev p. Returns (validateEvent S ev (rp_store p), ev, p)) # drop 1 (steps S R lm now)"
  "drop 1 (steps S R lm now)
    = (''mark_transactions'', \<lambda>ev. store_step (markRevertedTransactions S ev) ev) # drop 2 (steps S R lm now)"
  "drop 2 (steps S R lm now)
    = (''revert_business_data'', \<lambda>ev. store_step (processor_revertBusinessData S ev) ev) # drop 3 (steps S R lm now)"
  "drop 3 (steps S R lm now)
    = (''clean_data'', \<lambda>ev. store_step (cleanAffectedData S ev) ev) # drop 4 (steps S R lm now)"
  "drop 4 (steps S R lm now)
    = (''reset_watermark'', \<lambda>ev p. outcome_bind (resetScannerWatermark R lm now ev (rp_manager p, rp_redis p))
         (\<lambda>(e, m, r). Returns (e, ev, p\<lparr>rp_manager := m, rp_redis := r\<rparr>))) # drop 5 (steps S R lm now)"
  "drop 5 (steps S R lm now)
    = (''mark_processed'', \<lambda>ev p. case markEventAsProcessed S ev (rp_store p) of
         (e, ev', s) \<Rightarrow> Returns (e, ev', p\<lparr>rp_store := s\<rparr>)) # []"
  by (simp_all add: steps_def)

lemma run_steps_split:
  assumes "run_steps i l ev p = Returns (None, ev', p')" "l = (name, fn) # rest"
  shows "\<exists>ev1 p1. fn ev (updateProcessingStep (re_chain_id ev) name (i, 6) p) = Returns (None, ev1, p1)
    \<and> run_steps (Suc i) rest ev1 p1 = Returns (None, ev', p')"
  using run_steps_ok assms by simp

lemma steps_ok:
  assumes "run_steps 0 (steps S R lm now) ev p = Returns (None, ev', p')"
  shows "\<exists>s1 s2 s3 m r s4. validateEvent S ev (rp_store p) = None
    \<and> markRevertedTransactions S ev (rp_store p) = Returns (None, s1)
    \<and> processor_revertBusinessData S ev s1 = Returns (None, s2)
    \<and> cleanAffectedData S ev s2 = Returns (None, s3)
    \<and> resetScannerWatermark R lm now ev (rp_manager p, rp_redis p) = Returns (None, m, r)
    \<and> markEventAsProcessed S ev s3 = (None, ev', s4)
    \<and> rp_store p' = s4 \<and> rp_manager p' = m \<and> rp_redis p' = r"
proof -
  let ?ok = "Returns (None, ev', p')" and ?u = "updateProcessingStep (re_chain_id ev)"
  note del = run_steps.simps [simp del]
  let ?p1 = "?u ''validate'' (0, 6) p"
  have 1: "validateEvent S ev (rp_store p) = None"
    and r1: "run_steps (Suc 0) (drop 1 (steps S R lm now)) ev ?p1 = ?ok"
    using run_steps_split [OF assms steps_drop(1)] by auto
  let ?p2 = "\<lambda>s. (?u ''mark_transactions'' (Suc 0, 6) ?p1)\<lparr>rp_store := s\<rparr>"
  obtain s1 where 2: "markRevertedTransactions S ev (rp_store p) = Returns (None, s1)"
    and r2: "run_steps (Suc (Suc 0)) (drop 2 (steps S R lm now)) ev (?p2 s1) = ?ok"
    using run_steps_split [OF r1 steps_drop(2)] by (auto simp: store_step_ok)
  let ?p3 = "\<lambda>s. (?u ''revert_business_data'' (Suc (Suc 0), 6) (?p2 s1))\<lparr>rp_store := s\<rparr>"
  obtain s2 where 3: "processor_revertBusinessData S ev s1 = Returns (None, s2)"
    and r3: "run_steps (Suc (Suc (Suc 0))) (drop 3 (steps S R lm now)) ev (?p3 s2) = ?ok"
    using run_steps_split [OF r2 steps_drop(3)] by (auto simp: store_step_ok)
  let ?p4 = "\<lambda>s. (?u ''clean_data'' (Suc (Suc (Suc 0)), 6) (?p3 s2))\<lparr>rp_store := s\<rparr>"
  obtain s3 where 4: "cleanAffectedData S ev s2 = Returns (None, s3)"
    and r4: "run_steps (Suc (Suc (Suc (Suc 0)))) (drop 4 (steps S R lm now)) ev (?p4 s3) = ?ok"
    using run_steps_split [OF r3 steps_drop(4)] by (auto simp: store_step_ok)
  let ?p5 = "\<lambda>m r. (?u ''reset_watermark'' (Suc (Suc (Suc (Suc 0))), 6) (?p4 s3))\<lparr>rp_manager := m, rp_redis := r\<rparr>"
  obtain m r where 5: "resetScannerWatermark R lm now ev (rp_manager p, rp_redis p) = Returns (None, m, r)"
    and r5: "run_steps (Suc (Suc (Suc (Suc (Suc 0))))) (drop 5 (steps S R lm now)) ev (?p5 m r) = ?ok"
    using run_steps_split [OF r4 steps_drop(5)] by (auto simp: outcome_bind_Returns)
  obtain s4 where 6: "markEventAsProcessed S ev s3 = (None, ev', s4)" "rp_store p' = s4"
      "rp_manager p' = m" "rp_redis p' = r"
    using run_steps_split [OF r5 steps_drop(6)] by (auto simp: run_steps.simps split: prod.split_asm)
  show ?thesis using 1 2 3 4 5 6 by blast
qed

lemma processEvent_ok:
  assumes "processEvent S R lm t ev p = Returns (None, ev', p')"
  shows "\<exists>s1 s2 s3 m r s4. validateEvent S ev (rp_store p) = None
    \<and> markRevertedTransactions S ev (rp_store p) = Returns (None, s1)
    \<and> processor_revertBusinessData S ev s1 = Returns (None, s2)
    \<and> cleanAffectedData S ev s2 = Returns (None, s3)
    \<and> resetScannerWatermark R lm (fst t) ev (rp_manager p, rp_redis p) = Returns (None, m, r)
    \<and> markEventAsProcessed S ev s3 = (None, ev', s4)
    \<and> rp_store p' = s4 \<and> rp_manager p' = m \<and> rp_redis p' = r"
proof -
  obtain t0 t1 where t: "t = (t0, t1)" by (cases t)
  let ?p1 = "updateProcessingStatus (re_chain_id ev) (starting_status t0 ev) p"
  obtain p2 where run: "run_steps 0 (steps S R lm t0) ev ?p1 = Returns (None, ev', p2)"
    and p': "rp_store p' = rp_store p2" "rp_manager p' = rp_manager p2" "rp_redis p' = rp_redis p2"
    using assms by (auto simp: processEvent_def t Let_def outcome_bind_Returns split: option.split_asm)
  show ?thesis using steps_ok [OF run] by (simp add: p' t)
qed

lemma ResetToHeight_ok:
  assumes "ResetToHeight R lm now h m r = (None, lr, m')"
  shows "\<exists>w. wmm_watermark m' = Some w \<and> wm_scanned_height w = h"
  using assms
  by (auto simp: ResetToHeight_def with_lock_def reset_body_def saveWatermark_def cleanupBlockHashesAfter_def Let_def
      split: prod.split_asm option.split_asm if_split_asm)

lemma resetScannerWatermark_ok:
  assumes "resetScannerWatermark R lm now ev (m, r) = Returns (None, m', r')"
  shows "\<exists>sc w. map_of (scm_scanners m') (re_chain_id ev) = Some sc \<and> wmm_watermark (cs_watermark sc) = Some w
    \<and> wm_scanned_height w = safe_height ev"
proof -
  obtain sc where g: "GetScanner (re_chain_id ev) m = Returns (Inr sc)"
    using assms by (auto simp: resetScannerWatermark_def split: outcome.split_asm sum.split_asm)
  obtain e lr wm' where t: "ResetToHeight R lm now (safe_height ev) (cs_watermark sc) r = (e, lr, wm')"
    by (rule prod_cases3)
  then have "e = None" and m': "m' = m\<lparr>scm_scanners :=
      AList.update (re_chain_id ev) (sc\<lparr>cs_watermark := wm'\<rparr>) (scm_scanners m)\<rparr>"
    using assms g by (auto simp: resetScannerWatermark_def ResetWatermark_def Let_def split: prod.split_asm)
  with t have ok: "ResetToHeight R lm now (safe_height ev) (cs_watermark sc) r = (None, lr, wm')" by simp
  from ResetToHeight_ok [OF ok] obtain w where "wmm_watermark wm' = Some w" "wm_scanned_height w = safe_height ev" by blast
  then show ?thesis by (simp add: m' update_conv')
qed

lemma cleanAffectedData_eq:
  "cleanAffectedData S ev s = Returns x \<longleftrightarrow> cleanupReorgData S ev s = Some x"
  by (auto simp: cleanAffectedData_def cleanupReorgData_def Let_def split: prod.split option.split)

lemma processor_revertBusinessData_eq:
  "processor_revertBusinessData S ev s = Returns x \<longleftrightarrow> revertBusinessData S ev s = Some x"
  by (auto simp: processor_revertBusinessData_def revertBusinessData_def never_def split: option.split)

lemma safe_height_below:
  "re_old_block_number ev \<noteq> 0 \<Longrightarrow> n \<le> re_old_block_number ev \<Longrightarrow> n \<noteq> re_old_block_number ev
    \<Longrightarrow> n \<le> safe_height ev"
proof -
  assume a: "re_old_block_number ev \<noteq> 0" "n \<le> re_old_block_number ev" "n \<noteq> re_old_block_number ev"
  then have "unat n < unat (re_old_block_number ev)" by (simp add: word_less_nat_alt [symmetric])
  moreover have "unat (re_old_block_number ev - 1) = unat (re_old_block_number ev) - 1"
    using a(1) by (subst unat_minus_u64) (simp_all add: unat_gt_0 Suc_leI)
  ultimately have "n \<le> re_old_block_number ev - 1" by (simp add: word_le_nat_alt)
  then show "n \<le> safe_height ev" using a by (simp add: safe_height_def word_gt_0)
qed

lemma validateEvent_ok:
  "validateEvent S ev s = None \<Longrightarrow> re_old_block_number ev \<noteq> 0 \<and> re_new_block_number ev \<noteq> 0 \<and> re_depth ev \<noteq> 0"
  by (auto simp: validateEvent_def split: if_split_asm)

text \<open>
  C9: What a successful \<open>processEvent\<close> does over the relational storage: the blocks from the new to the
  old number of the event are deleted and no other, the event is marked as processed, and the scanner
  of the chain is set back to one below the old number. The rescan therefore starts at the old number
  itself: every deleted block below it stays deleted, it is at or below the scanned height.
\<close>

theorem processEvent_rolls_back:
  assumes "gorm_laws (fst (rp_store p))" "gorm_frame (fst (rp_store p))"
    and "processEvent db_storage R lm t ev p = Returns (None, ev', p')"
  shows "block_rows (rp_store p') = filter (\<lambda>r. \<not> in_range ev r) (block_rows (rp_store p))
    \<and> ev' = ev\<lparr>re_processed := True\<rparr>
    \<and> (\<exists>sc w. map_of (scm_scanners (rp_manager p')) (re_chain_id ev) = Some sc
        \<and> wmm_watermark (cs_watermark sc) = Some w \<and> wm_scanned_height w = re_old_block_number ev - 1
        \<and> (\<forall>b. in_range ev b \<and> br_block_number b \<noteq> re_old_block_number ev
              \<longrightarrow> br_block_number b \<le> wm_scanned_height w))"
proof -
  let ?s = "rp_store p"
  obtain s1 s2 s3 m r s4 where v: "validateEvent db_storage ev ?s = None"
    and a: "markRevertedTransactions db_storage ev ?s = Returns (None, s1)"
    and b: "processor_revertBusinessData db_storage ev s1 = Returns (None, s2)"
    and c: "cleanAffectedData db_storage ev s2 = Returns (None, s3)"
    and w: "resetScannerWatermark R lm (fst t) ev (rp_manager p, rp_redis p) = Returns (None, m, r)"
    and d: "markEventAsProcessed db_storage ev s3 = (None, ev', s4)" and p': "rp_store p' = s4" "rp_manager p' = m"
    using processEvent_ok [OF assms(3)] by blast
  obtain e1 where "db_MarkTransactionsAsReverted (re_chain_id ev) (re_new_block_number ev) (re_old_block_number ev) ?s
      = (e1, s1)"
    using a by (auto simp: markRevertedTransactions_def db_storage_Mark split: prod.split_asm option.split_asm)
  from db_Mark_blocks [OF assms(2) this] have s1: "fst s1 = fst ?s \<and> block_rows s1 = block_rows ?s" .
  have s2: "s2 = s1" using b by (simp add: processor_revertBusinessData_eq revertBusinessData_eq split: if_split_asm)
  have c': "cleanupReorgData db_storage ev s2 = Some (None, s3)" using c by (simp add: cleanAffectedData_eq)
  have s3: "fst s3 = fst s2 \<and> block_rows s3 = filter (\<lambda>r. \<not> in_range ev r) (block_rows s2)"
    by (rule db_cleanup_blocks [OF _ _ c']) (use s1 s2 assms(1,2) in simp_all)
  have e: "db_SaveReorgEvent (ev\<lparr>re_processed := True\<rparr>) s3 = (None, s4)" and ev': "ev' = ev\<lparr>re_processed := True\<rparr>"
    using d by (auto simp: markEventAsProcessed_def Let_def db_storage_def split: prod.split_asm)
  have s4: "block_rows s4 = block_rows s3" using db_SaveReorgEvent_blocks [OF _ e] s1 s2 s3 assms(2) by simp
  obtain sc wm where sc: "map_of (scm_scanners m) (re_chain_id ev) = Some sc" "wmm_watermark (cs_watermark sc) = Some wm"
      "wm_scanned_height wm = safe_height ev"
    using resetScannerWatermark_ok [OF w] by blast
  have old: "re_old_block_number ev \<noteq> 0" using validateEvent_ok [OF v] by simp
  have "wm_scanned_height wm = re_old_block_number ev - 1" using sc(3) old by (simp add: safe_height_def word_gt_0)
  moreover have "br_block_number b \<le> wm_scanned_height wm"
    if "in_range ev b" "br_block_number b \<noteq> re_old_block_number ev" for b
    using safe_height_below [OF old] that sc(3) by (simp add: in_range_def)
  ultimately show ?thesis using s1 s2 s3 s4 ev' p' sc by auto
qed

definition eth_processor :: "(mem_db db_state, string \<Rightarrow> string option) reorg_processor" where
  "eth_processor =
     \<lparr>rp_store = (mem_gorm, reorged_db),
      rp_manager = \<lparr>scm_scanners = [(''eth'', scanner_at (wm_at 100 88))], scm_locked = False\<rparr>,
      rp_redis = (\<lambda>k. None), rp_status = (\<lambda>c. None), rp_statistics = (\<lambda>c. None), rp_queue = [],
      rp_closed = False, rp_running = True, rp_waiting = 6, rp_busy = 1, rp_ctx_done = False\<rparr>"

lemma mk_reorg_simps [simp]:
  "re_chain_id (mk_reorg n old k) = ''eth''" "re_old_block_number (mk_reorg n old k) = old"
  "re_new_block_number (mk_reorg n old k) = n" "re_depth (mk_reorg n old k) = k"
  by (simp_all add: mk_reorg_def)

lemma eth_reset:
  "\<exists>m r. resetScannerWatermark mem_redis \<lparr>lmg_default_ttl = 1\<rparr> now (mk_reorg 5 6 1)
      (rp_manager eth_processor, rp_redis eth_processor) = Returns (None, m, r)"
  by (simp add: resetScannerWatermark_def eth_processor_def GetScanner_def ResetWatermark_def ResetToHeight_def
      with_lock_def RedisLock_Lock_def mem_redis_def reset_body_def saveWatermark_def wm_at_def safe_height_def Let_def case_prod_beta)

lemma eth_mark:
  "markRevertedTransactions db_storage (mk_reorg 5 6 1) (mem_gorm, reorged_db) = Returns (None, mem_gorm, reorged_db)"
proof -
  have "db_MarkTransactionsAsReverted ''eth'' 5 6 (mem_gorm, reorged_db) = (None, mem_gorm, reorged_db)"
    by (simp add: db_MarkTransactionsAsReverted_def on_db_def mem_gorm_def mem_table_def reorged_db_def empty_db_def)
  moreover have "count_reverted db_storage (mk_reorg 5 6 1) s \<noteq> None" for s :: "mem_db db_state"
    by (simp add: count_reverted_def block_loop_fold)
  ultimately show ?thesis by (auto simp: markRevertedTransactions_def db_storage_Mark split: option.split)
qed

lemma eth_run:
  "\<exists>p'. processEvent db_storage mem_redis \<lparr>lmg_default_ttl = 1\<rparr> (0, 1) (mk_reorg 5 6 1) eth_processor
    = Returns (None, (mk_reorg 5 6 1)\<lparr>re_processed := True\<rparr>, p')"
proof -
  let ?e = "mk_reorg 5 6 1"
  have st: "rp_store eth_processor = (mem_gorm, reorged_db)" by (simp add: eth_processor_def)
  have v: "validateEvent db_storage ?e (mem_gorm, reorged_db) = None"
    by (simp add: validateEvent_def mk_reorg_def db_storage_def db_GetBlockByHash_def db_found_def
        mem_gorm_def mem_table_def reorged_db_def empty_db_def block_model_def mk_block_def)
  have b: "processor_revertBusinessData db_storage ?e s = Returns (None, s)" for s :: "mem_db db_state"
    by (simp add: processor_revertBusinessData_eq revertBusinessData_eq)
  obtain d where c: "cleanAffectedData db_storage ?e (mem_gorm, reorged_db) = Returns (None, mem_gorm, d)"
    using mem_cleanup [of ?e reorged_db] by (auto simp: cleanAffectedData_eq)
  obtain m r where w: "resetScannerWatermark mem_redis \<lparr>lmg_default_ttl = 1\<rparr> 0 ?e
      (rp_manager eth_processor, rp_redis eth_processor) = Returns (None, m, r)" using eth_reset by blast
  obtain s' where "markReorgEventAsProcessed db_storage ?e (mem_gorm, d) = (None, ?e\<lparr>re_processed := True\<rparr>, s')"
    using mem_processed by blast
  then have p: "markEventAsProcessed db_storage ?e (mem_gorm, d) = (None, ?e\<lparr>re_processed := True\<rparr>, s')"
    by (simp add: markEventAsProcessed_def markReorgEventAsProcessed_def Let_def case_prod_beta)
  show ?thesis
    by (simp add: processEvent_def steps_def store_step_def st v eth_mark b c w p Let_def)
qed

theorem processEvent_rolls_back_witness:
  "\<exists>p' (w :: watermark). processEvent db_storage mem_redis \<lparr>lmg_default_ttl = 1\<rparr> (0, 1) (mk_reorg 5 6 1) eth_processor
      = Returns (None, (mk_reorg 5 6 1)\<lparr>re_processed := True\<rparr>, p')
    \<and> map br_block_number (block_rows (rp_store p')) = [4] \<and> wm_scanned_height w = (5 :: u64)"
proof -
  obtain p' where r: "processEvent db_storage mem_redis \<lparr>lmg_default_ttl = 1\<rparr> (0, 1) (mk_reorg 5 6 1) eth_processor
      = Returns (None, (mk_reorg 5 6 1)\<lparr>re_processed := True\<rparr>, p')" using eth_run by blast
  have st: "rp_store eth_processor = (mem_gorm, reorged_db)" by (simp add: eth_processor_def)
  have "gorm_laws (fst (rp_store eth_processor))" "gorm_frame (fst (rp_store eth_processor))"
    by (simp_all add: st mem_gorm_laws mem_gorm_frame)
  note t = processEvent_rolls_back [OF this r]
  from t have "block_rows (rp_store p') = filter (\<lambda>r. \<not> in_range (mk_reorg 5 6 1) r) (block_rows (mem_gorm, reorged_db))"
    by (simp add: st)
  then have "map br_block_number (block_rows (rp_store p')) = [4]"
    by (simp add: block_rows_def in_range_def mem_ops reorged_db_def block_model_def mk_block_def)
  moreover from conjunct2 [OF conjunct2 [OF t]]
  have "\<exists>w :: watermark. wm_scanned_height w = re_old_block_number (mk_reorg 5 6 1) - 1" by (elim exE conjE) (intro exI)
  then obtain w :: watermark where "wm_scanned_height w = re_old_block_number (mk_reorg 5 6 1) - 1" ..
  then have "wm_scanned_height w = 5" by simp
  ultimately show ?thesis using r by (intro exI conjI)
qed

section \<open>Failures and statistics\<close>

lemma validate_fails:
  assumes "validateEvent S ev (rp_store p) = Some e"
  shows "\<exists>p'. processEvent S R lm t ev p = Returns (Some (Wrap ''failed to execute step validate'' e), ev, p')
    \<and> rp_store p' = rp_store p \<and> rp_manager p' = rp_manager p \<and> rp_redis p' = rp_redis p"
  using assms by (cases t) (simp add: processEvent_def steps_def Let_def)

lemma retry_events_invalid:
  assumes "validateEvent S ev (rp_store p) = Some e"
  shows "\<exists>err p'. retry_events S R lm cn clock msg as le ev p = Returns (Some err, ev, p')
    \<and> rp_store p' = rp_store p \<and> rp_manager p' = rp_manager p \<and> rp_redis p' = rp_redis p"
  using assms
proof (induction "as" arbitrary: p le)
  case (Cons a "as")
  obtain p1 where p1: "processEvent S R lm (clock a) ev p
      = Returns (Some (Wrap ''failed to execute step validate'' e), ev, p1)"
    "rp_store p1 = rp_store p" "rp_manager p1 = rp_manager p" "rp_redis p1 = rp_redis p"
    using validate_fails [OF Cons.prems] by blast
  have "validateEvent S ev (rp_store p1) = Some e" using Cons.prems p1(2) by simp
  from Cons.IH [OF this, of "Some (Wrap ''failed to execute step validate'' e)"] p1 show ?case by auto
qed auto

text \<open>
  An event that fails the validation is never carried out: however often it is retried and whenever
  the context is cancelled, the call returns an error with the event, the storage, the scanners and
  the Redis as they were.
\<close>

theorem processEventWithRetry_invalid:
  assumes "validateEvent S ev (rp_store p) = Some e"
  shows "\<exists>err p'. processEventWithRetry S R lm cfg cn clock ev p = Returns (Some err, ev, p')
    \<and> rp_store p' = rp_store p \<and> rp_manager p' = rp_manager p \<and> rp_redis p' = rp_redis p"
  unfolding processEventWithRetry_def by (rule retry_events_invalid [OF assms])

theorem processEventWithRetry_invalid_witness:
  "\<exists>err p'. processEventWithRetry db_storage mem_redis \<lparr>lmg_default_ttl = 1\<rparr> default_processor_config
      (\<lambda>a. False) (\<lambda>a. (0, 1)) (mk_reorg 5 0 1) eth_processor = Returns (Some err, mk_reorg 5 0 1, p')
    \<and> rp_store p' = (mem_gorm, reorged_db)"
proof -
  have st: "rp_store eth_processor = (mem_gorm, reorged_db)" by (simp add: eth_processor_def)
  have "validateEvent db_storage (mk_reorg 5 0 1) (rp_store eth_processor) = Some (Msg ''old_block_number is zero'')"
    by (simp add: validateEvent_def)
  from processEventWithRetry_invalid [OF this, of mem_redis "\<lparr>lmg_default_ttl = 1\<rparr>" default_processor_config "\<lambda>a. False"
      "\<lambda>a. (0, 1)"] show ?thesis unfolding st by (elim exE conjE) (intro exI conjI)
qed

text \<open>The statistics of a chain after processing events of the given durations, all successful.\<close>

definition after_successes :: "string \<Rightarrow> int list \<Rightarrow> processor_statistics" where
  "after_successes c ds = fold (\<lambda>d st. statistics_step 0 d True st) ds (new_statistics c)"

lemma average_step:
  fixes n a d lo hi :: int
  assumes "0 \<le> n" "lo \<le> d" "d \<le> hi" "n = 0 \<or> lo \<le> a \<and> a \<le> hi"
  shows "lo \<le> (a * n + d) div (n + 1) \<and> (a * n + d) div (n + 1) \<le> hi"
proof -
  have "lo * n \<le> a * n" "a * n \<le> hi * n" using assms(1,4) by (auto intro: mult_right_mono)
  then have "lo * (n + 1) \<le> a * n + d" "a * n + d \<le> hi * (n + 1)"
    using assms(2,3) by (simp_all add: distrib_left)
  moreover have "0 < n + 1" using assms(1) by simp
  ultimately have "lo * (n + 1) div (n + 1) \<le> (a * n + d) div (n + 1)"
    "(a * n + d) div (n + 1) \<le> hi * (n + 1) div (n + 1)" by (simp_all only: zdiv_mono1)
  moreover have "lo * (n + 1) div (n + 1) = lo" "hi * (n + 1) div (n + 1) = hi"
    using \<open>0 < n + 1\<close> by (intro nonzero_mult_div_cancel_right; simp)+
  ultimately show ?thesis by simp
qed

lemma after_successes_snoc:
  "after_successes c (ds @ [d]) = statistics_step 0 d True (after_successes c ds)"
  by (simp add: after_successes_def)

lemma after_successes_inv:
  assumes "0 \<le> lo" "\<forall>d \<in> set ds. lo \<le> d \<and> d \<le> hi" "hi * int (length ds) < 2 ^ 63" "int (length ds) < 2 ^ 63"
  shows "prs_total_processed (after_successes c ds) = int (length ds) \<and> prs_total_failed (after_successes c ds) = 0
    \<and> (ds = [] \<and> prs_average_processing_time (after_successes c ds) = 0
       \<or> lo \<le> prs_average_processing_time (after_successes c ds)
         \<and> prs_average_processing_time (after_successes c ds) \<le> hi)"
  using assms(2-4)
proof (induction ds rule: rev_induct)
  case Nil
  then show ?case by (simp add: after_successes_def new_statistics_def)
next
  case (snoc d ds)
  let ?st = "after_successes c ds" and ?n = "int (length ds)"
  have d: "lo \<le> d" "d \<le> hi" "0 \<le> hi" using snoc.prems(1) assms(1) by auto
  have "hi * ?n \<le> hi * int (length (ds @ [d]))" using d(3) by (intro mult_left_mono) auto
  then have IH: "prs_total_processed ?st = ?n" "prs_total_failed ?st = 0"
      "?n = 0 \<or> lo \<le> prs_average_processing_time ?st \<and> prs_average_processing_time ?st \<le> hi"
      "0 \<le> prs_average_processing_time ?st"
    using snoc assms(1) by auto
  have n: "?n + 1 < 2 ^ 63" using snoc.prems(3) by simp
  let ?a = "prs_average_processing_time ?st"
  have le: "?a * ?n \<le> hi * ?n" using IH(3) by (auto intro: mult_right_mono)
  moreover have "hi * ?n + hi < 2 ^ 63" using snoc.prems(2) by (simp add: distrib_left)
  moreover have "0 \<le> ?a * ?n" using IH(4) by simp
  ultimately have w: "wrap_i64 (?a * ?n) = ?a * ?n" "wrap_i64 (?a * ?n + d) = ?a * ?n + d"
    using d assms(1) by (auto intro!: wrap_i64_id)
  have q: "go_quot (?a * ?n + d) (?n + 1) = (?a * ?n + d) div (?n + 1)"
    using \<open>0 \<le> ?a * ?n\<close> d assms(1) by (intro go_quot_pos) auto
  have "wrap_i64 (?n + 1) = ?n + 1" using n by (intro wrap_i64_id) auto
  then have "prs_total_processed (after_successes c (ds @ [d])) = ?n + 1"
    "prs_total_failed (after_successes c (ds @ [d])) = 0"
    "prs_average_processing_time (after_successes c (ds @ [d])) = (?a * ?n + d) div (?n + 1)"
    by (simp_all add: after_successes_snoc statistics_step_def IH w q Let_def)
  then show ?case using average_step [of ?n lo d hi ?a] d IH(3) by auto
qed

text \<open>
  The statistics count right and average sensibly: after successes whose durations lie between two
  bounds, as many are counted, none as failed, and the rolling average, computed with truncating
  64-bit division, lies between the same bounds, as long as their sum fits.
\<close>

theorem updateStatistics_bounds:
  assumes "0 \<le> lo" "\<forall>d \<in> set ds. lo \<le> d \<and> d \<le> hi" "hi * int (length ds) < 2 ^ 63" "int (length ds) < 2 ^ 63" "ds \<noteq> []"
  shows "prs_total_processed (after_successes c ds) = int (length ds)
    \<and> prs_total_failed (after_successes c ds) = 0
    \<and> lo \<le> prs_average_processing_time (after_successes c ds)
    \<and> prs_average_processing_time (after_successes c ds) \<le> hi"
  using after_successes_inv [OF assms(1-4)] assms(5) by blast

theorem updateStatistics_bounds_witness:
  "prs_total_processed (after_successes ''eth'' [10, 13, 11]) = 3
    \<and> 10 \<le> prs_average_processing_time (after_successes ''eth'' [10, 13, 11])
    \<and> prs_average_processing_time (after_successes ''eth'' [10, 13, 11]) \<le> 13"
  using updateStatistics_bounds [of 10 "[10, 13, 11]" 13 "''eth''"] by simp

text \<open>A scanner that is running is not started again: the rescan changes nothing.\<close>

lemma scheduleRescan_running:
  assumes "\<not> scm_locked m" "map_of (scm_scanners m) (re_chain_id ev) = Some sc" "ss_running (cs_status sc)"
    and "scheduleRescan False ev m = Returns m'"
  shows "map_of (scm_scanners m') = map_of (scm_scanners m)"
  using assms by (auto simp: scheduleRescan_def GetScanner_def StartScan_def scanner_Start_def update_conv')

end
