(* ===== verification/Detector.thy ===== *)
theory Detector
  imports Processor
begin

text \<open>
  \<open>internal/reorg/detector.go\<close>: the detector compares the newest stored block with the chain, walks
  back to the last common block, and may undo the reorganisation itself. The scanners' clients are
  one record of effects per chain on a shared state \<open>'c\<close>; a nil block that the code dereferences is
  \<open>Panics\<close>. The search is bounded by 100 blocks in the source; the bound is its fuel here.
\<close>

section \<open>State\<close>

record detector_config =
  dcf_check_interval :: int
  dcf_reorg_depth_threshold :: u64
  dcf_enable_auto_processing :: bool
  dcf_max_retries :: int
  dcf_retry_interval :: int
  dcf_detection_timeout :: int

definition default_detector_config :: detector_config where
  "default_detector_config =
     \<lparr>dcf_check_interval = 10 * 10 ^ 9, dcf_reorg_depth_threshold = 1, dcf_enable_auto_processing = True,
      dcf_max_retries = 3, dcf_retry_interval = 5 * 10 ^ 9, dcf_detection_timeout = 30 * 10 ^ 9\<rparr>"

record chain_detection_state =
  cds_chain_id :: string
  cds_last_check_time :: int
  cds_last_checked_height :: u64
  cds_last_confirmed_hash :: string
  cds_consecutive_failures :: int
  cds_is_processing_reorg :: bool

text \<open>\<open>AverageReorgDepth\<close> is a quotient of two floats: its numerator and denominator.\<close>

record detector_statistics =
  dst_chain_id :: string
  dst_total_checks :: int
  dst_successful_checks :: int
  dst_failed_checks :: int
  dst_reorgs_detected :: int
  dst_total_reorg_depth :: u64
  dst_max_reorg_depth :: u64
  dst_average_reorg_depth :: "u64 \<times> int"
  dst_last_check_time :: int
  dst_last_reorg_time :: "int option"
  dst_consecutive_failures :: int

record reorg_detector =
  rd_state :: "string \<rightharpoonup> chain_detection_state"
  rd_statistics :: "string \<rightharpoonup> detector_statistics"
  rd_running :: bool
  rd_loop :: bool
  rd_ctx_done :: bool

definition set_state :: "string \<Rightarrow> (chain_detection_state \<Rightarrow> chain_detection_state) \<Rightarrow> reorg_detector \<Rightarrow> reorg_detector" where
  "set_state c f d = d\<lparr>rd_state := (rd_state d)(c := map_option f (rd_state d c))\<rparr>"

definition set_statistics :: "string \<Rightarrow> (detector_statistics \<Rightarrow> detector_statistics) \<Rightarrow> reorg_detector \<Rightarrow> reorg_detector" where
  "set_statistics c f d = d\<lparr>rd_statistics := (rd_statistics d)(c := map_option f (rd_statistics d c))\<rparr>"

section \<open>Starting and stopping\<close>

definition fresh_detection :: "int \<Rightarrow> string \<Rightarrow> chain_detection_state" where
  "fresh_detection now c =
     \<lparr>cds_chain_id = c, cds_last_check_time = now, cds_last_checked_height = 0, cds_last_confirmed_hash = '''',
      cds_consecutive_failures = 0, cds_is_processing_reorg = False\<rparr>"

definition fresh_statistics :: "string \<Rightarrow> detector_statistics" where
  "fresh_statistics c =
     \<lparr>dst_chain_id = c, dst_total_checks = 0, dst_successful_checks = 0, dst_failed_checks = 0,
      dst_reorgs_detected = 0, dst_total_reorg_depth = 0, dst_max_reorg_depth = 0,
      dst_average_reorg_depth = (0, 1), dst_last_check_time = zero_time, dst_last_reorg_time = None,
      dst_consecutive_failures = 0\<rparr>"

definition detector_Start :: "int \<Rightarrow> scheduler_manager \<Rightarrow> reorg_detector \<Rightarrow> (go_error option \<times> reorg_detector) outcome" where
  "detector_Start now m d =
     (if rd_running d then Returns (Some (Msg ''detector is already running''), d)
      else outcome_bind (GetActiveChains m) (\<lambda>cs.
        Returns (None, fold (\<lambda>c d. d\<lparr>rd_state := (rd_state d)(c \<mapsto> fresh_detection now c),
                                      rd_statistics := (rd_statistics d)(c \<mapsto> fresh_statistics c)\<rparr>)
           cs (d\<lparr>rd_running := True, rd_loop := True\<rparr>))))"

text \<open>The detection loop ends only when its context is done; \<open>Stop\<close> waits for it holding the mutex.\<close>

definition detector_Stop :: "reorg_detector \<Rightarrow> (go_error option \<times> reorg_detector) outcome" where
  "detector_Stop d =
     (if \<not> rd_running d then Returns (None, d)
      else if \<not> rd_loop d \<or> rd_ctx_done d then Returns (None, d\<lparr>rd_running := False, rd_loop := False\<rparr>)
      else Blocks)"

section \<open>The search for the fork\<close>

text \<open>
  \<open>fork_loop r cur\<close>: \<open>r\<close> steps are left of the 100, so the depth is \<open>100 - r\<close>. The result is the last
  common block, the chain's block after it and the depth.
\<close>

fun fork_loop ::
    "'s storage \<Rightarrow> 'c chain_client \<Rightarrow> u64 \<Rightarrow> string \<Rightarrow> 's \<Rightarrow> nat \<Rightarrow> block \<Rightarrow> 'c
      \<Rightarrow> ((go_error + (block \<times> block \<times> u64) option) \<times> 'c) outcome" where
  "fork_loop S cl threshold chainID s 0 currentLocal c =
     Returns (Inl (Msg ''exceeded maximum fork point search depth''), c)"
| "fork_loop S cl threshold chainID s (Suc r) currentLocal c =
     (case cl_GetBlock cl (blk_number currentLocal) c of
        (Inl e, c1) \<Rightarrow> Returns (Inl (Wrap (''failed to get chain block at height ''
                          @ fmt_u64 (blk_number currentLocal)) e), c1)
      | (Inr None, c1) \<Rightarrow> Panics
      | (Inr (Some chainBlock), c1) \<Rightarrow>
          if blk_hash chainBlock = blk_hash currentLocal then
            (let depth = of_nat (100 - Suc r) in
             if depth \<ge> threshold then
               (case cl_GetBlock cl (blk_number currentLocal + 1) c1 of
                  (Inl e, c2) \<Rightarrow> Returns (Inl (Wrap ''failed to get new chain block'' e), c2)
                | (Inr None, c2) \<Rightarrow> Panics
                | (Inr (Some newChainBlock), c2) \<Rightarrow> Returns (Inr (Some (currentLocal, newChainBlock, depth)), c2))
             else Returns (Inr None, c1))
          else if blk_number currentLocal = 0 then Returns (Inl (Msg ''genesis block hash mismatch''), c1)
          else (case st_GetBlock S chainID (blk_number currentLocal - 1) s of
                  Inl e \<Rightarrow> Returns (Inl (Wrap ''failed to get previous local block'' e), c1)
                | Inr prevLocalBlock \<Rightarrow> fork_loop S cl threshold chainID s r prevLocalBlock c1))"

definition depth_statistics :: "u64 \<Rightarrow> detector_statistics \<Rightarrow> detector_statistics" where
  "depth_statistics depth stats =
     (let total = dst_total_reorg_depth stats + depth in
      stats\<lparr>dst_total_reorg_depth := total,
            dst_max_reorg_depth := (if depth > dst_max_reorg_depth stats then depth else dst_max_reorg_depth stats),
            dst_average_reorg_depth := (total, dst_reorgs_detected stats)\<rparr>)"

definition createReorgEvent ::
    "int \<Rightarrow> string \<Rightarrow> block \<Rightarrow> block \<Rightarrow> u64 \<Rightarrow> reorg_detector \<Rightarrow> (reorg_event \<times> reorg_detector) outcome" where
  "createReorgEvent now chainID oldBlock newBlock depth d =
     (if rd_statistics d chainID = None then Panics
      else Returns
        (\<lparr>re_chain_id = chainID, re_detected_at = now, re_old_block_number = blk_number oldBlock,
          re_old_block_hash = blk_hash oldBlock, re_new_block_number = blk_number newBlock,
          re_new_block_hash = blk_hash newBlock, re_depth = depth, re_affected_txs = [], re_processed = False\<rparr>,
         set_statistics chainID (depth_statistics depth) d))"

definition findForkPoint ::
    "'s storage \<Rightarrow> 'c chain_client \<Rightarrow> scheduler_manager \<Rightarrow> detector_config \<Rightarrow> int \<Rightarrow> string \<Rightarrow> block \<Rightarrow> 's
      \<Rightarrow> reorg_detector \<times> 'c \<Rightarrow> ((go_error + reorg_event option) \<times> reorg_detector \<times> 'c) outcome" where
  "findForkPoint S cl m cfg now chainID localBlock s dc =
     (let (d, c) = dc in
      outcome_bind (GetScanner chainID m) (\<lambda>r. case r of
        Inl e \<Rightarrow> Returns (Inl (Msg (''scanner not found for chain '' @ chainID)), d, c)
      | Inr sc \<Rightarrow>
          outcome_bind (fork_loop S cl (dcf_reorg_depth_threshold cfg) chainID s 100 localBlock c) (\<lambda>(res, c1).
            case res of
              Inl e \<Rightarrow> Returns (Inl e, d, c1)
            | Inr None \<Rightarrow> Returns (Inr None, d, c1)
            | Inr (Some (old, new, depth)) \<Rightarrow>
                outcome_bind (createReorgEvent now chainID old new depth d) (\<lambda>(ev, d1).
                  Returns (Inr (Some ev), d1, c1)))))"

section \<open>Detection\<close>

definition succeed :: "string \<Rightarrow> reorg_detector \<Rightarrow> reorg_detector" where
  "succeed c = set_statistics c (\<lambda>st. st\<lparr>dst_successful_checks := dst_successful_checks st + 1\<rparr>)"

definition no_failures :: "string \<Rightarrow> reorg_detector \<Rightarrow> reorg_detector" where
  "no_failures c = set_state c (\<lambda>st. st\<lparr>cds_consecutive_failures := 0\<rparr>)"

definition DetectReorg ::
    "'s storage \<Rightarrow> 'c chain_client \<Rightarrow> scheduler_manager \<Rightarrow> detector_config \<Rightarrow> int \<Rightarrow> string \<Rightarrow> 's
      \<Rightarrow> reorg_detector \<times> 'c \<Rightarrow> ((go_error + reorg_event option) \<times> reorg_detector \<times> 'c) outcome" where
  "DetectReorg S cl m cfg now chainID s dc =
     (let (d0, c) = dc in
      if rd_statistics d0 chainID = None \<or> rd_state d0 chainID = None then Panics
      else
     (let d = set_state chainID (\<lambda>st. st\<lparr>cds_last_check_time := now\<rparr>)
                (set_statistics chainID (\<lambda>st. st\<lparr>dst_total_checks := dst_total_checks st + 1\<rparr>) d0) in
      outcome_bind (GetScanner chainID m) (\<lambda>r. case r of
        Inl e \<Rightarrow> Returns (Inl (Msg (''scanner not found for chain '' @ chainID)), d, c)
      | Inr sc \<Rightarrow>
     (case cl_GetCurrentHeight cl c of
        (Inl e, c1) \<Rightarrow> Returns (Inl (Wrap ''failed to get latest height'' e), d, c1)
      | (Inr latestHeight, c1) \<Rightarrow>
     (case st_GetLatestBlock S chainID s of
        Inl e \<Rightarrow>
          if err_text e = ''no blocks found for chain '' @ chainID then Returns (Inr None, succeed chainID d, c1)
          else Returns (Inl (Wrap ''failed to get local block'' e), d, c1)
      | Inr localBlock \<Rightarrow>
          if latestHeight < blk_number localBlock then Returns (Inr None, succeed chainID d, c1)
          else if latestHeight = blk_number localBlock then
            (case cl_GetBlock cl latestHeight c1 of
               (Inl e, c2) \<Rightarrow> Returns (Inl (Wrap ''failed to get chain block'' e), d, c2)
             | (Inr None, c2) \<Rightarrow> Panics
             | (Inr (Some chainBlock), c2) \<Rightarrow>
                 if blk_hash chainBlock = blk_hash localBlock
                 then Returns (Inr None, no_failures chainID (succeed chainID d), c2)
                 else outcome_bind (createReorgEvent now chainID localBlock chainBlock 1 d) (\<lambda>(ev, d1).
                   Returns (Inr (Some ev), d1, c2)))
          else
            outcome_bind (findForkPoint S cl m cfg now chainID localBlock s (d, c1)) (\<lambda>(res, d1, c2).
              case res of
                Inl e \<Rightarrow> Returns (Inl (Wrap ''failed to find fork point'' e), d1, c2)
              | Inr None \<Rightarrow> Returns (Inr None, no_failures chainID (succeed chainID d1), c2)
              | Inr (Some ev) \<Rightarrow>
                  (let d2 = set_statistics chainID (\<lambda>st. st\<lparr>dst_reorgs_detected := dst_reorgs_detected st + 1,
                                dst_last_reorg_time := Some (re_detected_at ev)\<rparr>) d1
                   in Returns (Inr (Some ev), no_failures chainID (succeed chainID d2), c2))))))))"

definition handleDetectionError :: "string \<Rightarrow> reorg_detector \<Rightarrow> reorg_detector outcome" where
  "handleDetectionError chainID d =
     (if rd_state d chainID = None \<or> rd_statistics d chainID = None then Panics
      else Returns (set_state chainID (\<lambda>st. st\<lparr>cds_consecutive_failures := cds_consecutive_failures st + 1\<rparr>)
             (set_statistics chainID (\<lambda>st. st\<lparr>dst_failed_checks := dst_failed_checks st + 1\<rparr>) d)))"

section \<open>Undoing the reorganisation\<close>

text \<open>Over the storage, the manager of the scanners and the Redis of their locks.\<close>

type_synonym ('s, 'r) auto_world = "'s \<times> scheduler_manager \<times> 'r"

definition autoProcessReorg ::
    "'s storage \<Rightarrow> 'r redis \<Rightarrow> lock_manager \<Rightarrow> int \<Rightarrow> reorg_event \<Rightarrow> ('s, 'r) auto_world
      \<Rightarrow> (go_error option \<times> reorg_event \<times> ('s, 'r) auto_world) outcome" where
  "autoProcessReorg S R lm now ev w =
     (let (s, m, r) = w; c = re_chain_id ev; fromBlock = re_new_block_number ev; toBlock = re_old_block_number ev in
      outcome_bind (resetScannerWatermark R lm now ev (m, r)) (\<lambda>(e, m1, r1).
        case e of
          Some err \<Rightarrow> Returns (Some err, ev, s, m1, r1)
        | None \<Rightarrow>
       (case st_DeleteBlocks S c fromBlock toBlock s of
          None \<Rightarrow> Blocks
        | Some (Some err, s1) \<Rightarrow> Returns (Some (Wrap ''failed to delete blocks'' err), ev, s1, m1, r1)
        | Some (None, s1) \<Rightarrow>
       (case st_DeleteLogs S c fromBlock toBlock s1 of
          (Some err, s2) \<Rightarrow> Returns (Some (Wrap ''failed to delete logs'' err), ev, s2, m1, r1)
        | (None, s2) \<Rightarrow>
       (case st_MarkTransactionsAsReverted S c fromBlock toBlock s2 of
          (Some err, s3) \<Rightarrow> Returns (Some (Wrap ''failed to mark transactions as reverted'' err), ev, s3, m1, r1)
        | (None, s3) \<Rightarrow>
       (let ev' = ev\<lparr>re_processed := True\<rparr> in
        case st_SaveReorgEvent S ev' s3 of
          (err, s4) \<Rightarrow> Returns (wrap_err ''failed to save reorg event'' err, ev', s4, m1, r1)))))))"

definition handleReorgEvent ::
    "'s storage \<Rightarrow> 'r redis \<Rightarrow> lock_manager \<Rightarrow> detector_config \<Rightarrow> int \<Rightarrow> reorg_event
      \<Rightarrow> reorg_detector \<times> ('s, 'r) auto_world \<Rightarrow> (reorg_detector \<times> ('s, 'r) auto_world) outcome" where
  "handleReorgEvent S R lm cfg now ev dw =
     (let (d, s, m, r) = dw; c = re_chain_id ev;
          busy = (\<lambda>b. set_state c (\<lambda>st. st\<lparr>cds_is_processing_reorg := b\<rparr>)) in
      if rd_state d c = None then Panics
      else
     (let d1 = busy True d in
      case st_SaveReorgEvent S ev s of
        (Some e, s1) \<Rightarrow> Returns (busy False d1, s1, m, r)
      | (None, s1) \<Rightarrow>
          if dcf_enable_auto_processing cfg then
            outcome_bind (autoProcessReorg S R lm now ev (s1, m, r)) (\<lambda>(e, ev', w).
              Returns (busy False d1, w))
          else Returns (busy False d1, s1, m, r)))"

text \<open>One check of one chain, as each goroutine of \<open>checkAllChains\<close> runs it.\<close>

definition checkChain ::
    "'s storage \<Rightarrow> 'c chain_client \<Rightarrow> 'r redis \<Rightarrow> lock_manager \<Rightarrow> detector_config \<Rightarrow> int \<Rightarrow> string
      \<Rightarrow> reorg_detector \<times> 'c \<times> ('s, 'r) auto_world \<Rightarrow> (reorg_detector \<times> 'c \<times> ('s, 'r) auto_world) outcome" where
  "checkChain S cl R lm cfg now chainID x =
     (let (d, c, s, m, r) = x in
      case rd_state d chainID of
        None \<Rightarrow> Returns x
      | Some st \<Rightarrow>
          if cds_is_processing_reorg st then Returns x
          else outcome_bind (DetectReorg S cl m cfg now chainID s (d, c)) (\<lambda>(res, d1, c1).
            case res of
              Inl e \<Rightarrow> outcome_bind (handleDetectionError chainID d1) (\<lambda>d2. Returns (d2, c1, s, m, r))
            | Inr None \<Rightarrow> Returns (d1, c1, s, m, r)
            | Inr (Some ev) \<Rightarrow>
                outcome_bind (handleReorgEvent S R lm cfg now ev (d1, s, m, r)) (\<lambda>(d2, w).
                  Returns (d2, c1, w))))"

definition detector_GetStatistics :: "string \<Rightarrow> reorg_detector \<Rightarrow> go_error + detector_statistics" where
  "detector_GetStatistics chainID d =
     (case rd_statistics d chainID of
        None \<Rightarrow> Inl (Msg (''statistics not found for chain '' @ chainID))
      | Some st \<Rightarrow> Inr st)"

definition detector_GetReorgHistory :: "'s storage \<Rightarrow> string \<Rightarrow> int \<Rightarrow> 's \<Rightarrow> go_error + reorg_event list" where
  "detector_GetReorgHistory S chainID limit s = st_GetReorgEvents S chainID limit 0 s"

section \<open>The search finds the fork\<close>

text \<open>
  \<open>C\<close> is the chain the node serves, \<open>L\<close> the stored one; they agree at block \<open>j\<close> and differ at the \<open>d\<close>
  blocks above it.
\<close>

lemma fork_loop_finds:
  assumes "\<And>n c. cl_GetBlock cl n c = (Inr (Some (C n)), c)" "\<And>n. blk_number (L n) = n"
    and "\<forall>i < d. st_GetBlock S chainID (j + of_nat i) s = Inr (L (j + of_nat i))"
    and "blk_hash (C j) = blk_hash (L j)"
    and "\<forall>i. 0 < i \<and> i \<le> d \<longrightarrow> blk_hash (C (j + of_nat i)) \<noteq> blk_hash (L (j + of_nat i))"
    and "d \<le> 99" "unat j + d < 18446744073709551616" "thr \<le> of_nat d" "i \<le> d"
  shows "fork_loop S cl thr chainID s (100 - (d - i)) (L (j + of_nat i)) c
    = Returns (Inr (Some (L j, C (j + 1), of_nat d)), c)"
  using assms(9)
proof (induction i)
  case 0
  have "100 - (d - 0) = Suc (99 - d)" using assms(6) by simp
  then show ?case using assms(4,6,8) by (simp add: assms(1,2) Let_def)
next
  case (Suc i)
  have r: "100 - (d - Suc i) = Suc (100 - (d - i))" using Suc.prems assms(6) by simp
  let ?n = "j + of_nat (Suc i)"
  have "unat (of_nat (Suc i) :: u64) = Suc i" using Suc.prems assms(7) by (intro unat_of_nat_u64) simp
  then have "unat ?n = unat j + Suc i" using Suc.prems assms(7) by (subst unat_plus_u64) simp_all
  then have n: "?n \<noteq> 0" by (metis add_Suc_right nat.distinct(1) unsigned_0)
  have p: "?n - 1 = j + of_nat i" by simp
  have ne: "blk_hash (C ?n) \<noteq> blk_hash (L ?n)" using assms(5) Suc.prems by blast
  have "st_GetBlock S chainID (?n - 1) s = Inr (L (j + of_nat i))" using assms(3) Suc.prems p by simp
  then have "fork_loop S cl thr chainID s (Suc (100 - (d - i))) (L ?n) c
      = fork_loop S cl thr chainID s (100 - (d - i)) (L (j + of_nat i)) c"
    using n ne by (simp add: assms(1,2) del: of_nat_Suc)
  with Suc r show ?case by simp
qed

text \<open>
  C10: The detector finds the fork: when the node's chain and the stored chain agree at a block \<open>j\<close> and
  differ at the \<open>d\<close> stored blocks above it, with \<open>d\<close> at least the threshold and at most 99, the search
  ends with an event whose old block is \<open>j\<close>, whose new block is the node's block after it, and whose
  depth is \<open>d\<close>.
\<close>

theorem findForkPoint_finds:
  assumes "\<And>n c. cl_GetBlock cl n c = (Inr (Some (C n)), c)" "\<And>n. blk_number (L n) = n"
    and "\<forall>i < d. st_GetBlock S chainID (j + of_nat i) s = Inr (L (j + of_nat i))"
    and "blk_hash (C j) = blk_hash (L j)"
    and "\<forall>i. 0 < i \<and> i \<le> d \<longrightarrow> blk_hash (C (j + of_nat i)) \<noteq> blk_hash (L (j + of_nat i))"
    and "d \<le> 99" "unat j + d < 2 ^ 64" "dcf_reorg_depth_threshold cfg \<le> of_nat d"
    and "GetScanner chainID m = Returns (Inr sc)" "rd_statistics dt chainID \<noteq> None"
  shows "\<exists>ev dt'. findForkPoint S cl m cfg now chainID (L (j + of_nat d)) s (dt, c) = Returns (Inr (Some ev), dt', c)
    \<and> re_old_block_number ev = j \<and> re_old_block_hash ev = blk_hash (L j)
    \<and> re_new_block_number ev = blk_number (C (j + 1)) \<and> re_new_block_hash ev = blk_hash (C (j + 1))
    \<and> re_depth ev = of_nat d"
proof -
  have "fork_loop S cl (dcf_reorg_depth_threshold cfg) chainID s 100 (L (j + of_nat d)) c
      = Returns (Inr (Some (L j, C (j + 1), of_nat d)), c)"
    using fork_loop_finds [OF assms(1-6) _ assms(8), of d] assms(7) by simp
  then show ?thesis using assms(2,9,10) by (simp add: findForkPoint_def createReorgEvent_def)
qed

definition served :: "u64 \<Rightarrow> block" where
  "served n = mk_block n (if n \<le> 5 then ''h'' else ''b'') ''p'' []"

definition local_chain :: "u64 \<Rightarrow> block" where
  "local_chain n = mk_block n ''h'' ''p'' []"

definition forked_client :: "unit chain_client" where
  "forked_client =
     \<lparr>cl_GetBlock = (\<lambda>n s. (Inr (Some (served n)), s)), cl_GetFinalizedHeight = (\<lambda>s. (Inr 0, s)),
      cl_GetCurrentHeight = (\<lambda>s. (Inr 9, s)), cl_BatchGetBlocks = (\<lambda>ns s. (Inr (map (Some \<circ> served) ns), s)),
      cl_DetectReorg = (\<lambda>n h s. (Inr (False, 0), s))\<rparr>"

definition local_db :: mem_db where
  "local_db = empty_db\<lparr>md_blocks := map (\<lambda>n. block_model (local_chain n)) [5, 6, 7]\<rparr>"

definition eth_detector :: reorg_detector where
  "eth_detector =
     \<lparr>rd_state = [''eth'' \<mapsto> fresh_detection 0 ''eth''], rd_statistics = [''eth'' \<mapsto> fresh_statistics ''eth''],
      rd_running = True, rd_loop = True, rd_ctx_done = False\<rparr>"

definition eth_manager :: scheduler_manager where
  "eth_manager = \<lparr>scm_scanners = [(''eth'', scanner_at (wm_at 100 88))], scm_locked = False\<rparr>"

theorem findForkPoint_finds_witness:
  "\<exists>ev dt'. findForkPoint db_storage forked_client eth_manager default_detector_config 3 ''eth'' (local_chain 7)
      (mem_gorm, local_db) (eth_detector, ()) = Returns (Inr (Some ev), dt', ())
    \<and> re_old_block_number ev = 5 \<and> re_new_block_number ev = 6 \<and> re_depth ev = 2"
proof -
  have less2: "i < 2 \<longleftrightarrow> i = 0 \<or> i = 1" for i :: nat by auto
  have pos2: "0 < i \<and> i \<le> 2 \<longleftrightarrow> i = 1 \<or> i = 2" for i :: nat by auto
  have g: "st_GetBlock db_storage ''eth'' (5 + of_nat i) (mem_gorm, local_db) = Inr (local_chain (5 + of_nat i))"
    if "i < 2" for i :: nat
    using that unfolding less2
    by (auto simp: db_storage_def db_GetBlock_def db_found_def mem_gorm_def mem_table_def local_db_def empty_db_def
        local_chain_def block_model_def mk_block_def)
  have h: "blk_hash (served (5 + of_nat i)) \<noteq> blk_hash (local_chain (5 + of_nat i))" if "0 < i \<and> i \<le> 2" for i :: nat
    using that unfolding pos2 by (auto simp: served_def local_chain_def)
  have "\<exists>ev dt'. findForkPoint db_storage forked_client eth_manager default_detector_config 3 ''eth''
      (local_chain (5 + of_nat 2)) (mem_gorm, local_db) (eth_detector, ()) = Returns (Inr (Some ev), dt', ())
    \<and> re_old_block_number ev = 5 \<and> re_old_block_hash ev = blk_hash (local_chain 5)
    \<and> re_new_block_number ev = blk_number (served (5 + 1)) \<and> re_new_block_hash ev = blk_hash (served (5 + 1))
    \<and> re_depth ev = of_nat 2"
    by (rule findForkPoint_finds [where sc = "scanner_at (wm_at 100 88)"])
      (use g h in \<open>simp_all add: forked_client_def local_chain_def served_def default_detector_config_def
        eth_manager_def GetScanner_def eth_detector_def\<close>)
  then show ?thesis by (simp add: served_def) blast
qed

section \<open>What the detector's event undoes\<close>

text \<open>
  What the detector relies on: a client that is asked for a block by its number answers with a block
  of that number.
\<close>

locale numbered_client =
  fixes cl :: "'c chain_client"
  assumes served_number: "cl_GetBlock cl n c = (Inr (Some b), c') \<Longrightarrow> blk_number b = n"
begin

lemma fork_loop_new:
  "fork_loop S cl thr chainID s r cur c = Returns (Inr (Some (old, new, depth)), c')
    \<Longrightarrow> blk_number new = blk_number old + 1"
proof (induction r arbitrary: cur c)
  case (Suc r)
  then show ?case
    by (auto simp: Let_def split: prod.split_asm sum.split_asm option.split_asm if_split_asm dest: served_number)
qed simp

lemma findForkPoint_new:
  assumes "findForkPoint S cl m cfg now chainID b s dc = Returns (Inr (Some ev), dc')"
  shows "re_new_block_number ev = re_old_block_number ev + 1"
proof -
  obtain d c where dc: "dc = (d, c)" by (cases dc)
  let ?f = "fork_loop S cl (dcf_reorg_depth_threshold cfg) chainID s 100 b c"
  obtain sc where g: "GetScanner chainID m = Returns (Inr sc)"
    using assms by (cases "GetScanner chainID m") (auto simp: findForkPoint_def dc split: sum.split_asm)
  obtain res c1 where f0: "?f = Returns (res, c1)"
    using assms g by (cases ?f) (auto simp: findForkPoint_def dc)
  have "res \<noteq> Inr None" "\<nexists>e. res = Inl e"
    using assms g f0 by (auto simp: findForkPoint_def dc)
  then obtain x where x: "res = Inr (Some x)" by (cases res) auto
  obtain old new depth where y: "x = (old, new, depth)" by (rule prod_cases3)
  note f = f0 [unfolded x y]
  have e: "re_new_block_number ev = blk_number new" "re_old_block_number ev = blk_number old"
    using assms g f by (auto simp: findForkPoint_def dc createReorgEvent_def split: if_split_asm)
  show ?thesis unfolding e by (rule fork_loop_new [OF f])
qed

end

lemma db_auto_blocks:
  assumes "gorm_laws (fst s)" "gorm_frame (fst s)"
    and "autoProcessReorg db_storage R lm now ev (s, m, r) = Returns (None, ev', s', m', r')"
  shows "block_rows s' = filter (\<lambda>b. \<not> in_range ev b) (block_rows s)"
proof -
  let ?c = "re_chain_id ev" and ?lo = "re_new_block_number ev" and ?hi = "re_old_block_number ev"
  obtain s1 s2 s3 where 1: "db_DeleteBlocks ?c ?lo ?hi s = (None, s1)"
    and 2: "db_DeleteLogs ?c ?lo ?hi s1 = (None, s2)"
    and 3: "db_MarkTransactionsAsReverted ?c ?lo ?hi s2 = (None, s3)"
    and 4: "db_SaveReorgEvent (ev\<lparr>re_processed := True\<rparr>) s3 = (None, s')"
    using assms(3) by (auto simp: autoProcessReorg_def outcome_bind_Returns db_storage_def Let_def
        split: option.split_asm prod.split_asm)
  have s1: "fst s1 = fst s \<and> block_rows s1 = filter (\<lambda>b. \<not> in_range ev b) (block_rows s)"
    using db_DeleteBlocks_blocks [OF assms(1) 1] by (simp add: in_range_def)
  have s2: "fst s2 = fst s1 \<and> block_rows s2 = block_rows s1" by (rule db_DeleteLogs_blocks [OF _ 2]) (use s1 assms in simp)
  have s3: "fst s3 = fst s2 \<and> block_rows s3 = block_rows s2" by (rule db_Mark_blocks [OF _ 3]) (use s1 s2 assms in simp)
  have "block_rows s' = block_rows s3" using db_SaveReorgEvent_blocks [OF _ 4] s1 s2 s3 assms(2) by simp
  with s1 s2 s3 show ?thesis by simp
qed


definition forked_event :: reorg_event where
  "forked_event =
     \<lparr>re_chain_id = ''eth'', re_detected_at = 3, re_old_block_number = 5, re_old_block_hash = ''h'',
      re_new_block_number = 6, re_new_block_hash = ''b'', re_depth = 2, re_affected_txs = [], re_processed = False\<rparr>"

lemma forked_find:
  "\<exists>dt'. findForkPoint db_storage forked_client eth_manager default_detector_config 3 ''eth'' (local_chain 7)
    (mem_gorm, local_db) (eth_detector, ()) = Returns (Inr (Some forked_event), dt')"
proof -
  have less2: "i < 2 \<longleftrightarrow> i = 0 \<or> i = 1" for i :: nat by auto
  have pos2: "0 < i \<and> i \<le> 2 \<longleftrightarrow> i = 1 \<or> i = 2" for i :: nat by auto
  have g: "st_GetBlock db_storage ''eth'' (5 + of_nat i) (mem_gorm, local_db) = Inr (local_chain (5 + of_nat i))"
    if "i < 2" for i :: nat
    using that unfolding less2
    by (auto simp: db_storage_def db_GetBlock_def db_found_def mem_gorm_def mem_table_def local_db_def empty_db_def
        local_chain_def block_model_def mk_block_def)
  have h: "blk_hash (served (5 + of_nat i)) \<noteq> blk_hash (local_chain (5 + of_nat i))" if "0 < i \<and> i \<le> 2" for i :: nat
    using that unfolding pos2 by (auto simp: served_def local_chain_def)
  have "fork_loop db_storage forked_client 1 ''eth'' (mem_gorm, local_db) (100 - (2 - 2)) (local_chain (5 + of_nat 2)) ()
      = Returns (Inr (Some (local_chain 5, served (5 + 1), of_nat 2)), ())"
    by (rule fork_loop_finds [where C = served])
      (use g h in \<open>simp_all add: forked_client_def local_chain_def served_def\<close>)
  then show ?thesis
    by (simp add: findForkPoint_def createReorgEvent_def default_detector_config_def eth_manager_def GetScanner_def
        eth_detector_def forked_event_def local_chain_def served_def)
qed

lemma mem_auto:
  "\<exists>e' s' m' r'. autoProcessReorg db_storage mem_redis \<lparr>lmg_default_ttl = 1\<rparr> 3 forked_event
      ((mem_gorm, d), eth_manager, \<lambda>k. None) = Returns (None, e', s', m', r')"
proof -
  obtain m r where w: "resetScannerWatermark mem_redis \<lparr>lmg_default_ttl = 1\<rparr> 3 forked_event (eth_manager, \<lambda>k. None)
      = Returns (None, m, r)"
    by (simp add: resetScannerWatermark_def eth_manager_def GetScanner_def ResetWatermark_def ResetToHeight_def
        with_lock_def RedisLock_Lock_def mem_redis_def reset_body_def saveWatermark_def wm_at_def safe_height_def
        forked_event_def Let_def case_prod_beta)
  have u: "gt_update (gm_txs mem_gorm) P f d = (None, d\<lparr>md_txs := map (\<lambda>r. if P r then f r else r) (md_txs d)\<rparr>)" for P f d
    by (simp add: mem_gorm_def mem_table_def)
  show ?thesis
    by (simp add: autoProcessReorg_def w db_storage_def db_DeleteBlocks_def db_DeleteLogs_def
        db_MarkTransactionsAsReverted_def db_SaveReorgEvent_def on_db_def mem_ops u Let_def)
qed


text \<open>A reorganisation found at equal heights is not counted, though its depth is added up.\<close>

lemma equal_height_not_counted:
  assumes "GetScanner c m = Returns (Inr sc)" "rd_statistics d c = Some st" "rd_state d c \<noteq> None"
    and "cl_GetCurrentHeight cl x = (Inr (blk_number lb), x)" "st_GetLatestBlock S c s = Inr lb"
    and "cl_GetBlock cl (blk_number lb) x = (Inr (Some cb), x)" "blk_hash cb \<noteq> blk_hash lb"
  shows "\<exists>ev d' st'. DetectReorg S cl m cfg now c s (d, x) = Returns (Inr (Some ev), d', x)
    \<and> rd_statistics d' c = Some st' \<and> dst_reorgs_detected st' = dst_reorgs_detected st
    \<and> dst_total_reorg_depth st' = dst_total_reorg_depth st + 1
    \<and> snd (dst_average_reorg_depth st') = dst_reorgs_detected st"
  using assms
  by (simp add: DetectReorg_def createReorgEvent_def set_statistics_def set_state_def depth_statistics_def Let_def)

end
