(* ===== verification/EvmClient.thy ===== *)
theory EvmClient
  imports Json
begin

text \<open>
  \<open>internal/node/evm_client.go\<close>: the client of an EVM chain. The node manager's \<open>Call\<close> and \<open>BatchCall\<close>
  are parameters that take a method and its parameters and return a decoded JSON value; the parsers
  of blocks, transactions, receipts and logs are translated branch by branch. The raw data the source
  keeps beside each value for debugging is left out, as in \<open>GoTypes\<close>.
\<close>

section \<open>The parsers\<close>

definition evm_parseTransaction :: "string \<Rightarrow> json \<Rightarrow> go_error + transaction" where
  "evm_parseTransaction chainID result =
     andthen (obj_of result ''invalid transaction data format'') (\<lambda>txData.
     andthen (str_field txData ''hash'' ''invalid transaction hash format'') (\<lambda>hash.
     andthen (str_field txData ''from'' ''invalid from address format'') (\<lambda>from.
     let to = str_or_empty txData ''to'' in
     andthen (big_field txData ''value'' ''invalid value format'' ''failed to parse value'') (\<lambda>val.
     andthen (big_field txData ''gasPrice'' ''invalid gas price format'' ''failed to parse gas price'') (\<lambda>gasPrice.
       Inr \<lparr>tx_chain_id = chainID, tx_hash = hash, tx_block_number = 0, tx_block_hash = '''', tx_from = from,
            tx_to = to, tx_value = Some val, tx_gas_price = Some gasPrice, tx_gas_used = 0,
            tx_status = TxPending, tx_timestamp = zero_time, tx_index = 0,
            tx_input_data = str_or_empty txData ''input'', tx_logs = []\<rparr>)))))"

fun parse_block_txs :: "string \<Rightarrow> u64 \<Rightarrow> string \<Rightarrow> nat \<Rightarrow> json list \<Rightarrow> transaction list" where
  "parse_block_txs chainID number hash i [] = []"
| "parse_block_txs chainID number hash i (txData # rest) =
     (case evm_parseTransaction chainID txData of
        Inl e \<Rightarrow> parse_block_txs chainID number hash (Suc i) rest
      | Inr t \<Rightarrow> t\<lparr>tx_block_number := number, tx_block_hash := hash, tx_index := of_nat i\<rparr>
                 # parse_block_txs chainID number hash (Suc i) rest)"

definition evm_parseBlock :: "string \<Rightarrow> json \<Rightarrow> go_error + block" where
  "evm_parseBlock chainID result =
     andthen (obj_of result ''invalid block data format'') (\<lambda>blockData.
     andthen (number_field blockData ''number'') (\<lambda>number.
     andthen (str_field blockData ''hash'' ''invalid block hash format'') (\<lambda>hash.
     andthen (str_field blockData ''parentHash'' ''invalid parent hash format'') (\<lambda>parentHash.
     andthen (big_field blockData ''timestamp'' ''invalid timestamp format'' ''failed to parse timestamp'') (\<lambda>timestamp.
       Inr \<lparr>blk_chain_id = chainID, blk_number = number, blk_hash = hash, blk_parent_hash = parentHash,
            blk_timestamp = TimestampToTime (big_Int64 timestamp),
            blk_transactions = (case arr_field blockData ''transactions'' of
                None \<Rightarrow> []
              | Some txs \<Rightarrow> parse_block_txs chainID number hash 0 txs)\<rparr>)))))"

definition evm_parseLog :: "string \<Rightarrow> json \<Rightarrow> go_error + tx_log" where
  "evm_parseLog chainID result =
     andthen (obj_of result ''invalid log data format'') (\<lambda>logData.
     andthen (str_field logData ''transactionHash'' ''invalid transaction hash format'') (\<lambda>txHash.
     andthen (number_field logData ''blockNumber'') (\<lambda>blockNumber.
     andthen (str_field logData ''address'' ''invalid address format'') (\<lambda>address.
     andthen (case arr_field logData ''topics'' of None \<Rightarrow> Inl (Msg ''invalid topics format'') | Some ts \<Rightarrow> Inr ts) (\<lambda>topics.
     let topicStrings = List.map_filter (\<lambda>t. case t of JStr s \<Rightarrow> Some s | _ \<Rightarrow> None) topics;
         data = str_or_empty logData ''data'' in
     andthen (big_field logData ''logIndex'' ''invalid log index format'' ''failed to parse log index'') (\<lambda>logIndex.
     andthen (big_field logData ''transactionIndex'' ''invalid transaction index format''
                ''failed to parse transaction index'') (\<lambda>txIndex.
       Inr \<lparr>log_chain_id = chainID, log_tx_hash = txHash, log_block_number = blockNumber, log_address = address,
            log_topics = topicStrings, log_data = data, log_log_index = big_Uint64 logIndex,
            log_tx_index = big_Uint64 txIndex\<rparr>)))))))"

definition evm_parseTransactionReceipt :: "string \<Rightarrow> json \<Rightarrow> go_error + transaction" where
  "evm_parseTransactionReceipt chainID result =
     andthen (obj_of result ''invalid receipt data format'') (\<lambda>receiptData.
     andthen (str_field receiptData ''transactionHash'' ''invalid transaction hash format'') (\<lambda>hash.
     andthen (number_field receiptData ''blockNumber'') (\<lambda>blockNumber.
     andthen (str_field receiptData ''blockHash'' ''invalid block hash format'') (\<lambda>blockHash.
     andthen (big_field receiptData ''status'' ''invalid status format'' ''failed to parse status'') (\<lambda>status.
     andthen (big_field receiptData ''gasUsed'' ''invalid gas used format'' ''failed to parse gas used'') (\<lambda>gasUsed.
     andthen (big_field receiptData ''transactionIndex'' ''invalid transaction index format''
                ''failed to parse transaction index'') (\<lambda>txIndex.
       Inr \<lparr>tx_chain_id = chainID, tx_hash = hash, tx_block_number = blockNumber, tx_block_hash = blockHash,
            tx_from = '''', tx_to = '''', tx_value = None, tx_gas_price = None, tx_gas_used = big_Uint64 gasUsed,
            tx_status = (if big_Int64 status = 1 then TxConfirmed else TxReverted), tx_timestamp = zero_time,
            tx_index = big_Uint64 txIndex, tx_input_data = '''',
            tx_logs = (case arr_field receiptData ''logs'' of None \<Rightarrow> [] | Some ls \<Rightarrow> oks (evm_parseLog chainID) ls)\<rparr>)))))))"

section \<open>The calls\<close>

type_synonym 'c rpc_call = "string \<Rightarrow> json list \<Rightarrow> 'c \<Rightarrow> (go_error + json) \<times> 'c"
type_synonym 'c rpc_batch = "(string \<times> json list) list \<Rightarrow> 'c \<Rightarrow> (go_error + json list) \<times> 'c"

definition evm_GetBlock :: "'c rpc_call \<Rightarrow> string \<Rightarrow> u64 \<Rightarrow> 'c \<Rightarrow> (go_error + block) \<times> 'c" where
  "evm_GetBlock call chainID number c =
     (case call ''eth_getBlockByNumber'' [JStr (''0x'' @ fmt_nat 16 (unat number)), JBool True] c of
        (r, c') \<Rightarrow> (andthen (wrap_res (''failed to get block '' @ fmt_u64 number) r) (evm_parseBlock chainID), c'))"

definition evm_GetBlockByHash :: "'c rpc_call \<Rightarrow> string \<Rightarrow> string \<Rightarrow> 'c \<Rightarrow> (go_error + block) \<times> 'c" where
  "evm_GetBlockByHash call chainID hash c =
     (case call ''eth_getBlockByHash'' [JStr hash, JBool True] c of
        (r, c') \<Rightarrow> (andthen (wrap_res (''failed to get block by hash '' @ hash) r) (evm_parseBlock chainID), c'))"

definition evm_GetLatestBlock :: "'c rpc_call \<Rightarrow> string \<Rightarrow> 'c \<Rightarrow> (go_error + block) \<times> 'c" where
  "evm_GetLatestBlock call chainID c =
     (case call ''eth_getBlockByNumber'' [JStr ''latest'', JBool True] c of
        (r, c') \<Rightarrow> (andthen (wrap_res ''failed to get latest block'' r) (evm_parseBlock chainID), c'))"

definition evm_GetTransaction :: "'c rpc_call \<Rightarrow> string \<Rightarrow> string \<Rightarrow> 'c \<Rightarrow> (go_error + transaction) \<times> 'c" where
  "evm_GetTransaction call chainID hash c =
     (case call ''eth_getTransactionByHash'' [JStr hash] c of
        (r, c') \<Rightarrow> (andthen (wrap_res (''failed to get transaction '' @ hash) r) (evm_parseTransaction chainID), c'))"

definition evm_GetTransactionReceipt :: "'c rpc_call \<Rightarrow> string \<Rightarrow> string \<Rightarrow> 'c \<Rightarrow> (go_error + transaction) \<times> 'c" where
  "evm_GetTransactionReceipt call chainID hash c =
     (case call ''eth_getTransactionReceipt'' [JStr hash] c of
        (r, c') \<Rightarrow> (andthen (wrap_res (''failed to get transaction receipt '' @ hash) r)
                     (evm_parseTransactionReceipt chainID), c'))"

definition block_tag :: "string \<Rightarrow> string" where
  "block_tag finalizationType =
     (if finalizationType = ''finalized'' then ''finalized''
      else if finalizationType = ''safe'' then ''safe'' else ''latest'')"

definition evm_GetFinalizedHeight :: "'c rpc_call \<Rightarrow> string \<Rightarrow> 'c \<Rightarrow> (go_error + u64) \<times> 'c" where
  "evm_GetFinalizedHeight call finalizationType c =
     (case call ''eth_getBlockByNumber'' [JStr (block_tag finalizationType), JBool False] c of
        (r, c') \<Rightarrow>
          (andthen (wrap_res ''failed to get finalized block'' r) (\<lambda>j.
           andthen (obj_of j ''invalid block data format'') (\<lambda>blockData.
           andthen (str_field blockData ''number'' ''invalid block number format'') ParseBlockNumber)), c'))"

definition evm_GetCurrentHeight :: "'c rpc_call \<Rightarrow> 'c \<Rightarrow> (go_error + u64) \<times> 'c" where
  "evm_GetCurrentHeight call c =
     (case call ''eth_blockNumber'' [] c of
        (r, c') \<Rightarrow>
          (andthen (wrap_res ''failed to get current block number'' r) (\<lambda>j.
             case j of JStr h \<Rightarrow> ParseBlockNumber h | _ \<Rightarrow> Inl (Msg ''invalid block number format'')), c'))"

text \<open>
  The log line of a result that does not parse reads \<open>numbers[i]\<close>: it panics when there are more
  results than requests.
\<close>

fun batch_parse :: "(json \<Rightarrow> go_error + 'b) \<Rightarrow> nat \<Rightarrow> nat \<Rightarrow> json list \<Rightarrow> 'b list outcome" where
  "batch_parse p n i [] = Returns []"
| "batch_parse p n i (r # rs) =
     (case p r of
        Inr b \<Rightarrow> outcome_bind (batch_parse p n (Suc i) rs) (\<lambda>bs. Returns (b # bs))
      | Inl e \<Rightarrow> if i < n then batch_parse p n (Suc i) rs else Panics)"

definition evm_BatchGetBlocks ::
    "'c rpc_batch \<Rightarrow> string \<Rightarrow> u64 list \<Rightarrow> 'c \<Rightarrow> ((go_error + block list) \<times> 'c) outcome" where
  "evm_BatchGetBlocks batch chainID numbers c =
     (if numbers = [] then Returns (Inr [], c)
      else case batch (map (\<lambda>n. (''eth_getBlockByNumber'', [JStr (''0x'' @ fmt_nat 16 (unat n)), JBool True])) numbers) c of
        (Inl e, c') \<Rightarrow> Returns (Inl (Wrap ''failed to batch get blocks'' e), c')
      | (Inr results, c') \<Rightarrow>
          outcome_bind (batch_parse (evm_parseBlock chainID) (length numbers) 0 results) (\<lambda>bs. Returns (Inr bs, c')))"

definition evm_BatchGetTransactions ::
    "'c rpc_batch \<Rightarrow> string \<Rightarrow> string list \<Rightarrow> 'c \<Rightarrow> ((go_error + transaction list) \<times> 'c) outcome" where
  "evm_BatchGetTransactions batch chainID hashes c =
     (if hashes = [] then Returns (Inr [], c)
      else case batch (map (\<lambda>h. (''eth_getTransactionByHash'', [JStr h])) hashes) c of
        (Inl e, c') \<Rightarrow> Returns (Inl (Wrap ''failed to batch get transactions'' e), c')
      | (Inr results, c') \<Rightarrow>
          outcome_bind (batch_parse (evm_parseTransaction chainID) (length hashes) 0 results) (\<lambda>ts. Returns (Inr ts, c')))"

definition evm_GetChainID :: "'c rpc_call \<Rightarrow> 'c \<Rightarrow> (go_error + string) \<times> 'c" where
  "evm_GetChainID call c =
     (case call ''eth_chainId'' [] c of
        (r, c') \<Rightarrow>
          (andthen (wrap_res ''failed to get chain ID'' r) (\<lambda>j. case j of
             JStr h \<Rightarrow> andthen (wrap_res ''failed to parse chain ID'' (ParseBigInt h)) (\<lambda>i. Inr (fmt_int i))
           | _ \<Rightarrow> Inl (Msg ''invalid chain ID format'')), c'))"

text \<open>The loop counts down from the start block to 1; the block number is its fuel.\<close>

fun ancestor_loop :: "'c rpc_call \<Rightarrow> string \<Rightarrow> nat \<Rightarrow> 'c \<Rightarrow> (go_error + u64) \<times> 'c" where
  "ancestor_loop call chainID 0 c = (Inl (Msg ''no common ancestor found''), c)"
| "ancestor_loop call chainID (Suc n) c =
     (case evm_GetBlock call chainID (of_nat (Suc n)) c of
        (Inl e, c') \<Rightarrow> ancestor_loop call chainID n c'
      | (Inr b, c') \<Rightarrow> (Inr (of_nat (Suc n)), c'))"

definition findCommonAncestor :: "'c rpc_call \<Rightarrow> string \<Rightarrow> u64 \<Rightarrow> 'c \<Rightarrow> (go_error + u64) \<times> 'c" where
  "findCommonAncestor call chainID startBlock = ancestor_loop call chainID (unat startBlock)"

definition evm_DetectReorg :: "'c rpc_call \<Rightarrow> string \<Rightarrow> u64 \<Rightarrow> string \<Rightarrow> 'c \<Rightarrow> (go_error + bool \<times> u64) \<times> 'c" where
  "evm_DetectReorg call chainID oldBlockNumber oldBlockHash c =
     (case evm_GetBlock call chainID oldBlockNumber c of
        (Inl e, c1) \<Rightarrow> (Inl (Wrap ''failed to get current block'' e), c1)
      | (Inr currentBlock, c1) \<Rightarrow>
          if blk_hash currentBlock \<noteq> oldBlockHash then
            (case findCommonAncestor call chainID oldBlockNumber c1 of
               (Inl e, c2) \<Rightarrow> (Inl (Wrap ''failed to find common ancestor'' e), c2)
             | (Inr commonAncestor, c2) \<Rightarrow> (Inr (True, commonAncestor), c2))
          else (Inr (False, oldBlockNumber), c1))"

section \<open>The parser against the JSON of a node\<close>

text \<open>
  How a node renders a block: numbers in hexadecimal with the prefix \<open>0x\<close>, transactions as objects.
\<close>

definition tx_json :: "transaction \<Rightarrow> json" where
  "tx_json t =
     JObj [(''hash'', JStr (tx_hash t)), (''from'', JStr (tx_from t)), (''to'', JStr (tx_to t)),
           (''value'', hex (nat (the (tx_value t)))), (''gasPrice'', hex (nat (the (tx_gas_price t)))),
           (''input'', JStr (tx_input_data t))]"

definition block_json :: "block \<Rightarrow> json" where
  "block_json b =
     JObj [(''number'', hex (unat (blk_number b))), (''hash'', JStr (blk_hash b)),
           (''parentHash'', JStr (blk_parent_hash b)), (''timestamp'', hex (nat (blk_timestamp b div 10 ^ 9))),
           (''transactions'', JArr (map tx_json (blk_transactions b)))]"

definition fresh_tx :: "string \<Rightarrow> block \<Rightarrow> nat \<Rightarrow> transaction \<Rightarrow> bool" where
  "fresh_tx c b i t \<longleftrightarrow>
     tx_chain_id t = c \<and> tx_block_number t = blk_number b \<and> tx_block_hash t = blk_hash b \<and> tx_index t = of_nat i
     \<and> (\<exists>v. tx_value t = Some (int v)) \<and> (\<exists>g. tx_gas_price t = Some (int g)) \<and> tx_gas_used t = 0
     \<and> tx_status t = TxPending \<and> tx_timestamp t = zero_time \<and> tx_logs t = []"

fun fresh_txs :: "string \<Rightarrow> block \<Rightarrow> nat \<Rightarrow> transaction list \<Rightarrow> bool" where
  "fresh_txs c b i [] = True"
| "fresh_txs c b i (t # ts) = (fresh_tx c b i t \<and> fresh_txs c b (Suc i) ts)"

lemma parse_tx_json:
  assumes "fresh_tx c b i t"
  shows "\<exists>t0. evm_parseTransaction c (tx_json t) = Inr t0
    \<and> t0\<lparr>tx_block_number := blk_number b, tx_block_hash := blk_hash b, tx_index := of_nat i\<rparr> = t"
proof -
  obtain v g where "tx_value t = Some (int v)" "tx_gas_price t = Some (int g)"
    using assms by (auto simp: fresh_tx_def)
  then show ?thesis using assms
    by (simp add: evm_parseTransaction_def tx_json_def obj_of_def str_field_def str_or_empty_def big_field_def hex_def
        fresh_tx_def)
qed

lemma parse_block_txs_json:
  "fresh_txs c b i ts \<Longrightarrow> parse_block_txs c (blk_number b) (blk_hash b) i (map tx_json ts) = ts"
proof (induction ts arbitrary: i)
  case (Cons t ts)
  obtain t0 where "evm_parseTransaction c (tx_json t) = Inr t0"
      "t0\<lparr>tx_block_number := blk_number b, tx_block_hash := blk_hash b, tx_index := of_nat i\<rparr> = t"
    using parse_tx_json [of c b i t] Cons.prems by auto
  then show ?case using Cons by simp
qed simp

text \<open>
  C14: What a node renders, the client reads: a block whose transactions are fresh (pending, with the
  number, hash and position of the block) and whose time is a whole number of seconds parses back
  from the JSON of a node to exactly itself.
\<close>

theorem evm_parseBlock_roundtrip:
  assumes "blk_chain_id b = c" "fresh_txs c b 0 (blk_transactions b)"
    and "blk_timestamp b = secs * 10 ^ 9" "0 \<le> secs" "secs < 2 ^ 63"
  shows "evm_parseBlock c (block_json b) = Inr b"
proof -
  have "big_Int64 secs = secs" using assms(4,5) unfolding big_Int64_def by (intro wrap_i64_id) auto
  then show ?thesis using assms parse_block_txs_json [OF assms(2)]
    by (simp add: evm_parseBlock_def block_json_def obj_of_def number_field_def str_field_def big_field_def
        arr_field_def hex_def TimestampToTime_def)
qed

definition eth_block :: block where
  "eth_block =
     \<lparr>blk_chain_id = ''eth'', blk_number = 19, blk_hash = ''0xb'', blk_parent_hash = ''0xa'',
      blk_timestamp = 1700000000 * 10 ^ 9,
      blk_transactions = [(mk_tx ''0xt'' 19 TxPending)\<lparr>tx_block_hash := ''0xb'', tx_value := Some 7,
         tx_gas_price := Some 3, tx_timestamp := zero_time\<rparr>]\<rparr>"

theorem evm_parseBlock_roundtrip_witness: "evm_parseBlock ''eth'' (block_json eth_block) = Inr eth_block"
proof (rule evm_parseBlock_roundtrip [where secs = 1700000000])
  have "\<exists>v. (7 :: int) = int v" "\<exists>g. (3 :: int) = int g" by presburger+
  then show "fresh_txs ''eth'' eth_block 0 (blk_transactions eth_block)"
    by (simp add: eth_block_def fresh_tx_def mk_tx_def)
qed (simp_all add: eth_block_def)

section \<open>Batches\<close>

lemma batch_parse_oks: "i + length rs \<le> n \<Longrightarrow> batch_parse p n i rs = Returns (oks p rs)"
  by (induction rs arbitrary: i) (auto simp: oks_def List.map_filter_simps split: sum.splits)

text \<open>
  A batch that is answered with at most as many results as were asked for never panics; the
  blocks are those that parse, in the order of the answers. One that does not parse is dropped
  without an error, so a caller that counts on one block per number does not notice.
\<close>

theorem evm_BatchGetBlocks_blocks:
  assumes "numbers \<noteq> []" "length results \<le> length numbers"
    and "batch (map (\<lambda>n. (''eth_getBlockByNumber'', [JStr (''0x'' @ fmt_nat 16 (unat n)), JBool True])) numbers) s
      = (Inr results, s')"
  shows "evm_BatchGetBlocks batch c numbers s = Returns (Inr (oks (evm_parseBlock c) results), s')"
  using assms batch_parse_oks [of 0 results "length numbers" "evm_parseBlock c"]
  by (simp add: evm_BatchGetBlocks_def)

theorem evm_BatchGetBlocks_blocks_witness:
  "evm_BatchGetBlocks (\<lambda>calls s. (Inr [block_json eth_block, JNull], s)) ''eth'' [19, 20] ()
    = Returns (Inr [eth_block], ())"
proof -
  have "fresh_txs ''eth'' eth_block 0 (blk_transactions eth_block)"
  proof -
    have "\<exists>v. (7 :: int) = int v" "\<exists>g. (3 :: int) = int g" by presburger+
    then show ?thesis by (simp add: eth_block_def fresh_tx_def mk_tx_def)
  qed
  then have t: "parse_block_txs ''eth'' (blk_number eth_block) (blk_hash eth_block) 0
      (map tx_json (blk_transactions eth_block)) = blk_transactions eth_block" by (rule parse_block_txs_json)
  have w: "big_Int64 1700000000 = 1700000000" unfolding big_Int64_def by (intro wrap_i64_id) auto
  have "evm_parseBlock ''eth'' (block_json eth_block) = Inr eth_block"
    using t w by (simp add: evm_parseBlock_def block_json_def obj_of_def number_field_def str_field_def big_field_def
        arr_field_def hex_def TimestampToTime_def) (simp add: eth_block_def)
  moreover have "evm_parseBlock ''eth'' JNull = Inl (Msg ''invalid block data format'')"
    by (simp add: evm_parseBlock_def obj_of_def)
  ultimately have "oks (evm_parseBlock ''eth'') [block_json eth_block, JNull] = [eth_block]"
    by (simp add: oks_def List.map_filter_simps)
  then show ?thesis
    using evm_BatchGetBlocks_blocks [of "[19, 20]" "[block_json eth_block, JNull]" "\<lambda>calls s. (Inr [block_json eth_block, JNull], s)"
        "()" "()" "''eth''"] by simp
qed

section \<open>The common ancestor\<close>

text \<open>
  C23: The common ancestor is the block itself: when the node serves the asked block with another hash
  and can serve it again, \<open>DetectReorg\<close> reports a reorganisation whose common ancestor is that very
  block, so the depth is 0 and nothing below it is ever examined.
\<close>

theorem evm_DetectReorg_ancestor:
  assumes "evm_GetBlock call c n s = (Inr b, s1)" "blk_hash b \<noteq> h" "n \<noteq> 0"
    and "evm_GetBlock call c n s1 = (Inr b', s2)"
  shows "evm_DetectReorg call c n h s = (Inr (True, n), s2)"
proof -
  obtain k where k: "unat n = Suc k" using assms(3) by (metis not0_implies_Suc unat_eq_zero)
  have "of_nat (unat n) = n" by simp
  then have "of_nat (Suc k) = n" unfolding k .
  then have "findCommonAncestor call c n s1 = (Inr n, s2)"
    using assms(4) by (simp add: findCommonAncestor_def k del: of_nat_Suc)
  then show ?thesis using assms(1,2) by (simp add: evm_DetectReorg_def)
qed

theorem evm_DetectReorg_ancestor_witness:
  "evm_DetectReorg (\<lambda>m ps s. (Inr (block_json (mk_block 19 ''0xb'' ''0xa'' [])), s)) ''eth'' 19 ''0xc'' () = (Inr (True, 19), ())"
proof -
  have "evm_GetBlock (\<lambda>m ps s. (Inr (block_json (mk_block 19 ''0xb'' ''0xa'' [])), s)) ''eth'' 19 ()
      = (Inr (mk_block 19 ''0xb'' ''0xa'' []), ())"
  proof -
    have "big_Int64 0 = 0" by (simp add: big_Int64_def wrap_i64_def)
    moreover have "ParseBigInt (''0x'' @ fmt_nat 16 0) = Inr 0" using ParseBigInt_hex [of 0] by simp
    moreover have "ParseBlockNumber (''0x'' @ fmt_nat 16 (unat (19 :: u64))) = Inr 19" by (rule ParseBlockNumber_hex)
    ultimately show ?thesis
      by (simp add: evm_GetBlock_def evm_parseBlock_def block_json_def obj_of_def number_field_def str_field_def
          big_field_def arr_field_def hex_def TimestampToTime_def mk_block_def)
  qed
  from evm_DetectReorg_ancestor [OF this _ _ this] show ?thesis by simp
qed

end
