(* ===== verification/Parsers.thy ===== *)
theory Parsers
  imports EvmClient "HOL-Library.AList"
begin

text \<open>
  \<open>internal/parser/\<close>: the interface \<open>Parser\<close> as a record of its methods, the EVM parser with its
  filter (\<open>evm_parser.go\<close>), the Solana and Tron parsers (\<open>other_parsers.go\<close>), the factory and the
  manager (\<open>parser.go\<close>). What the manager guarantees of its answers is proved once for the
  interface, in the locale \<open>chain_parser\<close>, and interpreted on the three parsers. The durations
  reported to the metrics are left out.
\<close>

section \<open>The interface\<close>

record parser =
  pa_ParseBlock :: "json \<Rightarrow> go_error + block"
  pa_ParseTransaction :: "json \<Rightarrow> go_error + transaction"
  pa_ParseLog :: "json \<Rightarrow> go_error + tx_log"
  pa_BatchParseTransactions :: "json list \<Rightarrow> go_error + transaction list"
  pa_BatchParseLogs :: "json list \<Rightarrow> go_error + tx_log list"
  pa_ValidateBlock :: "block \<Rightarrow> go_error option"
  pa_ValidateTransaction :: "transaction \<Rightarrow> go_error option"
  pa_ValidateLog :: "tx_log \<Rightarrow> go_error option"
  pa_GetType :: string

section \<open>The EVM parser\<close>

definition no_filter :: filter_config where
  "no_filter = \<lparr>fc_addresses = [], fc_contracts = [], fc_events = [], fc_min_value = None, fc_exclude_empty = False\<rparr>"

definition shouldIncludeTransaction :: "filter_config \<Rightarrow> transaction \<Rightarrow> bool" where
  "shouldIncludeTransaction f t =
     (if fc_addresses f \<noteq> [] \<and> \<not> ContainsString (fc_addresses f) (tx_from t)
         \<and> \<not> (tx_to t \<noteq> '''' \<and> ContainsString (fc_addresses f) (tx_to t)) then False
      else if fc_contracts f \<noteq> [] \<and> tx_to t \<noteq> '''' \<and> \<not> ContainsString (fc_contracts f) (tx_to t) then False
      else if (case (fc_min_value f, tx_value t) of (Some m, Some v) \<Rightarrow> v < m | _ \<Rightarrow> False) then False
      else if fc_exclude_empty f \<and> (tx_to t = '''' \<or> tx_value t = Some 0) then False
      else True)"

definition shouldIncludeLog :: "filter_config \<Rightarrow> tx_log \<Rightarrow> bool" where
  "shouldIncludeLog f l =
     (if fc_addresses f \<noteq> [] \<and> \<not> ContainsString (fc_addresses f) (log_address l) then False
      else if fc_contracts f \<noteq> [] \<and> \<not> ContainsString (fc_contracts f) (log_address l) then False
      else if fc_events f \<noteq> [] \<and> log_topics l \<noteq> [] \<and> \<not> ContainsString (fc_events f) (log_topics l ! 0) then False
      else True)"

definition parser_ParseTransaction :: "filter_config \<Rightarrow> json \<Rightarrow> go_error + transaction" where
  "parser_ParseTransaction f rawData =
     andthen (obj_of rawData ''invalid transaction data format'') (\<lambda>txData.
     andthen (str_field txData ''hash'' ''invalid transaction hash format'') (\<lambda>hash.
     andthen (str_field txData ''from'' ''invalid from address format'') (\<lambda>from.
     let to = str_or_empty txData ''to'' in
     andthen (big_field txData ''value'' ''invalid value format'' ''failed to parse value'') (\<lambda>val.
     andthen (big_field txData ''gasPrice'' ''invalid gas price format'' ''failed to parse gas price'') (\<lambda>gasPrice.
     let t = \<lparr>tx_chain_id = '''', tx_hash = hash, tx_block_number = 0, tx_block_hash = '''', tx_from = from,
              tx_to = to, tx_value = Some val, tx_gas_price = Some gasPrice, tx_gas_used = 0,
              tx_status = TxPending, tx_timestamp = zero_time, tx_index = 0,
              tx_input_data = str_or_empty txData ''input'', tx_logs = []\<rparr> in
     if \<not> shouldIncludeTransaction f t then Inl (Msg ''transaction filtered out'') else Inr t)))))"

text \<open>The transactions of a block: one that does not parse, or is filtered out, is logged and skipped.\<close>

fun parser_block_txs :: "filter_config \<Rightarrow> u64 \<Rightarrow> string \<Rightarrow> nat \<Rightarrow> json list \<Rightarrow> transaction list" where
  "parser_block_txs f number hash i [] = []"
| "parser_block_txs f number hash i (txData # rest) =
     (case parser_ParseTransaction f txData of
        Inl e \<Rightarrow> parser_block_txs f number hash (Suc i) rest
      | Inr t \<Rightarrow> t\<lparr>tx_block_number := number, tx_block_hash := hash, tx_index := of_nat i\<rparr>
                 # parser_block_txs f number hash (Suc i) rest)"

definition parser_ParseBlock :: "filter_config \<Rightarrow> json \<Rightarrow> go_error + block" where
  "parser_ParseBlock f rawData =
     andthen (obj_of rawData ''invalid block data format'') (\<lambda>blockData.
     andthen (number_field blockData ''number'') (\<lambda>number.
     andthen (str_field blockData ''hash'' ''invalid block hash format'') (\<lambda>hash.
     andthen (str_field blockData ''parentHash'' ''invalid parent hash format'') (\<lambda>parentHash.
     andthen (big_field blockData ''timestamp'' ''invalid timestamp format'' ''failed to parse timestamp'') (\<lambda>timestamp.
       Inr \<lparr>blk_chain_id = '''', blk_number = number, blk_hash = hash, blk_parent_hash = parentHash,
            blk_timestamp = TimestampToTime (big_Int64 timestamp),
            blk_transactions = (case arr_field blockData ''transactions'' of
                None \<Rightarrow> []
              | Some txs \<Rightarrow> parser_block_txs f number hash 0 txs)\<rparr>)))))"

definition parser_ParseLog :: "filter_config \<Rightarrow> json \<Rightarrow> go_error + tx_log" where
  "parser_ParseLog f rawData =
     andthen (obj_of rawData ''invalid log data format'') (\<lambda>logData.
     andthen (str_field logData ''transactionHash'' ''invalid transaction hash format'') (\<lambda>txHash.
     andthen (number_field logData ''blockNumber'') (\<lambda>blockNumber.
     andthen (str_field logData ''address'' ''invalid address format'') (\<lambda>address.
     andthen (case arr_field logData ''topics'' of None \<Rightarrow> Inl (Msg ''invalid topics format'') | Some ts \<Rightarrow> Inr ts) (\<lambda>topics.
     let topicStrings = List.map_filter (\<lambda>t. case t of JStr s \<Rightarrow> Some s | _ \<Rightarrow> None) topics;
         data = str_or_empty logData ''data'' in
     andthen (big_field logData ''logIndex'' ''invalid log index format'' ''failed to parse log index'') (\<lambda>logIndex.
     andthen (big_field logData ''transactionIndex'' ''invalid transaction index format''
                ''failed to parse transaction index'') (\<lambda>txIndex.
     let l = \<lparr>log_chain_id = '''', log_tx_hash = txHash, log_block_number = blockNumber, log_address = address,
              log_topics = topicStrings, log_data = data, log_log_index = big_Uint64 logIndex,
              log_tx_index = big_Uint64 txIndex\<rparr> in
     if \<not> shouldIncludeLog f l then Inl (Msg ''log filtered out'') else Inr l)))))))"

definition parser_BatchParseTransactions :: "filter_config \<Rightarrow> json list \<Rightarrow> go_error + transaction list" where
  "parser_BatchParseTransactions f rawDataList = Inr (oks (parser_ParseTransaction f) rawDataList)"

definition parser_BatchParseLogs :: "filter_config \<Rightarrow> json list \<Rightarrow> go_error + tx_log list" where
  "parser_BatchParseLogs f rawDataList = Inr (oks (parser_ParseLog f) rawDataList)"

definition evm_ValidateBlock :: "block \<Rightarrow> go_error option" where
  "evm_ValidateBlock b =
     (if blk_number b = 0 then Some (Msg ''block number cannot be zero'')
      else if blk_hash b = '''' then Some (Msg ''block hash cannot be empty'')
      else if blk_parent_hash b = '''' then Some (Msg ''parent hash cannot be empty'')
      else if blk_timestamp b = zero_time then Some (Msg ''block timestamp cannot be zero'')
      else None)"

definition evm_ValidateTransaction :: "transaction \<Rightarrow> go_error option" where
  "evm_ValidateTransaction t =
     (if tx_hash t = '''' then Some (Msg ''transaction hash cannot be empty'')
      else if tx_from t = '''' then Some (Msg ''from address cannot be empty'')
      else if \<not> IsValidAddress (tx_from t) then Some (Msg (''invalid from address format: '' @ tx_from t))
      else if tx_to t \<noteq> '''' \<and> \<not> IsValidAddress (tx_to t) then Some (Msg (''invalid to address format: '' @ tx_to t))
      else if tx_value t = None then Some (Msg ''value cannot be nil'')
      else None)"

definition evm_ValidateLog :: "tx_log \<Rightarrow> go_error option" where
  "evm_ValidateLog l =
     (if log_tx_hash l = '''' then Some (Msg ''transaction hash cannot be empty'')
      else if log_block_number l = 0 then Some (Msg ''block number cannot be zero'')
      else if log_address l = '''' then Some (Msg ''address cannot be empty'')
      else if \<not> IsValidAddress (log_address l) then Some (Msg (''invalid address format: '' @ log_address l))
      else if log_topics l = [] then Some (Msg ''topics cannot be empty'')
      else None)"

definition EVMParser :: "filter_config \<Rightarrow> parser" where
  "EVMParser f =
     \<lparr>pa_ParseBlock = parser_ParseBlock f, pa_ParseTransaction = parser_ParseTransaction f,
      pa_ParseLog = parser_ParseLog f, pa_BatchParseTransactions = parser_BatchParseTransactions f,
      pa_BatchParseLogs = parser_BatchParseLogs f, pa_ValidateBlock = evm_ValidateBlock,
      pa_ValidateTransaction = evm_ValidateTransaction, pa_ValidateLog = evm_ValidateLog, pa_GetType = ''evm''\<rparr>"

section \<open>The Solana and Tron parsers\<close>

text \<open>Both only validate: every parser of theirs reports that it is not implemented.\<close>

definition solana_ParseBlock :: "json \<Rightarrow> go_error + block" where
  "solana_ParseBlock rawData = Inl (Msg ''not implemented for Solana'')"

definition solana_ParseTransaction :: "json \<Rightarrow> go_error + transaction" where
  "solana_ParseTransaction rawData = Inl (Msg ''not implemented for Solana'')"

definition solana_ParseLog :: "json \<Rightarrow> go_error + tx_log" where
  "solana_ParseLog rawData = Inl (Msg ''not implemented for Solana'')"

definition solana_BatchParseTransactions :: "json list \<Rightarrow> go_error + transaction list" where
  "solana_BatchParseTransactions rawDataList = Inl (Msg ''not implemented for Solana'')"

definition solana_BatchParseLogs :: "json list \<Rightarrow> go_error + tx_log list" where
  "solana_BatchParseLogs rawDataList = Inl (Msg ''not implemented for Solana'')"

definition solana_ValidateBlock :: "block \<Rightarrow> go_error option" where
  "solana_ValidateBlock b =
     (if blk_number b = 0 then Some (Msg ''block number cannot be zero'')
      else if blk_hash b = '''' then Some (Msg ''block hash cannot be empty'')
      else if blk_timestamp b = zero_time then Some (Msg ''block timestamp cannot be zero'')
      else None)"

definition solana_ValidateTransaction :: "transaction \<Rightarrow> go_error option" where
  "solana_ValidateTransaction t =
     (if tx_hash t = '''' then Some (Msg ''transaction hash cannot be empty'')
      else if tx_from t = '''' then Some (Msg ''from address cannot be empty'')
      else None)"

definition solana_ValidateLog :: "tx_log \<Rightarrow> go_error option" where
  "solana_ValidateLog l =
     (if log_tx_hash l = '''' then Some (Msg ''transaction hash cannot be empty'')
      else if log_block_number l = 0 then Some (Msg ''block number cannot be zero'')
      else if log_address l = '''' then Some (Msg ''address cannot be empty'')
      else None)"

definition SolanaParser :: parser where
  "SolanaParser =
     \<lparr>pa_ParseBlock = solana_ParseBlock, pa_ParseTransaction = solana_ParseTransaction,
      pa_ParseLog = solana_ParseLog, pa_BatchParseTransactions = solana_BatchParseTransactions,
      pa_BatchParseLogs = solana_BatchParseLogs, pa_ValidateBlock = solana_ValidateBlock,
      pa_ValidateTransaction = solana_ValidateTransaction, pa_ValidateLog = solana_ValidateLog, pa_GetType = ''solana''\<rparr>"

definition tron_ParseBlock :: "json \<Rightarrow> go_error + block" where
  "tron_ParseBlock rawData = Inl (Msg ''not implemented for Tron'')"

definition tron_ParseTransaction :: "json \<Rightarrow> go_error + transaction" where
  "tron_ParseTransaction rawData = Inl (Msg ''not implemented for Tron'')"

definition tron_ParseLog :: "json \<Rightarrow> go_error + tx_log" where
  "tron_ParseLog rawData = Inl (Msg ''not implemented for Tron'')"

definition tron_BatchParseTransactions :: "json list \<Rightarrow> go_error + transaction list" where
  "tron_BatchParseTransactions rawDataList = Inl (Msg ''not implemented for Tron'')"

definition tron_BatchParseLogs :: "json list \<Rightarrow> go_error + tx_log list" where
  "tron_BatchParseLogs rawDataList = Inl (Msg ''not implemented for Tron'')"

definition tron_ValidateBlock :: "block \<Rightarrow> go_error option" where
  "tron_ValidateBlock b =
     (if blk_number b = 0 then Some (Msg ''block number cannot be zero'')
      else if blk_hash b = '''' then Some (Msg ''block hash cannot be empty'')
      else if blk_timestamp b = zero_time then Some (Msg ''block timestamp cannot be zero'')
      else None)"

definition tron_ValidateTransaction :: "transaction \<Rightarrow> go_error option" where
  "tron_ValidateTransaction t =
     (if tx_hash t = '''' then Some (Msg ''transaction hash cannot be empty'')
      else if tx_from t = '''' then Some (Msg ''from address cannot be empty'')
      else None)"

definition tron_ValidateLog :: "tx_log \<Rightarrow> go_error option" where
  "tron_ValidateLog l =
     (if log_tx_hash l = '''' then Some (Msg ''transaction hash cannot be empty'')
      else if log_block_number l = 0 then Some (Msg ''block number cannot be zero'')
      else if log_address l = '''' then Some (Msg ''address cannot be empty'')
      else None)"

definition TronParser :: parser where
  "TronParser =
     \<lparr>pa_ParseBlock = tron_ParseBlock, pa_ParseTransaction = tron_ParseTransaction,
      pa_ParseLog = tron_ParseLog, pa_BatchParseTransactions = tron_BatchParseTransactions,
      pa_BatchParseLogs = tron_BatchParseLogs, pa_ValidateBlock = tron_ValidateBlock,
      pa_ValidateTransaction = tron_ValidateTransaction, pa_ValidateLog = tron_ValidateLog, pa_GetType = ''tron''\<rparr>"

section \<open>The factory and the manager\<close>

type_synonym parser_factory = "(string \<times> parser) list"

definition RegisterParser :: "string \<Rightarrow> parser \<Rightarrow> parser_factory \<Rightarrow> parser_factory" where
  "RegisterParser chainType p f = AList.update chainType p f"

definition NewDefaultParserFactory :: parser_factory where
  "NewDefaultParserFactory =
     RegisterParser ''tron'' TronParser (RegisterParser ''solana'' SolanaParser
       (RegisterParser ''evm'' (EVMParser no_filter) []))"

definition CreateParser :: "string \<Rightarrow> parser_factory \<Rightarrow> go_error + parser" where
  "CreateParser chainType f =
     (case map_of f chainType of
        None \<Rightarrow> Inl (Msg (''unsupported chain type: '' @ chainType))
      | Some p \<Rightarrow> Inr p)"

text \<open>The order of the types is Go's iteration over a map, which is unspecified; here it is the list's.\<close>

definition GetSupportedTypes :: "parser_factory \<Rightarrow> string list" where
  "GetSupportedTypes f = map fst f"

record parser_manager =
  pm_factory :: parser_factory
  pm_parsers :: "string \<rightharpoonup> parser"

definition NewParserManager :: "parser_factory option \<Rightarrow> parser_manager" where
  "NewParserManager factory =
     \<lparr>pm_factory = (case factory of None \<Rightarrow> NewDefaultParserFactory | Some f \<Rightarrow> f), pm_parsers = Map.empty\<rparr>"

definition GetParser :: "string \<Rightarrow> parser_manager \<Rightarrow> (go_error + parser) \<times> parser_manager" where
  "GetParser chainType m =
     (case pm_parsers m chainType of
        Some p \<Rightarrow> (Inr p, m)
      | None \<Rightarrow>
          (case CreateParser chainType (pm_factory m) of
             Inl e \<Rightarrow> (Inl e, m)
           | Inr p \<Rightarrow> (Inr p, m\<lparr>pm_parsers := (pm_parsers m)(chainType \<mapsto> p)\<rparr>)))"

definition checked :: "string \<Rightarrow> ('a \<Rightarrow> go_error option) \<Rightarrow> 'a \<Rightarrow> go_error + 'a" where
  "checked msg validate x = (case validate x of Some e \<Rightarrow> Inl (Wrap msg e) | None \<Rightarrow> Inr x)"

text \<open>The first value that is not valid ends the loop over a batch.\<close>

fun checked_all :: "string \<Rightarrow> ('a \<Rightarrow> go_error option) \<Rightarrow> 'a list \<Rightarrow> go_error option" where
  "checked_all msg validate [] = None"
| "checked_all msg validate (x # xs) =
     (case validate x of Some e \<Rightarrow> Some (Wrap msg e) | None \<Rightarrow> checked_all msg validate xs)"

definition with_parser ::
    "string \<Rightarrow> (parser \<Rightarrow> go_error + 'a) \<Rightarrow> parser_manager \<Rightarrow> (go_error + 'a) \<times> parser_manager" where
  "with_parser chainType k m =
     (case GetParser chainType m of
        (Inl e, m') \<Rightarrow> (Inl (Wrap ''failed to get parser'' e), m')
      | (Inr p, m') \<Rightarrow> (k p, m'))"

definition parse_one_block :: "json \<Rightarrow> parser \<Rightarrow> go_error + block" where
  "parse_one_block rawData p =
     andthen (wrap_res ''failed to parse block'' (pa_ParseBlock p rawData))
       (checked ''block validation failed'' (pa_ValidateBlock p))"

definition parse_one_tx :: "json \<Rightarrow> parser \<Rightarrow> go_error + transaction" where
  "parse_one_tx rawData p =
     andthen (wrap_res ''failed to parse transaction'' (pa_ParseTransaction p rawData))
       (checked ''transaction validation failed'' (pa_ValidateTransaction p))"

definition parse_one_log :: "json \<Rightarrow> parser \<Rightarrow> go_error + tx_log" where
  "parse_one_log rawData p =
     andthen (wrap_res ''failed to parse log'' (pa_ParseLog p rawData))
       (checked ''log validation failed'' (pa_ValidateLog p))"

definition parse_all_txs :: "json list \<Rightarrow> parser \<Rightarrow> go_error + transaction list" where
  "parse_all_txs rawDataList p =
     andthen (wrap_res ''failed to batch parse transactions'' (pa_BatchParseTransactions p rawDataList)) (\<lambda>ts.
       case checked_all ''transaction validation failed'' (pa_ValidateTransaction p) ts of
         Some e \<Rightarrow> Inl e
       | None \<Rightarrow> Inr ts)"

definition parse_all_logs :: "json list \<Rightarrow> parser \<Rightarrow> go_error + tx_log list" where
  "parse_all_logs rawDataList p =
     andthen (wrap_res ''failed to batch parse logs'' (pa_BatchParseLogs p rawDataList)) (\<lambda>ls.
       case checked_all ''log validation failed'' (pa_ValidateLog p) ls of
         Some e \<Rightarrow> Inl e
       | None \<Rightarrow> Inr ls)"

definition manager_ParseBlock ::
    "string \<Rightarrow> json \<Rightarrow> parser_manager \<Rightarrow> (go_error + block) \<times> parser_manager" where
  "manager_ParseBlock chainType rawData = with_parser chainType (parse_one_block rawData)"

definition manager_ParseTransaction ::
    "string \<Rightarrow> json \<Rightarrow> parser_manager \<Rightarrow> (go_error + transaction) \<times> parser_manager" where
  "manager_ParseTransaction chainType rawData = with_parser chainType (parse_one_tx rawData)"

definition manager_ParseLog ::
    "string \<Rightarrow> json \<Rightarrow> parser_manager \<Rightarrow> (go_error + tx_log) \<times> parser_manager" where
  "manager_ParseLog chainType rawData = with_parser chainType (parse_one_log rawData)"

definition manager_BatchParseTransactions ::
    "string \<Rightarrow> json list \<Rightarrow> parser_manager \<Rightarrow> (go_error + transaction list) \<times> parser_manager" where
  "manager_BatchParseTransactions chainType rawDataList = with_parser chainType (parse_all_txs rawDataList)"

definition manager_BatchParseLogs ::
    "string \<Rightarrow> json list \<Rightarrow> parser_manager \<Rightarrow> (go_error + tx_log list) \<times> parser_manager" where
  "manager_BatchParseLogs chainType rawDataList = with_parser chainType (parse_all_logs rawDataList)"

section \<open>What a parser promises the manager\<close>

definition evm_block_ok :: "block \<Rightarrow> bool" where
  "evm_block_ok b \<longleftrightarrow> blk_number b \<noteq> 0 \<and> blk_hash b \<noteq> '''' \<and> blk_parent_hash b \<noteq> '''' \<and> blk_timestamp b \<noteq> zero_time"

definition evm_tx_ok :: "transaction \<Rightarrow> bool" where
  "evm_tx_ok t \<longleftrightarrow> tx_hash t \<noteq> '''' \<and> tx_from t \<noteq> '''' \<and> IsValidAddress (tx_from t)
     \<and> (tx_to t = '''' \<or> IsValidAddress (tx_to t)) \<and> tx_value t \<noteq> None"

definition evm_log_ok :: "tx_log \<Rightarrow> bool" where
  "evm_log_ok l \<longleftrightarrow> log_tx_hash l \<noteq> '''' \<and> log_block_number l \<noteq> 0 \<and> log_address l \<noteq> ''''
     \<and> IsValidAddress (log_address l) \<and> log_topics l \<noteq> []"

definition named_block :: "block \<Rightarrow> bool" where
  "named_block b \<longleftrightarrow> blk_number b \<noteq> 0 \<and> blk_hash b \<noteq> '''' \<and> blk_timestamp b \<noteq> zero_time"

definition named_tx :: "transaction \<Rightarrow> bool" where
  "named_tx t \<longleftrightarrow> tx_hash t \<noteq> '''' \<and> tx_from t \<noteq> ''''"

definition named_log :: "tx_log \<Rightarrow> bool" where
  "named_log l \<longleftrightarrow> log_tx_hash l \<noteq> '''' \<and> log_block_number l \<noteq> 0 \<and> log_address l \<noteq> ''''"

lemma checked_Inr: "checked msg v x = Inr y \<longleftrightarrow> v x = None \<and> y = x"
  by (auto simp: checked_def split: option.split)

lemma checked_all_None: "checked_all msg v xs = None \<longleftrightarrow> (\<forall>x \<in> set xs. v x = None)"
  by (induction xs) (auto split: option.split)

lemma wrap_res_Inr: "wrap_res msg r = Inr x \<longleftrightarrow> r = Inr x"
  by (cases r) (simp_all add: wrap_res_def)

lemma set_oks: "y \<in> set (oks f xs) \<longleftrightarrow> (\<exists>x \<in> set xs. f x = Inr y)"
  by (induction xs) (auto simp: oks_def List.map_filter_simps split: sum.splits)

text \<open>
  The contract of the interface: a batch keeps what parses, in its order, and whatever the validators
  accept has the stated form. The lemmas of the locale are what the manager makes of it.
\<close>

locale chain_parser =
  fixes P :: parser
    and ok_block :: "block \<Rightarrow> bool" and ok_tx :: "transaction \<Rightarrow> bool" and ok_log :: "tx_log \<Rightarrow> bool"
  assumes valid_block: "pa_ValidateBlock P b = None \<Longrightarrow> ok_block b"
    and valid_tx: "pa_ValidateTransaction P t = None \<Longrightarrow> ok_tx t"
    and valid_log: "pa_ValidateLog P l = None \<Longrightarrow> ok_log l"
    and batch_txs: "pa_BatchParseTransactions P js = Inr ts \<Longrightarrow> ts = oks (pa_ParseTransaction P) js"
    and batch_logs: "pa_BatchParseLogs P js = Inr ls \<Longrightarrow> ls = oks (pa_ParseLog P) js"
begin

lemma one_block: "parse_one_block j P = Inr b \<Longrightarrow> pa_ParseBlock P j = Inr b \<and> ok_block b"
  by (auto simp: parse_one_block_def andthen_Inr checked_Inr wrap_res_Inr valid_block)

lemma one_tx: "parse_one_tx j P = Inr t \<Longrightarrow> pa_ParseTransaction P j = Inr t \<and> ok_tx t"
  by (auto simp: parse_one_tx_def andthen_Inr checked_Inr wrap_res_Inr valid_tx)

lemma one_log: "parse_one_log j P = Inr l \<Longrightarrow> pa_ParseLog P j = Inr l \<and> ok_log l"
  by (auto simp: parse_one_log_def andthen_Inr checked_Inr wrap_res_Inr valid_log)

lemma all_txs: "parse_all_txs js P = Inr ts \<Longrightarrow> ts = oks (pa_ParseTransaction P) js \<and> list_all ok_tx ts"
  by (auto simp: parse_all_txs_def andthen_Inr wrap_res_Inr checked_all_None list_all_iff valid_tx
      dest: batch_txs split: option.split_asm)

lemma all_logs: "parse_all_logs js P = Inr ls \<Longrightarrow> ls = oks (pa_ParseLog P) js \<and> list_all ok_log ls"
  by (auto simp: parse_all_logs_def andthen_Inr wrap_res_Inr checked_all_None list_all_iff valid_log
      dest: batch_logs split: option.split_asm)

end

interpretation evm: chain_parser "EVMParser f" evm_block_ok evm_tx_ok evm_log_ok for f
  by unfold_locales
    (auto simp: EVMParser_def parser_BatchParseTransactions_def parser_BatchParseLogs_def evm_ValidateBlock_def
      evm_ValidateTransaction_def evm_ValidateLog_def evm_block_ok_def evm_tx_ok_def evm_log_ok_def
      split: if_split_asm)

interpretation solana: chain_parser SolanaParser named_block named_tx named_log
  by unfold_locales
    (auto simp: SolanaParser_def solana_BatchParseTransactions_def solana_BatchParseLogs_def
      solana_ValidateBlock_def solana_ValidateTransaction_def solana_ValidateLog_def named_block_def named_tx_def
      named_log_def split: if_split_asm)

interpretation tron: chain_parser TronParser named_block named_tx named_log
  by unfold_locales
    (auto simp: TronParser_def tron_BatchParseTransactions_def tron_BatchParseLogs_def
      tron_ValidateBlock_def tron_ValidateTransaction_def tron_ValidateLog_def named_block_def named_tx_def
      named_log_def split: if_split_asm)

section \<open>The cache of the manager is invisible\<close>

datatype parser_call =
  CallBlock string json | CallTx string json | CallLog string json
  | CallTxs string "json list" | CallLogs string "json list"

datatype parser_answer =
  AnsBlock "go_error + block" | AnsTx "go_error + transaction" | AnsLog "go_error + tx_log"
  | AnsTxs "go_error + transaction list" | AnsLogs "go_error + tx_log list"

fun manager_call :: "parser_call \<Rightarrow> parser_manager \<Rightarrow> parser_answer \<times> parser_manager" where
  "manager_call (CallBlock c j) m = apfst AnsBlock (manager_ParseBlock c j m)"
| "manager_call (CallTx c j) m = apfst AnsTx (manager_ParseTransaction c j m)"
| "manager_call (CallLog c j) m = apfst AnsLog (manager_ParseLog c j m)"
| "manager_call (CallTxs c js) m = apfst AnsTxs (manager_BatchParseTransactions c js m)"
| "manager_call (CallLogs c js) m = apfst AnsLogs (manager_BatchParseLogs c js m)"

fun manager_calls :: "parser_call list \<Rightarrow> parser_manager \<Rightarrow> parser_answer list" where
  "manager_calls [] m = []"
| "manager_calls (c # cs) m = (case manager_call c m of (a, m') \<Rightarrow> a # manager_calls cs m')"

text \<open>The specification: no state, the parser of the factory is asked.\<close>

definition dispatch :: "parser_factory \<Rightarrow> string \<Rightarrow> (parser \<Rightarrow> go_error + 'a) \<Rightarrow> go_error + 'a" where
  "dispatch f c k = andthen (wrap_res ''failed to get parser'' (CreateParser c f)) k"

fun spec_call :: "parser_factory \<Rightarrow> parser_call \<Rightarrow> parser_answer" where
  "spec_call f (CallBlock c j) = AnsBlock (dispatch f c (parse_one_block j))"
| "spec_call f (CallTx c j) = AnsTx (dispatch f c (parse_one_tx j))"
| "spec_call f (CallLog c j) = AnsLog (dispatch f c (parse_one_log j))"
| "spec_call f (CallTxs c js) = AnsTxs (dispatch f c (parse_all_txs js))"
| "spec_call f (CallLogs c js) = AnsLogs (dispatch f c (parse_all_logs js))"

definition cache_ok :: "parser_manager \<Rightarrow> bool" where
  "cache_ok m \<longleftrightarrow> (\<forall>c p. pm_parsers m c = Some p \<longrightarrow> CreateParser c (pm_factory m) = Inr p)"

lemma with_parser_dispatch:
  assumes "cache_ok m"
  shows "\<exists>m'. with_parser c k m = (dispatch (pm_factory m) c k, m') \<and> cache_ok m' \<and> pm_factory m' = pm_factory m"
  using assms
  by (auto simp: with_parser_def GetParser_def dispatch_def cache_ok_def split: option.splits sum.splits)

lemma manager_call_spec:
  assumes "cache_ok m"
  shows "\<exists>m'. manager_call c m = (spec_call (pm_factory m) c, m') \<and> cache_ok m' \<and> pm_factory m' = pm_factory m"
proof (cases c)
  case (CallBlock t j)
  then show ?thesis using with_parser_dispatch [OF assms, of t "parse_one_block j"] by (auto simp: manager_ParseBlock_def)
next
  case (CallTx t j)
  then show ?thesis using with_parser_dispatch [OF assms, of t "parse_one_tx j"] by (auto simp: manager_ParseTransaction_def)
next
  case (CallLog t j)
  then show ?thesis using with_parser_dispatch [OF assms, of t "parse_one_log j"] by (auto simp: manager_ParseLog_def)
next
  case (CallTxs t j)
  then show ?thesis using with_parser_dispatch [OF assms, of t "parse_all_txs j"]
    by (auto simp: manager_BatchParseTransactions_def)
next
  case (CallLogs t j)
  then show ?thesis using with_parser_dispatch [OF assms, of t "parse_all_logs j"]
    by (auto simp: manager_BatchParseLogs_def)
qed

lemma manager_calls_spec: "cache_ok m \<Longrightarrow> manager_calls cs m = map (spec_call (pm_factory m)) cs"
proof (induction cs arbitrary: m)
  case (Cons c cs)
  then show ?case using manager_call_spec [of m c] by auto
qed simp

text \<open>
  C16: The manager refines the stateless dispatcher: whatever calls are made of a new manager, in
  whatever order, every answer is the one the parser of the factory gives, so its cache of parsers
  never shows.
\<close>

theorem manager_refines_dispatch:
  "manager_calls cs (NewParserManager (Some f)) = map (spec_call f) cs
   \<and> manager_calls cs (NewParserManager None) = map (spec_call NewDefaultParserFactory) cs"
  by (simp add: manager_calls_spec cache_ok_def NewParserManager_def)

section \<open>What comes through the manager\<close>

lemma create_default:
  "CreateParser c NewDefaultParserFactory = Inr p
    \<longleftrightarrow> c = ''evm'' \<and> p = EVMParser no_filter \<or> c = ''solana'' \<and> p = SolanaParser \<or> c = ''tron'' \<and> p = TronParser"
  by (auto simp: CreateParser_def NewDefaultParserFactory_def RegisterParser_def split: if_splits)

lemma not_implemented:
  "parse_all_txs js SolanaParser = Inl (Wrap ''failed to batch parse transactions'' (Msg ''not implemented for Solana''))"
  "parse_all_txs js TronParser = Inl (Wrap ''failed to batch parse transactions'' (Msg ''not implemented for Tron''))"
  by (simp_all add: parse_all_txs_def SolanaParser_def TronParser_def solana_BatchParseTransactions_def
      tron_BatchParseTransactions_def wrap_res_def)

text \<open>
  C36: A batch of transactions that a new manager accepts is an EVM batch; it holds exactly the
  elements that parse, in their order, and every one of them is valid: a hash, well-formed addresses
  and a value. One invalid transaction refuses the whole batch, one that does not parse is skipped.
\<close>

theorem manager_batch_valid:
  assumes "fst (manager_BatchParseTransactions c js (NewParserManager None)) = Inr ts"
  shows "c = ''evm'' \<and> ts = oks (parser_ParseTransaction no_filter) js \<and> (\<forall>t \<in> set ts. evm_tx_ok t)"
proof -
  have "cache_ok (NewParserManager None)" by (simp add: cache_ok_def NewParserManager_def)
  from with_parser_dispatch [OF this, of c "parse_all_txs js"]
  have "dispatch NewDefaultParserFactory c (parse_all_txs js) = Inr ts"
    using assms by (auto simp: manager_BatchParseTransactions_def NewParserManager_def)
  then obtain p where p: "CreateParser c NewDefaultParserFactory = Inr p" and ts: "parse_all_txs js p = Inr ts"
    by (auto simp: dispatch_def andthen_Inr wrap_res_Inr)
  then have c: "c = ''evm''" and "p = EVMParser no_filter" by (auto simp: create_default not_implemented)
  with ts evm.all_txs [of js no_filter ts] show ?thesis by (auto simp: EVMParser_def list_all_iff)
qed

definition good_tx_json :: json where
  "good_tx_json = JObj [(''hash'', JStr ''h1''), (''from'', JStr ''alice''), (''to'', JStr ''bob''),
     (''value'', JStr ''7''), (''gasPrice'', JStr ''3'')]"

theorem manager_batch_valid_witness:
  "\<exists>t. fst (manager_BatchParseTransactions ''evm'' [JNull, good_tx_json] (NewParserManager None)) = Inr [t]
    \<and> (\<forall>t' \<in> set [t]. evm_tx_ok t')"
proof -
  have n: "ParseBigInt ''7'' = Inr 7" "ParseBigInt ''3'' = Inr 3" by code_simp+
  obtain t where t: "parser_ParseTransaction no_filter good_tx_json = Inr t" and v: "evm_ValidateTransaction t = None"
    by (simp add: parser_ParseTransaction_def good_tx_json_def obj_of_def str_field_def str_or_empty_def big_field_def
        n wrap_res_def shouldIncludeTransaction_def no_filter_def evm_ValidateTransaction_def IsValidAddress_def has_prefix_def Let_def)
  have "parser_ParseTransaction no_filter JNull = Inl (Msg ''invalid transaction data format'')"
    by (simp add: parser_ParseTransaction_def obj_of_def)
  then have "oks (parser_ParseTransaction no_filter) [JNull, good_tx_json] = [t]"
    using t by (simp add: oks_def List.map_filter_simps)
  moreover have "CreateParser ''evm'' NewDefaultParserFactory = Inr (EVMParser no_filter)" by (simp add: create_default)
  ultimately have r: "fst (manager_BatchParseTransactions ''evm'' [JNull, good_tx_json] (NewParserManager None)) = Inr [t]"
    using v by (simp add: manager_BatchParseTransactions_def with_parser_def GetParser_def NewParserManager_def
        parse_all_txs_def EVMParser_def parser_BatchParseTransactions_def wrap_res_def)
  from manager_batch_valid [OF r] have "\<forall>t' \<in> set [t]. evm_tx_ok t'" by (elim conjE)
  with r show ?thesis by (intro exI conjI)
qed

section \<open>The filter\<close>

lemma ContainsString_iff: "ContainsString xs s \<longleftrightarrow> s \<in> set xs"
  by (induction xs) auto

text \<open>The meaning of the filter: an empty list lets everything through.\<close>

lemma shouldIncludeTransaction_iff:
  "shouldIncludeTransaction f t \<longleftrightarrow>
     (fc_addresses f = [] \<or> tx_from t \<in> set (fc_addresses f) \<or> (tx_to t \<noteq> '''' \<and> tx_to t \<in> set (fc_addresses f)))
     \<and> (fc_contracts f = [] \<or> tx_to t = '''' \<or> tx_to t \<in> set (fc_contracts f))
     \<and> (\<forall>m v. fc_min_value f = Some m \<and> tx_value t = Some v \<longrightarrow> m \<le> v)
     \<and> (fc_exclude_empty f \<longrightarrow> tx_to t \<noteq> '''' \<and> tx_value t \<noteq> Some 0)"
  by (auto simp: shouldIncludeTransaction_def ContainsString_iff split: option.splits)

lemma shouldIncludeTransaction_placed [simp]:
  "shouldIncludeTransaction f (t\<lparr>tx_block_number := n, tx_block_hash := h, tx_index := i\<rparr>) = shouldIncludeTransaction f t"
  by (simp add: shouldIncludeTransaction_def)

lemma include_no_filter [simp]: "shouldIncludeTransaction no_filter t" "shouldIncludeLog no_filter l"
  by (simp_all add: shouldIncludeTransaction_def shouldIncludeLog_def no_filter_def)

lemma parser_tx_filter:
  "parser_ParseTransaction f j = andthen (parser_ParseTransaction no_filter j)
     (\<lambda>t. if shouldIncludeTransaction f t then Inr t else Inl (Msg ''transaction filtered out''))"
  by (auto simp: parser_ParseTransaction_def andthen_def Let_def split: sum.splits)

lemma parser_block_txs_filter:
  "parser_block_txs f n h i js = filter (shouldIncludeTransaction f) (parser_block_txs no_filter n h i js)"
proof (induction js arbitrary: i)
  case (Cons j js)
  show ?case
    using Cons.IH [of "Suc i"] parser_tx_filter [of f j] by (cases "parser_ParseTransaction no_filter j") auto
qed simp

text \<open>
  The filter only leaves transactions out: with it a block parses to the block without it, less
  the transactions that it excludes. The others keep their order and their index in the whole block.
\<close>

theorem parser_block_filtered:
  "parser_ParseBlock f j =
     map_sum id (\<lambda>b. b\<lparr>blk_transactions := filter (shouldIncludeTransaction f) (blk_transactions b)\<rparr>)
       (parser_ParseBlock no_filter j)"
  by (auto simp: parser_ParseBlock_def andthen_def parser_block_txs_filter [of f] split: sum.split option.split)

section \<open>The parser and the client\<close>

definition set_chain :: "string \<Rightarrow> block \<Rightarrow> block" where
  "set_chain c b = b\<lparr>blk_chain_id := c, blk_transactions := map (\<lambda>t. t\<lparr>tx_chain_id := c\<rparr>) (blk_transactions b)\<rparr>"

lemma client_tx_parser:
  "evm_parseTransaction c j = map_sum id (\<lambda>t. t\<lparr>tx_chain_id := c\<rparr>) (parser_ParseTransaction no_filter j)"
  by (auto simp: evm_parseTransaction_def parser_ParseTransaction_def andthen_def Let_def split: sum.splits)

lemma client_block_txs_parser:
  "parse_block_txs c n h i js = map (\<lambda>t. t\<lparr>tx_chain_id := c\<rparr>) (parser_block_txs no_filter n h i js)"
proof (induction js arbitrary: i)
  case (Cons j js)
  show ?case
    using Cons.IH [of "Suc i"] client_tx_parser [of c j] by (cases "parser_ParseTransaction no_filter j") auto
qed simp

text \<open>
  The two copies of the EVM parser agree: the client of a chain reads a block exactly as the
  parser does without a filter, once the caller has filled in the chain, on every input and with the
  same errors.
\<close>

theorem client_agrees_with_parser:
  "evm_parseBlock c j = map_sum id (set_chain c) (parser_ParseBlock no_filter j)"
  by (auto simp: evm_parseBlock_def parser_ParseBlock_def andthen_def set_chain_def client_block_txs_parser
      split: sum.split option.split)

end
