(* ===== verification/Http.thy ===== *)
theory Http
  imports Json "HOL-Library.AList"
begin

text \<open>
  \<open>internal/node/http_client.go\<close>: the JSON-RPC client over HTTP. The transport is a parameter: what
  \<open>http.NewRequestWithContext\<close> says of the URL, and the answer to a posted request. An answer has a
  status, its raw body, and what \<open>json.Unmarshal\<close> makes of that body; the request is passed as the
  value that is rendered.
\<close>

section \<open>Requests and answers\<close>

record rpc_request =
  rq_jsonrpc :: string
  rq_method :: string
  rq_params :: "json list"
  rq_id :: int

record rpc_response =
  rs_jsonrpc :: string
  rs_result :: "json option"
  rs_error :: "(int \<times> string) option"
  rs_id :: int

record 'a http_answer =
  ha_status :: int
  ha_read_error :: "go_error option"
  ha_body :: string
  ha_decoded :: "go_error + 'a"

record 'w transport =
  tp_request_error :: "string \<Rightarrow> go_error option"
  tp_post :: "rpc_request \<Rightarrow> 'w \<Rightarrow> (go_error + rpc_response http_answer) \<times> 'w"
  tp_post_batch :: "rpc_request list \<Rightarrow> 'w \<Rightarrow> (go_error + rpc_response list http_answer) \<times> 'w"

record http_client =
  ht_url :: string
  ht_timeout :: int
  ht_request_id :: int

definition NewHTTPClient :: "string \<Rightarrow> int \<Rightarrow> go_error + http_client" where
  "NewHTTPClient url timeout =
     (if url = '''' then Inl (Msg ''URL cannot be empty'')
      else Inr \<lparr>ht_url = url, ht_timeout = timeout, ht_request_id = 0\<rparr>)"

text \<open>
  What a call hands on, an \<open>interface{}\<close>: a decoded value, the raw bytes of a result that does not
  decode (an absent one has none), or, in a batch, an error value. The type assertions of the clients
  fail alike on the last two and on a null.
\<close>

datatype rpc_value = RpcValue json | RpcRaw | RpcFailed go_error

fun as_json :: "rpc_value \<Rightarrow> json" where
  "as_json (RpcValue j) = j"
| "as_json RpcRaw = JNull"
| "as_json (RpcFailed e) = JNull"

definition rpc_result :: "rpc_response \<Rightarrow> rpc_value" where
  "rpc_result r = (case rs_result r of Some j \<Rightarrow> RpcValue j | None \<Rightarrow> RpcRaw)"

definition mk_request :: "string \<Rightarrow> json list \<Rightarrow> int \<Rightarrow> rpc_request" where
  "mk_request m ps i = \<lparr>rq_jsonrpc = ''2.0'', rq_method = m, rq_params = ps, rq_id = i\<rparr>"

definition answer_body :: "string \<Rightarrow> 'a http_answer \<Rightarrow> go_error + 'a" where
  "answer_body unmarshal r =
     (if ha_status r \<noteq> 200 then Inl (Msg (''HTTP error: status='' @ fmt_int (ha_status r) @ '', body='' @ ha_body r))
      else case ha_read_error r of
        Some e \<Rightarrow> Inl (Wrap ''failed to read response body'' e)
      | None \<Rightarrow> wrap_res unmarshal (ha_decoded r))"

section \<open>A call\<close>

definition http_Call ::
    "'w transport \<Rightarrow> string \<Rightarrow> json list \<Rightarrow> http_client \<times> 'w \<Rightarrow> (go_error + rpc_value) \<times> http_client \<times> 'w" where
  "http_Call T meth params cw =
     (let (c, w) = cw; reqId = wrap_i64 (ht_request_id c + 1); c1 = c\<lparr>ht_request_id := reqId\<rparr> in
      case tp_request_error T (ht_url c) of
        Some e \<Rightarrow> (Inl (Wrap ''failed to create HTTP request'' e), c1, w)
      | None \<Rightarrow>
     (case tp_post T (mk_request meth params reqId) w of
        (Inl e, w') \<Rightarrow> (Inl (Wrap ''HTTP request failed'' e), c1, w')
      | (Inr resp, w') \<Rightarrow>
          (andthen (answer_body ''failed to unmarshal response'' resp) (\<lambda>r.
             case rs_error r of
               Some (code, msg) \<Rightarrow> Inl (Msg (''RPC error: code='' @ fmt_int code @ '', message='' @ msg))
             | None \<Rightarrow>
                 if rs_id r \<noteq> reqId
                 then Inl (Msg (''response ID mismatch: expected='' @ fmt_int reqId @ '', got='' @ fmt_int (rs_id r)))
                 else Inr (rpc_result r)), c1, w')))"

section \<open>A batch\<close>

fun number_requests :: "int \<Rightarrow> (string \<times> json list) list \<Rightarrow> rpc_request list" where
  "number_requests i [] = []"
| "number_requests i ((m, ps) # calls) = mk_request m ps i # number_requests (wrap_i64 (i + 1)) calls"

fun batch_results :: "nat \<Rightarrow> int \<Rightarrow> rpc_response list \<Rightarrow> rpc_value list" where
  "batch_results i expectedID [] = []"
| "batch_results i expectedID (r # rs) =
     (case rs_error r of
        Some (code, msg) \<Rightarrow> RpcFailed (Msg (''RPC error in call '' @ fmt_nat 10 i @ '': code='' @ fmt_int code
                              @ '', message='' @ msg))
      | None \<Rightarrow>
          if rs_id r \<noteq> expectedID
          then RpcFailed (Msg (''response ID mismatch in call '' @ fmt_nat 10 i @ '': expected='' @ fmt_int expectedID
                 @ '', got='' @ fmt_int (rs_id r)))
          else rpc_result r) # batch_results (Suc i) (wrap_i64 (expectedID + 1)) rs"

definition http_BatchCall ::
    "'w transport \<Rightarrow> (string \<times> json list) list \<Rightarrow> http_client \<times> 'w
      \<Rightarrow> (go_error + rpc_value list) \<times> http_client \<times> 'w" where
  "http_BatchCall T calls cw =
     (let (c, w) = cw in
      if calls = [] then (Inr [], c, w)
      else
        (let baseID = wrap_i64 (ht_request_id c + 1);
             c1 = c\<lparr>ht_request_id := wrap_i64 (ht_request_id c + int (length calls))\<rparr> in
         case tp_request_error T (ht_url c) of
           Some e \<Rightarrow> (Inl (Wrap ''failed to create HTTP request'' e), c1, w)
         | None \<Rightarrow>
        (case tp_post_batch T (number_requests baseID calls) w of
           (Inl e, w') \<Rightarrow> (Inl (Wrap ''HTTP request failed'' e), c1, w')
         | (Inr resp, w') \<Rightarrow>
             (andthen (answer_body ''failed to unmarshal batch response'' resp) (\<lambda>rs.
                if length rs \<noteq> length calls
                then Inl (Msg (''response count mismatch: expected='' @ fmt_nat 10 (length calls) @ '', got=''
                       @ fmt_nat 10 (length rs)))
                else Inr (batch_results 0 baseID rs)), c1, w'))))"

section \<open>What the clients rely on\<close>

lemma length_number_requests [simp]: "length (number_requests i calls) = length calls"
  by (induction i calls rule: number_requests.induct) simp_all

lemma length_batch_results [simp]: "length (batch_results i e rs) = length rs"
  by (induction rs arbitrary: i e) simp_all

lemma http_BatchCall_length:
  "http_BatchCall T calls cw = (Inr vs, cw') \<Longrightarrow> length vs = length calls"
  by (auto simp: http_BatchCall_def Let_def andthen_Inr split: prod.split_asm option.split_asm sum.split_asm if_split_asm)

text \<open>
  A value is handed on only from an answer with status 200, without an error, that carries the
  identifier of its request.
\<close>

lemma http_Call_ok:
  "http_Call T m ps (c, w) = (Inr v, c', w') \<Longrightarrow>
   (\<exists>resp r. tp_post T (mk_request m ps (ht_request_id c')) w = (Inr resp, w') \<and> ha_status resp = 200
     \<and> ha_decoded resp = Inr r \<and> rs_error r = None \<and> rs_id r = ht_request_id c' \<and> v = rpc_result r)"
  by (auto simp: http_Call_def Let_def andthen_Inr answer_body_def wrap_res_def
      split: prod.split_asm option.split_asm sum.split_asm if_split_asm) (metis not_None_eq surj_pair)

end
