(* ===== verification/MockNode.thy ===== *)
theory MockNode
  imports EvmClient Http Workers
begin

text \<open>
  \<open>internal/node/mock_evm_server.go\<close>: the EVM node of the development setup, and the client, over the
  HTTP client, against it. The functions of the library \<open>hexutil\<close> are parameters; \<open>hex_laws\<close> is what
  their documentation says of them. A panic in a handler ends its connection. \<open>writer\<close> says that the
  block generator is asking for the node's mutex, which holds back every further reader.
\<close>

section \<open>The node\<close>

record hexutil =
  hx_EncodeUint64 :: "u64 \<Rightarrow> string"
  hx_DecodeUint64 :: "string \<Rightarrow> go_error + u64"
  hx_EncodeBig :: "int \<Rightarrow> string"
  hx_DecodeBig :: "string \<Rightarrow> go_error + int"

definition hex_laws :: "hexutil \<Rightarrow> bool" where
  "hex_laws H \<longleftrightarrow>
     (\<forall>n. hx_EncodeUint64 H n = ''0x'' @ fmt_nat 16 (unat n)) \<and>
     (\<forall>n. hx_DecodeUint64 H (''0x'' @ fmt_nat 16 (unat n)) = Inr n) \<and>
     (\<forall>s. \<not> has_prefix s ''0x'' \<and> \<not> has_prefix s ''0X'' \<longrightarrow> (\<exists>e. hx_DecodeUint64 H s = Inl e))"

record mock_node =
  mn_chain_id :: u64
  mn_port :: int
  mn_current_block :: u64

definition NewMockEVMNode :: "u64 \<Rightarrow> int \<Rightarrow> mock_node" where
  "NewMockEVMNode chainID port = \<lparr>mn_chain_id = chainID, mn_port = port, mn_current_block = 19000000\<rparr>"

text \<open>One round of \<open>startBlockGenerator\<close>.\<close>

definition generate_block :: "mock_node \<Rightarrow> mock_node" where
  "generate_block n = n\<lparr>mn_current_block := mn_current_block n + 1\<rparr>"

definition hex64 :: "u64 \<Rightarrow> string" where
  "hex64 n = ''0x'' @ pad_zero 64 (fmt_nat 16 (unat n))"

definition createMockBlockResponse :: "int \<Rightarrow> u64 \<Rightarrow> mock_node \<Rightarrow> json" where
  "createMockBlockResponse now number n =
     (let txs = (if number = mn_current_block n then [JStr (hex64 (number * 1000)), JStr (hex64 (number * 1001))]
                 else [JStr (hex64 (number * 1000))]) in
      JObj [(''number'', JStr (''0x'' @ fmt_nat 16 (unat number))),
            (''hash'', JStr (hex64 number)),
            (''parentHash'', JStr (hex64 (number - 1))),
            (''timestamp'', JStr (''0x'' @ fmt_nat 16 (unat (word_of_int now :: u64)))),
            (''transactions'', JArr txs),
            (''logsBloom'', JStr ''0x0''),
            (''difficulty'', JStr ''0x0''),
            (''gasLimit'', JStr ''0x1C9C380''),
            (''gasUsed'', JStr ''0x0''),
            (''miner'', JStr (''0x'' @ replicate 40 CHR ''0'')),
            (''nonce'', JStr (''0x'' @ replicate 16 CHR ''0'')),
            (''size'', JStr ''0x200''),
            (''stateRoot'', JStr (''0x'' @ replicate 64 CHR ''0'')),
            (''transactionsRoot'', JStr (''0x'' @ replicate 64 CHR ''0'')),
            (''receiptsRoot'', JStr (''0x'' @ replicate 64 CHR ''0''))])"

text \<open>\<open>params[0].(string)\<close>: the assertion panics on anything else.\<close>

definition first_string :: "string \<Rightarrow> json list \<Rightarrow> (string \<Rightarrow> (go_error + json) outcome) \<Rightarrow> (go_error + json) outcome" where
  "first_string missing params k =
     (case params of
        [] \<Rightarrow> Returns (Inl (Msg missing))
      | p # ps \<Rightarrow> (case p of JStr s \<Rightarrow> k s | _ \<Rightarrow> Panics))"

definition handleBlockNumber :: "hexutil \<Rightarrow> mock_node \<Rightarrow> go_error + json" where
  "handleBlockNumber H n = Inr (JStr (hx_EncodeUint64 H (mn_current_block n)))"

definition block_of_tag :: "hexutil \<Rightarrow> string \<Rightarrow> mock_node \<Rightarrow> go_error + u64" where
  "block_of_tag H tag n = (if tag = ''latest'' then Inr (mn_current_block n) else hx_DecodeUint64 H tag)"

definition handleGetBlockByNumber :: "hexutil \<Rightarrow> int \<Rightarrow> json list \<Rightarrow> mock_node \<Rightarrow> (go_error + json) outcome" where
  "handleGetBlockByNumber H now params n =
     first_string ''missing block number'' params (\<lambda>s.
       Returns (andthen (block_of_tag H s n) (\<lambda>num. Inr (createMockBlockResponse now num n))))"

text \<open>
  The search holds the read lock while it makes the response, which takes the read lock again: with a
  writer waiting between the two, both wait for ever. The loop over \<open>int64\<close> numbers never ends when
  the last one is the largest and none matches.
\<close>

definition handleGetBlockByHash :: "bool \<Rightarrow> int \<Rightarrow> json list \<Rightarrow> mock_node \<Rightarrow> (go_error + json) outcome" where
  "handleGetBlockByHash writer now params n =
     first_string ''missing block hash'' params (\<lambda>hash.
       if hash = ''0x'' @ replicate 64 CHR ''0'' then Returns (Inr JNull)
       else
         (let hi = sint (mn_current_block n); lo = wrap_i64 (hi - 1000) in
          case List.find (\<lambda>i. 0 < i \<and> hex64 (word_of_int i) = hash) [lo..hi] of
            Some i \<Rightarrow> if writer then Blocks else Returns (Inr (createMockBlockResponse now (word_of_int i) n))
          | None \<Rightarrow> if lo \<le> hi \<and> hi = 2 ^ 63 - 1 then Blocks else Returns (Inr JNull)))"

definition handleGetTransactionByHash :: "hexutil \<Rightarrow> json list \<Rightarrow> mock_node \<Rightarrow> (go_error + json) outcome" where
  "handleGetTransactionByHash H params n =
     (if params = [] then Returns (Inl (Msg ''missing transaction hash''))
      else case hx_DecodeBig H ''0xDE0B6B3A7640000'' of
        Inl e \<Rightarrow> Panics
      | Inr v \<Rightarrow>
          first_string ''missing transaction hash'' params (\<lambda>h. Returns (Inr (JObj
            [(''hash'', JStr h), (''blockNumber'', JStr (''0x'' @ fmt_nat 16 (unat (mn_current_block n)))),
             (''from'', JStr ''0x742d35Cc6634C0532925a3b844Bc9e7595f7AAA''),
             (''to'', JStr ''0xdAC17F958D2ee523a2206206994597C13D831ec7''),
             (''value'', JStr (hx_EncodeBig H v)), (''gas'', JStr ''0x5208''), (''gasPrice'', JStr ''0x3B9ACA00''),
             (''input'', JStr ''0x''), (''nonce'', JStr ''0x123''), (''transactionIndex'', JStr ''0x0'')]))))"

definition transfer_topic :: json where
  "transfer_topic = JArr [JStr ''0xddf252ad1be2c89b69c2b068fc378daa952ba7f163c4a11628f55a4df523b3ef'']"

definition mock_log_data :: json where
  "mock_log_data = JStr ''0x00000000000000000000000000000000000000000000000000000000DE0B6B3A7640000''"

definition handleGetTransactionReceipt :: "json list \<Rightarrow> mock_node \<Rightarrow> (go_error + json) outcome" where
  "handleGetTransactionReceipt params n =
     first_string ''missing transaction hash'' params (\<lambda>h. Returns (Inr (JObj
       [(''transactionHash'', JStr h), (''blockNumber'', JStr (''0x'' @ fmt_nat 16 (unat (mn_current_block n)))),
        (''from'', JStr ''0x742d35Cc6634C0532925a3b844Bc9e7595f7AAA''),
        (''to'', JStr ''0xdAC17F958D2ee523a2206206994597C13D831ec7''),
        (''cumulativeGasUsed'', JStr ''0x2710''), (''gasUsed'', JStr ''0x2710''), (''status'', JStr ''0x1''),
        (''logs'', JArr [JObj
           [(''address'', JStr ''0xdAC17F958D2ee523a2206206994597C13D831ec7''), (''topics'', transfer_topic),
            (''data'', mock_log_data), (''blockNumber'', JStr (''0x'' @ fmt_nat 16 (unat (mn_current_block n)))),
            (''transactionHash'', JStr h), (''logIndex'', JStr ''0x0'')]])])))"

definition mock_log :: "u64 \<Rightarrow> json" where
  "mock_log i =
     JObj [(''address'', JStr ''0xdAC17F958D2ee523a2206206994597C13D831ec7''), (''topics'', transfer_topic),
           (''data'', mock_log_data), (''blockNumber'', JStr (''0x'' @ fmt_nat 16 (unat i))),
           (''blockHash'', JStr (hex64 i)), (''transactionHash'', JStr (hex64 (i * 1000))),
           (''logIndex'', JStr ''0x0'')]"

text \<open>Without a log the slice is nil, which is rendered as null. A range that ends at the largest number never ends.\<close>

definition handleGetLogs :: "hexutil \<Rightarrow> json list \<Rightarrow> mock_node \<Rightarrow> (go_error + json) outcome" where
  "handleGetLogs H params n =
     (case params of
        [] \<Rightarrow> Returns (Inl (Msg ''missing filter''))
      | JObj filt # ps \<Rightarrow>
          (case (map_of filt ''fromBlock'', map_of filt ''toBlock'') of
             (Some (JStr f), Some (JStr t)) \<Rightarrow>
               (case block_of_tag H f n of
                  Inl e \<Rightarrow> Returns (Inl e)
                | Inr fromBlock \<Rightarrow>
               (case block_of_tag H t n of
                  Inl e \<Rightarrow> Returns (Inl e)
                | Inr toBlock \<Rightarrow>
               (case block_numbers fromBlock toBlock of
                  None \<Rightarrow> Blocks
                | Some [] \<Rightarrow> Returns (Inr JNull)
                | Some is \<Rightarrow> Returns (Inr (JArr (map mock_log is))))))
           | _ \<Rightarrow> Panics)
      | _ \<Rightarrow> Panics)"

definition handleChainID :: "hexutil \<Rightarrow> mock_node \<Rightarrow> go_error + json" where
  "handleChainID H n = Inr (JStr (hx_EncodeUint64 H (mn_chain_id n)))"

definition handleNetVersion :: "mock_node \<Rightarrow> go_error + json" where
  "handleNetVersion n = Inr (JStr (fmt_u64 (mn_chain_id n)))"

definition mock_dispatch :: "hexutil \<Rightarrow> bool \<Rightarrow> int \<Rightarrow> string \<Rightarrow> json list \<Rightarrow> mock_node \<Rightarrow> (go_error + json) outcome" where
  "mock_dispatch H writer now meth params n =
     (if meth = ''eth_blockNumber'' then Returns (handleBlockNumber H n)
      else if meth = ''eth_getBlockByNumber'' then handleGetBlockByNumber H now params n
      else if meth = ''eth_getBlockByHash'' then handleGetBlockByHash writer now params n
      else if meth = ''eth_getTransactionByHash'' then handleGetTransactionByHash H params n
      else if meth = ''eth_getTransactionReceipt'' then handleGetTransactionReceipt params n
      else if meth = ''eth_getLogs'' then handleGetLogs H params n
      else if meth = ''eth_chainId'' then Returns (handleChainID H n)
      else if meth = ''net_version'' then Returns (handleNetVersion n)
      else Returns (Inl (Msg (''method not found: '' @ meth))))"

definition handleRequest :: "hexutil \<Rightarrow> bool \<Rightarrow> int \<Rightarrow> rpc_request \<Rightarrow> mock_node \<Rightarrow> rpc_response outcome" where
  "handleRequest H writer now rq n =
     outcome_bind (mock_dispatch H writer now (rq_method rq) (rq_params rq) n) (\<lambda>r. Returns (case r of
        Inl e \<Rightarrow> \<lparr>rs_jsonrpc = ''2.0'', rs_result = None, rs_error = Some (- 32601, err_text e), rs_id = rq_id rq\<rparr>
      | Inr j \<Rightarrow> \<lparr>rs_jsonrpc = ''2.0'', rs_result = Some j, rs_error = None, rs_id = rq_id rq\<rparr>))"

section \<open>The node at the other end of the HTTP client\<close>

text \<open>
  An answered request has status 200. A connection that ends without an answer, because the handler
  panicked or the client's time limit passed, is an error of the transport. The node decodes one
  request: the array of a batch is refused with status 400.
\<close>

definition mock_transport :: "hexutil \<Rightarrow> bool \<Rightarrow> int \<Rightarrow> mock_node transport" where
  "mock_transport H writer now =
     \<lparr>tp_request_error = (\<lambda>url. None),
      tp_post = (\<lambda>rq n. case handleRequest H writer now rq n of
          Returns r \<Rightarrow> (Inr \<lparr>ha_status = 200, ha_read_error = None, ha_body = '''', ha_decoded = Inr r\<rparr>, n)
        | Panics \<Rightarrow> (Inl (Msg ''EOF''), n)
        | Blocks \<Rightarrow> (Inl (Msg ''context deadline exceeded''), n)),
      tp_post_batch = (\<lambda>rqs n.
          (Inr \<lparr>ha_status = 400, ha_read_error = None, ha_body = ''Invalid request'' @ [CHR 0x0A],
                ha_decoded = Inl (Msg ''Invalid request'')\<rparr>, n))\<rparr>"

text \<open>The calls of the EVM client through an HTTP client.\<close>

definition http_rpc :: "'w transport \<Rightarrow> (http_client \<times> 'w) rpc_call" where
  "http_rpc T = (\<lambda>m ps cw. case http_Call T m ps cw of (r, cw') \<Rightarrow> (map_sum id as_json r, cw'))"

definition http_rpc_batch :: "'w transport \<Rightarrow> (http_client \<times> 'w) rpc_batch" where
  "http_rpc_batch T = (\<lambda>calls cw. case http_BatchCall T calls cw of (r, cw') \<Rightarrow> (map_sum id (map as_json) r, cw'))"

definition next_request :: "http_client \<Rightarrow> http_client" where
  "next_request c = c\<lparr>ht_request_id := wrap_i64 (ht_request_id c + 1)\<rparr>"

lemma http_Call_answered:
  assumes "tp_request_error T (ht_url c) = None" "rs_id r = ht_request_id (next_request c)"
    and "tp_post T (mk_request m ps (ht_request_id (next_request c))) w
      = (Inr \<lparr>ha_status = 200, ha_read_error = None, ha_body = b, ha_decoded = Inr r\<rparr>, w')"
  shows "http_Call T m ps (c, w) = (case rs_error r of
      Some (code, msg) \<Rightarrow> Inl (Msg (''RPC error: code='' @ fmt_int code @ '', message='' @ msg))
    | None \<Rightarrow> Inr (rpc_result r), next_request c, w')"
  using assms by (simp add: http_Call_def answer_body_def next_request_def split: option.split)

lemma http_Call_refused:
  assumes "tp_request_error T (ht_url c) = None"
    and "tp_post T (mk_request m ps (ht_request_id (next_request c))) w = (Inl e, w')"
  shows "http_Call T m ps (c, w) = (Inl (Wrap ''HTTP request failed'' e), next_request c, w')"
  using assms by (simp add: http_Call_def next_request_def)

lemma mock_call:
  "http_rpc (mock_transport H writer now) m ps (c, n) =
     (case mock_dispatch H writer now m ps n of
        Returns (Inr j) \<Rightarrow> Inr j
      | Returns (Inl e) \<Rightarrow> Inl (Msg (''RPC error: code='' @ fmt_int (- 32601) @ '', message='' @ err_text e))
      | Panics \<Rightarrow> Inl (Wrap ''HTTP request failed'' (Msg ''EOF''))
      | Blocks \<Rightarrow> Inl (Wrap ''HTTP request failed'' (Msg ''context deadline exceeded'')), next_request c, n)"
proof -
  let ?T = "mock_transport H writer now" and ?rq = "mk_request m ps (ht_request_id (next_request c))"
  have q: "rq_method ?rq = m" "rq_params ?rq = ps" "rq_id ?rq = ht_request_id (next_request c)"
    by (simp_all add: mk_request_def)
  have u: "tp_request_error ?T (ht_url c) = None" by (simp add: mock_transport_def)
  show ?thesis
  proof (cases "mock_dispatch H writer now m ps n")
    case (Returns r)
    show ?thesis
    proof (cases r)
      case (Inl e)
      let ?r = "\<lparr>rs_jsonrpc = ''2.0'', rs_result = None, rs_error = Some (- 32601, err_text e), rs_id = rq_id ?rq\<rparr>"
      have "tp_post ?T ?rq n = (Inr \<lparr>ha_status = 200, ha_read_error = None, ha_body = [], ha_decoded = Inr ?r\<rparr>, n)"
        using Returns Inl by (simp add: mock_transport_def handleRequest_def q)
      from http_Call_answered [OF u _ this] show ?thesis using Returns Inl by (simp add: http_rpc_def q)
    next
      case (Inr j)
      let ?r = "\<lparr>rs_jsonrpc = ''2.0'', rs_result = Some j, rs_error = None, rs_id = rq_id ?rq\<rparr>"
      have "tp_post ?T ?rq n = (Inr \<lparr>ha_status = 200, ha_read_error = None, ha_body = [], ha_decoded = Inr ?r\<rparr>, n)"
        using Returns Inr by (simp add: mock_transport_def handleRequest_def q)
      from http_Call_answered [OF u _ this] show ?thesis using Returns Inr by (simp add: http_rpc_def q rpc_result_def)
    qed
  next
    case Blocks
    then have "tp_post ?T ?rq n = (Inl (Msg ''context deadline exceeded''), n)"
      by (simp add: mock_transport_def handleRequest_def q)
    from http_Call_refused [OF u this] show ?thesis using Blocks by (simp add: http_rpc_def)
  next
    case Panics
    then have "tp_post ?T ?rq n = (Inl (Msg ''EOF''), n)" by (simp add: mock_transport_def handleRequest_def q)
    from http_Call_refused [OF u this] show ?thesis using Panics by (simp add: http_rpc_def)
  qed
qed

text \<open>A batch through the HTTP client never has more results than calls, so the EVM client does not panic on it.\<close>

lemma http_batch_no_panic: "evm_BatchGetBlocks (http_rpc_batch T) chain ns cw \<noteq> Panics"
proof (cases "ns = []")
  case False
  let ?calls = "map (\<lambda>n. (''eth_getBlockByNumber'', [JStr (''0x'' @ fmt_nat 16 (unat n)), JBool True])) ns"
  obtain r cw' where h: "http_BatchCall T ?calls cw = (r, cw')" by (rule prod.exhaust)
  show ?thesis
  proof (cases r)
    case (Inr vs)
    then have "length vs = length ns" using http_BatchCall_length [of T ?calls cw vs cw'] h by simp
    then have "batch_parse (evm_parseBlock chain) (length ns) 0 (map as_json vs)
        = Returns (oks (evm_parseBlock chain) (map as_json vs))" by (intro batch_parse_oks) simp
    then show ?thesis using False h Inr by (simp add: evm_BatchGetBlocks_def http_rpc_batch_def)
  qed (use False h in \<open>simp add: evm_BatchGetBlocks_def http_rpc_batch_def\<close>)
qed (simp add: evm_BatchGetBlocks_def)

lemma parse_tx_string [simp]: "evm_parseTransaction chain (JStr s) = Inl (Msg ''invalid transaction data format'')"
  by (simp add: evm_parseTransaction_def obj_of_def)

lemma parse_mock_block:
  assumes "0 \<le> now" "now < 2 ^ 63"
  shows "evm_parseBlock chain (createMockBlockResponse now n m) =
    Inr \<lparr>blk_chain_id = chain, blk_number = n, blk_hash = hex64 n, blk_parent_hash = hex64 (n - 1),
         blk_timestamp = now * 10 ^ 9, blk_transactions = []\<rparr>"
proof -
  have u: "int (unat (word_of_int now :: u64)) = now" using assms by (simp add: uint_word_of_int take_bit_int_eq_self)
  have w: "big_Int64 now = now" using assms unfolding big_Int64_def by (intro wrap_i64_id) auto
  have "ParseBigInt (CHR ''0'' # CHR ''x'' # fmt_nat 16 (unat (word_of_int now :: u64))) = Inr now"
    using ParseBigInt_0x [of "unat (word_of_int now :: u64)"] u by simp
  then show ?thesis
    using w by (simp add: evm_parseBlock_def createMockBlockResponse_def obj_of_def number_field_def str_field_def
        big_field_def arr_field_def TimestampToTime_def Let_def)
qed

text \<open>
  C15: From end to end: whatever block the EVM client asks of the mock node over HTTP, it gets it with
  its number, its hash and the hash of its parent, and without a single transaction, since the node
  lists transactions by their hash and the client drops what is not an object. The heights agree.
\<close>

theorem mock_block_end_to_end:
  assumes "hex_laws H" "0 \<le> now" "now < 2 ^ 63"
  shows "evm_GetBlock (http_rpc (mock_transport H writer now)) chain n (c, m) =
      (Inr \<lparr>blk_chain_id = chain, blk_number = n, blk_hash = hex64 n, blk_parent_hash = hex64 (n - 1),
            blk_timestamp = now * 10 ^ 9, blk_transactions = []\<rparr>, next_request c, m)
    \<and> evm_GetCurrentHeight (http_rpc (mock_transport H writer now)) (c, m) = (Inr (mn_current_block m), next_request c, m)
    \<and> evm_GetFinalizedHeight (http_rpc (mock_transport H writer now)) ''latest'' (c, m)
        = (Inr (mn_current_block m), next_request c, m)"
proof (intro conjI)
  have not_latest: "''0x'' @ fmt_nat 16 k \<noteq> ''latest''" for k by simp
  have d: "block_of_tag H (''0x'' @ fmt_nat 16 (unat n)) m = Inr n"
    using assms(1) not_latest [of "unat n"] by (simp add: block_of_tag_def hex_laws_def)
  have "mock_dispatch H writer now ''eth_getBlockByNumber'' [JStr (''0x'' @ fmt_nat 16 (unat n)), JBool True] m
      = Returns (Inr (createMockBlockResponse now n m))"
    using d by (simp add: mock_dispatch_def handleGetBlockByNumber_def first_string_def)
  then show "evm_GetBlock (http_rpc (mock_transport H writer now)) chain n (c, m) =
      (Inr \<lparr>blk_chain_id = chain, blk_number = n, blk_hash = hex64 n, blk_parent_hash = hex64 (n - 1),
            blk_timestamp = now * 10 ^ 9, blk_transactions = []\<rparr>, next_request c, m)"
    using parse_mock_block [OF assms(2,3)] by (simp add: evm_GetBlock_def mock_call)
  show "evm_GetCurrentHeight (http_rpc (mock_transport H writer now)) (c, m) = (Inr (mn_current_block m), next_request c, m)"
    using assms(1) by (simp add: evm_GetCurrentHeight_def mock_call mock_dispatch_def handleBlockNumber_def hex_laws_def)
  show "evm_GetFinalizedHeight (http_rpc (mock_transport H writer now)) ''latest'' (c, m)
        = (Inr (mn_current_block m), next_request c, m)"
    by (simp add: evm_GetFinalizedHeight_def mock_call mock_dispatch_def handleGetBlockByNumber_def first_string_def
        block_tag_def block_of_tag_def createMockBlockResponse_def obj_of_def str_field_def Let_def)
qed

text \<open>An instance of the library for the examples.\<close>

definition plain_hex :: hexutil where
  "plain_hex =
     \<lparr>hx_EncodeUint64 = FormatBlockNumber,
      hx_DecodeUint64 = (\<lambda>s. if has_prefix s ''0x'' then ParseBlockNumber s else Inl (Msg ''hex string without 0x prefix'')),
      hx_EncodeBig = (\<lambda>z. ''0x'' @ fmt_nat 16 (nat z)),
      hx_DecodeBig = (\<lambda>s. if has_prefix s ''0x'' then ParseBigInt s else Inl (Msg ''hex string without 0x prefix''))\<rparr>"

lemma plain_hex_laws: "hex_laws plain_hex"
proof -
  have "has_prefix (''0x'' @ fmt_nat 16 n) ''0x''" for n by (simp add: has_prefix_def)
  then show ?thesis by (simp add: hex_laws_def plain_hex_def FormatBlockNumber_def has_prefix_def)
qed

definition dev_client :: http_client where
  "dev_client = \<lparr>ht_url = ''http://localhost:8545'', ht_timeout = 30, ht_request_id = 0\<rparr>"

theorem mock_block_end_to_end_witness:
  "\<exists>b. evm_GetBlock (http_rpc (mock_transport plain_hex False 7)) ''eth'' 19000000 (dev_client, NewMockEVMNode 1 8545)
      = (Inr b, next_request dev_client, NewMockEVMNode 1 8545) \<and> blk_number b = 19000000 \<and> blk_transactions b = []
    \<and> evm_GetCurrentHeight (http_rpc (mock_transport plain_hex False 7)) (dev_client, NewMockEVMNode 1 8545)
      = (Inr 19000000, next_request dev_client, NewMockEVMNode 1 8545)"
  using mock_block_end_to_end [OF plain_hex_laws, of 7 False "''eth''" 19000000 dev_client "NewMockEVMNode 1 8545"]
  by (intro exI conjI) (auto simp: NewMockEVMNode_def)

text \<open>
  C37: What the mock node does not support. A batch is refused whatever it asks for, so no scan succeeds
  on this node; a receipt has no block hash, so none is ever read; and the tags \<open>finalized\<close> and \<open>safe\<close>
  are not numbers, so the finalised height is an error unless the chain is configured for \<open>latest\<close>.
\<close>

theorem mock_node_unsupported:
  assumes "hex_laws H" "ns \<noteq> []" "fin = ''finalized'' \<or> fin = ''safe''"
  shows "(\<exists>e cm. evm_BatchGetBlocks (http_rpc_batch (mock_transport H writer now)) chain ns (c, m) = Returns (Inl e, cm))
    \<and> (\<exists>e cm. evm_GetTransactionReceipt (http_rpc (mock_transport H writer now)) chain h (c, m) = (Inl e, cm))
    \<and> (\<exists>e cm. evm_GetFinalizedHeight (http_rpc (mock_transport H writer now)) fin (c, m) = (Inl e, cm))"
proof (intro conjI)
  obtain e cm where "http_BatchCall (mock_transport H writer now)
      (map (\<lambda>n. (''eth_getBlockByNumber'', [JStr (''0x'' @ fmt_nat 16 (unat n)), JBool True])) ns) (c, m) = (Inl e, cm)"
    using assms(2) by (simp add: http_BatchCall_def mock_transport_def answer_body_def Let_def)
  then show "\<exists>e cm. evm_BatchGetBlocks (http_rpc_batch (mock_transport H writer now)) chain ns (c, m) = Returns (Inl e, cm)"
    using assms(2) by (simp add: evm_BatchGetBlocks_def http_rpc_batch_def)
  show "\<exists>e cm. evm_GetTransactionReceipt (http_rpc (mock_transport H writer now)) chain h (c, m) = (Inl e, cm)"
    by (simp add: evm_GetTransactionReceipt_def mock_call mock_dispatch_def handleGetTransactionReceipt_def first_string_def
        evm_parseTransactionReceipt_def obj_of_def str_field_def number_field_def)
  have "\<exists>e. hx_DecodeUint64 H fin = Inl e" using assms(1,3) by (auto simp: hex_laws_def has_prefix_def)
  then show "\<exists>e cm. evm_GetFinalizedHeight (http_rpc (mock_transport H writer now)) fin (c, m) = (Inl e, cm)"
    using assms(3) by (auto simp: evm_GetFinalizedHeight_def mock_call mock_dispatch_def handleGetBlockByNumber_def
        first_string_def block_tag_def block_of_tag_def)
qed

theorem mock_node_unsupported_witness:
  "(\<exists>e cm. evm_BatchGetBlocks (http_rpc_batch (mock_transport plain_hex False 7)) ''eth'' [1, 2]
      (dev_client, NewMockEVMNode 1 8545) = Returns (Inl e, cm))
   \<and> (\<exists>e cm. evm_GetFinalizedHeight (http_rpc (mock_transport plain_hex False 7)) ''finalized''
      (dev_client, NewMockEVMNode 1 8545) = (Inl e, cm))"
  using mock_node_unsupported [OF plain_hex_laws, of "[1, 2]" "''finalized''" False 7 "''eth''" dev_client "NewMockEVMNode 1 8545"]
  by blast

end
