(* ===== verification/Nodes.thy ===== *)
theory Nodes
  imports GoTypes
begin

text \<open>
  \<open>internal/node/node_manager.go\<close>: the pool of RPC nodes of a chain, the choice of a healthy node by
  weight, the calls with retries, and the health checker. The RPC clients and the source of random
  numbers are parameters, the metrics of a call are left out. \<open>np_locked\<close> says that a goroutine that waits for ever holds the mutex of the
  node: whoever needs the mutex afterwards waits as well. The average response time is a float that
  nothing reads; it is left out, the mutex it is updated under is not.
\<close>

section \<open>Nodes\<close>

type_synonym i32 = "32 word"

record node_pool =
  np_config :: rpc_node_config
  np_healthy :: bool
  np_last_check :: int
  np_failure_count :: i32
  np_success_count :: i32
  np_locked :: bool

record node_manager =
  nmg_chain_id :: string
  nmg_nodes :: "node_pool list"

definition NewNodePool :: "int \<Rightarrow> (rpc_node_config \<Rightarrow> go_error option) \<Rightarrow> rpc_node_config \<Rightarrow> go_error + node_pool" where
  "NewNodePool now connect cfg =
     (case connect cfg of
        Some e \<Rightarrow> Inl (Wrap ''failed to create RPC client'' e)
      | None \<Rightarrow> Inr \<lparr>np_config = cfg, np_healthy = True, np_last_check = now, np_failure_count = 0,
                     np_success_count = 0, np_locked = False\<rparr>)"

text \<open>A node that cannot be made is logged and left out.\<close>

definition NewNodeManager ::
    "int \<Rightarrow> (rpc_node_config \<Rightarrow> go_error option) \<Rightarrow> string \<Rightarrow> chain_config \<Rightarrow> go_error + node_manager" where
  "NewNodeManager now connect chainID cfg =
     (if cc_rpc_nodes cfg = [] then Inl (Msg (''no RPC nodes configured for chain '' @ chainID))
      else
        (let nodes = List.map_filter (\<lambda>c. case NewNodePool now connect c of Inl e \<Rightarrow> None | Inr n \<Rightarrow> Some n)
                       (cc_rpc_nodes cfg) in
         if nodes = [] then Inl (Msg (''no valid RPC nodes for chain '' @ chainID))
         else Inr \<lparr>nmg_chain_id = chainID, nmg_nodes = nodes\<rparr>))"

definition IsHealthy :: "node_pool \<Rightarrow> bool outcome" where
  "IsHealthy n = (if np_locked n then Blocks else Returns (np_healthy n))"

definition RecordFailure :: "int \<Rightarrow> node_pool \<Rightarrow> node_pool outcome" where
  "RecordFailure now n =
     (if np_locked n then Blocks
      else Returns (n\<lparr>np_failure_count := np_failure_count n + 1, np_last_check := now\<rparr>))"

definition RecordSuccess :: "int \<Rightarrow> node_pool \<Rightarrow> node_pool outcome" where
  "RecordSuccess now n =
     (if np_locked n then Blocks
      else Returns (n\<lparr>np_success_count := np_success_count n + 1, np_last_check := now\<rparr>))"

section \<open>The choice of a node\<close>

definition weight :: "node_pool \<Rightarrow> int" where
  "weight n = rn_weight (np_config n)"

fun select_loop :: "int \<Rightarrow> int \<Rightarrow> (nat \<times> node_pool) list \<Rightarrow> nat option" where
  "select_loop r currentWeight [] = None"
| "select_loop r currentWeight ((i, n) # ns) =
     (let currentWeight' = currentWeight + weight n in
      if r < currentWeight' then Some i else select_loop r currentWeight' ns)"

text \<open>
  The nodes carry their index, which stands for the pointer. The random number lies below the total
  weight; drawing one panics when the total is negative.
\<close>

definition selectNodeByWeight :: "int \<Rightarrow> (nat \<times> node_pool) list \<Rightarrow> nat outcome" where
  "selectNodeByWeight r nodes =
     (case nodes of
        [] \<Rightarrow> Panics
      | (i0, n0) # ns \<Rightarrow>
          (let totalWeight = sum_list (map (weight \<circ> snd) nodes) in
           if totalWeight = 0 then Returns i0
           else if totalWeight < 0 then Panics
           else case select_loop r 0 nodes of Some i \<Rightarrow> Returns i | None \<Rightarrow> Returns i0))"

fun healthy_nodes :: "(nat \<times> node_pool) list \<Rightarrow> (nat \<times> node_pool) list outcome" where
  "healthy_nodes [] = Returns []"
| "healthy_nodes ((i, n) # ns) =
     outcome_bind (IsHealthy n) (\<lambda>h. outcome_bind (healthy_nodes ns) (\<lambda>rest.
       Returns (if h then (i, n) # rest else rest)))"

definition GetHealthyNode :: "int \<Rightarrow> node_manager \<Rightarrow> (go_error + nat) outcome" where
  "GetHealthyNode r m =
     outcome_bind (healthy_nodes (enumerate 0 (nmg_nodes m))) (\<lambda>hs.
       if hs = [] then Returns (Inl (Msg (''no healthy nodes available for chain '' @ nmg_chain_id m)))
       else outcome_bind (selectNodeByWeight r hs) (\<lambda>i. Returns (Inr i)))"

section \<open>Calls\<close>

definition update_node :: "nat \<Rightarrow> node_pool \<Rightarrow> node_manager \<Rightarrow> node_manager" where
  "update_node i n m = m\<lparr>nmg_nodes := (nmg_nodes m)[i := n]\<rparr>"

text \<open>
  \<open>rpc i\<close> is the call through the client of node \<open>i\<close>; \<open>rnd k\<close> the random number drawn in attempt \<open>k\<close>,
  \<open>now k\<close> the time after it. \<open>what\<close> tells a single call from a batch in the error text.
\<close>

fun call_loop ::
    "string \<Rightarrow> (nat \<Rightarrow> 'c \<Rightarrow> (go_error + 'a) \<times> 'c) \<Rightarrow> (nat \<Rightarrow> int) \<Rightarrow> (nat \<Rightarrow> int) \<Rightarrow> nat list
      \<Rightarrow> go_error \<Rightarrow> node_manager \<times> 'c \<Rightarrow> ((go_error + 'a) \<times> node_manager \<times> 'c) outcome" where
  "call_loop what rpc rnd now [] lastErr (m, c) =
     Returns (Inl (Wrap ''all nodes failed after 3 retries'' lastErr), m, c)"
| "call_loop what rpc rnd now (k # ks) lastErr (m, c) =
     outcome_bind (GetHealthyNode (rnd k) m) (\<lambda>g. case g of
       Inl e \<Rightarrow> Returns (Inl e, m, c)
     | Inr i \<Rightarrow>
         (case rpc i c of
            (Inl e, c1) \<Rightarrow>
              outcome_bind (RecordFailure (now k) (nmg_nodes m ! i)) (\<lambda>n.
                call_loop what rpc rnd now ks
                  (Wrap (what @ '' failed on node '' @ rn_url (np_config n)) e) (update_node i n m, c1))
          | (Inr x, c1) \<Rightarrow>
              outcome_bind (RecordSuccess (now k) (nmg_nodes m ! i)) (\<lambda>n.
                Returns (Inr x, update_node i n m, c1))))"

definition callWithRetry ::
    "(nat \<Rightarrow> 'c \<Rightarrow> (go_error + 'a) \<times> 'c) \<Rightarrow> (nat \<Rightarrow> int) \<Rightarrow> (nat \<Rightarrow> int) \<Rightarrow> node_manager \<times> 'c
      \<Rightarrow> ((go_error + 'a) \<times> node_manager \<times> 'c) outcome" where
  "callWithRetry rpc rnd now = call_loop ''RPC call'' rpc rnd now [0..<3] (Msg '''')"

definition batchCallWithRetry ::
    "(nat \<Rightarrow> 'c \<Rightarrow> (go_error + 'a) \<times> 'c) \<Rightarrow> (nat \<Rightarrow> int) \<Rightarrow> (nat \<Rightarrow> int) \<Rightarrow> node_manager \<times> 'c
      \<Rightarrow> ((go_error + 'a) \<times> node_manager \<times> 'c) outcome" where
  "batchCallWithRetry rpc rnd now = call_loop ''batch RPC call'' rpc rnd now [0..<3] (Msg '''')"

definition GetHealthStatus :: "node_manager \<Rightarrow> (string \<times> bool \<times> int \<times> int \<times> int) list outcome" where
  "GetHealthStatus m =
     (if \<exists>n \<in> set (nmg_nodes m). np_locked n then Blocks
      else Returns (map (\<lambda>n. (rn_url (np_config n), np_healthy n, np_last_check n, sint (np_failure_count n),
             sint (np_success_count n))) (nmg_nodes m)))"

section \<open>The health checker\<close>

definition check_method :: "string \<Rightarrow> string" where
  "check_method chainID = (if chainID = ''solana'' then ''getHealth'' else ''eth_blockNumber'')"

text \<open>
  \<open>updateAvgResponseTime\<close> takes the mutex of the node. \<open>checkNode\<close> calls it while it holds that mutex,
  which is not reentrant: \<open>held\<close> says that the caller holds it.
\<close>

definition updateAvgResponseTime :: "bool \<Rightarrow> node_pool \<Rightarrow> node_pool outcome" where
  "updateAvgResponseTime held n = (if held \<or> np_locked n then Blocks else Returns n)"

text \<open>An alert is logged and published; publishing does nothing.\<close>

record alert =
  al_type :: string
  al_chain_id :: string
  al_node_url :: string
  al_message :: string
  al_timestamp :: int
  al_failure_count :: int
  al_success_count :: int

definition sendAlert :: "string \<Rightarrow> string \<Rightarrow> int \<Rightarrow> node_pool \<Rightarrow> alert" where
  "sendAlert alertType chainID now n =
     \<lparr>al_type = alertType, al_chain_id = chainID, al_node_url = rn_url (np_config n),
      al_message = alertType @ '': Node '' @ rn_url (np_config n) @ '' is '' @ alertType, al_timestamp = now,
      al_failure_count = sint (np_failure_count n), al_success_count = sint (np_success_count n)\<rparr>"

definition publishAlert :: "alert \<Rightarrow> go_error option" where
  "publishAlert a = None"

definition judge_failure :: "string \<Rightarrow> health_check_config \<Rightarrow> int \<Rightarrow> node_pool \<Rightarrow> node_pool \<times> alert list" where
  "judge_failure chainID h now n =
     (if sint (np_failure_count n) \<ge> sint (word_of_int (hc_failure_threshold h) :: i32) \<and> np_healthy n
      then (let n' = n\<lparr>np_healthy := False\<rparr>
            in (n', if hc_alert_enabled h then [sendAlert ''NODE_UNHEALTHY'' chainID now n'] else []))
      else (n, []))"

definition judge_success :: "string \<Rightarrow> health_check_config \<Rightarrow> int \<Rightarrow> node_pool \<Rightarrow> node_pool \<times> alert list" where
  "judge_success chainID h now n =
     (if \<not> np_healthy n \<and> sint (np_success_count n) \<ge> sint (word_of_int (hc_success_threshold h) :: i32)
      then (let n' = n\<lparr>np_healthy := True\<rparr>
            in (n', if hc_alert_enabled h then [sendAlert ''NODE_RECOVERED'' chainID now n'] else []))
      else (n, []))"

definition checkNode ::
    "string \<Rightarrow> health_check_config \<Rightarrow> int \<Rightarrow> go_error option \<Rightarrow> node_pool \<Rightarrow> (node_pool \<times> alert list) outcome" where
  "checkNode chainID h now err n =
     (if np_locked n then Blocks
      else
        (let n1 = n\<lparr>np_last_check := now\<rparr> in
         case err of
           Some e \<Rightarrow>
             (let n2 = n1\<lparr>np_failure_count := np_failure_count n1 + 1\<rparr> in
              outcome_bind (updateAvgResponseTime True n2) (\<lambda>n3. Returns (judge_failure chainID h now n3)))
         | None \<Rightarrow>
             (let n2 = n1\<lparr>np_success_count := np_success_count n1 + 1, np_failure_count := 0\<rparr> in
              outcome_bind (updateAvgResponseTime True n2) (\<lambda>n3. Returns (judge_success chainID h now n3)))))"

text \<open>What the other goroutines see of the node once the check has started to update it.\<close>

definition checkNode_seen :: "string \<Rightarrow> health_check_config \<Rightarrow> int \<Rightarrow> go_error option \<Rightarrow> node_pool \<Rightarrow> node_pool" where
  "checkNode_seen chainID h now err n =
     (case checkNode chainID h now err n of
        Returns (n', alerts) \<Rightarrow> n'
      | _ \<Rightarrow> n\<lparr>np_locked := True\<rparr>)"

text \<open>Closing: a second close of the stop channel panics; the last error of the clients is returned.\<close>

definition nodes_Close :: "bool \<Rightarrow> bool \<Rightarrow> go_error option list \<Rightarrow> go_error option outcome" where
  "nodes_Close hasChecker stopped errs =
     (if hasChecker \<and> stopped then Panics
      else Returns (fold (\<lambda>e lastErr. if e = None then lastErr else e) errs None))"

section \<open>The choice is proportional to the weights\<close>

definition upto_weight :: "nat \<Rightarrow> node_pool list \<Rightarrow> int" where
  "upto_weight i ns = sum_list (map weight (take i ns))"

lemma upto_weight_Cons [simp]:
  "upto_weight 0 ns = 0" "upto_weight (Suc i) (n # ns) = weight n + upto_weight i ns"
  by (simp_all add: upto_weight_def)

lemma upto_weight_nonneg: "\<forall>n \<in> set ns. 0 \<le> weight n \<Longrightarrow> 0 \<le> upto_weight i ns"
  unfolding upto_weight_def using set_take_subset [of i ns] by (intro sum_list_nonneg) auto

lemma select_loop_enumerate:
  assumes "\<forall>n \<in> set ns. 0 \<le> weight n" "cur \<le> r"
  shows "select_loop r cur (enumerate k ns) = Some (k + j)
    \<longleftrightarrow> j < length ns \<and> cur + upto_weight j ns \<le> r \<and> r < cur + upto_weight (Suc j) ns"
  using assms
proof (induction ns arbitrary: cur k j)
  case (Cons n ns)
  have nn: "0 \<le> upto_weight i ns" for i using Cons.prems(1) by (intro upto_weight_nonneg) simp
  show ?case
  proof (cases "r < cur + weight n")
    case True
    have "\<not> cur + weight n + upto_weight j' ns \<le> r" for j' using True nn [of j'] by linarith
    then show ?thesis using True Cons.prems(2) by (cases j) (auto simp: add.assoc)
  next
    case False
    have pos: "select_loop r c (enumerate (Suc k) ns) \<noteq> Some k" for c
    proof -
      have "select_loop r c (enumerate m ns) = Some i \<Longrightarrow> m \<le> i" for m i
        by (induction ns arbitrary: m c) (auto simp: Let_def split: if_splits dest: Suc_leD)
      then show ?thesis using not_less_eq_eq by blast
    qed
    show ?thesis
    proof (cases j)
      case 0
      then show ?thesis using False pos by simp
    next
      case (Suc j')
      have "select_loop r (cur + weight n) (enumerate (Suc k) ns) = Some (Suc k + j')
          \<longleftrightarrow> j' < length ns \<and> cur + weight n + upto_weight j' ns \<le> r \<and> r < cur + weight n + upto_weight (Suc j') ns"
        using Cons.prems False by (intro Cons.IH) auto
      then show ?thesis using False Suc by (simp add: add.assoc)
    qed
  qed
qed simp

lemma upto_weight_all: "upto_weight (length ns) ns = sum_list (map weight ns)"
  by (simp add: upto_weight_def)

lemma upto_weight_step: "i < length ns \<Longrightarrow> upto_weight (Suc i) ns = upto_weight i ns + weight (ns ! i)"
  by (simp add: upto_weight_def take_Suc_conv_app_nth)

lemma upto_weight_mono:
  assumes "\<forall>n \<in> set ns. 0 \<le> weight n" "i \<le> length ns"
  shows "upto_weight i ns \<le> sum_list (map weight ns)"
proof -
  have "sum_list (map weight ns) = upto_weight i ns + sum_list (map weight (drop i ns))"
    unfolding upto_weight_def by (metis append_take_drop_id map_append sum_list_append)
  moreover have "0 \<le> sum_list (map weight (drop i ns))"
    using assms(1) set_drop_subset [of i ns] by (intro sum_list_nonneg) auto
  ultimately show ?thesis by simp
qed

lemma map_snd_enumerate: "map (f \<circ> snd) (enumerate k ns) = map f ns"
  by (simp flip: map_map)

lemma selectNodeByWeight_eq:
  assumes "\<forall>n \<in> set ns. 0 \<le> weight n" "0 < sum_list (map weight ns)" "0 \<le> r" "r < sum_list (map weight ns)"
    and "i < length ns"
  shows "selectNodeByWeight r (enumerate 0 ns) = Returns i
    \<longleftrightarrow> upto_weight i ns \<le> r \<and> r < upto_weight (Suc i) ns"
proof -
  have sel: "select_loop r 0 (enumerate 0 ns) = Some j
      \<longleftrightarrow> j < length ns \<and> upto_weight j ns \<le> r \<and> r < upto_weight (Suc j) ns" for j
    using select_loop_enumerate [OF assms(1,3), of 0 j] by simp
  have "\<exists>j. select_loop r 0 (enumerate 0 ns) = Some j"
  proof -
    have ex: "r < upto_weight (length ns) ns" using assms(4) by (simp add: upto_weight_all)
    define j where "j = (LEAST j. r < upto_weight j ns)"
    have lt: "r < upto_weight j ns" unfolding j_def by (rule LeastI [where P = "\<lambda>j. r < upto_weight j ns", OF ex])
    have "j \<noteq> 0" using lt assms(3) by (cases j) auto
    then obtain j' where j': "j = Suc j'" by (cases j) auto
    have "j \<le> length ns" unfolding j_def by (rule Least_le [where P = "\<lambda>j. r < upto_weight j ns", OF ex])
    moreover have "\<not> r < upto_weight j' ns" using not_less_Least [of j' "\<lambda>j. r < upto_weight j ns"] j' j_def by simp
    ultimately show ?thesis using sel [of j'] lt j' by (intro exI [of _ j']) simp
  qed
  then obtain j where j: "select_loop r 0 (enumerate 0 ns) = Some j" by blast
  obtain n0 ns' where ns: "ns = n0 # ns'" using assms(5) by (cases ns) auto
  have "selectNodeByWeight r (enumerate 0 ns) = Returns j"
    using j assms(2) by (simp add: selectNodeByWeight_def ns map_snd_enumerate Let_def)
  then show ?thesis using sel [of i] sel [of j] j assms(5) by auto
qed

text \<open>
  C32: A node is chosen in proportion to its weight: of the random numbers below the total weight, as
  many choose a node as its weight says, so a node of weight 0 is never chosen while another has one.
\<close>

theorem selectNodeByWeight_proportional:
  assumes "\<forall>n \<in> set ns. 0 \<le> weight n" "0 < sum_list (map weight ns)" "i < length ns"
  shows "card {r. 0 \<le> r \<and> r < sum_list (map weight ns) \<and> selectNodeByWeight r (enumerate 0 ns) = Returns i}
    = nat (weight (ns ! i))"
proof -
  have "{r. 0 \<le> r \<and> r < sum_list (map weight ns) \<and> selectNodeByWeight r (enumerate 0 ns) = Returns i}
      = {upto_weight i ns..<upto_weight i ns + weight (ns ! i)}"
    using selectNodeByWeight_eq [OF assms(1,2) _ _ assms(3)] upto_weight_step [OF assms(3)]
      upto_weight_nonneg [OF assms(1), of i] upto_weight_mono [OF assms(1), of "Suc i"] assms(3)
    by auto
  then show ?thesis by simp
qed

definition node_of :: "string \<Rightarrow> int \<Rightarrow> node_pool" where
  "node_of url w =
     \<lparr>np_config = \<lparr>rn_url = url, rn_weight = w, rn_timeout = 0, rn_max_conns = 1\<rparr>, np_healthy = True,
      np_last_check = 0, np_failure_count = 0, np_success_count = 0, np_locked = False\<rparr>"

theorem selectNodeByWeight_proportional_witness:
  "card {r. 0 \<le> r \<and> r < 6 \<and> selectNodeByWeight r (enumerate 0 [node_of ''a'' 1, node_of ''b'' 5]) = Returns 1} = 5"
  using selectNodeByWeight_proportional [of "[node_of ''a'' 1, node_of ''b'' 5]" 1]
  by (simp add: weight_def node_of_def)

section \<open>A health check stops everything\<close>

lemma healthy_nodes_locked: "\<exists>x \<in> set ns. np_locked (snd x) \<Longrightarrow> healthy_nodes ns = Blocks"
proof (induction ns rule: healthy_nodes.induct)
  case (2 i n ns)
  then show ?case by (cases "np_locked n") (simp_all add: IsHealthy_def)
qed simp

lemma GetHealthyNode_locked: "\<exists>n \<in> set (nmg_nodes m). np_locked n \<Longrightarrow> GetHealthyNode r m = Blocks"
proof -
  assume "\<exists>n \<in> set (nmg_nodes m). np_locked n"
  then obtain i where "i < length (nmg_nodes m)" "np_locked (nmg_nodes m ! i)" by (auto simp: in_set_conv_nth)
  then have "\<exists>x \<in> set (enumerate 0 (nmg_nodes m)). np_locked (snd x)"
    by (intro bexI [of _ "(i, nmg_nodes m ! i)"]) (simp_all add: in_set_enumerate_eq)
  from healthy_nodes_locked [OF this] show ?thesis by (simp add: GetHealthyNode_def)
qed

lemma checkNode_Blocks: "checkNode chainID h now err n = Blocks"
  by (auto simp: checkNode_def updateAvgResponseTime_def Let_def split: option.split)

text \<open>
  The first health check of a node hangs the whole manager: \<open>checkNode\<close> takes the node's mutex a
  second time and never returns, and from then on no node can be chosen and no call, single or
  batch, returns.
\<close>

definition stuck :: "node_manager \<Rightarrow> bool" where
  "stuck m \<longleftrightarrow> (\<exists>n \<in> set (nmg_nodes m). np_locked n)"

lemma stuck_blocks:
  assumes "stuck m"
  shows "GetHealthyNode r m = Blocks" "callWithRetry rpc rnd now (m, c) = Blocks"
    "batchCallWithRetry rpc rnd now (m, c) = Blocks" "GetHealthStatus m = Blocks"
proof -
  note l = assms [unfolded stuck_def]
  have "[0..<3] = 0 # [1..<3]" by (simp add: upt_rec)
  then show "GetHealthyNode r m = Blocks" "callWithRetry rpc rnd now (m, c) = Blocks"
    "batchCallWithRetry rpc rnd now (m, c) = Blocks" "GetHealthStatus m = Blocks"
    by (simp_all only: callWithRetry_def batchCallWithRetry_def call_loop.simps GetHealthyNode_locked [OF l]
        outcome_bind.simps GetHealthStatus_def l simp_thms if_True)
qed

lemma checked_stuck:
  assumes "i < length (nmg_nodes m)"
  shows "stuck (update_node i (checkNode_seen chainID h t err (nmg_nodes m ! i)) m)"
proof -
  let ?n = "(nmg_nodes m ! i)\<lparr>np_locked := True\<rparr>"
  have "?n \<in> set ((nmg_nodes m)[i := ?n])" using assms by (rule set_update_memI)
  then have "\<exists>n \<in> set ((nmg_nodes m)[i := ?n]). np_locked n" by (rule bexI [rotated]) simp
  then show ?thesis by (simp add: stuck_def update_node_def checkNode_seen_def checkNode_Blocks)
qed

definition two_nodes :: node_manager where
  "two_nodes = \<lparr>nmg_chain_id = ''eth'', nmg_nodes = [node_of ''a'' 1, node_of ''b'' 5]\<rparr>"

section \<open>The monitor\<close>

text \<open>
  The health checker at work: a tick starts a goroutine for every node, which the monitor keeps
  until the node has answered and the check goes on to update it; stopping closes a channel, and
  ends the ticks. A checker whose interval is not positive panics when it starts.
\<close>

record health_monitor =
  hm_config :: health_check_config
  hm_manager :: node_manager
  hm_pending :: "nat list"
  hm_stopped :: bool

definition NewHealthChecker :: "health_check_config \<Rightarrow> node_manager \<Rightarrow> health_monitor" where
  "NewHealthChecker h m = \<lparr>hm_config = h, hm_manager = m, hm_pending = [], hm_stopped = False\<rparr>"

definition checker_Start :: "health_monitor \<Rightarrow> health_monitor outcome" where
  "checker_Start s = (if hc_interval (hm_config s) \<le> 0 then Panics else Returns s)"

definition checker_Stop :: "health_monitor \<Rightarrow> health_monitor outcome" where
  "checker_Stop s = (if hm_stopped s then Panics else Returns (s\<lparr>hm_stopped := True\<rparr>))"

definition checkAllNodes :: "health_monitor \<Rightarrow> health_monitor" where
  "checkAllNodes s = s\<lparr>hm_pending := hm_pending s @ [0..<length (nmg_nodes (hm_manager s))]\<rparr>"

datatype monitor_event = Ticked | Answered nat int "go_error option" | StopCalled

fun monitor_step :: "monitor_event \<Rightarrow> health_monitor \<Rightarrow> health_monitor outcome" where
  "monitor_step Ticked s = Returns (if hm_stopped s then s else checkAllNodes s)"
| "monitor_step (Answered i now err) s =
     Returns (if i \<in> set (hm_pending s)
       then s\<lparr>hm_pending := remove1 i (hm_pending s),
              hm_manager := update_node i (checkNode_seen (nmg_chain_id (hm_manager s)) (hm_config s) now err
                (nmg_nodes (hm_manager s) ! i)) (hm_manager s)\<rparr>
       else s)"
| "monitor_step StopCalled s = checker_Stop s"

fun monitor_run :: "monitor_event list \<Rightarrow> health_monitor \<Rightarrow> health_monitor outcome" where
  "monitor_run [] s = Returns s"
| "monitor_run (ev # evs) s = outcome_bind (monitor_step ev s) (monitor_run evs)"

lemma monitor_run_append: "monitor_run (xs @ ys) s = outcome_bind (monitor_run xs s) (monitor_run ys)"
proof (induction xs arbitrary: s)
  case (Cons x xs)
  then show ?case by (cases "monitor_step x s") simp_all
qed simp

definition monitor_ok :: "health_monitor \<Rightarrow> bool" where
  "monitor_ok s \<longleftrightarrow> (\<forall>i \<in> set (hm_pending s). i < length (nmg_nodes (hm_manager s)))"

lemma monitor_step_ok: "monitor_ok s \<Longrightarrow> monitor_step ev s = Returns s' \<Longrightarrow> monitor_ok s'"
  by (cases ev) (auto simp: monitor_ok_def checkAllNodes_def update_node_def checker_Stop_def
      dest: notin_set_remove1 split: if_splits)

lemma stuck_update_locked:
  assumes "stuck m" "i < length (nmg_nodes m)" "np_locked n"
  shows "stuck (update_node i n m)"
  using set_update_memI [OF assms(2), of n] assms(3) by (auto simp: stuck_def update_node_def)

lemma checkNode_seen_locked: "np_locked (checkNode_seen chainID h now err n)"
  by (simp add: checkNode_seen_def checkNode_Blocks)

lemma monitor_step_stuck:
  assumes "monitor_ok s" "monitor_step ev s = Returns s'"
    and "stuck (hm_manager s) \<or> (\<exists>i now err. ev = Answered i now err \<and> i \<in> set (hm_pending s))"
  shows "stuck (hm_manager s')"
  using assms by (cases ev) (auto simp: monitor_ok_def checkAllNodes_def checker_Stop_def checked_stuck
      stuck_update_locked checkNode_seen_locked split: if_splits)

lemma monitor_run_keeps:
  "monitor_run evs s = Returns s' \<Longrightarrow> monitor_ok s
    \<Longrightarrow> monitor_ok s' \<and> (stuck (hm_manager s) \<longrightarrow> stuck (hm_manager s'))"
proof (induction evs arbitrary: s)
  case (Cons ev evs)
  then obtain s1 where s1: "monitor_step ev s = Returns s1" "monitor_run evs s1 = Returns s'"
    by (auto simp: outcome_bind_Returns)
  with Cons monitor_step_ok [OF Cons.prems(2) s1(1)] monitor_step_stuck [OF Cons.prems(2) s1(1)]
  show ?case by blast
qed simp

text \<open>
  C33: Health checking stops the chain for ever. Whatever happens in between, once the first node has answered
  a health check (with or without an error), no node can be chosen again and no call, single or
  batch, ever returns, whatever the nodes would answer.
\<close>

theorem health_check_hangs:
  assumes "monitor_run (evs @ Answered i t err # evs') (NewHealthChecker h m) = Returns s'"
    and "monitor_run evs (NewHealthChecker h m) = Returns s" "i \<in> set (hm_pending s)"
  shows "GetHealthyNode r (hm_manager s') = Blocks
    \<and> callWithRetry rpc rnd now (hm_manager s', c) = Blocks
    \<and> batchCallWithRetry rpc rnd now (hm_manager s', c) = Blocks
    \<and> GetHealthStatus (hm_manager s') = Blocks"
proof -
  have "monitor_ok (NewHealthChecker h m)" by (simp add: monitor_ok_def NewHealthChecker_def)
  with monitor_run_keeps [OF assms(2)] have ok: "monitor_ok s" by blast
  obtain s1 where s1: "monitor_step (Answered i t err) s = Returns s1" "monitor_run evs' s1 = Returns s'"
    using assms(1,2) by (auto simp: monitor_run_append)
  have "stuck (hm_manager s1)" using monitor_step_stuck [OF ok s1(1)] assms(3) by blast
  with monitor_run_keeps [OF s1(2) monitor_step_ok [OF ok s1(1)]] have "stuck (hm_manager s')" by blast
  then show ?thesis by (simp add: stuck_blocks)
qed

definition every_minute :: health_check_config where
  "every_minute = \<lparr>hc_enabled = True, hc_interval = 60, hc_timeout = 1, hc_failure_threshold = 3,
     hc_success_threshold = 2, hc_alert_enabled = False\<rparr>"

theorem health_check_hangs_witness:
  "\<exists>s'. monitor_run [Ticked, Answered 1 7 None, Ticked] (NewHealthChecker every_minute two_nodes) = Returns s'
    \<and> callWithRetry (\<lambda>i c. (Inr i, c)) (\<lambda>k. 0) int (hm_manager s', ()) = Blocks"
proof -
  let ?s = "NewHealthChecker every_minute two_nodes"
  obtain s' where s': "monitor_run [Ticked, Answered 1 7 None, Ticked] ?s = Returns s'"
    by (simp add: NewHealthChecker_def)
  have "monitor_run [Ticked] ?s = Returns (checkAllNodes ?s)" "1 \<in> set (hm_pending (checkAllNodes ?s))"
    by (simp_all add: NewHealthChecker_def checkAllNodes_def two_nodes_def)
  note hang = health_check_hangs [where evs = "[Ticked]" and evs' = "[Ticked]", unfolded append.simps, OF s' this]
  have "callWithRetry (\<lambda>i c. (Inr i, c)) (\<lambda>k. 0) int (hm_manager s', ()) = Blocks"
    by (rule hang [THEN conjunct2, THEN conjunct1])
  with s' show ?thesis by (intro exI [of _ s'] conjI)
qed

section \<open>Failures never take a node out\<close>

lemma call_loop_health:
  "call_loop what rpc rnd now ks le (m, c) = Returns (res, m', c')
    \<Longrightarrow> map np_healthy (nmg_nodes m') = map np_healthy (nmg_nodes m)"
proof (induction ks arbitrary: le m c)
  case (Cons k ks)
  have upd: "map np_healthy (nmg_nodes (update_node i n m)) = map np_healthy (nmg_nodes m)"
    if "np_healthy n = np_healthy (nmg_nodes m ! i)" for i n
    using that by (simp add: update_node_def map_update) (metis list_update_id list_update_beyond map_update not_le nth_map length_map)
  obtain g where g: "GetHealthyNode (rnd k) m = Returns g"
    using Cons.prems by (cases "GetHealthyNode (rnd k) m") auto
  show ?case
  proof (cases g)
    case (Inr i)
    obtain res1 c1 where r: "rpc i c = (res1, c1)" by (rule prod.exhaust)
    show ?thesis
    proof (cases res1)
      case (Inl e)
      then obtain n where n: "RecordFailure (now k) (nmg_nodes m ! i) = Returns n"
        using Cons.prems g Inr r by (cases "RecordFailure (now k) (nmg_nodes m ! i)") auto
      then have "np_healthy n = np_healthy (nmg_nodes m ! i)" by (auto simp: RecordFailure_def split: if_splits)
      then show ?thesis using Cons.IH Cons.prems g Inr r Inl n upd by fastforce
    next
      case (Inr x)
      then obtain n where n: "RecordSuccess (now k) (nmg_nodes m ! i) = Returns n"
        using Cons.prems g \<open>g = Inr i\<close> r by (cases "RecordSuccess (now k) (nmg_nodes m ! i)") auto
      then have "np_healthy n = np_healthy (nmg_nodes m ! i)" by (auto simp: RecordSuccess_def split: if_splits)
      then show ?thesis using Cons.prems g \<open>g = Inr i\<close> r Inr n upd by auto
    qed
  qed (use Cons.prems g in auto)
qed simp

text \<open>
  However often a node fails its calls, it stays in service: the calls only count.
\<close>

lemma callWithRetry_health:
  "callWithRetry rpc rnd now (m, c) = Returns (res, m', c')
    \<Longrightarrow> map np_healthy (nmg_nodes m') = map np_healthy (nmg_nodes m)"
  unfolding callWithRetry_def by (rule call_loop_health)

end
