(* ===== verification/Clients.thy ===== *)
theory Clients
  imports MockNode Nodes Detector
begin

text \<open>
  \<open>internal/node/chain_factory.go\<close>: the clients of the supported chains as the interface
  \<open>ChainClient\<close>, the factory and the registry; and what the scanner and the detector make of them.
  The maps of the registry are association lists: the order in which the source visits them is
  unspecified, here it is the list's.
\<close>

section \<open>The EVM client as a chain client\<close>

text \<open>
  \<open>BatchGetBlocks\<close> where it does not panic: \<open>evm_batch_blocks_eq\<close> below says that this is whenever there
  are at most as many results as numbers, and \<open>http_batch_no_panic\<close> that this holds over HTTP.
\<close>

definition evm_batch_blocks :: "'c rpc_batch \<Rightarrow> string \<Rightarrow> u64 list \<Rightarrow> 'c \<Rightarrow> (go_error + block option list) \<times> 'c" where
  "evm_batch_blocks batch chainID ns c =
     (if ns = [] then (Inr [], c)
      else case batch (map (\<lambda>n. (''eth_getBlockByNumber'', [JStr (''0x'' @ fmt_nat 16 (unat n)), JBool True])) ns) c of
        (Inl e, c') \<Rightarrow> (Inl (Wrap ''failed to batch get blocks'' e), c')
      | (Inr results, c') \<Rightarrow> (Inr (map Some (oks (evm_parseBlock chainID) results)), c'))"

lemma evm_batch_blocks_eq:
  assumes "\<And>calls rs c'. batch calls c = (Inr rs, c') \<Longrightarrow> length rs \<le> length calls"
  shows "evm_BatchGetBlocks batch chainID ns c =
    Returns (case evm_batch_blocks batch chainID ns c of (r, c') \<Rightarrow> (map_sum id (map the) r, c'))"
  using batch_parse_oks [of 0 _ "length ns" "evm_parseBlock chainID"]
  by (auto simp: evm_BatchGetBlocks_def evm_batch_blocks_def comp_def dest!: assms split: prod.split sum.split)

definition evm_chain_client :: "'c rpc_call \<Rightarrow> 'c rpc_batch \<Rightarrow> string \<Rightarrow> string \<Rightarrow> 'c chain_client" where
  "evm_chain_client call batch chainID finalizationType =
     \<lparr>cl_GetBlock = (\<lambda>n c. apfst (map_sum id Some) (evm_GetBlock call chainID n c)),
      cl_GetFinalizedHeight = evm_GetFinalizedHeight call finalizationType,
      cl_GetCurrentHeight = evm_GetCurrentHeight call,
      cl_BatchGetBlocks = evm_batch_blocks batch chainID,
      cl_DetectReorg = evm_DetectReorg call chainID\<rparr>"

section \<open>The clients that are not implemented\<close>

definition SolanaClient :: "'c chain_client" where
  "SolanaClient =
     \<lparr>cl_GetBlock = (\<lambda>n c. (Inl (Msg ''not implemented for Solana''), c)),
      cl_GetFinalizedHeight = (\<lambda>c. (Inl (Msg ''not implemented for Solana''), c)),
      cl_GetCurrentHeight = (\<lambda>c. (Inl (Msg ''not implemented for Solana''), c)),
      cl_BatchGetBlocks = (\<lambda>ns c. (Inl (Msg ''not implemented for Solana''), c)),
      cl_DetectReorg = (\<lambda>n h c. (Inl (Msg ''not implemented for Solana''), c))\<rparr>"

definition TronClient :: "'c chain_client" where
  "TronClient =
     \<lparr>cl_GetBlock = (\<lambda>n c. (Inl (Msg ''not implemented for Tron''), c)),
      cl_GetFinalizedHeight = (\<lambda>c. (Inl (Msg ''not implemented for Tron''), c)),
      cl_GetCurrentHeight = (\<lambda>c. (Inl (Msg ''not implemented for Tron''), c)),
      cl_BatchGetBlocks = (\<lambda>ns c. (Inl (Msg ''not implemented for Tron''), c)),
      cl_DetectReorg = (\<lambda>n h c. (Inl (Msg ''not implemented for Tron''), c))\<rparr>"

section \<open>The factory and the registry\<close>

datatype client_kind = EvmKind | SolanaKind | TronKind

record client =
  ci_kind :: client_kind
  ci_node_manager :: node_manager
  ci_chain_id :: string
  ci_config :: chain_config

type_synonym connector = "rpc_node_config \<Rightarrow> go_error option"

definition new_client :: "client_kind \<Rightarrow> int \<Rightarrow> connector \<Rightarrow> string \<Rightarrow> chain_config \<Rightarrow> go_error + client" where
  "new_client k now connect chainID cfg =
     andthen (wrap_res ''failed to create node manager'' (NewNodeManager now connect chainID cfg)) (\<lambda>m.
       Inr \<lparr>ci_kind = k, ci_node_manager = m, ci_chain_id = chainID, ci_config = cfg\<rparr>)"

definition NewEVMClient :: "int \<Rightarrow> connector \<Rightarrow> string \<Rightarrow> chain_config \<Rightarrow> go_error + client" where
  "NewEVMClient = new_client EvmKind"

definition NewSolanaClient :: "int \<Rightarrow> connector \<Rightarrow> string \<Rightarrow> chain_config \<Rightarrow> go_error + client" where
  "NewSolanaClient = new_client SolanaKind"

definition NewTronClient :: "int \<Rightarrow> connector \<Rightarrow> string \<Rightarrow> chain_config \<Rightarrow> go_error + client" where
  "NewTronClient = new_client TronKind"

definition CreateClient :: "int \<Rightarrow> connector \<Rightarrow> string \<Rightarrow> chain_config \<Rightarrow> go_error + client" where
  "CreateClient now connect chainID cfg =
     (if cc_chain_type cfg = ''evm'' then NewEVMClient now connect chainID cfg
      else if cc_chain_type cfg = ''solana'' then NewSolanaClient now connect chainID cfg
      else if cc_chain_type cfg = ''tron'' then NewTronClient now connect chainID cfg
      else Inl (Msg (''unsupported chain type: '' @ cc_chain_type cfg)))"

type_synonym client_registry = "(string \<times> client) list"

definition RegisterClient ::
    "int \<Rightarrow> connector \<Rightarrow> string \<Rightarrow> chain_config \<Rightarrow> client_registry \<Rightarrow> go_error option \<times> client_registry" where
  "RegisterClient now connect chainID cfg r =
     (case CreateClient now connect chainID cfg of
        Inl e \<Rightarrow> (Some (Wrap (''failed to create client for chain '' @ chainID) e), r)
      | Inr c \<Rightarrow> (None, AList.update chainID c r))"

definition GetClient :: "string \<Rightarrow> client_registry \<Rightarrow> go_error + client" where
  "GetClient chainID r =
     (case map_of r chainID of
        None \<Rightarrow> Inl (Msg (''client not found for chain '' @ chainID))
      | Some c \<Rightarrow> Inr c)"

definition GetAllClients :: "client_registry \<Rightarrow> client_registry" where
  "GetAllClients r = r"

text \<open>\<open>close\<close> is a client's \<open>Close\<close>; the error of the last one that fails is returned.\<close>

definition CloseAll :: "(client \<Rightarrow> go_error option) \<Rightarrow> client_registry \<Rightarrow> go_error option" where
  "CloseAll close r =
     fold (\<lambda>(chainID, c) lastErr. case close c of
         None \<Rightarrow> lastErr
       | Some e \<Rightarrow> Some (Wrap (''failed to close client for chain '' @ chainID) e)) r None"

text \<open>\<open>check\<close> is the health check of an EVM client: the error of \<open>GetCurrentHeight\<close>.\<close>

definition client_HealthCheck :: "(client \<Rightarrow> go_error option) \<Rightarrow> client \<Rightarrow> go_error option" where
  "client_HealthCheck check c =
     (case ci_kind c of
        EvmKind \<Rightarrow> check c
      | SolanaKind \<Rightarrow> Some (Msg ''not implemented for Solana'')
      | TronKind \<Rightarrow> Some (Msg ''not implemented for Tron''))"

definition HealthCheckAll :: "(client \<Rightarrow> go_error option) \<Rightarrow> client_registry \<Rightarrow> (string \<times> go_error option) list" where
  "HealthCheckAll check r = map (\<lambda>(chainID, c). (chainID, client_HealthCheck check c)) r"

lemma RegisterClient_get:
  "RegisterClient now connect chainID cfg r = (None, r') \<Longrightarrow>
    (\<exists>c. GetClient chainID r' = Inr c \<and> ci_chain_id c = chainID \<and> ci_config c = cfg \<and> nmg_nodes (ci_node_manager c) \<noteq> [])
    \<and> (\<forall>k. k \<noteq> chainID \<longrightarrow> GetClient k r' = GetClient k r)"
  by (auto simp: RegisterClient_def CreateClient_def NewEVMClient_def NewSolanaClient_def NewTronClient_def new_client_def
      GetClient_def update_conv NewNodeManager_def wrap_res_def Let_def andthen_def
      split: sum.split_asm if_split_asm)

lemma RegisterClient_fails: "RegisterClient now connect chainID cfg r = (Some e, r') \<Longrightarrow> r' = r"
  by (auto simp: RegisterClient_def split: sum.split_asm)

section \<open>Chains that are configured but not supported\<close>

text \<open>
  A scanner whose chain is Solana or Tron, which the factory builds a client for, never gets
  anything done: \<open>generateTasks\<close> asks for the height, gets an error and returns with the scanner and
  its queue unchanged, in every round.
\<close>

theorem unsupported_chain_never_scans:
  "generateTasks SolanaClient ema now sel (s, c) = Some (Returns (s, c))
   \<and> generateTasks TronClient ema now sel (s, c) = Some (Returns (s, c))"
  by (simp add: generateTasks_def SolanaClient_def TronClient_def split: sum.split)

section \<open>The scanner over the EVM client\<close>

text \<open>
  C7: Success without the blocks: over a node that answers every call, a scan reports no error and
  counts exactly the blocks whose answers parse. A block that the node does not have yet (its answer
  is null) is neither scanned nor reported, and the watermark moves past it with the task.
\<close>

theorem scan_misses_unparsed_blocks:
  assumes "0 < bs" "unat hi + nat bs < 2 ^ 64" "\<not> dn s"
    and "\<And>ns. batch (map (\<lambda>n. (''eth_getBlockByNumber'', [JStr (''0x'' @ fmt_nat 16 (unat n)), JBool True])) ns) s
      = (Inr (map answer ns), s)"
  shows "\<exists>k. scanBlocksSequential (evm_batch_blocks batch chain) dn lo hi bs s
      = Some ((int (length (filter (\<lambda>n. \<exists>b. evm_parseBlock chain (answer n) = Inr b) (blocks_of lo hi))), k, None), s)"
proof -
  define g where "g n = (case evm_parseBlock chain (answer n) of Inl e \<Rightarrow> [] | Inr b \<Rightarrow> [Some b])" for n
  have p: "map Some (oks (evm_parseBlock chain) (map answer ns)) = concat (map g ns)" for ns
    by (induction ns) (auto simp: oks_def List.map_filter_simps g_def split: sum.split)
  have bgb: "evm_batch_blocks batch chain ns s = (Inr (concat (map g ns)), s)" if "ns \<noteq> []" for ns
    using that assms(4) [of ns] by (simp add: evm_batch_blocks_def p)
  have cnt: "fst (count_blocks (concat (map g ns)) c)
      = fst c + int (length (filter (\<lambda>n. \<exists>b. evm_parseBlock chain (answer n) = Inr b) ns))" for ns c
    by (induction ns arbitrary: c) (auto simp: g_def split: sum.split)
  show ?thesis
    using seq_loop_serving [where bgb = "evm_batch_blocks batch chain" and g = g and dn = dn and s = s and lo = lo
        and c = "(0, 0)", OF assms(1,2)] assms(3) bgb cnt [of "blocks_of lo hi" "(0, 0)"]
    by (simp add: scanBlocksSequential_def)
qed

text \<open>A node that has block 1 only, read off the request.\<close>

definition one_block_batch :: "unit rpc_batch" where
  "one_block_batch calls s =
     (Inr (map (\<lambda>call. if snd call = [JStr ''0x1'', JBool True] then block_json (mk_block 1 ''0xa'' ''0x0'' []) else JNull)
        calls), s)"

theorem scan_misses_unparsed_blocks_witness:
  "\<exists>k. scanBlocksSequential (evm_batch_blocks one_block_batch ''eth'') (\<lambda>s. False) 1 3 2 () = Some ((1, k, None), ())"
proof -
  define answer where
    "answer n = (if fmt_nat 16 (unat n) = ''1'' then block_json (mk_block 1 ''0xa'' ''0x0'' []) else JNull)" for n :: u64
  have b: "one_block_batch (map (\<lambda>n. (''eth_getBlockByNumber'', [JStr (''0x'' @ fmt_nat 16 (unat n)), JBool True])) ns) ()
      = (Inr (map answer ns), ())" for ns
    by (simp add: one_block_batch_def answer_def comp_def)
  have d: "fmt_nat 16 (Suc 0) = ''1''" "fmt_nat 16 2 = ''2''" "fmt_nat 16 3 = ''3''" by code_simp+
  have w: "big_Int64 0 = 0" by (simp add: big_Int64_def wrap_i64_def)
  have n: "ParseBigInt ''0x0'' = Inr 0" "ParseBlockNumber ''0x1'' = Inr 1" "fmt_nat 16 0 = ''0''" by code_simp+
  have "\<exists>b. evm_parseBlock ''eth'' (answer 1) = Inr b"
    by (simp add: answer_def d evm_parseBlock_def block_json_def mk_block_def obj_of_def number_field_def str_field_def
        big_field_def hex_def w n arr_field_def)
  moreover have "\<nexists>b. evm_parseBlock ''eth'' (answer 2) = Inr b" "\<nexists>b. evm_parseBlock ''eth'' (answer 3) = Inr b"
    by (simp_all add: answer_def d evm_parseBlock_def obj_of_def)
  moreover have "blocks_of 1 3 = [1, 2, 3]" by code_simp
  ultimately have f: "length (filter (\<lambda>n. \<exists>b. evm_parseBlock ''eth'' (answer n) = Inr b) (blocks_of 1 3)) = 1" by simp
  from scan_misses_unparsed_blocks [where bs = 2 and hi = 3 and lo = 1 and dn = "\<lambda>s. False" and s = "()"
      and batch = one_block_batch and answer = answer and chain = "''eth''", OF _ _ _ b]
  show ?thesis by (simp add: f)
qed

section \<open>The client keeps the contract of the detector\<close>

lemma mock_served_number:
  assumes "hex_laws H" "evm_GetBlock (http_rpc (mock_transport H writer now)) chain n cw = (Inr b, cw')"
  shows "blk_number b = n"
proof -
  obtain c m where cw: "cw = (c, m)" by (rule prod.exhaust)
  have "block_of_tag H (''0x'' @ fmt_nat 16 (unat n)) m = Inr n"
    using assms(1) by (simp add: block_of_tag_def hex_laws_def)
  then have "mock_dispatch H writer now ''eth_getBlockByNumber'' [JStr (''0x'' @ fmt_nat 16 (unat n)), JBool True] m
      = Returns (Inr (createMockBlockResponse now n m))"
    by (simp add: mock_dispatch_def handleGetBlockByNumber_def first_string_def)
  then have "evm_parseBlock chain (createMockBlockResponse now n m) = Inr b"
    using assms(2) by (simp add: cw evm_GetBlock_def mock_call)
  then show ?thesis
    by (auto simp: evm_parseBlock_def createMockBlockResponse_def obj_of_def number_field_def str_field_def andthen_Inr Let_def)
qed

interpretation mock_numbered: numbered_client
  "evm_chain_client (http_rpc (mock_transport plain_hex writer now)) (http_rpc_batch (mock_transport plain_hex writer now)) chain fin"
  for writer now chain fin
proof
  fix n c b c'
  assume "cl_GetBlock (evm_chain_client (http_rpc (mock_transport plain_hex writer now))
      (http_rpc_batch (mock_transport plain_hex writer now)) chain fin) n c = (Inr (Some b), c')"
  then have "evm_GetBlock (http_rpc (mock_transport plain_hex writer now)) chain n c = (Inr b, c')"
    by (cases "evm_GetBlock (http_rpc (mock_transport plain_hex writer now)) chain n c")
      (auto simp: evm_chain_client_def map_sum_def split: sum.split_asm)
  then show "blk_number b = n" by (rule mock_served_number [OF plain_hex_laws])
qed

end
