(* ===== verification/Webhook.thy ===== *)
theory Webhook
  imports Consumer Json
begin

text \<open>
  \<open>internal/consumer/webhook.go\<close>: the HTTP webhook with its retries and statistics, and the handler
  that collects events into batches. The transport, the rendering of a payload to bytes, the clock and
  the measured latencies are parameters. In the batch handler \<open>bw_locked\<close> says that a goroutine that
  waits for ever holds the mutex.
\<close>

section \<open>Payloads\<close>

datatype event_data =
  TxData transaction | LogData tx_log | ReorgData reorg_event | AnyData json | BatchData "event_payload list"
and event_payload =
  EventPayload string int event_data
| BatchPayload int "event_payload list"
| HealthPayload int

section \<open>The HTTP webhook\<close>

record webhook_config =
  wc_url :: string
  wc_timeout :: int
  wc_retry_count :: int
  wc_retry_interval :: int
  wc_enable_signature :: bool
  wc_secret_key :: string
  wc_headers :: "string \<rightharpoonup> string"
  wc_enable_compression :: bool

record webhook_statistics =
  ws_total_sent :: int
  ws_success_count :: int
  ws_failure_count :: int
  ws_last_success_time :: int
  ws_last_failure_time :: int
  ws_average_latency :: int

definition NewHTTPWebhookHandler :: "string \<Rightarrow> int \<Rightarrow> int \<Rightarrow> webhook_config \<times> webhook_statistics" where
  "NewHTTPWebhookHandler url timeout retryCount =
     (\<lparr>wc_url = url, wc_timeout = timeout, wc_retry_count = retryCount, wc_retry_interval = 10 ^ 9,
       wc_enable_signature = False, wc_secret_key = '''',
       wc_headers = [''Content-Type'' \<mapsto> ''application/json'', ''User-Agent'' \<mapsto> ''SmartScanner/1.0''],
       wc_enable_compression = False\<rparr>,
      \<lparr>ws_total_sent = 0, ws_success_count = 0, ws_failure_count = 0, ws_last_success_time = zero_time,
       ws_last_failure_time = zero_time, ws_average_latency = 0\<rparr>)"

record webhook_post =
  wp_url :: string
  wp_headers :: "string \<rightharpoonup> string"
  wp_body :: string

text \<open>
  The parameters: the bytes of a payload, the check of the URL, the answer to a post (a status and
  the body, unless it cannot be read), and for every attempt its time, its latency and whether the
  context is done while it waits.
\<close>

record 'w webhook_env =
  we_marshal :: "event_payload \<Rightarrow> go_error + string"
  we_request_error :: "string \<Rightarrow> go_error option"
  we_post :: "webhook_post \<Rightarrow> 'w \<Rightarrow> (go_error + int \<times> (go_error + string)) \<times> 'w"
  we_now :: "nat \<Rightarrow> int"
  we_latency :: "nat \<Rightarrow> int"
  we_done :: "nat \<Rightarrow> go_error option"

definition generateSignature :: "string \<Rightarrow> string" where
  "generateSignature body = hex_bytes body"

definition recordSuccess :: "int \<Rightarrow> int \<Rightarrow> webhook_statistics \<Rightarrow> webhook_statistics" where
  "recordSuccess now latency st =
     (let n = wrap_i64 (ws_success_count st + 1);
          totalLatency = wrap_i64 (ws_average_latency st * (n - 1))
      in st\<lparr>ws_total_sent := wrap_i64 (ws_total_sent st + 1), ws_success_count := n, ws_last_success_time := now,
            ws_average_latency := go_quot (wrap_i64 (totalLatency + latency)) n\<rparr>)"

definition recordFailure :: "int \<Rightarrow> webhook_statistics \<Rightarrow> webhook_statistics" where
  "recordFailure now st =
     st\<lparr>ws_total_sent := wrap_i64 (ws_total_sent st + 1), ws_failure_count := wrap_i64 (ws_failure_count st + 1),
        ws_last_failure_time := now\<rparr>"

definition webhook_headers :: "webhook_config \<Rightarrow> string \<Rightarrow> (string \<rightharpoonup> string)" where
  "webhook_headers cfg body =
     (if wc_enable_signature cfg \<and> wc_secret_key cfg \<noteq> ''''
      then (wc_headers cfg)(''X-Signature'' \<mapsto> generateSignature body) else wc_headers cfg)"

definition sendRequest ::
    "'w webhook_env \<Rightarrow> webhook_config \<Rightarrow> event_payload \<Rightarrow> nat \<Rightarrow> webhook_statistics \<times> 'w
      \<Rightarrow> go_error option \<times> webhook_statistics \<times> 'w" where
  "sendRequest E cfg payload k sw =
     (let (st, w) = sw in
      case we_marshal E payload of
        Inl e \<Rightarrow> (Some (Wrap ''failed to marshal payload'' e), st, w)
      | Inr body \<Rightarrow>
     (case we_request_error E (wc_url cfg) of
        Some e \<Rightarrow> (Some (Wrap ''failed to create request'' e), st, w)
      | None \<Rightarrow>
     (case we_post E \<lparr>wp_url = wc_url cfg, wp_headers = webhook_headers cfg body, wp_body = body\<rparr> w of
        (Inl e, w') \<Rightarrow> (Some (Wrap ''failed to send request'' e), recordFailure (we_now E k) st, w')
      | (Inr (code, Inl e), w') \<Rightarrow> (Some (Wrap ''failed to read response'' e), recordFailure (we_now E k) st, w')
      | (Inr (code, Inr respBody), w') \<Rightarrow>
          if code < 200 \<or> code \<ge> 300
          then (Some (Msg (''webhook returned error status: '' @ fmt_int code @ '', body: '' @ respBody)),
                recordFailure (we_now E k) st, w')
          else (None, recordSuccess (we_now E k) (we_latency E k) st, w'))))"

text \<open>The attempts from number \<open>k\<close> on, \<open>n\<close> of them; before each but the first the context may be done.\<close>

fun send_loop ::
    "'w webhook_env \<Rightarrow> webhook_config \<Rightarrow> event_payload \<Rightarrow> nat \<Rightarrow> nat \<Rightarrow> go_error \<Rightarrow> webhook_statistics \<times> 'w
      \<Rightarrow> go_error option \<times> webhook_statistics \<times> 'w" where
  "send_loop E cfg payload k 0 lastErr sw =
     (Some (Wrap (''webhook request failed after '' @ fmt_int (wc_retry_count cfg + 1) @ '' attempts'') lastErr), sw)"
| "send_loop E cfg payload k (Suc n) lastErr sw =
     (case (if k = 0 then None else we_done E k) of
        Some e \<Rightarrow> (Some e, sw)
      | None \<Rightarrow>
          (case sendRequest E cfg payload k sw of
             (None, sw') \<Rightarrow> (None, sw')
           | (Some e, sw') \<Rightarrow> send_loop E cfg payload (Suc k) n e sw'))"

text \<open>The nil error that is wrapped when not a single attempt is allowed prints as \<open>%!w(<nil>)\<close>.\<close>

definition sendWithRetry ::
    "'w webhook_env \<Rightarrow> webhook_config \<Rightarrow> event_payload \<Rightarrow> webhook_statistics \<times> 'w
      \<Rightarrow> go_error option \<times> webhook_statistics \<times> 'w" where
  "sendWithRetry E cfg payload = send_loop E cfg payload 0 (nat (wc_retry_count cfg + 1)) (Msg ''%!w(<nil>)'')"

definition webhook_SendTransaction ::
    "'w webhook_env \<Rightarrow> webhook_config \<Rightarrow> transaction \<Rightarrow> webhook_statistics \<times> 'w
      \<Rightarrow> go_error option \<times> webhook_statistics \<times> 'w" where
  "webhook_SendTransaction E cfg t = sendWithRetry E cfg (EventPayload ''transaction'' (we_now E 0) (TxData t))"

definition webhook_SendLog ::
    "'w webhook_env \<Rightarrow> webhook_config \<Rightarrow> tx_log \<Rightarrow> webhook_statistics \<times> 'w
      \<Rightarrow> go_error option \<times> webhook_statistics \<times> 'w" where
  "webhook_SendLog E cfg l = sendWithRetry E cfg (EventPayload ''log'' (we_now E 0) (LogData l))"

definition webhook_SendReorgEvent ::
    "'w webhook_env \<Rightarrow> webhook_config \<Rightarrow> reorg_event \<Rightarrow> webhook_statistics \<times> 'w
      \<Rightarrow> go_error option \<times> webhook_statistics \<times> 'w" where
  "webhook_SendReorgEvent E cfg ev = sendWithRetry E cfg (EventPayload ''reorg'' (we_now E 0) (ReorgData ev))"

definition webhook_SendCustomEvent ::
    "'w webhook_env \<Rightarrow> webhook_config \<Rightarrow> string \<Rightarrow> event_data \<Rightarrow> webhook_statistics \<times> 'w
      \<Rightarrow> go_error option \<times> webhook_statistics \<times> 'w" where
  "webhook_SendCustomEvent E cfg eventType d = sendWithRetry E cfg (EventPayload eventType (we_now E 0) d)"

definition webhook_HealthCheck ::
    "'w webhook_env \<Rightarrow> webhook_config \<Rightarrow> webhook_statistics \<times> 'w \<Rightarrow> go_error option \<times> webhook_statistics \<times> 'w" where
  "webhook_HealthCheck E cfg sw =
     (if wc_url cfg = '''' then (Some (Msg ''webhook URL is not configured''), sw)
      else sendRequest E cfg (HealthPayload (we_now E 0)) 0 sw)"

definition http_webhook :: "'w webhook_env \<Rightarrow> webhook_config \<Rightarrow> (webhook_statistics \<times> 'w) webhook_handler" where
  "http_webhook E cfg =
     \<lparr>wh_SendTransaction = webhook_SendTransaction E cfg, wh_SendLog = webhook_SendLog E cfg,
      wh_SendReorgEvent = webhook_SendReorgEvent E cfg\<rparr>"

section \<open>The batch handler\<close>

record batch_webhook_config =
  bwc_batch_size :: int
  bwc_flush_interval :: int
  bwc_max_buffer_size :: int

record batch_webhook =
  bw_config :: batch_webhook_config
  bw_buffer :: "event_payload list"
  bw_done :: bool
  bw_locked :: bool

definition default_batch_config :: batch_webhook_config where
  "default_batch_config = \<lparr>bwc_batch_size = 100, bwc_flush_interval = 5 * 10 ^ 9, bwc_max_buffer_size = 1000\<rparr>"

text \<open>A negative capacity and an interval that is not positive panic.\<close>

definition NewBatchWebhookHandler :: "batch_webhook_config option \<Rightarrow> batch_webhook outcome" where
  "NewBatchWebhookHandler cfg =
     (let c = (case cfg of None \<Rightarrow> default_batch_config | Some x \<Rightarrow> x) in
      if bwc_batch_size c < 0 \<or> bwc_flush_interval c \<le> 0 then Panics
      else Returns \<lparr>bw_config = c, bw_buffer = [], bw_done = False, bw_locked = False\<rparr>)"

text \<open>\<open>held\<close> says that the caller holds the mutex; \<open>send\<close> is the underlying handler's custom event.\<close>

definition flush ::
    "(string \<Rightarrow> event_data \<Rightarrow> 'w \<Rightarrow> go_error option \<times> 'w) \<Rightarrow> bool \<Rightarrow> int \<Rightarrow> batch_webhook \<times> 'w
      \<Rightarrow> (go_error option \<times> batch_webhook \<times> 'w) outcome" where
  "flush send held now bw =
     (let (b, w) = bw in
      if held \<or> bw_locked b then Blocks
      else if bw_buffer b = [] then Returns (None, b, w)
      else case send ''batch'' (BatchData [BatchPayload now (bw_buffer b)]) w of
        (e, w') \<Rightarrow> Returns (e, b\<lparr>bw_buffer := []\<rparr>, w'))"

definition addToBuffer ::
    "(string \<Rightarrow> event_data \<Rightarrow> 'w \<Rightarrow> go_error option \<times> 'w) \<Rightarrow> int \<Rightarrow> event_payload \<Rightarrow> batch_webhook \<times> 'w
      \<Rightarrow> (go_error option \<times> batch_webhook \<times> 'w) outcome" where
  "addToBuffer send now payload bw =
     (let (b, w) = bw in
      if bw_locked b then Blocks
      else (let b1 = b\<lparr>bw_buffer := bw_buffer b @ [payload]\<rparr> in
            if int (length (bw_buffer b1)) \<ge> bwc_batch_size (bw_config b1) then flush send True now (b1, w)
            else if int (length (bw_buffer b1)) \<ge> bwc_max_buffer_size (bw_config b1) then flush send True now (b1, w)
            else Returns (None, b1, w)))"

text \<open>What the other goroutines see after an event was added: a call that waits for ever keeps the mutex.\<close>

definition add_seen ::
    "(string \<Rightarrow> event_data \<Rightarrow> 'w \<Rightarrow> go_error option \<times> 'w) \<Rightarrow> int \<Rightarrow> event_payload \<Rightarrow> batch_webhook \<times> 'w
      \<Rightarrow> batch_webhook \<times> 'w" where
  "add_seen send now payload bw =
     (case addToBuffer send now payload bw of
        Returns (e, bw') \<Rightarrow> bw'
      | _ \<Rightarrow> if bw_locked (fst bw) then bw
            else apfst (\<lambda>b. b\<lparr>bw_buffer := bw_buffer b @ [payload], bw_locked := True\<rparr>) bw)"

definition batch_SendTransaction ::
    "(string \<Rightarrow> event_data \<Rightarrow> 'w \<Rightarrow> go_error option \<times> 'w) \<Rightarrow> int \<Rightarrow> transaction \<Rightarrow> batch_webhook \<times> 'w
      \<Rightarrow> (go_error option \<times> batch_webhook \<times> 'w) outcome" where
  "batch_SendTransaction send now t = addToBuffer send now (EventPayload ''transaction'' now (TxData t))"

definition batch_SendLog ::
    "(string \<Rightarrow> event_data \<Rightarrow> 'w \<Rightarrow> go_error option \<times> 'w) \<Rightarrow> int \<Rightarrow> tx_log \<Rightarrow> batch_webhook \<times> 'w
      \<Rightarrow> (go_error option \<times> batch_webhook \<times> 'w) outcome" where
  "batch_SendLog send now l = addToBuffer send now (EventPayload ''log'' now (LogData l))"

definition batch_SendReorgEvent ::
    "(string \<Rightarrow> event_data \<Rightarrow> 'w \<Rightarrow> go_error option \<times> 'w) \<Rightarrow> (reorg_event \<Rightarrow> 'w \<Rightarrow> go_error option \<times> 'w) \<Rightarrow> int
      \<Rightarrow> reorg_event \<Rightarrow> batch_webhook \<times> 'w \<Rightarrow> (go_error option \<times> batch_webhook \<times> 'w) outcome" where
  "batch_SendReorgEvent send sendReorg now ev bw =
     outcome_bind (flush send False now bw) (\<lambda>(e, b, w). case e of
        Some err \<Rightarrow> Returns (Some err, b, w)
      | None \<Rightarrow> (case sendReorg ev w of (e', w') \<Rightarrow> Returns (e', b, w')))"

definition batch_SendCustomEvent ::
    "(string \<Rightarrow> event_data \<Rightarrow> 'w \<Rightarrow> go_error option \<times> 'w) \<Rightarrow> int \<Rightarrow> string \<Rightarrow> event_data \<Rightarrow> batch_webhook \<times> 'w
      \<Rightarrow> (go_error option \<times> batch_webhook \<times> 'w) outcome" where
  "batch_SendCustomEvent send now eventType d = addToBuffer send now (EventPayload eventType now d)"

text \<open>A tick of \<open>flushLoop\<close>, whose error is only logged, and the end of the handler.\<close>

definition flush_tick ::
    "(string \<Rightarrow> event_data \<Rightarrow> 'w \<Rightarrow> go_error option \<times> 'w) \<Rightarrow> int \<Rightarrow> batch_webhook \<times> 'w \<Rightarrow> (batch_webhook \<times> 'w) outcome" where
  "flush_tick send now bw = outcome_bind (flush send False now bw) (\<lambda>(e, bw'). Returns bw')"

definition batch_Stop ::
    "(string \<Rightarrow> event_data \<Rightarrow> 'w \<Rightarrow> go_error option \<times> 'w) \<Rightarrow> int \<Rightarrow> batch_webhook \<times> 'w
      \<Rightarrow> (go_error option \<times> batch_webhook \<times> 'w) outcome" where
  "batch_Stop send now bw =
     (let (b, w) = bw in
      if bw_done b then Panics else flush send False now (b\<lparr>bw_done := True\<rparr>, w))"

section \<open>The statistics add up\<close>

lemma wrap_i64_wrap_left [simp]: "wrap_i64 (wrap_i64 a + b) = wrap_i64 (a + b)"
proof -
  have "wrap_i64 a + b + 2 ^ 63 = (a + 2 ^ 63) mod 2 ^ 64 + b" by (simp add: wrap_i64_def)
  moreover have "a + b + 2 ^ 63 = a + 2 ^ 63 + b" by simp
  ultimately show ?thesis unfolding wrap_i64_def [of "wrap_i64 a + b"] wrap_i64_def [of "a + b"]
    by (simp only: mod_add_left_eq)
qed

lemma wrap_i64_wrap_right [simp]: "wrap_i64 (b + wrap_i64 a) = wrap_i64 (b + a)"
  using wrap_i64_wrap_left [of a b] by (simp add: add.commute)

definition counts_ok :: "webhook_statistics \<times> 'w \<Rightarrow> bool" where
  "counts_ok sw \<longleftrightarrow> ws_total_sent (fst sw) = wrap_i64 (ws_success_count (fst sw) + ws_failure_count (fst sw))"

lemma recordSuccess_counts: "counts_ok (st, w) \<Longrightarrow> counts_ok (recordSuccess now lat st, w')"
  by (simp add: counts_ok_def recordSuccess_def Let_def algebra_simps)

lemma recordFailure_counts: "counts_ok (st, w) \<Longrightarrow> counts_ok (recordFailure now st, w')"
  by (simp add: counts_ok_def recordFailure_def algebra_simps)

lemma counts_ok_state: "counts_ok (st, w) \<Longrightarrow> counts_ok (st, w')"
  by (simp add: counts_ok_def)

lemma sendRequest_counts: "counts_ok sw \<Longrightarrow> counts_ok (snd (sendRequest E cfg p k sw))"
  by (cases sw) (auto simp: sendRequest_def split: sum.split option.split prod.split
      intro: recordSuccess_counts recordFailure_counts counts_ok_state)

lemma send_loop_counts: "counts_ok sw \<Longrightarrow> counts_ok (snd (send_loop E cfg p k n e sw))"
proof (induction n arbitrary: k e sw)
  case (Suc n)
  obtain r sw' where r: "sendRequest E cfg p k sw = (r, sw')" by (rule prod.exhaust)
  then have "counts_ok sw'" using sendRequest_counts [OF Suc.prems, of E cfg p k] by simp
  then have "counts_ok (snd (case r of None \<Rightarrow> (None, sw') | Some e \<Rightarrow> send_loop E cfg p (Suc k) n e sw'))"
    using Suc.IH by (cases r) simp_all
  then show ?case using Suc.prems r by (auto split: option.split)
qed simp

lemma sendWithRetry_counts: "counts_ok sw \<Longrightarrow> counts_ok (snd (sendWithRetry E cfg p sw))"
  by (simp add: sendWithRetry_def send_loop_counts)

text \<open>
  The contract between the consumer and its webhook: an invariant of the webhook's state that every
  operation keeps. The consumer then keeps it too, whatever is delivered to it: a delivery gives the
  state it leaves, also where its call panics and the caller recovers.
\<close>

datatype 'f delivery = DTx 'f transaction | DLog 'f tx_log | DReorg 'f reorg_event

fun deliver :: "('r, 'f) prometheus \<Rightarrow> ('s, 'w) business_consumer \<Rightarrow> 'f delivery
    \<Rightarrow> ('s, 'w, 'r) consumer_state \<Rightarrow> ('s, 'w, 'r) consumer_state option" where
  "deliver P c (DTx dur t) k = Some (snd (consumer_ProcessTransaction P dur c t k))"
| "deliver P c (DLog dur l) k = Some (snd (consumer_ProcessLog P dur c l k))"
| "deliver P c (DReorg dur ev) k = map_option (snd \<circ> snd) (consumer_ProcessReorgEvent P dur c ev k)"

fun deliver_all :: "('r, 'f) prometheus \<Rightarrow> ('s, 'w) business_consumer \<Rightarrow> 'f delivery list
    \<Rightarrow> ('s, 'w, 'r) consumer_state \<Rightarrow> ('s, 'w, 'r) consumer_state option" where
  "deliver_all P c [] k = Some k"
| "deliver_all P c (d # ds) k = Option.bind (deliver P c d k) (deliver_all P c ds)"

locale webhook_invariant =
  fixes W :: "'w webhook_handler" and I :: "'w \<Rightarrow> bool"
  assumes keeps_tx: "I w \<Longrightarrow> I (snd (wh_SendTransaction W t w))"
    and keeps_log: "I w \<Longrightarrow> I (snd (wh_SendLog W l w))"
    and keeps_reorg: "I w \<Longrightarrow> I (snd (wh_SendReorgEvent W ev w))"
begin

lemma once_keeps:
  assumes "\<And>w. I w \<Longrightarrow> I (snd (notify w))" "I (ks_webhook k)"
  shows "I (ks_webhook (snd (once c key msg act notify finish k)))"
  using assms by (auto simp: once_def Let_def split: sum.split option.split prod.split)

lemma deliver_keeps:
  assumes W: "bc_webhook c = W" and k: "I (ks_webhook k)" "deliver P c d k = Some k'"
  shows "I (ks_webhook k')"
proof (cases d)
  case (DReorg dur ev)
  then show ?thesis using k keeps_reorg
    by (auto simp: consumer_ProcessReorgEvent_def W Let_def split: option.split_asm prod.split_asm)
next
  case (DTx dur t)
  then show ?thesis
    using k once_keeps [where notify = "wh_SendTransaction W t" and k = k, OF keeps_tx] by (auto simp: consumer_ProcessTransaction_def W)
next
  case (DLog dur l)
  then show ?thesis
    using k once_keeps [where notify = "wh_SendLog W l" and k = k, OF keeps_log] by (auto simp: consumer_ProcessLog_def W)
qed

lemma deliver_all_keeps:
  "bc_webhook c = W \<Longrightarrow> I (ks_webhook k) \<Longrightarrow> deliver_all P c ds k = Some k' \<Longrightarrow> I (ks_webhook k')"
proof (induction ds arbitrary: k)
  case (Cons d ds)
  then obtain k1 where "deliver P c d k = Some k1" "deliver_all P c ds k1 = Some k'" by (cases "deliver P c d k") auto
  then show ?case using Cons deliver_keeps by blast
qed simp

end

interpretation http_wh: webhook_invariant "http_webhook E cfg" counts_ok for E cfg
  by unfold_locales
    (simp_all add: http_webhook_def webhook_SendTransaction_def webhook_SendLog_def webhook_SendReorgEvent_def
      sendWithRetry_counts)

text \<open>
  C25: Whatever is delivered to a consumer with a new HTTP webhook, in whatever order and with whatever
  failures, retries and reorganisations, the statistics of the webhook add up: the requests sent are
  the successes and the failures together.
\<close>

theorem webhook_counts:
  assumes "bc_webhook c = http_webhook E cfg" "fst (ks_webhook k) = snd (NewHTTPWebhookHandler url timeout retries)"
    and "deliver_all P c ds k = Some k'"
  shows "ws_total_sent (fst (ks_webhook k'))
    = wrap_i64 (ws_success_count (fst (ks_webhook k')) + ws_failure_count (fst (ks_webhook k')))"
proof -
  have "counts_ok (ks_webhook k)"
    using assms(2) by (simp add: counts_ok_def NewHTTPWebhookHandler_def wrap_i64_def)
  then show ?thesis using http_wh.deliver_all_keeps [OF assms(1) _ assms(3)] by (simp add: counts_ok_def)
qed

section \<open>The signature\<close>

text \<open>
  The header called a signature is the body in hexadecimal: it decodes to exactly the body, for any
  secret, so whoever can write a body can write its signature.
\<close>

theorem signature_is_the_body: "hex_decode (generateSignature body) = Some body"
  by (simp add: generateSignature_def)

section \<open>Retries\<close>

lemma sendRequest_effect:
  assumes "sendRequest E cfg p k (st, w) = (r, st', w')"
  shows "(r = None \<and> ws_success_count st' = wrap_i64 (ws_success_count st + 1) \<and> ws_failure_count st' = ws_failure_count st)
    \<or> (r \<noteq> None \<and> ws_success_count st' = ws_success_count st
        \<and> (ws_failure_count st' = ws_failure_count st \<or> ws_failure_count st' = wrap_i64 (ws_failure_count st + 1)))"
  using assms by (auto simp: sendRequest_def recordSuccess_def recordFailure_def Let_def
      split: sum.split_asm option.split_asm prod.split_asm if_split_asm)

lemma send_loop_effect:
  assumes "send_loop E cfg p k n e0 (st, w) = (r, st', w')" "wrap_i64 (ws_failure_count st) = ws_failure_count st"
  shows "\<exists>j \<le> n. ws_failure_count st' = wrap_i64 (ws_failure_count st + int j)
    \<and> ws_success_count st' = (if r = None then wrap_i64 (ws_success_count st + 1) else ws_success_count st)
    \<and> (r = None \<longrightarrow> j < n)"
  using assms
proof (induction n arbitrary: k e0 st w)
  case 0
  then show ?case by auto
next
  case (Suc n)
  show ?case
  proof (cases "if k = 0 then None else we_done E k")
    case (Some e)
    then show ?thesis using Suc.prems by (auto intro: exI [of _ 0])
  next
    case None
    obtain r1 st1 w1 where q: "sendRequest E cfg p k (st, w) = (r1, st1, w1)" by (rule prod_cases3)
    note eff = sendRequest_effect [OF q]
    show ?thesis
    proof (cases r1)
      case None
      then show ?thesis using Suc.prems q eff \<open>(if k = 0 then None else we_done E k) = None\<close>
        by (auto intro: exI [of _ 0])
    next
      case (Some e)
      then have l: "send_loop E cfg p (Suc k) n e (st1, w1) = (r, st', w')"
        using Suc.prems(1) q None by (simp split: if_split_asm)
      from eff Some obtain d where d: "d \<le> 1" "ws_failure_count st1 = wrap_i64 (ws_failure_count st + int d)"
          "ws_success_count st1 = ws_success_count st"
        using Suc.prems(2) by (elim disjE conjE) (force intro: that [of 0] that [of 1])+
      have "wrap_i64 (ws_failure_count st1) = ws_failure_count st1"
        using wrap_i64_wrap_left [of "ws_failure_count st + int d" 0] by (simp add: d)
      from Suc.IH [OF l this] obtain j where j: "j \<le> n"
          "ws_failure_count st' = wrap_i64 (ws_failure_count st1 + int j)"
          "ws_success_count st' = (if r = None then wrap_i64 (ws_success_count st1 + 1) else ws_success_count st1)"
          "r = None \<longrightarrow> j < n" by blast
      have "ws_failure_count st' = wrap_i64 (ws_failure_count st + int (d + j))" by (simp add: j(2) d(2) add.assoc)
      then show ?thesis using j d by (intro exI [of _ "d + j"]) auto
    qed
  qed
qed

text \<open>
  A notification is sent with at most \<open>RetryCount + 1\<close> requests: it counts as one success exactly
  if it returns no error, and the failures it counts are at most the retries then, and at most all
  the attempts otherwise.
\<close>

theorem webhook_retries_bounded:
  assumes "sendWithRetry E cfg p (st, w) = (r, st', w')" "wrap_i64 (ws_failure_count st) = ws_failure_count st"
    and "0 \<le> wc_retry_count cfg"
  shows "\<exists>j. ws_failure_count st' = wrap_i64 (ws_failure_count st + j) \<and> 0 \<le> j
    \<and> j \<le> (if r = None then wc_retry_count cfg else wc_retry_count cfg + 1)
    \<and> ws_success_count st' = (if r = None then wrap_i64 (ws_success_count st + 1) else ws_success_count st)"
proof -
  obtain j where "j \<le> nat (wc_retry_count cfg + 1)" "ws_failure_count st' = wrap_i64 (ws_failure_count st + int j)"
      "ws_success_count st' = (if r = None then wrap_i64 (ws_success_count st + 1) else ws_success_count st)"
      "r = None \<longrightarrow> j < nat (wc_retry_count cfg + 1)"
    using send_loop_effect [OF assms(1) [unfolded sendWithRetry_def] assms(2)] by blast
  then show ?thesis using assms(3) by (intro exI [of _ "int j"]) auto
qed

text \<open>An endpoint that fails twice and then accepts, for the examples.\<close>

definition flaky_env :: "nat webhook_env" where
  "flaky_env =
     \<lparr>we_marshal = (\<lambda>p. Inr ''{}''), we_request_error = (\<lambda>u. None),
      we_post = (\<lambda>rq w. (Inr (if w < 2 then 503 else 200, Inr ''''), w + 1)),
      we_now = (\<lambda>k. int k), we_latency = (\<lambda>k. 10), we_done = (\<lambda>k. None)\<rparr>"

definition hook_cfg :: webhook_config where
  "hook_cfg = fst (NewHTTPWebhookHandler ''http://hook'' 5 3)"

definition hook_stats :: webhook_statistics where
  "hook_stats = snd (NewHTTPWebhookHandler ''http://hook'' 5 3)"

lemma flaky_send:
  "\<exists>st. sendWithRetry flaky_env hook_cfg p (hook_stats, 0) = (None, st, 3)
    \<and> ws_failure_count st = 2 \<and> ws_success_count st = 1 \<and> ws_total_sent st = 3"
proof -
  have n: "nat (wc_retry_count hook_cfg + 1) = Suc (Suc (Suc (Suc 0)))" by (simp add: hook_cfg_def NewHTTPWebhookHandler_def)
  have w: "wrap_i64 1 = 1" "wrap_i64 2 = 2" "wrap_i64 3 = 3" by code_simp+
  show ?thesis
    by (simp add: sendWithRetry_def n)
      (simp add: sendRequest_def flaky_env_def hook_stats_def NewHTTPWebhookHandler_def recordFailure_def recordSuccess_def w)
qed

theorem webhook_retries_bounded_witness:
  "\<exists>st j. sendWithRetry flaky_env hook_cfg p (hook_stats, 0) = (None, st, 3) \<and> ws_failure_count st = wrap_i64 j
    \<and> 0 \<le> j \<and> j \<le> 3"
proof -
  obtain st where s: "sendWithRetry flaky_env hook_cfg p (hook_stats, 0) = (None, st, 3)" using flaky_send by blast
  have "ws_failure_count hook_stats = 0" "0 \<le> wc_retry_count hook_cfg" "wc_retry_count hook_cfg = 3" "wrap_i64 0 = 0"
    by (simp_all add: hook_stats_def hook_cfg_def NewHTTPWebhookHandler_def wrap_i64_def)
  with webhook_retries_bounded [OF s] s show ?thesis by (intro exI [of _ st]) auto
qed

definition flaky_consumer :: "((string \<Rightarrow> cached option) redis_state, webhook_statistics \<times> nat) business_consumer" where
  "flaky_consumer = \<lparr>bc_config = some_consumer_config, bc_storage = redis_storage, bc_idempotency = redis_idempotency, bc_webhook = http_webhook flaky_env hook_cfg\<rparr>"

theorem webhook_counts_witness:
  "\<exists>k'. deliver_all mem_prom flaky_consumer [DLog 1 some_log, DLog (2 :: int) some_log]
      \<lparr>ks_store = redis_one, ks_webhook = (hook_stats, 0), ks_processing = {}, ks_metrics = empty_registry\<rparr> = Some k'
    \<and> ws_total_sent (fst (ks_webhook k'))
      = wrap_i64 (ws_success_count (fst (ks_webhook k')) + ws_failure_count (fst (ks_webhook k')))"
proof -
  let ?k = "\<lparr>ks_store = redis_one, ks_webhook = (hook_stats, 0 :: nat), ks_processing = {}, ks_metrics = empty_registry\<rparr>"
  obtain k' where k': "deliver_all mem_prom flaky_consumer [DLog 1 some_log, DLog (2 :: int) some_log] ?k = Some k'" by simp
  have "bc_webhook flaky_consumer = http_webhook flaky_env hook_cfg" by (simp add: flaky_consumer_def)
  from webhook_counts [OF this _ k', of "''http://hook''" 5 3] k' show ?thesis by (simp add: hook_stats_def)
qed

section \<open>The batch handler\<close>

lemma addToBuffer_cases:
  "addToBuffer send now p (b, w) =
     (if bw_locked b \<or> int (length (bw_buffer b)) + 1 \<ge> min (bwc_batch_size (bw_config b)) (bwc_max_buffer_size (bw_config b))
      then Blocks else Returns (None, b\<lparr>bw_buffer := bw_buffer b @ [p]\<rparr>, w))"
  by (auto simp: addToBuffer_def flush_def Let_def)

lemma fold_add_seen:
  assumes "\<not> bw_locked b" "int (length (bw_buffer b) + length ps) < min (bwc_batch_size (bw_config b)) (bwc_max_buffer_size (bw_config b))"
  shows "fold (add_seen send now) ps (b, w) = (b\<lparr>bw_buffer := bw_buffer b @ ps\<rparr>, w)"
  using assms
proof (induction ps arbitrary: b)
  case (Cons p ps)
  have "\<not> min (bwc_batch_size (bw_config b)) (bwc_max_buffer_size (bw_config b)) \<le> int (length (bw_buffer b)) + 1"
    using Cons.prems(2) unfolding list.size by linarith
  then have "add_seen send now p (b, w) = (b\<lparr>bw_buffer := bw_buffer b @ [p]\<rparr>, w)"
    using Cons.prems(1) by (simp add: add_seen_def addToBuffer_cases)
  then show ?case using Cons.IH [of "b\<lparr>bw_buffer := bw_buffer b @ [p]\<rparr>"] Cons.prems by simp
qed simp

text \<open>
  C29: A full batch is never sent. When as many events have been added as make a batch, the last call
  waits for the mutex that it holds itself: it never returns, nothing has been sent, and from then on
  every event, every tick of the flush loop and the end of the handler wait as well.
\<close>

theorem batch_webhook_deadlocks:
  assumes "NewBatchWebhookHandler cfg = Returns b"
    and "int (length ps) + 1 = min (bwc_batch_size (bw_config b)) (bwc_max_buffer_size (bw_config b))"
  shows "\<exists>b1 b2. fold (add_seen send now) ps (b, w) = (b1, w) \<and> bw_buffer b1 = ps
    \<and> addToBuffer send now p (b1, w) = Blocks \<and> add_seen send now p (b1, w) = (b2, w)
    \<and> (\<forall>q. addToBuffer send now q (b2, w) = Blocks) \<and> flush_tick send now (b2, w) = Blocks
    \<and> batch_Stop send now (b2, w) = Blocks"
proof -
  have b: "\<not> bw_locked b" "bw_buffer b = []" "\<not> bw_done b"
    using assms(1) by (auto simp: NewBatchWebhookHandler_def Let_def split: if_split_asm)
  have f: "fold (add_seen send now) ps (b, w) = (b\<lparr>bw_buffer := ps\<rparr>, w)"
  proof -
    have "int (length ps) < min (bwc_batch_size (bw_config b)) (bwc_max_buffer_size (bw_config b))" using assms(2) by linarith
    then show ?thesis using fold_add_seen [of b ps send now w] b by simp
  qed
  have blk: "addToBuffer send now p (b\<lparr>bw_buffer := ps\<rparr>, w) = Blocks"
    using assms(2) by (simp add: addToBuffer_cases)
  have s: "add_seen send now p (b\<lparr>bw_buffer := ps\<rparr>, w) = (b\<lparr>bw_buffer := ps @ [p], bw_locked := True\<rparr>, w)"
    using blk b by (simp add: add_seen_def)
  have "addToBuffer send now q (b\<lparr>bw_buffer := ps @ [p], bw_locked := True\<rparr>, w) = Blocks" for q
    by (simp add: addToBuffer_cases)
  moreover have "flush_tick send now (b\<lparr>bw_buffer := ps @ [p], bw_locked := True\<rparr>, w) = Blocks"
    by (simp add: flush_tick_def flush_def)
  moreover have "batch_Stop send now (b\<lparr>bw_buffer := ps @ [p], bw_locked := True\<rparr>, w) = Blocks"
    using b(3) by (simp add: batch_Stop_def flush_def)
  ultimately show ?thesis using f blk s by fastforce
qed

text \<open>Two events make a batch: the second never returns.\<close>

theorem batch_webhook_deadlocks_witness:
  "\<exists>b b1. NewBatchWebhookHandler (Some \<lparr>bwc_batch_size = 2, bwc_flush_interval = 5, bwc_max_buffer_size = 10\<rparr>) = Returns b
    \<and> fold (add_seen (\<lambda>t d w. (None, w + 1 :: nat)) 7) [HealthPayload 1] (b, 0) = (b1, 0)
    \<and> addToBuffer (\<lambda>t d w. (None, w + 1 :: nat)) 7 (HealthPayload 2) (b1, 0) = Blocks"
proof -
  obtain b where b: "NewBatchWebhookHandler (Some \<lparr>bwc_batch_size = 2, bwc_flush_interval = 5, bwc_max_buffer_size = 10\<rparr>) = Returns b"
      "bwc_batch_size (bw_config b) = 2" "bwc_max_buffer_size (bw_config b) = 10"
    by (simp add: NewBatchWebhookHandler_def)
  then have "int (length [HealthPayload 1]) + 1 = min (bwc_batch_size (bw_config b)) (bwc_max_buffer_size (bw_config b))" by simp
  from batch_webhook_deadlocks [OF b(1) this, of "\<lambda>t d w. (None, w + 1 :: nat)" 7 0 "HealthPayload 2"]
  obtain b1 where "fold (add_seen (\<lambda>t d w. (None, w + 1 :: nat)) 7) [HealthPayload 1] (b, 0) = (b1, 0)"
      "addToBuffer (\<lambda>t d w. (None, w + 1 :: nat)) 7 (HealthPayload 2) (b1, 0) = Blocks" by blast
  with b(1) show ?thesis by (intro exI conjI)
qed

text \<open>A batch that cannot be delivered is lost: the buffer is emptied before the request is made.\<close>

lemma flush_loses:
  "\<not> bw_locked b \<Longrightarrow> bw_buffer b \<noteq> [] \<Longrightarrow> send ''batch'' (BatchData [BatchPayload now (bw_buffer b)]) w = (Some e, w')
    \<Longrightarrow> flush send False now (b, w) = Returns (Some e, b\<lparr>bw_buffer := []\<rparr>, w')"
  by (simp add: flush_def)

end
