(* ===== verification/Wallet.thy ===== *)
theory Wallet
  imports MockNode Clients
begin

text \<open>
  \<open>internal/wallet/\<close>: the wallet service (\<open>service.go\<close>) and its HTTP handler (\<open>handler.go\<close>). The calls
  of a chain's node manager are a parameter, as in \<open>EvmClient\<close>; the functions of go-ethereum (keys,
  addresses, signatures, padding) are the record \<open>crypto\<close>. A handler gets the decoded request; the decoding is in \<open>Api\<close>.
\<close>

section \<open>Types\<close>

datatype token_type = TokenNative | TokenERC20

record token =
  tk_chain_id :: string
  tk_contract :: string
  tk_symbol :: string
  tk_name :: string
  tk_decimals :: int
  tk_type :: token_type

record wallet_balance =
  wb_chain_id :: string
  wb_address :: string
  wb_token :: token
  wb_balance :: int
  wb_display :: string
  wb_block_number :: u64
  wb_updated_at :: int

datatype tx_type = TxTransfer | TxDeposit | TxWithdraw | TxSwap

record wallet_tx =
  wt_id :: string
  wt_chain_id :: string
  wt_tx_hash :: string
  wt_from :: string
  wt_to :: string
  wt_token :: token
  wt_value :: "int option"
  wt_display :: string
  wt_fee :: int
  wt_fee_display :: string
  wt_block_number :: u64
  wt_status :: string
  wt_tx_type :: tx_type
  wt_created_at :: int
  wt_confirmed_at :: int

record transfer_request =
  tq_chain_id :: string
  tq_from :: string
  tq_to :: string
  tq_contract :: string
  tq_value :: "int option"
  tq_private_key :: string
  tq_gas_limit :: u64
  tq_gas_price :: "int option"

record transfer_response =
  tp_success :: bool
  tp_tx_hash :: string
  tp_chain_id :: string

section \<open>The service\<close>

text \<open>The chains it serves: those that are enabled, of type EVM, and whose client can be made.\<close>

definition NewWalletService :: "int \<Rightarrow> connector \<Rightarrow> (string \<times> chain_config) list \<Rightarrow> (string \<times> client) list" where
  "NewWalletService now connect cfgs =
     List.map_filter (\<lambda>(chainID, cfg).
       if \<not> cc_enabled cfg \<or> cc_chain_type cfg \<noteq> ''evm'' then None
       else case NewEVMClient now connect chainID cfg of Inl e \<Rightarrow> None | Inr c \<Rightarrow> Some (chainID, c)) cfgs"

text \<open>The wallet as its operations see it: the calls of the node manager of every chain it serves.\<close>

type_synonym 'c wallet = "string \<rightharpoonup> 'c rpc_call"

definition getClient :: "'c wallet \<Rightarrow> string \<Rightarrow> go_error + 'c rpc_call" where
  "getClient W chainID =
     (case W chainID of None \<Rightarrow> Inl (Msg (''client not found for chain '' @ chainID)) | Some call \<Rightarrow> Inr call)"

definition getNativeSymbol :: "string \<Rightarrow> string" where
  "getNativeSymbol chainID =
     (if chainID = ''1'' then ''ETH'' else if chainID = ''56'' then ''BNB''
      else if chainID = ''137'' then ''MATIC'' else ''ETH'')"

definition getNativeName :: "string \<Rightarrow> string" where
  "getNativeName chainID =
     (if chainID = ''1'' then ''Ethereum'' else if chainID = ''56'' then ''Binance Coin''
      else if chainID = ''137'' then ''Polygon'' else ''Native Token'')"

definition erc20 :: "string \<Rightarrow> string \<Rightarrow> string \<Rightarrow> string \<Rightarrow> int \<Rightarrow> token" where
  "erc20 chainID contract symbol name decimals =
     \<lparr>tk_chain_id = chainID, tk_contract = contract, tk_symbol = symbol, tk_name = name, tk_decimals = decimals,
      tk_type = TokenERC20\<rparr>"

definition native_token :: "string \<Rightarrow> token" where
  "native_token chainID =
     \<lparr>tk_chain_id = chainID, tk_contract = '''', tk_symbol = getNativeSymbol chainID,
      tk_name = getNativeName chainID, tk_decimals = 18, tk_type = TokenNative\<rparr>"

definition getDefaultTokens :: "string \<Rightarrow> token list" where
  "getDefaultTokens chainID =
     (if chainID = ''1'' then
        [erc20 chainID ''0xdAC17F958D2ee523a2206206994597C13D831ec7'' ''USDT'' ''Tether'' 6,
         erc20 chainID ''0xA0b86991c6218b36c1d19D4a2e9Eb0cE3606eB48'' ''USDC'' ''USD Coin'' 6,
         erc20 chainID ''0x2260FAC5E5542a773Aa44fBCfeDf7C193bc2C599'' ''WBTC'' ''Wrapped BTC'' 8]
      else if chainID = ''56'' then
        [erc20 chainID ''0x55d398326f99059fF775485246999027B3197955'' ''USDT'' ''Tether'' 18,
         erc20 chainID ''0x8AC76a51cc950d9822D68b83fE1Ad97B32Cd580d'' ''USDC'' ''USD Coin'' 18]
      else if chainID = ''137'' then
        [erc20 chainID ''0xc2132D05D31c914a87C6611C10748AEb04B58e8F'' ''USDT'' ''Tether'' 6,
         erc20 chainID ''0x2791Bca1f2de4661ED88A30C99A7a9449Aa84174'' ''USDC'' ''USD Coin'' 6]
      else [])"

definition getTokenByContract :: "string \<Rightarrow> string \<Rightarrow> token" where
  "getTokenByContract chainID contract =
     (if contract = '''' then native_token chainID
      else case List.find (\<lambda>t. tk_contract t = contract) (getDefaultTokens chainID) of
        Some t \<Rightarrow> t
      | None \<Rightarrow> erc20 chainID contract ''Unknown'' ''Unknown Token'' 18)"

text \<open>\<open>eth_call\<close> of a contract.\<close>

definition eth_call :: "'c rpc_call \<Rightarrow> string \<Rightarrow> string \<Rightarrow> 'c \<Rightarrow> (go_error + json) \<times> 'c" where
  "eth_call call contract data = call ''eth_call'' [JObj [(''to'', JStr contract), (''data'', JStr data)], JStr ''latest'']"

text \<open>
  A result that is not a string panics; so does a number of decimals that does not parse, since its
  error is ignored and the nil pointer read.
\<close>

definition getTokenInfo :: "'c wallet \<Rightarrow> string \<Rightarrow> string \<Rightarrow> 'c \<Rightarrow> ((go_error + token) \<times> 'c) outcome" where
  "getTokenInfo W chainID contract c =
     (case getClient W chainID of
        Inl e \<Rightarrow> Returns (Inl e, c)
      | Inr call \<Rightarrow>
     (case eth_call call contract ''0x95d89b41'' c of
        (Inl e, c1) \<Rightarrow> Returns (Inl (Wrap ''failed to get symbol'' e), c1)
      | (Inr (JStr s), c1) \<Rightarrow>
          outcome_bind (ParseStringResult s) (\<lambda>symbol.
            (case eth_call call contract ''0x06fdde03'' c1 of
               (Inl e, c2) \<Rightarrow> Returns (Inl (Wrap ''failed to get name'' e), c2)
             | (Inr (JStr n), c2) \<Rightarrow>
                 outcome_bind (ParseStringResult n) (\<lambda>name.
                   (case eth_call call contract ''0x313ce567'' c2 of
                      (Inl e, c3) \<Rightarrow> Returns (Inl (Wrap ''failed to get decimals'' e), c3)
                    | (Inr j, c3) \<Rightarrow>
                        (case ParseBigInt (case j of JStr d \<Rightarrow> d | _ \<Rightarrow> '''') of
                           Inl e \<Rightarrow> Panics
                         | Inr d \<Rightarrow> Returns (Inr (erc20 chainID contract symbol name (big_Int64 d)), c3))))
             | (Inr _, c2) \<Rightarrow> Panics))
      | (Inr _, c1) \<Rightarrow> Panics))"

text \<open>\<open>addr\<close> is \<open>common.HexToAddress(a).String()[2:]\<close>.\<close>

definition balance_call :: "(string \<Rightarrow> string) \<Rightarrow> 'c rpc_call \<Rightarrow> string \<Rightarrow> string \<Rightarrow> 'c \<Rightarrow> (go_error + json) \<times> 'c" where
  "balance_call addr call address contract c =
     (if contract = '''' then
        (case call ''eth_getBalance'' [JStr address, JStr ''latest''] c of
           (r, c') \<Rightarrow> (wrap_res ''failed to get balance'' r, c'))
      else
        (case eth_call call contract (''0x70a08231000000000000000000000000'' @ addr address) c of
           (r, c') \<Rightarrow> (wrap_res ''failed to get ERC20 balance'' r, c')))"

definition wallet_GetBalance ::
    "(string \<Rightarrow> string) \<Rightarrow> int \<Rightarrow> 'c wallet \<Rightarrow> string \<Rightarrow> string \<Rightarrow> string \<Rightarrow> 'c
      \<Rightarrow> ((go_error + wallet_balance) \<times> 'c) outcome" where
  "wallet_GetBalance addr now W chainID address contract c =
     (case getClient W chainID of
        Inl e \<Rightarrow> Returns (Inl e, c)
      | Inr call \<Rightarrow>
     (case balance_call addr call address contract c of
        (Inl e, c1) \<Rightarrow> Returns (Inl e, c1)
      | (Inr j, c1) \<Rightarrow>
     (case j of
        JStr balanceHex \<Rightarrow>
          (case wrap_res ''failed to parse balance'' (ParseBigInt balanceHex) of
             Inl e \<Rightarrow> Returns (Inl e, c1)
           | Inr bal \<Rightarrow>
          (case evm_GetCurrentHeight call c1 of
             (Inl e, c2) \<Rightarrow> Returns (Inl (Wrap ''failed to get current height'' e), c2)
           | (Inr height, c2) \<Rightarrow>
               outcome_bind
                 (if contract = '''' then Returns (native_token chainID, c2)
                  else outcome_bind (getTokenInfo W chainID contract c2) (\<lambda>(r, c3). Returns (case r of
                      Inl e \<Rightarrow> (erc20 chainID contract ''Unknown'' ''Unknown Token'' 18, c3)
                    | Inr t \<Rightarrow> (t, c3))))
                 (\<lambda>(tok, c3). Returns (Inr \<lparr>wb_chain_id = chainID, wb_address = address, wb_token = tok,
                      wb_balance = bal, wb_display = FormatBalance (Some bal) (tk_decimals tok),
                      wb_block_number = height, wb_updated_at = now\<rparr>, c3))))
      | _ \<Rightarrow> Returns (Inl (Msg ''invalid balance format''), c1))))"

text \<open>The balances of several contracts: one that cannot be had is logged and left out.\<close>

fun balances_loop ::
    "(string \<Rightarrow> 'c \<Rightarrow> ((go_error + wallet_balance) \<times> 'c) outcome) \<Rightarrow> string list \<Rightarrow> 'c \<Rightarrow> (wallet_balance list \<times> 'c) outcome" where
  "balances_loop get [] c = Returns ([], c)"
| "balances_loop get (k # ks) c =
     outcome_bind (get k c) (\<lambda>(r, c1). outcome_bind (balances_loop get ks c1) (\<lambda>(bs, c2).
       Returns (case r of Inl e \<Rightarrow> bs | Inr b \<Rightarrow> b # bs, c2)))"

definition wallet_GetBalances ::
    "(string \<Rightarrow> string) \<Rightarrow> int \<Rightarrow> 'c wallet \<Rightarrow> string \<Rightarrow> string \<Rightarrow> string list \<Rightarrow> 'c
      \<Rightarrow> (wallet_balance list \<times> 'c) outcome" where
  "wallet_GetBalances addr now W chainID address tokens =
     balances_loop (wallet_GetBalance addr now W chainID address)
       (if tokens = [] then '''' # map tk_contract (getDefaultTokens chainID) else tokens)"

section \<open>The history\<close>

definition wallet_tx_of :: "string \<Rightarrow> string \<Rightarrow> string \<Rightarrow> transaction \<Rightarrow> wallet_tx" where
  "wallet_tx_of chainID tok txHash t =
     (let info = getTokenByContract chainID tok;
          fee = the (tx_gas_price t) * sint (tx_gas_used t) in
      \<lparr>wt_id = txHash, wt_chain_id = chainID, wt_tx_hash = tx_hash t, wt_from = tx_from t, wt_to = tx_to t,
       wt_token = info, wt_value = tx_value t, wt_display = FormatBalance (tx_value t) (tk_decimals info),
       wt_fee = fee, wt_fee_display = FormatBalance (Some fee) 18, wt_block_number = tx_block_number t,
       wt_status = tx_status_text (GoTypes.tx_status t), wt_tx_type = TxTransfer, wt_created_at = tx_timestamp t,
       wt_confirmed_at = tx_timestamp t\<rparr>)"

text \<open>The logs of an answer; an element that is not an object, or a transaction without a gas price, panics.\<close>

fun history_loop ::
    "'c rpc_call \<Rightarrow> string \<Rightarrow> string \<Rightarrow> json list \<Rightarrow> 'c \<Rightarrow> (wallet_tx list \<times> 'c) outcome" where
  "history_loop call chainID tok [] c = Returns ([], c)"
| "history_loop call chainID tok (j # js) c =
     (case j of
        JObj l \<Rightarrow>
          (let txHash = str_or_empty l ''transactionHash'' in
           if txHash = '''' then history_loop call chainID tok js c
           else case evm_GetTransaction call chainID txHash c of
             (Inl e, c1) \<Rightarrow> history_loop call chainID tok js c1
           | (Inr t, c1) \<Rightarrow>
               if tx_gas_price t = None then Panics
               else outcome_bind (history_loop call chainID tok js c1) (\<lambda>(ts, c2).
                      Returns (wallet_tx_of chainID tok txHash t # ts, c2)))
      | _ \<Rightarrow> Panics)"

text \<open>
  \<open>fromBlock\<close> is unsigned, so the source's test \<open>fromBlock < 0\<close> is always false and the difference
  wraps around below 1000.
\<close>

definition history_filter :: "u64 \<Rightarrow> string \<Rightarrow> string \<Rightarrow> json" where
  "history_filter currentHeight address tok =
     (let fromBlock = currentHeight - 1000 in
      JObj [(''fromBlock'', JStr (''0x'' @ fmt_nat 16 (unat fromBlock))), (''toBlock'', JStr ''latest''),
            (''address'', JStr (if tok \<noteq> '''' then tok else address))])"

definition wallet_GetTransactions ::
    "'c wallet \<Rightarrow> string \<Rightarrow> string \<Rightarrow> string \<Rightarrow> 'c \<Rightarrow> ((go_error + wallet_tx list) \<times> 'c) outcome" where
  "wallet_GetTransactions W chainID address tok c =
     (case getClient W chainID of
        Inl e \<Rightarrow> Returns (Inl e, c)
      | Inr call \<Rightarrow>
     (case evm_GetCurrentHeight call c of
        (Inl e, c1) \<Rightarrow> Returns (Inl (Wrap ''failed to get current height'' e), c1)
      | (Inr currentHeight, c1) \<Rightarrow>
     (case call ''eth_getLogs'' [history_filter currentHeight address tok] c1 of
        (Inl e, c2) \<Rightarrow> Returns (Inl (Wrap ''failed to get logs'' e), c2)
      | (Inr (JArr logs), c2) \<Rightarrow>
          outcome_bind (history_loop call chainID tok logs c2) (\<lambda>(ts, c3). Returns (Inr ts, c3))
      | (Inr _, c2) \<Rightarrow> Returns (Inr [], c2))))"

section \<open>Transfers\<close>

text \<open>
  What the wallet uses of go-ethereum. Keys and signed transactions are abstract; an address and a
  transaction's data are their bytes.
\<close>

record eth_tx =
  et_nonce :: u64
  et_to :: string
  et_value :: "int option"
  et_gas :: u64
  et_gas_price :: int
  et_data :: "string option"

record ('k, 'signed) crypto =
  cr_HexToECDSA :: "string \<Rightarrow> go_error + 'k"
  cr_PubkeyToAddress :: "'k \<Rightarrow> string"
  cr_address_hex :: "string \<Rightarrow> string"
  cr_HexToAddress :: "string \<Rightarrow> string"
  cr_LeftPadBytes :: "string \<Rightarrow> nat \<Rightarrow> string"
  cr_SignTx :: "eth_tx \<Rightarrow> int \<Rightarrow> 'k \<Rightarrow> go_error + 'signed"
  cr_MarshalJSON :: "'signed \<Rightarrow> go_error + string"

text \<open>\<open>big.Int.Bytes\<close>: the absolute value, big-endian, without leading zeros.\<close>

fun big_bytes_rev :: "nat \<Rightarrow> string" where
  "big_bytes_rev n = (if n = 0 then [] else char_of (n mod 256) # big_bytes_rev (n div 256))"

definition big_bytes :: "int \<Rightarrow> string" where
  "big_bytes z = rev (big_bytes_rev (nat \<bar>z\<bar>))"

definition transfer_selector :: string where
  "transfer_selector = map (char_of :: nat \<Rightarrow> char) [0xa9, 0x05, 0x9c, 0xbb]"

text \<open>A contract transfer reads the value, which panics when it is nil.\<close>

definition build_tx :: "('k, 'signed) crypto \<Rightarrow> u64 \<Rightarrow> transfer_request \<Rightarrow> eth_tx outcome" where
  "build_tx C nonce rq =
     (let gasLimit = (if tq_gas_limit rq > 0 then tq_gas_limit rq else 21000);
          gasPrice = (case tq_gas_price rq of Some p \<Rightarrow> p | None \<Rightarrow> 10000000000) in
      if tq_contract rq = '''' then
        Returns \<lparr>et_nonce = nonce, et_to = cr_HexToAddress C (tq_to rq), et_value = tq_value rq, et_gas = gasLimit,
                 et_gas_price = gasPrice, et_data = None\<rparr>
      else case tq_value rq of
        None \<Rightarrow> Panics
      | Some v \<Rightarrow>
          Returns \<lparr>et_nonce = nonce, et_to = cr_HexToAddress C (tq_contract rq), et_value = Some 0, et_gas = gasLimit,
                   et_gas_price = gasPrice,
                   et_data = Some (transfer_selector @ cr_LeftPadBytes C (cr_HexToAddress C (tq_to rq)) 32
                              @ cr_LeftPadBytes C (big_bytes v) 32)\<rparr>)"

text \<open>
  \<open>common.Bytes2Hex\<close> is \<open>hex.EncodeToString\<close>. The chain id of the client is the text of a number, so
  it always reads back.
\<close>

definition sign_and_send ::
    "('k, 'signed) crypto \<Rightarrow> 'c rpc_call \<Rightarrow> transfer_request \<Rightarrow> 'k \<Rightarrow> int \<Rightarrow> eth_tx \<Rightarrow> 'c
      \<Rightarrow> (go_error + transfer_response) \<times> 'c" where
  "sign_and_send C call rq key chainIDBig tx c =
     (case andthen (wrap_res ''failed to sign transaction'' (cr_SignTx C tx chainIDBig key))
             (\<lambda>signed. wrap_res ''failed to marshal transaction'' (cr_MarshalJSON C signed)) of
        Inl e \<Rightarrow> (Inl e, c)
      | Inr txData \<Rightarrow>
     (case call ''eth_sendRawTransaction'' [JStr (''0x'' @ hex_bytes txData)] c of
        (Inl e, c1) \<Rightarrow> (Inl (Wrap ''failed to send transaction'' e), c1)
      | (Inr (JStr txHash), c1) \<Rightarrow>
          (Inr \<lparr>tp_success = True, tp_tx_hash = txHash, tp_chain_id = tq_chain_id rq\<rparr>, c1)
      | (Inr _, c1) \<Rightarrow> (Inl (Msg ''invalid transaction hash format''), c1)))"

definition chain_number :: "string \<Rightarrow> int" where
  "chain_number s = (case big_set_string 10 s of Some z \<Rightarrow> z | None \<Rightarrow> 0)"

definition wallet_Transfer ::
    "('k, 'signed) crypto \<Rightarrow> 'c wallet \<Rightarrow> transfer_request \<Rightarrow> 'c \<Rightarrow> ((go_error + transfer_response) \<times> 'c) outcome" where
  "wallet_Transfer C W rq c =
     (case getClient W (tq_chain_id rq) of
        Inl e \<Rightarrow> Returns (Inl e, c)
      | Inr call \<Rightarrow>
     (case wrap_res ''invalid private key'' (cr_HexToECDSA C (tq_private_key rq)) of
        Inl e \<Rightarrow> Returns (Inl e, c)
      | Inr key \<Rightarrow>
     (case evm_GetChainID call c of
        (Inl e, c1) \<Rightarrow> Returns (Inl (Wrap ''failed to get chain ID'' e), c1)
      | (Inr chainID, c1) \<Rightarrow>
     (case call ''eth_getTransactionCount''
             [JStr (cr_address_hex C (cr_PubkeyToAddress C key)), JStr ''pending''] c1 of
        (Inl e, c2) \<Rightarrow> Returns (Inl (Wrap ''failed to get nonce'' e), c2)
      | (Inr j, c2) \<Rightarrow>
     (case wrap_res ''failed to parse nonce'' (ParseBigInt (case j of JStr n \<Rightarrow> n | _ \<Rightarrow> '''')) of
        Inl e \<Rightarrow> Returns (Inl e, c2)
      | Inr nonce \<Rightarrow>
          outcome_bind (build_tx C (big_Uint64 nonce) rq) (\<lambda>tx.
            Returns (sign_and_send C call rq key (chain_number chainID) tx c2)))))))"

definition wallet_Deposit :: "'c wallet \<Rightarrow> string \<Rightarrow> string \<Rightarrow> go_error + bool \<times> string \<times> string" where
  "wallet_Deposit W chainID address = andthen (getClient W chainID) (\<lambda>call. Inr (True, address, chainID))"

text \<open>A withdrawal is a transfer with the default gas limit and price.\<close>

definition wallet_Withdraw ::
    "('k, 'signed) crypto \<Rightarrow> 'c wallet \<Rightarrow> transfer_request \<Rightarrow> 'c \<Rightarrow> ((go_error + transfer_response) \<times> 'c) outcome" where
  "wallet_Withdraw C W rq = wallet_Transfer C W (rq\<lparr>tq_gas_limit := 0, tq_gas_price := None\<rparr>)"

section \<open>The HTTP handler\<close>

text \<open>An answer is a status with either an error text or the data.\<close>

datatype 'a http_reply = ErrorReply int string | OkReply 'a

definition default_chain :: "string \<Rightarrow> string" where
  "default_chain chainID = (if chainID = '''' then ''1'' else chainID)"

definition reply_of :: "((go_error + 'a) \<times> 'c) outcome \<Rightarrow> ('a \<Rightarrow> 'b) \<Rightarrow> ('b http_reply \<times> 'c) outcome" where
  "reply_of r f = outcome_bind r (\<lambda>(x, c). Returns (case x of Inl e \<Rightarrow> ErrorReply 500 (err_text e) | Inr y \<Rightarrow> OkReply (f y), c))"

definition bad_request :: "string \<Rightarrow> 'c \<Rightarrow> ('b http_reply \<times> 'c) outcome" where
  "bad_request msg c = Returns (ErrorReply 400 msg, c)"

definition handler_GetBalance ::
    "(string \<Rightarrow> string) \<Rightarrow> int \<Rightarrow> 'c wallet \<Rightarrow> go_error + string \<times> string \<times> string \<Rightarrow> 'c
      \<Rightarrow> (wallet_balance http_reply \<times> 'c) outcome" where
  "handler_GetBalance addr now W body c =
     (case body of
        Inl e \<Rightarrow> bad_request (''Invalid request body: '' @ err_text e) c
      | Inr (chainID, address, contract) \<Rightarrow>
          if address = '''' then bad_request ''Address is required'' c
          else reply_of (wallet_GetBalance addr now W (default_chain chainID) address contract c) (\<lambda>b. b))"

definition handler_GetBalances ::
    "(string \<Rightarrow> string) \<Rightarrow> int \<Rightarrow> 'c wallet \<Rightarrow> go_error + string \<times> string \<times> string list \<Rightarrow> 'c
      \<Rightarrow> (wallet_balance list http_reply \<times> 'c) outcome" where
  "handler_GetBalances addr now W body c =
     (case body of
        Inl e \<Rightarrow> bad_request (''Invalid request body: '' @ err_text e) c
      | Inr (chainID, address, tokens) \<Rightarrow>
          if address = '''' then bad_request ''Address is required'' c
          else outcome_bind (wallet_GetBalances addr now W (default_chain chainID) address tokens c)
            (\<lambda>(bs, c'). Returns (OkReply bs, c')))"

record history_page =
  hp_data :: "wallet_tx list"
  hp_total :: int
  hp_page :: int
  hp_page_size :: int
  hp_has_more :: bool

definition handler_GetTransactions ::
    "'c wallet \<Rightarrow> go_error + string \<times> string \<times> string \<times> int \<times> int \<Rightarrow> 'c \<Rightarrow> (history_page http_reply \<times> 'c) outcome" where
  "handler_GetTransactions W body c =
     (case body of
        Inl e \<Rightarrow> bad_request (''Invalid request body: '' @ err_text e) c
      | Inr (chainID, address, tok, page0, size0) \<Rightarrow>
          if address = '''' then bad_request ''Address is required'' c
          else
            (let page = (if page0 = 0 then 1 else page0); size = (if size0 = 0 then 20 else size0) in
             reply_of (wallet_GetTransactions W (default_chain chainID) address tok c) (\<lambda>ts.
               \<lparr>hp_data = ts, hp_total = int (length ts), hp_page = page, hp_page_size = size,
                hp_has_more = (int (length ts) > wrap_i64 (page * size))\<rparr>)))"

definition transfer_guard :: "transfer_request \<Rightarrow> string option" where
  "transfer_guard rq =
     (if tq_from rq = '''' then Some ''From address is required''
      else if tq_to rq = '''' then Some ''To address is required''
      else if (case tq_value rq of None \<Rightarrow> True | Some v \<Rightarrow> v \<le> 0) then Some ''Value must be positive''
      else if tq_private_key rq = '''' then Some ''Private key is required''
      else None)"

definition handler_Transfer ::
    "('k, 'signed) crypto \<Rightarrow> 'c wallet \<Rightarrow> go_error + transfer_request \<Rightarrow> 'c
      \<Rightarrow> (transfer_response http_reply \<times> 'c) outcome" where
  "handler_Transfer C W body c =
     (case body of
        Inl e \<Rightarrow> bad_request (''Invalid request body: '' @ err_text e) c
      | Inr rq \<Rightarrow>
          (case transfer_guard rq of
             Some msg \<Rightarrow> bad_request msg c
           | None \<Rightarrow> reply_of (wallet_Transfer C W (rq\<lparr>tq_chain_id := default_chain (tq_chain_id rq)\<rparr>) c) (\<lambda>r. r)))"

definition handler_Deposit ::
    "'c wallet \<Rightarrow> go_error + string \<times> string \<Rightarrow> 'c \<Rightarrow> ((bool \<times> string \<times> string) http_reply \<times> 'c) outcome" where
  "handler_Deposit W body c =
     (case body of
        Inl e \<Rightarrow> bad_request (''Invalid request body: '' @ err_text e) c
      | Inr (chainID, address) \<Rightarrow>
          if address = '''' then bad_request ''Address is required'' c
          else reply_of (Returns (wallet_Deposit W (default_chain chainID) address, c)) (\<lambda>r. r))"

text \<open>The address of a withdrawal is the \<open>From\<close> of its transfer.\<close>

definition withdraw_guard :: "transfer_request \<Rightarrow> string option" where
  "withdraw_guard rq = (if tq_from rq = '''' then Some ''Address is required'' else transfer_guard rq)"

definition handler_Withdraw ::
    "('k, 'signed) crypto \<Rightarrow> 'c wallet \<Rightarrow> go_error + transfer_request \<Rightarrow> 'c
      \<Rightarrow> (transfer_response http_reply \<times> 'c) outcome" where
  "handler_Withdraw C W body c =
     (case body of
        Inl e \<Rightarrow> bad_request (''Invalid request body: '' @ err_text e) c
      | Inr rq \<Rightarrow>
          (case withdraw_guard rq of
             Some msg \<Rightarrow> bad_request msg c
           | None \<Rightarrow> reply_of (wallet_Withdraw C W (rq\<lparr>tq_chain_id := default_chain (tq_chain_id rq)\<rparr>) c) (\<lambda>r. r)))"

text \<open>\<open>strconv.Atoi\<close> of a query parameter: a value that is absent, does not parse or is not positive counts as 0.\<close>

definition GetPaginationParams :: "int option \<Rightarrow> int option \<Rightarrow> int \<times> int" where
  "GetPaginationParams pageStr pageSizeStr =
     (let pick = (\<lambda>v d. case v of Some p \<Rightarrow> if p > 0 then p else d | None \<Rightarrow> d) in (pick pageStr 1, pick pageSizeStr 20))"

section \<open>Balances\<close>

text \<open>
  A native balance is reported as the node states it: the balance is the number the node answered,
  the height the one it reports next, and the text shown to the user reads back as the balance to the
  last digit.
\<close>

theorem wallet_balance_reported:
  assumes "W chain = Some call" "call ''eth_getBalance'' [JStr a, JStr ''latest''] s = (Inr (hex n), s1)"
    and "evm_GetCurrentHeight call s1 = (Inr h, s2)"
  shows "\<exists>b. wallet_GetBalance addr now W chain a '''' s = Returns (Inr b, s2) \<and> wb_balance b = int n
    \<and> wb_block_number b = h \<and> read_balance 18 (wb_display b) = Some (int n)"
proof -
  have "read_balance 18 (FormatBalance (Some (int n)) 18) = Some (int n)"
    using FormatBalance_lossless [of "int n" 18] by simp
  then show ?thesis using assms
    by (simp add: wallet_GetBalance_def getClient_def balance_call_def hex_def native_token_def)
qed

text \<open>A node with one account, for the examples.\<close>

definition account_rpc :: "nat \<Rightarrow> nat \<Rightarrow> unit rpc_call" where
  "account_rpc bal height m ps s =
     (if m = ''eth_getBalance'' then Inr (hex bal) else if m = ''eth_blockNumber'' then Inr (hex height)
      else Inl (Msg ''method not found''), s)"

theorem wallet_balance_reported_witness:
  "\<exists>b. wallet_GetBalance (\<lambda>a. a) 0 [''1'' \<mapsto> account_rpc 1500000000000000000 19] ''1'' ''0xa'' '''' () = Returns (Inr b, ())
    \<and> read_balance 18 (wb_display b) = Some 1500000000000000000"
proof -
  let ?call = "account_rpc 1500000000000000000 19" and ?W = "[''1'' \<mapsto> account_rpc 1500000000000000000 19]"
  have "\<exists>h. evm_GetCurrentHeight ?call () = (Inr h, ())"
    using ParseBlockNumber_0x [of 19] by (simp add: evm_GetCurrentHeight_def account_rpc_def hex_def)
  then obtain h where h: "evm_GetCurrentHeight ?call () = (Inr h, ())" by blast
  have w: "?W ''1'' = Some ?call" by simp
  have b: "?call ''eth_getBalance'' [JStr ''0xa'', JStr ''latest''] () = (Inr (hex 1500000000000000000), ())"
    by (simp add: account_rpc_def)
  from wallet_balance_reported [where W = ?W and chain = "''1''" and a = "''0xa''" and addr = "\<lambda>a. a" and now = 0,
      OF w b h]
  obtain bal where "wallet_GetBalance (\<lambda>a. a) 0 ?W ''1'' ''0xa'' '''' () = Returns (Inr bal, ())"
      "read_balance 18 (wb_display bal) = Some (int 1500000000000000000)" by blast
  then show ?thesis by (intro exI conjI) simp_all
qed

section \<open>The history\<close>

lemma evm_GetTransaction_pending:
  "evm_GetTransaction call chain h c = (Inr t, c') \<Longrightarrow>
    tx_gas_used t = 0 \<and> GoTypes.tx_status t = TxPending \<and> tx_block_number t = 0 \<and> tx_gas_price t \<noteq> None"
  by (auto simp: evm_GetTransaction_def evm_parseTransaction_def andthen_Inr Let_def split: prod.split_asm)

lemma zero_display: "FormatBalance (Some 0) 18 = ''0''"
  by code_simp

lemma history_loop_entries:
  "history_loop call chain tok js c = Returns (ts, c') \<Longrightarrow> t \<in> set ts \<Longrightarrow>
    wt_fee t = 0 \<and> wt_fee_display t = ''0'' \<and> wt_status t = ''pending'' \<and> wt_block_number t = 0"
proof (induction js arbitrary: c ts)
  case (Cons j js)
  show ?case
  proof (cases j)
    case (JObj l)
    show ?thesis
    proof (cases "str_or_empty l ''transactionHash'' = ''''")
      case False
      obtain r c1 where r: "evm_GetTransaction call chain (str_or_empty l ''transactionHash'') c = (r, c1)" by (rule prod.exhaust)
      show ?thesis
      proof (cases r)
        case (Inl e)
        then show ?thesis using Cons JObj False r by simp
      next
        case (Inr x)
        note p = evm_GetTransaction_pending [OF r [unfolded Inr]]
        then obtain ts' where h: "history_loop call chain tok js c1 = Returns (ts', c')"
            and ts: "ts = wallet_tx_of chain tok (str_or_empty l ''transactionHash'') x # ts'"
          using Cons.prems(1) JObj False r Inr
          by (cases "history_loop call chain tok js c1") (auto simp: Let_def)
        from Cons.IH [OF h] Cons.prems(2) p zero_display show ?thesis
          by (auto simp: ts wallet_tx_of_def Let_def)
      qed
    qed (use Cons JObj in simp)
  qed (use Cons.prems in simp_all)
qed simp

text \<open>
  The history shows no fee and no confirmation: whatever transactions the wallet returns, every
  one of them has the fee 0, the block 0 and the status pending, since the client it asks fills in
  neither the gas used nor the block.
\<close>

theorem wallet_history_fees:
  assumes "wallet_GetTransactions W chain a tok c = Returns (Inr ts, c')" "t \<in> set ts"
  shows "wt_fee t = 0 \<and> wt_fee_display t = ''0'' \<and> wt_status t = ''pending'' \<and> wt_block_number t = 0"
proof -
  obtain call where call: "getClient W chain = Inr call"
    using assms(1) by (cases "getClient W chain") (auto simp: wallet_GetTransactions_def)
  obtain r c1 where h: "evm_GetCurrentHeight call c = (r, c1)" by (rule prod.exhaust)
  obtain cur where cur: "r = Inr cur" using assms(1) call h by (cases r) (auto simp: wallet_GetTransactions_def)
  obtain r2 c2 where l: "call ''eth_getLogs'' [history_filter cur a tok] c1 = (r2, c2)" by (rule prod.exhaust)
  obtain j where j: "r2 = Inr j" using assms(1) call h cur l by (cases r2) (auto simp: wallet_GetTransactions_def)
  obtain logs where logs: "j = JArr logs"
    using assms call h cur l j by (cases j) (auto simp: wallet_GetTransactions_def)
  obtain c3 where "history_loop call chain tok logs c2 = Returns (ts, c3)"
    using assms(1) call h cur l j logs
    by (cases "history_loop call chain tok logs c2") (auto simp: wallet_GetTransactions_def)
  from history_loop_entries [OF this assms(2)] show ?thesis .
qed

text \<open>
  On a chain with fewer than 1000 blocks the history is empty: the first block asked for wraps
  around to the end of the number range, so the node, here the mock node over HTTP, has nothing in
  the range and the wallet reports no transactions and no error, whatever the address.
\<close>

theorem wallet_history_empty_below_1000:
  assumes "hex_laws H" "unat (mn_current_block m) < 1000"
    and "W chain = Some (http_rpc (mock_transport H writer now))"
  shows "\<exists>cm. wallet_GetTransactions W chain a tok (cl, m) = Returns (Inr [], cm)"
proof -
  let ?call = "http_rpc (mock_transport H writer now)" and ?cur = "mn_current_block m"
  have h: "evm_GetCurrentHeight ?call (cl, m) = (Inr ?cur, next_request cl, m)"
    using assms(1) by (simp add: evm_GetCurrentHeight_def mock_call mock_dispatch_def handleBlockNumber_def hex_laws_def)
  have "unat (?cur - 1000) = 2 ^ 64 - 1000 + unat ?cur" using assms(2) by (simp add: unat_sub_if_size word_size)
  then have "\<not> ?cur - 1000 \<le> ?cur" using assms(2) by (simp add: word_le_nat_alt)
  then have "block_numbers (?cur - 1000) ?cur = Some []" unfolding block_numbers_def
    by (subst num_loop.simps) simp
  moreover have "block_of_tag H (''0x'' @ fmt_nat 16 (unat (?cur - 1000))) m = Inr (?cur - 1000)"
    using assms(1) by (simp add: block_of_tag_def hex_laws_def)
  ultimately have "mock_dispatch H writer now ''eth_getLogs'' [history_filter ?cur a tok] m = Returns (Inr JNull)"
    by (simp add: mock_dispatch_def handleGetLogs_def history_filter_def block_of_tag_def Let_def)
  then have "?call ''eth_getLogs'' [history_filter ?cur a tok] (next_request cl, m) = (Inr JNull, next_request (next_request cl), m)"
    by (simp add: mock_call)
  then show ?thesis using assms(3) h by (simp add: wallet_GetTransactions_def getClient_def)
qed

theorem wallet_history_empty_below_1000_witness:
  "\<exists>cm. wallet_GetTransactions [''1'' \<mapsto> http_rpc (mock_transport plain_hex False 7)] ''1'' ''0xa'' ''''
      (dev_client, \<lparr>mn_chain_id = 1, mn_port = 8545, mn_current_block = 42\<rparr>) = Returns (Inr [], cm)"
  by (rule wallet_history_empty_below_1000 [OF plain_hex_laws]) simp_all

section \<open>What a transfer sends\<close>

lemma sign_and_send_ok:
  assumes "sign_and_send C call rq key n tx c = (Inr r, c')"
  shows "\<exists>signed raw. cr_SignTx C tx n key = Inr signed \<and> cr_MarshalJSON C signed = Inr raw
    \<and> call ''eth_sendRawTransaction'' [JStr (''0x'' @ hex_bytes raw)] c = (Inr (JStr (tp_tx_hash r)), c')"
proof (cases "cr_SignTx C tx n key")
  case (Inr signed)
  then show ?thesis using assms
    by (cases "cr_MarshalJSON C signed") (auto simp: sign_and_send_def split: prod.split_asm sum.split_asm json.split_asm)
qed (use assms in \<open>simp add: sign_and_send_def\<close>)

lemma build_tx_nonce: "build_tx C nonce rq = Returns tx \<Longrightarrow> et_nonce tx = nonce"
  by (auto simp: build_tx_def Let_def split: if_split_asm option.split_asm)

lemma wallet_Transfer_ok:
  assumes "wallet_Transfer C W rq c = Returns (Inr r, c')"
  shows "\<exists>call key chainID nonce tx c2. W (tq_chain_id rq) = Some call \<and> cr_HexToECDSA C (tq_private_key rq) = Inr key
    \<and> build_tx C nonce rq = Returns tx \<and> sign_and_send C call rq key (chain_number chainID) tx c2 = (Inr r, c')"
proof -
  obtain call where call: "W (tq_chain_id rq) = Some call"
    using assms by (cases "W (tq_chain_id rq)") (auto simp: wallet_Transfer_def getClient_def)
  obtain key where key: "cr_HexToECDSA C (tq_private_key rq) = Inr key"
    using assms call by (cases "cr_HexToECDSA C (tq_private_key rq)") (auto simp: wallet_Transfer_def getClient_def)
  obtain chainID c1 where id: "evm_GetChainID call c = (Inr chainID, c1)"
    using assms call key by (cases "evm_GetChainID call c"; cases "fst (evm_GetChainID call c)")
      (auto simp: wallet_Transfer_def getClient_def)
  let ?ask = "call ''eth_getTransactionCount'' [JStr (cr_address_hex C (cr_PubkeyToAddress C key)), JStr ''pending''] c1"
  obtain j c2 where ask: "?ask = (Inr j, c2)"
    using assms call key id by (cases ?ask; cases "fst ?ask") (auto simp: wallet_Transfer_def getClient_def)
  let ?n = "ParseBigInt (case j of JStr n \<Rightarrow> n | _ \<Rightarrow> '''')"
  obtain nonce where n: "?n = Inr nonce"
    using assms call key id ask by (cases ?n) (auto simp: wallet_Transfer_def getClient_def)
  have "outcome_bind (build_tx C (big_Uint64 nonce) rq) (\<lambda>tx. Returns (sign_and_send C call rq key (chain_number chainID) tx c2))
      = Returns (Inr r, c')"
    using assms call key id ask n by (simp add: wallet_Transfer_def getClient_def)
  then obtain tx where "build_tx C (big_Uint64 nonce) rq = Returns tx"
      "sign_and_send C call rq key (chain_number chainID) tx c2 = (Inr r, c')"
    by (cases "build_tx C (big_Uint64 nonce) rq") auto
  with call key show ?thesis by blast
qed

lemma reply_of_ok: "reply_of x f = Returns (OkReply y, c') \<longleftrightarrow> (\<exists>v. x = Returns (Inr v, c') \<and> y = f v)"
  by (cases x) (auto simp: reply_of_def split: prod.splits sum.splits)


text \<open>A signer and a node that accept everything, for the example.\<close>

definition plain_crypto :: "(string, eth_tx) crypto" where
  "plain_crypto =
     \<lparr>cr_HexToECDSA = (\<lambda>s. Inr s), cr_PubkeyToAddress = (\<lambda>k. k), cr_address_hex = (\<lambda>a. a), cr_HexToAddress = (\<lambda>a. a),
      cr_LeftPadBytes = (\<lambda>b n. replicate (n - length b) (char_of (0 :: nat)) @ b), cr_SignTx = (\<lambda>t i k. Inr t),
      cr_MarshalJSON = (\<lambda>t. Inr (et_to t))\<rparr>"

definition accepting_rpc :: "unit rpc_call" where
  "accepting_rpc m ps s =
     (Inr (JStr (if m = ''eth_chainId'' then ''0x1'' else if m = ''eth_getTransactionCount'' then ''0x5'' else ''0xhash'')), s)"

definition some_transfer :: transfer_request where
  "some_transfer =
     \<lparr>tq_chain_id = '''', tq_from = ''alice'', tq_to = ''bob'', tq_contract = '''', tq_value = Some 7,
      tq_private_key = ''key'', tq_gas_limit = 0, tq_gas_price = None\<rparr>"


text \<open>The page of the history that is asked for makes no difference: every page is the whole history.\<close>

lemma handler_ignores_paging:
  assumes "handler_GetTransactions W (Inr (chain, a, tok, p, n)) c = Returns (OkReply h, c')"
  shows "\<exists>h'. handler_GetTransactions W (Inr (chain, a, tok, p', n')) c = Returns (OkReply h', c') \<and> hp_data h' = hp_data h"
  using assms by (auto simp: handler_GetTransactions_def reply_of_ok bad_request_def Let_def split: if_split_asm)

text \<open>Where a token is named, the address plays no part: the history is that of every holder of the token.\<close>

lemma history_of_token_ignores_address:
  "tok \<noteq> '''' \<Longrightarrow> wallet_GetTransactions W chain a tok c = wallet_GetTransactions W chain a' tok c"
proof -
  assume "tok \<noteq> ''''"
  then have h: "history_filter n a tok = history_filter n a' tok" for n by (simp add: history_filter_def)
  show ?thesis unfolding wallet_GetTransactions_def h by (rule refl)
qed

end
