(* ===== verification/Adapters.thy ===== *)
theory Adapters
  imports GoTypes Util
begin

text \<open>
  \<open>internal/plugin/adapter.go\<close>: what every chain adapter and every factory of adapters offers, the base
  implementations that fail, and the comparison of hashes that the three adapters share. An adapter
  is a value of type \<open>'a\<close>; \<open>'w\<close> is the outside world its client talks to. The pointers that a caller
  hands over in an \<open>interface{}\<close> are not nil.
\<close>

section \<open>What callers hand over as interface values\<close>

record evm_config =
  ec_chain_id :: string
  ec_chain_name :: string
  ec_rpc_url :: string
  ec_ws_url :: string
  ec_finality_blocks :: u64
  ec_block_time :: int

record solana_config =
  sc_chain_id :: string
  sc_chain_name :: string
  sc_rpc_url :: string
  sc_ws_url :: string
  sc_finality_slots :: u64
  sc_slot_time :: int

record tron_config =
  tc_chain_id :: string
  tc_chain_name :: string
  tc_rpc_url :: string
  tc_grpc_url :: string
  tc_finality_blocks :: u64
  tc_block_time :: int

datatype plugin_config = EvmCfg evm_config | SolanaCfg solana_config | TronCfg tron_config | OtherCfg

datatype raw_value = RawBlock block | RawTx transaction | RawLog tx_log | RawOther

text \<open>The assertions by which all three adapters parse: a value of the right type is returned as it is.\<close>

definition assert_block :: "raw_value \<Rightarrow> go_error + block" where
  "assert_block r = (case r of RawBlock b \<Rightarrow> Inr b | _ \<Rightarrow> Inl (Msg ''invalid block type''))"

definition assert_tx :: "raw_value \<Rightarrow> go_error + transaction" where
  "assert_tx r = (case r of RawTx t \<Rightarrow> Inr t | _ \<Rightarrow> Inl (Msg ''invalid transaction type''))"

definition assert_log :: "raw_value \<Rightarrow> go_error + tx_log" where
  "assert_log r = (case r of RawLog l \<Rightarrow> Inr l | _ \<Rightarrow> Inl (Msg ''invalid log type''))"

section \<open>The interface\<close>

text \<open>
  A call that returns a value and an error and may change the world; a nil client makes it panic.
\<close>

type_synonym ('v, 'w) fetch = "'w \<Rightarrow> ((go_error + 'v) \<times> 'w) outcome"

record ('a, 'w) chain_adapter =
  ca_GetChainID :: "'a \<Rightarrow> string"
  ca_GetChainName :: "'a \<Rightarrow> string"
  ca_GetBlock :: "'a \<Rightarrow> u64 \<Rightarrow> (block, 'w) fetch"
  ca_GetBlockByHash :: "'a \<Rightarrow> string \<Rightarrow> (block, 'w) fetch"
  ca_GetTransaction :: "'a \<Rightarrow> string \<Rightarrow> (transaction, 'w) fetch"
  ca_GetLatestHeight :: "'a \<Rightarrow> (u64, 'w) fetch"
  ca_GetFinalizedHeight :: "'a \<Rightarrow> (u64, 'w) fetch"
  ca_ParseBlock :: "'a \<Rightarrow> raw_value \<Rightarrow> go_error + block"
  ca_ParseTransaction :: "'a \<Rightarrow> raw_value \<Rightarrow> go_error + transaction"
  ca_ParseLog :: "'a \<Rightarrow> raw_value \<Rightarrow> go_error + tx_log"
  ca_DetectReorg :: "'a \<Rightarrow> int \<Rightarrow> block \<Rightarrow> (bool \<times> reorg_event option, 'w) fetch"
  ca_ValidateConfig :: "'a \<Rightarrow> plugin_config \<Rightarrow> go_error option"
  ca_Initialize :: "plugin_config \<Rightarrow> 'a \<times> 'w \<Rightarrow> go_error option \<times> 'a \<times> 'w"
  ca_Close :: "'a \<Rightarrow> 'w \<Rightarrow> go_error option \<times> 'w"
  ca_HealthCheck :: "'a \<Rightarrow> 'w \<Rightarrow> go_error option \<times> 'w"

record 'a adapter_factory =
  af_GetChainType :: string
  af_ValidateConfig :: "plugin_config \<Rightarrow> go_error option"
  af_Create :: "plugin_config \<Rightarrow> go_error + 'a"

section \<open>The base implementations\<close>

record base_adapter =
  ba_chain_id :: string
  ba_chain_name :: string
  ba_config :: "plugin_config option"

definition NewBaseAdapter :: "string \<Rightarrow> string \<Rightarrow> base_adapter" where
  "NewBaseAdapter chainID chainName = \<lparr>ba_chain_id = chainID, ba_chain_name = chainName, ba_config = None\<rparr>"

definition not_implemented_yet :: "string \<Rightarrow> ('v, 'w) fetch" where
  "not_implemented_yet what w = Returns (Inl (Msg (what @ '' not implemented'')), w)"

definition base_Initialize :: "plugin_config \<Rightarrow> base_adapter \<times> 'w \<Rightarrow> go_error option \<times> base_adapter \<times> 'w" where
  "base_Initialize cfg aw = (None, apfst (\<lambda>a. a\<lparr>ba_config := Some cfg\<rparr>) aw)"

definition base_ValidateConfig :: "plugin_config \<Rightarrow> go_error option" where
  "base_ValidateConfig cfg = None"

definition BaseAdapter :: "(base_adapter, 'w) chain_adapter" where
  "BaseAdapter =
     \<lparr>ca_GetChainID = ba_chain_id, ca_GetChainName = ba_chain_name,
      ca_GetBlock = (\<lambda>a n. not_implemented_yet ''GetBlock''),
      ca_GetBlockByHash = (\<lambda>a h. not_implemented_yet ''GetBlockByHash''),
      ca_GetTransaction = (\<lambda>a h. not_implemented_yet ''GetTransaction''),
      ca_GetLatestHeight = (\<lambda>a. not_implemented_yet ''GetLatestHeight''),
      ca_GetFinalizedHeight = (\<lambda>a. not_implemented_yet ''GetFinalizedHeight''),
      ca_ParseBlock = (\<lambda>a r. Inl (Msg ''ParseBlock not implemented'')),
      ca_ParseTransaction = (\<lambda>a r. Inl (Msg ''ParseTransaction not implemented'')),
      ca_ParseLog = (\<lambda>a r. Inl (Msg ''ParseLog not implemented'')),
      ca_DetectReorg = (\<lambda>a now b. not_implemented_yet ''DetectReorg''),
      ca_ValidateConfig = (\<lambda>a. base_ValidateConfig), ca_Initialize = base_Initialize,
      ca_Close = (\<lambda>a w. (None, w)), ca_HealthCheck = (\<lambda>a w. (None, w))\<rparr>"

definition NewBaseAdapterFactory :: "string \<Rightarrow> 'a adapter_factory" where
  "NewBaseAdapterFactory chainType =
     \<lparr>af_GetChainType = chainType, af_ValidateConfig = (\<lambda>cfg. None),
      af_Create = (\<lambda>cfg. Inl (Msg ''Create not implemented''))\<rparr>"

section \<open>What the adapters share\<close>

text \<open>A method of a client pointer: a nil pointer panics. A failing one is wrapped in a message.\<close>

definition on_client :: "'cl option \<Rightarrow> ('cl \<Rightarrow> 'w \<Rightarrow> (go_error + 'v) \<times> 'w) \<Rightarrow> string \<Rightarrow> ('v, 'w) fetch" where
  "on_client cl f msg w =
     (case cl of None \<Rightarrow> Panics | Some c \<Rightarrow> Returns (apfst (wrap_res msg) (f c w)))"

definition then_fetch :: "('u, 'w) fetch \<Rightarrow> ('u \<Rightarrow> ('v, 'w) fetch) \<Rightarrow> ('v, 'w) fetch" where
  "then_fetch m f w = outcome_bind (m w) (\<lambda>(r, w1). case r of Inl e \<Rightarrow> Returns (Inl e, w1) | Inr x \<Rightarrow> f x w1)"

definition fetched :: "(go_error + 'v) outcome \<Rightarrow> ('v, 'w) fetch" where
  "fetched r w = outcome_bind r (\<lambda>x. Returns (x, w))"

lemma then_fetch_ok:
  "then_fetch m f w = Returns (Inr y, w') \<longleftrightarrow> (\<exists>x w1. m w = Returns (Inr x, w1) \<and> f x w1 = Returns (Inr y, w'))"
  by (cases "m w") (auto simp: then_fetch_def split: sum.splits)

lemma on_client_ok:
  "on_client cl f msg w = Returns (Inr x, w') \<longleftrightarrow> (\<exists>c. cl = Some c \<and> f c w = (Inr x, w'))"
  by (cases cl) (auto simp: on_client_def apfst_def map_prod_def wrap_res_def split: prod.splits sum.splits)

lemma on_client_nil [simp]: "on_client None f msg w = Panics"
  by (simp add: on_client_def)

lemma then_fetch_panics [simp]: "m w = Panics \<Longrightarrow> then_fetch m f w = Panics"
  by (simp add: then_fetch_def)

text \<open>The two adapters that count blocks: the finalised height is so many blocks below the latest.\<close>

definition finalized_of :: "u64 \<Rightarrow> (u64, 'w) fetch \<Rightarrow> (u64, 'w) fetch" where
  "finalized_of finalityBlocks latest =
     then_fetch latest (\<lambda>latestHeight w.
       Returns (Inr (if latestHeight > finalityBlocks then latestHeight - finalityBlocks else 0), w))"

text \<open>
  The detection all three adapters share: the block the chain has at the local block's number is
  fetched, and a different hash is a reorganisation.
\<close>

definition hash_event :: "string \<Rightarrow> int \<Rightarrow> block \<Rightarrow> block \<Rightarrow> reorg_event" where
  "hash_event chainID now localBlock chainBlock =
     \<lparr>re_chain_id = chainID, re_detected_at = now, re_old_block_number = blk_number localBlock,
      re_old_block_hash = blk_hash localBlock, re_new_block_number = blk_number chainBlock,
      re_new_block_hash = blk_hash chainBlock, re_depth = 1, re_affected_txs = [], re_processed = False\<rparr>"

definition wrap_fetch :: "string \<Rightarrow> ('v, 'w) fetch \<Rightarrow> ('v, 'w) fetch" where
  "wrap_fetch msg m w = outcome_bind (m w) (\<lambda>(r, w1). Returns (wrap_res msg r, w1))"

definition hash_detect ::
    "(u64 \<Rightarrow> (block, 'w) fetch) \<Rightarrow> string \<Rightarrow> int \<Rightarrow> block \<Rightarrow> (bool \<times> reorg_event option, 'w) fetch" where
  "hash_detect getBlock chainID now localBlock =
     then_fetch (wrap_fetch ''failed to get chain block'' (getBlock (blk_number localBlock))) (\<lambda>chainBlock w.
       Returns (Inr (if blk_hash chainBlock \<noteq> blk_hash localBlock
                     then (True, Some (hash_event chainID now localBlock chainBlock)) else (False, None)), w))"

lemma wrap_fetch_ok: "wrap_fetch msg m w = Returns (Inr x, w') \<longleftrightarrow> m w = Returns (Inr x, w')"
  by (cases "m w") (auto simp: wrap_fetch_def wrap_res_def split: prod.splits sum.splits)

lemma hash_detect_ok:
  "hash_detect getBlock chainID now b w = Returns (Inr r, w') \<longleftrightarrow>
    (\<exists>c. getBlock (blk_number b) w = Returns (Inr c, w') \<and>
      r = (if blk_hash c \<noteq> blk_hash b then (True, Some (hash_event chainID now b c)) else (False, None)))"
  by (auto simp: hash_detect_def then_fetch_ok wrap_fetch_ok)

lemma finalized_of_ok:
  "finalized_of k latest w = Returns (Inr f, w') \<longleftrightarrow>
    (\<exists>l. latest w = Returns (Inr l, w') \<and> f = (if l > k then l - k else 0))"
  by (auto simp: finalized_of_def then_fetch_ok)

lemma word_minus_le: "(k :: u64) < l \<Longrightarrow> l - k \<le> l"
  by (simp add: word_le_nat_alt unat_minus_u64 word_less_nat_alt)

section \<open>The contract of an adapter\<close>

text \<open>
  What the callers of an adapter rely on: its detection fetches the block at the number of the local one and
  compares the hashes, and asked at the same moment the finalised height does not exceed the latest.
\<close>

locale adapter_contract =
  fixes A :: "('a, 'w) chain_adapter"
  assumes detects: "ca_DetectReorg A a now b w = hash_detect (ca_GetBlock A a) (ca_GetChainID A a) now b w"
    and finalized_le: "ca_GetLatestHeight A a w = Returns (Inr l, w1) \<Longrightarrow>
      ca_GetFinalizedHeight A a w = Returns (Inr f, w2) \<Longrightarrow> f \<le> l"
begin

lemma no_reorg_on_own_block:
  "ca_GetBlock A a (blk_number b) w = Returns (Inr b, w') \<Longrightarrow> ca_DetectReorg A a now b w = Returns (Inr (False, None), w')"
  by (simp add: detects hash_detect_ok)

lemma event_spec:
  assumes "ca_DetectReorg A a now b w = Returns (Inr (True, Some ev), w')"
  shows "\<exists>c. ca_GetBlock A a (blk_number b) w = Returns (Inr c, w') \<and> ev = hash_event (ca_GetChainID A a) now b c
    \<and> re_old_block_hash ev \<noteq> re_new_block_hash ev"
  using assms by (auto simp: detects hash_detect_ok hash_event_def split: if_split_asm)

lemma event_iff: "ca_DetectReorg A a now b w = Returns (Inr (t, ev), w') \<Longrightarrow> t = (ev \<noteq> None)"
  by (auto simp: detects hash_detect_ok split: if_split_asm)

end

end
