(* ===== verification/EvmAdapter.thy ===== *)
theory EvmAdapter
  imports Adapters MockNode
begin

text \<open>
  \<open>internal/plugin/evm_adapter.go\<close>: the adapter over go-ethereum's client. The client and the blocks,
  transactions and receipts it returns are not part of the repository: \<open>eth_client\<close> holds the methods
  the adapter calls, and the records their fields as the adapter reads them. \<open>hexutil\<close> is the one of
  \<open>MockNode\<close>.
\<close>

section \<open>The client library\<close>

record chain_tx =
  ct_hash :: string
  ct_to :: "string option"
  ct_value :: int
  ct_gas_price :: int
  ct_data :: string

record chain_block =
  cb_number :: int
  cb_hash :: string
  cb_parent_hash :: string
  cb_time :: u64
  cb_transactions :: "chain_tx list"

record chain_log =
  cg_address :: string
  cg_topics :: "string list"
  cg_data :: string

record receipt =
  rc_status :: u64
  rc_block_hash :: string
  rc_block_number :: "int option"
  rc_gas_used :: u64
  rc_transaction_index :: u64
  rc_logs :: "chain_log list"

record ('cl, 'w) eth_client =
  ek_DialContext :: "string \<Rightarrow> 'w \<Rightarrow> (go_error + 'cl) \<times> 'w"
  ek_ChainID :: "'cl \<Rightarrow> 'w \<Rightarrow> (go_error + int) \<times> 'w"
  ek_BlockByNumber :: "int \<Rightarrow> 'cl \<Rightarrow> 'w \<Rightarrow> (go_error + chain_block) \<times> 'w"
  ek_BlockByHash :: "string \<Rightarrow> 'cl \<Rightarrow> 'w \<Rightarrow> (go_error + chain_block) \<times> 'w"
  ek_TransactionByHash :: "string \<Rightarrow> 'cl \<Rightarrow> 'w \<Rightarrow> (go_error + chain_tx) \<times> 'w"
  ek_TransactionReceipt :: "string \<Rightarrow> 'cl \<Rightarrow> 'w \<Rightarrow> (go_error + receipt option) \<times> 'w"
  ek_HeaderByNumber :: "'cl \<Rightarrow> 'w \<Rightarrow> (go_error + int) \<times> 'w"
  ek_Close :: "'cl \<Rightarrow> 'w \<Rightarrow> 'w"
  ek_HexToHash :: "string \<Rightarrow> string"

text \<open>
  \<open>ek_HexToHash\<close> is \<open>common.HexToHash\<close>, a hash being its \<open>Hex()\<close> text; the latest header is asked for
  with the number nil, and only its number is read.
\<close>

section \<open>The factory\<close>

record 'cl evm_adapter =
  ea_base :: base_adapter
  ea_client :: "'cl option"
  ea_config :: evm_config

definition evm_factory_Create :: "plugin_config \<Rightarrow> go_error + 'cl evm_adapter" where
  "evm_factory_Create cfg =
     (case cfg of
        EvmCfg c \<Rightarrow> Inr \<lparr>ea_base = NewBaseAdapter (ec_chain_id c) (ec_chain_name c), ea_client = None, ea_config = c\<rparr>
      | _ \<Rightarrow> Inl (Msg ''invalid config type, expected *EVMConfig''))"

definition evm_factory_ValidateConfig :: "plugin_config \<Rightarrow> go_error option" where
  "evm_factory_ValidateConfig cfg =
     (case cfg of
        EvmCfg c \<Rightarrow>
          (if ec_chain_id c = '''' then Some (Msg ''chain_id cannot be empty'')
           else if ec_chain_name c = '''' then Some (Msg ''chain_name cannot be empty'')
           else if ec_rpc_url c = '''' then Some (Msg ''rpc_url cannot be empty'')
           else if ec_finality_blocks c = 0 then Some (Msg ''finality_blocks cannot be zero'')
           else if ec_block_time c = 0 then Some (Msg ''block_time cannot be zero'')
           else None)
      | _ \<Rightarrow> Some (Msg ''invalid config type, expected *EVMConfig''))"

definition NewEVMAdapterFactory :: "'cl evm_adapter adapter_factory" where
  "NewEVMAdapterFactory =
     (NewBaseAdapterFactory ''evm'')
       \<lparr>af_ValidateConfig := evm_factory_ValidateConfig, af_Create := evm_factory_Create\<rparr>"

section \<open>The adapter\<close>

text \<open>The chain ID stays that of the first configuration; a failed verification leaves the client in place.\<close>

definition evm_adapter_Initialize ::
    "('cl, 'w) eth_client \<Rightarrow> plugin_config \<Rightarrow> 'cl evm_adapter \<times> 'w \<Rightarrow> go_error option \<times> 'cl evm_adapter \<times> 'w" where
  "evm_adapter_Initialize K cfg aw =
     (case cfg of
        EvmCfg c \<Rightarrow>
          (let a = (fst aw)\<lparr>ea_config := c\<rparr> in
           case ek_DialContext K (ec_rpc_url c) (snd aw) of
             (Inl e, w1) \<Rightarrow> (Some (Wrap ''failed to connect to RPC'' e), a, w1)
           | (Inr cl, w1) \<Rightarrow>
               (case ek_ChainID K cl w1 of
                  (Inl e, w2) \<Rightarrow> (Some (Wrap ''failed to verify connection'' e), a\<lparr>ea_client := Some cl\<rparr>, w2)
                | (Inr i, w2) \<Rightarrow> (None, a\<lparr>ea_client := Some cl\<rparr>, w2)))
      | _ \<Rightarrow> (Some (Msg ''invalid config type, expected *EVMConfig''), aw))"

abbreviation ea_chain_id :: "'cl evm_adapter \<Rightarrow> string" where
  "ea_chain_id a \<equiv> ba_chain_id (ea_base a)"

definition evm_convertBlock :: "'cl evm_adapter \<Rightarrow> chain_block \<Rightarrow> block" where
  "evm_convertBlock a b =
     \<lparr>blk_chain_id = ea_chain_id a, blk_number = big_Uint64 (cb_number b), blk_hash = cb_hash b,
      blk_parent_hash = cb_parent_hash b, blk_timestamp = TimestampToTime (sint (cb_time b)), blk_transactions = []\<rparr>"

definition receipt_status :: "receipt option \<Rightarrow> tx_status" where
  "receipt_status r =
     (case r of None \<Rightarrow> TxPending | Some x \<Rightarrow> if rc_status x = 1 then TxConfirmed else TxReverted)"

text \<open>
  The status allows for a nil receipt, the fields read it in any case and panic. So does a receipt
  without a block number.
\<close>

definition evm_convertTransaction :: "'cl evm_adapter \<Rightarrow> chain_tx \<Rightarrow> receipt option \<Rightarrow> (go_error + transaction) outcome" where
  "evm_convertTransaction a t r =
     (case r of
        None \<Rightarrow> Panics
      | Some x \<Rightarrow>
     (case rc_block_number x of
        None \<Rightarrow> Panics
      | Some n \<Rightarrow>
          Returns (Inr
            \<lparr>tx_chain_id = ea_chain_id a, tx_hash = ct_hash t, tx_block_number = big_Uint64 n, tx_block_hash = rc_block_hash x,
             tx_from = '''', tx_to = '''', tx_value = Some (ct_value t), tx_gas_price = Some (ct_gas_price t),
             tx_gas_used = rc_gas_used x, tx_status = receipt_status r, tx_timestamp = zero_time,
             tx_index = rc_transaction_index x, tx_input_data = '''', tx_logs = []\<rparr>)))"

definition evm_adapter_GetBlock :: "('cl, 'w) eth_client \<Rightarrow> 'cl evm_adapter \<Rightarrow> u64 \<Rightarrow> (block, 'w) fetch" where
  "evm_adapter_GetBlock K a n =
     then_fetch (on_client (ea_client a) (ek_BlockByNumber K (uint n)) ''failed to get block'')
       (\<lambda>b. fetched (Returns (Inr (evm_convertBlock a b))))"

definition evm_adapter_GetBlockByHash :: "('cl, 'w) eth_client \<Rightarrow> 'cl evm_adapter \<Rightarrow> string \<Rightarrow> (block, 'w) fetch" where
  "evm_adapter_GetBlockByHash K a h =
     then_fetch (on_client (ea_client a) (ek_BlockByHash K (ek_HexToHash K h)) ''failed to get block by hash'')
       (\<lambda>b. fetched (Returns (Inr (evm_convertBlock a b))))"

definition evm_adapter_GetTransaction :: "('cl, 'w) eth_client \<Rightarrow> 'cl evm_adapter \<Rightarrow> string \<Rightarrow> (transaction, 'w) fetch" where
  "evm_adapter_GetTransaction K a h =
     then_fetch (on_client (ea_client a) (ek_TransactionByHash K (ek_HexToHash K h)) ''failed to get transaction'')
       (\<lambda>t. then_fetch (on_client (ea_client a) (ek_TransactionReceipt K (ek_HexToHash K h)) ''failed to get transaction receipt'')
         (\<lambda>r. fetched (evm_convertTransaction a t r)))"

definition evm_adapter_GetLatestHeight :: "('cl, 'w) eth_client \<Rightarrow> 'cl evm_adapter \<Rightarrow> (u64, 'w) fetch" where
  "evm_adapter_GetLatestHeight K a =
     then_fetch (on_client (ea_client a) (ek_HeaderByNumber K) ''failed to get latest header'')
       (\<lambda>n. fetched (Returns (Inr (big_Uint64 n))))"

definition evm_adapter_GetFinalizedHeight :: "('cl, 'w) eth_client \<Rightarrow> 'cl evm_adapter \<Rightarrow> (u64, 'w) fetch" where
  "evm_adapter_GetFinalizedHeight K a =
     finalized_of (ec_finality_blocks (ea_config a)) (evm_adapter_GetLatestHeight K a)"

definition evm_adapter_DetectReorg ::
    "('cl, 'w) eth_client \<Rightarrow> 'cl evm_adapter \<Rightarrow> int \<Rightarrow> block \<Rightarrow> (bool \<times> reorg_event option, 'w) fetch" where
  "evm_adapter_DetectReorg K a = hash_detect (evm_adapter_GetBlock K a) (ea_chain_id a)"

definition evm_adapter_Close :: "('cl, 'w) eth_client \<Rightarrow> 'cl evm_adapter \<Rightarrow> 'w \<Rightarrow> go_error option \<times> 'w" where
  "evm_adapter_Close K a w = (None, case ea_client a of None \<Rightarrow> w | Some cl \<Rightarrow> ek_Close K cl w)"

definition evm_adapter_HealthCheck :: "('cl, 'w) eth_client \<Rightarrow> 'cl evm_adapter \<Rightarrow> 'w \<Rightarrow> go_error option \<times> 'w" where
  "evm_adapter_HealthCheck K a w =
     (case ea_client a of
        None \<Rightarrow> (Some (Msg ''client not initialized''), w)
      | Some cl \<Rightarrow>
          (case ek_HeaderByNumber K cl w of
             (Inl e, w1) \<Rightarrow> (Some (Wrap ''health check failed'' e), w1)
           | (Inr n, w1) \<Rightarrow> (None, w1)))"

definition EVMAdapter :: "('cl, 'w) eth_client \<Rightarrow> ('cl evm_adapter, 'w) chain_adapter" where
  "EVMAdapter K =
     \<lparr>ca_GetChainID = (\<lambda>a. ea_chain_id a), ca_GetChainName = (\<lambda>a. ba_chain_name (ea_base a)),
      ca_GetBlock = evm_adapter_GetBlock K, ca_GetBlockByHash = evm_adapter_GetBlockByHash K,
      ca_GetTransaction = evm_adapter_GetTransaction K, ca_GetLatestHeight = evm_adapter_GetLatestHeight K,
      ca_GetFinalizedHeight = evm_adapter_GetFinalizedHeight K, ca_ParseBlock = (\<lambda>a. assert_block),
      ca_ParseTransaction = (\<lambda>a. assert_tx), ca_ParseLog = (\<lambda>a. assert_log), ca_DetectReorg = evm_adapter_DetectReorg K,
      ca_ValidateConfig = (\<lambda>a. base_ValidateConfig), ca_Initialize = evm_adapter_Initialize K,
      ca_Close = evm_adapter_Close K, ca_HealthCheck = evm_adapter_HealthCheck K\<rparr>"

section \<open>Blocks with their transactions\<close>

definition evm_convertRawLog :: "'cl evm_adapter \<Rightarrow> chain_log \<Rightarrow> string \<Rightarrow> u64 \<Rightarrow> u64 \<Rightarrow> u64 \<Rightarrow> tx_log" where
  "evm_convertRawLog a l txHash blockNumber logIndex txIndex =
     \<lparr>log_chain_id = ea_chain_id a, log_tx_hash = txHash, log_block_number = blockNumber, log_address = cg_address l,
      log_topics = cg_topics l, log_data = ''0x'' @ hex_bytes (cg_data l), log_log_index = logIndex, log_tx_index = txIndex\<rparr>"

definition evm_convertRawTransaction ::
    "'cl evm_adapter \<Rightarrow> chain_tx \<Rightarrow> receipt option \<Rightarrow> u64 \<Rightarrow> u64 \<Rightarrow> (go_error + transaction) outcome" where
  "evm_convertRawTransaction a t r blockNumber txIndex =
     (case r of
        None \<Rightarrow> Panics
      | Some x \<Rightarrow>
          Returns (Inr
            \<lparr>tx_chain_id = ea_chain_id a, tx_hash = ct_hash t, tx_block_number = blockNumber, tx_block_hash = '''',
             tx_from = '''', tx_to = (case ct_to t of None \<Rightarrow> '''' | Some h \<Rightarrow> h), tx_value = Some (ct_value t),
             tx_gas_price = Some (ct_gas_price t), tx_gas_used = rc_gas_used x, tx_status = receipt_status r,
             tx_timestamp = zero_time, tx_index = txIndex, tx_input_data = ''0x'' @ hex_bytes (ct_data t),
             tx_logs = map (\<lambda>(i, l). evm_convertRawLog a l (ct_hash t) blockNumber (of_nat i) txIndex)
                         (enumerate 0 (rc_logs x))\<rparr>))"

fun convert_all ::
    "('cl, 'w) eth_client \<Rightarrow> 'cl evm_adapter \<Rightarrow> u64 \<Rightarrow> nat \<Rightarrow> chain_tx list \<Rightarrow> (transaction list, 'w) fetch" where
  "convert_all K a blockNumber i [] = fetched (Returns (Inr []))"
| "convert_all K a blockNumber i (t # ts) =
     then_fetch (on_client (ea_client a) (ek_TransactionReceipt K (ct_hash t)) (''failed to get receipt for tx '' @ ct_hash t))
       (\<lambda>r. then_fetch (wrap_fetch ''failed to convert transaction''
                         (fetched (evm_convertRawTransaction a t r blockNumber (of_nat i))))
         (\<lambda>x. then_fetch (convert_all K a blockNumber (Suc i) ts) (\<lambda>xs. fetched (Returns (Inr (x # xs))))))"

definition GetBlockWithTransactions :: "('cl, 'w) eth_client \<Rightarrow> 'cl evm_adapter \<Rightarrow> u64 \<Rightarrow> (block, 'w) fetch" where
  "GetBlockWithTransactions K a n =
     then_fetch (on_client (ea_client a) (ek_BlockByNumber K (uint n)) ''failed to get block'')
       (\<lambda>b. then_fetch (convert_all K a (big_Uint64 (cb_number b)) 0 (cb_transactions b))
         (\<lambda>ts. fetched (Returns (Inr ((evm_convertBlock a b)\<lparr>blk_transactions := ts\<rparr>)))))"

section \<open>From raw JSON\<close>

definition convertEVMBlock :: "hexutil \<Rightarrow> string \<Rightarrow> json \<Rightarrow> go_error + block" where
  "convertEVMBlock H chainID j =
     andthen (obj_of j ''invalid block data format'') (\<lambda>obj.
     andthen (str_field obj ''number'' ''invalid block number format'') (\<lambda>numberHex.
     andthen (wrap_res ''failed to decode block number'' (hx_DecodeUint64 H numberHex)) (\<lambda>number.
     andthen (str_field obj ''hash'' ''invalid block hash format'') (\<lambda>hash.
     andthen (str_field obj ''parentHash'' ''invalid parent hash format'') (\<lambda>parentHash.
     andthen (str_field obj ''timestamp'' ''invalid timestamp format'') (\<lambda>timestampHex.
     andthen (wrap_res ''failed to decode timestamp'' (hx_DecodeBig H timestampHex)) (\<lambda>t.
     Inr \<lparr>blk_chain_id = chainID, blk_number = number, blk_hash = hash, blk_parent_hash = parentHash,
          blk_timestamp = TimestampToTime (big_Int64 t), blk_transactions = []\<rparr>)))))))"

text \<open>A field that is missing or does not decode has its zero value.\<close>

definition uint_or_zero :: "hexutil \<Rightarrow> (string \<times> json) list \<Rightarrow> string \<Rightarrow> u64" where
  "uint_or_zero H obj k =
     (case map_of obj k of Some (JStr s) \<Rightarrow> (case hx_DecodeUint64 H s of Inr n \<Rightarrow> n | Inl e \<Rightarrow> 0) | _ \<Rightarrow> 0)"

definition big_or_zero :: "hexutil \<Rightarrow> (string \<times> json) list \<Rightarrow> string \<Rightarrow> int" where
  "big_or_zero H obj k =
     (case hx_DecodeBig H (case map_of obj k of Some (JStr s) \<Rightarrow> s | _ \<Rightarrow> ''0'') of Inr z \<Rightarrow> z | Inl e \<Rightarrow> 0)"

definition convertEVMTransaction ::
    "hexutil \<Rightarrow> string \<Rightarrow> (string \<times> json) list \<Rightarrow> (string \<times> json) list option \<Rightarrow> transaction" where
  "convertEVMTransaction H chainID txData receiptData =
     \<lparr>tx_chain_id = chainID, tx_hash = str_or_empty txData ''hash'', tx_block_number = uint_or_zero H txData ''blockNumber'',
      tx_block_hash = str_or_empty txData ''blockHash'', tx_from = str_or_empty txData ''from'',
      tx_to = str_or_empty txData ''to'', tx_value = Some (big_or_zero H txData ''value''),
      tx_gas_price = Some (big_or_zero H txData ''gasPrice''), tx_gas_used = 0,
      tx_status = (case receiptData of
          None \<Rightarrow> TxPending
        | Some r \<Rightarrow> (case map_of r ''status'' of
              Some (JStr s) \<Rightarrow> if s = ''0x1'' then TxConfirmed else TxReverted
            | _ \<Rightarrow> TxPending)),
      tx_timestamp = zero_time, tx_index = 0, tx_input_data = '''', tx_logs = []\<rparr>"

definition strings_of :: "json list \<Rightarrow> string list" where
  "strings_of js = List.map_filter (\<lambda>j. case j of JStr s \<Rightarrow> Some s | _ \<Rightarrow> None) js"

definition convertEVMLog :: "hexutil \<Rightarrow> string \<Rightarrow> (string \<times> json) list \<Rightarrow> string \<Rightarrow> u64 \<Rightarrow> tx_log" where
  "convertEVMLog H chainID logData txHash blockNumber =
     \<lparr>log_chain_id = chainID, log_tx_hash = txHash, log_block_number = blockNumber,
      log_address = str_or_empty logData ''address'',
      log_topics = (case arr_field logData ''topics'' of Some ts \<Rightarrow> strings_of ts | None \<Rightarrow> []),
      log_data = str_or_empty logData ''data'', log_log_index = uint_or_zero H logData ''logIndex'', log_tx_index = 0\<rparr>"

section \<open>The contract\<close>

lemma evm_GetFinalizedHeight_ok:
  "evm_adapter_GetFinalizedHeight K a w = Returns (Inr f, w') \<longleftrightarrow>
    (\<exists>l. evm_adapter_GetLatestHeight K a w = Returns (Inr l, w') \<and>
      f = (if l > ec_finality_blocks (ea_config a) then l - ec_finality_blocks (ea_config a) else 0))"
  by (simp add: evm_adapter_GetFinalizedHeight_def finalized_of_ok)

interpretation evm_contract: adapter_contract "EVMAdapter K" for K
proof unfold_locales
  show "ca_DetectReorg (EVMAdapter K) a now b w
      = hash_detect (ca_GetBlock (EVMAdapter K) a) (ca_GetChainID (EVMAdapter K) a) now b w" for a now b w
    by (simp add: EVMAdapter_def evm_adapter_DetectReorg_def)
  show "f \<le> l" if "ca_GetLatestHeight (EVMAdapter K) a w = Returns (Inr l, w1)"
    "ca_GetFinalizedHeight (EVMAdapter K) a w = Returns (Inr f, w2)" for a w l f w1 w2
    using that by (auto simp: EVMAdapter_def evm_GetFinalizedHeight_ok word_minus_le)
qed

section \<open>Finality\<close>

text \<open>
  C30: The finalised height of the EVM adapter lies within the configured number of blocks below the
  latest one: it never exceeds it, it is at most \<open>FinalityBlocks\<close> behind, and exactly that much once the chain
  is longer; the subtraction never wraps.
\<close>

theorem evm_finalized_bounds:
  assumes "evm_adapter_GetLatestHeight K a w = Returns (Inr l, w1)" "evm_adapter_GetFinalizedHeight K a w = Returns (Inr f, w2)"
  shows "unat f = unat l - unat (ec_finality_blocks (ea_config a)) \<and> f \<le> l
    \<and> unat l - unat f \<le> unat (ec_finality_blocks (ea_config a))"
proof -
  have f: "f = (if l > ec_finality_blocks (ea_config a) then l - ec_finality_blocks (ea_config a) else 0)"
    using assms by (auto simp: evm_GetFinalizedHeight_ok)
  have "unat f = unat l - unat (ec_finality_blocks (ea_config a))"
    by (simp add: f word_less_nat_alt unat_minus_u64)
  then show ?thesis by (simp add: word_le_nat_alt)
qed

text \<open>A node at block 19 with one transaction in every block, for the examples.\<close>

definition one_chain_tx :: chain_tx where
  "one_chain_tx = \<lparr>ct_hash = ''0xt'', ct_to = None, ct_value = 7, ct_gas_price = 3, ct_data = ''ab''\<rparr>"

definition one_receipt :: receipt where
  "one_receipt =
     \<lparr>rc_status = 1, rc_block_hash = ''0xb'', rc_block_number = Some 19, rc_gas_used = 21000, rc_transaction_index = 0,
      rc_logs = [\<lparr>cg_address = ''0xc'', cg_topics = [''0xd''], cg_data = ''''\<rparr>]\<rparr>"

definition plain_eth :: "(string, unit) eth_client" where
  "plain_eth =
     \<lparr>ek_DialContext = (\<lambda>url w. (Inr url, w)), ek_ChainID = (\<lambda>c w. (Inr 1, w)),
      ek_BlockByNumber = (\<lambda>n c w. (Inr \<lparr>cb_number = n, cb_hash = ''0xb'', cb_parent_hash = ''0xa'', cb_time = 5,
         cb_transactions = [one_chain_tx]\<rparr>, w)),
      ek_BlockByHash = (\<lambda>h c w. (Inl (Msg ''not found''), w)), ek_TransactionByHash = (\<lambda>h c w. (Inr one_chain_tx, w)),
      ek_TransactionReceipt = (\<lambda>h c w. (Inr (Some one_receipt), w)), ek_HeaderByNumber = (\<lambda>c w. (Inr 19, w)),
      ek_Close = (\<lambda>c w. w), ek_HexToHash = (\<lambda>s. s)\<rparr>"

definition eth_adapter :: "string evm_adapter" where
  "eth_adapter =
     \<lparr>ea_base = NewBaseAdapter ''1'' ''Ethereum'', ea_client = Some ''http://node'',
      ea_config = \<lparr>ec_chain_id = ''1'', ec_chain_name = ''Ethereum'', ec_rpc_url = ''http://node'', ec_ws_url = '''',
        ec_finality_blocks = 12, ec_block_time = 12\<rparr>\<rparr>"

theorem evm_finalized_bounds_witness:
  "evm_adapter_GetFinalizedHeight plain_eth eth_adapter () = Returns (Inr 7, ()) \<and> (7 :: u64) \<le> 19"
proof -
  have l: "evm_adapter_GetLatestHeight plain_eth eth_adapter () = Returns (Inr 19, ())"
    by (simp add: evm_adapter_GetLatestHeight_def then_fetch_ok on_client_ok fetched_def plain_eth_def eth_adapter_def big_Uint64_def)
  have f: "evm_adapter_GetFinalizedHeight plain_eth eth_adapter () = Returns (Inr 7, ())"
    using l by (simp add: evm_GetFinalizedHeight_ok) (simp add: eth_adapter_def)
  from evm_finalized_bounds [OF l f] f show ?thesis by simp
qed

section \<open>Blocks with their transactions\<close>

definition converted :: "'cl evm_adapter \<Rightarrow> u64 \<Rightarrow> nat \<Rightarrow> chain_tx \<Rightarrow> transaction \<Rightarrow> bool" where
  "converted a n i t x \<longleftrightarrow>
     tx_chain_id x = ea_chain_id a \<and> tx_hash x = ct_hash t \<and> tx_index x = of_nat i \<and> tx_block_number x = n
     \<and> tx_status x \<in> {TxConfirmed, TxReverted} \<and> tx_value x = Some (ct_value t) \<and> tx_from x = ''''
     \<and> map log_log_index (tx_logs x) = map of_nat [0..<length (tx_logs x)] \<and> (\<forall>l \<in> set (tx_logs x). log_tx_hash l = ct_hash t)"

lemma map_enumerate_index: "map (\<lambda>(i, l). g i) (enumerate k xs) = map g [k..<k + length xs]"
  by (induction xs arbitrary: k) (simp_all add: upt_rec)

lemma evm_convertRawTransaction_ok:
  "evm_convertRawTransaction a t r n (of_nat i) = Returns (Inr x) \<Longrightarrow> converted a n i t x"
  by (auto simp: evm_convertRawTransaction_def converted_def receipt_status_def evm_convertRawLog_def comp_def
      case_prod_unfold map_enumerate_index [where g = of_nat and k = 0, unfolded case_prod_unfold, simplified]
      split: option.splits if_splits)

lemma convert_all_ok:
  "convert_all K a n i ts w = Returns (Inr xs, w') \<Longrightarrow>
    length xs = length ts \<and> (\<forall>j < length ts. converted a n (i + j) (ts ! j) (xs ! j))"
proof (induction ts arbitrary: i w xs)
  case Nil
  then show ?case by (simp add: fetched_def)
next
  case (Cons t ts)
  from Cons.prems obtain r y ys w1 w2 where
      y: "fetched (evm_convertRawTransaction a t r n (of_nat i)) w1 = Returns (Inr y, w2)"
      and ys: "convert_all K a n (Suc i) ts w2 = Returns (Inr ys, w')" and xs: "xs = y # ys"
    by (auto simp: then_fetch_ok wrap_fetch_ok fetched_def)
  have "evm_convertRawTransaction a t r n (of_nat i) = Returns (Inr y)"
    using y by (cases "evm_convertRawTransaction a t r n (of_nat i)") (auto simp: fetched_def)
  then have c: "converted a n i t y" by (rule evm_convertRawTransaction_ok)
  from Cons.IH [OF ys] have l: "length ys = length ts" and j: "\<And>j. j < length ts \<Longrightarrow> converted a n (Suc i + j) (ts ! j) (ys ! j)"
    by auto
  have "converted a n (i + j) ((t # ts) ! j) ((y # ys) ! j)" if "j < Suc (length ts)" for j
    using that c j by (cases j) auto
  then show ?case using l xs by auto
qed

text \<open>
  A block that the adapter returns with its transactions has all of them, in order: transaction
  \<open>i\<close> carries the index \<open>i\<close> and the block's number, is confirmed or reverted as its receipt says, never
  pending, and its logs are numbered from 0. No transaction has a sender.
\<close>

theorem evm_block_complete:
  assumes "GetBlockWithTransactions K a n w = Returns (Inr b, w')"
  shows "\<exists>cl cb w1. ea_client a = Some cl \<and> ek_BlockByNumber K (uint n) cl w = (Inr cb, w1)
    \<and> blk_number b = big_Uint64 (cb_number cb) \<and> blk_hash b = cb_hash cb \<and> length (blk_transactions b) = length (cb_transactions cb)
    \<and> (\<forall>i < length (blk_transactions b). converted a (blk_number b) i (cb_transactions cb ! i) (blk_transactions b ! i))"
proof -
  from assms obtain cl cb w1 ts where cb: "ea_client a = Some cl" "ek_BlockByNumber K (uint n) cl w = (Inr cb, w1)"
      and ts: "convert_all K a (big_Uint64 (cb_number cb)) 0 (cb_transactions cb) w1 = Returns (Inr ts, w')"
      and b: "b = (evm_convertBlock a cb)\<lparr>blk_transactions := ts\<rparr>"
    by (auto simp: GetBlockWithTransactions_def then_fetch_ok on_client_ok fetched_def)
  from convert_all_ok [OF ts] cb show ?thesis by (auto simp: b evm_convertBlock_def)
qed

theorem evm_block_complete_witness:
  "\<exists>b. GetBlockWithTransactions plain_eth eth_adapter 19 () = Returns (Inr b, ()) \<and> blk_number b = 19
    \<and> length (blk_transactions b) = 1 \<and> converted eth_adapter 19 0 one_chain_tx (blk_transactions b ! 0)"
proof -
  obtain b where b: "GetBlockWithTransactions plain_eth eth_adapter 19 () = Returns (Inr b, ())"
    by (simp add: GetBlockWithTransactions_def then_fetch_def on_client_def fetched_def plain_eth_def eth_adapter_def
        wrap_fetch_def evm_convertRawTransaction_def one_chain_tx_def)
  from evm_block_complete [OF b] have "blk_number b = 19" "length (blk_transactions b) = 1"
      "\<forall>i < length (blk_transactions b). converted eth_adapter (blk_number b) i ([one_chain_tx] ! i) (blk_transactions b ! i)"
    by (auto simp: plain_eth_def big_Uint64_def)
  with b show ?thesis by auto
qed

section \<open>Raw blocks\<close>



end
