(* ===== verification/OtherAdapters.thy ===== *)
theory OtherAdapters
  imports Adapters Json
begin

text \<open>
  \<open>internal/plugin/tron_adapter.go\<close> and \<open>solana_adapter.go\<close>. The HTTP client for Tron is a stub of the
  repository and is modelled; the Solana client is a library, whose methods are the record
  \<open>solana_rpc\<close>.
\<close>

section \<open>Tron\<close>

record tron_log =
  tl_address :: string
  tl_topics :: "string list"
  tl_data :: string

record tron_tx =
  tt_tx_id :: string
  tt_block_number :: u64
  tt_block_hash :: string
  tt_from_address :: string
  tt_to_address :: string
  tt_value :: "int option"
  tt_gas_price :: "int option"
  tt_gas_used :: u64
  tt_status :: bool
  tt_contract_data :: string
  tt_logs :: "tron_log option list"

record tron_block =
  tb_block_id :: string
  tb_block_number :: u64
  tb_block_witness :: string
  tb_parent_hash :: string
  tb_timestamp :: int
  tb_transactions :: "tron_tx option list"

text \<open>The interface of a client; \<open>GetNowBlock\<close>, which nothing calls, is left out of the record.\<close>

record 'w tron_client =
  tr_GetBlock :: "u64 \<Rightarrow> 'w \<Rightarrow> (go_error + tron_block option) \<times> 'w"
  tr_GetBlockByHash :: "string \<Rightarrow> 'w \<Rightarrow> (go_error + tron_block option) \<times> 'w"
  tr_GetTransaction :: "string \<Rightarrow> 'w \<Rightarrow> (go_error + tron_tx option) \<times> 'w"
  tr_GetLatestHeight :: "'w \<Rightarrow> (go_error + u64) \<times> 'w"

subsection \<open>The HTTP client, a stub\<close>

text \<open>\<open>now\<close> is the clock in seconds; the URL is never used.\<close>

definition tron_stub_block :: "int \<Rightarrow> string \<Rightarrow> u64 \<Rightarrow> tron_block" where
  "tron_stub_block now blockID n =
     \<lparr>tb_block_id = blockID, tb_block_number = n, tb_block_witness = '''', tb_parent_hash = '''',
      tb_timestamp = wrap_i64 (now * 1000), tb_transactions = []\<rparr>"

definition tron_stub_tx :: "string \<Rightarrow> tron_tx" where
  "tron_stub_tx h =
     \<lparr>tt_tx_id = h, tt_block_number = 0, tt_block_hash = '''', tt_from_address = '''', tt_to_address = '''',
      tt_value = Some 0, tt_gas_price = Some 0, tt_gas_used = 0, tt_status = True, tt_contract_data = '''', tt_logs = []\<rparr>"

definition TronHTTPClient :: "int \<Rightarrow> 'w tron_client" where
  "TronHTTPClient now =
     \<lparr>tr_GetBlock = (\<lambda>n w. (Inr (Some (tron_stub_block now '''' n)), w)),
      tr_GetBlockByHash = (\<lambda>h w. (Inr (Some (tron_stub_block now h 0)), w)),
      tr_GetTransaction = (\<lambda>h w. (Inr (Some (tron_stub_tx h)), w)),
      tr_GetLatestHeight = (\<lambda>w. (Inr 0, w))\<rparr>"

definition NewTronHTTPClient :: "int \<Rightarrow> string \<Rightarrow> go_error + 'w tron_client" where
  "NewTronHTTPClient now rpcURL =
     (if rpcURL = '''' then Inl (Msg ''RPC URL cannot be empty'') else Inr (TronHTTPClient now))"

subsection \<open>The factory\<close>

record 'w tron_adapter =
  ta_base :: base_adapter
  ta_client :: "'w tron_client option"
  ta_config :: tron_config

definition tron_factory_Create :: "plugin_config \<Rightarrow> go_error + 'w tron_adapter" where
  "tron_factory_Create cfg =
     (case cfg of
        TronCfg c \<Rightarrow> Inr \<lparr>ta_base = NewBaseAdapter (tc_chain_id c) (tc_chain_name c), ta_client = None, ta_config = c\<rparr>
      | _ \<Rightarrow> Inl (Msg ''invalid config type, expected *TronConfig''))"

definition tron_factory_ValidateConfig :: "plugin_config \<Rightarrow> go_error option" where
  "tron_factory_ValidateConfig cfg =
     (case cfg of
        TronCfg c \<Rightarrow>
          (if tc_chain_id c = '''' then Some (Msg ''chain_id cannot be empty'')
           else if tc_chain_name c = '''' then Some (Msg ''chain_name cannot be empty'')
           else if tc_rpc_url c = '''' then Some (Msg ''rpc_url cannot be empty'')
           else if tc_finality_blocks c = 0 then Some (Msg ''finality_blocks cannot be zero'')
           else if tc_block_time c = 0 then Some (Msg ''block_time cannot be zero'')
           else None)
      | _ \<Rightarrow> Some (Msg ''invalid config type, expected *TronConfig''))"

definition NewTronAdapterFactory :: "'w tron_adapter adapter_factory" where
  "NewTronAdapterFactory =
     (NewBaseAdapterFactory ''tron'')
       \<lparr>af_ValidateConfig := tron_factory_ValidateConfig, af_Create := tron_factory_Create\<rparr>"

subsection \<open>The adapter\<close>

abbreviation ta_chain_id :: "'w tron_adapter \<Rightarrow> string" where
  "ta_chain_id a \<equiv> ba_chain_id (ta_base a)"

definition tron_adapter_Initialize ::
    "int \<Rightarrow> plugin_config \<Rightarrow> 'w tron_adapter \<times> 'w \<Rightarrow> go_error option \<times> 'w tron_adapter \<times> 'w" where
  "tron_adapter_Initialize now cfg aw =
     (case cfg of
        TronCfg c \<Rightarrow>
          (let a = (fst aw)\<lparr>ta_config := c\<rparr> in
           case NewTronHTTPClient now (tc_rpc_url c) of
             Inl e \<Rightarrow> (Some (Wrap ''failed to create Tron client'' e), a, snd aw)
           | Inr cl \<Rightarrow>
               (case tr_GetLatestHeight cl (snd aw) of
                  (Inl e, w1) \<Rightarrow> (Some (Wrap ''failed to verify connection'' e), a\<lparr>ta_client := Some cl\<rparr>, w1)
                | (Inr h, w1) \<Rightarrow> (None, a\<lparr>ta_client := Some cl\<rparr>, w1)))
      | _ \<Rightarrow> (Some (Msg ''invalid config type, expected *TronConfig''), aw))"

text \<open>A nil log panics.\<close>

definition tron_convertLog :: "string \<Rightarrow> string \<Rightarrow> u64 \<Rightarrow> u64 \<Rightarrow> tron_log option \<Rightarrow> tx_log outcome" where
  "tron_convertLog chainID txHash blockNumber logIndex l =
     (case l of
        None \<Rightarrow> Panics
      | Some x \<Rightarrow>
          Returns \<lparr>log_chain_id = chainID, log_tx_hash = txHash, log_block_number = blockNumber, log_address = tl_address x,
                   log_topics = tl_topics x, log_data = tl_data x, log_log_index = logIndex, log_tx_index = 0\<rparr>)"

fun tron_logs :: "string \<Rightarrow> string \<Rightarrow> u64 \<Rightarrow> nat \<Rightarrow> tron_log option list \<Rightarrow> tx_log list outcome" where
  "tron_logs chainID h n i [] = Returns []"
| "tron_logs chainID h n i (l # ls) =
     outcome_bind (tron_convertLog chainID h n (of_nat i) l) (\<lambda>x.
       outcome_bind (tron_logs chainID h n (Suc i) ls) (\<lambda>xs. Returns (x # xs)))"

definition tron_convertTransaction :: "string \<Rightarrow> tron_tx option \<Rightarrow> (go_error + transaction) outcome" where
  "tron_convertTransaction chainID t =
     (case t of
        None \<Rightarrow> Returns (Inl (Msg ''transaction is nil''))
      | Some x \<Rightarrow>
          outcome_bind (tron_logs chainID (tt_tx_id x) (tt_block_number x) 0 (tt_logs x)) (\<lambda>logs.
            Returns (Inr
              \<lparr>tx_chain_id = chainID, tx_hash = tt_tx_id x, tx_block_number = tt_block_number x, tx_block_hash = tt_block_hash x,
               tx_from = tt_from_address x, tx_to = tt_to_address x, tx_value = tt_value x, tx_gas_price = tt_gas_price x,
               tx_gas_used = tt_gas_used x, tx_status = (if tt_status x then TxConfirmed else TxReverted),
               tx_timestamp = zero_time, tx_index = 0, tx_input_data = tt_contract_data x, tx_logs = logs\<rparr>)))"

fun tron_txs :: "string \<Rightarrow> tron_tx option list \<Rightarrow> (go_error + transaction list) outcome" where
  "tron_txs chainID [] = Returns (Inr [])"
| "tron_txs chainID (t # ts) =
     outcome_bind (tron_convertTransaction chainID t) (\<lambda>r. case r of
        Inl e \<Rightarrow> Returns (Inl (Wrap ''failed to convert transaction'' e))
      | Inr x \<Rightarrow> outcome_bind (tron_txs chainID ts) (\<lambda>q. Returns (andthen q (\<lambda>xs. Inr (x # xs)))))"

text \<open>The timestamp is in milliseconds.\<close>

definition tron_convertBlock :: "string \<Rightarrow> tron_block option \<Rightarrow> (go_error + block) outcome" where
  "tron_convertBlock chainID b =
     (case b of
        None \<Rightarrow> Returns (Inl (Msg ''block is nil''))
      | Some x \<Rightarrow>
          outcome_bind (tron_txs chainID (tb_transactions x)) (\<lambda>q. Returns (andthen q (\<lambda>ts. Inr
            \<lparr>blk_chain_id = chainID, blk_number = tb_block_number x, blk_hash = tb_block_id x,
             blk_parent_hash = tb_parent_hash x, blk_timestamp = TimestampToTime (go_quot (tb_timestamp x) 1000),
             blk_transactions = ts\<rparr>))))"

definition tron_adapter_GetBlock :: "'w tron_adapter \<Rightarrow> u64 \<Rightarrow> (block, 'w) fetch" where
  "tron_adapter_GetBlock a n =
     then_fetch (on_client (ta_client a) (\<lambda>c. tr_GetBlock c n) ''failed to get block'')
       (\<lambda>b. fetched (tron_convertBlock (ta_chain_id a) b))"

definition tron_adapter_GetBlockByHash :: "'w tron_adapter \<Rightarrow> string \<Rightarrow> (block, 'w) fetch" where
  "tron_adapter_GetBlockByHash a h =
     then_fetch (on_client (ta_client a) (\<lambda>c. tr_GetBlockByHash c h) ''failed to get block by hash'')
       (\<lambda>b. fetched (tron_convertBlock (ta_chain_id a) b))"

definition tron_adapter_GetTransaction :: "'w tron_adapter \<Rightarrow> string \<Rightarrow> (transaction, 'w) fetch" where
  "tron_adapter_GetTransaction a h =
     then_fetch (on_client (ta_client a) (\<lambda>c. tr_GetTransaction c h) ''failed to get transaction'')
       (\<lambda>t. fetched (tron_convertTransaction (ta_chain_id a) t))"

text \<open>The error of the client is passed on as it is.\<close>

definition tron_adapter_GetLatestHeight :: "'w tron_adapter \<Rightarrow> (u64, 'w) fetch" where
  "tron_adapter_GetLatestHeight a w =
     (case ta_client a of None \<Rightarrow> Panics | Some c \<Rightarrow> Returns (tr_GetLatestHeight c w))"

definition tron_adapter_GetFinalizedHeight :: "'w tron_adapter \<Rightarrow> (u64, 'w) fetch" where
  "tron_adapter_GetFinalizedHeight a = finalized_of (tc_finality_blocks (ta_config a)) (tron_adapter_GetLatestHeight a)"

definition tron_adapter_DetectReorg :: "'w tron_adapter \<Rightarrow> int \<Rightarrow> block \<Rightarrow> (bool \<times> reorg_event option, 'w) fetch" where
  "tron_adapter_DetectReorg a = hash_detect (tron_adapter_GetBlock a) (ta_chain_id a)"

definition tron_adapter_HealthCheck :: "'w tron_adapter \<Rightarrow> 'w \<Rightarrow> go_error option \<times> 'w" where
  "tron_adapter_HealthCheck a w =
     (case ta_client a of
        None \<Rightarrow> (Some (Msg ''client not initialized''), w)
      | Some c \<Rightarrow>
          (case tr_GetLatestHeight c w of
             (Inl e, w1) \<Rightarrow> (Some (Wrap ''health check failed'' e), w1)
           | (Inr h, w1) \<Rightarrow> (None, w1)))"

definition TronAdapter :: "int \<Rightarrow> ('w tron_adapter, 'w) chain_adapter" where
  "TronAdapter now =
     \<lparr>ca_GetChainID = (\<lambda>a. ta_chain_id a), ca_GetChainName = (\<lambda>a. ba_chain_name (ta_base a)),
      ca_GetBlock = tron_adapter_GetBlock, ca_GetBlockByHash = tron_adapter_GetBlockByHash,
      ca_GetTransaction = tron_adapter_GetTransaction, ca_GetLatestHeight = tron_adapter_GetLatestHeight,
      ca_GetFinalizedHeight = tron_adapter_GetFinalizedHeight, ca_ParseBlock = (\<lambda>a. assert_block),
      ca_ParseTransaction = (\<lambda>a. assert_tx), ca_ParseLog = (\<lambda>a. assert_log), ca_DetectReorg = tron_adapter_DetectReorg,
      ca_ValidateConfig = (\<lambda>a. base_ValidateConfig), ca_Initialize = tron_adapter_Initialize now,
      ca_Close = (\<lambda>a w. (None, w)), ca_HealthCheck = tron_adapter_HealthCheck\<rparr>"

lemma tron_latest_ok:
  "tron_adapter_GetLatestHeight a w = Returns (Inr l, w') \<longleftrightarrow> (\<exists>c. ta_client a = Some c \<and> tr_GetLatestHeight c w = (Inr l, w'))"
  by (cases "ta_client a") (auto simp: tron_adapter_GetLatestHeight_def)

interpretation tron_contract: adapter_contract "TronAdapter now" for now
proof unfold_locales
  show "ca_DetectReorg (TronAdapter now) a t b w
      = hash_detect (ca_GetBlock (TronAdapter now) a) (ca_GetChainID (TronAdapter now) a) t b w" for a t b w
    by (simp add: TronAdapter_def tron_adapter_DetectReorg_def)
  show "f \<le> l" if "ca_GetLatestHeight (TronAdapter now) a w = Returns (Inr l, w1)"
    "ca_GetFinalizedHeight (TronAdapter now) a w = Returns (Inr f, w2)" for a w l f w1 w2
    using that by (auto simp: TronAdapter_def tron_adapter_GetFinalizedHeight_def finalized_of_ok word_minus_le)
qed

section \<open>Solana\<close>

text \<open>
  Of a transaction inside a block nothing is read. The time of a block is a pointer that may be nil.
\<close>

record solana_block =
  sb_parent_slot :: u64
  sb_blockhash :: string
  sb_block_time :: "int option"
  sb_transactions :: "unit list"

record solana_meta =
  sm_err :: "string option"
  sm_fee :: u64
  sm_log_messages :: "string list"

record solana_tx =
  sx_slot :: u64
  sx_meta :: "solana_meta option"

record ('cl, 'w) solana_rpc =
  sl_New :: "string \<Rightarrow> 'cl"
  sl_GetHealth :: "'cl \<Rightarrow> 'w \<Rightarrow> (go_error + string) \<times> 'w"
  sl_GetBlock :: "u64 \<Rightarrow> 'cl \<Rightarrow> 'w \<Rightarrow> (go_error + solana_block option) \<times> 'w"
  sl_GetTransaction :: "string \<Rightarrow> 'cl \<Rightarrow> 'w \<Rightarrow> (go_error + solana_tx option) \<times> 'w"
  sl_GetSlot_finalized :: "'cl \<Rightarrow> 'w \<Rightarrow> (go_error + u64) \<times> 'w"
  sl_SignatureFromBase58 :: "string \<Rightarrow> go_error + string"

record 'cl solana_adapter =
  sa_base :: base_adapter
  sa_client :: "'cl option"
  sa_config :: solana_config

definition solana_factory_Create :: "plugin_config \<Rightarrow> go_error + 'cl solana_adapter" where
  "solana_factory_Create cfg =
     (case cfg of
        SolanaCfg c \<Rightarrow> Inr \<lparr>sa_base = NewBaseAdapter (sc_chain_id c) (sc_chain_name c), sa_client = None, sa_config = c\<rparr>
      | _ \<Rightarrow> Inl (Msg ''invalid config type, expected *SolanaConfig''))"

definition solana_factory_ValidateConfig :: "plugin_config \<Rightarrow> go_error option" where
  "solana_factory_ValidateConfig cfg =
     (case cfg of
        SolanaCfg c \<Rightarrow>
          (if sc_chain_id c = '''' then Some (Msg ''chain_id cannot be empty'')
           else if sc_chain_name c = '''' then Some (Msg ''chain_name cannot be empty'')
           else if sc_rpc_url c = '''' then Some (Msg ''rpc_url cannot be empty'')
           else if sc_finality_slots c = 0 then Some (Msg ''finality_slots cannot be zero'')
           else if sc_slot_time c = 0 then Some (Msg ''slot_time cannot be zero'')
           else None)
      | _ \<Rightarrow> Some (Msg ''invalid config type, expected *SolanaConfig''))"

definition NewSolanaAdapterFactory :: "'cl solana_adapter adapter_factory" where
  "NewSolanaAdapterFactory =
     (NewBaseAdapterFactory ''solana'')
       \<lparr>af_ValidateConfig := solana_factory_ValidateConfig, af_Create := solana_factory_Create\<rparr>"

abbreviation sa_chain_id :: "'cl solana_adapter \<Rightarrow> string" where
  "sa_chain_id a \<equiv> ba_chain_id (sa_base a)"

definition solana_adapter_Initialize ::
    "('cl, 'w) solana_rpc \<Rightarrow> plugin_config \<Rightarrow> 'cl solana_adapter \<times> 'w \<Rightarrow> go_error option \<times> 'cl solana_adapter \<times> 'w" where
  "solana_adapter_Initialize R cfg aw =
     (case cfg of
        SolanaCfg c \<Rightarrow>
          (let cl = sl_New R (sc_rpc_url c); a = (fst aw)\<lparr>sa_config := c, sa_client := Some cl\<rparr> in
           case sl_GetHealth R cl (snd aw) of
             (Inl e, w1) \<Rightarrow> (Some (Wrap ''failed to verify connection'' e), a, w1)
           | (Inr h, w1) \<Rightarrow> (None, a, w1))
      | _ \<Rightarrow> (Some (Msg ''invalid config type, expected *SolanaConfig''), aw))"

definition solana_convertRawTransaction :: "string \<Rightarrow> transaction" where
  "solana_convertRawTransaction chainID =
     \<lparr>tx_chain_id = chainID, tx_hash = '''', tx_block_number = 0, tx_block_hash = '''', tx_from = '''', tx_to = '''',
      tx_value = None, tx_gas_price = None, tx_gas_used = 0, tx_status = TxPending, tx_timestamp = zero_time,
      tx_index = 0, tx_input_data = '''', tx_logs = []\<rparr>"

text \<open>The number of the block is its parent's slot, and so is the text of its parent hash.\<close>

definition solana_convertBlock :: "string \<Rightarrow> solana_block option \<Rightarrow> (go_error + block) outcome" where
  "solana_convertBlock chainID b =
     (case b of
        None \<Rightarrow> Returns (Inl (Msg ''block is nil''))
      | Some x \<Rightarrow>
     (case sb_block_time x of
        None \<Rightarrow> Panics
      | Some t \<Rightarrow>
          Returns (Inr \<lparr>blk_chain_id = chainID, blk_number = sb_parent_slot x, blk_hash = sb_blockhash x,
                        blk_parent_hash = fmt_u64 (sb_parent_slot x), blk_timestamp = TimestampToTime t,
                        blk_transactions = map (\<lambda>u. solana_convertRawTransaction chainID) (sb_transactions x)\<rparr>)))"

definition solana_convertTransaction :: "string \<Rightarrow> solana_tx option \<Rightarrow> go_error + transaction" where
  "solana_convertTransaction chainID t =
     (case Option.bind t (\<lambda>x. map_option (Pair x) (sx_meta x)) of
        None \<Rightarrow> Inl (Msg ''transaction or meta is nil'')
      | Some (x, m) \<Rightarrow>
          (let txHash = ''solana-tx-'' @ fmt_u64 (sx_slot x) in Inr
           \<lparr>tx_chain_id = chainID, tx_hash = txHash, tx_block_number = sx_slot x, tx_block_hash = '''', tx_from = '''',
            tx_to = '''', tx_value = Some 0, tx_gas_price = Some 0, tx_gas_used = sm_fee m,
            tx_status = (if sm_err m = None then TxConfirmed else TxReverted), tx_timestamp = zero_time, tx_index = 0,
            tx_input_data = '''',
            tx_logs = map (\<lambda>(i, msg).
                \<lparr>log_chain_id = chainID, log_tx_hash = txHash, log_block_number = sx_slot x, log_address = '''',
                 log_topics = [msg], log_data = '''', log_log_index = of_nat i, log_tx_index = 0\<rparr>)
              (enumerate 0 (sm_log_messages m))\<rparr>))"

definition solana_adapter_GetBlock :: "('cl, 'w) solana_rpc \<Rightarrow> 'cl solana_adapter \<Rightarrow> u64 \<Rightarrow> (block, 'w) fetch" where
  "solana_adapter_GetBlock R a n =
     then_fetch (on_client (sa_client a) (sl_GetBlock R n) ''failed to get block'')
       (\<lambda>b. fetched (solana_convertBlock (sa_chain_id a) b))"

text \<open>The transaction is fetched, and whatever came the call fails.\<close>

definition solana_adapter_GetBlockByHash :: "('cl, 'w) solana_rpc \<Rightarrow> 'cl solana_adapter \<Rightarrow> string \<Rightarrow> (block, 'w) fetch" where
  "solana_adapter_GetBlockByHash R a h =
     then_fetch (fetched (Returns (wrap_res ''invalid signature'' (sl_SignatureFromBase58 R h)))) (\<lambda>sig.
     then_fetch (on_client (sa_client a) (sl_GetTransaction R sig) ''failed to get transaction'') (\<lambda>t.
     fetched (Returns (Inl (Msg ''GetBlockByHash not supported for Solana, use slot number'')))))"

definition solana_adapter_GetTransaction :: "('cl, 'w) solana_rpc \<Rightarrow> 'cl solana_adapter \<Rightarrow> string \<Rightarrow> (transaction, 'w) fetch" where
  "solana_adapter_GetTransaction R a h =
     then_fetch (fetched (Returns (wrap_res ''invalid signature'' (sl_SignatureFromBase58 R h)))) (\<lambda>sig.
     then_fetch (on_client (sa_client a) (sl_GetTransaction R sig) ''failed to get transaction'') (\<lambda>t.
     fetched (Returns (solana_convertTransaction (sa_chain_id a) t))))"

definition solana_adapter_GetLatestHeight :: "('cl, 'w) solana_rpc \<Rightarrow> 'cl solana_adapter \<Rightarrow> (u64, 'w) fetch" where
  "solana_adapter_GetLatestHeight R a = on_client (sa_client a) (sl_GetSlot_finalized R) ''failed to get latest slot''"

definition solana_adapter_GetFinalizedHeight :: "('cl, 'w) solana_rpc \<Rightarrow> 'cl solana_adapter \<Rightarrow> (u64, 'w) fetch" where
  "solana_adapter_GetFinalizedHeight R a = on_client (sa_client a) (sl_GetSlot_finalized R) ''failed to get finalized slot''"

definition solana_adapter_DetectReorg ::
    "('cl, 'w) solana_rpc \<Rightarrow> 'cl solana_adapter \<Rightarrow> int \<Rightarrow> block \<Rightarrow> (bool \<times> reorg_event option, 'w) fetch" where
  "solana_adapter_DetectReorg R a = hash_detect (solana_adapter_GetBlock R a) (sa_chain_id a)"

definition solana_adapter_HealthCheck :: "('cl, 'w) solana_rpc \<Rightarrow> 'cl solana_adapter \<Rightarrow> 'w \<Rightarrow> go_error option \<times> 'w" where
  "solana_adapter_HealthCheck R a w =
     (case sa_client a of
        None \<Rightarrow> (Some (Msg ''client not initialized''), w)
      | Some c \<Rightarrow>
          (case sl_GetHealth R c w of
             (Inl e, w1) \<Rightarrow> (Some (Wrap ''health check failed'' e), w1)
           | (Inr h, w1) \<Rightarrow> (if h \<noteq> ''ok'' then Some (Msg (''node health status: '' @ h)) else None, w1)))"

definition SolanaAdapter :: "('cl, 'w) solana_rpc \<Rightarrow> ('cl solana_adapter, 'w) chain_adapter" where
  "SolanaAdapter R =
     \<lparr>ca_GetChainID = (\<lambda>a. sa_chain_id a), ca_GetChainName = (\<lambda>a. ba_chain_name (sa_base a)),
      ca_GetBlock = solana_adapter_GetBlock R, ca_GetBlockByHash = solana_adapter_GetBlockByHash R,
      ca_GetTransaction = solana_adapter_GetTransaction R, ca_GetLatestHeight = solana_adapter_GetLatestHeight R,
      ca_GetFinalizedHeight = solana_adapter_GetFinalizedHeight R, ca_ParseBlock = (\<lambda>a. assert_block),
      ca_ParseTransaction = (\<lambda>a. assert_tx), ca_ParseLog = (\<lambda>a. assert_log), ca_DetectReorg = solana_adapter_DetectReorg R,
      ca_ValidateConfig = (\<lambda>a. base_ValidateConfig), ca_Initialize = solana_adapter_Initialize R,
      ca_Close = (\<lambda>a w. (None, w)), ca_HealthCheck = solana_adapter_HealthCheck R\<rparr>"

interpretation solana_contract: adapter_contract "SolanaAdapter R" for R
proof unfold_locales
  show "ca_DetectReorg (SolanaAdapter R) a t b w
      = hash_detect (ca_GetBlock (SolanaAdapter R) a) (ca_GetChainID (SolanaAdapter R) a) t b w" for a t b w
    by (simp add: SolanaAdapter_def solana_adapter_DetectReorg_def)
  show "f \<le> l" if "ca_GetLatestHeight (SolanaAdapter R) a w = Returns (Inr l, w1)"
    "ca_GetFinalizedHeight (SolanaAdapter R) a w = Returns (Inr f, w2)" for a w l f w1 w2
    using that by (auto simp: SolanaAdapter_def solana_adapter_GetLatestHeight_def solana_adapter_GetFinalizedHeight_def on_client_ok)
qed


section \<open>What the two adapters report\<close>

text \<open>A chain that never changes, as its slots are served.\<close>

definition serves_slots :: "('cl, 'w) solana_rpc \<Rightarrow> (u64 \<Rightarrow> solana_block) \<Rightarrow> bool" where
  "serves_slots R chain \<longleftrightarrow>
     (\<forall>n c v. sl_GetBlock R n c v = (Inr (Some (chain n)), v)) \<and> (\<forall>n. sb_block_time (chain n) \<noteq> None)"

lemma solana_served:
  assumes "serves_slots R chain" "sa_client a = Some cl"
  shows "\<exists>b. solana_adapter_GetBlock R a n w = Returns (Inr b, w) \<and> blk_number b = sb_parent_slot (chain n)
    \<and> blk_hash b = sb_blockhash (chain n)"
proof -
  obtain t where "sb_block_time (chain n) = Some t" using assms(1) unfolding serves_slots_def by blast
  then show ?thesis using assms
    by (simp add: serves_slots_def solana_adapter_GetBlock_def then_fetch_ok on_client_ok fetched_def solana_convertBlock_def)
qed

text \<open>
  Over a chain that never changes the Solana adapter takes its own blocks for orphans: a block it has
  fetched carries the number of its parent, so the check of the block against the chain compares it
  with its parent and reports a reorganisation, unless both have the same hash.
\<close>

theorem solana_false_reorg:
  assumes "serves_slots R chain" "sa_client a = Some cl"
    and "sb_parent_slot (chain n) < n" "sb_blockhash (chain (sb_parent_slot (chain n))) \<noteq> sb_blockhash (chain n)"
  shows "\<exists>b ev. solana_adapter_GetBlock R a n w = Returns (Inr b, w) \<and> blk_number b < n
    \<and> solana_adapter_DetectReorg R a now b w = Returns (Inr (True, Some ev), w)
    \<and> re_old_block_hash ev = sb_blockhash (chain n) \<and> re_new_block_hash ev = sb_blockhash (chain (sb_parent_slot (chain n)))"
proof -
  obtain b where b: "solana_adapter_GetBlock R a n w = Returns (Inr b, w)" "blk_number b = sb_parent_slot (chain n)"
      "blk_hash b = sb_blockhash (chain n)"
    using solana_served [OF assms(1,2)] by blast
  obtain p where p: "solana_adapter_GetBlock R a (sb_parent_slot (chain n)) w = Returns (Inr p, w)"
      "blk_hash p = sb_blockhash (chain (sb_parent_slot (chain n)))"
    using solana_served [OF assms(1,2)] by blast
  have "solana_adapter_DetectReorg R a now b w = Returns (Inr (True, Some (hash_event (sa_chain_id a) now b p)), w)"
    using p b(2,3) assms(4) by (simp add: solana_adapter_DetectReorg_def hash_detect_ok)
  then show ?thesis using b p assms(3) by (auto simp: hash_event_def)
qed

text \<open>A chain without gaps, for the example.\<close>

definition straight_chain :: "u64 \<Rightarrow> solana_block" where
  "straight_chain n = \<lparr>sb_parent_slot = n - 1, sb_blockhash = fmt_u64 n, sb_block_time = Some 0, sb_transactions = []\<rparr>"

definition straight_rpc :: "(string, unit) solana_rpc" where
  "straight_rpc =
     \<lparr>sl_New = (\<lambda>url. url), sl_GetHealth = (\<lambda>c w. (Inr ''ok'', w)), sl_GetBlock = (\<lambda>n c w. (Inr (Some (straight_chain n)), w)),
      sl_GetTransaction = (\<lambda>s c w. (Inr None, w)), sl_GetSlot_finalized = (\<lambda>c w. (Inr 100, w)),
      sl_SignatureFromBase58 = (\<lambda>s. Inr s)\<rparr>"

definition sol_plugin_config :: solana_config where
  "sol_plugin_config =
     \<lparr>sc_chain_id = ''sol'', sc_chain_name = ''Solana'', sc_rpc_url = ''http://sol'', sc_ws_url = '''', sc_finality_slots = 32,
      sc_slot_time = 1\<rparr>"

definition sol_adapter :: "string solana_adapter" where
  "sol_adapter = \<lparr>sa_base = NewBaseAdapter ''sol'' ''Solana'', sa_client = Some ''http://sol'', sa_config = sol_plugin_config\<rparr>"

theorem solana_false_reorg_witness:
  "\<exists>b ev. solana_adapter_GetBlock straight_rpc sol_adapter 19 () = Returns (Inr b, ())
    \<and> solana_adapter_DetectReorg straight_rpc sol_adapter 7 b () = Returns (Inr (True, Some ev), ())"
proof -
  have s: "serves_slots straight_rpc straight_chain" by (simp add: serves_slots_def straight_rpc_def straight_chain_def)
  have c: "sa_client sol_adapter = Some ''http://sol''" by (simp add: sol_adapter_def)
  have p: "sb_parent_slot (straight_chain 19) < 19" by (simp add: straight_chain_def)
  have "fmt_nat 10 18 \<noteq> fmt_nat 10 19" by (simp add: fmt_nat_inject)
  then have h: "sb_blockhash (straight_chain (sb_parent_slot (straight_chain 19))) \<noteq> sb_blockhash (straight_chain 19)"
    by (simp add: straight_chain_def)
  from solana_false_reorg [OF s c p h] show ?thesis by blast
qed

text \<open>
  An initialised Tron adapter never looks at the chain: every stored block with a hash is reported
  as reorganised, without a block the event could refer to, and the finalised height stays 0.
\<close>

theorem tron_every_block_reorganised:
  assumes "tron_adapter_Initialize t cfg (a0, w0) = (None, a, w1)" "blk_hash b \<noteq> ''''"
  shows "\<exists>ev. tron_adapter_DetectReorg a now b w = Returns (Inr (True, Some ev), w)
    \<and> re_new_block_number ev = blk_number b \<and> re_new_block_hash ev = '''' \<and> tron_adapter_GetFinalizedHeight a w = Returns (Inr 0, w)"
proof -
  have c: "ta_client a = Some (TronHTTPClient t)"
    using assms(1) by (auto simp: tron_adapter_Initialize_def NewTronHTTPClient_def TronHTTPClient_def Let_def
        split: plugin_config.split_asm if_split_asm)
  have "\<exists>x. tron_adapter_GetBlock a (blk_number b) w = Returns (Inr x, w) \<and> blk_number x = blk_number b \<and> blk_hash x = ''''"
    by (simp add: tron_adapter_GetBlock_def then_fetch_ok on_client_ok c fetched_def tron_convertBlock_def TronHTTPClient_def
        tron_stub_block_def)
  then obtain x where x: "tron_adapter_GetBlock a (blk_number b) w = Returns (Inr x, w)" "blk_number x = blk_number b" "blk_hash x = ''''"
    by blast
  then have "tron_adapter_DetectReorg a now b w = Returns (Inr (True, Some (hash_event (ta_chain_id a) now b x)), w)"
    using assms(2) by (simp add: tron_adapter_DetectReorg_def hash_detect_ok)
  moreover have "tron_adapter_GetFinalizedHeight a w = Returns (Inr 0, w)"
    by (simp add: tron_adapter_GetFinalizedHeight_def finalized_of_ok tron_latest_ok c TronHTTPClient_def)
  ultimately show ?thesis using x by (simp add: hash_event_def)
qed

definition tron_plugin_config :: tron_config where
  "tron_plugin_config =
     \<lparr>tc_chain_id = ''tron'', tc_chain_name = ''Tron'', tc_rpc_url = ''http://tron'', tc_grpc_url = '''', tc_finality_blocks = 19,
      tc_block_time = 3\<rparr>"

theorem tron_every_block_reorganised_witness:
  "\<exists>a0 a. tron_factory_Create (TronCfg tron_plugin_config) = Inr a0
    \<and> tron_adapter_Initialize 7 (TronCfg tron_plugin_config) (a0, ()) = (None, a, ())
    \<and> (\<exists>ev. tron_adapter_DetectReorg a 8 (mk_block 19 ''0xb'' ''0xa'' []) () = Returns (Inr (True, Some ev), ()))"
proof -
  obtain a0 :: "unit tron_adapter" where a0: "tron_factory_Create (TronCfg tron_plugin_config) = Inr a0"
    by (simp add: tron_factory_Create_def)
  obtain a where a: "tron_adapter_Initialize 7 (TronCfg tron_plugin_config) (a0, ()) = (None, a, ())"
    by (simp add: tron_adapter_Initialize_def NewTronHTTPClient_def TronHTTPClient_def tron_plugin_config_def Let_def)
  have "blk_hash (mk_block 19 ''0xb'' ''0xa'' []) \<noteq> ''''" by simp
  from tron_every_block_reorganised [OF a this] a a0 show ?thesis by blast
qed

end
