(* ===== verification/PluginManager.thy ===== *)
theory PluginManager
  imports EvmAdapter OtherAdapters Parsers
begin

text \<open>
  \<open>internal/plugin/manager.go\<close>: the registry of factories and adapters. An adapter is a pointer, shared
  between the registry and whoever created it, so adapters live in a store (a list, indexed by the
  reference) and the registry holds references. The map of adapters is an association list in the order
  in which the source visits it. The mutex is held for the length of one operation only.
\<close>

section \<open>The registry\<close>

record 'a plugin_manager =
  pm_factories :: "string \<rightharpoonup> 'a adapter_factory"
  pm_adapters :: "(string \<times> nat) list"
  pm_adapter_factories :: "string \<rightharpoonup> string"

definition NewPluginManager :: "'a plugin_manager" where
  "NewPluginManager = \<lparr>pm_factories = Map.empty, pm_adapters = [], pm_adapter_factories = Map.empty\<rparr>"

definition RegisterFactory :: "'a adapter_factory option \<Rightarrow> 'a plugin_manager \<Rightarrow> go_error option \<times> 'a plugin_manager" where
  "RegisterFactory fac pm =
     (case fac of
        None \<Rightarrow> (Some (Msg ''factory cannot be nil''), pm)
      | Some f \<Rightarrow>
          if af_GetChainType f = '''' then (Some (Msg ''chain type cannot be empty''), pm)
          else if pm_factories pm (af_GetChainType f) \<noteq> None
          then (Some (Msg (''factory for chain type '' @ af_GetChainType f @ '' already registered'')), pm)
          else (None, pm\<lparr>pm_factories := (pm_factories pm)(af_GetChainType f \<mapsto> f)\<rparr>))"

definition UnregisterFactory :: "string \<Rightarrow> 'a plugin_manager \<Rightarrow> go_error option \<times> 'a plugin_manager" where
  "UnregisterFactory chainType pm =
     (if pm_factories pm chainType = None
      then (Some (Msg (''factory for chain type '' @ chainType @ '' not found'')), pm)
      else (None, pm\<lparr>pm_factories := (pm_factories pm)(chainType := None)\<rparr>))"

definition GetFactory :: "string \<Rightarrow> 'a plugin_manager \<Rightarrow> go_error + 'a adapter_factory" where
  "GetFactory chainType pm =
     (case pm_factories pm chainType of
        None \<Rightarrow> Inl (Msg (''factory for chain type '' @ chainType @ '' not found''))
      | Some f \<Rightarrow> Inr f)"

text \<open>A created adapter is a new object of the store; the registry is not changed.\<close>

definition CreateAdapter :: "string \<Rightarrow> plugin_config \<Rightarrow> 'a plugin_manager \<Rightarrow> 'a list \<Rightarrow> (go_error + nat) \<times> 'a list" where
  "CreateAdapter chainType cfg pm h =
     (case andthen (wrap_res ''failed to get factory'' (GetFactory chainType pm)) (\<lambda>f.
             case af_ValidateConfig f cfg of
               Some e \<Rightarrow> Inl (Wrap ''invalid config'' e)
             | None \<Rightarrow> wrap_res ''failed to create adapter'' (af_Create f cfg)) of
        Inl e \<Rightarrow> (Inl e, h)
      | Inr a \<Rightarrow> (Inr (length h), h @ [a]))"

definition RegisterAdapter :: "string \<Rightarrow> nat option \<Rightarrow> 'a plugin_manager \<Rightarrow> go_error option \<times> 'a plugin_manager" where
  "RegisterAdapter chainID adapter pm =
     (case adapter of
        None \<Rightarrow> (Some (Msg ''adapter cannot be nil''), pm)
      | Some r \<Rightarrow>
          if chainID = '''' then (Some (Msg ''chain ID cannot be empty''), pm)
          else if map_of (pm_adapters pm) chainID \<noteq> None
          then (Some (Msg (''adapter for chain '' @ chainID @ '' already registered'')), pm)
          else (None, pm\<lparr>pm_adapters := pm_adapters pm @ [(chainID, r)]\<rparr>))"

definition UnregisterAdapter ::
    "('a, 'w) chain_adapter \<Rightarrow> string \<Rightarrow> 'a list \<Rightarrow> 'a plugin_manager \<times> 'w \<Rightarrow> go_error option \<times> 'a plugin_manager \<times> 'w" where
  "UnregisterAdapter A chainID h pw =
     (let (pm, w) = pw in
      case map_of (pm_adapters pm) chainID of
        None \<Rightarrow> (Some (Msg (''adapter for chain '' @ chainID @ '' not found'')), pm, w)
      | Some r \<Rightarrow>
          (None, pm\<lparr>pm_adapters := AList.delete chainID (pm_adapters pm),
                    pm_adapter_factories := (pm_adapter_factories pm)(chainID := None)\<rparr>,
           snd (ca_Close A (h ! r) w)))"

definition GetAdapter :: "string \<Rightarrow> 'a plugin_manager \<Rightarrow> go_error + nat" where
  "GetAdapter chainID pm =
     (case map_of (pm_adapters pm) chainID of
        None \<Rightarrow> Inl (Msg (''adapter for chain '' @ chainID @ '' not found''))
      | Some r \<Rightarrow> Inr r)"

text \<open>All adapters are closed, whatever errors there are; the errors are printed as a list.\<close>

fun close_adapters :: "('a, 'w) chain_adapter \<Rightarrow> 'a list \<Rightarrow> (string \<times> nat) list \<Rightarrow> 'w \<Rightarrow> go_error list \<times> 'w" where
  "close_adapters A h [] w = ([], w)"
| "close_adapters A h ((chainID, r) # rs) w =
     (case ca_Close A (h ! r) w of (e, w1) \<Rightarrow>
      (case close_adapters A h rs w1 of (es, w2) \<Rightarrow>
         ((case e of None \<Rightarrow> es | Some x \<Rightarrow> Wrap (''failed to close adapter '' @ chainID) x # es), w2)))"

definition join_errors :: "go_error list \<Rightarrow> string" where
  "join_errors es = ''['' @ join_with '' '' (map err_text es) @ '']''"

definition plugin_Close ::
    "('a, 'w) chain_adapter \<Rightarrow> 'a list \<Rightarrow> 'a plugin_manager \<times> 'w \<Rightarrow> go_error option \<times> 'a plugin_manager \<times> 'w" where
  "plugin_Close A h pw =
     (case close_adapters A h (pm_adapters (fst pw)) (snd pw) of (es, w1) \<Rightarrow>
        (if es = [] then None else Some (Msg (''errors occurred while closing: '' @ join_errors es)), NewPluginManager, w1))"

fun plugin_HealthCheck :: "('a, 'w) chain_adapter \<Rightarrow> 'a list \<Rightarrow> (string \<times> nat) list \<Rightarrow> 'w \<Rightarrow> go_error option \<times> 'w" where
  "plugin_HealthCheck A h [] w = (None, w)"
| "plugin_HealthCheck A h ((chainID, r) # rs) w =
     (case ca_HealthCheck A (h ! r) w of
        (Some e, w1) \<Rightarrow> (Some (Wrap (''adapter '' @ chainID @ '' health check failed'') e), w1)
      | (None, w1) \<Rightarrow> plugin_HealthCheck A h rs w1)"

record manager_statistics =
  ms_registered_factories :: int
  ms_registered_adapters :: int
  ms_adapter_chains :: "string list"

definition plugin_GetStatistics :: "'a plugin_manager \<Rightarrow> manager_statistics" where
  "plugin_GetStatistics pm =
     \<lparr>ms_registered_factories = int (card (dom (pm_factories pm))), ms_registered_adapters = int (length (pm_adapters pm)),
      ms_adapter_chains = map fst (pm_adapters pm)\<rparr>"

section \<open>One adapter type for the three chains\<close>

datatype ('cl, 'sol, 'w) any_adapter =
  AnEvm "'cl evm_adapter" | ASolana "'sol solana_adapter" | ATron "'w tron_adapter"

text \<open>A method call on the interface is the method of the value inside.\<close>

definition pick ::
    "('cl, 'w) eth_client \<Rightarrow> ('sol, 'w) solana_rpc \<Rightarrow> int
      \<Rightarrow> (('cl evm_adapter, 'w) chain_adapter \<Rightarrow> 'cl evm_adapter \<Rightarrow> 'r)
      \<Rightarrow> (('sol solana_adapter, 'w) chain_adapter \<Rightarrow> 'sol solana_adapter \<Rightarrow> 'r)
      \<Rightarrow> (('w tron_adapter, 'w) chain_adapter \<Rightarrow> 'w tron_adapter \<Rightarrow> 'r) \<Rightarrow> ('cl, 'sol, 'w) any_adapter \<Rightarrow> 'r" where
  "pick K R now f g h a =
     (case a of AnEvm x \<Rightarrow> f (EVMAdapter K) x | ASolana x \<Rightarrow> g (SolanaAdapter R) x | ATron x \<Rightarrow> h (TronAdapter now) x)"

definition any_chain_adapter ::
    "('cl, 'w) eth_client \<Rightarrow> ('sol, 'w) solana_rpc \<Rightarrow> int \<Rightarrow> (('cl, 'sol, 'w) any_adapter, 'w) chain_adapter" where
  "any_chain_adapter K R now =
      \<lparr>ca_GetChainID = pick K R now ca_GetChainID ca_GetChainID ca_GetChainID,
       ca_GetChainName = pick K R now ca_GetChainName ca_GetChainName ca_GetChainName,
       ca_GetBlock = pick K R now ca_GetBlock ca_GetBlock ca_GetBlock,
       ca_GetBlockByHash = pick K R now ca_GetBlockByHash ca_GetBlockByHash ca_GetBlockByHash,
       ca_GetTransaction = pick K R now ca_GetTransaction ca_GetTransaction ca_GetTransaction,
       ca_GetLatestHeight = pick K R now ca_GetLatestHeight ca_GetLatestHeight ca_GetLatestHeight,
       ca_GetFinalizedHeight = pick K R now ca_GetFinalizedHeight ca_GetFinalizedHeight ca_GetFinalizedHeight,
       ca_ParseBlock = pick K R now ca_ParseBlock ca_ParseBlock ca_ParseBlock,
       ca_ParseTransaction = pick K R now ca_ParseTransaction ca_ParseTransaction ca_ParseTransaction,
       ca_ParseLog = pick K R now ca_ParseLog ca_ParseLog ca_ParseLog,
       ca_DetectReorg = pick K R now ca_DetectReorg ca_DetectReorg ca_DetectReorg,
       ca_ValidateConfig = pick K R now ca_ValidateConfig ca_ValidateConfig ca_ValidateConfig,
       ca_Initialize = (\<lambda>cfg (a, w).
         (case a of
            AnEvm x \<Rightarrow> (case ca_Initialize (EVMAdapter K) cfg (x, w) of (e, x', w') \<Rightarrow> (e, AnEvm x', w'))
          | ASolana x \<Rightarrow> (case ca_Initialize (SolanaAdapter R) cfg (x, w) of (e, x', w') \<Rightarrow> (e, ASolana x', w'))
          | ATron x \<Rightarrow> (case ca_Initialize (TronAdapter now) cfg (x, w) of (e, x', w') \<Rightarrow> (e, ATron x', w')))),
       ca_Close = pick K R now ca_Close ca_Close ca_Close,
       ca_HealthCheck = pick K R now ca_HealthCheck ca_HealthCheck ca_HealthCheck\<rparr>"

definition any_factory :: "('b \<Rightarrow> 'a) \<Rightarrow> 'b adapter_factory \<Rightarrow> 'a adapter_factory" where
  "any_factory mk f =
     \<lparr>af_GetChainType = af_GetChainType f, af_ValidateConfig = af_ValidateConfig f,
      af_Create = (\<lambda>cfg. map_sum id mk (af_Create f cfg))\<rparr>"

definition chain_factories :: "('cl, 'sol, 'w) any_adapter adapter_factory list" where
  "chain_factories =
     [any_factory AnEvm NewEVMAdapterFactory, any_factory ASolana NewSolanaAdapterFactory, any_factory ATron NewTronAdapterFactory]"

section \<open>The contract of all adapters\<close>

interpretation any_contract: adapter_contract "any_chain_adapter K R now" for K R now
proof unfold_locales
  let ?A = "any_chain_adapter K R now"
  show "ca_DetectReorg ?A a t b w = hash_detect (ca_GetBlock ?A a) (ca_GetChainID ?A a) t b w" for a t b w
    using evm_contract.detects [of K] solana_contract.detects [of R] tron_contract.detects [of now]
    by (cases a) (simp_all add: any_chain_adapter_def pick_def)
  show "f \<le> l" if "ca_GetLatestHeight ?A a w = Returns (Inr l, w1)" "ca_GetFinalizedHeight ?A a w = Returns (Inr f, w2)"
    for a w l f w1 w2
    using that evm_contract.finalized_le [of K] solana_contract.finalized_le [of R] tron_contract.finalized_le [of now]
    by (cases a) (auto simp: any_chain_adapter_def pick_def)
qed

text \<open>
  What any of the three adapters reports as a reorganisation: the block it has fetched from the chain
  at the local block's number has a different hash, and the event names the adapter's chain, the local
  block as the old and the fetched block as the new one. A block the chain still serves at its number is
  never reported.
\<close>

theorem adapter_reorg_event:
  assumes "ca_DetectReorg (any_chain_adapter K R clock) a now b w = Returns (Inr (t, ev), w')"
  shows "\<exists>c. ca_GetBlock (any_chain_adapter K R clock) a (blk_number b) w = Returns (Inr c, w') \<and> t = (blk_hash c \<noteq> blk_hash b)
    \<and> ev = (if t then Some (hash_event (ca_GetChainID (any_chain_adapter K R clock) a) now b c) else None)"
  using assms by (auto simp: any_contract.detects hash_detect_ok split: if_split_asm)


section \<open>The registry is a map\<close>

text \<open>What the registry promises: two finite maps, one name never bound twice.\<close>

datatype 'a registry_op =
  RegFactory "'a adapter_factory option" | UnregFactory string | RegAdapter string "nat option" | UnregAdapter string | ClosePlugins

type_synonym 'a registry = "(string \<rightharpoonup> 'a adapter_factory) \<times> (string \<rightharpoonup> nat)"

definition bind_new :: "string \<Rightarrow> 'b \<Rightarrow> (string \<rightharpoonup> 'b) \<Rightarrow> (string \<rightharpoonup> 'b)" where
  "bind_new k v m = (if k = '''' \<or> k \<in> dom m then m else m(k \<mapsto> v))"

fun registry_spec :: "'a registry_op \<Rightarrow> 'a registry \<Rightarrow> 'a registry" where
  "registry_spec (RegFactory None) r = r"
| "registry_spec (RegFactory (Some f)) r = apfst (bind_new (af_GetChainType f) f) r"
| "registry_spec (UnregFactory t) r = apfst (\<lambda>m. m(t := None)) r"
| "registry_spec (RegAdapter k None) r = r"
| "registry_spec (RegAdapter k (Some a)) r = apsnd (bind_new k a) r"
| "registry_spec (UnregAdapter k) r = apsnd (\<lambda>m. m(k := None)) r"
| "registry_spec ClosePlugins r = (Map.empty, Map.empty)"

fun plugin_step ::
    "('a, 'w) chain_adapter \<Rightarrow> 'a list \<Rightarrow> 'a registry_op \<Rightarrow> 'a plugin_manager \<times> 'w \<Rightarrow> 'a plugin_manager \<times> 'w" where
  "plugin_step A h (RegFactory f) pw = apfst (\<lambda>pm. snd (RegisterFactory f pm)) pw"
| "plugin_step A h (UnregFactory t) pw = apfst (\<lambda>pm. snd (UnregisterFactory t pm)) pw"
| "plugin_step A h (RegAdapter k a) pw = apfst (\<lambda>pm. snd (RegisterAdapter k a pm)) pw"
| "plugin_step A h (UnregAdapter k) pw = snd (UnregisterAdapter A k h pw)"
| "plugin_step A h ClosePlugins pw = snd (plugin_Close A h pw)"

definition registry_of :: "'a plugin_manager \<Rightarrow> 'a registry" where
  "registry_of pm = (pm_factories pm, map_of (pm_adapters pm))"

definition plugin_ok :: "'a plugin_manager \<Rightarrow> bool" where
  "plugin_ok pm \<longleftrightarrow> distinct (map fst (pm_adapters pm)) \<and> '''' \<notin> fst ` set (pm_adapters pm)
    \<and> (\<forall>t f. pm_factories pm t = Some f \<longrightarrow> t \<noteq> '''' \<and> af_GetChainType f = t) \<and> pm_adapter_factories pm = Map.empty"

lemma map_of_snoc_new: "map_of xs k = None \<Longrightarrow> map_of (xs @ [(k, v)]) = (map_of xs)(k \<mapsto> v)"
  by (auto simp: map_add_def fun_eq_iff split: option.splits)

lemma snd_plugin_Close [simp]: "fst (snd (plugin_Close A h pw)) = NewPluginManager"
  by (simp add: plugin_Close_def split: prod.split)

lemma plugin_step_refines: "registry_of (fst (plugin_step A h x pw)) = registry_spec x (registry_of (fst pw))"
proof (cases x)
  case (RegFactory f)
  then show ?thesis
    by (cases pw; cases f) (auto simp: RegisterFactory_def registry_of_def bind_new_def dom_def)
next
  case (UnregFactory t)
  then show ?thesis by (cases pw) (auto simp: UnregisterFactory_def registry_of_def fun_upd_idem)
next
  case (RegAdapter k a)
  then show ?thesis
    by (cases pw; cases a) (auto simp: RegisterAdapter_def registry_of_def bind_new_def dom_def map_of_snoc_new
        simp del: map_of_append)
next
  case (UnregAdapter k)
  then show ?thesis
    by (cases pw) (auto simp: UnregisterAdapter_def registry_of_def delete_conv' fun_upd_idem split: option.split)
next
  case ClosePlugins
  then show ?thesis by (simp add: registry_of_def NewPluginManager_def)
qed

lemma set_delete_subset: "set (AList.delete k xs) \<subseteq> set xs"
  by (auto simp: AList.delete_eq)

lemma plugin_step_ok: "plugin_ok (fst pw) \<Longrightarrow> plugin_ok (fst (plugin_step A h x pw))"
proof (cases x)
  case (RegAdapter k a)
  moreover assume "plugin_ok (fst pw)"
  ultimately show ?thesis
    by (cases pw; cases a) (auto simp: RegisterAdapter_def plugin_ok_def map_of_eq_None_iff)
next
  case (UnregAdapter k)
  moreover assume "plugin_ok (fst pw)"
  ultimately show ?thesis using set_delete_subset [of k "pm_adapters (fst pw)"]
    by (cases pw) (auto simp: UnregisterAdapter_def plugin_ok_def distinct_delete fun_upd_idem split: option.split)
qed (cases pw; auto simp: RegisterFactory_def UnregisterFactory_def plugin_ok_def NewPluginManager_def split: option.split)+

lemma plugin_run_ok:
  "plugin_ok (fst pw) \<Longrightarrow> plugin_ok (fst (fold (plugin_step A h) xs pw))
    \<and> registry_of (fst (fold (plugin_step A h) xs pw)) = fold registry_spec xs (registry_of (fst pw))"
  by (induction xs arbitrary: pw) (simp_all add: plugin_step_ok plugin_step_refines)

text \<open>
  C27: The registry of plugins refines a pair of maps: after any sequence of registrations,
  unregistrations and closings, what a lookup finds is what the maps say, where a registration binds a
  new name that is not empty and never replaces one. Every chain is listed once, and the table of the
  factories of the adapters stays empty.
\<close>

theorem plugin_registry_refines:
  "let pm = fst (fold (plugin_step A h) xs (NewPluginManager, w));
       spec = fold registry_spec xs (Map.empty, Map.empty) in
     GetFactory t pm = (case fst spec t of None \<Rightarrow> Inl (Msg (''factory for chain type '' @ t @ '' not found'')) | Some f \<Rightarrow> Inr f)
   \<and> GetAdapter k pm = (case snd spec k of None \<Rightarrow> Inl (Msg (''adapter for chain '' @ k @ '' not found'')) | Some a \<Rightarrow> Inr a)
   \<and> distinct (ms_adapter_chains (plugin_GetStatistics pm)) \<and> pm_adapter_factories pm = Map.empty"
proof -
  have "plugin_ok NewPluginManager" "registry_of NewPluginManager = (Map.empty, Map.empty)"
    by (simp_all add: plugin_ok_def registry_of_def NewPluginManager_def)
  then have "plugin_ok (fst (fold (plugin_step A h) xs (NewPluginManager, w)))"
    "registry_of (fst (fold (plugin_step A h) xs (NewPluginManager, w))) = fold registry_spec xs (Map.empty, Map.empty)"
    using plugin_run_ok [of "(NewPluginManager, w)" A h xs, unfolded fst_conv] by (blast, metis)
  then show ?thesis
    by (simp add: Let_def GetFactory_def GetAdapter_def registry_of_def plugin_ok_def plugin_GetStatistics_def prod_eq_iff)
qed


section \<open>A created adapter has no client\<close>

lemma CreateAdapter_ok:
  assumes "CreateAdapter t cfg pm h = (Inr r, h')"
  shows "\<exists>f a. pm_factories pm t = Some f \<and> af_ValidateConfig f cfg = None \<and> af_Create f cfg = Inr a \<and> r = length h \<and> h' = h @ [a]"
  using assms
  by (auto simp: CreateAdapter_def GetFactory_def andthen_def wrap_res_def split: sum.splits option.splits)

lemma created_cases:
  assumes "f \<in> set chain_factories" "af_Create f cfg = Inr a"
  shows "(\<exists>x. a = AnEvm x \<and> ea_client x = None) \<or> (\<exists>x. a = ASolana x \<and> sa_client x = None) \<or> (\<exists>x. a = ATron x \<and> ta_client x = None)"
  using assms
  by (cases cfg) (auto simp: chain_factories_def any_factory_def NewEVMAdapterFactory_def NewSolanaAdapterFactory_def
      NewTronAdapterFactory_def NewBaseAdapterFactory_def evm_factory_Create_def solana_factory_Create_def tron_factory_Create_def)

lemma any_evm [simp]:
  "ca_GetBlock (any_chain_adapter K R now) (AnEvm x) = evm_adapter_GetBlock K x"
  "ca_GetLatestHeight (any_chain_adapter K R now) (AnEvm x) = evm_adapter_GetLatestHeight K x"
  "ca_GetFinalizedHeight (any_chain_adapter K R now) (AnEvm x) = evm_adapter_GetFinalizedHeight K x"
  "ca_DetectReorg (any_chain_adapter K R now) (AnEvm x) = evm_adapter_DetectReorg K x"
  "ca_HealthCheck (any_chain_adapter K R now) (AnEvm x) = evm_adapter_HealthCheck K x"
  by (simp_all add: any_chain_adapter_def pick_def EVMAdapter_def)

lemma any_solana [simp]:
  "ca_GetBlock (any_chain_adapter K R now) (ASolana y) = solana_adapter_GetBlock R y"
  "ca_GetLatestHeight (any_chain_adapter K R now) (ASolana y) = solana_adapter_GetLatestHeight R y"
  "ca_GetFinalizedHeight (any_chain_adapter K R now) (ASolana y) = solana_adapter_GetFinalizedHeight R y"
  "ca_DetectReorg (any_chain_adapter K R now) (ASolana y) = solana_adapter_DetectReorg R y"
  "ca_HealthCheck (any_chain_adapter K R now) (ASolana y) = solana_adapter_HealthCheck R y"
  by (simp_all add: any_chain_adapter_def pick_def SolanaAdapter_def)

lemma any_tron [simp]:
  "ca_GetBlock (any_chain_adapter K R now) (ATron z) = tron_adapter_GetBlock z"
  "ca_GetLatestHeight (any_chain_adapter K R now) (ATron z) = tron_adapter_GetLatestHeight z"
  "ca_GetFinalizedHeight (any_chain_adapter K R now) (ATron z) = tron_adapter_GetFinalizedHeight z"
  "ca_DetectReorg (any_chain_adapter K R now) (ATron z) = tron_adapter_DetectReorg z"
  "ca_HealthCheck (any_chain_adapter K R now) (ATron z) = tron_adapter_HealthCheck z"
  by (simp_all add: any_chain_adapter_def pick_def TronAdapter_def)

lemma detect_panics: "getBlock (blk_number b) w = Panics \<Longrightarrow> hash_detect getBlock i now b w = Panics"
  by (simp add: hash_detect_def wrap_fetch_def)

lemma finalized_panics: "latest w = Panics \<Longrightarrow> finalized_of k latest w = Panics"
  by (simp add: finalized_of_def)

lemma evm_nil_client:
  assumes "ea_client x = None"
  shows "evm_adapter_GetBlock K x n w = Panics" "evm_adapter_GetLatestHeight K x w = Panics"
    "evm_adapter_GetFinalizedHeight K x w = Panics" "evm_adapter_DetectReorg K x clock b w = Panics"
    "evm_adapter_HealthCheck K x w = (Some (Msg ''client not initialized''), w)"
proof -
  show b: "evm_adapter_GetBlock K x n w = Panics" for n by (simp add: evm_adapter_GetBlock_def assms)
  show l: "evm_adapter_GetLatestHeight K x w = Panics" by (simp add: evm_adapter_GetLatestHeight_def assms)
  show "evm_adapter_GetFinalizedHeight K x w = Panics" by (simp add: evm_adapter_GetFinalizedHeight_def finalized_panics l)
  show "evm_adapter_DetectReorg K x clock b w = Panics" by (simp add: evm_adapter_DetectReorg_def detect_panics b)
  show "evm_adapter_HealthCheck K x w = (Some (Msg ''client not initialized''), w)" by (simp add: evm_adapter_HealthCheck_def assms)
qed

lemma solana_nil_client:
  assumes "sa_client y = None"
  shows "solana_adapter_GetBlock R y n w = Panics" "solana_adapter_GetLatestHeight R y w = Panics"
    "solana_adapter_GetFinalizedHeight R y w = Panics" "solana_adapter_DetectReorg R y clock b w = Panics"
    "solana_adapter_HealthCheck R y w = (Some (Msg ''client not initialized''), w)"
proof -
  show b: "solana_adapter_GetBlock R y n w = Panics" for n by (simp add: solana_adapter_GetBlock_def assms)
  show "solana_adapter_GetLatestHeight R y w = Panics" by (simp add: solana_adapter_GetLatestHeight_def assms)
  show "solana_adapter_GetFinalizedHeight R y w = Panics" by (simp add: solana_adapter_GetFinalizedHeight_def assms)
  show "solana_adapter_DetectReorg R y clock b w = Panics" by (simp add: solana_adapter_DetectReorg_def detect_panics b)
  show "solana_adapter_HealthCheck R y w = (Some (Msg ''client not initialized''), w)" by (simp add: solana_adapter_HealthCheck_def assms)
qed

lemma tron_nil_client:
  assumes "ta_client z = None"
  shows "tron_adapter_GetBlock z n w = Panics" "tron_adapter_GetLatestHeight z w = Panics"
    "tron_adapter_GetFinalizedHeight z w = Panics" "tron_adapter_DetectReorg z clock b w = Panics"
    "tron_adapter_HealthCheck z w = (Some (Msg ''client not initialized''), w)"
proof -
  show b: "tron_adapter_GetBlock z n w = Panics" for n by (simp add: tron_adapter_GetBlock_def assms)
  show l: "tron_adapter_GetLatestHeight z w = Panics" by (simp add: tron_adapter_GetLatestHeight_def assms)
  show "tron_adapter_GetFinalizedHeight z w = Panics" by (simp add: tron_adapter_GetFinalizedHeight_def finalized_panics l)
  show "tron_adapter_DetectReorg z clock b w = Panics" by (simp add: tron_adapter_DetectReorg_def detect_panics b)
  show "tron_adapter_HealthCheck z w = (Some (Msg ''client not initialized''), w)" by (simp add: tron_adapter_HealthCheck_def assms)
qed

text \<open>
  An adapter the manager has created cannot be used before it is initialised, which neither the
  creation nor the registration does: asking it for a block, a height or a reorganisation panics, and
  with the adapter registered first the health check of the manager fails.
\<close>

theorem created_adapter_unusable:
  assumes "CreateAdapter t cfg pm h = (Inr r, h')"
    and "\<And>f. pm_factories pm t = Some f \<Longrightarrow> f \<in> set chain_factories"
  shows "ca_GetBlock (any_chain_adapter K R now) (h' ! r) n w = Panics
    \<and> ca_GetLatestHeight (any_chain_adapter K R now) (h' ! r) w = Panics
    \<and> ca_GetFinalizedHeight (any_chain_adapter K R now) (h' ! r) w = Panics
    \<and> ca_DetectReorg (any_chain_adapter K R now) (h' ! r) clock b w = Panics
    \<and> plugin_HealthCheck (any_chain_adapter K R now) h' ((k, r) # rs) w
      = (Some (Wrap (''adapter '' @ k @ '' health check failed'') (Msg ''client not initialized'')), w)"
proof -
  obtain f a where a: "pm_factories pm t = Some f" "af_Create f cfg = Inr a" "h' ! r = a"
    using CreateAdapter_ok [OF assms(1)] by auto
  from created_cases [OF assms(2) [OF a(1)] a(2)] show ?thesis unfolding plugin_HealthCheck.simps a(3)
    by (elim disjE exE conjE) (simp_all add: evm_nil_client solana_nil_client tron_nil_client)
qed

text \<open>An adapter of each kind, for the examples.\<close>

definition eth_plugin_config :: evm_config where
  "eth_plugin_config =
     \<lparr>ec_chain_id = ''1'', ec_chain_name = ''Ethereum'', ec_rpc_url = ''http://node'', ec_ws_url = '''',
      ec_finality_blocks = 12, ec_block_time = 12\<rparr>"

theorem created_adapter_unusable_witness:
  fixes K :: "(unit, unit) eth_client" and R :: "(unit, unit) solana_rpc"
  shows "\<exists>pm h'. pm = snd (RegisterFactory (Some (any_factory AnEvm NewEVMAdapterFactory)) NewPluginManager)
    \<and> CreateAdapter ''evm'' (EvmCfg eth_plugin_config) pm [] = (Inr 0, h') \<and> ca_GetBlock (any_chain_adapter K R 7) (h' ! 0) 19 () = Panics"
proof -
  let ?f = "any_factory AnEvm NewEVMAdapterFactory :: (unit, unit, unit) any_adapter adapter_factory"
  let ?pm = "snd (RegisterFactory (Some ?f) NewPluginManager)"
  have t: "af_GetChainType ?f = ''evm''" by (simp add: any_factory_def NewEVMAdapterFactory_def NewBaseAdapterFactory_def)
  have pm: "pm_factories ?pm = [''evm'' \<mapsto> ?f]" by (simp add: RegisterFactory_def t NewPluginManager_def)
  obtain h' where c: "CreateAdapter ''evm'' (EvmCfg eth_plugin_config) ?pm [] = (Inr 0, h')"
    by (simp add: CreateAdapter_def GetFactory_def pm)
      (simp add: any_factory_def NewEVMAdapterFactory_def NewBaseAdapterFactory_def evm_factory_ValidateConfig_def
        evm_factory_Create_def eth_plugin_config_def)
  have "f \<in> set chain_factories" if "pm_factories ?pm ''evm'' = Some f" for f
    using that by (simp add: pm chain_factories_def)
  from created_adapter_unusable [OF c this, where K = K and R = R and now = 7 and n = 19 and w = "()"]
  have "ca_GetBlock (any_chain_adapter K R 7) (h' ! 0) 19 () = Panics" by simp
  with c show ?thesis by (intro exI conjI) (rule refl)
qed

end
