(* ===== verification/GoJson.thy ===== *)
theory GoJson
  imports Json "HOL-Library.Monad_Syntax"
begin

text \<open>
  What becomes of a value of \<open>pkg/types/types.go\<close> that is rendered as JSON, decoded into an \<open>interface{}\<close>,
  rendered again and decoded into its struct, as \<open>internal/storage/elasticsearch.go\<close> does: every number passes
  through a \<open>float64\<close>. The rounding and the shortest decimal form of Go's \<open>encoding/json\<close> are written out for
  whole numbers; a text of time stands for the one of RFC 3339, of which nothing but its being read back
  matters.
\<close>

section \<open>Whole numbers as \<open>float64\<close>\<close>

text \<open>How many binary digits a number has beyond 53, and the nearest number with 53 digits, ties to even.\<close>

fun excess :: "nat \<Rightarrow> nat" where
  "excess n = (if n < 2 ^ 53 then 0 else Suc (excess (n div 2)))"

declare excess.simps [simp del]

definition f64_nat :: "nat \<Rightarrow> nat" where
  "f64_nat n =
     (let u = 2 ^ excess n; q = n div u; r = n mod u in
      (if 2 * r > u \<or> (2 * r = u \<and> odd q) then q + 1 else q) * u)"

text \<open>
  The shortest decimal that reads back as the same \<open>float64\<close>: the number rounded to as few digits as
  will do, filled with zeros.
\<close>

definition round_digits :: "nat \<Rightarrow> nat \<Rightarrow> nat" where
  "round_digits k n =
     (let p = 10 ^ (length (fmt_nat 10 n) - k); q = n div p; r = n mod p in
      (if 2 * r > p \<or> (2 * r = p \<and> odd q) then q + 1 else q) * p)"

definition shortest :: "nat \<Rightarrow> nat" where
  "shortest n =
     (case List.find (\<lambda>k. f64_nat (round_digits k n) = n) [1..<length (fmt_nat 10 n)] of
        Some k \<Rightarrow> round_digits k n
      | None \<Rightarrow> n)"

text \<open>
  A number beyond the range of a \<open>float64\<close> cannot be decoded. From \<open>10 ^ 21\<close> on the number is printed with
  an exponent: it is left as it is here, and the readers below refuse a number of that size.
\<close>

definition through_f64 :: "int \<Rightarrow> int option" where
  "through_f64 z =
     (let f = f64_nat (nat \<bar>z\<bar>) in
      if f < 10 ^ 21 then Some (sgn z * int (shortest f))
      else if f < 2 ^ 1024 then Some (sgn z * int f) else None)"

lemma excess_small [simp]: "n < 2 ^ 53 \<Longrightarrow> excess n = 0"
  by (subst excess.simps) simp

lemma f64_small [simp]: "n < 2 ^ 53 \<Longrightarrow> f64_nat n = n"
  by (simp add: f64_nat_def)

lemma excess_Suc: "2 ^ 53 \<le> n \<Longrightarrow> excess n = Suc (excess (n div 2))"
  by (subst excess.simps) simp

lemma excess_large: "2 ^ 53 \<le> n \<Longrightarrow> excess n = Suc e \<Longrightarrow> 2 ^ (e + 53) \<le> n \<and> n < 2 ^ (e + 54)"
proof (induction n arbitrary: e rule: excess.induct)
  case (1 n)
  have e: "excess (n div 2) = e" using "1.prems" by (simp add: excess_Suc)
  show ?case
  proof (cases "n div 2 < 2 ^ 53")
    case True
    then have "e = 0" using e by simp
    then show ?thesis using True "1.prems"(1) by simp
  next
    case False
    then obtain e' where e': "e = Suc e'" using e excess_Suc [of "n div 2"] by auto
    then have "2 ^ (e' + 53) \<le> n div 2 \<and> n div 2 < 2 ^ (e' + 54)"
      using "1.IH" [of e'] "1.prems"(1) False e by simp
    moreover have "2 ^ (e + 53) = 2 * (2 :: nat) ^ (e' + 53)" "2 ^ (e + 54) = 2 * (2 :: nat) ^ (e' + 54)"
      by (simp_all add: e' power_add)
    ultimately show ?thesis by linarith
  qed
qed

lemma f64_below: "n div 2 ^ excess n * 2 ^ excess n \<le> f64_nat n"
  by (simp add: f64_nat_def Let_def)

lemma f64_large: "2 ^ 53 \<le> n \<Longrightarrow> 2 ^ 53 \<le> f64_nat n"
proof -
  assume n: "2 ^ 53 \<le> n"
  then obtain e where e: "excess n = Suc e" using excess_Suc [of n] by blast
  have "2 ^ (e + 53) \<le> n" using excess_large [OF n e] by simp
  then have "2 ^ 52 * 2 ^ Suc e \<le> n" by (simp add: power_add)
  then have "2 ^ 52 \<le> n div 2 ^ Suc e" by (simp add: less_eq_div_iff_mult_less_eq)
  then have "2 ^ 52 * 2 ^ Suc e \<le> f64_nat n"
    using f64_below [of n] mult_le_mono1 [of "2 ^ 52" "n div 2 ^ Suc e" "2 ^ Suc e"] unfolding e by linarith
  moreover have "(2 :: nat) ^ 53 \<le> 2 ^ 52 * 2 ^ Suc e" by simp
  ultimately show ?thesis by linarith
qed

lemma f64_eq_small: "f64_nat c = n \<Longrightarrow> n < 2 ^ 53 \<Longrightarrow> c = n"
  using f64_large [of c] f64_small [of c] by (cases "c < 2 ^ 53") auto

lemma shortest_small [simp]: "n < 2 ^ 53 \<Longrightarrow> shortest n = n"
proof (cases "List.find (\<lambda>k. f64_nat (round_digits k n) = n) [1..<length (fmt_nat 10 n)]")
  case (Some k)
  moreover assume "n < 2 ^ 53"
  ultimately have "round_digits k n = n"
    using f64_eq_small [of "round_digits k n" n] by (auto simp: find_Some_iff)
  then show ?thesis unfolding shortest_def Some by simp
next
  case None
  then show ?thesis unfolding shortest_def None by simp
qed

lemma through_f64_small [simp]: "\<bar>z\<bar> < 2 ^ 53 \<Longrightarrow> through_f64 z = Some z"
proof -
  assume "\<bar>z\<bar> < 2 ^ 53"
  then have "nat \<bar>z\<bar> < 2 ^ 53" by (simp add: nat_less_iff)
  moreover from this have "nat \<bar>z\<bar> < 10 ^ 21" by simp
  ultimately show ?thesis by (simp add: through_f64_def abs_mult_sgn mult.commute [of "sgn z"])
qed

lemma f64_exponent: "10 ^ 21 \<le> n \<Longrightarrow> 10 ^ 21 \<le> f64_nat n"
proof -
  assume n: "10 ^ 21 \<le> n"
  then obtain e where e: "excess n = Suc e" using excess_Suc [of n] by force
  then have b: "2 ^ (e + 53) \<le> n \<and> n < 2 ^ (e + 54)" using excess_large [OF _ e] n by simp
  show ?thesis
  proof (cases "e \<le> 16")
    case True
    have "(2 :: nat) ^ Suc e dvd 2 ^ 21" using True by (intro le_imp_power_dvd) simp
    also have "(2 :: nat) ^ 21 dvd 10 ^ 21" by simp
    finally have "(10 :: nat) ^ 21 = 10 ^ 21 div 2 ^ Suc e * 2 ^ Suc e" by (rule dvd_div_mult_self [symmetric])
    also have "\<dots> \<le> n div 2 ^ Suc e * 2 ^ Suc e" using n by (intro mult_le_mono1 div_le_mono)
    finally show ?thesis using f64_below [of n] unfolding e by (rule order_trans)
  next
    case False
    then have "(2 :: nat) ^ 70 \<le> 2 ^ (e + 53)" by (intro power_increasing) auto
    also have "(2 :: nat) ^ (e + 53) = 2 ^ (e + 53) div 2 ^ Suc e * 2 ^ Suc e"
      by (intro dvd_div_mult_self [symmetric] le_imp_power_dvd) simp
    also have "\<dots> \<le> n div 2 ^ Suc e * 2 ^ Suc e"
      using b by (intro mult_le_mono1 div_le_mono) simp
    also have "\<dots> \<le> f64_nat n" using f64_below [of n] unfolding e .
    finally show ?thesis by simp
  qed
qed

lemma through_f64_exponent: "10 ^ 21 \<le> z \<Longrightarrow> through_f64 z = Some y \<Longrightarrow> 10 ^ 21 \<le> \<bar>y\<bar>"
proof -
  assume z: "10 ^ 21 \<le> z" and y: "through_f64 z = Some y"
  have "10 ^ 21 \<le> f64_nat (nat \<bar>z\<bar>)" using z by (intro f64_exponent) simp
  moreover from this y z have "y = int (f64_nat (nat \<bar>z\<bar>))" by (auto simp: through_f64_def Let_def split: if_split_asm)
  ultimately show ?thesis by simp
qed

section \<open>Rendering\<close>

definition time_text :: "int \<Rightarrow> json" where
  "time_text t = JStr (fmt_int t)"

definition uint_json :: "u64 \<Rightarrow> json" where
  "uint_json n = JNum (uint n)"

definition big_json :: "int option \<Rightarrow> json" where
  "big_json z = (case z of None \<Rightarrow> JNull | Some x \<Rightarrow> JNum x)"

definition log_doc :: "tx_log \<Rightarrow> json" where
  "log_doc l =
     JObj [(''chain_id'', JStr (log_chain_id l)), (''tx_hash'', JStr (log_tx_hash l)),
           (''block_number'', uint_json (log_block_number l)), (''address'', JStr (log_address l)),
           (''topics'', JArr (map JStr (log_topics l))), (''data'', JStr (log_data l)),
           (''log_index'', uint_json (log_log_index l)), (''tx_index'', uint_json (log_tx_index l))]"

definition tx_doc :: "transaction \<Rightarrow> json" where
  "tx_doc t =
     JObj [(''chain_id'', JStr (tx_chain_id t)), (''hash'', JStr (tx_hash t)),
           (''block_number'', uint_json (tx_block_number t)), (''block_hash'', JStr (tx_block_hash t)),
           (''from'', JStr (tx_from t)), (''to'', JStr (tx_to t)), (''value'', big_json (tx_value t)),
           (''gas_price'', big_json (tx_gas_price t)), (''gas_used'', uint_json (tx_gas_used t)),
           (''status'', JStr (tx_status_text (tx_status t))), (''timestamp'', time_text (tx_timestamp t)),
           (''index'', uint_json (tx_index t)), (''input_data'', JStr (tx_input_data t)),
           (''logs'', JArr (map log_doc (tx_logs t))), (''raw_data'', JNull)]"

definition block_doc :: "block \<Rightarrow> json" where
  "block_doc b =
     JObj [(''chain_id'', JStr (blk_chain_id b)), (''number'', uint_json (blk_number b)), (''hash'', JStr (blk_hash b)),
           (''parent_hash'', JStr (blk_parent_hash b)), (''timestamp'', time_text (blk_timestamp b)),
           (''transactions'', JArr (map tx_doc (blk_transactions b))), (''raw_data'', JNull)]"

definition event_doc :: "reorg_event \<Rightarrow> json" where
  "event_doc e =
     JObj [(''chain_id'', JStr (re_chain_id e)), (''detected_at'', time_text (re_detected_at e)),
           (''old_block_number'', uint_json (re_old_block_number e)), (''old_block_hash'', JStr (re_old_block_hash e)),
           (''new_block_number'', uint_json (re_new_block_number e)), (''new_block_hash'', JStr (re_new_block_hash e)),
           (''depth'', uint_json (re_depth e)), (''affected_txs'', JArr (map JStr (re_affected_txs e))),
           (''processed'', JBool (re_processed e))]"

section \<open>Decoding into an interface and rendering again\<close>

fun thru :: "json \<Rightarrow> json option"
and thru_list :: "json list \<Rightarrow> json list option"
and thru_obj :: "(string \<times> json) list \<Rightarrow> (string \<times> json) list option" where
  "thru (JNum z) = map_option JNum (through_f64 z)"
| "thru (JArr js) = map_option JArr (thru_list js)"
| "thru (JObj o') = map_option JObj (thru_obj o')"
| "thru JNull = Some JNull"
| "thru (JBool b) = Some (JBool b)"
| "thru (JStr s) = Some (JStr s)"
| "thru_list [] = Some []"
| "thru_list (j # js) = do { x \<leftarrow> thru j; xs \<leftarrow> thru_list js; Some (x # xs) }"
| "thru_obj [] = Some []"
| "thru_obj ((k, j) # o') = do { x \<leftarrow> thru j; xs \<leftarrow> thru_obj o'; Some ((k, x) # xs) }"

section \<open>Decoding into a struct\<close>

text \<open>A missing field and \<open>null\<close> leave the zero value; a value of another kind is an error.\<close>

definition rd :: "'a \<Rightarrow> (json \<Rightarrow> 'a option) \<Rightarrow> (string \<times> json) list \<Rightarrow> string \<Rightarrow> 'a option" where
  "rd zero f o' k = (case map_of o' k of None \<Rightarrow> Some zero | Some JNull \<Rightarrow> Some zero | Some j \<Rightarrow> f j)"

fun rd_str :: "json \<Rightarrow> string option" where
  "rd_str (JStr s) = Some s" | "rd_str _ = None"

fun rd_bool :: "json \<Rightarrow> bool option" where
  "rd_bool (JBool b) = Some b" | "rd_bool _ = None"

fun rd_uint :: "json \<Rightarrow> u64 option" where
  "rd_uint (JNum z) = (if 0 \<le> z \<and> z < 2 ^ 64 then Some (word_of_int z) else None)" | "rd_uint _ = None"

text \<open>
  Digits read as a \<open>big.Int\<close> whatever their number; after a passage through a \<open>float64\<close> a number from \<open>10 ^ 21\<close>
  on has an exponent and is refused.
\<close>

fun rd_digits :: "json \<Rightarrow> int option option" where
  "rd_digits (JNum z) = Some (Some z)" | "rd_digits _ = None"

fun rd_big :: "json \<Rightarrow> int option option" where
  "rd_big (JNum z) = (if \<bar>z\<bar> < 10 ^ 21 then Some (Some z) else None)" | "rd_big _ = None"

fun rd_time :: "json \<Rightarrow> int option" where
  "rd_time (JStr s) = big_set_string 10 s" | "rd_time _ = None"

fun rd_list :: "(json \<Rightarrow> 'a option) \<Rightarrow> json \<Rightarrow> 'a list option" where
  "rd_list f (JArr js) = those (map f js)" | "rd_list f _ = None"

definition status_of_text :: "string \<Rightarrow> tx_status" where
  "status_of_text s =
     (if s = ''pending'' then TxPending else if s = ''confirmed'' then TxConfirmed
      else if s = ''finalized'' then TxFinalized else if s = ''reverted'' then TxReverted else TxOther s)"

fun read_log :: "json \<Rightarrow> tx_log option" where
  "read_log (JObj o') = do {
     c \<leftarrow> rd '''' rd_str o' ''chain_id''; h \<leftarrow> rd '''' rd_str o' ''tx_hash''; n \<leftarrow> rd 0 rd_uint o' ''block_number'';
     a \<leftarrow> rd '''' rd_str o' ''address''; ts \<leftarrow> rd [] (rd_list rd_str) o' ''topics''; d \<leftarrow> rd '''' rd_str o' ''data'';
     i \<leftarrow> rd 0 rd_uint o' ''log_index''; j \<leftarrow> rd 0 rd_uint o' ''tx_index'';
     Some \<lparr>log_chain_id = c, log_tx_hash = h, log_block_number = n, log_address = a, log_topics = ts, log_data = d,
           log_log_index = i, log_tx_index = j\<rparr> }"
| "read_log _ = None"

text \<open>The readers of transactions and blocks, by the way a \<open>big.Int\<close> is read.\<close>

fun read_tx_by :: "(json \<Rightarrow> int option option) \<Rightarrow> json \<Rightarrow> transaction option" where
  "read_tx_by big (JObj o') = do {
     c \<leftarrow> rd '''' rd_str o' ''chain_id''; h \<leftarrow> rd '''' rd_str o' ''hash''; n \<leftarrow> rd 0 rd_uint o' ''block_number'';
     bh \<leftarrow> rd '''' rd_str o' ''block_hash''; f \<leftarrow> rd '''' rd_str o' ''from''; t \<leftarrow> rd '''' rd_str o' ''to'';
     v \<leftarrow> rd None big o' ''value''; g \<leftarrow> rd None big o' ''gas_price''; u \<leftarrow> rd 0 rd_uint o' ''gas_used'';
     st \<leftarrow> rd '''' rd_str o' ''status''; ts \<leftarrow> rd zero_time rd_time o' ''timestamp''; i \<leftarrow> rd 0 rd_uint o' ''index'';
     d \<leftarrow> rd '''' rd_str o' ''input_data''; ls \<leftarrow> rd [] (rd_list read_log) o' ''logs'';
     Some \<lparr>tx_chain_id = c, tx_hash = h, tx_block_number = n, tx_block_hash = bh, tx_from = f, tx_to = t, tx_value = v,
           tx_gas_price = g, tx_gas_used = u, tx_status = status_of_text st, tx_timestamp = ts, tx_index = i,
           tx_input_data = d, tx_logs = ls\<rparr> }"
| "read_tx_by big _ = None"

fun read_block_by :: "(json \<Rightarrow> int option option) \<Rightarrow> json \<Rightarrow> block option" where
  "read_block_by big (JObj o') = do {
     c \<leftarrow> rd '''' rd_str o' ''chain_id''; n \<leftarrow> rd 0 rd_uint o' ''number''; h \<leftarrow> rd '''' rd_str o' ''hash'';
     p \<leftarrow> rd '''' rd_str o' ''parent_hash''; t \<leftarrow> rd zero_time rd_time o' ''timestamp'';
     ts \<leftarrow> rd [] (rd_list (read_tx_by big)) o' ''transactions'';
     Some \<lparr>blk_chain_id = c, blk_number = n, blk_hash = h, blk_parent_hash = p, blk_timestamp = t, blk_transactions = ts\<rparr> }"
| "read_block_by big _ = None"

abbreviation read_tx :: "json \<Rightarrow> transaction option" where
  "read_tx \<equiv> read_tx_by rd_big"

abbreviation read_block :: "json \<Rightarrow> block option" where
  "read_block \<equiv> read_block_by rd_big"

fun read_event :: "json \<Rightarrow> reorg_event option" where
  "read_event (JObj o') = do {
     c \<leftarrow> rd '''' rd_str o' ''chain_id''; t \<leftarrow> rd zero_time rd_time o' ''detected_at'';
     on \<leftarrow> rd 0 rd_uint o' ''old_block_number''; oh \<leftarrow> rd '''' rd_str o' ''old_block_hash'';
     nn \<leftarrow> rd 0 rd_uint o' ''new_block_number''; nh \<leftarrow> rd '''' rd_str o' ''new_block_hash'';
     d \<leftarrow> rd 0 rd_uint o' ''depth''; ts \<leftarrow> rd [] (rd_list rd_str) o' ''affected_txs''; p \<leftarrow> rd False rd_bool o' ''processed'';
     Some \<lparr>re_chain_id = c, re_detected_at = t, re_old_block_number = on, re_old_block_hash = oh, re_new_block_number = nn,
           re_new_block_hash = nh, re_depth = d, re_affected_txs = ts, re_processed = p\<rparr> }"
| "read_event _ = None"

section \<open>What survives\<close>

fun small_json :: "json \<Rightarrow> bool" where
  "small_json (JNum z) \<longleftrightarrow> \<bar>z\<bar> < 2 ^ 53"
| "small_json (JArr js) \<longleftrightarrow> (\<forall>j \<in> set js. small_json j)"
| "small_json (JObj o') \<longleftrightarrow> (\<forall>(k, j) \<in> set o'. small_json j)"
| "small_json JNull \<longleftrightarrow> True"
| "small_json (JBool b) \<longleftrightarrow> True"
| "small_json (JStr s) \<longleftrightarrow> True"

lemma thru_small:
  "small_json j \<Longrightarrow> thru j = Some j"
  "\<forall>j \<in> set js. small_json j \<Longrightarrow> thru_list js = Some js"
  "\<forall>(k, j) \<in> set o'. small_json j \<Longrightarrow> thru_obj o' = Some o'"
  by (induction j and js and o' rule: thru_thru_list_thru_obj.induct) auto

lemma those_map: "(\<And>x. x \<in> set xs \<Longrightarrow> f (g x) = Some x) \<Longrightarrow> those (map (f \<circ> g) xs) = Some xs"
  by (induction xs) auto

lemma those_map_str [simp]: "those (map (rd_str \<circ> JStr) ts) = Some ts"
  by (rule those_map) simp

lemma rd_JStr [simp]: "map_of o' k = Some (JStr s) \<Longrightarrow> rd z f o' k = f (JStr s)"
  and rd_JNum [simp]: "map_of o' k = Some (JNum n) \<Longrightarrow> rd z f o' k = f (JNum n)"
  and rd_JArr [simp]: "map_of o' k = Some (JArr js) \<Longrightarrow> rd z f o' k = f (JArr js)"
  and rd_JBool [simp]: "map_of o' k = Some (JBool b) \<Longrightarrow> rd z f o' k = f (JBool b)"
  by (simp_all add: rd_def)

lemma uint_less_2p64 [simp]: "uint (n :: u64) < 18446744073709551616"
  by (rule uint_u64_less)

lemma rd_big_json: "map_of o' k = Some (big_json z) \<Longrightarrow> (case z of None \<Rightarrow> True | Some v \<Rightarrow> \<bar>v\<bar> < 10 ^ 21) \<Longrightarrow> rd None rd_big o' k = Some z"
  by (cases z) (simp_all add: big_json_def rd_def)

lemma big_set_string_fmt_int [simp]: "big_set_string 10 (fmt_int t) = Some t"
proof (cases "t < 0")
  case True
  then show ?thesis by (simp add: fmt_int_def)
next
  case False
  then show ?thesis by (simp add: fmt_int_def big_set_string_fmt_nat)
qed

lemma read_log_doc [simp]: "read_log (log_doc l) = Some l"
  by (simp add: log_doc_def uint_json_def)

definition proper_status :: "tx_status \<Rightarrow> bool" where
  "proper_status s \<longleftrightarrow> status_of_text (tx_status_text s) = s"

definition readable_big :: "int option \<Rightarrow> bool" where
  "readable_big z \<longleftrightarrow> (case z of None \<Rightarrow> True | Some v \<Rightarrow> \<bar>v\<bar> < 10 ^ 21)"

lemma read_tx_doc:
  "proper_status (GoTypes.tx_status t) \<Longrightarrow> readable_big (tx_value t) \<Longrightarrow> readable_big (tx_gas_price t) \<Longrightarrow> read_tx (tx_doc t) = Some t"
  using those_map [of "tx_logs t" read_log log_doc]
  by (simp add: read_log_doc tx_doc_def uint_json_def time_text_def proper_status_def readable_big_def rd_big_json)

lemma rd_digits_json: "map_of o' k = Some (big_json z) \<Longrightarrow> rd None rd_digits o' k = Some z"
  by (cases z) (simp_all add: big_json_def rd_def)

lemma read_tx_digits: "proper_status (GoTypes.tx_status t) \<Longrightarrow> read_tx_by rd_digits (tx_doc t) = Some t"
  using those_map [of "tx_logs t" read_log log_doc]
  by (simp add: read_log_doc tx_doc_def uint_json_def time_text_def proper_status_def rd_digits_json)

lemma read_event_doc [simp]: "read_event (event_doc e) = Some e"
  by (simp add: event_doc_def uint_json_def time_text_def)

lemma read_block_doc:
  assumes "\<forall>t \<in> set (blk_transactions b). proper_status (GoTypes.tx_status t) \<and> readable_big (tx_value t) \<and> readable_big (tx_gas_price t)"
  shows "read_block (block_doc b) = Some b"
proof -
  have "those (map (read_tx \<circ> tx_doc) (blk_transactions b)) = Some (blk_transactions b)"
    by (rule those_map) (use assms read_tx_doc in blast)
  then show ?thesis by (simp add: block_doc_def uint_json_def time_text_def)
qed

lemma read_block_digits:
  assumes "\<forall>t \<in> set (blk_transactions b). proper_status (GoTypes.tx_status t)"
  shows "read_block_by rd_digits (block_doc b) = Some b"
proof -
  have "those (map (read_tx_by rd_digits \<circ> tx_doc) (blk_transactions b)) = Some (blk_transactions b)"
    by (rule those_map) (use assms read_tx_digits in blast)
  then show ?thesis by (simp add: block_doc_def uint_json_def time_text_def)
qed

end
