(* ===== verification/Elasticsearch.thy ===== *)
theory Elasticsearch
  imports Storage GoJson "HOL-Library.AList"
begin

text \<open>
  \<open>internal/storage/elasticsearch.go\<close>: the storage interface over Elasticsearch. The service is the record
  \<open>es_client\<close> of the requests the code sends, with the laws \<open>es_laws\<close>; a query is a term of \<open>es_query\<close>
  instead of its JSON text. A document is kept and returned as the JSON it was stored as, and what the code
  makes of an answer goes through the decoding of \<open>GoJson\<close>.
\<close>

section \<open>Requests and answers\<close>

datatype es_query =
  QAll | QTerm string json | QRange string "int option" "int option" | QMust "es_query list" | QShould "es_query list"

record es_search =
  eq_query :: es_query
  eq_sort :: "(string \<times> bool) list"
  eq_from :: int
  eq_size :: "int option"

text \<open>
  In \<open>eq_sort\<close> \<open>True\<close> means descending. A request fails in the transport or is answered with a status code
  and, for reads, a body, \<open>None\<close> for one that is not JSON. \<open>es_status\<close> is the text of a status.
\<close>

record 'w es_client =
  es_Info :: "'w \<Rightarrow> go_error + int"
  es_PutIndexTemplate :: "string \<Rightarrow> json \<Rightarrow> 'w \<Rightarrow> (go_error + int) \<times> 'w"
  es_Index :: "string \<Rightarrow> string \<Rightarrow> json \<Rightarrow> 'w \<Rightarrow> (go_error + int) \<times> 'w"
  es_Get :: "string \<Rightarrow> string \<Rightarrow> 'w \<Rightarrow> go_error + int \<times> json option"
  es_Search :: "string \<Rightarrow> es_search \<Rightarrow> 'w \<Rightarrow> go_error + int \<times> json option"
  es_DeleteByQuery :: "string \<Rightarrow> es_query \<Rightarrow> 'w \<Rightarrow> (go_error + int) \<times> 'w"
  es_Update :: "string \<Rightarrow> string \<Rightarrow> (string \<times> json) list \<Rightarrow> 'w \<Rightarrow> (go_error + int) \<times> 'w"
  es_UpdateByQuery :: "string \<Rightarrow> es_query \<Rightarrow> string \<times> json \<Rightarrow> 'w \<Rightarrow> (go_error + int) \<times> 'w"
  es_Bulk :: "(string \<times> string \<times> json) list \<Rightarrow> 'w \<Rightarrow> (go_error + int) \<times> 'w"
  es_Health :: "'w \<Rightarrow> go_error + int"
  es_status :: "int \<Rightarrow> string"

definition is_error :: "int \<Rightarrow> bool" where
  "is_error code \<longleftrightarrow> code > 299"

definition es_failed :: "'w es_client \<Rightarrow> int \<Rightarrow> go_error" where
  "es_failed E code = Msg (''Elasticsearch returned error: '' @ es_status E code)"

definition es_written :: "'w es_client \<Rightarrow> string \<Rightarrow> (go_error + int) \<times> 'w \<Rightarrow> go_error option \<times> 'w" where
  "es_written E msg r =
     (case r of
        (Inl e, w) \<Rightarrow> (Some (Wrap msg e), w)
      | (Inr code, w) \<Rightarrow> (if is_error code then Some (es_failed E code) else None, w))"

text \<open>The body decoded into a map of interfaces.\<close>

definition es_parse :: "json option \<Rightarrow> go_error + (string \<times> json) list" where
  "es_parse body =
     (case Option.bind body thru of
        Some (JObj o') \<Rightarrow> Inr o'
      | Some JNull \<Rightarrow> Inr []
      | _ \<Rightarrow> Inl (Wrap ''failed to parse response'' (Msg ''json'')))"

definition es_answer :: "'w es_client \<Rightarrow> string \<Rightarrow> go_error + int \<times> json option \<Rightarrow> go_error + (string \<times> json) list" where
  "es_answer E msg r =
     andthen (wrap_res msg r) (\<lambda>(code, body). if is_error code then Inl (es_failed E code) else es_parse body)"

definition obj_field :: "(string \<times> json) list \<Rightarrow> string \<Rightarrow> string \<Rightarrow> go_error + (string \<times> json) list" where
  "obj_field o' k msg = (case map_of o' k of Some (JObj x) \<Rightarrow> Inr x | _ \<Rightarrow> Inl (Msg msg))"

text \<open>The source of the first hit, and the sources of all that have one.\<close>

definition es_first_hit :: "string \<Rightarrow> (string \<times> json) list \<Rightarrow> go_error + (string \<times> json) list" where
  "es_first_hit none result =
     andthen (obj_field result ''hits'' ''invalid hits format'') (\<lambda>hits.
     andthen (obj_field hits ''total'' ''invalid total format'') (\<lambda>total.
     if (case map_of total ''value'' of Some (JNum v) \<Rightarrow> v = 0 | _ \<Rightarrow> True) then Inl (Msg none)
     else (case arr_field hits ''hits'' of
         Some (JObj hit # js) \<Rightarrow> obj_field hit ''_source'' ''invalid source data format''
       | Some (j # js) \<Rightarrow> Inl (Msg ''invalid hit format'')
       | _ \<Rightarrow> Inl (Msg ''no hits found''))))"

definition hit_source :: "json \<Rightarrow> json option" where
  "hit_source j =
     (case j of JObj hit \<Rightarrow> (case map_of hit ''_source'' of Some (JObj s) \<Rightarrow> Some (JObj s) | _ \<Rightarrow> None) | _ \<Rightarrow> None)"

definition es_hits :: "(json \<Rightarrow> 'a option) \<Rightarrow> (string \<times> json) list \<Rightarrow> go_error + 'a list" where
  "es_hits read result =
     andthen (obj_field result ''hits'' ''invalid hits format'') (\<lambda>hits.
       case arr_field hits ''hits'' of
         None \<Rightarrow> Inl (Msg ''invalid hits list format'')
       | Some js \<Rightarrow> Inr (List.map_filter (\<lambda>j. Option.bind (hit_source j) read) js))"

definition es_unmarshal :: "string \<Rightarrow> (json \<Rightarrow> 'a option) \<Rightarrow> (string \<times> json) list \<Rightarrow> go_error + 'a" where
  "es_unmarshal what read source =
     (case read (JObj source) of
        None \<Rightarrow> Inl (Wrap (''failed to unmarshal '' @ what) (Msg ''json''))
      | Some x \<Rightarrow> Inr x)"

section \<open>Setting up\<close>

definition template_of :: "string \<Rightarrow> (string \<times> json) list \<Rightarrow> json" where
  "template_of pattern properties =
     JObj [(''index_patterns'', JArr [JStr pattern]),
       (''template'', JObj [
          (''settings'', JObj [(''number_of_shards'', JNum 3), (''number_of_replicas'', JNum 1), (''refresh_interval'', JStr ''1s'')]),
          (''mappings'', JObj [(''properties'', JObj properties)])])]"

definition typed :: "string \<Rightarrow> string list \<Rightarrow> (string \<times> json) list" where
  "typed t names = map (\<lambda>n. (n, JObj [(''type'', JStr t)])) names"

definition nested :: "string \<Rightarrow> (string \<times> json) list \<Rightarrow> string \<times> json" where
  "nested name properties = (name, JObj [(''type'', JStr ''nested''), (''properties'', JObj properties)])"

definition index_templates :: "string \<Rightarrow> (string \<times> json) list" where
  "index_templates pfx =
     [(pfx @ ''-blocks-template'', template_of (pfx @ ''-blocks-*'')
        (typed ''keyword'' [''chain_id'', ''block_hash'', ''parent_hash''] @ typed ''long'' [''block_number''] @ typed ''date'' [''timestamp'']
         @ [nested ''transactions'' (typed ''keyword'' [''hash'', ''from'', ''to'', ''value'', ''status''] @ typed ''long'' [''block_number''])])),
      (pfx @ ''-transactions-template'', template_of (pfx @ ''-transactions-*'')
        (typed ''keyword'' [''chain_id'', ''tx_hash'', ''block_hash'', ''from'', ''to'', ''value'', ''gas_price'', ''status'']
         @ typed ''long'' [''block_number'', ''gas_used''] @ typed ''date'' [''timestamp'']
         @ [nested ''logs'' (typed ''keyword'' [''address'', ''topics''] @ typed ''long'' [''log_index''])])),
      (pfx @ ''-logs-template'', template_of (pfx @ ''-logs-*'')
        (typed ''keyword'' [''chain_id'', ''tx_hash'', ''address'', ''topics''] @ typed ''long'' [''block_number'', ''log_index'', ''tx_index'']
         @ typed ''date'' [''timestamp'']))]"

definition putIndexTemplate :: "'w es_client \<Rightarrow> string \<Rightarrow> json \<Rightarrow> 'w \<Rightarrow> go_error option \<times> 'w" where
  "putIndexTemplate E name body w = es_written E ''failed to put index template'' (es_PutIndexTemplate E name body w)"

text \<open>A template that cannot be put is only logged.\<close>

definition createIndexTemplates :: "'w es_client \<Rightarrow> string \<Rightarrow> 'w \<Rightarrow> go_error option \<times> 'w" where
  "createIndexTemplates E pfx w =
     (None, fold (\<lambda>(name, body) v. snd (putIndexTemplate E name body v)) (index_templates pfx) w)"

text \<open>\<open>client\<close> is the new client or its error; the configuration is its prefix.\<close>

definition NewElasticsearchStorage ::
    "go_error + 'w es_client \<Rightarrow> string option \<Rightarrow> 'w \<Rightarrow> (go_error + 'w es_client \<times> string) \<times> 'w" where
  "NewElasticsearchStorage client config w =
     (case config of
        None \<Rightarrow> (Inl (Msg ''config cannot be nil''), w)
      | Some pfx \<Rightarrow>
     (case wrap_res ''failed to create Elasticsearch client'' client of
        Inl e \<Rightarrow> (Inl e, w)
      | Inr E \<Rightarrow>
     (case wrap_res ''failed to connect to Elasticsearch'' (es_Info E w) of
        Inl e \<Rightarrow> (Inl e, w)
      | Inr code \<Rightarrow>
          if is_error code then (Inl (es_failed E code), w)
          else (Inr (E, pfx), snd (createIndexTemplates E pfx w)))))"

definition generateBlockIndex :: "string \<Rightarrow> string \<Rightarrow> string" where
  "generateBlockIndex pfx chainID = pfx @ ''-blocks-'' @ chainID"

definition generateTransactionIndex :: "string \<Rightarrow> string \<Rightarrow> string" where
  "generateTransactionIndex pfx chainID = pfx @ ''-transactions-'' @ chainID"

definition generateLogIndex :: "string \<Rightarrow> string \<Rightarrow> string" where
  "generateLogIndex pfx chainID = pfx @ ''-logs-'' @ chainID"

section \<open>Blocks\<close>

definition es_SaveBlock :: "'w es_client \<Rightarrow> string \<Rightarrow> block \<Rightarrow> 'w \<Rightarrow> go_error option \<times> 'w" where
  "es_SaveBlock E pfx b w =
     es_written E ''failed to index block''
       (es_Index E (generateBlockIndex pfx (blk_chain_id b)) (fmt_u64 (blk_number b)) (block_doc b) w)"

text \<open>A get that is answered with 404 has its own message.\<close>

definition es_get_source :: "'w es_client \<Rightarrow> string \<Rightarrow> go_error + int \<times> json option \<Rightarrow> go_error + (string \<times> json) list" where
  "es_get_source E what r =
     andthen (wrap_res (''failed to get '' @ what) r) (\<lambda>(code, body).
       if is_error code then Inl (if code = 404 then Msg (what @ '' not found'') else es_failed E code)
       else andthen (es_parse body) (\<lambda>result. obj_field result ''_source'' ''invalid source data format''))"

definition es_GetBlock :: "'w es_client \<Rightarrow> string \<Rightarrow> string \<Rightarrow> u64 \<Rightarrow> 'w \<Rightarrow> go_error + block" where
  "es_GetBlock E pfx chainID n w =
     andthen (es_get_source E ''block'' (es_Get E (generateBlockIndex pfx chainID) (fmt_u64 n) w)) (es_unmarshal ''block'' read_block)"

definition es_GetBlockByHash :: "'w es_client \<Rightarrow> string \<Rightarrow> string \<Rightarrow> string \<Rightarrow> 'w \<Rightarrow> go_error + block" where
  "es_GetBlockByHash E pfx chainID h w =
     andthen (es_answer E ''failed to search block''
       (es_Search E (generateBlockIndex pfx chainID)
          \<lparr>eq_query = QTerm ''block_hash'' (JStr h), eq_sort = [], eq_from = 0, eq_size = None\<rparr> w)) (\<lambda>result.
     andthen (es_first_hit ''block not found'' result) (es_unmarshal ''block'' read_block))"

definition es_GetLatestBlock :: "'w es_client \<Rightarrow> string \<Rightarrow> string \<Rightarrow> 'w \<Rightarrow> go_error + block" where
  "es_GetLatestBlock E pfx chainID w =
     andthen (es_answer E ''failed to search latest block''
       (es_Search E (generateBlockIndex pfx chainID)
          \<lparr>eq_query = QAll, eq_sort = [(''block_number'', True)], eq_from = 0, eq_size = Some 1\<rparr> w)) (\<lambda>result.
     andthen (es_first_hit ''no blocks found'' result) (es_unmarshal ''block'' read_block))"

definition number_range :: "u64 \<Rightarrow> u64 \<Rightarrow> es_query" where
  "number_range fromBlock toBlock = QRange ''block_number'' (Some (uint fromBlock)) (Some (uint toBlock))"

definition es_DeleteBlocks :: "'w es_client \<Rightarrow> string \<Rightarrow> string \<Rightarrow> u64 \<Rightarrow> u64 \<Rightarrow> 'w \<Rightarrow> go_error option \<times> 'w" where
  "es_DeleteBlocks E pfx chainID a b w =
     es_written E ''failed to delete blocks'' (es_DeleteByQuery E (generateBlockIndex pfx chainID) (number_range a b) w)"

section \<open>Transactions\<close>

definition es_SaveTransaction :: "'w es_client \<Rightarrow> string \<Rightarrow> transaction \<Rightarrow> 'w \<Rightarrow> go_error option \<times> 'w" where
  "es_SaveTransaction E pfx t w =
     es_written E ''failed to index transaction''
       (es_Index E (generateTransactionIndex pfx (tx_chain_id t)) (tx_hash t) (tx_doc t) w)"

text \<open>
  A batch is one bulk request per chain, up to the first that fails. The chains come in any order, here in
  that of their last item. The answer to a single item of a bulk is not looked at.
\<close>

fun es_bulks :: "'w es_client \<Rightarrow> string \<Rightarrow> (string \<times> string \<times> json) list list \<Rightarrow> 'w \<Rightarrow> go_error option \<times> 'w" where
  "es_bulks E msg [] w = (None, w)"
| "es_bulks E msg (g # gs) w =
     (case es_written E msg (es_Bulk E g w) of (Some e, w1) \<Rightarrow> (Some e, w1) | (None, w1) \<Rightarrow> es_bulks E msg gs w1)"

definition es_BatchSaveTransactions :: "'w es_client \<Rightarrow> string \<Rightarrow> transaction list \<Rightarrow> 'w \<Rightarrow> go_error option \<times> 'w" where
  "es_BatchSaveTransactions E pfx txs =
     es_bulks E ''failed to bulk index transactions''
       (map (\<lambda>c. map (\<lambda>t. (generateTransactionIndex pfx c, tx_hash t, tx_doc t)) (filter (\<lambda>t. tx_chain_id t = c) txs))
          (remdups (map tx_chain_id txs)))"

definition es_GetTransaction :: "'w es_client \<Rightarrow> string \<Rightarrow> string \<Rightarrow> string \<Rightarrow> 'w \<Rightarrow> go_error + transaction" where
  "es_GetTransaction E pfx chainID h w =
     andthen (es_get_source E ''transaction'' (es_Get E (generateTransactionIndex pfx chainID) h w)) (es_unmarshal ''transaction'' read_tx)"

definition es_GetTransactionsByBlock :: "'w es_client \<Rightarrow> string \<Rightarrow> string \<Rightarrow> u64 \<Rightarrow> 'w \<Rightarrow> go_error + transaction list" where
  "es_GetTransactionsByBlock E pfx chainID n w =
     andthen (es_answer E ''failed to search transactions''
       (es_Search E (generateTransactionIndex pfx chainID)
          \<lparr>eq_query = QTerm ''block_number'' (uint_json n), eq_sort = [(''index'', False)], eq_from = 0, eq_size = Some 10000\<rparr> w))
     (es_hits read_tx)"

definition es_GetTransactionsByAddress ::
    "'w es_client \<Rightarrow> string \<Rightarrow> string \<Rightarrow> string \<Rightarrow> int \<Rightarrow> int \<Rightarrow> 'w \<Rightarrow> go_error + transaction list" where
  "es_GetTransactionsByAddress E pfx chainID addr limit offset w =
     andthen (es_answer E ''failed to search transactions by address''
       (es_Search E (generateTransactionIndex pfx chainID)
          \<lparr>eq_query = QShould [QTerm ''from'' (JStr addr), QTerm ''to'' (JStr addr)], eq_sort = [(''block_number'', True)],
           eq_from = offset, eq_size = Some limit\<rparr> w))
     (es_hits read_tx)"

definition es_UpdateTransactionStatus ::
    "'w es_client \<Rightarrow> string \<Rightarrow> string \<Rightarrow> string \<Rightarrow> tx_status \<Rightarrow> 'w \<Rightarrow> go_error option \<times> 'w" where
  "es_UpdateTransactionStatus E pfx chainID h st w =
     es_written E ''failed to update transaction''
       (es_Update E (generateTransactionIndex pfx chainID) h [(''status'', JStr (tx_status_text st))] w)"

definition es_MarkTransactionsAsReverted ::
    "'w es_client \<Rightarrow> string \<Rightarrow> string \<Rightarrow> u64 \<Rightarrow> u64 \<Rightarrow> 'w \<Rightarrow> go_error option \<times> 'w" where
  "es_MarkTransactionsAsReverted E pfx chainID a b w =
     es_written E ''failed to update transactions''
       (es_UpdateByQuery E (generateTransactionIndex pfx chainID) (number_range a b) (''status'', JStr ''reverted'') w)"

section \<open>Logs\<close>

definition log_doc_id :: "tx_log \<Rightarrow> string" where
  "log_doc_id l = log_tx_hash l @ ''-'' @ fmt_u64 (log_log_index l)"

definition es_SaveLog :: "'w es_client \<Rightarrow> string \<Rightarrow> tx_log \<Rightarrow> 'w \<Rightarrow> go_error option \<times> 'w" where
  "es_SaveLog E pfx l w =
     es_written E ''failed to index log'' (es_Index E (generateLogIndex pfx (log_chain_id l)) (log_doc_id l) (log_doc l) w)"

definition es_BatchSaveLogs :: "'w es_client \<Rightarrow> string \<Rightarrow> tx_log list \<Rightarrow> 'w \<Rightarrow> go_error option \<times> 'w" where
  "es_BatchSaveLogs E pfx logs =
     es_bulks E ''failed to bulk index logs''
       (map (\<lambda>c. map (\<lambda>l. (generateLogIndex pfx c, log_doc_id l, log_doc l)) (filter (\<lambda>l. log_chain_id l = c) logs))
          (remdups (map log_chain_id logs)))"

definition log_query :: "log_filter \<Rightarrow> es_query list" where
  "log_query f =
     (case lf_block_number f of None \<Rightarrow> [] | Some n \<Rightarrow> [QTerm ''block_number'' (uint_json n)])
   @ (case lf_from_block f of None \<Rightarrow> [] | Some n \<Rightarrow> [QRange ''block_number'' (Some (uint n)) None])
   @ (case lf_to_block f of None \<Rightarrow> [] | Some n \<Rightarrow> [QRange ''block_number'' None (Some (uint n))])
   @ (if lf_address f = '''' then [] else [QTerm ''address'' (JStr (lf_address f))])
   @ (if lf_tx_hash f = '''' then [] else [QTerm ''tx_hash'' (JStr (lf_tx_hash f))])
   @ map (\<lambda>t. QTerm ''topics'' (JStr t)) (lf_topics f)"

definition es_GetLogs :: "'w es_client \<Rightarrow> string \<Rightarrow> string \<Rightarrow> log_filter \<Rightarrow> 'w \<Rightarrow> go_error + tx_log list" where
  "es_GetLogs E pfx chainID f w =
     andthen (es_answer E ''failed to search logs''
       (es_Search E (generateLogIndex pfx chainID)
          \<lparr>eq_query = QMust (log_query f), eq_sort = [(''block_number'', False), (''log_index'', False)],
           eq_from = lf_offset f, eq_size = Some (lf_limit f)\<rparr> w))
     (es_hits read_log)"

definition es_DeleteLogs :: "'w es_client \<Rightarrow> string \<Rightarrow> string \<Rightarrow> u64 \<Rightarrow> u64 \<Rightarrow> 'w \<Rightarrow> go_error option \<times> 'w" where
  "es_DeleteLogs E pfx chainID a b w =
     es_written E ''failed to delete logs'' (es_DeleteByQuery E (generateLogIndex pfx chainID) (number_range a b) w)"

section \<open>Reorganisation events, watermarks and the interface\<close>

text \<open>The identity of an event is its chain and the second of its detection.\<close>

definition event_doc_id :: "reorg_event \<Rightarrow> string" where
  "event_doc_id ev = re_chain_id ev @ ''-'' @ fmt_int (re_detected_at ev div 10 ^ 9)"

definition es_SaveReorgEvent :: "'w es_client \<Rightarrow> string \<Rightarrow> reorg_event \<Rightarrow> 'w \<Rightarrow> go_error option \<times> 'w" where
  "es_SaveReorgEvent E pfx ev w =
     es_written E ''failed to index reorg event'' (es_Index E (pfx @ ''-reorg-events'') (event_doc_id ev) (event_doc ev) w)"

definition es_GetReorgEvents :: "'w es_client \<Rightarrow> string \<Rightarrow> string \<Rightarrow> int \<Rightarrow> int \<Rightarrow> 'w \<Rightarrow> go_error + reorg_event list" where
  "es_GetReorgEvents E pfx chainID limit offset w =
     andthen (es_answer E ''failed to search reorg events''
       (es_Search E (pfx @ ''-reorg-events'')
          \<lparr>eq_query = QTerm ''chain_id'' (JStr chainID), eq_sort = [(''detected_at'', True)], eq_from = offset, eq_size = Some limit\<rparr> w))
     (es_hits read_event)"

definition es_HealthCheck :: "'w es_client \<Rightarrow> 'w \<Rightarrow> go_error option" where
  "es_HealthCheck E w = fst (es_written E ''failed to check Elasticsearch health'' (es_Health E w, w))"

definition es_storage :: "'w es_client \<Rightarrow> string \<Rightarrow> 'w storage" where
  "es_storage E pfx =
     \<lparr>st_SaveBlock = es_SaveBlock E pfx, st_GetBlock = es_GetBlock E pfx, st_GetBlockByHash = es_GetBlockByHash E pfx,
      st_GetLatestBlock = es_GetLatestBlock E pfx, st_DeleteBlocks = (\<lambda>c a b w. Some (es_DeleteBlocks E pfx c a b w)),
      st_SaveTransaction = es_SaveTransaction E pfx, st_BatchSaveTransactions = es_BatchSaveTransactions E pfx,
      st_GetTransaction = es_GetTransaction E pfx, st_GetTransactionsByBlock = es_GetTransactionsByBlock E pfx,
      st_GetTransactionsByAddress = es_GetTransactionsByAddress E pfx,
      st_UpdateTransactionStatus = es_UpdateTransactionStatus E pfx,
      st_MarkTransactionsAsReverted = es_MarkTransactionsAsReverted E pfx, st_SaveLog = es_SaveLog E pfx,
      st_BatchSaveLogs = es_BatchSaveLogs E pfx, st_GetLogs = es_GetLogs E pfx, st_DeleteLogs = es_DeleteLogs E pfx,
      st_SaveWatermark = (\<lambda>wm w. (None, w)),
      st_GetWatermark = (\<lambda>c w. Inl (Msg ''get watermark not supported in Elasticsearch'')),
      st_UpdateWatermark = (\<lambda>c wm w. (None, w)), st_SaveReorgEvent = es_SaveReorgEvent E pfx,
      st_GetReorgEvents = es_GetReorgEvents E pfx\<rparr>"


section \<open>What the service promises\<close>

text \<open>
  A document matches a term if its field has the value or is an array that holds it, and a range if its
  field is a number in it: a document without the field matches neither.
\<close>

definition doc_field :: "json \<Rightarrow> string \<Rightarrow> json option" where
  "doc_field d f = (case d of JObj o' \<Rightarrow> map_of o' f | _ \<Rightarrow> None)"

fun es_matches :: "es_query \<Rightarrow> json \<Rightarrow> bool" where
  "es_matches QAll d \<longleftrightarrow> True"
| "es_matches (QTerm f v) d \<longleftrightarrow>
     (case doc_field d f of None \<Rightarrow> False | Some x \<Rightarrow> x = v \<or> (case x of JArr xs \<Rightarrow> v \<in> set xs | _ \<Rightarrow> False))"
| "es_matches (QRange f lo hi) d \<longleftrightarrow>
     (case doc_field d f of
        Some (JNum z) \<Rightarrow> (case lo of None \<Rightarrow> True | Some a \<Rightarrow> a \<le> z) \<and> (case hi of None \<Rightarrow> True | Some b \<Rightarrow> z \<le> b)
      | _ \<Rightarrow> False)"
| "es_matches (QMust qs) d \<longleftrightarrow> (\<forall>q \<in> set qs. es_matches q d)"
| "es_matches (QShould qs) d \<longleftrightarrow> (\<exists>q \<in> set qs. es_matches q d)"

definition get_body :: "string \<Rightarrow> string \<Rightarrow> json \<Rightarrow> json" where
  "get_body i k d = JObj [(''_index'', JStr i), (''_id'', JStr k), (''found'', JBool True), (''_source'', d)]"

definition search_body :: "nat \<Rightarrow> json list \<Rightarrow> json" where
  "search_body n ds =
     JObj [(''hits'', JObj [(''total'', JObj [(''value'', JNum (int n))]),
       (''hits'', JArr (map (\<lambda>d. JObj [(''_source'', d)]) ds))])]"

definition accepted :: "go_error + int \<Rightarrow> bool" where
  "accepted r \<longleftrightarrow> (case r of Inl e \<Rightarrow> False | Inr code \<Rightarrow> \<not> is_error code)"

type_synonym es_docs = "string \<Rightarrow> string \<rightharpoonup> json"

definition put_doc :: "string \<times> string \<times> json \<Rightarrow> es_docs \<Rightarrow> es_docs" where
  "put_doc x f = (case x of (i, k, d) \<Rightarrow> f(i := (f i)(k \<mapsto> d)))"

definition merge_doc :: "(string \<times> json) list \<Rightarrow> json \<Rightarrow> json" where
  "merge_doc upd d = (case d of JObj o' \<Rightarrow> JObj (fold (\<lambda>(k, v). AList.update k v) upd o') | _ \<Rightarrow> d)"

text \<open>
  The documented behaviour of a service that can be reached, on the documents \<open>D w i k\<close> (index and identity).
  A write that is not accepted changes nothing; of an accepted bulk each item may or may not have been
  stored; a get returns the document; a search returns documents that match, as of the last refresh, which
  is taken to be now, with a total that counts up to 10000.
\<close>

definition es_index_law :: "'w es_client \<Rightarrow> ('w \<Rightarrow> es_docs) \<Rightarrow> bool" where
  "es_index_law E D \<longleftrightarrow>
     (\<forall>i k d w r w'. es_Index E i k d w = (r, w') \<longrightarrow> D w' = (if accepted r then put_doc (i, k, d) (D w) else D w))"

definition es_get_law :: "'w es_client \<Rightarrow> ('w \<Rightarrow> es_docs) \<Rightarrow> bool" where
  "es_get_law E D \<longleftrightarrow>
     (\<forall>i k w. es_Get E i k w = (case D w i k of Some d \<Rightarrow> Inr (200, Some (get_body i k d)) | None \<Rightarrow> Inr (404, None)))"

definition es_search_law :: "'w es_client \<Rightarrow> ('w \<Rightarrow> es_docs) \<Rightarrow> bool" where
  "es_search_law E D \<longleftrightarrow>
     (\<forall>i q w. \<exists>n ds. es_Search E i q w = Inr (200, Some (search_body n ds)) \<and> n \<le> 10000
        \<and> (\<forall>d \<in> set ds. \<exists>k. D w i k = Some d \<and> es_matches (eq_query q) d)
        \<and> (n = 0 \<longleftrightarrow> (\<forall>k d. D w i k = Some d \<longrightarrow> \<not> es_matches (eq_query q) d)))"

definition es_delete_law :: "'w es_client \<Rightarrow> ('w \<Rightarrow> es_docs) \<Rightarrow> bool" where
  "es_delete_law E D \<longleftrightarrow>
     (\<forall>i q w r w'. es_DeleteByQuery E i q w = (r, w') \<longrightarrow>
        D w' = (if accepted r then (D w)(i := (\<lambda>k. case D w i k of Some d \<Rightarrow> if es_matches q d then None else Some d | None \<Rightarrow> None))
                else D w))"

definition es_update_law :: "'w es_client \<Rightarrow> ('w \<Rightarrow> es_docs) \<Rightarrow> bool" where
  "es_update_law E D \<longleftrightarrow>
     (\<forall>i k u w r w'. es_Update E i k u w = (r, w') \<longrightarrow>
        D w' = (if accepted r then (D w)(i := (D w i)(k := map_option (merge_doc u) (D w i k))) else D w))
   \<and> (\<forall>i q u w r w'. es_UpdateByQuery E i q u w = (r, w') \<longrightarrow>
        D w' = (if accepted r then (D w)(i := (\<lambda>k. map_option (\<lambda>d. if es_matches q d then merge_doc [u] d else d) (D w i k)))
                else D w))"

definition es_bulk_law :: "'w es_client \<Rightarrow> ('w \<Rightarrow> es_docs) \<Rightarrow> bool" where
  "es_bulk_law E D \<longleftrightarrow>
     (\<forall>items w r w'. es_Bulk E items w = (r, w') \<longrightarrow>
        (\<exists>A. D w' = (if accepted r then fold put_doc (filter A items) (D w) else D w)))"

definition es_laws :: "'w es_client \<Rightarrow> ('w \<Rightarrow> es_docs) \<Rightarrow> bool" where
  "es_laws E D \<longleftrightarrow> es_index_law E D \<and> es_get_law E D \<and> es_search_law E D \<and> es_delete_law E D \<and> es_update_law E D \<and> es_bulk_law E D"

lemma es_written_accepted: "es_written E msg (r, w) = (e, w') \<Longrightarrow> w' = w \<and> (e = None \<longleftrightarrow> accepted r)"
  by (auto simp: es_written_def accepted_def split: sum.splits if_splits)

lemma es_get:
  "es_laws E D \<Longrightarrow> es_Get E i k w = (case D w i k of Some d \<Rightarrow> Inr (200, Some (get_body i k d)) | None \<Rightarrow> Inr (404, None))"
  by (simp add: es_laws_def es_get_law_def)

text \<open>What an operation that writes does to the documents, by the answer the operation gives.\<close>

lemma es_index_written:
  assumes "es_laws E D" "es_written E msg (es_Index E i k d w) = (e, w')"
  shows "D w' = (if e = None then put_doc (i, k, d) (D w) else D w)"
proof -
  obtain r w1 where r: "es_Index E i k d w = (r, w1)" by (rule prod.exhaust)
  have "D w1 = (if accepted r then put_doc (i, k, d) (D w) else D w)"
    using assms(1) r unfolding es_laws_def es_index_law_def by blast
  then show ?thesis using assms(2) es_written_accepted [of E msg r w1 e w'] r by auto
qed

lemma es_delete_written:
  assumes "es_laws E D" "es_written E msg (es_DeleteByQuery E i q w) = (e, w')"
  shows "D w' = (if e = None then (D w)(i := (\<lambda>k. case D w i k of Some d \<Rightarrow> if es_matches q d then None else Some d | None \<Rightarrow> None))
    else D w)"
proof -
  obtain r w1 where r: "es_DeleteByQuery E i q w = (r, w1)" by (rule prod.exhaust)
  have "D w1 = (if accepted r then (D w)(i := (\<lambda>k. case D w i k of Some d \<Rightarrow> if es_matches q d then None else Some d | None \<Rightarrow> None))
        else D w)"
    using assms(1) r unfolding es_laws_def es_delete_law_def by blast
  then show ?thesis using assms(2) es_written_accepted [of E msg r w1 e w'] r by auto
qed

lemma es_update_written:
  assumes "es_laws E D" "es_written E msg (es_Update E i k u w) = (e, w')"
  shows "D w' = (if e = None then (D w)(i := (D w i)(k := map_option (merge_doc u) (D w i k))) else D w)"
proof -
  obtain r w1 where r: "es_Update E i k u w = (r, w1)" by (rule prod.exhaust)
  have "D w1 = (if accepted r then (D w)(i := (D w i)(k := map_option (merge_doc u) (D w i k))) else D w)"
    using assms(1) r unfolding es_laws_def es_update_law_def by blast
  then show ?thesis using assms(2) es_written_accepted [of E msg r w1 e w'] r by auto
qed

lemma es_update_query_written:
  assumes "es_laws E D" "es_written E msg (es_UpdateByQuery E i q u w) = (e, w')"
  shows "D w' = (if e = None then (D w)(i := (\<lambda>k. map_option (\<lambda>d. if es_matches q d then merge_doc [u] d else d) (D w i k)))
    else D w)"
proof -
  obtain r w1 where r: "es_UpdateByQuery E i q u w = (r, w1)" by (rule prod.exhaust)
  have "D w1 = (if accepted r then (D w)(i := (\<lambda>k. map_option (\<lambda>d. if es_matches q d then merge_doc [u] d else d) (D w i k))) else D w)"
    using assms(1) r unfolding es_laws_def es_update_law_def by blast
  then show ?thesis using assms(2) es_written_accepted [of E msg r w1 e w'] r by auto
qed

lemma es_bulk_written:
  assumes "es_laws E D" "es_written E msg (es_Bulk E items w) = (e, w')"
  shows "\<exists>A. D w' = (if e = None then fold put_doc (filter A items) (D w) else D w)"
proof -
  obtain r w1 where r: "es_Bulk E items w = (r, w1)" by (rule prod.exhaust)
  have "\<exists>A. D w1 = (if accepted r then fold put_doc (filter A items) (D w) else D w)"
    using assms(1) r unfolding es_laws_def es_bulk_law_def by blast
  then show ?thesis using assms(2) es_written_accepted [of E msg r w1 e w'] r by auto
qed

lemma es_search:
  assumes "es_laws E D"
  obtains n ds where "es_Search E i q w = Inr (200, Some (search_body n ds))" "n \<le> 10000"
    "\<And>d. d \<in> set ds \<Longrightarrow> \<exists>k. D w i k = Some d \<and> es_matches (eq_query q) d"
    "n = 0 \<longleftrightarrow> (\<forall>k d. D w i k = Some d \<longrightarrow> \<not> es_matches (eq_query q) d)"
proof -
  have "\<exists>n ds. es_Search E i q w = Inr (200, Some (search_body n ds)) \<and> n \<le> 10000
      \<and> (\<forall>d \<in> set ds. \<exists>k. D w i k = Some d \<and> es_matches (eq_query q) d)
      \<and> (n = 0 \<longleftrightarrow> (\<forall>k d. D w i k = Some d \<longrightarrow> \<not> es_matches (eq_query q) d))"
    using assms unfolding es_laws_def es_search_law_def by blast
  then show thesis using that by blast
qed

lemma thru_obj_lookup:
  "thru_obj o' = Some p \<Longrightarrow> map_of p k = (case map_of o' k of None \<Rightarrow> None | Some j \<Rightarrow> thru j)"
  by (induction o' arbitrary: p) (auto simp: Option.bind_eq_Some_conv split: option.splits)

lemma thru_obj_defined: "thru_obj o' = Some p \<Longrightarrow> map_of o' k = Some j \<Longrightarrow> \<exists>x. thru j = Some x \<and> map_of p k = Some x"
  by (induction o' arbitrary: p) (auto simp: Option.bind_eq_Some_conv)

text \<open>A get, from the document to the struct.\<close>

definition decode_doc :: "string \<Rightarrow> (json \<Rightarrow> 'a option) \<Rightarrow> json \<Rightarrow> go_error + 'a" where
  "decode_doc what read d =
     (case thru d of
        None \<Rightarrow> Inl (Wrap ''failed to parse response'' (Msg ''json''))
      | Some (JObj s) \<Rightarrow> es_unmarshal what read s
      | _ \<Rightarrow> Inl (Msg ''invalid source data format''))"

lemma es_get_decode:
  assumes "es_laws E D" "D w i k = Some d"
  shows "andthen (es_get_source E what (es_Get E i k w)) (es_unmarshal what read) = decode_doc what read d"
  using assms(2)
  by (simp add: es_get [OF assms(1)] es_get_source_def is_error_def es_parse_def get_body_def decode_doc_def obj_field_def
      split: option.split json.split)

lemma decode_small: "small_json (JObj o') \<Longrightarrow> read (JObj o') = Some x \<Longrightarrow> decode_doc what read (JObj o') = Inr x"
  using thru_small(1) [of "JObj o'"] by (simp add: decode_doc_def es_unmarshal_def del: small_json.simps thru.simps)


section \<open>Transactions read back\<close>

lemma tx_doc_obj: obtains o' where "tx_doc t = JObj o'"
  by (simp add: tx_doc_def)

lemma put_doc_same [simp]: "put_doc (i, k, d) f i k = Some d"
  by (simp add: put_doc_def)

lemma es_saved_tx:
  assumes "es_laws E D" "es_SaveTransaction E pfx t w = (None, w')"
  shows "es_GetTransaction E pfx (tx_chain_id t) (tx_hash t) w' = decode_doc ''transaction'' read_tx (tx_doc t)"
proof -
  have "D w' (generateTransactionIndex pfx (tx_chain_id t)) (tx_hash t) = Some (tx_doc t)"
    using es_index_written [OF assms(1) assms(2) [unfolded es_SaveTransaction_def]] by simp
  from es_get_decode [OF assms(1) this] show ?thesis by (simp add: es_GetTransaction_def)
qed

definition small_tx :: "transaction \<Rightarrow> bool" where
  "small_tx t \<longleftrightarrow> small_json (tx_doc t) \<and> proper_status (GoTypes.tx_status t)"

lemma small_readable: "small_json (big_json z) \<Longrightarrow> readable_big z"
  by (cases z) (auto simp: big_json_def readable_big_def)

lemma es_saved_small:
  assumes "es_laws E D" "es_SaveTransaction E pfx t w = (None, w')" "small_tx t"
  shows "es_GetTransaction E pfx (tx_chain_id t) (tx_hash t) w' = Inr t"
proof -
  have s: "small_json (tx_doc t)" "proper_status (GoTypes.tx_status t)" using assms(3) by (simp_all add: small_tx_def)
  then have "small_json (big_json (tx_value t))" "small_json (big_json (tx_gas_price t))" by (simp_all add: tx_doc_def)
  then have r: "read_tx (tx_doc t) = Some t" using s(2) by (intro read_tx_doc small_readable)
  obtain o' where o': "tx_doc t = JObj o'" by (rule tx_doc_obj)
  show ?thesis using es_saved_tx [OF assms(1,2)] decode_small [of o' read_tx t "''transaction''"] s(1) r unfolding o' by simp
qed

text \<open>
  C21: A transaction saved in the index is read back as it was, provided that no number in it needs more than 53
  bits.
\<close>

theorem es_transaction_roundtrip:
  assumes "es_laws E D" "es_SaveTransaction E pfx t w = (None, w')" "small_tx t"
  shows "es_GetTransaction E pfx (tx_chain_id t) (tx_hash t) w' = Inr t"
  using assms by (rule es_saved_small)

lemma read_tx_value: "rd None rd_big o' ''value'' = None \<Longrightarrow> read_tx (JObj o') = None"
  by (auto split: Option.bind_split)

text \<open>
  C19: A transaction that moves a thousand ether or more (\<open>10 ^ 21\<close> wei) is saved without an error and can never be
  read back: its value comes back with an exponent, which the decoding of the struct refuses.
\<close>

theorem es_large_value_unreadable:
  assumes "es_laws E D" "es_SaveTransaction E pfx t w = (None, w')" "tx_value t = Some v" "10 ^ 21 \<le> v"
  shows "\<exists>e. es_GetTransaction E pfx (tx_chain_id t) (tx_hash t) w' = Inl e"
proof -
  obtain o' where o': "tx_doc t = JObj o'" by (rule tx_doc_obj)
  have v: "map_of o' ''value'' = Some (JNum v)" using o' assms(3) by (auto simp: tx_doc_def big_json_def)
  have "\<exists>e. decode_doc ''transaction'' read_tx (JObj o') = Inl e"
  proof (cases "thru_obj o'")
    case None
    then show ?thesis by (simp add: decode_doc_def)
  next
    case (Some p)
    then obtain x where x: "thru (JNum v) = Some x" "map_of p ''value'' = Some x" using thru_obj_defined v by blast
    then obtain y where y: "through_f64 v = Some y" "x = JNum y" by auto
    have "\<not> \<bar>y\<bar> < 10 ^ 21" using through_f64_exponent [OF assms(4) y(1)] by simp
    then have "rd None rd_big p ''value'' = None" using x(2) by (simp add: y(2))
    then have "read_tx (JObj p) = None" by (rule read_tx_value)
    then show ?thesis using Some by (simp add: decode_doc_def es_unmarshal_def del: read_tx_by.simps)
  qed
  then show ?thesis using es_saved_tx [OF assms(1,2)] by (simp add: o')
qed

text \<open>
  In between, the value read back is the nearest number that a \<open>float64\<close> can hold, in its shortest decimal form:
  whatever transaction is read is the saved one with that value.
\<close>

theorem es_value_rounded:
  assumes "es_laws E D" "es_SaveTransaction E pfx t w = (None, w')" "tx_value t = Some v"
    and "es_GetTransaction E pfx (tx_chain_id t) (tx_hash t) w' = Inr t'"
  shows "\<exists>y. through_f64 v = Some y \<and> tx_value t' = Some y \<and> tx_hash t' = tx_hash t"
proof -
  obtain o' where o': "tx_doc t = JObj o'" by (rule tx_doc_obj)
  have v: "map_of o' ''value'' = Some (JNum v)" "map_of o' ''hash'' = Some (JStr (tx_hash t))"
    using o' assms(3) by (auto simp: tx_doc_def big_json_def)
  have d: "decode_doc ''transaction'' read_tx (JObj o') = Inr t'" using es_saved_tx [OF assms(1,2)] assms(4) by (simp add: o')
  then obtain p where p: "thru_obj o' = Some p" "read_tx (JObj p) = Some t'"
    by (auto simp: decode_doc_def es_unmarshal_def simp del: read_tx_by.simps split: option.splits)
  obtain x where x: "thru (JNum v) = Some x" "map_of p ''value'' = Some x" using thru_obj_defined [OF p(1) v(1)] by blast
  then obtain y where y: "through_f64 v = Some y" "x = JNum y" by auto
  have h: "map_of p ''hash'' = Some (JStr (tx_hash t))" using thru_obj_defined [OF p(1) v(2)] by simp
  have "rd None rd_big p ''value'' = Some (tx_value t')" "rd '''' rd_str p ''hash'' = Some (tx_hash t')"
    using p(2) by (auto simp: Option.bind_eq_Some_conv)
  then show ?thesis using x(2) y h by (auto split: if_split_asm)
qed


section \<open>A service in memory\<close>

type_synonym es_mem = "((string \<times> string) \<times> json) list"

definition mem_docs :: "es_mem \<Rightarrow> es_docs" where
  "mem_docs w i k = map_of w (i, k)"

definition mem_put :: "string \<times> string \<times> json \<Rightarrow> es_mem \<Rightarrow> es_mem" where
  "mem_put x w = (case x of (i, k, d) \<Rightarrow> AList.update (i, k) d w)"

definition mem_hits :: "string \<Rightarrow> es_query \<Rightarrow> es_mem \<Rightarrow> json list" where
  "mem_hits i q w = map snd (filter (\<lambda>((j, k), d). j = i \<and> es_matches q d) (AList.clearjunk w))"

definition mem_es :: "es_mem es_client" where
  "mem_es =
     \<lparr>es_Info = (\<lambda>w. Inr 200), es_PutIndexTemplate = (\<lambda>n b w. (Inr 200, w)),
      es_Index = (\<lambda>i k d w. (Inr 201, mem_put (i, k, d) w)),
      es_Get = (\<lambda>i k w. case mem_docs w i k of Some d \<Rightarrow> Inr (200, Some (get_body i k d)) | None \<Rightarrow> Inr (404, None)),
      es_Search = (\<lambda>i q w. let ds = mem_hits i (eq_query q) w in
         Inr (200, Some (search_body (min 10000 (length ds)) (take (nat (case eq_size q of None \<Rightarrow> 10 | Some n \<Rightarrow> n)) (drop (nat (eq_from q)) ds))))),
      es_DeleteByQuery = (\<lambda>i q w. (Inr 200, filter (\<lambda>((j, k), d). \<not> (j = i \<and> es_matches q d)) (AList.clearjunk w))),
      es_Update = (\<lambda>i k u w. (Inr 200, map (\<lambda>(x, d). (x, if x = (i, k) then merge_doc u d else d)) w)),
      es_UpdateByQuery = (\<lambda>i q u w. (Inr 200, map (\<lambda>(x, d). (x, if fst x = i \<and> es_matches q d then merge_doc [u] d else d)) w)),
      es_Bulk = (\<lambda>items w. (Inr 200, fold mem_put items w)), es_Health = (\<lambda>w. Inr 200), es_status = fmt_int\<rparr>"

lemma map_of_filter_distinct:
  "distinct (map fst xs) \<Longrightarrow> map_of (filter P xs) k = (case map_of xs k of Some v \<Rightarrow> if P (k, v) then Some v else None | None \<Rightarrow> None)"
proof (induction xs)
  case (Cons x xs)
  obtain a b where x: "x = (a, b)" by (rule prod.exhaust)
  have "map_of xs a = None" using Cons.prems by (simp add: map_of_eq_None_iff x)
  then show ?case using Cons by (auto simp: x)
qed simp

lemma map_of_map_value: "map_of (map (\<lambda>(x, d). (x, f x d)) xs) k = map_option (f k) (map_of xs k)"
  by (induction xs) auto

lemma mem_put_docs: "mem_docs (mem_put x w) = put_doc x (mem_docs w)"
  by (cases x) (auto simp: mem_put_def put_doc_def mem_docs_def fun_eq_iff update_conv')

lemma mem_puts_docs: "mem_docs (fold mem_put xs w) = fold put_doc xs (mem_docs w)"
  by (induction xs arbitrary: w) (simp_all add: mem_put_docs)

lemma set_mem_hits: "d \<in> set (mem_hits i q w) \<longleftrightarrow> (\<exists>k. mem_docs w i k = Some d \<and> es_matches q d)"
proof -
  have "((i, k), d) \<in> set (AList.clearjunk w) \<longleftrightarrow> mem_docs w i k = Some d" for k
    using map_of_eq_Some_iff [OF distinct_clearjunk, of "AList.clearjunk w"] distinct_clearjunk [of w]
    by (simp add: mem_docs_def map_of_clearjunk map_of_eq_Some_iff [symmetric])
  then show ?thesis by (force simp: mem_hits_def)
qed

lemma mem_es_laws: "es_laws mem_es mem_docs"
  unfolding es_laws_def
proof (intro conjI)
  show "es_index_law mem_es mem_docs" by (simp add: es_index_law_def mem_es_def accepted_def is_error_def mem_put_docs)
  show "es_get_law mem_es mem_docs" by (simp add: es_get_law_def mem_es_def)
  show "es_search_law mem_es mem_docs" unfolding es_search_law_def
  proof (intro allI)
    fix i and q :: es_search and w :: es_mem
    let ?ds = "mem_hits i (eq_query q) w"
    let ?page = "take (nat (case eq_size q of None \<Rightarrow> 10 | Some n \<Rightarrow> n)) (drop (nat (eq_from q)) ?ds)"
    have "es_Search mem_es i q w = Inr (200, Some (search_body (min 10000 (length ?ds)) ?page))" by (simp add: mem_es_def Let_def)
    moreover have "\<forall>d \<in> set ?page. \<exists>k. mem_docs w i k = Some d \<and> es_matches (eq_query q) d"
      using set_mem_hits by (meson in_set_dropD in_set_takeD)
    moreover have "min 10000 (length ?ds) = 0 \<longleftrightarrow> (\<forall>k d. mem_docs w i k = Some d \<longrightarrow> \<not> es_matches (eq_query q) d)"
    proof -
      have "(\<exists>d. d \<in> set ?ds) \<longleftrightarrow> (\<exists>k d. mem_docs w i k = Some d \<and> es_matches (eq_query q) d)" using set_mem_hits by blast
      moreover have "min 10000 (length ?ds) = 0 \<longleftrightarrow> \<not> (\<exists>d. d \<in> set ?ds)" by (cases ?ds) auto
      ultimately show ?thesis by blast
    qed
    moreover have "min 10000 (length ?ds) \<le> 10000" by simp
    ultimately show "\<exists>n ds. es_Search mem_es i q w = Inr (200, Some (search_body n ds)) \<and> n \<le> 10000
      \<and> (\<forall>d \<in> set ds. \<exists>k. mem_docs w i k = Some d \<and> es_matches (eq_query q) d)
      \<and> (n = 0 \<longleftrightarrow> (\<forall>k d. mem_docs w i k = Some d \<longrightarrow> \<not> es_matches (eq_query q) d))" by (intro exI conjI)
  qed
  show "es_delete_law mem_es mem_docs"
    by (auto simp: es_delete_law_def mem_es_def accepted_def is_error_def mem_docs_def fun_eq_iff
        map_of_filter_distinct distinct_clearjunk map_of_clearjunk split: option.split)
  show "es_update_law mem_es mem_docs"
    by (auto simp: es_update_law_def mem_es_def accepted_def is_error_def mem_docs_def fun_eq_iff map_of_map_value
        option.map_ident)
  show "es_bulk_law mem_es mem_docs"
    by (auto simp: es_bulk_law_def mem_es_def accepted_def is_error_def mem_puts_docs intro!: exI [of _ "\<lambda>x. True"])
qed


text \<open>Transactions for the examples: 7 wei, 1 ether and 1 wei, 2000 ether.\<close>

definition paying :: "int \<Rightarrow> transaction" where
  "paying v = (mk_tx ''0xt'' 19 TxConfirmed)\<lparr>tx_value := Some v\<rparr>"

lemma paying_saved: "\<exists>w'. es_SaveTransaction mem_es ''s'' (paying v) [] = (None, w')"
  by (simp add: es_SaveTransaction_def mem_es_def es_written_def is_error_def)

lemma paying_small: "small_tx (paying 7)"
  by (simp add: small_tx_def tx_doc_def paying_def mk_tx_def uint_json_def big_json_def time_text_def proper_status_def status_of_text_def)

theorem es_transaction_roundtrip_witness:
  "\<exists>w'. es_SaveTransaction mem_es ''s'' (paying 7) [] = (None, w') \<and> es_GetTransaction mem_es ''s'' ''eth'' ''0xt'' w' = Inr (paying 7)"
proof -
  obtain w' where w: "es_SaveTransaction mem_es ''s'' (paying 7) [] = (None, w')" using paying_saved by blast
  from es_transaction_roundtrip [OF mem_es_laws w paying_small] w show ?thesis by (simp add: paying_def mk_tx_def)
qed

theorem es_large_value_unreadable_witness:
  "\<exists>w' e. es_SaveTransaction mem_es ''s'' (paying (2000 * 10 ^ 18)) [] = (None, w')
    \<and> es_GetTransaction mem_es ''s'' ''eth'' ''0xt'' w' = Inl e"
proof -
  obtain w' where w: "es_SaveTransaction mem_es ''s'' (paying (2000 * 10 ^ 18)) [] = (None, w')" using paying_saved by blast
  have v: "tx_value (paying (2000 * 10 ^ 18)) = Some (2000 * 10 ^ 18)" by (simp add: paying_def)
  from es_large_value_unreadable [OF mem_es_laws w v] w show ?thesis by (simp add: paying_def mk_tx_def)
qed

lemma one_ether_through: "through_f64 (10 ^ 18 + 1) = Some (10 ^ 18)"
proof -
  have f: "f64_nat 1000000000000000001 = 1000000000000000000" "f64_nat 1000000000000000000 = 1000000000000000000"
    by (simp_all add: f64_nat_def Let_def excess.simps)
  have l: "length (fmt_nat 10 1000000000000000000) = 19" by (simp add: fmt_nat.simps)
  have r: "round_digits 1 1000000000000000000 = 1000000000000000000" by (simp add: round_digits_def l Let_def)
  have "[Suc 0..<19] = 1 # [Suc (Suc 0)..<19]" by (subst upt_conv_Cons) simp_all
  then have "shortest 1000000000000000000 = 1000000000000000000" by (simp add: shortest_def l r [unfolded One_nat_def] f)
  then show ?thesis by (simp add: through_f64_def f)
qed


text \<open>One ether and one wei is read back as one ether.\<close>

theorem es_value_rounded_witness:
  "\<exists>w' t'. es_SaveTransaction mem_es ''s'' (paying (10 ^ 18 + 1)) [] = (None, w')
    \<and> es_GetTransaction mem_es ''s'' ''eth'' ''0xt'' w' = Inr t' \<and> tx_value t' = Some (10 ^ 18)"
proof -
  let ?t = "paying (10 ^ 18 + 1)"
  obtain w' where w: "es_SaveTransaction mem_es ''s'' ?t [] = (None, w')" using paying_saved by blast
  have z: "through_f64 1000000000000000001 = Some 1000000000000000000" using one_ether_through by simp
  have "\<exists>t'. decode_doc ''transaction'' read_tx (tx_doc ?t) = Inr t'"
    by (simp add: tx_doc_def paying_def mk_tx_def uint_json_def big_json_def time_text_def decode_doc_def es_unmarshal_def z rd_def)
  then obtain t' where t': "es_GetTransaction mem_es ''s'' (tx_chain_id ?t) (tx_hash ?t) w' = Inr t'"
    using es_saved_tx [OF mem_es_laws w] by auto
  have v: "tx_value ?t = Some (10 ^ 18 + 1)" by (simp add: paying_def)
  from es_value_rounded [OF mem_es_laws w v t'] w t' one_ether_through show ?thesis by (simp add: paying_def mk_tx_def)
qed

section \<open>Blocks can be reached by number only\<close>

datatype es_op =
  EsSaveBlock block | EsDeleteBlocks string u64 u64 | EsSaveTx transaction | EsBatchTxs "transaction list"
| EsStatus string string tx_status | EsRevert string u64 u64 | EsSaveLog tx_log | EsBatchLogs "tx_log list"
| EsDeleteLogs string u64 u64 | EsSaveEvent reorg_event

fun es_step :: "'w es_client \<Rightarrow> string \<Rightarrow> es_op \<Rightarrow> 'w \<Rightarrow> 'w" where
  "es_step E pfx (EsSaveBlock b) w = snd (es_SaveBlock E pfx b w)"
| "es_step E pfx (EsDeleteBlocks c a b) w = snd (es_DeleteBlocks E pfx c a b w)"
| "es_step E pfx (EsSaveTx t) w = snd (es_SaveTransaction E pfx t w)"
| "es_step E pfx (EsBatchTxs ts) w = snd (es_BatchSaveTransactions E pfx ts w)"
| "es_step E pfx (EsStatus c h st) w = snd (es_UpdateTransactionStatus E pfx c h st w)"
| "es_step E pfx (EsRevert c a b) w = snd (es_MarkTransactionsAsReverted E pfx c a b w)"
| "es_step E pfx (EsSaveLog l) w = snd (es_SaveLog E pfx l w)"
| "es_step E pfx (EsBatchLogs ls) w = snd (es_BatchSaveLogs E pfx ls w)"
| "es_step E pfx (EsDeleteLogs c a b) w = snd (es_DeleteLogs E pfx c a b w)"
| "es_step E pfx (EsSaveEvent ev) w = snd (es_SaveReorgEvent E pfx ev w)"

definition blocks_only :: "string \<Rightarrow> es_docs \<Rightarrow> bool" where
  "blocks_only pfx d \<longleftrightarrow> (\<forall>c k x. d (generateBlockIndex pfx c) k = Some x \<longrightarrow> (\<exists>b. x = block_doc b))"

lemma transaction_index_inject [simp]: "generateTransactionIndex pfx c = generateTransactionIndex pfx c' \<longleftrightarrow> c = c'"
  by (simp add: generateTransactionIndex_def)

definition foreign :: "string \<Rightarrow> string \<Rightarrow> bool" where
  "foreign pfx i \<longleftrightarrow> (\<forall>c. i \<noteq> generateBlockIndex pfx c)"

lemma foreign_names [simp]:
  "foreign pfx (generateTransactionIndex pfx c)" "foreign pfx (generateLogIndex pfx c)" "foreign pfx (pfx @ ''-reorg-events'')"
  "\<not> foreign pfx (generateBlockIndex pfx c)"
  by (auto simp: foreign_def generateBlockIndex_def generateTransactionIndex_def generateLogIndex_def)

lemma blocks_only_other: "blocks_only pfx d \<Longrightarrow> foreign pfx i \<Longrightarrow> blocks_only pfx (d(i := m))"
  unfolding blocks_only_def foreign_def by (metis fun_upd_other)

lemma blocks_only_put: "blocks_only pfx d \<Longrightarrow> foreign pfx i \<or> (\<exists>b. x = block_doc b) \<Longrightarrow> blocks_only pfx (put_doc (i, k, x) d)"
  by (auto simp: put_doc_def intro: blocks_only_other) (auto simp: blocks_only_def)

lemma blocks_only_puts: "blocks_only pfx d \<Longrightarrow> \<forall>x \<in> set items. foreign pfx (fst x) \<Longrightarrow> blocks_only pfx (fold put_doc items d)"
proof (induction items arbitrary: d)
  case (Cons x items)
  have "blocks_only pfx (put_doc x d)"
    using blocks_only_put [of pfx d "fst x" "snd (snd x)" "fst (snd x)"] Cons.prems by simp
  then show ?case using Cons by simp
qed simp

lemma es_bulks_keep:
  assumes "es_laws E D" "\<forall>g \<in> set gs. \<forall>x \<in> set g. foreign pfx (fst x)" "blocks_only pfx (D w)"
  shows "blocks_only pfx (D (snd (es_bulks E msg gs w)))"
  using assms(2,3)
proof (induction gs arbitrary: w)
  case (Cons g gs)
  obtain e w1 where e: "es_written E msg (es_Bulk E g w) = (e, w1)" by (rule prod.exhaust)
  obtain A where A: "D w1 = (if e = None then fold put_doc (filter A g) (D w) else D w)"
    using es_bulk_written [OF assms(1) e] by blast
  have "blocks_only pfx (fold put_doc (filter A g) (D w))"
    using Cons.prems by (intro blocks_only_puts) auto
  then have "blocks_only pfx (D w1)" using A Cons.prems(2) by simp
  then show ?case using Cons e by (auto split: option.split)
qed simp

lemma es_step_keeps:
  assumes L: "es_laws E D" and b: "blocks_only pfx (D w)"
  shows "blocks_only pfx (D (es_step E pfx x w))"
proof (cases x)
  case (EsSaveBlock b')
  then show ?thesis using es_index_written [OF L, of "''failed to index block''"] b
    by (cases "es_SaveBlock E pfx b' w") (auto simp: es_SaveBlock_def intro!: blocks_only_put)
next
  case (EsDeleteBlocks c p q)
  then show ?thesis using es_delete_written [OF L, of "''failed to delete blocks''"] b
    by (cases "es_DeleteBlocks E pfx c p q w")
      (auto simp: es_DeleteBlocks_def blocks_only_def split: option.split_asm if_split_asm)
next
  case (EsSaveTx t)
  then show ?thesis using es_index_written [OF L, of "''failed to index transaction''"] b
    by (cases "es_SaveTransaction E pfx t w") (auto simp: es_SaveTransaction_def intro!: blocks_only_put)
next
  case (EsStatus c h st)
  then show ?thesis using es_update_written [OF L, of "''failed to update transaction''"] b
    by (cases "es_UpdateTransactionStatus E pfx c h st w")
      (auto simp: es_UpdateTransactionStatus_def intro!: blocks_only_other)
next
  case (EsRevert c p q)
  then show ?thesis using es_update_query_written [OF L, of "''failed to update transactions''"] b
    by (cases "es_MarkTransactionsAsReverted E pfx c p q w")
      (auto simp: es_MarkTransactionsAsReverted_def intro!: blocks_only_other)
next
  case (EsSaveLog l)
  then show ?thesis using es_index_written [OF L, of "''failed to index log''"] b
    by (cases "es_SaveLog E pfx l w") (auto simp: es_SaveLog_def intro!: blocks_only_put)
next
  case (EsDeleteLogs c p q)
  then show ?thesis using es_delete_written [OF L, of "''failed to delete logs''"] b
    by (cases "es_DeleteLogs E pfx c p q w") (auto simp: es_DeleteLogs_def intro!: blocks_only_other)
next
  case (EsSaveEvent ev)
  then show ?thesis using es_index_written [OF L, of "''failed to index reorg event''"] b
    by (cases "es_SaveReorgEvent E pfx ev w") (auto simp: es_SaveReorgEvent_def intro!: blocks_only_put)
next
  case (EsBatchTxs ts)
  then show ?thesis using b by (auto simp: es_BatchSaveTransactions_def intro!: es_bulks_keep [OF L])
next
  case (EsBatchLogs ls)
  then show ?thesis using b by (auto simp: es_BatchSaveLogs_def intro!: es_bulks_keep [OF L])
qed

lemma es_run_keeps: "es_laws E D \<Longrightarrow> blocks_only pfx (D w) \<Longrightarrow> blocks_only pfx (D (fold (es_step E pfx) xs w))"
  by (induction xs arbitrary: w) (simp_all add: es_step_keeps)

lemma block_doc_misses [simp]: "\<not> es_matches (QTerm ''block_hash'' v) (block_doc b)" "\<not> es_matches (number_range x y) (block_doc b)"
  by (simp_all add: block_doc_def doc_field_def number_range_def)

lemma thru_search: "thru (search_body n ds) = Some j \<Longrightarrow> n \<le> 10000 \<Longrightarrow> \<exists>xs. thru_list ds = Some xs \<and> j = search_body n xs"
proof -
  have "thru_list (map (\<lambda>d. JObj [(''_source'', d)]) ds) = map_option (map (\<lambda>d. JObj [(''_source'', d)])) (thru_list ds)"
  proof (induction ds)
    case (Cons d ds)
    then show ?case by (cases "thru d"; cases "thru_list ds") auto
  qed simp
  moreover assume "thru (search_body n ds) = Some j" "n \<le> 10000"
  ultimately show ?thesis by (cases "thru_list ds") (auto simp: search_body_def)
qed

lemma es_answer_search:
  assumes "r = Inr (200, Some (search_body n ds))" "n \<le> 10000"
  shows "(\<exists>e. es_answer E msg r = Inl e) \<or>
    (\<exists>xs. thru_list ds = Some xs \<and> es_answer E msg r = Inr [(''hits'', JObj [(''total'', JObj [(''value'', JNum (int n))]),
       (''hits'', JArr (map (\<lambda>d. JObj [(''_source'', d)]) xs))])])"
proof (cases "thru (search_body n ds)")
  case None
  then show ?thesis by (simp add: assms(1) es_answer_def is_error_def es_parse_def)
next
  case (Some j)
  then obtain xs where "thru_list ds = Some xs" "j = search_body n xs" using thru_search assms(2) by blast
  then show ?thesis using Some by (simp add: assms(1) es_answer_def is_error_def es_parse_def) (simp add: search_body_def)
qed

text \<open>
  C17: In the index a block can be reached by its number only. Whatever the storage has written from the start, a
  block is never found by its hash, and a deletion of blocks deletes none: every block is read after it as
  before. The queries name the fields \<open>block_hash\<close> and \<open>block_number\<close>, which no stored block has.
\<close>

theorem es_blocks_by_number_only:
  assumes "es_laws E D" "\<And>i. D w0 i = Map.empty" "w = fold (es_step E pfx) ops w0"
  shows "(\<exists>e. es_GetBlockByHash E pfx c h w = Inl e)
    \<and> es_GetBlock E pfx c' n (snd (es_DeleteBlocks E pfx c x y w)) = es_GetBlock E pfx c' n w"
proof
  have "blocks_only pfx (D w0)" using assms(2) by (simp add: blocks_only_def)
  then have b: "blocks_only pfx (D w)" unfolding assms(3) by (rule es_run_keeps [OF assms(1)])
  let ?q = "\<lparr>eq_query = QTerm ''block_hash'' (JStr h), eq_sort = [], eq_from = 0, eq_size = None\<rparr>"
  obtain n ds where s: "es_Search E (generateBlockIndex pfx c) ?q w = Inr (200, Some (search_body n ds))" "n \<le> 10000"
      "n = 0 \<longleftrightarrow> (\<forall>k d. D w (generateBlockIndex pfx c) k = Some d \<longrightarrow> \<not> es_matches (eq_query ?q) d)"
    by (rule es_search [OF assms(1)]) blast
  have "\<not> es_matches (QTerm ''block_hash'' (JStr h)) d" if "D w (generateBlockIndex pfx c) k = Some d" for k d
    using b that unfolding blocks_only_def by (metis block_doc_misses(1))
  then have "n = 0" using s(3) by simp
  then show "\<exists>e. es_GetBlockByHash E pfx c h w = Inl e"
    using es_answer_search [OF s(1,2), of E "''failed to search block''"]
    by (auto simp: es_GetBlockByHash_def es_first_hit_def obj_field_def)
  obtain e w1 where d: "es_DeleteBlocks E pfx c x y w = (e, w1)" by (rule prod.exhaust)
  have m: "\<not> es_matches (number_range x y) d" if "D w (generateBlockIndex pfx c) k = Some d" for k d
    using b that unfolding blocks_only_def by (metis block_doc_misses(2))
  have "(\<lambda>k. case D w (generateBlockIndex pfx c) k of
      Some d \<Rightarrow> if es_matches (number_range x y) d then None else Some d | None \<Rightarrow> None) = D w (generateBlockIndex pfx c)"
    using m by (auto simp: fun_eq_iff split: option.split)
  then have "D w1 = D w" using es_delete_written [OF assms(1) d [unfolded es_DeleteBlocks_def]] by simp
  then show "es_GetBlock E pfx c' n (snd (es_DeleteBlocks E pfx c x y w)) = es_GetBlock E pfx c' n w" for n
    by (simp add: d es_GetBlock_def es_get [OF assms(1)])
qed

theorem es_blocks_by_number_only_witness:
  "\<exists>w. w = fold (es_step mem_es ''s'') [EsSaveBlock (mk_block 19 ''0xb'' ''0xa'' [])] []
    \<and> (\<exists>e. es_GetBlockByHash mem_es ''s'' ''eth'' ''0xb'' w = Inl e)
    \<and> es_GetBlock mem_es ''s'' ''eth'' 19 (snd (es_DeleteBlocks mem_es ''s'' ''eth'' 0 100 w)) = es_GetBlock mem_es ''s'' ''eth'' 19 w"
proof -
  have e: "mem_docs [] i = Map.empty" for i by (simp add: mem_docs_def fun_eq_iff)
  show ?thesis
    using es_blocks_by_number_only [OF mem_es_laws e refl, where pfx = "''s''" and c = "''eth''" and h = "''0xb''" and c' = "''eth''"
        and n = 19 and x = 0 and y = 100 and ops = "[EsSaveBlock (mk_block 19 ''0xb'' ''0xa'' [])]"]
    by blast
qed


section \<open>The status of a transaction\<close>

lemma thru_obj_update:
  "thru_obj o' = Some p \<Longrightarrow> thru j = Some j' \<Longrightarrow> thru_obj (AList.update k j o') = Some (AList.update k j' p)"
proof (induction o' arbitrary: p)
  case (Cons x o')
  obtain a b where x: "x = (a, b)" by (rule prod.exhaust)
  then show ?case using Cons by (auto simp: Option.bind_eq_Some_conv)
qed simp

lemma rd_update_other: "k \<noteq> k' \<Longrightarrow> rd z f (AList.update k j o') k' = rd z f o' k'"
  by (simp add: rd_def update_conv')

lemma rd_update_status: "rd '''' rd_str (AList.update k (JStr s) o') k = Some s"
  by (simp add: rd_def update_conv')

lemma read_tx_status:
  assumes "read_tx (JObj p) = Some t" "proper_status st"
  shows "read_tx (JObj (AList.update ''status'' (JStr (tx_status_text st)) p)) = Some (t\<lparr>tx_status := st\<rparr>)"
proof -
  have "status_of_text (tx_status_text st) = st" using assms(2) by (simp add: proper_status_def)
  with assms(1) show ?thesis by (auto simp: Option.bind_eq_Some_conv rd_update_other rd_update_status)
qed

lemma decode_doc_ok: "decode_doc what read d = Inr x \<longleftrightarrow> (\<exists>o' p. d = JObj o' \<and> thru_obj o' = Some p \<and> read (JObj p) = Some x)"
proof (cases d)
  case (JObj o')
  then show ?thesis by (auto simp: decode_doc_def es_unmarshal_def split: option.split)
qed (auto simp: decode_doc_def split: option.split)

lemma es_GetTransaction_decode:
  assumes "es_laws E D"
  shows "es_GetTransaction E pfx c h w =
    (case D w (generateTransactionIndex pfx c) h of None \<Rightarrow> Inl (Msg ''transaction not found'') | Some d \<Rightarrow> decode_doc ''transaction'' read_tx d)"
proof (cases "D w (generateTransactionIndex pfx c) h")
  case None
  then show ?thesis by (simp add: es_GetTransaction_def es_get [OF assms] es_get_source_def is_error_def)
next
  case (Some d)
  then show ?thesis using es_get_decode [where what = "''transaction''" and read = read_tx, OF assms Some] by (simp add: es_GetTransaction_def)
qed

text \<open>
  A successful update of a status in the index is what the next read of the transaction returns, with all
  else of it unchanged, and every other transaction reads as before.
\<close>

theorem es_status_reads_back:
  assumes "es_laws E D" "es_UpdateTransactionStatus E pfx c h st w = (None, w')" "proper_status st"
    and "es_GetTransaction E pfx c h w = Inr t"
  shows "es_GetTransaction E pfx c h w' = Inr (t\<lparr>tx_status := st\<rparr>)
    \<and> (c' \<noteq> c \<or> h' \<noteq> h \<longrightarrow> es_GetTransaction E pfx c' h' w' = es_GetTransaction E pfx c' h' w)"
proof -
  let ?i = "generateTransactionIndex pfx c"
  obtain d where d: "D w ?i h = Some d" "decode_doc ''transaction'' read_tx d = Inr t"
    using assms(4) by (auto simp: es_GetTransaction_decode [OF assms(1)] split: option.split_asm)
  obtain o' p where o': "d = JObj o'" "thru_obj o' = Some p" "read_tx (JObj p) = Some t"
    using d(2) by (auto simp: decode_doc_ok simp del: read_tx_by.simps)
  have w': "D w' = (D w)(?i := (D w ?i)(h \<mapsto> JObj (AList.update ''status'' (JStr (tx_status_text st)) o')))"
    using es_update_written [OF assms(1) assms(2) [unfolded es_UpdateTransactionStatus_def]] d(1) o'(1)
    by (simp add: merge_doc_def)
  have "thru_obj (AList.update ''status'' (JStr (tx_status_text st)) o') = Some (AList.update ''status'' (JStr (tx_status_text st)) p)"
    using thru_obj_update [OF o'(2)] by simp
  then have "decode_doc ''transaction'' read_tx (JObj (AList.update ''status'' (JStr (tx_status_text st)) o')) = Inr (t\<lparr>tx_status := st\<rparr>)"
    using read_tx_status [OF o'(3) assms(3)] unfolding decode_doc_ok by (intro exI conjI) (rule refl, assumption+)
  then show ?thesis by (auto simp: es_GetTransaction_decode [OF assms(1)] w')
qed

theorem es_status_reads_back_witness:
  "\<exists>w w'. es_SaveTransaction mem_es ''s'' (paying 7) [] = (None, w)
    \<and> es_UpdateTransactionStatus mem_es ''s'' ''eth'' ''0xt'' TxReverted w = (None, w')
    \<and> es_GetTransaction mem_es ''s'' ''eth'' ''0xt'' w' = Inr ((paying 7)\<lparr>tx_status := TxReverted\<rparr>)"
proof -
  obtain w where w: "es_SaveTransaction mem_es ''s'' (paying 7) [] = (None, w)" using paying_saved by blast
  obtain w' where w': "es_UpdateTransactionStatus mem_es ''s'' ''eth'' ''0xt'' TxReverted w = (None, w')"
    by (simp add: es_UpdateTransactionStatus_def mem_es_def es_written_def is_error_def)
  have "es_GetTransaction mem_es ''s'' ''eth'' ''0xt'' w = Inr (paying 7)"
    using es_saved_small [OF mem_es_laws w paying_small] by (simp add: paying_def mk_tx_def)
  moreover have "proper_status TxReverted" by (simp add: proper_status_def status_of_text_def)
  ultimately show ?thesis using es_status_reads_back [OF mem_es_laws w'] w w' by blast
qed

section \<open>The logs of a filter\<close>

definition log_matches :: "log_filter \<Rightarrow> tx_log \<Rightarrow> bool" where
  "log_matches f l \<longleftrightarrow>
     (\<forall>n. lf_block_number f = Some n \<longrightarrow> log_block_number l = n) \<and> (\<forall>n. lf_from_block f = Some n \<longrightarrow> n \<le> log_block_number l)
   \<and> (\<forall>n. lf_to_block f = Some n \<longrightarrow> log_block_number l \<le> n) \<and> (lf_address f \<noteq> '''' \<longrightarrow> log_address l = lf_address f)
   \<and> (lf_tx_hash f \<noteq> '''' \<longrightarrow> log_tx_hash l = lf_tx_hash f) \<and> set (lf_topics f) \<subseteq> set (log_topics l)"

lemma read_log_fields:
  assumes "read_log (JObj o') = Some l"
  shows "rd 0 rd_uint o' ''block_number'' = Some (log_block_number l)" "rd '''' rd_str o' ''address'' = Some (log_address l)"
    "rd '''' rd_str o' ''tx_hash'' = Some (log_tx_hash l)" "rd [] (rd_list rd_str) o' ''topics'' = Some (log_topics l)"
  using assms by (auto simp: Option.bind_eq_Some_conv)

lemma those_strings: "those (map rd_str xs) = Some ts \<Longrightarrow> JStr t \<in> set xs \<Longrightarrow> t \<in> set ts"
  by (induction xs arbitrary: ts) (auto simp: Option.bind_eq_Some_conv split: option.split_asm)

lemma term_string:
  "es_matches (QTerm k (JStr s)) (JObj o') \<Longrightarrow> rd '''' rd_str o' k = Some x \<Longrightarrow> x = s"
  by (auto simp: doc_field_def rd_def split: option.split_asm json.split_asm)

lemma term_topic:
  "es_matches (QTerm k (JStr s)) (JObj o') \<Longrightarrow> rd [] (rd_list rd_str) o' k = Some xs \<Longrightarrow> s \<in> set xs"
  by (auto simp: doc_field_def rd_def those_strings split: option.split_asm json.split_asm)

lemma number_field_uint:
  assumes "rd 0 rd_uint o' k = Some n" "map_of o' k = Some (JNum z)"
  shows "z = uint n"
  using assms by (auto simp: uint_word_of_int_eq take_bit_eq_mod split: if_split_asm)

lemma term_number: "es_matches (QTerm k (JNum z)) (JObj o') \<Longrightarrow> rd 0 rd_uint o' k = Some n \<Longrightarrow> z = uint n"
  using number_field_uint [of o' k n z] by (auto simp: doc_field_def rd_def split: option.split_asm json.split_asm)

lemma range_number:
  assumes "es_matches (QRange k lo hi) (JObj o')" "rd 0 rd_uint o' k = Some n"
  shows "(\<forall>a. lo = Some a \<longrightarrow> a \<le> uint n) \<and> (\<forall>b. hi = Some b \<longrightarrow> uint n \<le> b)"
proof -
  obtain z where "map_of o' k = Some (JNum z)" using assms(1) by (auto simp: doc_field_def split: option.split_asm json.split_asm)
  with assms number_field_uint [of o' k n z] show ?thesis by (auto simp: doc_field_def)
qed

lemma query_log_matches:
  assumes "es_matches (QMust (log_query f)) d" "read_log d = Some l"
  shows "log_matches f l"
proof -
  obtain o' where o': "d = JObj o'" using assms(2) by (cases d) auto
  note r = read_log_fields [OF assms(2) [unfolded o']]
  have m: "es_matches q (JObj o')" if "q \<in> set (log_query f)" for q using assms(1) that by (simp add: o')
  have "log_block_number l = n" if "lf_block_number f = Some n" for n
    using term_number [OF m [of "QTerm ''block_number'' (uint_json n)", unfolded uint_json_def] r(1)] that
    by (simp add: log_query_def uint_json_def word_uint_eq_iff)
  moreover have "n \<le> log_block_number l" if "lf_from_block f = Some n" for n
    using range_number [OF m [of "QRange ''block_number'' (Some (uint n)) None"] r(1)] that
    by (simp add: log_query_def word_le_def)
  moreover have "log_block_number l \<le> n" if "lf_to_block f = Some n" for n
    using range_number [OF m [of "QRange ''block_number'' None (Some (uint n))"] r(1)] that
    by (simp add: log_query_def word_le_def)
  moreover have "log_address l = lf_address f" if "lf_address f \<noteq> ''''"
    using term_string [OF m [of "QTerm ''address'' (JStr (lf_address f))"] r(2)] that by (simp add: log_query_def)
  moreover have "log_tx_hash l = lf_tx_hash f" if "lf_tx_hash f \<noteq> ''''"
    using term_string [OF m [of "QTerm ''tx_hash'' (JStr (lf_tx_hash f))"] r(3)] that by (simp add: log_query_def)
  moreover have "t \<in> set (log_topics l)" if "t \<in> set (lf_topics f)" for t
    using term_topic [OF m [of "QTerm ''topics'' (JStr t)"] r(4)] that by (simp add: log_query_def)
  ultimately show ?thesis by (auto simp: log_matches_def)
qed

text \<open>
  Every log that the index returns for a filter matches it: its block is the one asked for and in the range, its address and transaction
  are the ones asked for, and it has all the topics. This holds as long as no number in the index needs more than 53 bits.
\<close>

theorem es_logs_match_filter:
  assumes "es_laws E D" "\<And>k d. D w (generateLogIndex pfx c) k = Some d \<Longrightarrow> small_json d"
    and "es_GetLogs E pfx c f w = Inr ls" "l \<in> set ls"
  shows "log_matches f l"
proof -
  let ?q = "\<lparr>eq_query = QMust (log_query f), eq_sort = [(''block_number'', False), (''log_index'', False)],
      eq_from = lf_offset f, eq_size = Some (lf_limit f)\<rparr>"
  obtain n ds where s: "es_Search E (generateLogIndex pfx c) ?q w = Inr (200, Some (search_body n ds))" "n \<le> 10000"
      "\<And>d. d \<in> set ds \<Longrightarrow> \<exists>k. D w (generateLogIndex pfx c) k = Some d \<and> es_matches (eq_query ?q) d"
    by (rule es_search [OF assms(1)]) blast
  have "\<forall>d \<in> set ds. small_json d" using s(3) assms(2) by blast
  then have "thru_list ds = Some ds" by (rule thru_small)
  then have "ls = List.map_filter (\<lambda>j. Option.bind (hit_source j) read_log) (map (\<lambda>d. JObj [(''_source'', d)]) ds)"
    using es_answer_search [OF s(1,2), of E "''failed to search logs''"] assms(3)
    by (auto simp: es_GetLogs_def es_hits_def obj_field_def arr_field_def)
  then obtain d where "d \<in> set ds" "read_log d = Some l"
    using assms(4) by (auto simp: List.map_filter_def hit_source_def Option.bind_eq_Some_conv simp del: read_log.simps split: json.split_asm)
  moreover from this have "es_matches (QMust (log_query f)) d" using s(3) by (simp del: es_matches.simps)
  ultimately show ?thesis by (auto intro: query_log_matches)
qed


definition sample_log :: tx_log where
  "sample_log =
     \<lparr>log_chain_id = ''eth'', log_tx_hash = ''0xt'', log_block_number = 19, log_address = ''0xc'', log_topics = [''0x1'', ''0x2''],
      log_data = ''0x'', log_log_index = 0, log_tx_index = 0\<rparr>"

definition sample_filter :: log_filter where
  "sample_filter =
     \<lparr>lf_chain_id = ''eth'', lf_block_number = None, lf_from_block = Some 10, lf_to_block = Some 20, lf_address = ''0xc'',
      lf_topics = [''0x2''], lf_tx_hash = '''', lf_limit = 5, lf_offset = 0\<rparr>"

lemma sample_log_small: "small_json (log_doc sample_log)"
  by (simp add: log_doc_def sample_log_def uint_json_def)

lemma sample_log_query: "es_matches (QMust (log_query sample_filter)) (log_doc sample_log)"
  by (simp add: log_query_def sample_filter_def log_doc_def sample_log_def doc_field_def uint_json_def)

theorem es_logs_match_filter_witness:
  "\<exists>w. snd (es_SaveLog mem_es ''s'' sample_log []) = w \<and> es_GetLogs mem_es ''s'' ''eth'' sample_filter w = Inr [sample_log]
    \<and> log_matches sample_filter sample_log"
proof -
  let ?i = "generateLogIndex ''s'' ''eth''" and ?w = "[((generateLogIndex ''s'' ''eth'', log_doc_id sample_log), log_doc sample_log)]"
  have w: "snd (es_SaveLog mem_es ''s'' sample_log []) = ?w"
    by (simp add: es_SaveLog_def mem_es_def es_written_def is_error_def mem_put_def) (simp add: sample_log_def)
  have h: "mem_hits ?i (QMust (log_query sample_filter)) ?w = [log_doc sample_log]"
    using sample_log_query by (simp add: mem_hits_def del: es_matches.simps)
  have t: "thru (log_doc sample_log) = Some (log_doc sample_log)" using sample_log_small by (rule thru_small)
  obtain o' where o': "log_doc sample_log = JObj o'" by (simp add: log_doc_def)
  have r: "read_log (JObj o') = Some sample_log" using o' read_log_doc [of sample_log] by simp
  have g: "es_GetLogs mem_es ''s'' ''eth'' sample_filter ?w = Inr [sample_log]"
    using t r by (simp add: es_GetLogs_def mem_es_def h del: read_log.simps) (simp add: es_answer_def is_error_def es_parse_def search_body_def
        es_hits_def obj_field_def arr_field_def hit_source_def List.map_filter_def sample_filter_def o' del: read_log.simps)
  have s: "small_json d" if "mem_docs ?w ?i k = Some d" for k d
    using that sample_log_small by (auto simp: mem_docs_def split: if_split_asm)
  have "log_matches sample_filter sample_log"
    by (rule es_logs_match_filter [OF mem_es_laws _ g]) (use s in auto)
  then show ?thesis using w g by blast
qed

end
