(* ===== verification/Queue.thy ===== *)
theory Queue
  imports GoJson
begin

text \<open>
  \<open>internal/queue\<close>: the producers and consumers of messages. Kafka's writer is the record \<open>kafka_writer\<close>; what a
  reader gives a subscription is the list of its polls. The bytes of a message are the JSON they render, \<open>None\<close>
  for bytes that are none. RocketMQ's client is a placeholder in the source and modelled as one. The metrics
  and the log are left out; \<open>clock k\<close> is the \<open>k\<close>-th reading of the clock.
\<close>

section \<open>Configuration, messages and keys\<close>

record queue_topics =
  tp_RawBlock :: string
  tp_NormalizedTx :: string
  tp_ReorgEvent :: string
  tp_DLQ :: string

record kafka_config =
  kc_Brokers :: "string list"
  kc_ClientID :: string
  kc_Topics :: queue_topics

record rocket_config =
  rc_NameServers :: "string list"
  rc_GroupID :: string
  rc_Topics :: queue_topics

record queue_config =
  qc_Kafka :: "kafka_config option"
  qc_RocketMQ :: "rocket_config option"
  qc_BatchSize :: int
  qc_BatchTimeout :: int
  qc_MaxRetries :: int
  qc_RetryDelay :: int

text \<open>A value that cannot be rendered is \<open>None\<close>.\<close>

record queue_message =
  qm_Topic :: string
  qm_Key :: string
  qm_Value :: "json option"
  qm_Timestamp :: int
  qm_Retries :: int

record kafka_record =
  kr_topic :: string
  kr_key :: string
  kr_value :: "json option"
  kr_time :: int

definition GenerateMessageKey :: "string \<Rightarrow> string \<Rightarrow> u64 \<Rightarrow> string" where
  "GenerateMessageKey chainID txHash logIndex = chainID @ ''-'' @ txHash @ ''-'' @ fmt_u64 logIndex"

definition GenerateBlockMessageKey :: "string \<Rightarrow> u64 \<Rightarrow> string" where
  "GenerateBlockMessageKey chainID blockNumber = chainID @ ''-'' @ fmt_u64 blockNumber"

definition GenerateReorgEventKey :: "string \<Rightarrow> int \<Rightarrow> string" where
  "GenerateReorgEventKey chainID timestamp = chainID @ ''-'' @ fmt_int (timestamp div 10 ^ 9)"

section \<open>Producers\<close>

record 'w message_producer =
  mp_SendMessage :: "(nat \<Rightarrow> int) \<Rightarrow> string \<Rightarrow> string \<Rightarrow> json option \<Rightarrow> 'w \<Rightarrow> go_error option \<times> 'w"
  mp_BatchSendMessages :: "string \<Rightarrow> queue_message list \<Rightarrow> 'w \<Rightarrow> go_error option \<times> 'w"
  mp_SendRawBlock :: "(nat \<Rightarrow> int) \<Rightarrow> block \<Rightarrow> 'w \<Rightarrow> go_error option \<times> 'w"
  mp_SendNormalizedTransaction :: "(nat \<Rightarrow> int) \<Rightarrow> transaction \<Rightarrow> 'w \<Rightarrow> go_error option \<times> 'w"
  mp_SendReorgEvent :: "(nat \<Rightarrow> int) \<Rightarrow> reorg_event \<Rightarrow> 'w \<Rightarrow> go_error option \<times> 'w"
  mp_SendToDLQ :: "(nat \<Rightarrow> int) \<Rightarrow> json option \<Rightarrow> string \<Rightarrow> 'w \<Rightarrow> go_error option \<times> 'w"
  mp_Close :: "'w \<Rightarrow> go_error option \<times> 'w"

record 'w kafka_writer =
  kw_WriteMessages :: "kafka_record list \<Rightarrow> 'w \<Rightarrow> go_error option \<times> 'w"
  kw_Close :: "'w \<Rightarrow> go_error option \<times> 'w"

definition marshal_failed :: go_error where
  "marshal_failed = Wrap ''failed to marshal message'' (Msg ''json'')"

definition kafka_SendMessage ::
    "'w kafka_writer \<Rightarrow> (nat \<Rightarrow> int) \<Rightarrow> string \<Rightarrow> string \<Rightarrow> json option \<Rightarrow> 'w \<Rightarrow> go_error option \<times> 'w" where
  "kafka_SendMessage K clock topic key value w =
     (case value of
        None \<Rightarrow> (Some marshal_failed, w)
      | Some data \<Rightarrow>
          apfst (wrap_err ''failed to send message'')
            (kw_WriteMessages K [\<lparr>kr_topic = topic, kr_key = key, kr_value = Some data, kr_time = clock 0\<rparr>] w))"

text \<open>A message of a batch that cannot be rendered is only logged.\<close>

definition kafka_batch :: "string \<Rightarrow> queue_message list \<Rightarrow> kafka_record list" where
  "kafka_batch topic =
     List.map_filter (\<lambda>m. map_option
       (\<lambda>data. \<lparr>kr_topic = topic, kr_key = qm_Key m, kr_value = Some data, kr_time = qm_Timestamp m\<rparr>) (qm_Value m))"

definition kafka_BatchSendMessages :: "'w kafka_writer \<Rightarrow> string \<Rightarrow> queue_message list \<Rightarrow> 'w \<Rightarrow> go_error option \<times> 'w" where
  "kafka_BatchSendMessages K topic messages w =
     (if messages = [] then (None, w)
      else apfst (wrap_err ''failed to batch send messages'') (kw_WriteMessages K (kafka_batch topic messages) w))"

definition kafka_SendRawBlock :: "'w kafka_writer \<Rightarrow> kafka_config \<Rightarrow> (nat \<Rightarrow> int) \<Rightarrow> block \<Rightarrow> 'w \<Rightarrow> go_error option \<times> 'w" where
  "kafka_SendRawBlock K cfg clock b =
     kafka_SendMessage K clock (tp_RawBlock (kc_Topics cfg)) (GenerateBlockMessageKey (blk_chain_id b) (blk_number b)) (Some (block_doc b))"

definition kafka_SendNormalizedTransaction ::
    "'w kafka_writer \<Rightarrow> kafka_config \<Rightarrow> (nat \<Rightarrow> int) \<Rightarrow> transaction \<Rightarrow> 'w \<Rightarrow> go_error option \<times> 'w" where
  "kafka_SendNormalizedTransaction K cfg clock t =
     kafka_SendMessage K clock (tp_NormalizedTx (kc_Topics cfg)) (GenerateMessageKey (tx_chain_id t) (tx_hash t) 0) (Some (tx_doc t))"

definition kafka_SendReorgEvent ::
    "'w kafka_writer \<Rightarrow> kafka_config \<Rightarrow> (nat \<Rightarrow> int) \<Rightarrow> reorg_event \<Rightarrow> 'w \<Rightarrow> go_error option \<times> 'w" where
  "kafka_SendReorgEvent K cfg clock ev =
     kafka_SendMessage K clock (tp_ReorgEvent (kc_Topics cfg)) (GenerateReorgEventKey (re_chain_id ev) (re_detected_at ev))
       (Some (event_doc ev))"

text \<open>The rendering of a map has its keys in order.\<close>

definition dlq_doc :: "json \<Rightarrow> string \<Rightarrow> int \<Rightarrow> json" where
  "dlq_doc message reason time = JObj [(''message'', message), (''reason'', JStr reason), (''time'', time_text time)]"

definition dlq_key :: "int \<Rightarrow> string" where
  "dlq_key nanos = ''dlq-'' @ fmt_int (wrap_i64 nanos)"

definition kafka_SendToDLQ ::
    "'w kafka_writer \<Rightarrow> kafka_config \<Rightarrow> (nat \<Rightarrow> int) \<Rightarrow> json option \<Rightarrow> string \<Rightarrow> 'w \<Rightarrow> go_error option \<times> 'w" where
  "kafka_SendToDLQ K cfg clock message reason =
     kafka_SendMessage K (\<lambda>k. clock (k + 2)) (tp_DLQ (kc_Topics cfg)) (dlq_key (clock 1))
       (map_option (\<lambda>m. dlq_doc m reason (clock 0)) message)"

definition KafkaProducer :: "'w kafka_writer \<Rightarrow> kafka_config \<Rightarrow> 'w message_producer" where
  "KafkaProducer K cfg =
     \<lparr>mp_SendMessage = kafka_SendMessage K, mp_BatchSendMessages = kafka_BatchSendMessages K,
      mp_SendRawBlock = kafka_SendRawBlock K cfg, mp_SendNormalizedTransaction = kafka_SendNormalizedTransaction K cfg,
      mp_SendReorgEvent = kafka_SendReorgEvent K cfg, mp_SendToDLQ = kafka_SendToDLQ K cfg, mp_Close = kw_Close K\<rparr>"

text \<open>\<open>writer\<close> makes the writer of a list of brokers.\<close>

definition NewKafkaProducer :: "(string list \<Rightarrow> 'w kafka_writer) \<Rightarrow> kafka_config option \<Rightarrow> go_error + 'w message_producer" where
  "NewKafkaProducer writer config =
     (case config of
        None \<Rightarrow> Inl (Msg ''Kafka brokers cannot be empty'')
      | Some cfg \<Rightarrow>
          if kc_Brokers cfg = [] then Inl (Msg ''Kafka brokers cannot be empty'')
          else Inr (KafkaProducer (writer (kc_Brokers cfg)) cfg))"

text \<open>RocketMQ: the message is rendered and then dropped.\<close>

definition rocket_SendMessage :: "(nat \<Rightarrow> int) \<Rightarrow> string \<Rightarrow> string \<Rightarrow> json option \<Rightarrow> 'w \<Rightarrow> go_error option \<times> 'w" where
  "rocket_SendMessage clock topic key value w = (if value = None then (Some marshal_failed, w) else (None, w))"

definition rocket_BatchSendMessages :: "string \<Rightarrow> queue_message list \<Rightarrow> 'w \<Rightarrow> go_error option \<times> 'w" where
  "rocket_BatchSendMessages topic messages w = (None, w)"

definition RocketMQProducer :: "rocket_config \<Rightarrow> 'w message_producer" where
  "RocketMQProducer cfg =
     \<lparr>mp_SendMessage = rocket_SendMessage, mp_BatchSendMessages = rocket_BatchSendMessages,
      mp_SendRawBlock = (\<lambda>clock b. rocket_SendMessage clock (tp_RawBlock (rc_Topics cfg))
        (GenerateBlockMessageKey (blk_chain_id b) (blk_number b)) (Some (block_doc b))),
      mp_SendNormalizedTransaction = (\<lambda>clock t. rocket_SendMessage clock (tp_NormalizedTx (rc_Topics cfg))
        (GenerateMessageKey (tx_chain_id t) (tx_hash t) 0) (Some (tx_doc t))),
      mp_SendReorgEvent = (\<lambda>clock ev. rocket_SendMessage clock (tp_ReorgEvent (rc_Topics cfg))
        (GenerateReorgEventKey (re_chain_id ev) (re_detected_at ev)) (Some (event_doc ev))),
      mp_SendToDLQ = (\<lambda>clock message reason. rocket_SendMessage (\<lambda>k. clock (k + 2)) (tp_DLQ (rc_Topics cfg)) (dlq_key (clock 1))
        (map_option (\<lambda>m. dlq_doc m reason (clock 0)) message)),
      mp_Close = (\<lambda>w. (None, w))\<rparr>"

definition NewRocketMQProducer :: "rocket_config option \<Rightarrow> go_error + 'w message_producer" where
  "NewRocketMQProducer config =
     (case config of
        None \<Rightarrow> Inl (Msg ''RocketMQ name servers cannot be empty'')
      | Some cfg \<Rightarrow>
          if rc_NameServers cfg = [] then Inl (Msg ''RocketMQ name servers cannot be empty'') else Inr (RocketMQProducer cfg))"


section \<open>Consumers\<close>

text \<open>
  One turn of a subscription sees the context done, a read that fails, or a message. It ends with the
  context's error (\<open>Some\<close>), or is still running after the polls given (\<open>None\<close>). A message that does not decode
  and one whose handler fails are only logged.
\<close>

datatype poll = PDone go_error | PFailed | PMessage kafka_record

fun subscribe ::
    "(kafka_record \<Rightarrow> 'a option) \<Rightarrow> ('a \<Rightarrow> 's \<Rightarrow> go_error option \<times> 's) \<Rightarrow> poll list \<Rightarrow> 's \<Rightarrow> go_error option \<times> 's" where
  "subscribe decode handler [] s = (None, s)"
| "subscribe decode handler (PDone e # ps) s = (Some e, s)"
| "subscribe decode handler (PFailed # ps) s = subscribe decode handler ps s"
| "subscribe decode handler (PMessage r # ps) s =
     (case decode r of
        None \<Rightarrow> subscribe decode handler ps s
      | Some x \<Rightarrow> (case handler x s of (e, s') \<Rightarrow> subscribe decode handler ps s'))"

text \<open>Decoding \<open>null\<close> into a struct leaves its zero value.\<close>

definition zero_tx :: transaction where
  "zero_tx =
     \<lparr>tx_chain_id = '''', tx_hash = '''', tx_block_number = 0, tx_block_hash = '''', tx_from = '''', tx_to = '''', tx_value = None,
      tx_gas_price = None, tx_gas_used = 0, tx_status = TxOther '''', tx_timestamp = zero_time, tx_index = 0, tx_input_data = '''',
      tx_logs = []\<rparr>"

definition zero_block :: block where
  "zero_block =
     \<lparr>blk_chain_id = '''', blk_number = 0, blk_hash = '''', blk_parent_hash = '''', blk_timestamp = zero_time, blk_transactions = []\<rparr>"

definition zero_event :: reorg_event where
  "zero_event =
     \<lparr>re_chain_id = '''', re_detected_at = zero_time, re_old_block_number = 0, re_old_block_hash = '''', re_new_block_number = 0,
      re_new_block_hash = '''', re_depth = 0, re_affected_txs = [], re_processed = False\<rparr>"

definition into_struct :: "'a \<Rightarrow> (json \<Rightarrow> 'a option) \<Rightarrow> kafka_record \<Rightarrow> 'a option" where
  "into_struct zero read r = Option.bind (kr_value r) (\<lambda>j. if j = JNull then Some zero else read j)"

definition decode_block :: "kafka_record \<Rightarrow> block option" where
  "decode_block = into_struct zero_block (read_block_by rd_digits)"

definition decode_tx :: "kafka_record \<Rightarrow> transaction option" where
  "decode_tx = into_struct zero_tx (read_tx_by rd_digits)"

definition decode_event :: "kafka_record \<Rightarrow> reorg_event option" where
  "decode_event = into_struct zero_event read_event"

definition decode_message :: "string \<Rightarrow> kafka_record \<Rightarrow> queue_message option" where
  "decode_message topic r =
     map_option (\<lambda>v. \<lparr>qm_Topic = topic, qm_Key = kr_key r, qm_Value = Some v, qm_Timestamp = kr_time r, qm_Retries = 0\<rparr>)
       (Option.bind (kr_value r) thru)"

text \<open>The original message and the reason; a map without them gives \<open>nil\<close> and no reason.\<close>

definition decode_dlq :: "kafka_record \<Rightarrow> (json \<times> string) option" where
  "decode_dlq r =
     (case Option.bind (kr_value r) thru of
        Some (JObj o') \<Rightarrow> Some (case map_of o' ''message'' of Some m \<Rightarrow> m | None \<Rightarrow> JNull, str_or_empty o' ''reason'')
      | Some JNull \<Rightarrow> Some (JNull, '''')
      | _ \<Rightarrow> None)"

record 's message_consumer =
  mc_Subscribe :: "string \<Rightarrow> string \<Rightarrow> (queue_message \<Rightarrow> 's \<Rightarrow> go_error option \<times> 's) \<Rightarrow> poll list \<Rightarrow> 's \<Rightarrow> go_error option \<times> 's"
  mc_SubscribeRawBlocks :: "string \<Rightarrow> (block \<Rightarrow> 's \<Rightarrow> go_error option \<times> 's) \<Rightarrow> poll list \<Rightarrow> 's \<Rightarrow> go_error option \<times> 's"
  mc_SubscribeNormalizedTransactions ::
    "string \<Rightarrow> (transaction \<Rightarrow> 's \<Rightarrow> go_error option \<times> 's) \<Rightarrow> poll list \<Rightarrow> 's \<Rightarrow> go_error option \<times> 's"
  mc_SubscribeReorgEvents :: "string \<Rightarrow> (reorg_event \<Rightarrow> 's \<Rightarrow> go_error option \<times> 's) \<Rightarrow> poll list \<Rightarrow> 's \<Rightarrow> go_error option \<times> 's"
  mc_SubscribeDLQ :: "string \<Rightarrow> (json \<times> string \<Rightarrow> 's \<Rightarrow> go_error option \<times> 's) \<Rightarrow> poll list \<Rightarrow> 's \<Rightarrow> go_error option \<times> 's"
  mc_Commit :: "'s \<Rightarrow> go_error option \<times> 's"
  mc_Close :: "'s \<Rightarrow> go_error option \<times> 's"

definition KafkaConsumer :: "kafka_config \<Rightarrow> 's message_consumer" where
  "KafkaConsumer cfg =
     \<lparr>mc_Subscribe = (\<lambda>topic groupID. subscribe (decode_message topic)),
      mc_SubscribeRawBlocks = (\<lambda>groupID. subscribe decode_block),
      mc_SubscribeNormalizedTransactions = (\<lambda>groupID. subscribe decode_tx),
      mc_SubscribeReorgEvents = (\<lambda>groupID. subscribe decode_event),
      mc_SubscribeDLQ = (\<lambda>groupID. subscribe decode_dlq),
      mc_Commit = (\<lambda>s. (None, s)), mc_Close = (\<lambda>s. (None, s))\<rparr>"

text \<open>The topic and the group a subscription reads, from which its polls come.\<close>

record reader_config =
  rd_Brokers :: "string list"
  rd_GroupID :: string
  rd_Topic :: string

definition createReader :: "kafka_config \<Rightarrow> string \<Rightarrow> string \<Rightarrow> reader_config" where
  "createReader cfg topic groupID = \<lparr>rd_Brokers = kc_Brokers cfg, rd_GroupID = groupID, rd_Topic = topic\<rparr>"

text \<open>The constructors fill in a missing name in the configuration they share with the caller.\<close>

definition NewKafkaConsumer :: "kafka_config option \<Rightarrow> go_error + 's message_consumer \<times> kafka_config" where
  "NewKafkaConsumer config =
     (case config of
        None \<Rightarrow> Inl (Msg ''Kafka brokers cannot be empty'')
      | Some cfg \<Rightarrow>
          if kc_Brokers cfg = [] then Inl (Msg ''Kafka brokers cannot be empty'')
          else (let cfg' = (if kc_ClientID cfg = '''' then cfg\<lparr>kc_ClientID := ''multi-chain-scanner''\<rparr> else cfg)
                in Inr (KafkaConsumer cfg', cfg')))"

text \<open>RocketMQ's subscriptions wait for the context.\<close>

fun until_done :: "poll list \<Rightarrow> 's \<Rightarrow> go_error option \<times> 's" where
  "until_done [] s = (None, s)"
| "until_done (PDone e # ps) s = (Some e, s)"
| "until_done (PFailed # ps) s = until_done ps s"
| "until_done (PMessage r # ps) s = until_done ps s"

definition RocketMQConsumer :: "rocket_config \<Rightarrow> 's message_consumer" where
  "RocketMQConsumer cfg =
     \<lparr>mc_Subscribe = (\<lambda>topic groupID handler. until_done), mc_SubscribeRawBlocks = (\<lambda>groupID handler. until_done),
      mc_SubscribeNormalizedTransactions = (\<lambda>groupID handler. until_done),
      mc_SubscribeReorgEvents = (\<lambda>groupID handler. until_done), mc_SubscribeDLQ = (\<lambda>groupID handler. until_done),
      mc_Commit = (\<lambda>s. (None, s)), mc_Close = (\<lambda>s. (None, s))\<rparr>"

definition NewRocketMQConsumer :: "rocket_config option \<Rightarrow> go_error + 's message_consumer \<times> rocket_config" where
  "NewRocketMQConsumer config =
     (case config of
        None \<Rightarrow> Inl (Msg ''RocketMQ name servers cannot be empty'')
      | Some cfg \<Rightarrow>
          if rc_NameServers cfg = [] then Inl (Msg ''RocketMQ name servers cannot be empty'')
          else (let cfg' = (if rc_GroupID cfg = '''' then cfg\<lparr>rc_GroupID := ''multi-chain-scanner''\<rparr> else cfg)
                in Inr (RocketMQConsumer cfg', cfg')))"

section \<open>The manager\<close>

record ('w, 's) queue_manager =
  qmg_producer :: "'w message_producer option"
  qmg_consumer :: "'s message_consumer option"
  qmg_config :: queue_config

definition NewQueueManager ::
    "(string list \<Rightarrow> 'w kafka_writer) \<Rightarrow> queue_config option \<Rightarrow> go_error + ('w, 's) queue_manager" where
  "NewQueueManager writer config =
     (case config of
        None \<Rightarrow> Inl (Msg ''config cannot be nil'')
      | Some q \<Rightarrow>
          if qc_Kafka q \<noteq> None then
            andthen (wrap_res ''failed to create Kafka producer'' (NewKafkaProducer writer (qc_Kafka q))) (\<lambda>p.
            andthen (wrap_res ''failed to create Kafka consumer'' (NewKafkaConsumer (qc_Kafka q))) (\<lambda>(c, cfg).
              Inr \<lparr>qmg_producer = Some p, qmg_consumer = Some c, qmg_config = q\<lparr>qc_Kafka := Some cfg\<rparr>\<rparr>))
          else if qc_RocketMQ q \<noteq> None then
            andthen (wrap_res ''failed to create RocketMQ producer'' (NewRocketMQProducer (qc_RocketMQ q))) (\<lambda>p.
            andthen (wrap_res ''failed to create RocketMQ consumer'' (NewRocketMQConsumer (qc_RocketMQ q))) (\<lambda>(c, cfg).
              Inr \<lparr>qmg_producer = Some p, qmg_consumer = Some c, qmg_config = q\<lparr>qc_RocketMQ := Some cfg\<rparr>\<rparr>))
          else Inl (Msg ''either Kafka or RocketMQ config must be provided''))"

definition queue_Close :: "('w, 's) queue_manager \<Rightarrow> 'w \<times> 's \<Rightarrow> go_error option \<times> 'w \<times> 's" where
  "queue_Close m ws =
     (case ws of (w, s) \<Rightarrow>
      (case (case qmg_producer m of None \<Rightarrow> (None, w) | Some p \<Rightarrow> mp_Close p w) of (e1, w') \<Rightarrow>
      (case (case qmg_consumer m of None \<Rightarrow> (None, s) | Some c \<Rightarrow> mc_Close c s) of (e2, s') \<Rightarrow>
        (if e2 = None then e1 else e2, w', s'))))"


section \<open>What a subscription handles\<close>

fun messages :: "poll list \<Rightarrow> kafka_record list" where
  "messages [] = []"
| "messages (PDone e # ps) = []"
| "messages (PFailed # ps) = messages ps"
| "messages (PMessage r # ps) = r # messages ps"

lemma subscribe_folds:
  "snd (subscribe decode handler ps s) = fold (\<lambda>x v. snd (handler x v)) (List.map_filter decode (messages ps)) s"
  by (induction decode handler ps s rule: subscribe.induct)
    (auto simp: List.map_filter_simps split: option.split prod.split)

text \<open>A topic whose values are rendered by \<open>doc\<close> and decoded by \<open>decode\<close>, for the values that are \<open>ok\<close>.\<close>

locale topic_codec =
  fixes doc :: "'a \<Rightarrow> json" and decode :: "kafka_record \<Rightarrow> 'a option" and ok :: "'a \<Rightarrow> bool"
  assumes decode_doc: "ok x \<Longrightarrow> kr_value r = Some (doc x) \<Longrightarrow> decode r = Some x"
begin

lemma decodes: "map kr_value rs = map (\<lambda>x. Some (doc x)) xs \<Longrightarrow> \<forall>x \<in> set xs. ok x \<Longrightarrow> List.map_filter decode rs = xs"
proof (induction xs arbitrary: rs)
  case (Cons x xs)
  then obtain r rs' where "rs = r # rs'" "kr_value r = Some (doc x)" "map kr_value rs' = map (\<lambda>x. Some (doc x)) xs" by auto
  then show ?case using Cons decode_doc [of x r] by (simp add: List.map_filter_simps)
qed (simp add: List.map_filter_simps)

lemma delivered:
  "map kr_value (messages ps) = map (\<lambda>x. Some (doc x)) xs \<Longrightarrow> \<forall>x \<in> set xs. ok x \<Longrightarrow>
    snd (subscribe decode handler ps s) = fold (\<lambda>x v. snd (handler x v)) xs s"
  by (simp add: subscribe_folds decodes)

end

lemma tx_doc_not_null: "tx_doc t \<noteq> JNull" "block_doc b \<noteq> JNull" "event_doc ev \<noteq> JNull"
  by (simp_all add: tx_doc_def block_doc_def event_doc_def)

interpretation tx_topic: topic_codec tx_doc decode_tx "\<lambda>t. proper_status (GoTypes.tx_status t)"
  by unfold_locales (simp add: decode_tx_def into_struct_def tx_doc_not_null read_tx_digits)

interpretation block_topic: topic_codec block_doc decode_block "\<lambda>b. \<forall>t \<in> set (blk_transactions b). proper_status (GoTypes.tx_status t)"
  by unfold_locales (simp add: decode_block_def into_struct_def tx_doc_not_null read_block_digits)

interpretation event_topic: topic_codec event_doc decode_event "\<lambda>ev. True"
  by unfold_locales (simp add: decode_event_def into_struct_def tx_doc_not_null)

text \<open>
  What Kafka promises of a writer: the messages of a write that succeeds are appended to their topics, here of
  one partition. \<open>L w topic\<close> are their keys and values.
\<close>

definition kafka_laws :: "'w kafka_writer \<Rightarrow> ('w \<Rightarrow> string \<Rightarrow> (string \<times> json option) list) \<Rightarrow> bool" where
  "kafka_laws K L \<longleftrightarrow>
     (\<forall>ms w w'. kw_WriteMessages K ms w = (None, w') \<longrightarrow>
        (\<forall>tp. L w' tp = L w tp @ map (\<lambda>m. (kr_key m, kr_value m)) (filter (\<lambda>m. kr_topic m = tp) ms)))"

lemma kafka_sent:
  assumes "kafka_laws K L" "kafka_SendMessage K clock topic key value w = (None, w')"
  shows "value \<noteq> None \<and> L w' tp = L w tp @ (if topic = tp then [(key, value)] else [])"
proof (cases "value")
  case None
  then show ?thesis using assms(2) by (simp add: kafka_SendMessage_def)
next
  case (Some data)
  obtain e w1 where e: "kw_WriteMessages K [\<lparr>kr_topic = topic, kr_key = key, kr_value = Some data, kr_time = clock 0\<rparr>] w = (e, w1)"
    by (rule prod.exhaust)
  have "e = None" "w1 = w'" using assms(2) e by (auto simp: kafka_SendMessage_def Some)
  then show ?thesis using assms(1) e Some unfolding kafka_laws_def by fastforce
qed

fun send_each :: "('a \<Rightarrow> 'w \<Rightarrow> go_error option \<times> 'w) \<Rightarrow> 'a list \<Rightarrow> 'w \<Rightarrow> go_error option \<times> 'w" where
  "send_each send [] w = (None, w)"
| "send_each send (x # xs) w = (case send x w of (Some e, w') \<Rightarrow> (Some e, w') | (None, w') \<Rightarrow> send_each send xs w')"

lemma sent_each:
  assumes "\<And>x w w'. send x w = (None, w') \<Longrightarrow> L w' = L w @ [f x]" "send_each send xs w = (None, w')"
  shows "L w' = L w @ map f xs"
  using assms(2)
proof (induction xs arbitrary: w)
  case (Cons x xs)
  obtain e w1 where e: "send x w = (e, w1)" by (rule prod.exhaust)
  then have "e = None" "send_each send xs w1 = (None, w')" using Cons.prems by (auto split: option.split_asm)
  then show ?case using Cons.IH [of w1] assms(1) e by simp
qed simp



text \<open>A writer that keeps what it is given.\<close>

definition mem_kafka :: "kafka_record list kafka_writer" where
  "mem_kafka = \<lparr>kw_WriteMessages = (\<lambda>ms w. (None, w @ ms)), kw_Close = (\<lambda>w. (None, w))\<rparr>"

definition mem_topic :: "kafka_record list \<Rightarrow> string \<Rightarrow> (string \<times> json option) list" where
  "mem_topic w tp = map (\<lambda>m. (kr_key m, kr_value m)) (filter (\<lambda>m. kr_topic m = tp) w)"

lemma mem_kafka_laws: "kafka_laws mem_kafka mem_topic"
  by (simp add: kafka_laws_def mem_kafka_def mem_topic_def)

definition sample_kafka :: kafka_config where
  "sample_kafka =
     \<lparr>kc_Brokers = [''localhost:9092''], kc_ClientID = '''',
      kc_Topics = \<lparr>tp_RawBlock = ''raw'', tp_NormalizedTx = ''tx'', tp_ReorgEvent = ''reorg'', tp_DLQ = ''dlq''\<rparr>\<rparr>"

definition sample_sent :: "transaction list" where
  "sample_sent =
     [zero_tx\<lparr>tx_hash := ''0x1'', tx_status := TxConfirmed, tx_value := Some (10 ^ 24 + 1)\<rparr>,
      zero_tx\<lparr>tx_hash := ''0x2'', tx_status := TxConfirmed\<rparr>]"


text \<open>
  What is put into the dead letter queue comes out of it: its handler gets the reason, and the message as the
  decoding into an interface leaves it.
\<close>

theorem dlq_roundtrip:
  assumes "kafka_laws K L" "kafka_SendToDLQ K cfg clock (Some m) reason w = (None, w')" "thru m = Some m'"
    and "map (\<lambda>r. (kr_key r, kr_value r)) (messages polls) = drop (length (L w (tp_DLQ (kc_Topics cfg)))) (L w' (tp_DLQ (kc_Topics cfg)))"
  shows "snd (mc_SubscribeDLQ (KafkaConsumer cfg) g handler polls s) = snd (handler (m', reason) s)"
proof -
  let ?tp = "tp_DLQ (kc_Topics cfg)"
  have "L w' ?tp = L w ?tp @ [(dlq_key (clock 1), Some (dlq_doc m reason (clock 0)))]"
    using kafka_sent [OF assms(1) assms(2) [unfolded kafka_SendToDLQ_def], of ?tp] by simp
  then have "map (\<lambda>r. (kr_key r, kr_value r)) (messages polls) = [(dlq_key (clock 1), Some (dlq_doc m reason (clock 0)))]"
    using assms(4) by simp
  then obtain r where r: "messages polls = [r]" "kr_value r = Some (dlq_doc m reason (clock 0))" by auto
  then have "decode_dlq r = Some (m', reason)"
    using assms(3) by (simp add: decode_dlq_def dlq_doc_def time_text_def str_or_empty_def)
  then show ?thesis using r(1) by (simp add: KafkaConsumer_def subscribe_folds List.map_filter_simps)
qed

theorem dlq_roundtrip_witness:
  "\<exists>w' polls. kafka_SendToDLQ mem_kafka sample_kafka (\<lambda>k. 5) (Some (JArr [JNum 7])) ''bad'' [] = (None, w')
    \<and> snd (mc_SubscribeDLQ (KafkaConsumer sample_kafka) ''g'' (\<lambda>x v. (None, v @ [x])) polls []) = [(JArr [JNum 7], ''bad'')]"
proof -
  obtain w' where w: "kafka_SendToDLQ mem_kafka sample_kafka (\<lambda>k. 5) (Some (JArr [JNum 7])) ''bad'' [] = (None, w')"
    by (simp add: kafka_SendToDLQ_def kafka_SendMessage_def mem_kafka_def)
  have p: "map (\<lambda>r. (kr_key r, kr_value r)) (messages [PMessage (hd w')]) = drop (length (mem_topic [] (tp_DLQ (kc_Topics sample_kafka))))
      (mem_topic w' (tp_DLQ (kc_Topics sample_kafka)))"
    using w by (auto simp: mem_topic_def kafka_SendToDLQ_def kafka_SendMessage_def mem_kafka_def)
  have t: "thru (JArr [JNum 7]) = Some (JArr [JNum 7])" by simp
  from dlq_roundtrip [OF mem_kafka_laws w t p, of "''g''" "\<lambda>x v. (None, v @ [x])" "[]"] w show ?thesis by auto
qed


text \<open>
  With RocketMQ alone configured, everything sent is lost and nothing is ever handled: every message that can
  be rendered is reported as sent while nothing of the outside is touched, and a subscription leaves its
  handler's state as it was.
\<close>

theorem rocketmq_loses_messages:
  assumes "NewQueueManager writer (Some q) = Inr m" "qc_Kafka q = None"
  shows "\<exists>p c. qmg_producer m = Some p \<and> qmg_consumer m = Some c
    \<and> mp_SendRawBlock p clock b w = (None, w) \<and> mp_SendNormalizedTransaction p clock t w = (None, w)
    \<and> mp_SendReorgEvent p clock ev w = (None, w) \<and> mp_BatchSendMessages p topic ms w = (None, w)
    \<and> mp_SendToDLQ p clock (Some j) reason w = (None, w)
    \<and> snd (mc_SubscribeRawBlocks c g hb polls s) = s \<and> snd (mc_SubscribeNormalizedTransactions c g ht polls s) = s
    \<and> snd (mc_SubscribeReorgEvents c g he polls s) = s \<and> snd (mc_Subscribe c topic g hm polls s) = s
    \<and> snd (mc_SubscribeDLQ c g h polls s) = s"
proof -
  have u: "snd (until_done polls s) = s" by (induction polls s rule: until_done.induct) simp_all
  obtain cfg cfg' where m: "qmg_producer m = Some (RocketMQProducer cfg)" "qmg_consumer m = Some (RocketMQConsumer cfg')"
    using assms by (auto simp: NewQueueManager_def NewRocketMQProducer_def NewRocketMQConsumer_def andthen_Inr wrap_res_def Let_def
        split: option.split_asm if_split_asm sum.split_asm)
  show ?thesis
    by (intro exI [of _ "RocketMQProducer cfg"] exI [of _ "RocketMQConsumer cfg'"])
      (simp add: m RocketMQProducer_def RocketMQConsumer_def rocket_SendMessage_def rocket_BatchSendMessages_def u)
qed

definition sample_rocket :: queue_config where
  "sample_rocket =
     \<lparr>qc_Kafka = None,
      qc_RocketMQ = Some \<lparr>rc_NameServers = [''localhost:9876''], rc_GroupID = '''', rc_Topics = kc_Topics sample_kafka\<rparr>,
      qc_BatchSize = 100, qc_BatchTimeout = 0, qc_MaxRetries = 3, qc_RetryDelay = 0\<rparr>"

theorem rocketmq_loses_messages_witness:
  "\<exists>m :: (nat, nat) queue_manager. NewQueueManager (\<lambda>b. \<lparr>kw_WriteMessages = (\<lambda>ms n. (None, n + length ms)), kw_Close = Pair None\<rparr>)
      (Some sample_rocket) = Inr m
    \<and> (\<exists>p. qmg_producer m = Some p \<and> mp_SendRawBlock p (\<lambda>k. 0) zero_block 0 = (None, 0))"
proof -
  let ?K = "\<lambda>b. \<lparr>kw_WriteMessages = (\<lambda>ms n. (None, n + length ms)), kw_Close = Pair None\<rparr>"
  obtain m :: "(nat, nat) queue_manager" where m: "NewQueueManager ?K (Some sample_rocket) = Inr m"
    by (simp add: NewQueueManager_def sample_rocket_def NewRocketMQProducer_def NewRocketMQConsumer_def Let_def)
  have k: "qc_Kafka sample_rocket = None" by (simp add: sample_rocket_def)
  obtain p where p: "qmg_producer m = Some p" "mp_SendRawBlock p (\<lambda>k. 0) zero_block 0 = (None, 0)"
    using rocketmq_loses_messages [OF m k, where b = zero_block and clock = "\<lambda>k. 0" and w = 0 and t = zero_tx and ev = zero_event
        and topic = "''t''" and ms = "[]" and j = JNull and reason = "''r''" and g = "''g''" and polls = "[]" and s = 0
        and hb = "\<lambda>x v. (None, v)" and ht = "\<lambda>x v. (None, v)" and he = "\<lambda>x v. (None, v)" and hm = "\<lambda>x v. (None, v)"
        and h = "\<lambda>x v. (None, v)"] by blast
  show ?thesis by (intro exI conjI) (rule m, rule p, rule p)
qed

text \<open>
  The keys of blocks tell them apart. Those of transactions' logs do not in general, nor do those of two
  reorganisations of a chain within a second.
\<close>

theorem block_keys_injective:
  "(GenerateBlockMessageKey c n = GenerateBlockMessageKey c' n' \<longleftrightarrow> c = c' \<and> n = n')
    \<and> GenerateMessageKey ''a-b'' ''c'' n = GenerateMessageKey ''a'' ''b-c'' n
    \<and> GenerateReorgEventKey c (10 ^ 9 * k) = GenerateReorgEventKey c (10 ^ 9 * k + 999999999)"
proof -
  have d: "CHR ''-'' \<notin> set (fmt_u64 k)" for k :: u64 using fmt_nat_chars [of 10] by fastforce
  have "c = c' \<and> n = n'" if "GenerateBlockMessageKey c n = GenerateBlockMessageKey c' n'"
  proof -
    have "c = c' \<and> fmt_u64 n = fmt_u64 n'"
      using that by (intro last_separator [where s = "CHR ''-''"]) (simp_all add: GenerateBlockMessageKey_def d)
    then show ?thesis using fmt_nat_inject [of 10 "unat n" "unat n'"] by (simp add: word_unat_eq_iff)
  qed
  then show ?thesis by (auto simp: GenerateMessageKey_def GenerateReorgEventKey_def)
qed

text \<open>
  A batch sent through Kafka appends to its topic exactly the messages that can be rendered, in their order;
  the others disappear without an error.
\<close>

theorem kafka_batch_sends_rendered:
  assumes "kafka_laws K L" "kafka_BatchSendMessages K topic ms w = (None, w')" "ms \<noteq> []"
  shows "L w' topic = L w topic @ [(qm_Key m, qm_Value m). m \<leftarrow> ms, qm_Value m \<noteq> None]"
proof -
  obtain e w1 where e: "kw_WriteMessages K (kafka_batch topic ms) w = (e, w1)" by (rule prod.exhaust)
  then have "e = None" "w1 = w'" using assms(2,3) by (auto simp: kafka_BatchSendMessages_def)
  then have "L w' topic = L w topic @ map (\<lambda>m. (kr_key m, kr_value m)) (filter (\<lambda>m. kr_topic m = topic) (kafka_batch topic ms))"
    using assms(1) e unfolding kafka_laws_def by blast
  moreover have "map (\<lambda>m. (kr_key m, kr_value m)) (filter (\<lambda>m. kr_topic m = topic) (kafka_batch topic ms))
      = [(qm_Key m, qm_Value m). m \<leftarrow> ms, qm_Value m \<noteq> None]"
    by (induction ms) (auto simp: kafka_batch_def List.map_filter_simps split: option.split)
  ultimately show ?thesis by simp
qed

theorem kafka_batch_sends_rendered_witness:
  "\<exists>w'. kafka_BatchSendMessages mem_kafka ''t'' [\<lparr>qm_Topic = ''t'', qm_Key = ''a'', qm_Value = None, qm_Timestamp = 0, qm_Retries = 0\<rparr>,
      \<lparr>qm_Topic = ''t'', qm_Key = ''b'', qm_Value = Some JNull, qm_Timestamp = 0, qm_Retries = 0\<rparr>] [] = (None, w')
    \<and> mem_topic w' ''t'' = [(''b'', Some JNull)]"
proof -
  let ?ms = "[\<lparr>qm_Topic = ''t'', qm_Key = ''a'', qm_Value = None, qm_Timestamp = 0, qm_Retries = 0\<rparr>,
      \<lparr>qm_Topic = ''t'', qm_Key = ''b'', qm_Value = Some JNull, qm_Timestamp = 0, qm_Retries = 0\<rparr>]"
  obtain w' where w: "kafka_BatchSendMessages mem_kafka ''t'' ?ms [] = (None, w')"
    by (simp add: kafka_BatchSendMessages_def mem_kafka_def)
  from kafka_batch_sends_rendered [OF mem_kafka_laws w] w show ?thesis by (simp add: mem_topic_def [of "[]"])
qed

end
