(* ===== verification/Startup.thy ===== *)
theory Startup
  imports Configuration Clients Lifecycle Wallet
begin

text \<open>
  \<open>cmd/scanner/main.go\<close>: the composition of the program. Reading the configuration, making the logger and
  connecting to the nodes are parameters; the HTTP servers are in \<open>Api\<close>, the log is left out.
\<close>

record started =
  sp_config :: config
  sp_registry :: client_registry
  sp_scanners :: scheduler_manager
  sp_wallet :: "(string \<times> client) list"

text \<open>Every chain is registered, the disabled ones as well; one whose client cannot be made is only logged.\<close>

definition register_chains :: "int \<Rightarrow> connector \<Rightarrow> (string \<times> chain_config) list \<Rightarrow> client_registry" where
  "register_chains now connect cs = fold (\<lambda>(chainID, c) r. snd (RegisterClient now connect chainID c r)) cs []"

definition main_lock_manager :: lock_manager where
  "main_lock_manager = \<lparr>lmg_default_ttl = 30 * 10 ^ 9\<rparr>"

text \<open>The client of the registry, of which the manager only asks whether it is \<open>nil\<close>.\<close>

definition client_nil :: "client_registry \<Rightarrow> string \<Rightarrow> go_error + bool" where
  "client_nil reg chainID = (case GetClient chainID reg of Inl e \<Rightarrow> Inl e | Inr c \<Rightarrow> Inr False)"

definition make_scanners :: "int \<Rightarrow> config \<Rightarrow> client_registry \<Rightarrow> (go_error + scheduler_manager) outcome" where
  "make_scanners now cfg reg =
     NewSchedulerManager (GetChainConfig cfg) (client_nil reg)
       (\<lambda>chainID clientNil. NewChainScanner now chainID clientNil (cfg_Scanner cfg) (Some main_lock_manager))
       False False False (GetEnabledChains cfg)"

text \<open>
  Up to the wait for a signal: a configuration or logger that fails is a panic, a manager that cannot be made
  or started ends the program (\<open>Inl\<close>).
\<close>

definition scanner_main :: "viper \<Rightarrow> (logging_config \<Rightarrow> go_error option) \<Rightarrow> int \<Rightarrow> connector \<Rightarrow> (go_error + started) outcome" where
  "scanner_main V initLogger now connect =
     (case LoadConfig V ''config.yaml'' of
        Inl e \<Rightarrow> Panics
      | Inr cfg \<Rightarrow>
          if initLogger (cfg_Logging cfg) \<noteq> None then Panics
          else (let reg = register_chains now connect (cfg_Chains cfg) in
            outcome_bind (make_scanners now cfg reg) (\<lambda>made. case made of
              Inl e \<Rightarrow> Returns (Inl e)
            | Inr m \<Rightarrow> outcome_bind (manager_Start m) (\<lambda>(e, m'). case e of
                Some x \<Rightarrow> Returns (Inl x)
              | None \<Rightarrow> Returns (Inr \<lparr>sp_config = cfg, sp_registry = reg, sp_scanners = m',
                  sp_wallet = NewWalletService now connect (cfg_Chains cfg)\<rparr>)))))"

text \<open>After the signal: the error of \<open>Stop\<close> is logged.\<close>

definition scanner_shutdown :: "started \<Rightarrow> started outcome" where
  "scanner_shutdown st = outcome_bind (manager_Stop (sp_scanners st)) (\<lambda>(e, m). Returns (st\<lparr>sp_scanners := m\<rparr>))"

section \<open>The registry\<close>

lemma GetClient_registered:
  "GetClient k (snd (RegisterClient now connect k' c r)) =
     (if k = k' then (case CreateClient now connect k' c of Inr cl \<Rightarrow> Inr cl | Inl e \<Rightarrow> GetClient k r) else GetClient k r)"
  by (auto simp: RegisterClient_def GetClient_def update_conv' split: sum.split)

lemma register_chains_other:
  "k \<notin> fst ` set cs \<Longrightarrow>
    GetClient k (fold (\<lambda>(chainID, c) r. snd (RegisterClient now connect chainID c r)) cs r) = GetClient k r"
  by (induction cs arbitrary: r) (auto simp: GetClient_registered)

lemma register_chains_get:
  assumes "distinct (map fst cs)" "(k, c) \<in> set cs"
  shows "(\<exists>cl. GetClient k (register_chains now connect cs) = Inr cl) \<longleftrightarrow> (\<exists>cl. CreateClient now connect k c = Inr cl)"
proof -
  have "(\<exists>cl. GetClient k (fold (\<lambda>(chainID, c) r. snd (RegisterClient now connect chainID c r)) cs r) = Inr cl)
      \<longleftrightarrow> (\<exists>cl. CreateClient now connect k c = Inr cl)" if "map_of r k = None" for r
    using assms that
  proof (induction cs arbitrary: r)
    case (Cons x cs)
    obtain k' c' where x: "x = (k', c')" by (rule prod.exhaust)
    show ?case
    proof (cases "k = k'")
      case True
      then have c: "c' = c" "k' \<notin> fst ` set cs" using Cons.prems(1,2) x by (force simp: image_iff)+
      then have "GetClient k (fold (\<lambda>(chainID, c) r. snd (RegisterClient now connect chainID c r)) (x # cs) r)
          = GetClient k' (snd (RegisterClient now connect k' c r))"
        using register_chains_other [OF c(2)] by (simp add: x True)
      then show ?thesis using Cons.prems(3) unfolding GetClient_registered
        by (auto simp: True GetClient_def split: sum.split)
    next
      case False
      then have "map_of (snd (RegisterClient now connect k' c' r)) k = None"
        using Cons.prems(3) by (auto simp: RegisterClient_def update_conv' split: sum.split)
      then show ?thesis using Cons.IH Cons.prems False x by simp
    qed
  qed simp
  then show ?thesis by (simp add: register_chains_def)
qed

section \<open>The scanners\<close>

text \<open>Whether a scanner can be made depends on the settings of the scanner only.\<close>

definition scanner_makes :: "int \<Rightarrow> scanner_config \<Rightarrow> bool" where
  "scanner_makes now cfg \<longleftrightarrow> (\<exists>s. NewChainScanner now '''' False cfg (Some main_lock_manager) = Returns (Inr s))"

lemma scanner_makes_any:
  "(\<exists>s. NewChainScanner now c False cfg (Some main_lock_manager) = Returns (Inr s)) \<longleftrightarrow> scanner_makes now cfg"
  by (auto simp: scanner_makes_def NewChainScanner_def NewWatermarkManager_def NewShardingManager_def NewReorgHandler_def
      split: sum.split)

definition fresh_scanner :: "int \<Rightarrow> scanner_config \<Rightarrow> chain_scanner \<Rightarrow> bool" where
  "fresh_scanner now cfg s \<longleftrightarrow> (\<exists>c. NewChainScanner now c False cfg (Some main_lock_manager) = Returns (Inr s))"

abbreviation scanners_loop where
  "scanners_loop now cfg reg getcfg \<equiv> init_loop getcfg (client_nil reg)
     (\<lambda>k clientNil. NewChainScanner now k clientNil cfg (Some main_lock_manager))"

lemma scanners_loop_skip:
  "\<not> ((\<exists>c. getcfg k = Inr c) \<and> (\<exists>cl. GetClient k reg = Inr cl)) \<Longrightarrow>
    scanners_loop now cfg reg getcfg (k # cs) acc = scanners_loop now cfg reg getcfg cs acc"
  by (auto simp: client_nil_def split: sum.split)

lemma scanners_loop_step:
  "getcfg k = Inr c \<Longrightarrow> GetClient k reg = Inr cl \<Longrightarrow>
    scanners_loop now cfg reg getcfg (k # cs) acc =
     (case NewChainScanner now k False cfg (Some main_lock_manager) of
        Returns (Inl e) \<Rightarrow> scanners_loop now cfg reg getcfg cs acc
      | Returns (Inr s) \<Rightarrow> scanners_loop now cfg reg getcfg cs (AList.update k s acc)
      | Blocks \<Rightarrow> Blocks | Panics \<Rightarrow> Panics)"
  by (simp add: client_nil_def)

lemma init_loop_scanners:
  assumes "scanners_loop now cfg reg getcfg cs acc = Returns ss" "\<forall>s \<in> snd ` set acc. fresh_scanner now cfg s"
  shows "(\<forall>s \<in> snd ` set ss. fresh_scanner now cfg s)
    \<and> fst ` set ss = fst ` set acc \<union> {k \<in> set cs. scanner_makes now cfg \<and> (\<exists>c. getcfg k = Inr c) \<and> (\<exists>cl. GetClient k reg = Inr cl)}"
  using assms
proof (induction cs arbitrary: acc)
  case (Cons k cs)
  show ?case
  proof (cases "(\<exists>c. getcfg k = Inr c) \<and> (\<exists>cl. GetClient k reg = Inr cl)")
    case False
    then have "scanners_loop now cfg reg getcfg cs acc = Returns ss" using Cons.prems(1) scanners_loop_skip by metis
    from Cons.IH [OF this Cons.prems(2)] False show ?thesis by auto
  next
    case True
    then obtain c cl where yes: "getcfg k = Inr c" "GetClient k reg = Inr cl" by blast
    note step = scanners_loop_step [where now = now and cfg = cfg and cs = cs and acc = acc, of getcfg k c reg cl, OF yes]
    show ?thesis
    proof (cases "\<exists>s. NewChainScanner now k False cfg (Some main_lock_manager) = Returns (Inr s)")
      case True
      then obtain s where s: "NewChainScanner now k False cfg (Some main_lock_manager) = Returns (Inr s)" by blast
      have f: "\<forall>s \<in> snd ` set (AList.update k s acc). fresh_scanner now cfg s"
        using Cons.prems(2) s by (induction acc) (auto simp: fresh_scanner_def)
      have u: "fst ` set (AList.update k s acc) = insert k (fst ` set acc)" by (simp add: dom_update)
      have l: "scanners_loop now cfg reg getcfg cs (AList.update k s acc) = Returns ss"
        using Cons.prems(1) unfolding step s by simp
      have "scanner_makes now cfg" using True scanner_makes_any [of now k cfg] by simp
      then have "insert k (fst ` set acc) \<union> {k \<in> set cs. scanner_makes now cfg \<and> (\<exists>c. getcfg k = Inr c) \<and> (\<exists>cl. GetClient k reg = Inr cl)}
          = fst ` set acc \<union> {k' \<in> set (k # cs). scanner_makes now cfg \<and> (\<exists>c. getcfg k' = Inr c) \<and> (\<exists>cl. GetClient k' reg = Inr cl)}"
        using yes by auto
      then show ?thesis using Cons.IH [OF l f] u by simp
    next
      case False
      then have "scanners_loop now cfg reg getcfg cs acc = Returns ss"
        using Cons.prems(1) unfolding step by (auto split: outcome.split_asm sum.split_asm)
      moreover have "\<not> scanner_makes now cfg" using False scanner_makes_any [of now k cfg] by simp
      ultimately show ?thesis using Cons.IH [of acc] Cons.prems(2) by simp
    qed
  qed
qed simp


lemma scanner_main_started:
  assumes "scanner_main V initLogger now connect = Returns (Inr st)"
  obtains ss where "LoadConfig V ''config.yaml'' = Inr (sp_config st)"
    "scanners_loop now (cfg_Scanner (sp_config st)) (register_chains now connect (cfg_Chains (sp_config st)))
      (GetChainConfig (sp_config st)) (GetEnabledChains (sp_config st)) [] = Returns ss"
    "ss \<noteq> []" "sp_scanners st = \<lparr>scm_scanners = map (\<lambda>(c, s). (c, snd (scanner_Start s))) ss, scm_locked = False\<rparr>"
proof -
  obtain cfg where cfg: "LoadConfig V ''config.yaml'' = Inr cfg"
    using assms by (auto simp: scanner_main_def split: sum.split_asm)
  let ?reg = "register_chains now connect (cfg_Chains cfg)"
  obtain made where made: "make_scanners now cfg ?reg = Returns made"
    using assms cfg by (auto simp: scanner_main_def Let_def outcome_bind_Returns split: if_split_asm)
  obtain m m' where m: "make_scanners now cfg ?reg = Returns (Inr m)" "manager_Start m = Returns (None, m')"
      "sp_config st = cfg" "sp_scanners st = m'"
    using assms cfg made
    by (cases made) (auto simp: scanner_main_def Let_def outcome_bind_Returns split: option.split_asm if_split_asm)
  obtain ss where ss: "scanners_loop now (cfg_Scanner cfg) ?reg (GetChainConfig cfg) (GetEnabledChains cfg) [] = Returns ss"
      "ss \<noteq> []" "m = \<lparr>scm_scanners = ss, scm_locked = False\<rparr>"
    using m(1) by (auto simp: make_scanners_def NewSchedulerManager_def outcome_bind_Returns split: if_split_asm)
  show thesis using that [of ss] cfg m ss by (simp add: manager_Start_def)
qed

text \<open>
  C13: Once the program has started, the chains with a scanner are exactly those that are enabled, pass the checks
  of the configuration and have a client; all of their scanners run.
\<close>

theorem main_runs_enabled:
  assumes "scanner_main V initLogger now connect = Returns (Inr st)" "distinct (map fst (cfg_Chains (sp_config st)))"
  shows "(\<exists>s. (k, s) \<in> set (scm_scanners (sp_scanners st)) \<and> ss_running (cs_status s))
    \<longleftrightarrow> (\<exists>c cl. (k, c) \<in> set (cfg_Chains (sp_config st)) \<and> cc_enabled c \<and> valid_chain c \<and> CreateClient now connect k c = Inr cl)"
proof -
  let ?cfg = "sp_config st" and ?reg = "register_chains now connect (cfg_Chains (sp_config st))"
  obtain ss where cfg: "LoadConfig V ''config.yaml'' = Inr ?cfg"
    and ss: "scanners_loop now (cfg_Scanner ?cfg) ?reg (GetChainConfig ?cfg) (GetEnabledChains ?cfg) [] = Returns ss" "ss \<noteq> []"
    and m: "sp_scanners st = \<lparr>scm_scanners = map (\<lambda>(c, s). (c, snd (scanner_Start s))) ss, scm_locked = False\<rparr>"
    by (rule scanner_main_started [OF assms(1)])
  have valid: "valid_chain c" if "(k, c) \<in> set (cfg_Chains ?cfg)" "cc_enabled c" for c
    using LoadConfig_valid [OF cfg] that by (fastforce simp: valid_config_def list_all_iff)
  have keys: "fst ` set ss = {k \<in> set (GetEnabledChains ?cfg). scanner_makes now (cfg_Scanner ?cfg)
      \<and> (\<exists>c. GetChainConfig ?cfg k = Inr c) \<and> (\<exists>cl. GetClient k ?reg = Inr cl)}"
    using init_loop_scanners [OF ss(1)] by simp
  obtain k' s' where "(k', s') \<in> set ss" using ss(2) by (cases ss) auto
  then have makes: "scanner_makes now (cfg_Scanner ?cfg)" using keys by (metis (lifting) image_eqI fst_conv mem_Collect_eq)
  have "(\<exists>s. (k, s) \<in> set (scm_scanners (sp_scanners st)) \<and> ss_running (cs_status s)) \<longleftrightarrow> k \<in> fst ` set ss"
    by (force simp: m scanner_Start_def Let_def)
  also have "\<dots> \<longleftrightarrow> k \<in> set (GetEnabledChains ?cfg) \<and> (\<exists>cl. GetClient k ?reg = Inr cl)"
    unfolding keys using makes GetChainConfig_enabled [OF assms(2), of k] by blast
  also have "\<dots> \<longleftrightarrow> (\<exists>c cl. (k, c) \<in> set (cfg_Chains ?cfg) \<and> cc_enabled c \<and> CreateClient now connect k c = Inr cl)"
    using GetEnabledChains_in [of k ?cfg] register_chains_get [OF assms(2), of k _ now connect] by blast
  finally show ?thesis using valid by blast
qed



section \<open>An example\<close>

definition sample_main_config :: config where
  "sample_main_config = sample_config\<lparr>cfg_Scanner := one_worker_config\<rparr>"

definition sample_viper :: viper where
  "sample_viper = \<lparr>vp_ReadInConfig = (\<lambda>path. Inr []), vp_Unmarshal = (\<lambda>defaults f. Inr sample_main_config)\<rparr>"

lemma sample_main_chains: "cfg_Chains sample_main_config = [(''eth'', sample_chain), (''off'', zero_chain)]"
  "cfg_Scanner sample_main_config = one_worker_config"
  by (simp_all add: sample_main_config_def sample_config_def)

lemma sample_load: "LoadConfig sample_viper path = Inr sample_main_config"
proof -
  have "valid_config sample_main_config"
    using sample_config_valid by (simp add: sample_main_config_def valid_config_def)
  then show ?thesis by (simp add: LoadConfig_def sample_viper_def flip: validateConfig_None)
qed

lemma sample_client: "\<exists>cl. CreateClient 7 (\<lambda>c. None) ''eth'' sample_chain = Inr cl"
  by (simp add: CreateClient_def NewEVMClient_def new_client_def NewNodeManager_def NewNodePool_def sample_chain_def
      List.map_filter_simps)

lemma sample_main: "\<exists>st. scanner_main sample_viper (\<lambda>c. None) 7 (\<lambda>c. None) = Returns (Inr st) \<and> sp_config st = sample_main_config"
proof -
  let ?reg = "register_chains 7 (\<lambda>c. None) (cfg_Chains sample_main_config)"
  have "\<exists>cl. GetClient ''eth'' ?reg = Inr cl"
    using register_chains_get [of "cfg_Chains sample_main_config" "''eth''" sample_chain 7 "\<lambda>c. None"] sample_client
    by (simp add: sample_main_chains)
  then obtain cl where cl: "GetClient ''eth'' ?reg = Inr cl" by blast
  have e: "GetEnabledChains sample_main_config = [''eth'']" "GetChainConfig sample_main_config ''eth'' = Inr sample_chain"
    by (simp_all add: GetEnabledChains_def GetChainConfig_def sample_main_chains sample_chain_def zero_chain_def)
  obtain s where s: "NewChainScanner 7 ''eth'' False one_worker_config (Some main_lock_manager) = Returns (Inr s)"
    by (simp add: NewChainScanner_def one_worker_config_def NewWatermarkManager_def NewReorgHandler_def)
  have "make_scanners 7 sample_main_config ?reg = Returns (Inr \<lparr>scm_scanners = [(''eth'', s)], scm_locked = False\<rparr>)"
    by (simp add: make_scanners_def NewSchedulerManager_def e cl client_nil_def s sample_main_chains(2))
  then show ?thesis by (simp add: scanner_main_def sample_load manager_Start_def Let_def)
qed

theorem main_runs_enabled_witness:
  "\<exists>st. scanner_main sample_viper (\<lambda>c. None) 7 (\<lambda>c. None) = Returns (Inr st)
    \<and> (\<exists>s. (''eth'', s) \<in> set (scm_scanners (sp_scanners st)) \<and> ss_running (cs_status s))"
proof -
  obtain st where st: "scanner_main sample_viper (\<lambda>c. None) 7 (\<lambda>c. None) = Returns (Inr st)" "sp_config st = sample_main_config"
    using sample_main by blast
  have v: "cc_enabled sample_chain" "valid_chain sample_chain"
    by (simp_all add: sample_chain_def valid_chain_def valid_node_def)
  have "\<exists>s. (''eth'', s) \<in> set (scm_scanners (sp_scanners st)) \<and> ss_running (cs_status s)"
    using main_runs_enabled [OF st(1), of "''eth''"] sample_client v by (simp add: st(2) sample_main_chains)
  then show ?thesis using st(1) by blast
qed


end
