(* ===== verification/Api.thy ===== *)
theory Api
  imports Wallet Configuration GoJson
begin

text \<open>
  The HTTP surface of the program: what \<open>json.Decoder.Decode\<close> makes of a request of
  \<open>internal/wallet/types.go\<close>, how \<open>handler.go\<close> renders its answers (\<open>sendSuccess\<close>, \<open>sendError\<close>), the
  routes (\<open>RegisterRoutes\<close>) and the two servers of \<open>cmd/scanner/main.go\<close> (\<open>startAPIServer\<close>,
  \<open>startMonitoringServer\<close>) over Go's \<open>http.ServeMux\<close>. A body is the result of its syntax: an error or
  a document, whose numbers are integers and whose strings are UTF-8. Listening is left out, and so are
  the headers a request carries and its method, which nothing reads.
\<close>

section \<open>Decoding a struct\<close>

text \<open>
  The names of fields are compared without regard to case, where the Kelvin sign counts as a \<open>k\<close> and the
  long s as an \<open>s\<close> (\<open>foldName\<close>).
\<close>

definition lower_char :: "char \<Rightarrow> char" where
  "lower_char c = (if 65 \<le> (of_char c :: nat) \<and> (of_char c :: nat) \<le> 90 then char_of ((of_char c :: nat) + 32) else c)"

fun fold_name :: "string \<Rightarrow> string" where
  "fold_name [] = []"
| "fold_name (c # cs) =
     (if c = CHR 0xE2 \<and> take 2 cs = [CHR 0x84, CHR 0xAA] then CHR ''k'' # fold_name (drop 2 cs)
      else if c = CHR 0xC5 \<and> take 1 cs = [CHR 0xBF] then CHR ''s'' # fold_name (drop 1 cs)
      else lower_char c # fold_name cs)"

text \<open>
  What a member does to the struct: it is set or ignored; a value of the wrong type is skipped and its
  error kept, of which the first is returned at the end; an error of a type's own \<open>UnmarshalJSON\<close> ends
  the decoding.
\<close>

datatype 'r decoded = Sets 'r | Skips go_error 'r | Aborts go_error

fun decode_members :: "(string \<Rightarrow> json \<Rightarrow> 'r \<Rightarrow> 'r decoded) \<Rightarrow> (string \<times> json) list \<Rightarrow> go_error option \<Rightarrow> 'r \<Rightarrow> go_error + 'r" where
  "decode_members f [] e r = (case e of None \<Rightarrow> Inr r | Some x \<Rightarrow> Inl x)"
| "decode_members f ((k, j) # ms) e r =
     (case f (fold_name k) j r of
        Sets r' \<Rightarrow> decode_members f ms e r'
      | Skips x r' \<Rightarrow> decode_members f ms (case e of None \<Rightarrow> Some x | Some y \<Rightarrow> Some y) r'
      | Aborts x \<Rightarrow> Inl x)"

fun kind_text :: "json \<Rightarrow> string" where
  "kind_text JNull = ''null''"
| "kind_text (JBool b) = ''bool''"
| "kind_text (JNum n) = ''number''"
| "kind_text (JStr s) = ''string''"
| "kind_text (JArr js) = ''array''"
| "kind_text (JObj ms) = ''object''"

text \<open>\<open>UnmarshalTypeError\<close>, in a field and at the top; \<open>null\<close> leaves the struct as it is.\<close>

definition type_error :: "string \<Rightarrow> string \<Rightarrow> string \<Rightarrow> go_error" where
  "type_error value field ty =
     Msg (''json: cannot unmarshal '' @ value @ '' into Go struct field '' @ field @ '' of type '' @ ty)"

definition decode_struct :: "string \<Rightarrow> (string \<Rightarrow> json \<Rightarrow> 'r \<Rightarrow> 'r decoded) \<Rightarrow> 'r \<Rightarrow> json \<Rightarrow> go_error + 'r" where
  "decode_struct name f zero j =
     (case j of
        JObj ms \<Rightarrow> decode_members f ms None zero
      | JNull \<Rightarrow> Inr zero
      | _ \<Rightarrow> Inl (Msg (''json: cannot unmarshal '' @ kind_text j @ '' into Go value of type wallet.'' @ name)))"

section \<open>The types of fields\<close>

definition to_string :: "string \<Rightarrow> string \<Rightarrow> json \<Rightarrow> (string \<Rightarrow> 'r) \<Rightarrow> 'r \<Rightarrow> 'r decoded" where
  "to_string field ty j upd r =
     (case j of JNull \<Rightarrow> Sets r | JStr s \<Rightarrow> Sets (upd s) | _ \<Rightarrow> Skips (type_error (kind_text j) field ty) r)"

definition to_int :: "string \<Rightarrow> string \<Rightarrow> int \<Rightarrow> int \<Rightarrow> json \<Rightarrow> (int \<Rightarrow> 'r) \<Rightarrow> 'r \<Rightarrow> 'r decoded" where
  "to_int field ty low high j upd r =
     (case j of
        JNull \<Rightarrow> Sets r
      | JNum n \<Rightarrow> if low \<le> n \<and> n \<le> high then Sets (upd n) else Skips (type_error (''number '' @ fmt_int n) field ty) r
      | _ \<Rightarrow> Skips (type_error (kind_text j) field ty) r)"

text \<open>
  A pointer to a \<open>big.Int\<close>: \<open>null\<close> makes it \<open>nil\<close>; otherwise \<open>big.Int.UnmarshalJSON\<close> reads the text of the
  value as it stands, so a string, whose text begins with a quote, is refused. (Of values other than
  strings the error quotes the text, of which the kind stands here.)
\<close>

definition big_refused :: "json \<Rightarrow> go_error" where
  "big_refused j =
     Msg (''math/big: cannot unmarshal '' @ (case j of JStr s \<Rightarrow> [CHR 0x22, CHR 0x5C, CHR 0x22] @ s @ [CHR 0x5C, CHR 0x22, CHR 0x22] | _ \<Rightarrow> kind_text j) @ '' into a *big.Int'')"

definition to_big :: "json \<Rightarrow> (int option \<Rightarrow> 'r) \<Rightarrow> 'r decoded" where
  "to_big j upd = (case j of JNull \<Rightarrow> Sets (upd None) | JNum n \<Rightarrow> Sets (upd (Some n)) | _ \<Rightarrow> Aborts (big_refused j))"

text \<open>A list of strings: an element of the wrong type is the empty string, and its error is kept.\<close>

fun string_elems :: "string \<Rightarrow> json list \<Rightarrow> go_error option \<times> string list" where
  "string_elems field [] = (None, [])"
| "string_elems field (j # js) =
     (case (to_string field ''string'' j id '''', string_elems field js) of
        (Skips x s, (e, ss)) \<Rightarrow> (Some x, s # ss)
      | (Sets s, (e, ss)) \<Rightarrow> (e, s # ss)
      | (Aborts x, (e, ss)) \<Rightarrow> (Some x, ss))"

definition to_strings :: "string \<Rightarrow> json \<Rightarrow> (string list \<Rightarrow> 'r) \<Rightarrow> 'r \<Rightarrow> 'r decoded" where
  "to_strings field j upd r =
     (case j of
        JNull \<Rightarrow> Sets (upd [])
      | JArr js \<Rightarrow> (case string_elems field js of (None, ss) \<Rightarrow> Sets (upd ss) | (Some x, ss) \<Rightarrow> Skips x (upd ss))
      | _ \<Rightarrow> Skips (type_error (kind_text j) field ''[]string'') r)"

section \<open>Times\<close>

text \<open>
  \<open>time.Time.UnmarshalJSON\<close> of a string: \<open>time.Parse\<close> with the layout of RFC 3339, which also takes an hour
  of one digit and a fraction after a comma. No handler uses the times of a request, so only whether
  they parse is kept, and of the error only that the time does not parse.
\<close>

definition is_digit_char :: "char \<Rightarrow> bool" where
  "is_digit_char c \<longleftrightarrow> 48 \<le> (of_char c :: nat) \<and> (of_char c :: nat) \<le> 57"

definition digit_of :: "char \<Rightarrow> nat" where
  "digit_of c = of_char c - 48"

definition getnum :: "bool \<Rightarrow> string \<Rightarrow> (nat \<times> string) option" where
  "getnum fixed s =
     (case s of
        [] \<Rightarrow> None
      | a # s1 \<Rightarrow>
          if \<not> is_digit_char a then None
          else (case s1 of
              b # s2 \<Rightarrow> if is_digit_char b then Some (10 * digit_of a + digit_of b, s2) else if fixed then None else Some (digit_of a, s1)
            | [] \<Rightarrow> if fixed then None else Some (digit_of a, [])))"

definition skip_char :: "char \<Rightarrow> string \<Rightarrow> string option" where
  "skip_char c s = (case s of a # s1 \<Rightarrow> if a = c then Some s1 else None | [] \<Rightarrow> None)"

definition days_in :: "nat \<Rightarrow> nat \<Rightarrow> nat" where
  "days_in year month =
     (if month = 2 then (if year mod 4 = 0 \<and> (year mod 100 \<noteq> 0 \<or> year mod 400 = 0) then 29 else 28)
      else if month \<in> {4, 6, 9, 11} then 30 else 31)"

definition zone_ok :: "string \<Rightarrow> bool" where
  "zone_ok s \<longleftrightarrow>
     s = ''Z'' \<or>
     (length s = 6 \<and> (hd s = CHR ''+'' \<or> hd s = CHR ''-'') \<and> s ! 3 = CHR '':'' \<and>
      (case (getnum True (take 2 (drop 1 s)), getnum True (drop 4 s)) of
         (Some (hr, _), Some (mm, _)) \<Rightarrow> hr \<le> 24 \<and> mm \<le> 60 | _ \<Rightarrow> False))"

definition drop_fraction :: "string \<Rightarrow> string" where
  "drop_fraction s =
     (case s of
        p # d # s1 \<Rightarrow> if (p = CHR ''.'' \<or> p = CHR '','') \<and> is_digit_char d then dropWhile is_digit_char s1 else s
      | _ \<Rightarrow> s)"

definition rfc3339_ok :: "string \<Rightarrow> bool" where
  "rfc3339_ok s =
     (if length s < 4 \<or> \<not> list_all is_digit_char (take 4 s) then False
      else let year = foldl (\<lambda>n c. 10 * n + digit_of c) 0 (take 4 s) in
        (case Option.bind (skip_char (CHR ''-'') (drop 4 s)) (getnum True) of None \<Rightarrow> False | Some (month, s1) \<Rightarrow>
        (case Option.bind (skip_char (CHR ''-'') s1) (getnum True) of None \<Rightarrow> False | Some (day, s2) \<Rightarrow>
        (case Option.bind (skip_char (CHR ''T'') s2) (getnum False) of None \<Rightarrow> False | Some (hour, s3) \<Rightarrow>
        (case Option.bind (skip_char (CHR '':'') s3) (getnum True) of None \<Rightarrow> False | Some (minute, s4) \<Rightarrow>
        (case Option.bind (skip_char (CHR '':'') s4) (getnum True) of None \<Rightarrow> False | Some (second, s5) \<Rightarrow>
           1 \<le> month \<and> month \<le> 12 \<and> 1 \<le> day \<and> day \<le> days_in year month \<and> hour < 24 \<and> minute < 60 \<and> second < 60
           \<and> zone_ok (drop_fraction s5)))))))"

definition to_time :: "json \<Rightarrow> 'r \<Rightarrow> 'r decoded" where
  "to_time j r =
     (case j of
        JNull \<Rightarrow> Sets r
      | JStr s \<Rightarrow> if rfc3339_ok s then Sets r else Aborts (Msg (''parsing time '' @ s))
      | _ \<Rightarrow> Aborts (Msg ''Time.UnmarshalJSON: input is not a JSON string''))"

section \<open>The requests\<close>

record get_balance_request =
  gb_chain_id :: string
  gb_address :: string
  gb_contract :: string

definition get_balance_member :: "string \<Rightarrow> json \<Rightarrow> get_balance_request \<Rightarrow> get_balance_request decoded" where
  "get_balance_member k j r =
     (let f = (\<lambda>n. ''GetBalanceRequest.'' @ n) in
      if k = ''chain_id'' then to_string (f k) ''wallet.ChainID'' j (\<lambda>s. r\<lparr>gb_chain_id := s\<rparr>) r
      else if k = ''address'' then to_string (f k) ''string'' j (\<lambda>s. r\<lparr>gb_address := s\<rparr>) r
      else if k = ''contract'' then to_string (f k) ''string'' j (\<lambda>s. r\<lparr>gb_contract := s\<rparr>) r
      else Sets r)"

record get_balances_request =
  gs_chain_id :: string
  gs_address :: string
  gs_tokens :: "string list"

definition get_balances_member :: "string \<Rightarrow> json \<Rightarrow> get_balances_request \<Rightarrow> get_balances_request decoded" where
  "get_balances_member k j r =
     (let f = (\<lambda>n. ''GetBalancesRequest.'' @ n) in
      if k = ''chain_id'' then to_string (f k) ''wallet.ChainID'' j (\<lambda>s. r\<lparr>gs_chain_id := s\<rparr>) r
      else if k = ''address'' then to_string (f k) ''string'' j (\<lambda>s. r\<lparr>gs_address := s\<rparr>) r
      else if k = ''tokens'' then to_strings (f k) j (\<lambda>ss. r\<lparr>gs_tokens := ss\<rparr>) r
      else Sets r)"

record get_transactions_request =
  gx_chain_id :: string
  gx_address :: string
  gx_token :: string
  gx_tx_type :: string
  gx_page :: int
  gx_page_size :: int

definition get_transactions_member :: "string \<Rightarrow> json \<Rightarrow> get_transactions_request \<Rightarrow> get_transactions_request decoded" where
  "get_transactions_member k j r =
     (let f = (\<lambda>n. ''GetTransactionsRequest.'' @ n) in
      if k = ''chain_id'' then to_string (f k) ''wallet.ChainID'' j (\<lambda>s. r\<lparr>gx_chain_id := s\<rparr>) r
      else if k = ''address'' then to_string (f k) ''string'' j (\<lambda>s. r\<lparr>gx_address := s\<rparr>) r
      else if k = ''token'' then to_string (f k) ''string'' j (\<lambda>s. r\<lparr>gx_token := s\<rparr>) r
      else if k = ''tx_type'' then to_string (f k) ''string'' j (\<lambda>s. r\<lparr>gx_tx_type := s\<rparr>) r
      else if k = ''start_time'' \<or> k = ''end_time'' then to_time j r
      else if k = ''page'' then to_int (f k) ''int'' (- (2 ^ 63)) (2 ^ 63 - 1) j (\<lambda>n. r\<lparr>gx_page := n\<rparr>) r
      else if k = ''page_size'' then to_int (f k) ''int'' (- (2 ^ 63)) (2 ^ 63 - 1) j (\<lambda>n. r\<lparr>gx_page_size := n\<rparr>) r
      else Sets r)"

definition transfer_member :: "string \<Rightarrow> json \<Rightarrow> transfer_request \<Rightarrow> transfer_request decoded" where
  "transfer_member k j r =
     (let f = (\<lambda>n. ''TransferRequest.'' @ n) in
      if k = ''chain_id'' then to_string (f k) ''wallet.ChainID'' j (\<lambda>s. r\<lparr>tq_chain_id := s\<rparr>) r
      else if k = ''from'' then to_string (f k) ''string'' j (\<lambda>s. r\<lparr>tq_from := s\<rparr>) r
      else if k = ''to'' then to_string (f k) ''string'' j (\<lambda>s. r\<lparr>tq_to := s\<rparr>) r
      else if k = ''contract'' then to_string (f k) ''string'' j (\<lambda>s. r\<lparr>tq_contract := s\<rparr>) r
      else if k = ''value'' then to_big j (\<lambda>n. r\<lparr>tq_value := n\<rparr>)
      else if k = ''private_key'' then to_string (f k) ''string'' j (\<lambda>s. r\<lparr>tq_private_key := s\<rparr>) r
      else if k = ''gas_limit'' then to_int (f k) ''uint64'' 0 (2 ^ 64 - 1) j (\<lambda>n. r\<lparr>tq_gas_limit := word_of_int n\<rparr>) r
      else if k = ''gas_price'' then to_big j (\<lambda>n. r\<lparr>tq_gas_price := n\<rparr>)
      else Sets r)"

record deposit_request =
  dq_chain_id :: string
  dq_address :: string
  dq_token :: string

definition deposit_member :: "string \<Rightarrow> json \<Rightarrow> deposit_request \<Rightarrow> deposit_request decoded" where
  "deposit_member k j r =
     (let f = (\<lambda>n. ''DepositRequest.'' @ n) in
      if k = ''chain_id'' then to_string (f k) ''wallet.ChainID'' j (\<lambda>s. r\<lparr>dq_chain_id := s\<rparr>) r
      else if k = ''address'' then to_string (f k) ''string'' j (\<lambda>s. r\<lparr>dq_address := s\<rparr>) r
      else if k = ''token'' then to_string (f k) ''string'' j (\<lambda>s. r\<lparr>dq_token := s\<rparr>) r
      else Sets r)"

text \<open>A withdrawal has the fields of a transfer, its sender under the name \<open>address\<close>, and no gas.\<close>

definition withdraw_member :: "string \<Rightarrow> json \<Rightarrow> transfer_request \<Rightarrow> transfer_request decoded" where
  "withdraw_member k j r =
     (let f = (\<lambda>n. ''WithdrawRequest.'' @ n) in
      if k = ''chain_id'' then to_string (f k) ''wallet.ChainID'' j (\<lambda>s. r\<lparr>tq_chain_id := s\<rparr>) r
      else if k = ''address'' then to_string (f k) ''string'' j (\<lambda>s. r\<lparr>tq_from := s\<rparr>) r
      else if k = ''to'' then to_string (f k) ''string'' j (\<lambda>s. r\<lparr>tq_to := s\<rparr>) r
      else if k = ''contract'' then to_string (f k) ''string'' j (\<lambda>s. r\<lparr>tq_contract := s\<rparr>) r
      else if k = ''value'' then to_big j (\<lambda>n. r\<lparr>tq_value := n\<rparr>)
      else if k = ''private_key'' then to_string (f k) ''string'' j (\<lambda>s. r\<lparr>tq_private_key := s\<rparr>) r
      else Sets r)"

definition zero_transfer :: transfer_request where
  "zero_transfer = \<lparr>tq_chain_id = '''', tq_from = '''', tq_to = '''', tq_contract = '''', tq_value = None,
     tq_private_key = '''', tq_gas_limit = 0, tq_gas_price = None\<rparr>"

section \<open>Answers\<close>

text \<open>
  The documents of the answers, whose times are the numbers of their nanoseconds as in \<open>GoJson\<close>. A list
  that nothing was appended to is \<open>nil\<close>, and its document \<open>null\<close>. The error member is empty in every
  answer the handlers send, and left out.
\<close>

definition token_json :: "token \<Rightarrow> json" where
  "token_json t =
     JObj [(''chain_id'', JStr (tk_chain_id t)), (''contract'', JStr (tk_contract t)), (''symbol'', JStr (tk_symbol t)),
           (''name'', JStr (tk_name t)), (''decimals'', JNum (tk_decimals t)),
           (''type'', JStr (case tk_type t of TokenNative \<Rightarrow> ''native'' | TokenERC20 \<Rightarrow> ''erc20''))]"

definition balance_json :: "wallet_balance \<Rightarrow> json" where
  "balance_json b =
     JObj [(''chain_id'', JStr (wb_chain_id b)), (''address'', JStr (wb_address b)), (''token'', token_json (wb_token b)),
           (''balance'', JNum (wb_balance b)), (''display'', JStr (wb_display b)),
           (''block_number'', uint_json (wb_block_number b)), (''updated_at'', time_text (wb_updated_at b))]"

fun tx_type_text :: "tx_type \<Rightarrow> string" where
  "tx_type_text TxTransfer = ''transfer''"
| "tx_type_text TxDeposit = ''deposit''"
| "tx_type_text TxWithdraw = ''withdraw''"
| "tx_type_text TxSwap = ''swap''"

definition wallet_tx_json :: "wallet_tx \<Rightarrow> json" where
  "wallet_tx_json t =
     JObj [(''id'', JStr (wt_id t)), (''chain_id'', JStr (wt_chain_id t)), (''tx_hash'', JStr (wt_tx_hash t)),
           (''from'', JStr (wt_from t)), (''to'', JStr (wt_to t)), (''token'', token_json (wt_token t)),
           (''value'', big_json (wt_value t)), (''display'', JStr (wt_display t)), (''fee'', JNum (wt_fee t)),
           (''fee_display'', JStr (wt_fee_display t)), (''block_number'', uint_json (wt_block_number t)),
           (''status'', JStr (wt_status t)), (''tx_type'', JStr (tx_type_text (wt_tx_type t))),
           (''created_at'', time_text (wt_created_at t)), (''confirmed_at'', time_text (wt_confirmed_at t))]"

definition slice_json :: "('a \<Rightarrow> json) \<Rightarrow> 'a list \<Rightarrow> json" where
  "slice_json f xs = (if xs = [] then JNull else JArr (map f xs))"

definition balance_answer :: "wallet_balance \<Rightarrow> json" where
  "balance_answer b = JObj [(''success'', JBool True), (''data'', balance_json b)]"

definition balances_answer :: "wallet_balance list \<Rightarrow> json" where
  "balances_answer bs = JObj [(''success'', JBool True), (''data'', slice_json balance_json bs)]"

definition transactions_answer :: "history_page \<Rightarrow> json" where
  "transactions_answer h =
     JObj [(''success'', JBool True), (''data'', slice_json wallet_tx_json (hp_data h)), (''total'', JNum (hp_total h)),
           (''page'', JNum (hp_page h)), (''page_size'', JNum (hp_page_size h)), (''has_more'', JBool (hp_has_more h))]"

definition transfer_answer :: "transfer_response \<Rightarrow> json" where
  "transfer_answer r =
     JObj [(''success'', JBool (tp_success r)), (''tx_hash'', JStr (tp_tx_hash r)), (''chain_id'', JStr (tp_chain_id r))]"

definition deposit_answer :: "bool \<times> string \<times> string \<Rightarrow> json" where
  "deposit_answer r =
     (case r of (ok, address, chainID) \<Rightarrow>
        JObj [(''success'', JBool ok), (''address'', JStr address), (''chain_id'', JStr chainID)])"

datatype http_body = BodyJson json | BodyText string | BodyMetrics

record http_result =
  hr_status :: int
  hr_headers :: "(string \<times> string) list"
  hr_body :: http_body

definition sendSuccess :: "json \<Rightarrow> http_result" where
  "sendSuccess data = \<lparr>hr_status = 200, hr_headers = [(''Content-Type'', ''application/json'')], hr_body = BodyJson data\<rparr>"

definition sendError :: "int \<Rightarrow> string \<Rightarrow> http_result" where
  "sendError statusCode message =
     \<lparr>hr_status = statusCode, hr_headers = [(''Content-Type'', ''application/json'')],
      hr_body = BodyJson (JObj [(''error'', JStr message), (''success'', JBool False)])\<rparr>"

definition send_reply :: "('a \<Rightarrow> json) \<Rightarrow> ('a http_reply \<times> 'c) outcome \<Rightarrow> (http_result \<times> 'c) outcome" where
  "send_reply f x =
     outcome_bind x (\<lambda>(r, c). Returns (case r of ErrorReply st msg \<Rightarrow> sendError st msg | OkReply v \<Rightarrow> sendSuccess (f v), c))"

text \<open>
  \<open>Handler.ServeHTTP\<close>, which no server mounts: it sets the headers of CORS and answers nothing else, so
  with the status 200. The request id it puts into the context is not read.
\<close>

definition handler_ServeHTTP :: "string \<Rightarrow> http_result" where
  "handler_ServeHTTP meth =
     \<lparr>hr_status = 200,
      hr_headers = [(''Access-Control-Allow-Origin'', ''*''), (''Access-Control-Allow-Methods'', ''GET, POST, PUT, DELETE, OPTIONS''),
        (''Access-Control-Allow-Headers'', ''Content-Type, Authorization'')],
      hr_body = BodyText ''''\<rparr>"

text \<open>\<open>ParseBigInt\<close> of the handler: where the digits do not parse Go leaves the value undefined (\<open>None\<close>).\<close>

definition handler_ParseBigInt :: "string \<Rightarrow> int option" where
  "handler_ParseBigInt s = big_set_string 16 (if has_prefix s ''0x'' then drop 2 s else s)"

section \<open>The servers\<close>

datatype endpoint = EpBalance | EpBalances | EpTransactions | EpTransfer | EpDeposit | EpWithdraw | EpMetrics | EpHealth

type_synonym mux = "(string \<times> endpoint) list"

text \<open>\<open>http.ServeMux\<close>: a pattern given twice is a panic; one that does not end in a slash matches its own path.\<close>

definition mux_Handle :: "string \<Rightarrow> endpoint \<Rightarrow> mux \<Rightarrow> mux outcome" where
  "mux_Handle pattern e m = (if pattern = '''' \<or> pattern \<in> fst ` set m then Panics else Returns (m @ [(pattern, e)]))"

definition RegisterRoutes :: "mux \<Rightarrow> mux outcome" where
  "RegisterRoutes m =
     outcome_bind (mux_Handle ''/api/v1/wallet/balance'' EpBalance m) (\<lambda>m.
     outcome_bind (mux_Handle ''/api/v1/wallet/balances'' EpBalances m) (\<lambda>m.
     outcome_bind (mux_Handle ''/api/v1/wallet/transactions'' EpTransactions m) (\<lambda>m.
     outcome_bind (mux_Handle ''/api/v1/wallet/transfer'' EpTransfer m) (\<lambda>m.
     outcome_bind (mux_Handle ''/api/v1/wallet/deposit'' EpDeposit m) (\<lambda>m.
       mux_Handle ''/api/v1/wallet/withdraw'' EpWithdraw m)))))"

record http_server =
  hs_addr :: string
  hs_mux :: mux

definition startAPIServer :: "server_config \<Rightarrow> bool \<Rightarrow> http_server outcome" where
  "startAPIServer cfg walletNil =
     outcome_bind (if walletNil then Returns [] else RegisterRoutes []) (\<lambda>m.
     outcome_bind (mux_Handle ''/metrics'' EpMetrics m) (\<lambda>m.
     outcome_bind (mux_Handle ''/health'' EpHealth m) (\<lambda>m.
       Returns \<lparr>hs_addr = '':'' @ fmt_int (srv_HTTPPort cfg), hs_mux = m\<rparr>)))"

text \<open>The monitoring server uses the default mux of the process, here an argument.\<close>

definition startMonitoringServer :: "server_config \<Rightarrow> mux \<Rightarrow> http_server outcome" where
  "startMonitoringServer cfg m =
     outcome_bind (mux_Handle ''/metrics'' EpMetrics m) (\<lambda>m.
     outcome_bind (mux_Handle ''/health'' EpHealth m) (\<lambda>m.
       Returns \<lparr>hs_addr = '':'' @ fmt_int (srv_MetricsPort cfg), hs_mux = m\<rparr>))"

text \<open>An endpoint: the body is decoded, the handler runs, and its answer is rendered.\<close>

definition serve_wallet ::
    "('k, 'signed) crypto \<Rightarrow> (string \<Rightarrow> string) \<Rightarrow> int \<Rightarrow> 'c wallet \<Rightarrow> endpoint \<Rightarrow> go_error + json \<Rightarrow> 'c \<Rightarrow> (http_result \<times> 'c) outcome" where
  "serve_wallet C addr now W ep body c =
     (case ep of
        EpBalance \<Rightarrow>
          send_reply balance_answer (handler_GetBalance addr now W (map_sum id (\<lambda>q. (gb_chain_id q, gb_address q, gb_contract q))
            (andthen body (decode_struct ''GetBalanceRequest'' get_balance_member
               \<lparr>gb_chain_id = '''', gb_address = '''', gb_contract = ''''\<rparr>))) c)
      | EpBalances \<Rightarrow>
          send_reply balances_answer (handler_GetBalances addr now W (map_sum id (\<lambda>q. (gs_chain_id q, gs_address q, gs_tokens q))
            (andthen body (decode_struct ''GetBalancesRequest'' get_balances_member
               \<lparr>gs_chain_id = '''', gs_address = '''', gs_tokens = []\<rparr>))) c)
      | EpTransactions \<Rightarrow>
          send_reply transactions_answer (handler_GetTransactions W
            (map_sum id (\<lambda>q. (gx_chain_id q, gx_address q, gx_token q, gx_page q, gx_page_size q))
            (andthen body (decode_struct ''GetTransactionsRequest'' get_transactions_member
               \<lparr>gx_chain_id = '''', gx_address = '''', gx_token = '''', gx_tx_type = '''', gx_page = 0, gx_page_size = 0\<rparr>))) c)
      | EpTransfer \<Rightarrow>
          send_reply transfer_answer (handler_Transfer C W (andthen body (decode_struct ''TransferRequest'' transfer_member zero_transfer)) c)
      | EpDeposit \<Rightarrow>
          send_reply deposit_answer (handler_Deposit W (map_sum id (\<lambda>q. (dq_chain_id q, dq_address q))
            (andthen body (decode_struct ''DepositRequest'' deposit_member
               \<lparr>dq_chain_id = '''', dq_address = '''', dq_token = ''''\<rparr>))) c)
      | EpWithdraw \<Rightarrow>
          send_reply transfer_answer (handler_Withdraw C W (andthen body (decode_struct ''WithdrawRequest'' withdraw_member zero_transfer)) c)
      | EpMetrics \<Rightarrow> Returns (\<lparr>hr_status = 200, hr_headers = [], hr_body = BodyMetrics\<rparr>, c)
      | EpHealth \<Rightarrow> Returns (\<lparr>hr_status = 200, hr_headers = [], hr_body = BodyText ''OK''\<rparr>, c))"

definition api_serve ::
    "('k, 'signed) crypto \<Rightarrow> (string \<Rightarrow> string) \<Rightarrow> int \<Rightarrow> 'c wallet \<Rightarrow> http_server \<Rightarrow> string \<Rightarrow> go_error + json \<Rightarrow> 'c
      \<Rightarrow> (http_result \<times> 'c) outcome" where
  "api_serve C addr now W srv path body c =
     (case map_of (hs_mux srv) path of
        Some ep \<Rightarrow> serve_wallet C addr now W ep body c
      | None \<Rightarrow> Returns (\<lparr>hr_status = 404, hr_headers = [(''Content-Type'', ''text/plain; charset=utf-8''),
          (''X-Content-Type-Options'', ''nosniff'')], hr_body = BodyText (''404 page not found'' @ [CHR 0x0A])\<rparr>, c))"

section \<open>The routes\<close>

definition wallet_routes :: mux where
  "wallet_routes =
     [(''/api/v1/wallet/balance'', EpBalance), (''/api/v1/wallet/balances'', EpBalances),
      (''/api/v1/wallet/transactions'', EpTransactions), (''/api/v1/wallet/transfer'', EpTransfer),
      (''/api/v1/wallet/deposit'', EpDeposit), (''/api/v1/wallet/withdraw'', EpWithdraw)]"

definition status_routes :: mux where
  "status_routes = [(''/metrics'', EpMetrics), (''/health'', EpHealth)]"

lemma RegisterRoutes_empty: "RegisterRoutes [] = Returns wallet_routes"
  by (simp add: RegisterRoutes_def mux_Handle_def wallet_routes_def)

lemma startAPIServer_routes:
  "startAPIServer cfg nil =
     Returns \<lparr>hs_addr = '':'' @ fmt_int (srv_HTTPPort cfg), hs_mux = (if nil then [] else wallet_routes) @ status_routes\<rparr>"
  by (simp add: startAPIServer_def RegisterRoutes_empty mux_Handle_def wallet_routes_def status_routes_def)

text \<open>The monitoring server can be started once in a process: the default mux has its routes then.\<close>

lemma monitoring_starts_once:
  "\<exists>srv. startMonitoringServer cfg [] = Returns srv \<and> startMonitoringServer cfg' (hs_mux srv) = Panics"
  by (simp add: startMonitoringServer_def mux_Handle_def)

lemma long_path_unrouted: "28 \<le> length path \<Longrightarrow> path \<notin> fst ` set (wallet_routes @ status_routes)"
  by (auto simp: wallet_routes_def status_routes_def)

text \<open>What the README offers beside the routes is not found, whatever the request carries.\<close>

lemma readme_routes_missing:
  assumes "startAPIServer cfg False = Returns srv"
    and "path = ''/api/v1/scanner/status'' \<or> path = ''/api/v1/wallet/subscribe''
      \<or> path = ''/api/v1/wallet/'' @ a @ ''/transactions''"
  shows "\<exists>r. api_serve C addr now W srv path body c = Returns (r, c) \<and> hr_status r = 404"
proof -
  have srv: "hs_mux srv = wallet_routes @ status_routes" using assms(1) by (auto simp: startAPIServer_routes)
  from assms(2) have "path \<notin> fst ` set (wallet_routes @ status_routes)"
  proof (elim disjE)
    assume "path = ''/api/v1/wallet/'' @ a @ ''/transactions''"
    then have "28 \<le> length path" by simp
    then show ?thesis by (rule long_path_unrouted)
  qed (simp_all add: wallet_routes_def status_routes_def)
  then have "map_of (wallet_routes @ status_routes) path = None" by (simp only: map_of_eq_None_iff not_False_eq_True)
  then show ?thesis by (simp add: api_serve_def srv del: map_of_append)
qed

section \<open>Requests that are refused\<close>

lemma decode_members_failed: "\<exists>x. decode_members f ms (Some e) r = Inl x"
  by (induction ms arbitrary: r) (auto split: decoded.split)

lemma decode_members_aborts:
  assumes "(k, j) \<in> set ms" "\<And>r. \<exists>x. f (fold_name k) j r = Aborts x"
  shows "\<exists>x. decode_members f ms e r = Inl x"
  using assms(1)
proof (induction ms arbitrary: e r)
  case (Cons m ms)
  obtain k' j' where m: "m = (k', j')" by (rule prod.exhaust)
  show ?case
  proof (cases "m = (k, j)")
    case True
    then show ?thesis using assms(2) [of r] by auto
  next
    case False
    then have "\<And>e r. \<exists>x. decode_members f ms e r = Inl x" using Cons by simp
    then show ?thesis by (cases "f (fold_name k') j' r") (simp_all add: m)
  qed
qed simp

lemma transfer_value_aborts: "\<exists>x. transfer_member ''value'' (JStr v) r = Aborts x"
  by (simp add: transfer_member_def to_big_def)

lemma withdraw_value_aborts: "\<exists>x. withdraw_member ''value'' (JStr v) r = Aborts x"
  by (simp add: withdraw_member_def to_big_def)

text \<open>
  C26: A transfer or a withdrawal whose value is given as a string, the type the documentation of the API
  gives it, is refused with the status 400 before anything is asked of a node, whatever the string holds
  and whatever else the request has: the amount is decoded as a number only.
\<close>

theorem string_value_refused:
  assumes "startAPIServer cfg False = Returns srv"
    and "path = ''/api/v1/wallet/transfer'' \<or> path = ''/api/v1/wallet/withdraw''"
    and "(k, JStr v) \<in> set ms" "fold_name k = ''value''"
  shows "\<exists>msg. api_serve C addr now W srv path (Inr (JObj ms)) c = Returns (sendError 400 (''Invalid request body: '' @ msg), c)"
proof -
  from decode_members_aborts [OF assms(3), of transfer_member] obtain x where
    x: "decode_members transfer_member ms None zero_transfer = Inl x"
    using assms(4) transfer_value_aborts by metis
  from decode_members_aborts [OF assms(3), of withdraw_member] obtain y where
    y: "decode_members withdraw_member ms None zero_transfer = Inl y"
    using assms(4) withdraw_value_aborts by metis
  show ?thesis using assms(1,2) x y
    by (auto simp: startAPIServer_routes api_serve_def wallet_routes_def status_routes_def serve_wallet_def
        decode_struct_def handler_Transfer_def handler_Withdraw_def bad_request_def send_reply_def)
qed

text \<open>The example of a transfer in \<open>docs/API.md\<close>.\<close>

definition documented_transfer :: "(string \<times> json) list" where
  "documented_transfer =
     [(''chain_id'', JStr ''1''), (''from'', JStr ''0x742d35Cc6634C0532925a3b844Bc9e7595f7AAA''),
      (''to'', JStr ''0xdAC17F958D2ee523a2206206994597C13D831ec7''), (''contract'', JStr ''''),
      (''value'', JStr ''1000000000000000000''), (''private_key'', JStr ''0xYourPrivateKey''),
      (''gas_limit'', JNum 21000), (''gas_price'', JStr ''10000000000'')]"

lemma fold_value: "fold_name ''value'' = ''value''"
  by code_simp

theorem string_value_refused_witness:
  "\<exists>srv msg. startAPIServer \<lparr>srv_HTTPPort = 8080, srv_GRPCPort = 9090, srv_MetricsPort = 9091\<rparr> False = Returns srv \<and>
     api_serve plain_crypto (\<lambda>a. a) 0 [''1'' \<mapsto> accepting_rpc] srv ''/api/v1/wallet/transfer'' (Inr (JObj documented_transfer)) ()
       = Returns (sendError 400 (''Invalid request body: '' @ msg), ())"
proof -
  let ?cfg = "\<lparr>srv_HTTPPort = 8080, srv_GRPCPort = 9090, srv_MetricsPort = 9091\<rparr>"
  obtain srv where srv: "startAPIServer ?cfg False = Returns srv" by (simp add: startAPIServer_routes)
  have v: "(''value'', JStr ''1000000000000000000'') \<in> set documented_transfer" by (simp add: documented_transfer_def)
  have p: "''/api/v1/wallet/transfer'' = ''/api/v1/wallet/transfer'' \<or> ''/api/v1/wallet/transfer'' = ''/api/v1/wallet/withdraw''" by simp
  from string_value_refused [OF srv p v fold_value, where C = plain_crypto and addr = "\<lambda>a. a" and now = 0
      and W = "[''1'' \<mapsto> accepting_rpc]" and c = "()"] srv
  show ?thesis by blast
qed

section \<open>Requests that are read\<close>

text \<open>A transfer as Go's own \<open>json.Marshal\<close> renders it: the optional members are left out when they are zero.\<close>

definition transfer_json :: "transfer_request \<Rightarrow> json" where
  "transfer_json q =
     JObj ([(''chain_id'', JStr (tq_chain_id q)), (''from'', JStr (tq_from q)), (''to'', JStr (tq_to q))]
       @ (if tq_contract q = '''' then [] else [(''contract'', JStr (tq_contract q))])
       @ [(''value'', big_json (tq_value q)), (''private_key'', JStr (tq_private_key q))]
       @ (if tq_gas_limit q = 0 then [] else [(''gas_limit'', uint_json (tq_gas_limit q))])
       @ (if tq_gas_price q = None then [] else [(''gas_price'', big_json (tq_gas_price q))]))"

lemma fold_transfer_names:
  "fold_name ''chain_id'' = ''chain_id''" "fold_name ''from'' = ''from''" "fold_name ''to'' = ''to''"
  "fold_name ''contract'' = ''contract''" "fold_name ''private_key'' = ''private_key''"
  "fold_name ''gas_limit'' = ''gas_limit''" "fold_name ''gas_price'' = ''gas_price''"
  by code_simp+

text \<open>
  Every transfer that a Go client sends is read by the server as it was: rendering a request and decoding the
  document gives the request, with its optional members, the missing amount and every width of its numbers.
\<close>

theorem transfer_request_roundtrip:
  "decode_struct ''TransferRequest'' transfer_member zero_transfer (transfer_json q) = Inr q"
proof -
  have "uint (tq_gas_limit q) < 18446744073709551616" by (rule uint_u64_less)
  then have u: "0 \<le> uint (tq_gas_limit q)" "uint (tq_gas_limit q) \<le> 18446744073709551615" by (simp, linarith)
  show ?thesis
    by (cases q; cases "tq_value q"; cases "tq_gas_price q")
      (use u in \<open>auto simp: decode_struct_def transfer_json_def zero_transfer_def transfer_member_def to_string_def
        to_big_def to_int_def big_json_def uint_json_def Let_def fold_transfer_names fold_value
        simp del: fold_name.simps\<close>)
qed

end
