(* ===== verification/Pipeline.thy ===== *)
theory Pipeline
  imports Lifecycle
begin

text \<open>
  A running scanner as a whole: the three loops on tickers of
  \<open>internal/scheduler/chain_scanner.go\<close>, and the pipeline they drive together with the workers and
  the result processors. A state of the pipeline has the tasks that a tick of the scheduler has yet to
  send, those the workers are busy with, the results that wait, and the tasks that wait for their
  retry; its steps come in any order.
\<close>

section \<open>The loops\<close>

definition scheduleTasks ::
    "'c chain_client \<Rightarrow> (u64 \<Rightarrow> int \<Rightarrow> float64 \<Rightarrow> float64) \<Rightarrow> (int \<times> (nat \<Rightarrow> select_result)) tick list
      \<Rightarrow> chain_scanner \<times> 'c \<Rightarrow> (chain_scanner \<times> 'c) outcome option" where
  "scheduleTasks client ema = tick_loop (\<lambda>(now, sel). generateTasks client ema now sel)"

text \<open>The warnings \<open>checkWatermark\<close> logs are kept.\<close>

definition monitorWatermark :: "unit tick list \<Rightarrow> chain_scanner \<times> bool list \<Rightarrow> (chain_scanner \<times> bool list) outcome option" where
  "monitorWatermark evs st =
     (if wc_check_interval (sc_watermark (cs_config (fst st))) \<le> 0 then Some Panics
      else tick_loop (\<lambda>_ (s, warns). Some (Returns (s, warns @ [checkWatermark s]))) evs st)"

definition detectReorg ::
    "'c chain_client \<Rightarrow> 'r redis \<Rightarrow> lock_manager \<Rightarrow> int tick list \<Rightarrow> chain_scanner \<times> 'c \<times> 'r
      \<Rightarrow> (chain_scanner \<times> 'c \<times> 'r) outcome option" where
  "detectReorg client R lm = tick_loop (\<lambda>now st. Some (Returns (checkReorg client R lm now st)))"

definition scanner_GetLatestHeight :: "'c chain_client \<Rightarrow> 'c \<Rightarrow> (go_error + u64) \<times> 'c" where
  "scanner_GetLatestHeight client c = cl_GetCurrentHeight client c"

definition scanner_GetBlock :: "'c chain_client \<Rightarrow> u64 \<Rightarrow> 'c \<Rightarrow> (go_error + block option) \<times> 'c" where
  "scanner_GetBlock client blockNumber c = cl_GetBlock client blockNumber c"

definition processResults ::
    "'r redis \<Rightarrow> lock_manager \<Rightarrow> int \<Rightarrow> int \<Rightarrow> scan_result \<Rightarrow> chain_scanner \<times> 'r
      \<Rightarrow> chain_scanner \<times> (scan_task \<times> int) option \<times> 'r" where
  "processResults R lm now big res st =
     (if sr_success res then (let (s', r') = handleSuccessResult R lm now res st in (s', None, r'))
      else case sr_task res of
        None \<Rightarrow> (fst st, None, snd st)
      | Some t \<Rightarrow> (let (s', rt) = handleFailureResult big t (fst st) in (s', rt, snd st)))"

section \<open>The pipeline\<close>

record pipeline =
  pl_scanner :: chain_scanner
  pl_tick :: "scan_task list"
  pl_busy :: "(nat \<times> scan_task) list"
  pl_results :: "scan_result list"
  pl_retries :: "scan_task list"

definition start_pipeline :: "chain_scanner \<Rightarrow> pipeline" where
  "start_pipeline s = \<lparr>pl_scanner = snd (scanner_Start s), pl_tick = [], pl_busy = [], pl_results = [], pl_retries = []\<rparr>"

abbreviation worker_scan where
  "worker_scan client dn dnp order s \<equiv>
     scanBlocks (cl_BatchGetBlocks client) dn dnp order (sc_concurrency (cs_config s))"

text \<open>
  The steps: a tick of the scheduler, which makes its tasks from the watermark and the heights and then
  sends them one by one while the others go on, or gives up at a full queue; a free worker takes the
  first task; a busy worker finishes its task, the whole scan being one step; a result is processed; a
  task that waited is sent again; a tick of the reorg detection. The ticks of the watermark monitor
  change nothing. \<open>cap\<close> is the size of the result queue.
\<close>

inductive pipe_step ::
    "'c chain_client \<Rightarrow> 'r redis \<Rightarrow> lock_manager \<Rightarrow> nat \<Rightarrow> pipeline \<times> 'c \<times> 'r \<Rightarrow> pipeline \<times> 'c \<times> 'r \<Rightarrow> bool"
    for client R lm cap where
  p_tick: "pl_tick p = [] \<Longrightarrow> generateTasks client ema now (\<lambda>i. Sent) (pl_scanner p, c) = Some (Returns (s', c'))
    \<Longrightarrow> pipe_step client R lm cap (p, c, r)
          (p\<lparr>pl_scanner := s'\<lparr>cs_task_queue := cs_task_queue (pl_scanner p)\<rparr>,
             pl_tick := drop (length (cs_task_queue (pl_scanner p))) (cs_task_queue s')\<rparr>, c', r)"
| p_send: "pl_tick p = t # ts \<Longrightarrow> int (length (cs_task_queue (pl_scanner p))) < task_cap (pl_scanner p)
    \<Longrightarrow> pipe_step client R lm cap (p, c, r)
          (p\<lparr>pl_scanner := (pl_scanner p)\<lparr>cs_task_queue := cs_task_queue (pl_scanner p) @ [t]\<rparr>, pl_tick := ts\<rparr>, c, r)"
| p_give_up: "pl_tick p = t # ts \<Longrightarrow> pipe_step client R lm cap (p, c, r) (p\<lparr>pl_tick := []\<rparr>, c, r)"
| p_take: "cs_task_queue (pl_scanner p) = t # q \<Longrightarrow> i < length (cs_workers (pl_scanner p))
    \<Longrightarrow> i \<notin> fst ` set (pl_busy p)
    \<Longrightarrow> pipe_step client R lm cap (p, c, r)
          (p\<lparr>pl_scanner := (pl_scanner p)\<lparr>cs_task_queue := q\<rparr>, pl_busy := (i, t) # pl_busy p\<rparr>, c, r)"
| p_work: "(i, t) \<in> set (pl_busy p)
    \<Longrightarrow> processTask (worker_scan client dn dnp order (pl_scanner p)) cap dur t
          (cs_workers (pl_scanner p) ! i, pl_results p, c) = Some (w, q, c')
    \<Longrightarrow> pipe_step client R lm cap (p, c, r)
          (p\<lparr>pl_scanner := (pl_scanner p)\<lparr>cs_workers := (cs_workers (pl_scanner p))[i := w]\<rparr>,
             pl_busy := remove1 (i, t) (pl_busy p), pl_results := q\<rparr>, c', r)"
| p_result: "pl_results p = res # q \<Longrightarrow> processResults R lm now big res (pl_scanner p, r) = (s', rt, r')
    \<Longrightarrow> pipe_step client R lm cap (p, c, r)
          (p\<lparr>pl_scanner := s', pl_results := q,
             pl_retries := (case rt of None \<Rightarrow> pl_retries p | Some (t, d) \<Rightarrow> t # pl_retries p)\<rparr>, c, r')"
| p_retry: "t \<in> set (pl_retries p) \<Longrightarrow> retry_send sel1 t (pl_scanner p) = Returns s'
    \<Longrightarrow> pipe_step client R lm cap (p, c, r) (p\<lparr>pl_scanner := s', pl_retries := remove1 t (pl_retries p)\<rparr>, c, r)"
| p_reorg: "checkReorg client R lm now (pl_scanner p, c, r) = (s', c', r')
    \<Longrightarrow> pipe_step client R lm cap (p, c, r) (p\<lparr>pl_scanner := s'\<rparr>, c', r')"

inductive pipe_run ::
    "'c chain_client \<Rightarrow> 'r redis \<Rightarrow> lock_manager \<Rightarrow> nat \<Rightarrow> pipeline \<times> 'c \<times> 'r \<Rightarrow> pipeline \<times> 'c \<times> 'r \<Rightarrow> bool"
    for client R lm cap where
  pr_refl: "pipe_run client R lm cap x x"
| pr_step: "pipe_run client R lm cap x y \<Longrightarrow> pipe_step client R lm cap y z \<Longrightarrow> pipe_run client R lm cap x z"

text \<open>The tasks that are anywhere in the pipeline.\<close>

definition pipe_tasks :: "pipeline \<Rightarrow> scan_task set" where
  "pipe_tasks p = set (cs_task_queue (pl_scanner p)) \<union> set (pl_tick p) \<union> snd ` set (pl_busy p) \<union> set (pl_retries p)
     \<union> {t. \<exists>res \<in> set (pl_results p). sr_task res = Some t}"

definition scanned_of :: "pipeline \<Rightarrow> u64 option" where
  "scanned_of p = map_option wm_scanned_height (wmm_watermark (cs_watermark (pl_scanner p)))"

section \<open>The settings stay\<close>

text \<open>What no step changes, and what a run needs of it.\<close>

definition steady :: "u64 \<Rightarrow> chain_scanner \<Rightarrow> bool" where
  "steady H s \<longleftrightarrow> \<not> cs_task_closed s \<and> no_hashes s \<and> (\<forall>n. \<exists>k. shard_of s n = Returns k)
     \<and> 0 < co_batch_size (sc_concurrency (cs_config s)) \<and> co_batch_size (sc_concurrency (cs_config s)) < 2 ^ 62
     \<and> unat H + nat (co_batch_size (sc_concurrency (cs_config s))) < 2 ^ 64"

definition client_below :: "u64 \<Rightarrow> 'c chain_client \<Rightarrow> bool" where
  "client_below H client \<longleftrightarrow> (\<forall>c h c'. cl_GetFinalizedHeight client c = (Inr h, c') \<longrightarrow> h \<le> H)"

definition task_below :: "u64 \<Rightarrow> scan_task \<Rightarrow> bool" where
  "task_below H t \<longleftrightarrow> st_start_block t \<le> st_end_block t \<and> st_end_block t \<le> H"

definition result_ok :: "scan_result \<Rightarrow> bool" where
  "result_ok res \<longleftrightarrow> (\<exists>t. sr_task res = Some t \<and> sr_end_block res = st_end_block t)"

definition pipe_ok :: "u64 \<Rightarrow> pipeline \<Rightarrow> bool" where
  "pipe_ok H p \<longleftrightarrow> steady H (pl_scanner p) \<and> (\<exists>h. scanned_of p = Some h \<and> h \<le> H)
     \<and> (\<forall>t \<in> pipe_tasks p. task_below H t) \<and> (\<forall>res \<in> set (pl_results p). result_ok res)"

text \<open>A round of the scheduler: the tasks it adds lie above the scanned height and below the finality.\<close>

lemma generateTasks_adds:
  assumes "steady H s" "client_below H client" "wmm_watermark (cs_watermark s) = Some w"
    and "generateTasks client ema now sel (s, c) = Some (Returns (s', c'))"
  shows "steady H s' \<and> cs_watermark s' = cs_watermark s
    \<and> (\<exists>sent. cs_task_queue s' = cs_task_queue s @ sent
        \<and> (\<forall>t \<in> set sent. task_below H t \<and> set (task_blocks t) \<subseteq> {wm_scanned_height w + 1..H}))"
proof -
  obtain rc c1 where cur: "cl_GetCurrentHeight client c = (rc, c1)" by (rule prod.exhaust)
  obtain rf c2 where fin: "cl_GetFinalizedHeight client c1 = (rf, c2)" by (rule prod.exhaust)
  have g: "GetWatermark (cs_watermark s) = Inr w" using assms(3) by (simp add: GetWatermark_def)
  show ?thesis
  proof (cases "\<exists>ch fh. rc = Inr ch \<and> rf = Inr fh")
    case False
    then have "s' = s" using assms(4) cur fin g
      by (auto simp: generateTasks_def split: sum.split_asm)
    then show ?thesis using assms(1) by simp
  next
    case True
    then obtain ch fh where r: "rc = Inr ch" "rf = Inr fh" by blast
    have "fh \<le> H" using assms(2) fin r(2) unfolding client_below_def by blast
    then have hi: "MinUint64 fh ch \<le> H" by (auto simp: MinUint64_def)
    let ?bs = "co_batch_size (sc_concurrency (cs_config s))"
    have "unat (MinUint64 fh ch) \<le> unat H" using hi by (simp add: word_le_nat_alt)
    then have lim: "unat (MinUint64 fh ch) + nat ?bs < 2 ^ 64" using assms(1) by (simp add: steady_def)
    from assms(1) have st: "\<not> cs_task_closed s" "\<And>n. \<exists>k. shard_of s n = Returns k" "0 < ?bs" "?bs < 2 ^ 62"
      by (simp_all add: steady_def)
    from task_generation [where ema = ema and now = now and sel = sel, OF assms(3) st(1,2) cur [unfolded r]
        fin [unfolded r] refl refl st(3,4) lim]
    obtain sent rest where t: "cs_task_queue s' = cs_task_queue s @ sent"
      "concat (map task_blocks sent) @ rest = blocks_of (wm_scanned_height w + 1) (MinUint64 fh ch)"
      "\<forall>t \<in> set sent. st_start_block t \<le> st_end_block t \<and> st_end_block t \<le> MinUint64 fh ch"
      "cs_watermark s' = cs_watermark s" "cs_config s' = cs_config s" "cs_sharding s' = cs_sharding s"
      "cs_task_closed s' = cs_task_closed s"
      using assms(4) by fastforce
    have "set (task_blocks t) \<subseteq> {wm_scanned_height w + 1..H}" if "t \<in> set sent" for t
    proof -
      have "set (task_blocks t) \<subseteq> set (blocks_of (wm_scanned_height w + 1) (MinUint64 fh ch))"
        using that unfolding t(2) [symmetric] by auto
      then show ?thesis using hi unfolding set_blocks_of by fastforce
    qed
    moreover have "no_hashes s'" using generateTasks_no_hashes [OF assms(4)] assms(1) by (simp add: steady_def)
    then have "steady H s'" using assms(1) t(5-7) by (auto simp: steady_def shard_of_def)
    ultimately show ?thesis using t(1,3,4) hi by (auto simp: task_below_def)
  qed
qed


lemma processTask_result:
  assumes "processTask scan cap dur t (w, q, c) = Some (w', q', c')"
  shows "q' = q \<or> (\<exists>res. q' = q @ [res] \<and> sr_task res = Some t \<and> sr_end_block res = st_end_block t)"
  using assms by (auto simp: processTask_def try_send_def task_result_def Let_def
      split: Option.bind_split_asm option.split if_split_asm)

text \<open>A processed result: the scanned height stays or is the end of the result's task, never lower.\<close>

lemma handleSuccessResult_effect:
  assumes "handleSuccessResult R lm now res (s, r) = (s', r')" "wmm_watermark (cs_watermark s) = Some w"
  shows "(\<exists>w'. wmm_watermark (cs_watermark s') = Some w'
      \<and> (wm_scanned_height w' = wm_scanned_height w
         \<or> wm_scanned_height w \<le> wm_scanned_height w' \<and> wm_scanned_height w' = sr_end_block res))
    \<and> cs_task_queue s' = cs_task_queue s \<and> (no_hashes s \<longrightarrow> no_hashes s') \<and> cs_config s' = cs_config s
    \<and> cs_sharding s' = cs_sharding s \<and> cs_task_closed s' = cs_task_closed s"
proof -
  obtain e l r1 m where u: "UpdateScannedHeight R lm now (sr_end_block res) (cs_watermark s) r = (e, (l, r1), m)"
    by (metis prod.exhaust)
  have "m = cs_watermark s \<or> m = snd (update_scanned_body now (sr_end_block res) (cs_watermark s))"
    using with_lock_cases [OF u [unfolded UpdateScannedHeight_def]] .
  then show ?thesis using assms u
    by (auto simp: handleSuccessResult_def update_scanned_body_def saveWatermark_def no_hashes_def Let_def
        split: if_split_asm)
qed

lemma processResults_effect:
  assumes "processResults R lm now big res (s, r) = (s', rt, r')" "wmm_watermark (cs_watermark s) = Some w"
    "result_ok res"
  shows "(\<exists>w'. wmm_watermark (cs_watermark s') = Some w'
      \<and> (wm_scanned_height w' = wm_scanned_height w
         \<or> wm_scanned_height w \<le> wm_scanned_height w' \<and> wm_scanned_height w' = sr_end_block res))
    \<and> cs_task_queue s' = cs_task_queue s \<and> (no_hashes s \<longrightarrow> no_hashes s') \<and> cs_config s' = cs_config s
    \<and> cs_sharding s' = cs_sharding s \<and> cs_task_closed s' = cs_task_closed s
    \<and> (\<forall>t' d. rt = Some (t', d) \<longrightarrow> (\<exists>t. sr_task res = Some t \<and> t' = t\<lparr>st_retry_count := st_retry_count t + 1\<rparr>))"
proof (cases "sr_success res")
  case True
  obtain s1 r1 where h: "handleSuccessResult R lm now res (s, r) = (s1, r1)" by (rule prod.exhaust)
  from handleSuccessResult_effect [OF h assms(2)] True assms(1) h show ?thesis by (simp add: processResults_def)
next
  case False
  then show ?thesis using assms
    by (auto simp: processResults_def result_ok_def handleFailureResult_def no_hashes_def Let_def split: if_split_asm)
qed


section \<open>What a step does\<close>

text \<open>The tasks after a step: they cover blocks of tasks before it, or blocks above the height.\<close>

definition tasks_from :: "u64 \<Rightarrow> u64 \<Rightarrow> pipeline \<Rightarrow> pipeline \<Rightarrow> bool" where
  "tasks_from H h p p' \<longleftrightarrow> (\<forall>t' \<in> pipe_tasks p'. task_below H t'
     \<and> ((\<exists>t \<in> pipe_tasks p. task_blocks t' = task_blocks t) \<or> set (task_blocks t') \<subseteq> {h + 1..H}))"

definition step_ok :: "u64 \<Rightarrow> u64 \<Rightarrow> pipeline \<Rightarrow> pipeline \<Rightarrow> bool" where
  "step_ok H h p p' \<longleftrightarrow> steady H (pl_scanner p') \<and> (\<exists>h'. scanned_of p' = Some h' \<and> h \<le> h' \<and> h' \<le> H)
     \<and> tasks_from H h p p' \<and> (\<forall>res \<in> set (pl_results p'). result_ok res)"

lemma tasks_from_sub:
  "pipe_ok H p \<Longrightarrow> pipe_tasks p' \<subseteq> pipe_tasks p \<Longrightarrow> tasks_from H h p p'"
  by (auto simp: tasks_from_def pipe_ok_def)

lemma steady_simps [simp]:
  "steady H (s\<lparr>cs_task_queue := q\<rparr>) = steady H s" "steady H (s\<lparr>cs_workers := ws\<rparr>) = steady H s"
  by (simp_all add: steady_def no_hashes_def shard_of_def)

lemma step_tick:
  assumes "pipe_ok H p" "client_below H client" "scanned_of p = Some h"
    and "generateTasks client ema now (\<lambda>i. Sent) (pl_scanner p, c) = Some (Returns (s', c'))"
  shows "step_ok H h p (p\<lparr>pl_scanner := s'\<lparr>cs_task_queue := cs_task_queue (pl_scanner p)\<rparr>,
      pl_tick := drop (length (cs_task_queue (pl_scanner p))) (cs_task_queue s')\<rparr>)" (is "step_ok H h p ?p")
proof -
  obtain w where w: "wmm_watermark (cs_watermark (pl_scanner p)) = Some w" "h = wm_scanned_height w"
    using assms(3) by (auto simp: scanned_of_def)
  have "steady H (pl_scanner p)" "h \<le> H" using assms(1,3) by (auto simp: pipe_ok_def)
  from generateTasks_adds [OF this(1) assms(2) w(1) assms(4)] obtain sent where
    t: "steady H s'" "cs_watermark s' = cs_watermark (pl_scanner p)"
       "cs_task_queue s' = cs_task_queue (pl_scanner p) @ sent"
       "\<forall>t \<in> set sent. task_below H t \<and> set (task_blocks t) \<subseteq> {h + 1..H}"
    unfolding w(2) by blast
  have "pipe_tasks ?p \<subseteq> pipe_tasks p \<union> set sent" by (auto simp: pipe_tasks_def t(3))
  then have "t' \<in> pipe_tasks p \<or> t' \<in> set sent" if "t' \<in> pipe_tasks ?p" for t' using that by blast
  then have "tasks_from H h p ?p"
    using assms(1) t(4) unfolding tasks_from_def pipe_ok_def by blast
  then show ?thesis using assms(1) t(1,2) w \<open>h \<le> H\<close> by (auto simp: step_ok_def scanned_of_def pipe_ok_def)
qed

lemma step_send:
  assumes "pipe_ok H p" "scanned_of p = Some h" "pl_tick p = t # ts"
  shows "step_ok H h p (p\<lparr>pl_scanner := (pl_scanner p)\<lparr>cs_task_queue := cs_task_queue (pl_scanner p) @ [t]\<rparr>, pl_tick := ts\<rparr>)"
      (is "step_ok H h p ?p")
    and "step_ok H h p (p\<lparr>pl_tick := []\<rparr>)" (is "step_ok H h p ?q")
proof -
  have "tasks_from H h p ?p" "tasks_from H h p ?q"
    using assms(1,3) by (intro tasks_from_sub; auto simp: pipe_tasks_def)+
  then show "step_ok H h p ?p" "step_ok H h p ?q" using assms by (auto simp: step_ok_def pipe_ok_def scanned_of_def)
qed

lemma step_take:
  assumes "pipe_ok H p" "scanned_of p = Some h" "cs_task_queue (pl_scanner p) = t # q"
  shows "step_ok H h p (p\<lparr>pl_scanner := (pl_scanner p)\<lparr>cs_task_queue := q\<rparr>, pl_busy := (i, t) # pl_busy p\<rparr>)"
    (is "step_ok H h p ?p")
proof -
  have "tasks_from H h p ?p" using assms(1,3) by (intro tasks_from_sub) (auto simp: pipe_tasks_def)
  then show ?thesis using assms by (auto simp: step_ok_def pipe_ok_def scanned_of_def)
qed

lemma step_work:
  assumes "pipe_ok H p" "scanned_of p = Some h" "(i, t) \<in> set (pl_busy p)"
    and "processTask scan cap dur t (w0, pl_results p, c) = Some (w, q, c')"
  shows "step_ok H h p (p\<lparr>pl_scanner := (pl_scanner p)\<lparr>cs_workers := ws\<rparr>,
      pl_busy := remove1 (i, t) (pl_busy p), pl_results := q\<rparr>)" (is "step_ok H h p ?p")
proof -
  have q: "q = pl_results p \<or> (\<exists>res. q = pl_results p @ [res] \<and> sr_task res = Some t \<and> sr_end_block res = st_end_block t)"
    using processTask_result [OF assms(4)] .
  have "{t'. \<exists>res \<in> set q. sr_task res = Some t'} \<subseteq> {t'. \<exists>res \<in> set (pl_results p). sr_task res = Some t'} \<union> {t}"
    using q by auto
  moreover have "t \<in> snd ` set (pl_busy p)" using assms(3) by force
  moreover have "snd ` set (remove1 (i, t) (pl_busy p)) \<subseteq> snd ` set (pl_busy p)"
    by (intro image_mono set_remove1_subset)
  ultimately have "pipe_tasks ?p \<subseteq> pipe_tasks p" unfolding pipe_tasks_def by simp blast
  then have "tasks_from H h p ?p" using assms(1) by (rule tasks_from_sub [rotated])
  moreover have "\<forall>res \<in> set q. result_ok res" using q assms(1) by (auto simp: pipe_ok_def result_ok_def)
  ultimately show ?thesis using assms(1,2) by (auto simp: step_ok_def pipe_ok_def scanned_of_def)
qed

lemma step_result:
  assumes "pipe_ok H p" "scanned_of p = Some h" "pl_results p = res # q"
    and "processResults R lm now big res (pl_scanner p, r) = (s', rt, r')"
  shows "step_ok H h p (p\<lparr>pl_scanner := s', pl_results := q,
      pl_retries := (case rt of None \<Rightarrow> pl_retries p | Some (t, d) \<Rightarrow> t # pl_retries p)\<rparr>)" (is "step_ok H h p ?p")
proof -
  obtain w where w: "wmm_watermark (cs_watermark (pl_scanner p)) = Some w" "h = wm_scanned_height w"
    using assms(2) by (auto simp: scanned_of_def)
  have ok: "result_ok res" "steady H (pl_scanner p)" "h \<le> H" using assms(1-3) by (auto simp: pipe_ok_def)
  from processResults_effect [OF assms(4) w(1) ok(1)] obtain w' where
    e: "wmm_watermark (cs_watermark s') = Some w'"
      "wm_scanned_height w' = h \<or> h \<le> wm_scanned_height w' \<and> wm_scanned_height w' = sr_end_block res"
      "cs_task_queue s' = cs_task_queue (pl_scanner p)" "no_hashes (pl_scanner p) \<longrightarrow> no_hashes s'"
      "cs_config s' = cs_config (pl_scanner p)" "cs_sharding s' = cs_sharding (pl_scanner p)"
      "cs_task_closed s' = cs_task_closed (pl_scanner p)"
      "\<forall>t' d. rt = Some (t', d) \<longrightarrow> (\<exists>t. sr_task res = Some t \<and> t' = t\<lparr>st_retry_count := st_retry_count t + 1\<rparr>)"
    unfolding w(2) by blast
  obtain t where t: "sr_task res = Some t" "sr_end_block res = st_end_block t" using ok(1) by (auto simp: result_ok_def)
  have tp: "t \<in> pipe_tasks p" using t(1) assms(3) by (auto simp: pipe_tasks_def)
  then have tb: "task_below H t" using assms(1) by (simp add: pipe_ok_def)
  let ?t = "t\<lparr>st_retry_count := st_retry_count t + 1\<rparr>"
  have "pipe_tasks ?p \<subseteq> pipe_tasks p \<union> {?t}"
    using e(3,8) t(1) assms(3) by (auto simp: pipe_tasks_def split: option.splits)
  moreover have "task_below H ?t" "task_blocks ?t = task_blocks t" using tb by (simp_all add: task_below_def task_blocks_def)
  ultimately have "tasks_from H h p ?p" using assms(1) tp by (auto simp: tasks_from_def pipe_ok_def)
  moreover have "steady H s'" using ok(2) e(4-7) by (auto simp: steady_def shard_of_def)
  moreover have "h \<le> wm_scanned_height w'" "wm_scanned_height w' \<le> H"
    using e(2) ok(3) tb t(2) by (auto simp: task_below_def)
  ultimately show ?thesis using e(1) assms(1,3) by (auto simp: step_ok_def scanned_of_def pipe_ok_def)
qed

lemma step_retry:
  assumes "pipe_ok H p" "scanned_of p = Some h" "t \<in> set (pl_retries p)" "retry_send sel1 t (pl_scanner p) = Returns s'"
  shows "step_ok H h p (p\<lparr>pl_scanner := s', pl_retries := remove1 t (pl_retries p)\<rparr>)" (is "step_ok H h p ?p")
proof -
  have s': "s' = pl_scanner p \<or> s' = (pl_scanner p)\<lparr>cs_task_queue := cs_task_queue (pl_scanner p) @ [t]\<rparr>"
    using assms(4) by (auto simp: retry_send_def split: select_result.split_asm if_split_asm)
  then have "pipe_tasks ?p \<subseteq> pipe_tasks p"
    using assms(3) set_remove1_subset [of t "pl_retries p"] by (auto simp: pipe_tasks_def)
  then have "tasks_from H h p ?p" using assms(1) by (rule tasks_from_sub [rotated])
  then show ?thesis using assms(1,2) s' by (auto simp: step_ok_def pipe_ok_def scanned_of_def)
qed

lemma pipe_step_ok:
  assumes "pipe_step client R lm cap (p, c, r) (p', c', r')" "pipe_ok H p" "client_below H client" "scanned_of p = Some h"
  shows "step_ok H h p p'"
  using assms(1)
proof (cases rule: pipe_step.cases)
  case (p_tick ema now s')
  show ?thesis unfolding p_tick(1) by (rule step_tick [OF assms(2-4) p_tick(4)])
next
  case (p_send t ts)
  show ?thesis unfolding p_send(1) by (rule step_send(1) [OF assms(2,4) p_send(4)])
next
  case (p_give_up t ts)
  show ?thesis unfolding p_give_up(1) by (rule step_send(2) [OF assms(2,4) p_give_up(4)])
next
  case (p_take t q i)
  show ?thesis unfolding p_take(1) by (rule step_take [OF assms(2,4) p_take(4)])
next
  case (p_work i t dn dnp order dur w q)
  show ?thesis unfolding p_work(1) by (rule step_work [OF assms(2,4) p_work(3,4)])
next
  case (p_result res q now big s' rt)
  show ?thesis unfolding p_result(1) by (rule step_result [OF assms(2,4) p_result(3,4)])
next
  case (p_retry t sel1 s')
  show ?thesis unfolding p_retry(1) by (rule step_retry [OF assms(2,4) p_retry(4,5)])
next
  case (p_reorg now s')
  have "no_hashes (pl_scanner p)" using assms(2) by (simp add: pipe_ok_def steady_def)
  from checkReorg_no_hashes [OF this, of client R lm now c r] have "s' = pl_scanner p" using p_reorg by simp
  then have "p' = p" using p_reorg(1) by simp
  then show ?thesis using assms(2,4) tasks_from_sub [of H p p] by (auto simp: step_ok_def pipe_ok_def)
qed

lemma step_ok_pipe: "step_ok H h p p' \<Longrightarrow> pipe_ok H p'"
  by (auto simp: step_ok_def pipe_ok_def tasks_from_def)

lemma pipe_run_ok:
  assumes "pipe_run client R lm cap x y" "client_below H client" "pipe_ok H (fst x)"
  shows "pipe_ok H (fst y)"
  using assms
proof (induction rule: pipe_run.induct)
  case (pr_step x y z)
  obtain p c r p' c' r' where yz: "y = (p, c, r)" "z = (p', c', r')" by (metis prod.exhaust)
  have ok: "pipe_ok H p" using pr_step yz by simp
  then obtain h where "scanned_of p = Some h" by (auto simp: pipe_ok_def)
  from pipe_step_ok [OF pr_step.hyps(2) [unfolded yz] ok pr_step.prems(1) this] show ?case
    using step_ok_pipe yz by simp
qed simp


section \<open>The scanner stays below the finality\<close>

definition sound_config :: "u64 \<Rightarrow> scanner_config \<Rightarrow> bool" where
  "sound_config H cfg \<longleftrightarrow> 0 < co_batch_size (sc_concurrency cfg) \<and> co_batch_size (sc_concurrency cfg) < 2 ^ 62
     \<and> unat H + nat (co_batch_size (sc_concurrency cfg)) < 2 ^ 64 \<and> shc_shard_count (sc_sharding cfg) < 2 ^ 63"

lemma started_pipeline_ok:
  assumes "NewChainScanner now0 cid cn cfg lm0 = Returns (Inr s0)" "sound_config H cfg"
  shows "pipe_ok H (start_pipeline s0)"
proof -
  have f: "cs_config s0 = cfg" "cs_task_queue s0 = []" "\<not> cs_task_closed s0" "\<not> ss_running (cs_status s0)"
    "wmm_block_hashes (cs_watermark s0) = []" "ss_reorg_count (cs_status s0) = 0"
    "map_option wm_scanned_height (wmm_watermark (cs_watermark s0)) = Some 0"
    "cs_sharding s0 = None \<or> (\<exists>m. NewShardingManager cid (sc_sharding cfg) = Inr m \<and> cs_sharding s0 = Some m)"
    using assms(1) by (cases "NewShardingManager cid (sc_sharding cfg)";
      auto simp: NewChainScanner_def NewWatermarkManager_def new_status_def split: if_splits sum.splits)+
  have "\<exists>k. shard_of s0 n = Returns k" for n
    using f(8) CalculateShard_range [OF NewShardingManager_wf, of cid "sc_sharding cfg" _ n] assms(2)
    by (auto simp: shard_of_def sound_config_def)
  then have "steady H (snd (scanner_Start s0))" using f assms(2)
    by (auto simp: steady_def sound_config_def scanner_Start_def no_hashes_def shard_of_def Let_def)
  then show ?thesis using f by (auto simp: pipe_ok_def start_pipeline_def scanned_of_def pipe_tasks_def scanner_Start_def Let_def)
qed

text \<open>
  C6: In every run of a started scanner, whatever fails, is retried or comes late, the scanned height and
  the end of every task yet to be sent, in the queue, at a worker, in a result or waiting for its retry stay at or
  below the finalised height the node reports.
\<close>

theorem scanner_below_finality:
  assumes "NewChainScanner now0 cid cn cfg lm0 = Returns (Inr s0)" "sound_config H cfg" "client_below H client"
    and "pipe_run client R lm cap (start_pipeline s0, c0, r0) (p, c, r)"
  shows "\<exists>h. scanned_of p = Some h \<and> h \<le> H
    \<and> (\<forall>t \<in> pipe_tasks p. st_start_block t \<le> st_end_block t \<and> st_end_block t \<le> H)"
proof -
  have "pipe_ok H p" using pipe_run_ok [OF assms(4,3)] started_pipeline_ok [OF assms(1,2)] by simp
  then show ?thesis unfolding pipe_ok_def task_below_def by blast
qed

section \<open>Lost blocks\<close>

text \<open>A block the scanned height has passed and no task in the pipeline covers.\<close>

definition lost :: "u64 \<Rightarrow> pipeline \<Rightarrow> bool" where
  "lost b p \<longleftrightarrow> (\<exists>h. scanned_of p = Some h \<and> b \<le> h) \<and> (\<forall>t \<in> pipe_tasks p. b \<notin> set (task_blocks t))"

lemma pipe_step_lost:
  assumes "pipe_step client R lm cap (p, c, r) (p', c', r')" "pipe_ok H p" "client_below H client" "lost b p"
  shows "lost b p'"
proof -
  obtain h where h: "scanned_of p = Some h" "b \<le> h" using assms(4) by (auto simp: lost_def)
  have "h \<le> H" "H \<noteq> max_u64" using assms(2) h(1) by (auto simp: pipe_ok_def steady_def)
  then have "h \<noteq> max_u64" using word_order.extremum_unique [of H] by blast
  then have "b \<notin> {h + 1..H}" using h(2) by (auto simp: word_le_nat_alt unat_Suc_u64)
  with pipe_step_ok [OF assms(1-3) h(1)] assms(4) h(2) show ?thesis
    by (fastforce simp: lost_def step_ok_def tasks_from_def)
qed

lemma pipe_run_lost:
  assumes "pipe_run client R lm cap x y" "pipe_ok H (fst x)" "client_below H client" "lost b (fst x)"
  shows "lost b (fst y)"
  using assms
proof (induction rule: pipe_run.induct)
  case (pr_step x y z)
  obtain p c r p' c' r' where yz: "y = (p, c, r)" "z = (p', c', r')" by (metis prod.exhaust)
  have "pipe_ok H p" using pipe_run_ok [OF pr_step.hyps(1) pr_step.prems(2,1)] yz by simp
  from pipe_step_lost [OF pr_step.hyps(2) [unfolded yz] this pr_step.prems(2)] pr_step yz show ?case by simp
qed simp

text \<open>
  C5: A block that is passed is lost for ever. When the watermark has gone past a block because a later
  task succeeded, and no task holds the block any more because its own failed for the last time (or
  its result was dropped at a full queue), then no run of the scanner ever makes a task for it again.
\<close>

theorem lost_block_never_scanned:
  assumes "NewChainScanner now0 cid cn cfg lm0 = Returns (Inr s0)" "sound_config H cfg" "client_below H client"
    and "pipe_run client R lm cap (start_pipeline s0, c0, r0) (p, c, r)" "lost b p"
    and "pipe_run client R lm cap (p, c, r) (p', c', r')"
  shows "(\<forall>t \<in> pipe_tasks p'. b \<notin> set (task_blocks t)) \<and> (\<exists>h. scanned_of p' = Some h \<and> b \<le> h)"
proof -
  have "pipe_ok H p" using pipe_run_ok [OF assms(4,3)] started_pipeline_ok [OF assms(1,2)] by simp
  with pipe_run_lost [OF assms(6)] assms(3,5) have "lost b p'" by simp
  then show ?thesis by (simp add: lost_def)
qed


section \<open>A run that loses blocks\<close>

text \<open>A node that never answers for block 1, and a scanner that gives up after one attempt.\<close>

definition fails_on_1 :: "unit chain_client" where
  "fails_on_1 = (static_client 4 4)\<lparr>cl_BatchGetBlocks := (\<lambda>ns s.
     if 1 \<in> set ns then (Inl (Msg ''timeout''), s) else chain_client (\<lambda>n. mk_block n ''h'' ''p'' []) ns s)\<rparr>"

definition no_retry :: concurrency_config where
  "no_retry = small_config\<lparr>co_max_retries := 0\<rparr>"

definition no_retry_config :: scanner_config where
  "no_retry_config = one_worker_config\<lparr>sc_concurrency := no_retry\<rparr>"

definition giving_up :: chain_scanner where
  "giving_up = one_worker\<lparr>cs_config := no_retry_config\<rparr>"

lemma giving_up_scanner:
  "NewChainScanner 7 ''eth'' False no_retry_config (Some \<lparr>lmg_default_ttl = 1\<rparr>) = Returns (Inr giving_up)"
  by (simp add: NewChainScanner_def no_retry_config_def no_retry_def one_worker_config_def NewWatermarkManager_def
      NewReorgHandler_def scanner_at_def one_worker_def giving_up_def wm_at_def small_config_def)

lemma sound_no_retry: "sound_config 4 no_retry_config" and below_4: "client_below 4 fails_on_1"
  by (simp_all add: sound_config_def no_retry_config_def no_retry_def one_worker_config_def small_config_def
      client_below_def fails_on_1_def static_client_def)

abbreviation t12 :: scan_task where "t12 \<equiv> new_task ''eth'' 1 2 0"
abbreviation t34 :: scan_task where "t34 \<equiv> new_task ''eth'' 3 4 0"

lemma lossy_tasks:
  "\<forall>n. shard n = Returns 0 \<Longrightarrow> task_loop (\<lambda>i. Sent) shard ''eth'' False 2 4 0 1 [] = Some (Returns [t12, t34])"
  by (subst task_loop.simps, simp add: Let_def MinUint64_def,
      subst task_loop.simps, simp add: Let_def MinUint64_def, subst task_loop.simps, simp)

lemma lossy_scans:
  "\<exists>e. scanBlocks (cl_BatchGetBlocks fails_on_1) (\<lambda>s. False) dnp order no_retry 1 2 () = Some ((0, 0, Some e), ())"
  "\<exists>n k. scanBlocks (cl_BatchGetBlocks fails_on_1) (\<lambda>s. False) dnp order no_retry 3 4 () = Some ((n, k, None), ())"
proof -
  have b: "block_numbers 1 2 = Some [1, 2]" "block_numbers 3 4 = Some [3, 4]"
    by (simp_all add: block_numbers_blocks) code_simp+
  have c: "cl_BatchGetBlocks fails_on_1 [1, 2] () = (Inl (Msg ''timeout''), ())"
    "cl_BatchGetBlocks fails_on_1 [3, 4] () = chain_client (\<lambda>n. mk_block n ''h'' ''p'' []) [3, 4] ()"
    by (simp_all add: fails_on_1_def)
  have "seq_loop bgb (\<lambda>s. False) 2 2 1 (0, 0) () = (case bgb [1, 2] () of
      (Inl e, s') \<Rightarrow> Some ((0, 0, Some (batch_error 1 2 e)), s')
    | (Inr blocks, s') \<Rightarrow> (let c' = count_blocks blocks (0, 0) in seq_loop bgb (\<lambda>s. False) 2 2 3 c' s'))" for bgb
    by (subst seq_loop.simps) (simp add: MinUint64_def b Let_def split: prod.split sum.split)
  moreover have "seq_loop bgb (\<lambda>s. False) 2 4 3 (0, 0) () = (case bgb [3, 4] () of
      (Inl e, s') \<Rightarrow> Some ((0, 0, Some (batch_error 3 4 e)), s')
    | (Inr blocks, s') \<Rightarrow> (let c' = count_blocks blocks (0, 0) in Some ((fst c', snd c', None), s')))" for bgb
    by (subst seq_loop.simps) (simp add: MinUint64_def b Let_def seq_loop.simps [of _ _ _ 4 5] split: prod.split sum.split)
  ultimately show "\<exists>e. scanBlocks (cl_BatchGetBlocks fails_on_1) (\<lambda>s. False) dnp order no_retry 1 2 () = Some ((0, 0, Some e), ())"
    "\<exists>n k. scanBlocks (cl_BatchGetBlocks fails_on_1) (\<lambda>s. False) dnp order no_retry 3 4 () = Some ((n, k, None), ())"
    using c by (simp_all add: scanBlocks_def no_retry_def small_config_def scanBlocksSequential_def wrap_i64_def
        chain_client_def Let_def sint_u64)
qed


definition stage :: "scan_task list \<Rightarrow> scan_task list \<Rightarrow> (nat \<times> scan_task) list \<Rightarrow> scan_result list \<Rightarrow> pipeline \<Rightarrow> bool" where
  "stage ts q busy res p \<longleftrightarrow> pl_tick p = ts \<and> cs_task_queue (pl_scanner p) = q \<and> pl_busy p = busy \<and> pl_results p = res \<and> pl_retries p = []
     \<and> length (cs_workers (pl_scanner p)) = 1 \<and> cs_config (pl_scanner p) = no_retry_config
     \<and> cs_watermark (pl_scanner p) = wm_at 0 0"

abbreviation no_locks :: "string \<Rightarrow> string option" where "no_locks \<equiv> (\<lambda>k. None)"

abbreviation lossy_step where
  "lossy_step p p' \<equiv> pipe_step fails_on_1 mem_redis \<lparr>lmg_default_ttl = 1\<rparr> 2 (p, (), no_locks) (p', (), no_locks)"

lemma lossy_tick: "\<exists>p. lossy_step (start_pipeline giving_up) p \<and> stage [t12, t34] [] [] [] p"
proof -
  let ?s = "snd (scanner_Start giving_up)"
  have f: "cs_watermark ?s = wm_at 0 0" "cs_config ?s = no_retry_config" "cs_task_queue ?s = []"
    "\<not> cs_task_closed ?s" "cs_chain_id ?s = ''eth''" "cs_sharding ?s = None" "length (cs_workers ?s) = 1"
    by (simp_all add: giving_up_def one_worker_def scanner_at_def scanner_Start_def new_status_def Let_def)
  obtain w where w: "wmm_watermark (wm_at 0 0) = Some w" "wm_scanned_height w = 0" by (simp add: wm_at_def)
  let ?s1 = "updateStatus (\<lambda>b d v. v) 7 4 4 w ?s"
  have len: "length (cs_workers ?s1) = 1" using f(7) by (simp add: updateStatus_def Let_def)
  have b: "backpressure_batch (task_cap ?s1) 0 2 = 2"
    by (simp add: backpressure_batch_def task_cap_def f no_retry_config_def no_retry_def small_config_def wrap_i64_def)
  have "generateTasks fails_on_1 (\<lambda>b d v. v) 7 (\<lambda>i. Sent) (?s, ())
      = Some (Returns (?s1\<lparr>cs_task_queue := [t12, t34]\<rparr>, ()))"
    using lossy_tasks [of "shard_of ?s1"] b
    by (simp add: w generateTasks_def GetWatermark_def f fails_on_1_def static_client_def MinUint64_def Let_def
        shard_of_def no_retry_config_def no_retry_def small_config_def)
  then have g: "generateTasks fails_on_1 (\<lambda>b d v. v) 7 (\<lambda>i. Sent) (pl_scanner (start_pipeline giving_up), ())
      = Some (Returns (?s1\<lparr>cs_task_queue := [t12, t34]\<rparr>, ()))" by (simp add: start_pipeline_def)
  have "pl_tick (start_pipeline giving_up) = []" by (simp add: start_pipeline_def)
  from p_tick [OF this g] show ?thesis using f len
    by (intro exI conjI) (assumption, simp add: start_pipeline_def stage_def)
qed

lemma lossy_send:
  assumes "stage (t # ts) q [] [] p" "length q < 10"
  shows "\<exists>p'. lossy_step p p' \<and> stage ts (q @ [t]) [] [] p'"
proof -
  have "pl_tick p = t # ts" "int (length (cs_task_queue (pl_scanner p))) < task_cap (pl_scanner p)"
    using assms by (simp_all add: stage_def task_cap_def no_retry_config_def no_retry_def small_config_def wrap_i64_def)
  from p_send [OF this] show ?thesis using assms by (intro exI conjI) (assumption, simp add: stage_def)
qed

lemma lossy_take:
  assumes "stage [] (t # q) [] [] p"
  shows "\<exists>p'. lossy_step p p' \<and> stage [] q [(0, t)] [] p'"
proof -
  have "cs_task_queue (pl_scanner p) = t # q" "0 < length (cs_workers (pl_scanner p))" "0 \<notin> fst ` set (pl_busy p)"
    using assms by (simp_all add: stage_def)
  from p_take [OF this] show ?thesis using assms by (intro exI conjI) (assumption, simp add: stage_def)
qed

lemma lossy_work:
  assumes "stage [] q [(0, t)] [] p"
    and "scanBlocks (cl_BatchGetBlocks fails_on_1) (\<lambda>s. False) (\<lambda>i. False) (\<lambda>k. [0..<k]) no_retry
      (st_start_block t) (st_end_block t) () = Some (a, ())"
  shows "\<exists>p'. lossy_step p p' \<and> stage [] q [] [task_result t 5 a] p'"
proof -
  have i: "(0, t) \<in> set (pl_busy p)" using assms(1) by (simp add: stage_def)
  obtain w where w: "processTask (worker_scan fails_on_1 (\<lambda>s. False) (\<lambda>i. False) (\<lambda>k. [0..<k]) (pl_scanner p)) 2 5 t
      (cs_workers (pl_scanner p) ! 0, pl_results p, ()) = Some (w, [task_result t 5 a], ())"
    using assms by (simp add: processTask_def stage_def no_retry_config_def try_send_def Let_def)
  from p_work [OF i w] show ?thesis using assms(1) by (intro exI conjI) (assumption, simp add: stage_def)
qed

lemma lossy_failure:
  assumes "stage [] q [] [task_result (new_task ''eth'' s e 0) 5 (n, k, Some x)] p"
  shows "\<exists>p'. lossy_step p p' \<and> stage [] q [] [] p'"
proof -
  let ?res = "task_result (new_task ''eth'' s e 0) 5 (n, k, Some x)"
  have r: "pl_results p = ?res # []" using assms by (simp add: stage_def)
  obtain s' where s': "processResults mem_redis \<lparr>lmg_default_ttl = 1\<rparr> 7 0 ?res (pl_scanner p, no_locks) = (s', None, no_locks)"
    "cs_task_queue s' = q" "length (cs_workers s') = 1" "cs_config s' = no_retry_config" "cs_watermark s' = wm_at 0 0"
    using assms by (simp add: processResults_def task_result_def handleFailureResult_def new_task_def stage_def
        no_retry_config_def no_retry_def Let_def)
  from p_result [OF r s'(1)] show ?thesis using assms s'(2-) by (intro exI conjI) (assumption, simp add: stage_def)
qed

lemma lossy_success:
  assumes "stage [] [] [] [task_result t34 5 (n, k, None)] p"
  shows "\<exists>p'. lossy_step p p' \<and> pipe_tasks p' = {} \<and> scanned_of p' = Some 4"
proof -
  let ?res = "task_result t34 5 (n, k, None)"
  have r: "pl_results p = ?res # []" using assms by (simp add: stage_def)
  have u: "\<exists>e l. UpdateScannedHeight mem_redis \<lparr>lmg_default_ttl = 1\<rparr> 7 4 (wm_at 0 0) no_locks
      = (e, (l, no_locks), snd (update_scanned_body 7 4 (wm_at 0 0)))"
    by (simp add: UpdateScannedHeight_def with_lock_def RedisLock_Lock_def RedisLock_Unlock_def mem_redis_def watermark_lock_def
        unlock_script_def fun_eq_iff Let_def split: prod.splits)
  then obtain s' where s': "processResults mem_redis \<lparr>lmg_default_ttl = 1\<rparr> 7 0 ?res (pl_scanner p, no_locks) = (s', None, no_locks)"
    "cs_task_queue s' = []" "cs_watermark s' = snd (update_scanned_body 7 4 (wm_at 0 0))"
    using assms by (auto simp: processResults_def task_result_def handleSuccessResult_def new_task_def stage_def Let_def)
  have "map_option wm_scanned_height (wmm_watermark (cs_watermark s')) = Some 4"
    unfolding s'(3) by code_simp
  with p_result [OF r s'(1)] assms s'(2) show ?thesis
    by (intro exI conjI) (assumption, simp_all add: stage_def pipe_tasks_def scanned_of_def)
qed


lemma lossy_run:
  obtains p where
    "pipe_run fails_on_1 mem_redis \<lparr>lmg_default_ttl = 1\<rparr> 2 (start_pipeline giving_up, (), no_locks) (p, (), no_locks)"
    "pipe_tasks p = {}" "scanned_of p = Some 4"
proof -
  have b: "st_start_block t12 = 1" "st_end_block t12 = 2" "st_start_block t34 = 3" "st_end_block t34 = 4"
    by (simp_all add: new_task_def)
  obtain q1 where q1: "lossy_step (start_pipeline giving_up) q1" "stage [t12, t34] [] [] [] q1" using lossy_tick by blast
  obtain q2 where q2: "lossy_step q1 q2" "stage [t34] [t12] [] [] q2" using lossy_send [OF q1(2)] by auto
  obtain p1 where p1: "lossy_step q2 p1" "stage [] [t12, t34] [] [] p1" using lossy_send [OF q2(2)] by auto
  obtain p2 where p2: "lossy_step p1 p2" "stage [] [t34] [(0, t12)] [] p2" using lossy_take [OF p1(2)] by blast
  obtain x where x: "scanBlocks (cl_BatchGetBlocks fails_on_1) (\<lambda>s. False) (\<lambda>i. False) (\<lambda>k. [0..<k]) no_retry 1 2 ()
      = Some ((0, 0, Some x), ())" using lossy_scans(1) by blast
  obtain p3 where p3: "lossy_step p2 p3" "stage [] [t34] [] [task_result t12 5 (0, 0, Some x)] p3"
    using lossy_work [OF p2(2), unfolded b, OF x] by blast
  obtain p4 where p4: "lossy_step p3 p4" "stage [] [t34] [] [] p4" using lossy_failure [OF p3(2)] by blast
  obtain p5 where p5: "lossy_step p4 p5" "stage [] [] [(0, t34)] [] p5" using lossy_take [OF p4(2)] by blast
  obtain n k where n: "scanBlocks (cl_BatchGetBlocks fails_on_1) (\<lambda>s. False) (\<lambda>i. False) (\<lambda>k. [0..<k]) no_retry 3 4 ()
      = Some ((n, k, None), ())" using lossy_scans(2) by blast
  obtain p6 where p6: "lossy_step p5 p6" "stage [] [] [] [task_result t34 5 (n, k, None)] p6"
    using lossy_work [OF p5(2), unfolded b, OF n] by blast
  obtain p7 where p7: "lossy_step p6 p7" "pipe_tasks p7 = {}" "scanned_of p7 = Some 4"
    using lossy_success [OF p6(2)] by blast
  note pr_step [OF pr_step [OF pr_step [OF pr_refl q1(1)] q2(1)] p1(1)]
  note pr_step [OF pr_step [OF pr_step [OF this p2(1)] p3(1)] p4(1)]
  from pr_step [OF pr_step [OF pr_step [OF this p5(1)] p6(1)] p7(1)] p7(2,3) show thesis by (rule that)
qed

theorem scanner_below_finality_witness:
  "\<exists>p h. pipe_run fails_on_1 mem_redis \<lparr>lmg_default_ttl = 1\<rparr> 2 (start_pipeline giving_up, (), no_locks) (p, (), no_locks)
    \<and> scanned_of p = Some h \<and> h \<le> 4"
proof -
  obtain p where r: "pipe_run fails_on_1 mem_redis \<lparr>lmg_default_ttl = 1\<rparr> 2
      (start_pipeline giving_up, (), no_locks) (p, (), no_locks)" using lossy_run by blast
  obtain h where "scanned_of p = Some h" "h \<le> 4"
    using scanner_below_finality [OF giving_up_scanner sound_no_retry below_4 r] by (elim exE conjE)
  with r show ?thesis by (intro exI conjI)
qed

text \<open>Block 1 was never fetched; the watermark says 4; no further step will ask for it.\<close>

theorem lost_block_never_scanned_witness:
  "\<exists>p. pipe_run fails_on_1 mem_redis \<lparr>lmg_default_ttl = 1\<rparr> 2 (start_pipeline giving_up, (), no_locks) (p, (), no_locks)
    \<and> scanned_of p = Some 4
    \<and> {p'. pipe_run fails_on_1 mem_redis \<lparr>lmg_default_ttl = 1\<rparr> 2 (p, (), no_locks) (p', (), no_locks)}
        \<subseteq> {p'. 1 \<notin> (\<Union>t \<in> pipe_tasks p'. set (task_blocks t))}"
proof -
  obtain p where p: "pipe_run fails_on_1 mem_redis \<lparr>lmg_default_ttl = 1\<rparr> 2
      (start_pipeline giving_up, (), no_locks) (p, (), no_locks)" "pipe_tasks p = {}" "scanned_of p = Some 4"
    by (rule lossy_run)
  have l: "lost 1 p" using p(2,3) by (simp add: lost_def)
  have "1 \<notin> (\<Union>t \<in> pipe_tasks p'. set (task_blocks t))"
    if r: "pipe_run fails_on_1 mem_redis \<lparr>lmg_default_ttl = 1\<rparr> 2 (p, (), no_locks) (p', (), no_locks)" for p'
    using lost_block_never_scanned [OF giving_up_scanner sound_no_retry below_4 p(1) l r, THEN conjunct1] by simp
  then show ?thesis by (intro exI [of _ p] conjI p(1,3)) auto
qed

section \<open>The interval of the monitor\<close>

text \<open>
  Nothing checks the interval of the watermark monitor, which has no default: a configuration
  without it makes the goroutine panic at its start, and with it the program.
\<close>

lemma monitor_needs_interval:
  "wc_check_interval (sc_watermark (cs_config s)) \<le> 0 \<Longrightarrow> monitorWatermark evs (s, ws) = Some Panics"
  by (simp add: monitorWatermark_def)

end
