(* ===== verification/ReorgLoops.thy ===== *)
theory ReorgLoops
  imports Detector
begin

text \<open>
  The goroutines of \<open>internal/reorg/processor.go\<close> and \<open>internal/reorg/detector.go\<close>: the workers that
  take events from the queue, the monitor of stuck processing, and the loop that checks all chains.
  The goroutines that one tick starts for the chains are taken one after the other, in any order.
\<close>

section \<open>The processor\<close>

text \<open>What a worker's select sees: a done context, the closed queue, or an event.\<close>

datatype worker_seen = SeenDone | SeenClosed | SeenEvent reorg_event

fun processor_worker ::
    "'s storage \<Rightarrow> 'r redis \<Rightarrow> lock_manager \<Rightarrow> processor_config \<Rightarrow> (nat \<Rightarrow> bool) \<Rightarrow> (nat \<Rightarrow> int \<times> int)
      \<Rightarrow> worker_seen list \<Rightarrow> ('s, 'r) reorg_processor \<Rightarrow> ('s, 'r) reorg_processor outcome" where
  "processor_worker S R lm cfg cancelled clock [] p = Returns p"
| "processor_worker S R lm cfg cancelled clock (SeenDone # evs) p = Returns p"
| "processor_worker S R lm cfg cancelled clock (SeenClosed # evs) p = Returns p"
| "processor_worker S R lm cfg cancelled clock (SeenEvent ev # evs) p =
     outcome_bind (processEventWithRetry S R lm cfg cancelled clock ev p)
       (\<lambda>(e, ev', p'). processor_worker S R lm cfg cancelled clock evs p')"

text \<open>The warnings of the monitor are kept.\<close>

definition processor_monitor ::
    "processor_config \<Rightarrow> (int \<times> string list) tick list \<Rightarrow> ('s, 'r) reorg_processor \<times> string list
      \<Rightarrow> (('s, 'r) reorg_processor \<times> string list) outcome option" where
  "processor_monitor cfg =
     tick_loop (\<lambda>(now, chainIDs) (p, warns). Some (Returns (p, warns @ checkStuckProcessing cfg now chainIDs p)))"

definition processor_revertTransactionBusinessData :: "transaction \<Rightarrow> go_error option" where
  "processor_revertTransactionBusinessData t = None"

definition GetAllProcessingStatus :: "('s, 'r) reorg_processor \<Rightarrow> string \<rightharpoonup> processing_status" where
  "GetAllProcessingStatus p = rp_status p"

definition processor_GetAllStatistics :: "('s, 'r) reorg_processor \<Rightarrow> string \<rightharpoonup> processor_statistics" where
  "processor_GetAllStatistics p = rp_statistics p"

section \<open>The detector\<close>

text \<open>The chains are those of the state when the tick starts, in the order the goroutines happen to run.\<close>

fun check_each ::
    "'s storage \<Rightarrow> 'c chain_client \<Rightarrow> 'r redis \<Rightarrow> lock_manager \<Rightarrow> detector_config \<Rightarrow> int \<Rightarrow> string list
      \<Rightarrow> reorg_detector \<times> 'c \<times> ('s, 'r) auto_world \<Rightarrow> (reorg_detector \<times> 'c \<times> ('s, 'r) auto_world) outcome" where
  "check_each S cl R lm cfg now [] x = Returns x"
| "check_each S cl R lm cfg now (c # cs) x =
     outcome_bind (checkChain S cl R lm cfg now c x) (check_each S cl R lm cfg now cs)"

definition checkAllChains ::
    "'s storage \<Rightarrow> 'c chain_client \<Rightarrow> 'r redis \<Rightarrow> lock_manager \<Rightarrow> detector_config \<Rightarrow> (reorg_detector \<Rightarrow> string list) \<Rightarrow> int
      \<Rightarrow> reorg_detector \<times> 'c \<times> ('s, 'r) auto_world \<Rightarrow> (reorg_detector \<times> 'c \<times> ('s, 'r) auto_world) outcome" where
  "checkAllChains S cl R lm cfg order now x = check_each S cl R lm cfg now (order (fst x)) x"

definition detectionLoop ::
    "'s storage \<Rightarrow> 'c chain_client \<Rightarrow> 'r redis \<Rightarrow> lock_manager \<Rightarrow> detector_config \<Rightarrow> (reorg_detector \<Rightarrow> string list) \<Rightarrow> int tick list
      \<Rightarrow> reorg_detector \<times> 'c \<times> ('s, 'r) auto_world \<Rightarrow> (reorg_detector \<times> 'c \<times> ('s, 'r) auto_world) outcome option" where
  "detectionLoop S cl R lm cfg order evs x =
     (if dcf_check_interval cfg \<le> 0 then Some Panics
      else tick_loop (\<lambda>now y. Some (checkAllChains S cl R lm cfg order now y)) evs x)"

definition detector_GetAllStatistics :: "reorg_detector \<Rightarrow> string \<rightharpoonup> detector_statistics" where
  "detector_GetAllStatistics d = rd_statistics d"

section \<open>Workers and events\<close>

text \<open>A worker handles the events it sees before the end one after the other, and nothing after it.\<close>

lemma processor_worker_append:
  "processor_worker S R lm cfg cn clock (map SeenEvent es @ evs) p
    = outcome_bind (processor_worker S R lm cfg cn clock (map SeenEvent es) p) (processor_worker S R lm cfg cn clock evs)"
proof (induction es arbitrary: p)
  case (Cons ev es)
  show ?case
    by (cases "processEventWithRetry S R lm cfg cn clock ev p") (auto simp: Cons.IH split: prod.split)
qed simp

text \<open>
  Events that are not valid leave the storage, the scanners and Redis as they are, however many a
  worker takes.
\<close>

lemma processor_worker_invalid:
  assumes "\<And>ev. ev \<in> set es \<Longrightarrow> \<exists>e. validateEvent S ev (rp_store p) = Some e"
  shows "\<exists>p'. processor_worker S R lm cfg cn clock (map SeenEvent es) p = Returns p'
    \<and> rp_store p' = rp_store p \<and> rp_manager p' = rp_manager p \<and> rp_redis p' = rp_redis p"
  using assms
proof (induction es arbitrary: p)
  case (Cons ev es)
  then obtain e where "validateEvent S ev (rp_store p) = Some e" by auto
  from retry_events_invalid [OF this] obtain err p1 where p1:
    "processEventWithRetry S R lm cfg cn clock ev p = Returns (Some err, ev, p1)"
    "rp_store p1 = rp_store p" "rp_manager p1 = rp_manager p" "rp_redis p1 = rp_redis p"
    unfolding processEventWithRetry_def by blast
  have "\<exists>e. validateEvent S ev' (rp_store p1) = Some e" if "ev' \<in> set es" for ev'
    using Cons.prems that p1(2) by simp
  from Cons.IH [OF this] p1 show ?case by auto
qed simp

end
