(* ===== verification/Connections.thy ===== *)
theory Connections
  imports StorageManager
begin

text \<open>
  How the stores are opened and closed: the constructors, health checks and closing of
  \<open>internal/storage/database.go\<close> and \<open>redis.go\<close>, with the configuration of
  \<open>internal/storage/storage.go\<close>, and the accessors of its manager. GORM and the Redis client are
  parameters: what opening a connection string, migrating and pinging answer.
\<close>

section \<open>Configuration\<close>

record database_settings =
  dbs_Driver :: string
  dbs_Host :: string
  dbs_Port :: int
  dbs_Username :: string
  dbs_Password :: string
  dbs_Database :: string
  dbs_MaxOpenConns :: int
  dbs_MaxIdleConns :: int
  dbs_ConnMaxLifetime :: int

record redis_settings =
  rds_Addr :: string
  rds_Password :: string
  rds_DB :: int
  rds_PoolSize :: int
  rds_MinIdleConns :: int

record index_settings =
  ixs_Addresses :: "string list"
  ixs_Username :: string
  ixs_Password :: string
  ixs_IndexPrefix :: string

record cache_settings =
  ccs_Enabled :: bool
  ccs_DefaultTTL :: int
  ccs_BlockTTL :: int
  ccs_TransactionTTL :: int
  ccs_WatermarkTTL :: int
  ccs_MetadataTTL :: int

record storage_settings =
  sts_MasterDB :: "database_settings option"
  sts_SlaveDB :: "database_settings option"
  sts_Redis :: "redis_settings option"
  sts_Elasticsearch :: "index_settings option"
  sts_Cache :: "cache_settings option"

section \<open>The relational database\<close>

datatype dialector = MySQL string | Postgres string

datatype model_table = BlockTable | TransactionTable | LogTable | WatermarkTable | ReorgEventTable

text \<open>
  GORM over a handle \<open>'h\<close>: opening (without default transactions, with prepared statements), the
  underlying connection pool, its limits, migration, ping and close.
\<close>

record ('h, 'w) gorm_open =
  go_Open :: "dialector \<Rightarrow> bool \<Rightarrow> bool \<Rightarrow> 'w \<Rightarrow> (go_error + 'h) \<times> 'w"
  go_DB :: "'h \<Rightarrow> go_error option"
  go_SetPool :: "'h \<Rightarrow> int \<Rightarrow> int \<Rightarrow> int \<Rightarrow> 'w \<Rightarrow> 'w"
  go_AutoMigrate :: "'h \<Rightarrow> model_table list \<Rightarrow> 'w \<Rightarrow> go_error option \<times> 'w"
  go_Ping :: "'h \<Rightarrow> 'w \<Rightarrow> go_error option"
  go_Close :: "'h \<Rightarrow> 'w \<Rightarrow> go_error option \<times> 'w"

definition mysql_dsn :: "database_settings \<Rightarrow> string" where
  "mysql_dsn c = dbs_Username c @ '':'' @ dbs_Password c @ ''@tcp('' @ dbs_Host c @ '':'' @ fmt_int (dbs_Port c) @ '')/''
     @ dbs_Database c @ ''?charset=utf8mb4&parseTime=True&loc=Local''"

definition postgres_dsn :: "database_settings \<Rightarrow> string" where
  "postgres_dsn c = ''host='' @ dbs_Host c @ '' port='' @ fmt_int (dbs_Port c) @ '' user='' @ dbs_Username c
     @ '' password='' @ dbs_Password c @ '' dbname='' @ dbs_Database c @ '' sslmode=disable''"

definition db_dialector :: "database_settings \<Rightarrow> go_error + dialector" where
  "db_dialector c =
     (if dbs_Driver c = ''mysql'' then Inr (MySQL (mysql_dsn c))
      else if dbs_Driver c = ''postgres'' then Inr (Postgres (postgres_dsn c))
      else Inl (Msg (''unsupported database driver: '' @ dbs_Driver c)))"

definition autoMigrate :: "('h, 'w) gorm_open \<Rightarrow> 'h \<Rightarrow> 'w \<Rightarrow> go_error option \<times> 'w" where
  "autoMigrate G h = go_AutoMigrate G h [BlockTable, TransactionTable, LogTable, WatermarkTable, ReorgEventTable]"

definition NewDatabaseStorage ::
    "('h, 'w) gorm_open \<Rightarrow> database_settings option \<Rightarrow> 'w \<Rightarrow> (go_error + 'h) \<times> 'w" where
  "NewDatabaseStorage G config w =
     (case config of
        None \<Rightarrow> (Inl (Msg ''config cannot be nil''), w)
      | Some c \<Rightarrow>
     (case db_dialector c of
        Inl e \<Rightarrow> (Inl e, w)
      | Inr d \<Rightarrow>
     (case go_Open G d True True w of
        (Inl e, w1) \<Rightarrow> (Inl (Wrap ''failed to connect to database'' e), w1)
      | (Inr h, w1) \<Rightarrow>
     (case go_DB G h of
        Some e \<Rightarrow> (Inl (Wrap ''failed to get sql DB'' e), w1)
      | None \<Rightarrow>
          (let w2 = go_SetPool G h (dbs_MaxOpenConns c) (dbs_MaxIdleConns c) (dbs_ConnMaxLifetime c) w1 in
           case autoMigrate G h w2 of
             (Some e, w3) \<Rightarrow> (Inl (Wrap ''failed to auto migrate'' e), w3)
           | (None, w3) \<Rightarrow> (Inr h, w3))))))"

definition db_HealthCheck :: "('h, 'w) gorm_open \<Rightarrow> 'h \<Rightarrow> 'w \<Rightarrow> go_error option" where
  "db_HealthCheck G h w =
     (case go_DB G h of Some e \<Rightarrow> Some (Wrap ''failed to get sql DB'' e) | None \<Rightarrow> go_Ping G h w)"

definition db_Close :: "('h, 'w) gorm_open \<Rightarrow> 'h \<Rightarrow> 'w \<Rightarrow> go_error option \<times> 'w" where
  "db_Close G h w =
     (case go_DB G h of Some e \<Rightarrow> (Some (Wrap ''failed to get sql DB'' e), w) | None \<Rightarrow> go_Close G h w)"

section \<open>Redis\<close>

text \<open>The client is made from its options without connecting; the ping connects.\<close>

record 'w redis_open =
  ro_Ping :: "redis_settings \<Rightarrow> 'w \<Rightarrow> go_error option"
  ro_Close :: "redis_settings \<Rightarrow> 'w \<Rightarrow> go_error option \<times> 'w"

definition NewRedisStorage :: "'w redis_open \<Rightarrow> redis_settings option \<Rightarrow> 'w \<Rightarrow> go_error + redis_settings" where
  "NewRedisStorage R config w =
     (case config of
        None \<Rightarrow> Inl (Msg ''config cannot be nil'')
      | Some c \<Rightarrow>
          (case ro_Ping R c w of
             Some e \<Rightarrow> Inl (Wrap ''failed to connect to Redis'' e)
           | None \<Rightarrow> Inr c))"

definition redis_HealthCheck :: "'w redis_open \<Rightarrow> redis_settings \<Rightarrow> 'w \<Rightarrow> go_error option" where
  "redis_HealthCheck R c w = ro_Ping R c w"

definition redis_Close :: "'w redis_open \<Rightarrow> redis_settings \<Rightarrow> 'w \<Rightarrow> go_error option \<times> 'w" where
  "redis_Close R c w = ro_Close R c w"

section \<open>The manager's stores\<close>

definition GetMaster :: "('d, 'r, 'i) storage_manager \<Rightarrow> 'd storage" where
  "GetMaster m = sg_master m"

definition GetSlave :: "('d, 'r, 'i) storage_manager \<Rightarrow> 'd storage" where
  "GetSlave m = sg_slave m"

definition GetRedis :: "('d, 'r, 'i) storage_manager \<Rightarrow> 'r storage option" where
  "GetRedis m = sg_redis m"

definition GetElasticsearch :: "('d, 'r, 'i) storage_manager \<Rightarrow> 'i storage option" where
  "GetElasticsearch m = sg_elasticsearch m"

section \<open>Connection strings\<close>

text \<open>
  The settings go into the connection strings unquoted. In the one for PostgreSQL a space in the
  password starts the next setting: two different settings can give the same string, here one that
  makes part of the password a different database.
\<close>

theorem postgres_dsn_confuses:
  "postgres_dsn (c\<lparr>dbs_Password := p @ '' dbname='' @ d, dbs_Database := x\<rparr>)
    = postgres_dsn (c\<lparr>dbs_Password := p, dbs_Database := d @ '' dbname='' @ x\<rparr>)"
  by (simp add: postgres_dsn_def)

text \<open>A database is handed out only after its tables were migrated.\<close>

lemma NewDatabaseStorage_migrated:
  assumes "NewDatabaseStorage G config w = (Inr h, w')"
  shows "\<exists>c d w1 w2. config = Some c \<and> db_dialector c = Inr d \<and> go_Open G d True True w = (Inr h, w1)
    \<and> go_DB G h = None \<and> autoMigrate G h w2 = (None, w')"
  using assms by (auto simp: NewDatabaseStorage_def Let_def
      split: option.split_asm sum.split_asm prod.split_asm)

end
