(* ===== verification/Spec2Isabelle.thy ===== *)
theory Spec2Isabelle
  imports Prelude Util Sanitize Logger Locks Sharding Lifecycle RedisStore Database StateMachine StorageManager Metrics Consumer Detector Parsers Clients Webhook Wallet PluginManager Elasticsearch Queue Startup Api Pipeline ReorgLoops Connections
begin

text \<open>
  Verification library for the multi-chain scanner, the Go program whose entry is
  \<open>cmd/scanner/main.go\<close>. This theory imports all the others and describes the whole.

  The program. For every enabled chain of the configuration the program makes a client of the chain's
  nodes and a scanner. A scanner asks its client for the finalised height, cuts the range from its
  watermark up to there into tasks, hands them through a queue to its workers, which fetch the blocks,
  and moves the watermark when results come back. Around this core stand a detector and a processor of
  chain reorganisations, the stores (a relational database, Redis, Elasticsearch, and a manager over
  them), the message queue, the business consumer with its transaction state machine and webhook, the
  plugin registry with an adapter per kind of chain, and a wallet service behind HTTP handlers.

  How the code is rendered. A Go struct is a record, an enumeration a datatype, \<open>uint64\<close> is \<open>u64\<close>, so
  \<open>64 word\<close>, with its wrap-around, \<open>int\<close> is a HOL integer brought back to 64 bits by \<open>wrap_i64\<close> where the
  code can overflow, \<open>*big.Int\<close> is an optional integer, a map is a function to options, or an association
  list where the order of a loop over it matters. A method takes the state it works on and returns it
  updated. An error is a value of \<open>go_error\<close>: a result that may fail is a sum with the error on the left,
  a method that only returns an error gives an option. How a call ends is the type \<open>outcome\<close>: it returns,
  it waits for ever (for a mutex its own goroutine holds, for a wait group that never reaches zero), or
  it panics. A loop that need not end is a \<open>partial_function\<close> with the result \<open>None\<close> for never.
  Concurrency is a step relation or a list of events, in any order: \<open>lock_run\<close>, \<open>wm_run\<close>, \<open>scanner_run\<close>,
  \<open>pipe_run\<close>, \<open>monitor_run\<close>, \<open>deliver_all\<close>.

  Services and third-party packages are parameters: records of the operations the code calls, over a
  state the code does not see, together with a predicate for their documented behaviour, which every
  theorem that needs it names. Each has a concrete instance for which it is proved, so that the
  hypotheses can hold:
    \<^item> Redis as a lock server: \<open>redis_laws\<close> (\<open>mem_redis\<close>); as a cache: \<open>kv_laws\<close> (\<open>mem_kv\<close>);
    \<^item> GORM with its database: \<open>gorm_laws\<close> and \<open>gorm_frame\<close> (\<open>mem_gorm\<close>);
    \<^item> Elasticsearch: \<open>es_laws\<close>; Kafka's writer: \<open>kafka_laws\<close>; Prometheus: \<open>prom_laws\<close> (\<open>mem_prom\<close>);
    \<^item> \<open>hexutil\<close> of go-ethereum: \<open>hex_laws\<close>; viper: \<open>fields_by_name\<close>; Zap: \<open>zap_laws\<close>; a Solana node:
      \<open>serves_slots\<close>.

  The interfaces of the code that several components rely on are locales, whose lemmas are proved once
  and used through their interpretations:
    \<^item> \<open>scoped_lock\<close> (\<open>Locks\<close>): what a client of the distributed lock may expect; interpreted on the
      Redis lock as \<open>rlock\<close>;
    \<^item> \<open>status_store\<close> (\<open>Storage\<close>): the status of a transaction reads back as it was last set;
      interpreted on the Redis storage as \<open>redis_store\<close>. The relational storage does not keep it, which
      \<open>db_never_finalizes\<close> shows;
    \<^item> \<open>numbered_client\<close> (\<open>Detector\<close>): a client that answers for a block number with that block;
      interpreted on the client of the mock node as \<open>mock_numbered\<close>;
    \<^item> \<open>chain_parser\<close> (\<open>Parsers\<close>): the interface of the parsers; interpreted on the EVM, Solana and Tron
      parsers;
    \<^item> \<open>webhook_invariant\<close> (\<open>Webhook\<close>): an invariant every delivery of a webhook keeps; interpreted on the
      HTTP webhook and its counters as \<open>http_wh\<close>;
    \<^item> \<open>adapter_contract\<close> (\<open>Adapters\<close>): what an adapter promises of its answers; interpreted on the
      EVM, Tron and Solana adapters and on the sum of them in the plugin manager;
    \<^item> \<open>topic_codec\<close> (\<open>Queue\<close>): what is encoded for a topic decodes to itself; interpreted on the three
      topics.

  Theories and sources.

  Foundations. \<open>Prelude\<close> has the integers, errors, outcomes, ticker loops and the text of numbers;
  \<open>GoTypes\<close> is \<open>pkg/types/types.go\<close>; \<open>Util\<close> and \<open>Sanitize\<close> are \<open>pkg/util/util.go\<close> (conversions, chunks, byte
  and balance formats; the cleaning of UTF-8 strings); \<open>Logger\<close> is \<open>pkg/logger/logger.go\<close>; \<open>Metrics\<close> is
  \<open>pkg/metrics/metrics.go\<close>: each vector with its labels, each function that records, which of them
  return and which always panics; \<open>Configuration\<close> is \<open>pkg/config/config.go\<close>: the whole configuration, its
  defaults, loading and validation, and exactly what the validation accepts.

  Locks. \<open>Locks\<close> is \<open>pkg/lock/lock.go\<close>: the lock, its Lua scripts and its manager. In any run of any
  number of clients no two hold the same key; a client only releases its own lock; retrying returns.

  Scanning. \<open>Sharding\<close>, \<open>Watermarks\<close>, \<open>Workers\<close>, \<open>SchedReorg\<close>, \<open>Scanner\<close> and \<open>Lifecycle\<close> are the files
  \<open>sharding.go\<close>, \<open>watermark.go\<close>, \<open>worker.go\<close>, \<open>reorg_handler.go\<close>, \<open>chain_scanner.go\<close> and
  \<open>scheduler_manager.go\<close> of \<open>internal/scheduler\<close>. Shard ranges tile the interval (compared with the
  reference \<open>shard_cut\<close>); the heights of a watermark never go down and the boundary stays at its distance;
  a sequential scan asks for each block once and in order and returns; the tasks of one round tile the
  blocks between the watermark and the finality. \<open>Pipeline\<close> composes scheduler, workers, results,
  retries and reorg checks into one step relation: in every run all tasks and the watermark stay at or
  below the finality, and a block that the watermark has passed while no task holds it is never scanned
  again, which a concrete run shows to happen. \<open>Lifecycle\<close> shows that a started scanner never stops and
  that its reorg check never fires.

  Nodes and clients. \<open>Nodes\<close> is \<open>node_manager.go\<close> of \<open>internal/node\<close>: the choice by weight is exactly
  proportional; once a node has answered a health check, no call of the chain returns any more.
  \<open>Json\<close>, \<open>Http\<close> (\<open>http_client.go\<close>), \<open>EvmClient\<close> (\<open>evm_client.go\<close>), \<open>MockNode\<close> (\<open>mock_evm_server.go\<close>) and
  \<open>Clients\<close> (\<open>chain_factory.go\<close>) lead from the transport to the interface \<open>ChainClient\<close>: a block a node
  renders parses back, also end to end through the mock node over HTTP; blocks that do not parse are
  dropped by a scan that reports success. \<open>Parsers\<close> is \<open>internal/parser\<close>; its caching manager refines the
  dispatch without a cache.

  Stores. \<open>Storage\<close> and \<open>StorageManager\<close> are \<open>storage.go\<close>, \<open>RedisStore\<close> is \<open>redis.go\<close>, \<open>Database\<close> is
  \<open>database.go\<close>, \<open>Elasticsearch\<close>, with \<open>GoJson\<close> for what encoding and decoding do to a value, is
  \<open>elasticsearch.go\<close>, and \<open>Connections\<close> opens and closes the first two, all of \<open>internal/storage\<close>.
  The lemmas say what is read back after a write in each store, what deletions delete, and where a store
  does not keep what the interface suggests.

  Reorganisations. \<open>Detector\<close> and \<open>Processor\<close>, with the goroutines in \<open>ReorgLoops\<close>, are \<open>internal/reorg\<close>:
  the detector finds the last common block within its bound, but the event it makes has an empty
  range; the processor deletes the range of an event and sets the scanner back.
  \<open>BlockLoops\<close> and \<open>ConsumerReorg\<close> are \<open>internal/consumer/reorg_handler.go\<close>: what a handled event deletes
  and marks, and the one case in which handling does not return.

  Consumption. \<open>StateMachine\<close> is \<open>state_machine.go\<close> of \<open>internal/consumer\<close>: over Redis a status moves
  along the allowed transitions only. \<open>Consumer\<close> is \<open>consumer.go\<close> and \<open>idempotency.go\<close>: a processed
  transaction ends in a panic after its effects, a duplicate fails, a duplicate log is counted and sent
  again. \<open>Webhook\<close> is \<open>webhook.go\<close>: the statistics add up, retries are bounded, a full batch blocks.
  \<open>Queue\<close> is \<open>internal/queue\<close>: what is sent reaches the subscriber once and in order, over Kafka; nothing
  does over RocketMQ.

  Plugins and wallet. \<open>Adapters\<close>, \<open>EvmAdapter\<close>, \<open>OtherAdapters\<close> and \<open>PluginManager\<close> are \<open>internal/plugin\<close>;
  the registry refines two finite maps. \<open>Wallet\<close> is \<open>internal/wallet\<close>: balances, histories, and what a
  transfer reported as done has sent. \<open>Api\<close> is its HTTP surface: the decoding of the requests by
  \<open>encoding/json\<close>, the documents of the answers, the routes, and the two servers of the program; a
  transfer that a Go client renders is read as it was, one whose amount is a string is refused.

  The program. \<open>Startup\<close> is \<open>cmd/scanner/main.go\<close>: once it runs, exactly the enabled chains with a client
  have a running scanner, and it never shuts down in an orderly way.

  Bounds and fuel. Nothing runs on fuel that the code does not have. The search of the detector and the
  ancestor loop of the EVM client recurse on a natural number that is the bound the source itself gives
  (100 steps, the block number), so their definitions are total and their results are those of the code.
  \<open>fmt_nat\<close> and \<open>runes\<close> end because their argument gets shorter. Loops over \<open>uint64\<close> counters that wrap
  around (\<open>task_loop\<close>, \<open>seq_loop\<close>, \<open>block_loop\<close>, the loop of block numbers) are partial; that they return is
  proved, for ranges that end far enough below the largest \<open>uint64\<close>, the distance being the batch size.

  Not modelled. Listening for HTTP requests and waiting for signals (\<open>cmd/scanner/main.go\<close>,
  \<open>cmd/mock-node/main.go\<close>), and the redirection of paths that are not clean by \<open>http.ServeMux\<close>: input and
  output without state. The messages of the log at each place they are written, and the metrics outside
  the consumer: these calls give the right number of labels and change nothing the code reads. Floating
  point: rates and averages are parameters or quotients, and the two conversions of ether in
  \<open>pkg/util/util.go\<close>, which nothing calls, are left out. The global plugin registry, the accessors of the
  stub clients and the delegating methods of the advanced reorganisation handler only call the
  operations that are modelled. The structs of \<open>pkg/types/types.go\<close> that nothing uses. \<open>RawData\<close>, an untyped copy that no code reads.
\<close>

end
